(* ===== verification/Prelude.thy ===== *)
theory Prelude
  imports Main "HOL-Library.Sublist" "HOL-Library.List_Lexorder" "HOL-Library.Product_Lexorder"
begin

text \<open>
  What every component shares: Python text as a list of code points with the string methods
  the source calls (\<^verbatim>\<open>strip\<close>, \<^verbatim>\<open>lower\<close>, \<^verbatim>\<open>upper\<close>, \<^verbatim>\<open>in\<close>, slicing), database tables as
  lists of rows in insertion order with the queries the source makes, the interface of a
  table with a primary key (locale \<open>keyed_table\<close>), the interface of a machine whose every
  step keeps an invariant (locale \<open>invariant_machine\<close>), and the fact collections.
\<close>

named_theorems py_text \<open>facts about Python text\<close>
named_theorems row_laws \<open>facts about tables of rows\<close>

section \<open>Python text\<close>

text \<open>
  A Python string is a sequence of Unicode code points. \<open>asc\<close> turns an Isabelle literal
  into text; the Chinese words the source searches for are written as code points.
\<close>

type_synonym ustr = "int list"

definition asc :: "string \<Rightarrow> ustr" where
  "asc s = map of_char s"

lemma asc_eq_iff [simp, py_text]: "asc s = asc t \<longleftrightarrow> s = t"
proof -
  have "inj (of_char :: char \<Rightarrow> int)"
    by (rule injI) simp
  then show ?thesis
    by (simp add: asc_def inj_map_eq_map)
qed

lemma asc_Nil [simp]: "asc [] = []"
  by (simp add: asc_def)

lemma asc_eq_Nil [simp]: "asc s = [] \<longleftrightarrow> s = []" "[] = asc s \<longleftrightarrow> s = []"
  by (auto simp: asc_def)

lemma length_asc [simp]: "length (asc s) = length s"
  by (simp add: asc_def)

lemma asc_append: "asc (s @ t) = asc s @ asc t"
  by (simp add: asc_def)

text \<open>The characters \<^verbatim>\<open>str.isspace\<close> accepts, which \<^verbatim>\<open>str.strip()\<close> removes at both ends.\<close>

definition is_space :: "int \<Rightarrow> bool" where
  "is_space c \<longleftrightarrow>
     9 \<le> c \<and> c \<le> 13 \<or> 28 \<le> c \<and> c \<le> 32 \<or> c = 0x85 \<or> c = 0xA0 \<or> c = 0x1680 \<or>
     0x2000 \<le> c \<and> c \<le> 0x200A \<or> c = 0x2028 \<or> c = 0x2029 \<or> c = 0x202F \<or> c = 0x205F \<or> c = 0x3000"

definition strip :: "ustr \<Rightarrow> ustr" where
  "strip s = rev (dropWhile is_space (rev (dropWhile is_space s)))"

text \<open>
  Case mapping of one character. Every character whose lower or upper case holds an ASCII
  letter is listed (the long s, the dotted and dotless i, the Kelvin sign, the sharp s and the
  Latin ligatures); any other character outside ASCII is left as it is, which no comparison
  in the source can see, because all the words it compares with are ASCII or Chinese.
\<close>

definition lower_char :: "int \<Rightarrow> ustr" where
  "lower_char c =
     (if 65 \<le> c \<and> c \<le> 90 then [c + 32]
      else if c = 0x130 then [105, 0x307]
      else if c = 0x212A then [107]
      else [c])"

definition upper_char :: "int \<Rightarrow> ustr" where
  "upper_char c =
     (if 97 \<le> c \<and> c \<le> 122 then [c - 32]
      else if c = 0x131 then [73]
      else if c = 0x17F then [83]
      else if c = 0xDF then [83, 83]
      else if c = 0xFB00 then [70, 70]
      else if c = 0xFB01 then [70, 73]
      else if c = 0xFB02 then [70, 76]
      else if c = 0xFB03 then [70, 70, 73]
      else if c = 0xFB04 then [70, 70, 76]
      else if c = 0xFB05 \<or> c = 0xFB06 then [83, 84]
      else [c])"

definition lower :: "ustr \<Rightarrow> ustr" where
  "lower s = concat (map lower_char s)"

definition upper :: "ustr \<Rightarrow> ustr" where
  "upper s = concat (map upper_char s)"

text \<open>\<^verbatim>\<open>pat in text\<close>.\<close>

fun starts_with :: "ustr \<Rightarrow> ustr \<Rightarrow> bool" where
  "starts_with [] t = True"
| "starts_with (p # ps) [] = False"
| "starts_with (p # ps) (c # cs) = (p = c \<and> starts_with ps cs)"

fun occurs :: "ustr \<Rightarrow> ustr \<Rightarrow> bool" where
  "occurs p [] = (p = [])"
| "occurs p (c # cs) = (starts_with p (c # cs) \<or> occurs p cs)"

text \<open>\<^verbatim>\<open>any(word in text for word in words)\<close>.\<close>

definition occurs_any :: "ustr list \<Rightarrow> ustr \<Rightarrow> bool" where
  "occurs_any ws t = list_ex (\<lambda>w. occurs w t) ws"

lemma starts_with_prefix: "starts_with p t \<longleftrightarrow> prefix p t"
  by (induction p t rule: starts_with.induct) auto

lemma occurs_sublist: "occurs p t \<longleftrightarrow> sublist p t"
proof (induction t)
  case Nil
  then show ?case by simp
next
  case (Cons c cs)
  then show ?case
    by (auto simp: starts_with_prefix sublist_Cons_right)
qed

lemma occurs_any_iff: "occurs_any ws t \<longleftrightarrow> (\<exists>w \<in> set ws. sublist w t)"
  by (auto simp: occurs_any_def occurs_sublist list_ex_iff)

lemma occurs_any_mono: "occurs_any ws t \<Longrightarrow> sublist t u \<Longrightarrow> occurs_any ws u"
  by (auto simp: occurs_any_iff intro: sublist_order.order_trans)

lemma lower_append: "lower (s @ t) = lower s @ lower t"
  by (simp add: lower_def)

lemma sublist_lower: "sublist s t \<Longrightarrow> sublist (lower s) (lower t)"
  by (auto simp: sublist_def lower_append; blast)

text \<open>
  How \<^verbatim>\<open>re.IGNORECASE\<close> compares a character with a lower-case ASCII letter: the letter's upper
  case, and the long s, the dotted and dotless i and the Kelvin sign.
\<close>

definition re_fold :: "int \<Rightarrow> int" where
  "re_fold c =
     (if 65 \<le> c \<and> c \<le> 90 then c + 32
      else if c = 0x130 \<or> c = 0x131 then 105
      else if c = 0x17F then 115
      else if c = 0x212A then 107
      else c)"

subsection \<open>Facts about strip\<close>

lemma sublist_strip: "sublist (strip s) s"
proof -
  have "suffix (dropWhile is_space s) s"
    by (rule suffix_dropWhile)
  moreover have "prefix (strip s) (dropWhile is_space s)"
  proof -
    have "suffix (dropWhile is_space (rev (dropWhile is_space s))) (rev (dropWhile is_space s))"
      by (rule suffix_dropWhile)
    then show ?thesis
      by (simp add: strip_def suffix_to_prefix)
  qed
  ultimately show ?thesis
    by (meson prefix_imp_sublist sublist_order.order_trans suffix_imp_sublist)
qed

lemma dropWhile_same_hd: "xs \<noteq> [] \<Longrightarrow> \<not> P (hd xs) \<Longrightarrow> dropWhile P xs = xs"
  by (cases xs) auto

lemma strip_strip [simp, py_text]: "strip (strip s) = strip s"
proof (cases "strip s = []")
  case True
  then show ?thesis by (simp only: True) (simp add: strip_def)
next
  case False
  define a where "a = dropWhile is_space s"
  define b where "b = dropWhile is_space (rev a)"
  have sb: "strip s = rev b"
    by (simp add: strip_def a_def b_def)
  with False have nb: "b \<noteq> []" by simp
  then have hb: "\<not> is_space (hd b)"
    unfolding b_def by (simp add: hd_dropWhile)
  have na: "a \<noteq> []" using nb by (auto simp: b_def)
  then have ha: "\<not> is_space (hd a)"
    unfolding a_def by (simp add: hd_dropWhile)
  have "suffix b (rev a)" unfolding b_def by (rule suffix_dropWhile)
  then have "prefix (rev b) a" by (simp add: suffix_to_prefix)
  then obtain zs where "a = rev b @ zs" by (auto simp: prefix_def)
  with nb have "hd (rev b) = hd a" by (simp add: hd_append)
  with ha nb have "dropWhile is_space (rev b) = rev b"
    by (intro dropWhile_same_hd) auto
  with nb hb have "strip (rev b) = rev b"
    by (simp add: strip_def dropWhile_same_hd)
  with sb show ?thesis by simp
qed

lemma lower_char_nonempty: "lower_char c \<noteq> []"
  by (auto simp: lower_char_def)

section \<open>Decimal text of an integer\<close>

function nat_text :: "nat \<Rightarrow> ustr" where
  "nat_text n = (if n < 10 then [48 + int n] else nat_text (n div 10) @ [48 + int (n mod 10)])"
  by pat_completeness auto
termination
  by (relation "measure id") auto

declare nat_text.simps [simp del]

definition int_text :: "int \<Rightarrow> ustr" where
  "int_text i = (if i < 0 then 45 # nat_text (nat (- i)) else nat_text (nat i))"

text \<open>\<^verbatim>\<open>int(text)\<close>: an optional sign and decimal digits, single underscores between digits.\<close>

definition is_digit :: "int \<Rightarrow> bool" where
  "is_digit c \<longleftrightarrow> 48 \<le> c \<and> c \<le> 57"

fun digits_value :: "int \<Rightarrow> ustr \<Rightarrow> int option" where
  "digits_value acc [] = Some acc"
| "digits_value acc (c # cs) =
     (if is_digit c then digits_value (acc * 10 + (c - 48)) cs
      else if c = 95 then (case cs of d # ds \<Rightarrow> if is_digit d then digits_value (acc * 10 + (d - 48)) ds else None | [] \<Rightarrow> None)
      else None)"

definition unsigned_value :: "ustr \<Rightarrow> int option" where
  "unsigned_value s =
     (case s of [] \<Rightarrow> None | c # cs \<Rightarrow> if is_digit c then digits_value (c - 48) cs else None)"

definition py_int_of :: "ustr \<Rightarrow> int option" where
  "py_int_of s =
     (case strip s of
        [] \<Rightarrow> None
      | c # cs \<Rightarrow> if c = 45 then map_option uminus (unsigned_value cs)
                  else if c = 43 then unsigned_value cs else unsigned_value (c # cs))"

text \<open>A number printed in decimal is read back.\<close>

lemma digits_value_app:
  "list_all is_digit xs \<Longrightarrow> digits_value acc (xs @ ys) =
     digits_value (fold (\<lambda>c a. a * 10 + (c - 48)) xs acc) ys"
  by (induction xs arbitrary: acc) auto

lemma nat_text_digits: "list_all is_digit (nat_text n) \<and> nat_text n \<noteq> [] \<and>
    fold (\<lambda>c a. a * 10 + (c - 48)) (nat_text n) 0 = int n"
proof (induction n rule: nat_text.induct)
  case (1 n)
  show ?case
  proof (cases "n < 10")
    case True
    then show ?thesis by (subst (1 2 3) nat_text.simps) (simp add: is_digit_def)
  next
    case False
    with 1 have "list_all is_digit (nat_text (n div 10))" "fold (\<lambda>c a. a * 10 + (c - 48)) (nat_text (n div 10)) 0 = int (n div 10)"
      by blast+
    moreover have "int (n div 10) * 10 + int (n mod 10) = int n"
      by (metis mult.commute mult_div_mod_eq of_nat_add of_nat_mult of_nat_numeral)
    moreover have "is_digit (48 + int (n mod 10))" by (simp add: is_digit_def)
    ultimately show ?thesis
      using False by (subst (1 2 3) nat_text.simps) simp
  qed
qed

lemma parse_nat_text: "unsigned_value (nat_text n) = Some (int n)"
proof -
  from nat_text_digits [of n] obtain c cs where t: "nat_text n = c # cs" by (cases "nat_text n") auto
  with nat_text_digits [of n] have "is_digit c" "list_all is_digit cs"
    "fold (\<lambda>c a. a * 10 + (c - 48)) cs (c - 48) = int n" by auto
  with digits_value_app [of cs "c - 48" "[]"] t show ?thesis by (simp add: unsigned_value_def)
qed

lemma strip_no_space: "list_all (\<lambda>c. \<not> is_space c) s \<Longrightarrow> strip s = s"
proof -
  assume "list_all (\<lambda>c. \<not> is_space c) s"
  then have "dropWhile is_space t = t" if "set t \<subseteq> set s" for t
    using that by (cases t) (auto simp: list_all_iff)
  then show ?thesis by (simp add: strip_def)
qed

lemma digit_no_space: "is_digit c \<Longrightarrow> \<not> is_space c"
  by (auto simp: is_digit_def is_space_def)

lemma parse_int_text: "py_int_of (int_text i) = Some i"
proof (cases "i < 0")
  case True
  have "\<not> is_space 45" by (simp add: is_space_def)
  with nat_text_digits [of "nat (- i)"] have "strip (int_text i) = 45 # nat_text (nat (- i))"
    using True by (subst strip_no_space) (auto simp: int_text_def list_all_iff digit_no_space)
  with True show ?thesis by (simp add: py_int_of_def parse_nat_text)
next
  case False
  obtain c cs where t: "nat_text (nat i) = c # cs" and d: "is_digit c"
    using nat_text_digits [of "nat i"] by (cases "nat_text (nat i)") auto
  have "strip (int_text i) = nat_text (nat i)"
    using False nat_text_digits [of "nat i"]
    by (subst strip_no_space) (auto simp: int_text_def list_all_iff digit_no_space)
  with False t d parse_nat_text [of "nat i"] show ?thesis
    by (auto simp: py_int_of_def is_digit_def)
qed

lemma int_text_inj [simp]: "int_text a = int_text b \<longleftrightarrow> a = b"
  using parse_int_text by (metis option.inject)

section \<open>Tables of rows\<close>

text \<open>
  A table is the list of its rows in insertion order. \<open>row_get\<close> is \<^verbatim>\<open>db.get\<close> and
  \<^verbatim>\<open>filter(key == k).one_or_none()\<close> on a unique column; \<open>row_put\<close> writes back the row an
  operation has mutated; \<open>row_add\<close> is \<^verbatim>\<open>db.add\<close> of a new row.
\<close>

definition row_get :: "('r \<Rightarrow> 'k) \<Rightarrow> 'k \<Rightarrow> 'r list \<Rightarrow> 'r option" where
  "row_get key k t = find (\<lambda>r. key r = k) t"

definition row_put :: "('r \<Rightarrow> 'k) \<Rightarrow> 'r \<Rightarrow> 'r list \<Rightarrow> 'r list" where
  "row_put key r t = map (\<lambda>x. if key x = key r then r else x) t"

definition row_add :: "'r \<Rightarrow> 'r list \<Rightarrow> 'r list" where
  "row_add r t = t @ [r]"

text \<open>\<^verbatim>\<open>order_by(c.asc())\<close> and \<^verbatim>\<open>order_by(c.desc()).first()\<close> over the selected rows.\<close>

definition rows_by :: "('r \<Rightarrow> 'o::linorder) \<Rightarrow> ('r \<Rightarrow> bool) \<Rightarrow> 'r list \<Rightarrow> 'r list" where
  "rows_by ord p t = sort_key ord (filter p t)"

fun last_by :: "('r \<Rightarrow> 'o::linorder) \<Rightarrow> 'r list \<Rightarrow> 'r option" where
  "last_by ord [] = None"
| "last_by ord (r # rs) =
     (case last_by ord rs of
        None \<Rightarrow> Some r
      | Some m \<Rightarrow> (if ord m \<ge> ord r then Some m else Some r))"

lemma find_app: "find P (xs @ ys) = (case find P xs of None \<Rightarrow> find P ys | Some x \<Rightarrow> Some x)"
  by (induction xs) auto

lemma row_get_key [row_laws]: "row_get key k t = Some r \<Longrightarrow> key r = k"
  by (auto simp: row_get_def find_Some_iff)

lemma row_get_in [row_laws]: "row_get key k t = Some r \<Longrightarrow> r \<in> set t"
  by (auto simp: row_get_def find_Some_iff)

lemma row_get_None: "row_get key k t = None \<longleftrightarrow> (\<forall>r \<in> set t. key r \<noteq> k)"
  by (auto simp: row_get_def find_None_iff)

lemma row_get_put: "row_get key k (row_put key r t) =
    (if k = key r then (case row_get key k t of None \<Rightarrow> None | Some _ \<Rightarrow> Some r) else row_get key k t)"
  by (induction t) (auto simp: row_get_def row_put_def)

lemma row_get_put_same [simp]:
  "row_get key (key r) t = Some s \<Longrightarrow> row_get key (key r) (row_put key r t) = Some r"
  by (simp add: row_get_put)

lemma row_get_add: "row_get key k (row_add r t) =
    (case row_get key k t of None \<Rightarrow> (if key r = k then Some r else None) | Some x \<Rightarrow> Some x)"
  by (simp add: row_get_def row_add_def find_app split: option.splits)

lemma set_row_add [simp]: "set (row_add r t) = insert r (set t)"
  by (simp add: row_add_def)

lemma in_row_put: "x \<in> set (row_put key r t) \<Longrightarrow> x = r \<or> x \<in> set t \<and> key x \<noteq> key r"
  by (auto simp: row_put_def split: if_splits)

lemma keys_row_put [simp]: "map key (row_put key r t) = map key t"
  by (induction t) (auto simp: row_put_def)

lemma length_row_put [simp]: "length (row_put key r t) = length t"
  by (simp add: row_put_def)

lemma last_by_None [simp]: "last_by ord rs = None \<longleftrightarrow> rs = []"
  by (cases rs) (auto split: option.splits if_splits)

lemma last_by_in: "last_by ord rs = Some r \<Longrightarrow> r \<in> set rs"
  by (induction rs arbitrary: r) (auto split: option.splits if_splits)

lemma last_by_max: "last_by ord rs = Some r \<Longrightarrow> x \<in> set rs \<Longrightarrow> ord x \<le> ord r"
  by (induction rs arbitrary: r x) (fastforce split: option.splits if_splits)+

lemma last_by_snoc:
  "(\<And>x. x \<in> set rs \<Longrightarrow> ord x \<le> ord r) \<Longrightarrow> last_by ord (rs @ [r]) = Some r"
  by (induction rs) auto

lemma distinct_key: "distinct (map key t) \<Longrightarrow> x \<in> set t \<Longrightarrow> y \<in> set t \<Longrightarrow> key x = key y \<Longrightarrow> x = y"
  by (induction t) (auto simp: image_iff)

lemma row_get_unique: "distinct (map key t) \<Longrightarrow> row_get key k t = Some x \<Longrightarrow> y \<in> set t \<Longrightarrow> key y = k \<Longrightarrow> y = x"
  by (rule distinct_key [of key t]) (auto dest: row_get_in row_get_key)

lemma set_rows_by [simp]: "set (rows_by ord p t) = {r \<in> set t. p r}"
  by (auto simp: rows_by_def)

lemma sorted_rows_by: "sorted (map ord (rows_by ord p t))"
  by (simp add: rows_by_def)

subsection \<open>The interface of a table with a primary key\<close>

locale keyed_table =
  fixes key :: "'r \<Rightarrow> 'k"
    and get :: "'k \<Rightarrow> 't \<Rightarrow> 'r option"
    and put :: "'r \<Rightarrow> 't \<Rightarrow> 't"
    and add :: "'r \<Rightarrow> 't \<Rightarrow> 't"
  assumes get_key: "get k t = Some r \<Longrightarrow> key r = k"
    and get_put: "get k (put r t) =
          (if k = key r then (case get k t of None \<Rightarrow> None | Some _ \<Rightarrow> Some r) else get k t)"
    and get_add: "get k (add r t) =
          (case get k t of None \<Rightarrow> (if key r = k then Some r else None) | Some x \<Rightarrow> Some x)"
begin

lemma put_frame: "k \<noteq> key r \<Longrightarrow> get k (put r t) = get k t"
  by (simp add: get_put)

lemma put_hit: "get (key r) t = Some s \<Longrightarrow> get (key r) (put r t) = Some r"
  by (simp add: get_put)

lemma put_miss: "get k (put r t) = None \<longleftrightarrow> get k t = None"
  by (simp add: get_put split: option.splits)

lemma add_fresh: "get (key r) t = None \<Longrightarrow> get (key r) (add r t) = Some r"
  by (simp add: get_add)

lemma add_frame: "k \<noteq> key r \<Longrightarrow> get k (add r t) = get k t"
  by (simp add: get_add split: option.splits)

lemma add_keeps: "get k t = Some x \<Longrightarrow> get k (add r t) = Some x"
  by (simp add: get_add)

lemma update_row:
  assumes "get k t = Some r" and "key (f r) = key r"
  shows "get k (put (f r) t) = Some (f r)"
proof -
  from assms(1) have "key r = k" by (rule get_key)
  with assms show ?thesis by (simp add: get_put)
qed

end

lemma row_keyed_table: "keyed_table key (row_get key) (row_put key) row_add"
  by unfold_locales (auto simp: row_get_put row_get_add dest: row_get_key)

section \<open>Machines whose steps keep an invariant\<close>

text \<open>
  Several components are operations on one state, applied in any order. Each component gives
  its step function (an event is one call of an operation) and its invariant; the locale lifts
  the one-step proof to every sequence of calls.
\<close>

fun run_events :: "('s \<Rightarrow> 'e \<Rightarrow> 's) \<Rightarrow> 's \<Rightarrow> 'e list \<Rightarrow> 's" where
  "run_events step s [] = s"
| "run_events step s (e # es) = run_events step (step s e) es"

lemma run_events_append [simp]:
  "run_events step s (es @ fs) = run_events step (run_events step s es) fs"
  by (induction es arbitrary: s) auto

locale invariant_machine =
  fixes step :: "'s \<Rightarrow> 'e \<Rightarrow> 's"
    and inv :: "'s \<Rightarrow> bool"
  assumes step_inv: "inv s \<Longrightarrow> inv (step s e)"
begin

lemma run_inv: "inv s \<Longrightarrow> inv (run_events step s es)"
  by (induction es arbitrary: s) (auto intro: step_inv)

end

text \<open>A measure that no step lets decrease (a counter, a set of consumed tokens).\<close>

locale monotone_machine =
  fixes step :: "'s \<Rightarrow> 'e \<Rightarrow> 's"
    and rel :: "'s \<Rightarrow> 's \<Rightarrow> bool"
  assumes rel_refl: "rel s s"
    and rel_trans: "rel s t \<Longrightarrow> rel t u \<Longrightarrow> rel s u"
    and step_rel: "rel s (step s e)"
begin

lemma run_rel: "rel s (run_events step s es)"
proof (induction es arbitrary: s)
  case Nil
  show ?case by (simp add: rel_refl)
next
  case (Cons e es)
  have "rel (step s e) (run_events step (step s e) es)" by (rule Cons.IH)
  with step_rel show ?case by (auto intro: rel_trans)
qed

end

text \<open>
  A functional refinement: an abstraction function that every concrete step commutes with. An
  event of the concrete machine may stand for another event of the abstract one.
\<close>

locale step_refinement =
  fixes step :: "'s \<Rightarrow> 'e \<Rightarrow> 's"
    and spec :: "'a \<Rightarrow> 'e \<Rightarrow> 'a"
    and view :: "'s \<Rightarrow> 'a"
  assumes step_refines: "view (step s e) = spec (view s) e"
begin

lemma run_refines: "view (run_events step s es) = run_events spec (view s) es"
  by (induction es arbitrary: s) (auto simp: step_refines)

end

end
