(* ===== verification/Json.thy ===== *)
theory Json
  imports Prelude
begin

text \<open>
  JSON values as the source handles them (\<^verbatim>\<open>dict\<close>, \<^verbatim>\<open>list\<close>, \<^verbatim>\<open>str\<close>, numbers) and the text
  \<^verbatim>\<open>json.dumps(value, ensure_ascii=False)\<close> gives for them. A float is kept as its printed form.
\<close>

section \<open>Values\<close>

datatype json =
    JNull
  | JBool bool
  | JInt int
  | JFloat ustr
  | JStr ustr
  | JArr "json list"
  | JObj "(ustr \<times> json) list"

text \<open>\<^verbatim>\<open>bool(value)\<close>. A float is false when its printed form is that of a zero.\<close>

fun truthy :: "json \<Rightarrow> bool" where
  "truthy JNull = False"
| "truthy (JBool b) = b"
| "truthy (JInt i) = (i \<noteq> 0)"
| "truthy (JFloat r) = (r \<noteq> asc ''0.0'' \<and> r \<noteq> asc ''-0.0'')"
| "truthy (JStr s) = (s \<noteq> [])"
| "truthy (JArr xs) = (xs \<noteq> [])"
| "truthy (JObj kvs) = (kvs \<noteq> [])"

text \<open>\<^verbatim>\<open>value.get(key)\<close> of a dictionary, \<^verbatim>\<open>None\<close> when the key is missing.\<close>

fun jget :: "ustr \<Rightarrow> json \<Rightarrow> json" where
  "jget k (JObj kvs) = (case map_of kvs k of None \<Rightarrow> JNull | Some v \<Rightarrow> v)"
| "jget k _ = JNull"

fun jhas :: "ustr \<Rightarrow> json \<Rightarrow> bool" where
  "jhas k (JObj kvs) = (k \<in> set (map fst kvs))"
| "jhas k _ = False"

definition jopt :: "ustr option \<Rightarrow> json" where
  "jopt x = (case x of None \<Rightarrow> JNull | Some s \<Rightarrow> JStr s)"

section \<open>Printing\<close>

definition hex_digit :: "int \<Rightarrow> int" where
  "hex_digit d = (if d < 10 then 48 + d else 87 + d)"

definition escape_char :: "int \<Rightarrow> ustr" where
  "escape_char c =
     (if c = 34 then [92, 34]
      else if c = 92 then [92, 92]
      else if c = 10 then [92, 110]
      else if c = 13 then [92, 114]
      else if c = 9 then [92, 116]
      else if c = 12 then [92, 102]
      else if c = 8 then [92, 98]
      else if c < 32 then [92, 117, 48, 48, hex_digit (c div 16), hex_digit (c mod 16)]
      else [c])"

definition quoted :: "ustr \<Rightarrow> ustr" where
  "quoted s = 34 # concat (map escape_char s) @ [34]"

fun joined :: "ustr \<Rightarrow> ustr list \<Rightarrow> ustr" where
  "joined sep [] = []"
| "joined sep [x] = x"
| "joined sep (x # y # ys) = x @ sep @ joined sep (y # ys)"

fun dumps :: "json \<Rightarrow> ustr" where
  "dumps JNull = asc ''null''"
| "dumps (JBool b) = (if b then asc ''true'' else asc ''false'')"
| "dumps (JInt i) = int_text i"
| "dumps (JFloat r) = r"
| "dumps (JStr s) = quoted s"
| "dumps (JArr xs) = asc ''['' @ joined (asc '', '') (map dumps xs) @ asc '']''"
| "dumps (JObj kvs) =
     asc ''{'' @ joined (asc '', '') (map (\<lambda>kv. quoted (fst kv) @ asc '': '' @ dumps (snd kv)) kvs) @ asc ''}''"

text \<open>\<^verbatim>\<open>sort_keys=True\<close>: every object with its keys in code point order.\<close>

fun sort_keys :: "json \<Rightarrow> json" where
  "sort_keys (JArr xs) = JArr (map sort_keys xs)"
| "sort_keys (JObj kvs) = JObj (sort_key fst (map (\<lambda>kv. (fst kv, sort_keys (snd kv))) kvs))"
| "sort_keys j = j"

text \<open>Assigning a key of a Python dictionary: the first position of the key stays.\<close>

fun dict_set :: "ustr \<Rightarrow> json \<Rightarrow> (ustr \<times> json) list \<Rightarrow> (ustr \<times> json) list" where
  "dict_set k v [] = [(k, v)]"
| "dict_set k v (e # es) = (if fst e = k then (k, v) # es else e # dict_set k v es)"

definition dict_of :: "(ustr \<times> json) list \<Rightarrow> (ustr \<times> json) list" where
  "dict_of kvs = fold (\<lambda>kv d. dict_set (fst kv) (snd kv) d) kvs []"

text \<open>
  \<^verbatim>\<open>str(value)\<close>. A list or a dictionary prints in Python's own notation; its JSON text stands for
  it here.
\<close>

fun scalar_text :: "json \<Rightarrow> ustr" where
  "scalar_text (JStr s) = s"
| "scalar_text (JBool b) = (if b then (asc ''True'') else (asc ''False''))"
| "scalar_text (JInt i) = int_text i"
| "scalar_text (JFloat r) = r"
| "scalar_text JNull = (asc ''None'')"
| "scalar_text j = dumps j"

section \<open>Facts\<close>

lemma sublist_joined: "x \<in> set xs \<Longrightarrow> sublist x (joined sep xs)"
proof (induction sep xs rule: joined.induct)
  case (3 sep a b ys)
  show ?case
  proof (cases "x = a")
    case True
    then show ?thesis by (simp add: sublist_def) (metis append_Nil append.assoc)
  next
    case False
    with 3 have "sublist x (joined sep (b # ys))" by simp
    moreover have "sublist (joined sep (b # ys)) (joined sep (a # b # ys))"
      by (simp add: sublist_def) (metis append.right_neutral append.assoc)
    ultimately show ?thesis by (rule sublist_order.order_trans)
  qed
qed auto

text \<open>The printed form of a member of a value is a part of the printed form of the value.\<close>

lemma sublist_dumps_arr: "x \<in> set xs \<Longrightarrow> sublist (dumps x) (dumps (JArr xs))"
proof -
  assume "x \<in> set xs"
  then have "sublist (dumps x) (joined (asc '', '') (map dumps xs))"
    by (intro sublist_joined) auto
  then show ?thesis
    by (auto intro: sublist_order.order_trans simp: sublist_appendI)
qed

lemma sublist_dumps_obj:
  assumes "(k, v) \<in> set kvs"
  shows "sublist (dumps v) (dumps (JObj kvs))" and "sublist (quoted k) (dumps (JObj kvs))"
proof -
  define p where "p = (\<lambda>kv. quoted (fst kv) @ asc '': '' @ dumps (snd kv))"
  from assms have "p (k, v) \<in> set (map p kvs)" by force
  then have "sublist (p (k, v)) (joined (asc '', '') (map p kvs))"
    by (rule sublist_joined)
  then have whole: "sublist (p (k, v)) (dumps (JObj kvs))"
    unfolding p_def by (auto intro: sublist_order.order_trans simp: sublist_appendI)
  have "sublist (dumps v) (p (k, v))"
    by (simp add: p_def) (metis append_assoc append_Nil2 sublist_appendI)
  then show "sublist (dumps v) (dumps (JObj kvs))"
    using whole by (rule sublist_order.order_trans)
  have "sublist (quoted k) (p (k, v))"
    by (simp add: p_def)
  then show "sublist (quoted k) (dumps (JObj kvs))"
    using whole by (rule sublist_order.order_trans)
qed

lemma dict_set_keys: "fst ` set (dict_set k v es) = insert k (fst ` set es)"
  by (induction es) auto

lemma dict_set_values: "snd ` set (dict_set k v es) \<subseteq> insert v (snd ` set es)"
  by (induction es) auto

lemma dict_of_fold:
  "fst ` set (fold (\<lambda>kv d. dict_set (fst kv) (snd kv) d) kvs d) = fst ` set kvs \<union> fst ` set d"
  "snd ` set (fold (\<lambda>kv d. dict_set (fst kv) (snd kv) d) kvs d) \<subseteq> snd ` set kvs \<union> snd ` set d"
proof (induction kvs arbitrary: d)
  case (Cons kv kvs)
  { case 1 from Cons.IH(1) show ?case by (auto simp: dict_set_keys) }
  { case 2 from Cons.IH(2) [of "dict_set (fst kv) (snd kv) d"] dict_set_values [of "fst kv" "snd kv" d]
    show ?case by auto }
qed auto

lemma dict_of_keys: "fst ` set (dict_of kvs) = fst ` set kvs"
  by (simp add: dict_of_def dict_of_fold(1))

lemma dict_of_values: "snd ` set (dict_of kvs) \<subseteq> snd ` set kvs"
  using dict_of_fold(2) [of kvs "[]"] by (simp add: dict_of_def)

lemma distinct_dict_set: "distinct (map fst es) \<Longrightarrow> distinct (map fst (dict_set k v es))"
  by (induction es) (auto simp: dict_set_keys [simplified] image_iff)

end
