(* ===== verification/Tool_Gateway.thy ===== *)
theory Tool_Gateway
  imports Json
begin

text \<open>
  The tool gateway of \<^verbatim>\<open>backend/tool_center/gateway.py\<close> with the built-in tools and bindings of
  \<^verbatim>\<open>tool_center/defaults.py\<close>, and the tool router of \<^verbatim>\<open>backend/tool_router/router_engine.py\<close>
  with its routes and keywords. The database is a record of four tables; each request returns
  its answer and the tables it leaves. The display columns \<^verbatim>\<open>description\<close> and \<^verbatim>\<open>created_at\<close>
  are left out of the rows, and the Chinese explanations are the constructors of
  \<open>access_reason\<close>.
\<close>

section \<open>Cleaning text\<close>

definition HIGH_RISK_LEVELS :: "ustr list" where
  "HIGH_RISK_LEVELS = [asc ''high'', asc ''critical'']"

definition FORBIDDEN_TOOLS :: "ustr list" where
  "FORBIDDEN_TOOLS =
     [asc ''delete_data'', asc ''payment_execute'', asc ''auto_login'', asc ''submit_order'', asc ''shell_execute'',
      asc ''docker_control'', asc ''systemctl_control'', asc ''git_push'', asc ''deploy_execute'',
      asc ''permission_modify'', asc ''unknown_code_execute'', asc ''external_api_write'']"

definition SENSITIVE_WORDS :: "ustr list" where
  "SENSITIVE_WORDS =
     [asc ''password'', asc ''password_hash'', asc ''secret'', asc ''token'', asc ''api key'', asc ''apikey'',
      asc ''authorization'', asc ''bearer'', asc ''private_key'', asc ''cookie'']"

definition clean_text :: "ustr \<Rightarrow> ustr" where
  "clean_text value =
     (let text = strip value; lowered = lower text
      in if occurs_any SENSITIVE_WORDS lowered then asc ''[REDACTED]'' else text)"

text \<open>\<^verbatim>\<open>clean_text(None)\<close> is the empty text.\<close>

definition clean_opt :: "ustr option \<Rightarrow> ustr" where
  "clean_opt value = (case value of None \<Rightarrow> [] | Some s \<Rightarrow> clean_text s)"

definition to_summary :: "json \<Rightarrow> ustr" where
  "to_summary value = (if value = JNull then asc ''{}'' else take 1000 (clean_text (dumps value)))"

section \<open>Tools and bindings\<close>

record tool =
  t_id :: int
  t_name :: ustr
  t_type :: ustr
  t_provider :: ustr
  t_version :: ustr
  t_enabled :: bool
  t_risk :: ustr

record binding =
  b_id :: "int option"
  b_employee :: ustr
  b_tool_id :: int
  b_level :: ustr
  b_allowed :: bool
  b_approval :: bool

definition default_binding :: "ustr \<Rightarrow> int \<Rightarrow> ustr \<Rightarrow> bool \<Rightarrow> bool \<Rightarrow> binding" where
  "default_binding e t l a r =
     \<lparr>b_id = None, b_employee = e, b_tool_id = t, b_level = l, b_allowed = a, b_approval = r\<rparr>"

definition default_tool :: "int \<Rightarrow> ustr \<Rightarrow> ustr \<Rightarrow> bool \<Rightarrow> ustr \<Rightarrow> tool" where
  "default_tool i n ty e r =
     \<lparr>t_id = i, t_name = n, t_type = ty, t_provider = asc ''internal'', t_version = asc ''v1'',
      t_enabled = e, t_risk = r\<rparr>"

definition DEFAULT_TOOLS :: "tool list" where
  "DEFAULT_TOOLS =
    [default_tool 1001 (asc ''browser_search'') (asc ''web_search'') True (asc ''high''),
     default_tool 1002 (asc ''web_reader'') (asc ''web_reader'') True (asc ''medium''),
     default_tool 1003 (asc ''file_reader'') (asc ''file'') True (asc ''medium''),
     default_tool 1004 (asc ''excel_analyzer'') (asc ''file'') True (asc ''low''),
     default_tool 1005 (asc ''image_reader'') (asc ''vision'') True (asc ''medium''),
     default_tool 1006 (asc ''api_connector'') (asc ''api'') True (asc ''high''),
     default_tool 1007 (asc ''seo_analyzer'') (asc ''analysis'') True (asc ''low''),
     default_tool 1008 (asc ''financial_reader'') (asc ''finance'') True (asc ''high''),
     default_tool 1009 (asc ''delete_data'') (asc ''dangerous'') False (asc ''critical''),
     default_tool 1010 (asc ''payment_execute'') (asc ''finance'') False (asc ''critical''),
     default_tool 1011 (asc ''database_read'') (asc ''database'') True (asc ''low''),
     default_tool 1012 (asc ''api_read'') (asc ''api'') True (asc ''medium'')]"

definition DEFAULT_BINDINGS :: "binding list" where
  "DEFAULT_BINDINGS =
    [default_binding (asc ''tiancai'') 1001 (asc ''web_read'') True True,
     default_binding (asc ''tiancai'') 1004 (asc ''file_read'') True False,
     default_binding (asc ''tiancai'') 1011 (asc ''read_only'') True False,
     default_binding (asc ''tiancai'') 1012 (asc ''read_only'') True True,
     default_binding (asc ''tiancai'') 1009 (asc ''forbidden'') False True,
     default_binding (asc ''tiancai_data'') 1001 (asc ''web_read'') True True,
     default_binding (asc ''tiancai_data'') 1004 (asc ''file_read'') True False,
     default_binding (asc ''tiancai_data'') 1011 (asc ''read_only'') True False,
     default_binding (asc ''tiancai_data'') 1012 (asc ''read_only'') True True,
     default_binding (asc ''tiancai_data'') 1009 (asc ''forbidden'') False True,
     default_binding (asc ''tianchuang'') 1005 (asc ''vision_read'') True False,
     default_binding (asc ''tianyu'') 1007 (asc ''analysis'') True False,
     default_binding (asc ''tiancai_finance'') 1008 (asc ''finance_read'') True True,
     default_binding (asc ''tiancai_finance'') 1010 (asc ''forbidden'') False True]"

record route =
  rt_id :: "int option"
  rt_employee :: ustr
  rt_tool :: ustr
  rt_priority :: int
  rt_risk :: ustr
  rt_enabled :: bool

definition default_route :: "ustr \<Rightarrow> ustr \<Rightarrow> int \<Rightarrow> ustr \<Rightarrow> route" where
  "default_route e t p r =
     \<lparr>rt_id = None, rt_employee = e, rt_tool = t, rt_priority = p, rt_risk = r, rt_enabled = True\<rparr>"

definition DEFAULT_TOOL_ROUTES :: "route list" where
  "DEFAULT_TOOL_ROUTES =
    [default_route (asc ''tiancai'') (asc ''browser_search'') 20 (asc ''high''),
     default_route (asc ''tiancai'') (asc ''excel_analyzer'') 10 (asc ''low''),
     default_route (asc ''tiancai'') (asc ''database_read'') 30 (asc ''low''),
     default_route (asc ''tiancai_data'') (asc ''browser_search'') 20 (asc ''high''),
     default_route (asc ''tiancai_data'') (asc ''excel_analyzer'') 10 (asc ''low''),
     default_route (asc ''tiancai_data'') (asc ''database_read'') 30 (asc ''low''),
     default_route (asc ''tianchuang'') (asc ''image_reader'') 10 (asc ''medium''),
     default_route (asc ''tianyu'') (asc ''seo_analyzer'') 10 (asc ''low''),
     default_route (asc ''tiancai_finance'') (asc ''financial_reader'') 10 (asc ''high'')]"

text \<open>\<^verbatim>\<open>tool_to_dict\<close>: the database row and the built-in dictionary differ in the default risk.\<close>

definition tool_to_dict :: "tool \<Rightarrow> tool" where
  "tool_to_dict row =
     \<lparr>t_id = t_id row, t_name = clean_text (t_name row), t_type = clean_text (t_type row),
      t_provider = clean_text (t_provider row), t_version = clean_text (t_version row),
      t_enabled = t_enabled row, t_risk = clean_text (t_risk row)\<rparr>"

definition tool_default_to_dict :: "tool \<Rightarrow> tool" where
  "tool_default_to_dict row =
     (tool_to_dict row)\<lparr>t_risk := clean_text (if t_risk row = [] then asc ''low'' else t_risk row)\<rparr>"

record binding_view =
  v_id :: "int option"
  v_employee :: ustr
  v_tool_id :: int
  v_tool_name :: ustr
  v_tool_type :: ustr
  v_level :: ustr
  v_allowed :: bool
  v_approval :: bool
  v_risk :: ustr

definition binding_to_dict :: "binding \<Rightarrow> (int \<times> tool) list \<Rightarrow> binding_view" where
  "binding_to_dict row tools_by_id =
     (let tool = map_of tools_by_id (b_tool_id row)
      in \<lparr>v_id = b_id row, v_employee = clean_text (b_employee row), v_tool_id = b_tool_id row,
          v_tool_name = (case tool of None \<Rightarrow> [] | Some t \<Rightarrow> clean_text (t_name t)),
          v_tool_type = (case tool of None \<Rightarrow> [] | Some t \<Rightarrow> clean_text (t_type t)),
          v_level = clean_text (b_level row), v_allowed = b_allowed row, v_approval = b_approval row,
          v_risk = clean_text (case tool of None \<Rightarrow> asc ''unknown''
                     | Some t \<Rightarrow> (if t_risk t = [] then asc ''unknown'' else t_risk t))\<rparr>)"

record tool_db =
  d_tools :: "tool list"
  d_bindings :: "binding list"
  d_routes :: "route list"

definition list_tools :: "tool_db \<Rightarrow> tool list" where
  "list_tools db =
     (let persisted = map tool_to_dict (rows_by t_name (\<lambda>_. True) (d_tools db));
          persisted_names = map t_name persisted;
          defaults = map tool_default_to_dict
            (filter (\<lambda>r. t_name r \<notin> set persisted_names) DEFAULT_TOOLS)
      in sort_key t_name (defaults @ persisted))"

definition get_tool :: "tool_db \<Rightarrow> ustr \<Rightarrow> tool option" where
  "get_tool db tool_name =
     (case find (\<lambda>r. t_name r = tool_name) (d_tools db) of
        Some row \<Rightarrow> Some (tool_to_dict row)
      | None \<Rightarrow> map_option tool_default_to_dict (find (\<lambda>t. t_name t = tool_name) DEFAULT_TOOLS))"

definition list_employee_bindings :: "tool_db \<Rightarrow> ustr \<Rightarrow> binding_view list" where
  "list_employee_bindings db employee =
     (let tools_by_id = rev (map (\<lambda>t. (t_id t, t)) (list_tools db));
          rows = map (\<lambda>b. binding_to_dict b tools_by_id)
            (filter (\<lambda>b. b_employee b = employee) (d_bindings db));
          persisted = map v_tool_id rows;
          defaults = map (\<lambda>b. binding_to_dict b tools_by_id)
            (filter (\<lambda>b. b_employee b = employee \<and> b_tool_id b \<notin> set persisted) DEFAULT_BINDINGS)
      in sort_key v_tool_name (defaults @ rows))"

definition find_binding :: "tool_db \<Rightarrow> ustr \<Rightarrow> ustr \<Rightarrow> binding_view option" where
  "find_binding db employee tool_name =
     (case get_tool db tool_name of
        None \<Rightarrow> None
      | Some tool \<Rightarrow>
          let chosen = (\<lambda>b. b_employee b = employee \<and> b_tool_id b = t_id tool) in
          (case last_by (\<lambda>b. (case b_id b of None \<Rightarrow> 0 | Some i \<Rightarrow> i)) (filter chosen (d_bindings db)) of
             Some row \<Rightarrow> Some (binding_to_dict row [(t_id tool, tool)])
           | None \<Rightarrow> map_option (\<lambda>b. binding_to_dict b [(t_id tool, tool)])
                       (find chosen DEFAULT_BINDINGS)))"

definition is_high_risk :: "tool \<Rightarrow> bool" where
  "is_high_risk tool \<longleftrightarrow> lower (clean_text (t_risk tool)) \<in> set HIGH_RISK_LEVELS"

section \<open>The access check\<close>

datatype access_reason =
  ToolUnknown | ToolForbidden | NotBound | BindingDenied | ApprovalMissing | AccessPassed | NoRoute

record access =
  allowed :: bool
  require_approval :: bool
  reason :: access_reason
  a_employee :: ustr
  a_tool :: ustr
  a_level :: ustr
  a_risk :: ustr

definition check_tool_access :: "tool_db \<Rightarrow> ustr \<Rightarrow> ustr \<Rightarrow> bool \<Rightarrow> bool \<Rightarrow> access" where
  "check_tool_access db employee_code tool_name boss_confirmed security_audited =
     (let employee = clean_text employee_code; name = clean_text tool_name in
      case get_tool db name of
        None \<Rightarrow>
          \<lparr>allowed = False, require_approval = True, reason = ToolUnknown, a_employee = employee,
           a_tool = name, a_level = asc ''not_configured'', a_risk = asc ''unknown''\<rparr>
      | Some tool \<Rightarrow>
          let bound = find_binding db employee name;
              approval = ((case bound of None \<Rightarrow> False | Some b \<Rightarrow> v_approval b) \<or> is_high_risk tool);
              level = (case bound of None \<Rightarrow> asc ''forbidden''
                         | Some b \<Rightarrow> (if v_level b = [] then asc ''forbidden'' else v_level b))
          in if name \<in> set FORBIDDEN_TOOLS \<or> \<not> t_enabled tool then
               \<lparr>allowed = False, require_approval = True, reason = ToolForbidden, a_employee = employee,
                a_tool = name, a_level = clean_text level, a_risk = t_risk tool\<rparr>
             else case bound of
               None \<Rightarrow>
                 \<lparr>allowed = False, require_approval = True, reason = NotBound, a_employee = employee,
                  a_tool = name, a_level = asc ''not_configured'', a_risk = t_risk tool\<rparr>
             | Some b \<Rightarrow>
                 if \<not> v_allowed b then
                   \<lparr>allowed = False, require_approval = approval, reason = BindingDenied,
                    a_employee = employee, a_tool = name, a_level = v_level b, a_risk = t_risk tool\<rparr>
                 else if approval \<and> \<not> (boss_confirmed \<and> security_audited) then
                   \<lparr>allowed = False, require_approval = True, reason = ApprovalMissing,
                    a_employee = employee, a_tool = name, a_level = v_level b, a_risk = t_risk tool\<rparr>
                 else
                   \<lparr>allowed = True, require_approval = approval, reason = AccessPassed,
                    a_employee = employee, a_tool = name, a_level = v_level b, a_risk = t_risk tool\<rparr>)"

section \<open>The tool router\<close>

definition TASK_TOOL_KEYWORDS :: "(ustr list \<times> ustr) list" where
  "TASK_TOOL_KEYWORDS =
    [([asc ''excel'', [0x8868, 0x683C], [0x62A5, 0x8868], asc ''xlsx'', asc ''csv''], asc ''excel_analyzer''),
     ([[0x7F51, 0x9875], [0x641C, 0x7D22], [0x8054, 0x7F51], [0x5E02, 0x573A], [0x8D8B, 0x52BF], [0x7ADE, 0x54C1], [0x65B0, 0x95FB]], asc ''browser_search''),
     ([[0x6570, 0x636E, 0x5E93], [0x67E5, 0x8BE2], [0x6570, 0x636E, 0x8BFB, 0x53D6], [0x6307, 0x6807]], asc ''database_read''),
     ([[0x56FE, 0x7247], [0x89C6, 0x89C9], [0x7D20, 0x6750], [0x8BBE, 0x8BA1]], asc ''image_reader''),
     ([asc ''seo'', asc ''geo'', [0x641C, 0x7D22, 0x6392, 0x540D], [0x54C1, 0x724C, 0x66DD, 0x5149]], asc ''seo_analyzer''),
     ([[0x8D22, 0x52A1], [0x6210, 0x672C], [0x5229, 0x6DA6], [0x6536, 0x5165], [0x8D39, 0x7528]], asc ''financial_reader''),
     ([asc ''api'', [0x63A5, 0x53E3]], asc ''api_read'')]"

definition match_tool_by_text :: "ustr \<Rightarrow> ustr \<Rightarrow> ustr option" where
  "match_tool_by_text task requirement =
     (let text = lower (task @ asc '' '' @ requirement)
      in map_option snd (find (\<lambda>row. occurs_any (map lower (fst row)) text) TASK_TOOL_KEYWORDS))"

definition route_to_dict :: "route \<Rightarrow> route" where
  "route_to_dict row =
     \<lparr>rt_id = rt_id row, rt_employee = clean_text (rt_employee row), rt_tool = clean_text (rt_tool row),
      rt_priority = rt_priority row, rt_risk = clean_text (rt_risk row), rt_enabled = rt_enabled row\<rparr>"

definition route_order :: "route \<Rightarrow> int \<times> int" where
  "route_order r = (rt_priority r, (case rt_id r of None \<Rightarrow> 0 | Some i \<Rightarrow> i))"

definition find_enabled_route :: "tool_db \<Rightarrow> ustr \<Rightarrow> ustr \<Rightarrow> route option" where
  "find_enabled_route db employee tool_name =
     (let chosen = (\<lambda>r. rt_employee r = employee \<and> rt_tool r = tool_name \<and> rt_enabled r)
      in case rows_by route_order chosen (d_routes db) of
           row # _ \<Rightarrow> Some (route_to_dict row)
         | [] \<Rightarrow> map_option route_to_dict (find chosen DEFAULT_TOOL_ROUTES))"

definition list_routes :: "tool_db \<Rightarrow> ustr option \<Rightarrow> route list" where
  "list_routes db employee =
     (let wanted = (\<lambda>e. case employee of None \<Rightarrow> True | Some x \<Rightarrow> x = [] \<or> e = x);
          persisted = map route_to_dict
            (rows_by (\<lambda>r. (rt_employee r, route_order r)) (\<lambda>r. wanted (rt_employee r)) (d_routes db));
          keys = map (\<lambda>r. (rt_employee r, rt_tool r)) persisted;
          defaults = map route_to_dict
            (filter (\<lambda>r. wanted (rt_employee r) \<and> (rt_employee r, rt_tool r) \<notin> set keys) DEFAULT_TOOL_ROUTES)
      in sort_key (\<lambda>r. (rt_employee r, rt_priority r, rt_tool r)) (defaults @ persisted))"

record route_check =
  rc_access :: access
  rc_priority :: "int option"

text \<open>
  \<^verbatim>\<open>check_route_permission\<close>. \<open>rc_priority\<close> is \<^verbatim>\<open>None\<close> exactly where the answer carries no
  \<^verbatim>\<open>route_enabled\<close> entry; the permission level of that answer is absent and written empty.
\<close>

definition check_route_permission :: "tool_db \<Rightarrow> ustr \<Rightarrow> ustr \<Rightarrow> bool \<Rightarrow> bool \<Rightarrow> route_check" where
  "check_route_permission db employee_code tool_name boss_confirmed security_audited =
     (case find_enabled_route db employee_code tool_name of
        None \<Rightarrow>
          \<lparr>rc_access = \<lparr>allowed = False, require_approval = True, reason = NoRoute,
             a_employee = clean_text employee_code, a_tool = clean_text tool_name,
             a_level = [], a_risk = asc ''unknown''\<rparr>, rc_priority = None\<rparr>
      | Some route \<Rightarrow>
          \<lparr>rc_access = check_tool_access db employee_code tool_name boss_confirmed security_audited,
           rc_priority = Some (rt_priority route)\<rparr>)"

text \<open>
  \<^verbatim>\<open>route_tool\<close>: the enabled routes of the employee, the keyword's tool first and the first route
  otherwise. The answer is the chosen tool, whether the keyword chose it, and the check; the
  route log it also writes is display only.
\<close>

record routed =
  recommended :: "ustr option"
  by_keyword :: bool
  routed_check :: "route_check option"

definition route_tool :: "tool_db \<Rightarrow> ustr \<Rightarrow> ustr \<Rightarrow> ustr \<Rightarrow> bool \<Rightarrow> bool \<Rightarrow> routed" where
  "route_tool db employee task requirement boss_confirmed security_audited =
     (let routes = filter rt_enabled (list_routes db (Some employee));
          preferred = match_tool_by_text task requirement;
          hit = find (\<lambda>r. Some (rt_tool r) = preferred) routes;
          selected = (case hit of Some r \<Rightarrow> Some r
                        | None \<Rightarrow> (case routes of [] \<Rightarrow> None | r # _ \<Rightarrow> Some r))
      in case selected of
           None \<Rightarrow> \<lparr>recommended = None, by_keyword = False, routed_check = None\<rparr>
         | Some r \<Rightarrow>
             \<lparr>recommended = Some (rt_tool r), by_keyword = (preferred = Some (rt_tool r)),
              routed_check = Some (check_route_permission db employee (rt_tool r)
                                     boss_confirmed security_audited)\<rparr>)"


section \<open>What the gateway guarantees\<close>

lemma redacted_is_clean: "\<not> occurs_any SENSITIVE_WORDS (lower (asc ''[REDACTED]''))"
  by code_simp

lemma strip_redacted: "strip (asc ''[REDACTED]'') = asc ''[REDACTED]''"
  by code_simp

lemma redacted_text: "clean_text (asc ''[REDACTED]'') = asc ''[REDACTED]''"
  by (simp add: clean_text_def strip_redacted Let_def)

text \<open>No text that leaves \<^verbatim>\<open>clean_text\<close> holds a sensitive word in any capitalisation.\<close>

theorem clean_text_never_leaks: "\<not> occurs_any SENSITIVE_WORDS (lower (clean_text s))"
  by (simp add: clean_text_def Let_def redacted_is_clean)

lemma clean_text_idem [simp, py_text]: "clean_text (clean_text s) = clean_text s"
proof (cases "occurs_any SENSITIVE_WORDS (lower (strip s))")
  case True
  then show ?thesis by (simp add: clean_text_def [of s] redacted_text)
next
  case False
  then show ?thesis by (simp add: clean_text_def Let_def)
qed

lemma clean_text_parts:
  "clean_text s = asc ''[REDACTED]'' \<or> clean_text s = strip s"
  by (simp add: clean_text_def Let_def)

lemma access_allowed_iff:
  "allowed (check_tool_access db e n boss audited) \<longleftrightarrow>
     (\<exists>tool b. get_tool db (clean_text n) = Some tool \<and> t_enabled tool \<and>
        clean_text n \<notin> set FORBIDDEN_TOOLS \<and>
        find_binding db (clean_text e) (clean_text n) = Some b \<and> v_allowed b \<and>
        (v_approval b \<or> is_high_risk tool \<longrightarrow> boss \<and> audited))"
  by (auto simp: check_tool_access_def Let_def split: option.splits if_splits)

lemma find_binding_tool: "find_binding db e n = Some b \<Longrightarrow> \<exists>tool. get_tool db n = Some tool"
  by (auto simp: find_binding_def split: option.splits)

lemma enabled_route_chosen:
  assumes "find_enabled_route db e n = Some r"
  shows "\<exists>row \<in> set (d_routes db) \<union> set DEFAULT_TOOL_ROUTES.
           rt_employee row = e \<and> rt_tool row = n \<and> rt_enabled row \<and> r = route_to_dict row"
proof -
  define P :: "route \<Rightarrow> bool" where "P = (\<lambda>r. rt_employee r = e \<and> rt_tool r = n \<and> rt_enabled r)"
  define rows where "rows = rows_by route_order P (d_routes db)"
  have res: "Some r = (case rows of row # _ \<Rightarrow> Some (route_to_dict row)
      | [] \<Rightarrow> map_option route_to_dict (find P DEFAULT_TOOL_ROUTES))"
    using assms unfolding find_enabled_route_def rows_def P_def Let_def by (rule sym)
  have rows: "set rows = {r \<in> set (d_routes db). P r}"
    unfolding rows_def by (rule set_rows_by)
  have "\<exists>row \<in> set (d_routes db) \<union> set DEFAULT_TOOL_ROUTES. P row \<and> r = route_to_dict row"
  proof (cases rows)
    case Nil
    with res obtain row where "find P DEFAULT_TOOL_ROUTES = Some row" "r = route_to_dict row"
      by (cases "find P DEFAULT_TOOL_ROUTES") auto
    then show ?thesis by (metis UnI2 find_Some_iff nth_mem)
  next
    case (Cons row rest)
    with rows have "row \<in> set (d_routes db) \<and> P row" by auto
    with Cons res show ?thesis by auto
  qed
  then show ?thesis by (simp add: P_def)
qed

text \<open>
  The contract the callers of the gateway rely on: an answer that allows the call rests on a
  registered tool, and the two confirmations whenever the answer says approval is needed.
\<close>

locale access_gate =
  fixes gate :: "'db \<Rightarrow> ustr \<Rightarrow> ustr \<Rightarrow> bool \<Rightarrow> bool \<Rightarrow> access"
  assumes gate_approval: "allowed (gate db e n boss audited) \<Longrightarrow>
            require_approval (gate db e n boss audited) \<Longrightarrow> boss \<and> audited"
    and gate_forbidden: "clean_text n \<in> set FORBIDDEN_TOOLS \<Longrightarrow> \<not> allowed (gate db e n boss audited)"
    and gate_denied_asks: "\<not> allowed (gate db e n boss audited) \<Longrightarrow>
            reason (gate db e n boss audited) \<noteq> AccessPassed"
begin

lemma unconfirmed_needs_no_approval:
  "allowed (gate db e n False audited) \<Longrightarrow> \<not> require_approval (gate db e n False audited)"
  using gate_approval [of db e n False audited] by blast

lemma passed_is_allowed: "reason (gate db e n b a) = AccessPassed \<Longrightarrow> allowed (gate db e n b a)"
  using gate_denied_asks by blast

end

interpretation tool_gate: access_gate check_tool_access
  by unfold_locales
    (auto simp: check_tool_access_def Let_def split: option.splits if_splits)

interpretation route_gate: access_gate
  "\<lambda>db e n boss audited. rc_access (check_route_permission db e n boss audited)"
  by unfold_locales
    (auto simp: check_route_permission_def tool_gate.gate_forbidden
       dest: tool_gate.gate_approval tool_gate.gate_denied_asks split: option.splits)

end
