(* ===== verification/Task_Graph.thy ===== *)
theory Task_Graph
  imports Tool_Gateway
begin

text \<open>
  The task graph planner of \<^verbatim>\<open>backend/brain_orchestrator/task_graph.py\<close>: a request is
  cleaned, its risk and type read off keywords, and the employees' steps it needs laid out as
  a chain. The first twelve digits of the SHA-256 hash that name the graph are the parameter
  \<open>digest\<close>.
\<close>

section \<open>Data\<close>

record graph_node =
  gn_id :: ustr
  gn_name :: ustr
  gn_type :: ustr
  gn_employee :: ustr
  gn_employee_name :: ustr
  gn_role :: ustr
  gn_goal :: ustr
  gn_tools :: "ustr list"
  gn_risk :: ustr
  gn_approval :: bool
  gn_cost :: ustr
  gn_order :: int
  gn_status :: ustr

record graph_edge =
  ge_source :: ustr
  ge_target :: ustr
  ge_type :: ustr
  ge_description :: ustr

record task_graph =
  tg_id :: ustr
  tg_goal :: ustr
  tg_type :: ustr
  tg_risk :: ustr
  tg_approval :: bool
  tg_cost :: ustr
  tg_dry_run :: bool
  tg_nodes :: "graph_node list"
  tg_edges :: "graph_edge list"

record node_spec =
  sp_id :: ustr
  sp_name :: ustr
  sp_employee :: ustr
  sp_tools :: "ustr list"
  sp_goal :: ustr

definition EMPLOYEE_CATALOG :: "(ustr \<times> ustr \<times> ustr) list" where
  "EMPLOYEE_CATALOG =
    [(asc ''tiancai_data'', [0x5929, 0x91C7], [0x6570, 0x636E, 0x91C7, 0x96C6]),
     (asc ''tianshu'', [0x5929, 0x6570], [0x6570, 0x636E, 0x5206, 0x6790]),
     (asc ''tianshang'', [0x5929, 0x5546], [0x5546, 0x54C1, 0x5206, 0x6790]),
     (asc ''tiantou'', [0x5929, 0x6295], [0x5E7F, 0x544A, 0x5206, 0x6790]),
     (asc ''tianyu'', [0x5929, 0x8A89], [0x47, 0x45, 0x4F, 0x2F, 0x5E02, 0x573A, 0x5206, 0x6790]),
     (asc ''tiance_strategy'', [0x5929, 0x7B56], [0x7B56, 0x7565, 0x5206, 0x6790]),
     (asc ''tianjian_test'', [0x5929, 0x68C0], [0x7ED3, 0x679C, 0x9A8C, 0x6536])]"

definition node_spec_of :: "ustr \<Rightarrow> ustr \<Rightarrow> ustr \<Rightarrow> ustr list \<Rightarrow> ustr \<Rightarrow> node_spec" where
  "node_spec_of i n e ts g =
     \<lparr>sp_id = i, sp_name = n, sp_employee = e, sp_tools = ts, sp_goal = g\<rparr>"

definition DEFAULT_NODE_SPECS :: "node_spec list" where
  "DEFAULT_NODE_SPECS =
    [node_spec_of (asc ''collect_data'') ([0x6570, 0x636E, 0x91C7, 0x96C6]) (asc ''tiancai_data'')
       [asc ''database_read'', asc ''excel_analyzer''] ([0x91C7, 0x96C6, 0x9500, 0x552E, 0x3001, 0x8BA2, 0x5355, 0x3001, 0x8BBF, 0x5BA2, 0x3001, 0x8F6C, 0x5316, 0x6570, 0x636E]),
     node_spec_of (asc ''analyze_sales'') ([0x9500, 0x91CF, 0x5206, 0x6790]) (asc ''tianshu'')
       [asc ''excel_analyzer''] ([0x5206, 0x6790, 0x9500, 0x91CF, 0x4E0B, 0x964D, 0x8D8B, 0x52BF, 0x548C, 0x5173, 0x952E, 0x6307, 0x6807, 0x53D8, 0x5316]),
     node_spec_of (asc ''product_review'') ([0x5546, 0x54C1, 0x5206, 0x6790]) (asc ''tianshang'')
       [asc ''database_read'', asc ''excel_analyzer''] ([0x5206, 0x6790, 0x5546, 0x54C1, 0x7ED3, 0x6784, 0x3001, 0x4EF7, 0x683C, 0x3001, 0x5E93, 0x5B58, 0x548C, 0x8F6C, 0x5316, 0x95EE, 0x9898]),
     node_spec_of (asc ''ad_review'') ([0x5E7F, 0x544A, 0x5206, 0x6790]) (asc ''tiantou'')
       [asc ''excel_analyzer''] ([0x68C0, 0x67E5, 0x5E7F, 0x544A, 0x6D88, 0x8017, 0x3001, 0x52, 0x4F, 0x49, 0x20, 0x548C, 0x6295, 0x653E, 0x5F02, 0x5E38]),
     node_spec_of (asc ''market_review'') ([0x5E02, 0x573A, 0x5206, 0x6790]) (asc ''tianyu'')
       [asc ''browser_search''] ([0x8BC4, 0x4F30, 0x5E02, 0x573A, 0x3001, 0x47, 0x45, 0x4F, 0x3001, 0x7ADE, 0x54C1, 0x548C, 0x5916, 0x90E8, 0x8D8B, 0x52BF]),
     node_spec_of (asc ''strategy_summary'') ([0x7B56, 0x7565, 0x5EFA, 0x8BAE]) (asc ''tiance_strategy'')
       [asc ''excel_analyzer''] ([0x6C47, 0x603B, 0x539F, 0x56E0, 0x5E76, 0x751F, 0x6210, 0x7B56, 0x7565, 0x5EFA, 0x8BAE]),
     node_spec_of (asc ''acceptance_review'') ([0x7ED3, 0x679C, 0x9A8C, 0x6536]) (asc ''tianjian_test'')
       [asc ''excel_analyzer''] ([0x9A8C, 0x6536, 0x5206, 0x6790, 0x7ED3, 0x8BBA, 0x548C, 0x98CE, 0x9669, 0x8FB9, 0x754C])]"

definition HIGH_RISK_KEYWORDS :: "ustr list" where
  "HIGH_RISK_KEYWORDS =
    [[0x90E8, 0x7F72], [0x5220, 0x5E93], [0x5220, 0x9664], [0x4ED8, 0x6B3E], [0x8D2D, 0x4E70], [0x652F, 0x4ED8], [0x63D0, 0x4EA4, 0x4EE3, 0x7801], [0x6539, 0x6743, 0x9650], asc ''shell'', asc ''docker'']"

definition MEDIUM_RISK_KEYWORDS :: "ustr list" where
  "MEDIUM_RISK_KEYWORDS =
    [[0x8054, 0x7F51], [0x641C, 0x7D22], [0x5916, 0x90E8], [0x6D4F, 0x89C8, 0x5668], [0x5E7F, 0x544A], [0x5E02, 0x573A], [0x7ADE, 0x54C1], asc ''GEO'', asc ''geo'']"

section \<open>Reading the request\<close>

definition infer_task_type :: "ustr \<Rightarrow> ustr" where
  "infer_task_type goal =
     (let text = lower goal
      in if occurs_any [[0x9500, 0x91CF], [0x9500, 0x552E], [0x8F6C, 0x5316], [0x8BA2, 0x5355]] text then asc ''sales_diagnosis''
         else if occurs_any [[0x5E7F, 0x544A], [0x6295, 0x653E], asc ''roi''] text then asc ''ad_diagnosis''
         else asc ''business_analysis'')"

definition infer_graph_risk :: "ustr \<Rightarrow> ustr" where
  "infer_graph_risk goal =
     (let text = lower goal
      in if occurs_any HIGH_RISK_KEYWORDS text then asc ''high''
         else if occurs_any (map lower MEDIUM_RISK_KEYWORDS) text then asc ''medium''
         else asc ''low'')"

definition node_risk_level :: "ustr \<Rightarrow> ustr list \<Rightarrow> ustr \<Rightarrow> ustr" where
  "node_risk_level node_id tools graph_risk =
     (if graph_risk = asc ''high'' then asc ''high''
      else if asc ''browser_search'' \<in> set tools \<or> node_id \<in> {asc ''market_review'', asc ''ad_review''}
        then asc ''medium''
      else asc ''low'')"

definition select_node_specs :: "ustr \<Rightarrow> node_spec list" where
  "select_node_specs goal =
     (let text = lower goal;
          specs = DEFAULT_NODE_SPECS;
          specs = (if \<not> occurs_any [[0x5E7F, 0x544A], [0x6295, 0x653E], asc ''roi''] text
                   then filter (\<lambda>r. sp_id r \<noteq> asc ''ad_review'') specs else specs);
          specs = (if \<not> occurs_any [[0x5E02, 0x573A], [0x7ADE, 0x54C1], asc ''geo'', [0x641C, 0x7D22], [0x8D8B, 0x52BF]] text
                   then filter (\<lambda>r. sp_id r \<noteq> asc ''market_review'') specs else specs)
      in if specs = [] then take 3 DEFAULT_NODE_SPECS else specs)"

section \<open>Building the graph\<close>

text \<open>The catalog lookup raises \<^verbatim>\<open>KeyError\<close> for an unknown employee; \<open>specs_in_catalog\<close> shows none is.\<close>

definition catalog_entry :: "ustr \<Rightarrow> ustr \<times> ustr" where
  "catalog_entry code = (case map_of EMPLOYEE_CATALOG code of None \<Rightarrow> ([], []) | Some e \<Rightarrow> e)"

definition build_node :: "ustr \<Rightarrow> ustr \<Rightarrow> int \<Rightarrow> node_spec \<Rightarrow> graph_node" where
  "build_node goal graph_risk index sp =
     (let (name, role) = catalog_entry (sp_employee sp);
          risk = node_risk_level (sp_id sp) (sp_tools sp) graph_risk
      in \<lparr>gn_id = sp_id sp, gn_name = sp_name sp, gn_type = asc ''ai_employee'',
          gn_employee = sp_employee sp, gn_employee_name = name, gn_role = role,
          gn_goal = sp_goal sp @ asc '': '' @ goal, gn_tools = sp_tools sp, gn_risk = risk,
          gn_approval = (risk \<in> {asc ''medium'', asc ''high''}),
          gn_cost = (if asc ''browser_search'' \<in> set (sp_tools sp) then asc ''medium'' else asc ''low''),
          gn_order = index,
          gn_status = (if risk = asc ''high'' then asc ''waiting_approval'' else asc ''planned'')\<rparr>)"

fun number_nodes :: "ustr \<Rightarrow> ustr \<Rightarrow> int \<Rightarrow> node_spec list \<Rightarrow> graph_node list" where
  "number_nodes goal risk i [] = []"
| "number_nodes goal risk i (sp # sps) = build_node goal risk i sp # number_nodes goal risk (i + 1) sps"

definition build_nodes :: "ustr \<Rightarrow> ustr \<Rightarrow> graph_node list" where
  "build_nodes goal graph_risk = number_nodes goal graph_risk 1 (select_node_specs goal)"

definition build_edge :: "graph_node \<Rightarrow> graph_node \<Rightarrow> graph_edge" where
  "build_edge source target =
     \<lparr>ge_source = gn_id source, ge_target = gn_id target, ge_type = asc ''passes_result_to'',
      ge_description = gn_name source @ [0x7ED3, 0x679C, 0x4F20, 0x9012, 0x7ED9] @ gn_name target\<rparr>"

definition build_edges :: "graph_node list \<Rightarrow> graph_edge list" where
  "build_edges nodes = map (\<lambda>(s, t). build_edge s t) (zip nodes (tl nodes))"

definition infer_cost_level :: "graph_node list \<Rightarrow> ustr" where
  "infer_cost_level nodes =
     (if list_ex (\<lambda>n. asc ''browser_search'' \<in> set (gn_tools n)) nodes then asc ''medium'' else asc ''low'')"

definition build_graph_id :: "(ustr \<Rightarrow> ustr) \<Rightarrow> ustr \<Rightarrow> ustr" where
  "build_graph_id digest goal = asc ''graph-'' @ digest goal"

definition build_task_graph :: "(ustr \<Rightarrow> ustr) \<Rightarrow> ustr \<Rightarrow> task_graph" where
  "build_task_graph digest request_text =
     (let goal = take 2000 (clean_text request_text);
          risk_level = infer_graph_risk goal;
          nodes = build_nodes goal risk_level;
          edges = build_edges nodes
      in \<lparr>tg_id = build_graph_id digest goal, tg_goal = goal, tg_type = infer_task_type goal,
          tg_risk = risk_level,
          tg_approval = (risk_level \<in> {asc ''medium'', asc ''high''} \<or> list_ex gn_approval nodes),
          tg_cost = infer_cost_level nodes, tg_dry_run = True, tg_nodes = nodes, tg_edges = edges\<rparr>)"

section \<open>The chain\<close>

lemma specs_in_catalog:
  "\<forall>sp \<in> set DEFAULT_NODE_SPECS. map_of EMPLOYEE_CATALOG (sp_employee sp) \<noteq> None"
  by (simp add: DEFAULT_NODE_SPECS_def EMPLOYEE_CATALOG_def node_spec_of_def)

lemma select_subset: "set (select_node_specs goal) \<subseteq> set DEFAULT_NODE_SPECS"
  by (auto simp: select_node_specs_def Let_def dest: in_set_takeD split: if_splits)

lemma default_ids_distinct: "distinct (map sp_id DEFAULT_NODE_SPECS)"
  by (simp add: DEFAULT_NODE_SPECS_def node_spec_of_def)

lemma select_distinct: "distinct (map sp_id (select_node_specs goal))"
  using default_ids_distinct
  by (auto simp: select_node_specs_def Let_def distinct_map_filter take_map [symmetric])

text \<open>Five of the seven steps are always kept, so the fallback of \<^verbatim>\<open>select_node_specs\<close> never applies.\<close>

lemma core_specs_kept:
  "sp \<in> set DEFAULT_NODE_SPECS \<Longrightarrow> sp_id sp \<notin> {asc ''ad_review'', asc ''market_review''} \<Longrightarrow>
     sp \<in> set (select_node_specs goal)"
  by (auto simp: select_node_specs_def Let_def filter_empty_conv)

lemma length_number_nodes [simp]: "length (number_nodes g r i sps) = length sps"
  by (induction sps arbitrary: i) auto

lemma ids_number_nodes [simp]: "map gn_id (number_nodes g r i sps) = map sp_id sps"
  by (induction sps arbitrary: i) (auto simp: build_node_def Let_def split: prod.splits)

lemma number_nodes_member:
  "n \<in> set (number_nodes g r i sps) \<Longrightarrow> \<exists>sp \<in> set sps. \<exists>k. n = build_node g r k sp"
  by (induction sps arbitrary: i) auto

lemma order_build_node [simp]: "gn_order (build_node g r i sp) = i"
  by (simp add: build_node_def Let_def split: prod.splits)

lemma employee_build_node [simp]: "gn_employee (build_node g r i sp) = sp_employee sp"
  by (simp add: build_node_def Let_def split: prod.splits)

lemma nodes_catalogued:
  "n \<in> set (build_nodes g r) \<Longrightarrow> map_of EMPLOYEE_CATALOG (gn_employee n) \<noteq> None"
proof -
  assume "n \<in> set (build_nodes g r)"
  then obtain sp k where "sp \<in> set (select_node_specs g)" "n = build_node g r k sp"
    unfolding build_nodes_def by (blast dest: number_nodes_member)
  with select_subset specs_in_catalog show ?thesis by fastforce
qed

lemma orders_number_nodes:
  "map gn_order (number_nodes g r i sps) = map (\<lambda>k. i + int k) [0..<length sps]"
proof (induction sps arbitrary: i)
  case Nil
  then show ?case by simp
next
  case (Cons sp sps)
  have "map (\<lambda>k. i + int k) [0..<Suc (length sps)] = i # map (\<lambda>k. i + int (Suc k)) [0..<length sps]"
    by (subst map_upt_Suc) simp
  with Cons show ?case by (simp add: add.assoc add.commute)
qed

lemma edges_length [simp]: "length (build_edges nodes) = length nodes - 1"
  by (simp add: build_edges_def)

lemma edge_nth: "i < length nodes - 1 \<Longrightarrow>
    build_edges nodes ! i = build_edge (nodes ! i) (nodes ! Suc i)"
  by (simp add: build_edges_def nth_tl)

lemma build_node_high: "gn_risk (build_node g (asc ''high'') k sp) = asc ''high''
    \<and> gn_approval (build_node g (asc ''high'') k sp)
    \<and> gn_status (build_node g (asc ''high'') k sp) = asc ''waiting_approval''"
  by (simp add: build_node_def node_risk_level_def Let_def split: prod.splits)

text \<open>The planned graph is a chain: ids distinct, orders \<open>1, 2, ...\<close>, each edge from a node to the next.\<close>

definition is_chain :: "task_graph \<Rightarrow> bool" where
  "is_chain g \<longleftrightarrow>
     distinct (map gn_id (tg_nodes g)) \<and>
     map gn_order (tg_nodes g) = map (\<lambda>k. 1 + int k) [0..<length (tg_nodes g)] \<and>
     length (tg_edges g) = length (tg_nodes g) - 1 \<and>
     (\<forall>i < length (tg_nodes g) - 1.
        ge_source (tg_edges g ! i) = gn_id (tg_nodes g ! i) \<and>
        ge_target (tg_edges g ! i) = gn_id (tg_nodes g ! Suc i))"

text \<open>Every planned graph is a chain of at least five steps in which every step has a catalogued employee.\<close>

theorem task_graph_chain:
  "is_chain (build_task_graph digest req) \<and> 5 \<le> length (tg_nodes (build_task_graph digest req)) \<and>
   list_all (\<lambda>n. map_of EMPLOYEE_CATALOG (gn_employee n) \<noteq> None) (tg_nodes (build_task_graph digest req))"
proof -
  define goal where "goal = take 2000 (clean_text req)"
  define nodes where "nodes = build_nodes goal (infer_graph_risk goal)"
  have nodes: "tg_nodes (build_task_graph digest req) = nodes"
    "tg_edges (build_task_graph digest req) = build_edges nodes"
    by (simp_all add: build_task_graph_def nodes_def goal_def Let_def)
  have "is_chain (build_task_graph digest req)"
    by (simp add: is_chain_def nodes nodes_def build_nodes_def select_distinct orders_number_nodes
        edge_nth build_edge_def)
  moreover have "5 \<le> length nodes"
  proof -
    let ?core = "filter (\<lambda>sp. sp_id sp \<notin> {asc ''ad_review'', asc ''market_review''}) DEFAULT_NODE_SPECS"
    have "set (map sp_id ?core) \<subseteq> set (map sp_id (select_node_specs goal))"
      using core_specs_kept [of _ goal] by fastforce
    moreover have "card (set (map sp_id ?core)) = 5"
      by (simp add: DEFAULT_NODE_SPECS_def node_spec_of_def)
    ultimately have "5 \<le> card (set (map sp_id (select_node_specs goal)))"
      by (metis List.finite_set card_mono)
    also have "\<dots> \<le> length (select_node_specs goal)"
      by (metis card_length length_map)
    finally show ?thesis by (simp add: nodes_def build_nodes_def)
  qed
  moreover have "list_all (\<lambda>n. map_of EMPLOYEE_CATALOG (gn_employee n) \<noteq> None) nodes"
    unfolding nodes_def list_all_iff using nodes_catalogued by blast
  ultimately show ?thesis by (simp add: nodes)
qed

text \<open>A request that names a high-risk action yields a graph none of whose steps is ready to run.\<close>

lemma high_risk_graph_waits:
  assumes "occurs_any HIGH_RISK_KEYWORDS (lower (take 2000 (clean_text req)))"
  shows "tg_risk (build_task_graph digest req) = asc ''high'' \<and> tg_approval (build_task_graph digest req) \<and>
    (\<forall>n \<in> set (tg_nodes (build_task_graph digest req)).
       gn_status n = asc ''waiting_approval'' \<and> gn_approval n \<and> gn_risk n = asc ''high'')"
proof -
  let ?goal = "take 2000 (clean_text req)"
  from assms have risk: "infer_graph_risk ?goal = asc ''high''"
    by (simp add: infer_graph_risk_def)
  have "\<forall>n \<in> set (build_nodes ?goal (asc ''high'')).
      gn_status n = asc ''waiting_approval'' \<and> gn_approval n \<and> gn_risk n = asc ''high''"
    using number_nodes_member build_node_high by (fastforce simp: build_nodes_def)
  with risk show ?thesis by (simp add: build_task_graph_def Let_def)
qed

theorem high_risk_graph_waits_witness:
  "tg_risk (build_task_graph (\<lambda>_. []) (asc ''run Shell'')) = asc ''high''"
  using high_risk_graph_waits [of "asc ''run Shell''" "\<lambda>_. []"] by code_simp

end
