(* ===== verification/Brain_State.thy ===== *)
theory Brain_State
  imports Task_Graph
begin

text \<open>
  The execution state machine of \<^verbatim>\<open>backend/brain_execution/state_machine.py\<close>: the eleven states,
  the transition table, and the reading of a stored status (including the older spellings).
\<close>

section \<open>States\<close>

datatype exec_state =
    CREATED | ANALYZED | PLANNED | WAIT_APPROVAL | APPROVED | QUEUED
  | RUNNING | SUCCESS | FAILED | TIMEOUT | REVIEWED

fun state_value :: "exec_state \<Rightarrow> ustr" where
  "state_value CREATED = asc ''CREATED''"
| "state_value ANALYZED = asc ''ANALYZED''"
| "state_value PLANNED = asc ''PLANNED''"
| "state_value WAIT_APPROVAL = asc ''WAIT_APPROVAL''"
| "state_value APPROVED = asc ''APPROVED''"
| "state_value QUEUED = asc ''QUEUED''"
| "state_value RUNNING = asc ''RUNNING''"
| "state_value SUCCESS = asc ''SUCCESS''"
| "state_value FAILED = asc ''FAILED''"
| "state_value TIMEOUT = asc ''TIMEOUT''"
| "state_value REVIEWED = asc ''REVIEWED''"

definition all_states :: "exec_state list" where
  "all_states = [CREATED, ANALYZED, PLANNED, WAIT_APPROVAL, APPROVED, QUEUED, RUNNING,
                 SUCCESS, FAILED, TIMEOUT, REVIEWED]"

text \<open>\<^verbatim>\<open>ExecutionState(value)\<close>, \<^verbatim>\<open>None\<close> where it raises \<^verbatim>\<open>ValueError\<close>.\<close>

definition state_of_value :: "ustr \<Rightarrow> exec_state option" where
  "state_of_value v = find (\<lambda>s. state_value s = v) all_states"

fun ALLOWED_TRANSITIONS :: "exec_state \<Rightarrow> exec_state set" where
  "ALLOWED_TRANSITIONS CREATED = {ANALYZED, FAILED}"
| "ALLOWED_TRANSITIONS ANALYZED = {PLANNED, WAIT_APPROVAL, FAILED}"
| "ALLOWED_TRANSITIONS PLANNED = {WAIT_APPROVAL, FAILED}"
| "ALLOWED_TRANSITIONS WAIT_APPROVAL = {PLANNED, APPROVED, FAILED}"
| "ALLOWED_TRANSITIONS APPROVED = {QUEUED, FAILED}"
| "ALLOWED_TRANSITIONS QUEUED = {RUNNING, FAILED, TIMEOUT}"
| "ALLOWED_TRANSITIONS RUNNING = {SUCCESS, FAILED, TIMEOUT, QUEUED}"
| "ALLOWED_TRANSITIONS SUCCESS = {REVIEWED}"
| "ALLOWED_TRANSITIONS FAILED = {REVIEWED}"
| "ALLOWED_TRANSITIONS TIMEOUT = {REVIEWED}"
| "ALLOWED_TRANSITIONS REVIEWED = {}"

definition legacy_states :: "(ustr \<times> exec_state) list" where
  "legacy_states =
    [(asc ''PLANNED'', PLANNED), (asc ''BLOCKED'', WAIT_APPROVAL), (asc ''APPROVED'', APPROVED), (asc ''QUEUED'', QUEUED),
     (asc ''RUNNING'', RUNNING), (asc ''COMPLETED'', SUCCESS), (asc ''TIMEOUT'', TIMEOUT)]"

text \<open>The status column is never null; an empty status reads as \<open>CREATED\<close>.\<close>

definition normalize_state :: "ustr \<Rightarrow> exec_state" where
  "normalize_state value =
     (let clean = upper (clean_text (if value = [] then state_value CREATED else value))
      in case map_of legacy_states clean of
           Some s \<Rightarrow> s
         | None \<Rightarrow> (case state_of_value clean of Some s \<Rightarrow> s | None \<Rightarrow> CREATED))"

text \<open>The guard of \<^verbatim>\<open>transition_run\<close>: staying in a state is always allowed.\<close>

definition transition_ok :: "exec_state \<Rightarrow> exec_state \<Rightarrow> bool" where
  "transition_ok current target \<longleftrightarrow> target = current \<or> target \<in> ALLOWED_TRANSITIONS current"

section \<open>Facts about the table\<close>

lemma state_in_all: "s \<in> set all_states"
  by (cases s) (simp_all add: all_states_def)

lemma state_value_inj [simp]: "state_value s = state_value t \<longleftrightarrow> s = t"
  by (cases s; cases t) simp_all

lemma state_of_state_value [simp]: "state_of_value (state_value s) = Some s"
  by (cases s) (simp_all add: state_of_value_def all_states_def)

lemma state_of_value_Some: "state_of_value v = Some s \<Longrightarrow> v = state_value s"
  by (auto simp: state_of_value_def find_Some_iff)

text \<open>The status the code itself writes is read back as the state that was written.\<close>

lemma normalize_all_states: "list_all (\<lambda>s. normalize_state (state_value s) = s) all_states"
  by code_simp

lemma normalize_state_value [simp]: "normalize_state (state_value s) = s"
  using normalize_all_states state_in_all by (auto simp: list_all_iff)

lemma state_value_nonempty [simp]: "state_value s \<noteq> []"
  by (cases s) simp_all

declare state_value.simps [simp del]

text \<open>A path of the machine: states joined by allowed transitions.\<close>

inductive run_path :: "exec_state \<Rightarrow> exec_state list \<Rightarrow> exec_state \<Rightarrow> bool" where
  path_here: "run_path s [s] s"
| path_step: "t \<in> ALLOWED_TRANSITIONS s \<Longrightarrow> run_path t p u \<Longrightarrow> run_path s (s # p) u"

inductive_cases run_path_cases: "run_path s p u"

inductive_simps run_path_simps: "run_path s (x # p) u"

text \<open>
  The states before approval are left only through \<open>APPROVED\<close> or \<open>FAILED\<close>, and nothing leads back
  out of \<open>FAILED\<close> except a review.
\<close>

definition before_approval :: "exec_state \<Rightarrow> bool" where
  "before_approval s \<longleftrightarrow> s \<in> {CREATED, ANALYZED, PLANNED, WAIT_APPROVAL}"

lemma before_approval_step:
  "before_approval s \<Longrightarrow> t \<in> ALLOWED_TRANSITIONS s \<Longrightarrow> before_approval t \<or> t = APPROVED \<or> t = FAILED"
  by (cases s) (auto simp: before_approval_def)

lemma closed_states_path:
  "run_path s p u \<Longrightarrow> s \<in> {FAILED, REVIEWED} \<Longrightarrow> u \<in> {FAILED, REVIEWED}"
  by (induction rule: run_path.induct) auto

lemma path_needs_approval:
  "run_path s p u \<Longrightarrow> before_approval s \<Longrightarrow>
     before_approval u \<or> u \<in> {FAILED, REVIEWED} \<or> APPROVED \<in> set p"
proof (induction rule: run_path.induct)
  case (path_here s)
  then show ?case by simp
next
  case (path_step t s p u)
  from before_approval_step [OF path_step.prems path_step.hyps(1)]
  show ?case
  proof (elim disjE)
    assume "before_approval t"
    with path_step.IH show ?thesis by auto
  next
    assume "t = APPROVED"
    with path_step.hyps(2) have "APPROVED \<in> set p" by (auto elim: run_path.cases)
    then show ?thesis by simp
  next
    assume "t = FAILED"
    with closed_states_path [OF path_step.hyps(2)] show ?thesis by auto
  qed
qed

text \<open>
  Along the transition table no run that starts unapproved reaches \<open>QUEUED\<close>, \<open>RUNNING\<close>,
  \<open>SUCCESS\<close> or \<open>TIMEOUT\<close> on a path that avoids \<open>APPROVED\<close>.
\<close>

theorem execution_needs_approval:
  assumes "run_path s p u" and "before_approval s" and "u \<in> {QUEUED, RUNNING, SUCCESS, TIMEOUT}"
  shows "APPROVED \<in> set p"
  using path_needs_approval [OF assms(1,2)] assms(3) by (auto simp: before_approval_def)

theorem execution_needs_approval_witness:
  "APPROVED \<in> set [WAIT_APPROVAL, APPROVED, QUEUED]"
proof -
  have "run_path WAIT_APPROVAL [WAIT_APPROVAL, APPROVED, QUEUED] QUEUED"
    by (rule path_step [of APPROVED], simp, rule path_step [of QUEUED], simp, rule path_here)
  then show ?thesis
    by (rule execution_needs_approval) (simp_all add: before_approval_def)
qed

text \<open>\<open>REVIEWED\<close> is the only state without a successor, and every state has a path to it.\<close>

lemma review_is_the_end:
  "(ALLOWED_TRANSITIONS s = {} \<longleftrightarrow> s = REVIEWED) \<and> (\<exists>p. run_path s p REVIEWED)"
proof
  show "ALLOWED_TRANSITIONS s = {} \<longleftrightarrow> s = REVIEWED" by (cases s) auto
  have stop: "run_path REVIEWED [REVIEWED] REVIEWED" by (rule path_here)
  have failed: "run_path FAILED [FAILED, REVIEWED] REVIEWED"
    by (rule path_step [OF _ stop]) simp
  have ended: "run_path s [s, REVIEWED] REVIEWED" if "REVIEWED \<in> ALLOWED_TRANSITIONS s"
    using that stop by (rule path_step)
  have fails: "run_path s [s, FAILED, REVIEWED] REVIEWED" if "FAILED \<in> ALLOWED_TRANSITIONS s"
    using that failed by (rule path_step)
  have "s = REVIEWED \<or> REVIEWED \<in> ALLOWED_TRANSITIONS s \<or> FAILED \<in> ALLOWED_TRANSITIONS s"
    by (cases s) simp_all
  with stop ended fails show "\<exists>p. run_path s p REVIEWED" by blast
qed

end
