(* ===== verification/Brain_Data.thy ===== *)
theory Brain_Data
  imports Brain_State
begin

text \<open>
  The tables of the brain runtime (\<^verbatim>\<open>backend/brain_execution/models.py\<close>,
  \<^verbatim>\<open>brain_orchestrator/models.py\<close>, \<^verbatim>\<open>brain_tool_router/models.py\<close>), the state change with
  its event, and the execution log. A row keeps the columns the runtime writes; times are
  microseconds. One counter hands out the row ids of all tables, so ids grow in the order of
  insertion, as each table's own sequence does.
\<close>

section \<open>Tables\<close>

record brain_run =
  r_id :: int
  r_task_id :: "ustr option"
  r_employee :: "ustr option"
  r_goal :: ustr
  r_status :: ustr
  r_priority :: ustr
  r_context :: "json option"
  r_node :: "ustr option"
  r_risk :: ustr
  r_approval :: bool
  r_dry_run :: bool
  r_creator :: ustr
  r_queued_at :: "int option"
  r_timeout :: int
  r_retry :: int
  r_max_retry :: int
  r_worker :: "ustr option"
  r_started :: "int option"
  r_finished :: "int option"
  r_error :: "ustr option"
  r_last_error :: "ustr option"

definition new_run :: "int \<Rightarrow> ustr \<Rightarrow> ustr \<Rightarrow> bool \<Rightarrow> ustr \<Rightarrow> brain_run" where
  "new_run i goal risk approval creator =
     \<lparr>r_id = i, r_task_id = None, r_employee = None, r_goal = goal, r_status = state_value CREATED,
      r_priority = asc ''normal'', r_context = None, r_node = None, r_risk = risk, r_approval = approval,
      r_dry_run = True, r_creator = creator, r_queued_at = None, r_timeout = 300, r_retry = 0,
      r_max_retry = 3, r_worker = None, r_started = None, r_finished = None, r_error = None,
      r_last_error = None\<rparr>"

record brain_node =
  n_id :: int
  n_graph :: ustr
  n_execution :: int
  n_node :: ustr
  n_name :: ustr
  n_type :: ustr
  n_employee :: ustr
  n_employee_name :: ustr
  n_role :: ustr
  n_goal :: ustr
  n_tools :: "ustr list"
  n_tool :: "ustr option"
  n_risk :: ustr
  n_approval :: bool
  n_cost :: ustr
  n_order :: int
  n_status :: ustr

record brain_edge =
  ed_id :: int
  ed_execution :: int
  ed_source :: ustr
  ed_target :: ustr
  ed_type :: ustr
  ed_description :: ustr

record brain_event =
  ev_id :: int
  ev_execution :: int
  ev_type :: ustr
  ev_data :: ustr

record approval_record =
  ap_id :: int
  ap_execution :: int
  ap_user :: ustr
  ap_decision :: ustr
  ap_reason :: ustr
  ap_boss :: bool
  ap_audited :: bool

record tool_call =
  tc_id :: int
  tc_execution :: int
  tc_node :: ustr
  tc_employee :: ustr
  tc_tool :: ustr
  tc_request :: ustr
  tc_response :: ustr
  tc_permission :: route_check
  tc_risk :: ustr
  tc_dry_run :: bool
  tc_status :: ustr

record exec_log =
  lg_id :: int
  lg_request :: ustr
  lg_analysis :: ustr
  lg_tool_selection :: ustr
  lg_approval_status :: ustr
  lg_run :: ustr
  lg_node :: "ustr option"
  lg_employee :: "ustr option"
  lg_action :: ustr
  lg_input :: ustr
  lg_output :: ustr
  lg_status :: ustr
  lg_error :: ustr

record exec_context =
  cx_id :: int
  cx_execution :: int
  cx_node :: ustr
  cx_employee :: ustr
  cx_task :: ustr
  cx_input :: json
  cx_permissions :: json
  cx_risk :: ustr
  cx_history :: json
  cx_approval_status :: ustr
  cx_data :: json

record recovery_record =
  rv_id :: int
  rv_execution :: int
  rv_node :: "ustr option"
  rv_failure :: ustr
  rv_error :: ustr
  rv_retry :: int
  rv_max_retry :: int
  rv_action :: ustr
  rv_status :: ustr

record worker_row =
  wk_id :: ustr
  wk_status :: ustr
  wk_execution :: "int option"
  wk_node :: "ustr option"
  wk_task :: "ustr option"
  wk_heartbeat :: int
  wk_processed :: int
  wk_success :: int
  wk_failed :: int
  wk_timeout :: int

record brain_db =
  runs :: "brain_run list"
  nodes :: "brain_node list"
  edges :: "brain_edge list"
  events :: "brain_event list"
  approvals :: "approval_record list"
  calls :: "tool_call list"
  logs :: "exec_log list"
  contexts :: "exec_context list"
  recoveries :: "recovery_record list"
  workers :: "worker_row list"
  tool_tables :: tool_db
  next_id :: int

interpretation run_table: keyed_table r_id "row_get r_id" "row_put r_id" row_add
  by (rule row_keyed_table)

interpretation worker_table: keyed_table wk_id "row_get wk_id" "row_put wk_id" row_add
  by (rule row_keyed_table)

definition get_run :: "brain_db \<Rightarrow> int \<Rightarrow> brain_run option" where
  "get_run db i = row_get r_id i (runs db)"

definition save_run :: "brain_run \<Rightarrow> brain_db \<Rightarrow> brain_db" where
  "save_run run db = db\<lparr>runs := row_put r_id run (runs db)\<rparr>"

section \<open>Text columns\<close>

definition to_json :: "json \<Rightarrow> ustr" where
  "to_json value = take 8000 (dumps value)"

definition event_data_to_json :: "json \<Rightarrow> ustr" where
  "event_data_to_json value = take 8000 (dumps value)"

text \<open>\<^verbatim>\<open>value or default\<close>.\<close>

definition jor :: "json option \<Rightarrow> json \<Rightarrow> json" where
  "jor value dflt = (case value of None \<Rightarrow> dflt | Some v \<Rightarrow> (if truthy v then v else dflt))"

section \<open>State changes\<close>

datatype brain_error = InvalidTransition exec_state exec_state

text \<open>
  \<^verbatim>\<open>transition_run\<close>: the row gets the new status and an event is added; a transition outside the
  table raises and leaves both alone.
\<close>

definition transition_run ::
  "brain_db \<Rightarrow> brain_run \<Rightarrow> exec_state \<Rightarrow> ustr option \<Rightarrow> json option \<Rightarrow> brain_error + (brain_run \<times> brain_db)"
where
  "transition_run db run target event_type event_data =
     (let current = normalize_state (r_status run) in
      if target \<noteq> current \<and> target \<notin> ALLOWED_TRANSITIONS current
      then Inl (InvalidTransition current target)
      else
        let run' = run\<lparr>r_status := state_value target\<rparr>;
            ty = (case event_type of Some t \<Rightarrow> (if t = [] then asc ''state_'' @ lower (state_value target) else t)
                    | None \<Rightarrow> asc ''state_'' @ lower (state_value target));
            event = \<lparr>ev_id = next_id db, ev_execution = r_id run, ev_type = ty,
              ev_data = event_data_to_json (jor event_data
                (JObj [(asc ''from'', JStr (state_value current)), (asc ''to'', JStr (state_value target))]))\<rparr>
        in Inr (run', (save_run run' db)\<lparr>events := row_add event (events db), next_id := next_id db + 1\<rparr>))"

definition write_execution_log ::
  "brain_db \<Rightarrow> brain_run \<Rightarrow> ustr \<Rightarrow> ustr \<Rightarrow> ustr option \<Rightarrow> ustr option \<Rightarrow> json option \<Rightarrow> json option
     \<Rightarrow> ustr option \<Rightarrow> brain_db"
where
  "write_execution_log db run action status node employee input output error =
     (let row = \<lparr>lg_id = next_id db, lg_request = r_goal run,
          lg_analysis = to_json (JObj [(asc ''run_id'', JInt (r_id run)), (asc ''risk_level'', JStr (r_risk run))]),
          lg_tool_selection = to_json (JObj [(asc ''dry_run'', JBool True)]),
          lg_approval_status = r_status run, lg_run = int_text (r_id run), lg_node = node,
          lg_employee = employee, lg_action = action,
          lg_input = to_json (jor input (JObj [(asc ''goal'', JStr (r_goal run))])),
          lg_output = to_json (jor output (JObj [(asc ''mode'', JStr (asc ''simulation'')), (asc ''dry_run'', JBool True)])),
          lg_status = status, lg_error = clean_opt error\<rparr>
      in db\<lparr>logs := row_add row (logs db), next_id := next_id db + 1\<rparr>)"

section \<open>Facts about state changes\<close>

lemma save_run_simps [simp]:
  "nodes (save_run r db) = nodes db" "approvals (save_run r db) = approvals db"
  "workers (save_run r db) = workers db" "next_id (save_run r db) = next_id db"
  "tool_tables (save_run r db) = tool_tables db" "recoveries (save_run r db) = recoveries db"
  "contexts (save_run r db) = contexts db" "edges (save_run r db) = edges db"
  "events (save_run r db) = events db" "calls (save_run r db) = calls db"
  "logs (save_run r db) = logs db" "runs (save_run r db) = row_put r_id r (runs db)"
  by (simp_all add: save_run_def)

lemma write_log_simps [simp]:
  "runs (write_execution_log db r a s n e i ou er) = runs db"
  "nodes (write_execution_log db r a s n e i ou er) = nodes db"
  "approvals (write_execution_log db r a s n e i ou er) = approvals db"
  "workers (write_execution_log db r a s n e i ou er) = workers db"
  "contexts (write_execution_log db r a s n e i ou er) = contexts db"
  "recoveries (write_execution_log db r a s n e i ou er) = recoveries db"
  "tool_tables (write_execution_log db r a s n e i ou er) = tool_tables db"
  "next_id (write_execution_log db r a s n e i ou er) = next_id db + 1"
  by (simp_all add: write_execution_log_def Let_def)

lemma get_run_id: "get_run db i = Some r \<Longrightarrow> r_id r = i"
  unfolding get_run_def by (rule run_table.get_key)

lemma get_save_run: "get_run (save_run r db) i =
    (if i = r_id r then (case get_run db i of None \<Rightarrow> None | Some _ \<Rightarrow> Some r) else get_run db i)"
  by (simp add: get_run_def run_table.get_put)

lemma transition_run_iff:
  "(\<exists>x. transition_run db run target ty d = Inr x) \<longleftrightarrow>
     transition_ok (normalize_state (r_status run)) target"
  by (auto simp: transition_run_def transition_ok_def Let_def)

lemma transition_run_row:
  assumes "transition_run db run target ty d = Inr (run', db')"
  shows "run' = run\<lparr>r_status := state_value target\<rparr>" and "runs db' = row_put r_id run' (runs db)"
    and "nodes db' = nodes db" and "approvals db' = approvals db" and "workers db' = workers db"
    and "tool_tables db' = tool_tables db" and "next_id db' = next_id db + 1"
    and "transition_ok (normalize_state (r_status run)) target"
    and "contexts db' = contexts db" and "recoveries db' = recoveries db"
  using assms by (auto simp: transition_run_def transition_ok_def Let_def split: if_splits)

lemma transition_run_ok:
  assumes "transition_ok (normalize_state (r_status run)) target"
  obtains db' where "transition_run db run target ty d = Inr (run\<lparr>r_status := state_value target\<rparr>, db')"
  using assms transition_run_row(1) transition_run_iff by (metis surj_pair)

end
