(* ===== verification/Brain_Queue.thy ===== *)
theory Brain_Queue
  imports Brain_Data "HOL-Library.Multiset"
begin

text \<open>
  The Redis queue of \<^verbatim>\<open>backend/brain_execution/queue.py\<close>: three waiting lists by priority, the
  last status of each execution and the two hundred newest status reports. What is stored as
  JSON text is kept as the record it encodes. \<^verbatim>\<open>rpush\<close> appends, \<^verbatim>\<open>blpop\<close> takes the first item of
  the first non-empty list, \<^verbatim>\<open>lpush\<close> and \<^verbatim>\<open>ltrim 0 199\<close> keep the newest reports in front; a
  \<^verbatim>\<open>blpop\<close> that times out is \<^verbatim>\<open>None\<close>.
\<close>

record queue_item =
  qi_execution :: int
  qi_task :: ustr
  qi_priority :: ustr
  qi_status :: ustr
  qi_attempt :: int
  qi_retry :: int
  qi_max_retry :: int
  qi_created :: int
  qi_payload :: json

record queue_report =
  qr_execution :: int
  qr_task :: ustr
  qr_priority :: ustr
  qr_status :: ustr
  qr_attempt :: int
  qr_retry :: int
  qr_max_retry :: int
  qr_message :: ustr
  qr_created :: int
  qr_updated :: int

record brain_queue =
  q_high :: "queue_item list"
  q_normal :: "queue_item list"
  q_low :: "queue_item list"
  q_legacy :: "queue_item list"
  q_status :: "int \<rightharpoonup> queue_report"
  q_recent :: "queue_report list"

definition empty_queue :: brain_queue where
  "empty_queue = \<lparr>q_high = [], q_normal = [], q_low = [], q_legacy = [], q_status = Map.empty, q_recent = []\<rparr>"

datatype queue_name = HighQueue | NormalQueue | LowQueue

definition queue_name_for_priority :: "ustr \<Rightarrow> queue_name" where
  "queue_name_for_priority priority =
     (let clean = lower (if priority = [] then asc ''normal'' else priority)
      in if clean = asc ''high'' then HighQueue else if clean = asc ''low'' then LowQueue else NormalQueue)"

fun rpush :: "queue_name \<Rightarrow> queue_item \<Rightarrow> brain_queue \<Rightarrow> brain_queue" where
  "rpush HighQueue it q = q\<lparr>q_high := q_high q @ [it]\<rparr>"
| "rpush NormalQueue it q = q\<lparr>q_normal := q_normal q @ [it]\<rparr>"
| "rpush LowQueue it q = q\<lparr>q_low := q_low q @ [it]\<rparr>"

definition update_queue_status :: "int \<Rightarrow> queue_item \<Rightarrow> ustr \<Rightarrow> ustr \<Rightarrow> brain_queue \<Rightarrow> brain_queue" where
  "update_queue_status now it status message q =
     (let data = \<lparr>qr_execution = qi_execution it,
          qr_task = (if qi_task it = [] then asc ''brain-'' @ int_text (qi_execution it) else qi_task it),
          qr_priority = qi_priority it, qr_status = status, qr_attempt = qi_attempt it,
          qr_retry = qi_retry it, qr_max_retry = qi_max_retry it, qr_message = message,
          qr_created = qi_created it, qr_updated = now\<rparr>
      in q\<lparr>q_status := (q_status q)(qi_execution it \<mapsto> data), q_recent := take 200 (data # q_recent q)\<rparr>)"

definition enqueue_execution ::
  "int \<Rightarrow> int \<Rightarrow> ustr \<Rightarrow> ustr \<Rightarrow> int \<Rightarrow> json \<Rightarrow> brain_queue \<Rightarrow> queue_item \<times> brain_queue"
where
  "enqueue_execution now execution_id task_id priority max_retry payload q =
     (let it = \<lparr>qi_execution = execution_id,
          qi_task = (if task_id = [] then asc ''brain-'' @ int_text execution_id else task_id),
          qi_priority = priority, qi_status = asc ''waiting'', qi_attempt = 0, qi_retry = 0,
          qi_max_retry = max_retry, qi_created = now,
          qi_payload = (if truthy payload then payload else JObj [])\<rparr>
      in (it, update_queue_status now it (asc ''waiting'') (asc ''Brain execution queued'')
                (rpush (queue_name_for_priority priority) it q)))"

definition dequeue_execution :: "brain_queue \<Rightarrow> (queue_item \<times> brain_queue) option" where
  "dequeue_execution q =
     (case q_high q of
        it # rest \<Rightarrow> Some (it, q\<lparr>q_high := rest\<rparr>)
      | [] \<Rightarrow> (case q_normal q of
          it # rest \<Rightarrow> Some (it, q\<lparr>q_normal := rest\<rparr>)
        | [] \<Rightarrow> (case q_low q of
            it # rest \<Rightarrow> Some (it, q\<lparr>q_low := rest\<rparr>)
          | [] \<Rightarrow> None)))"

definition requeue_execution :: "int \<Rightarrow> queue_item \<Rightarrow> ustr \<Rightarrow> brain_queue \<Rightarrow> queue_item \<times> brain_queue" where
  "requeue_execution now it message q =
     (let it' = it\<lparr>qi_attempt := qi_attempt it + 1, qi_retry := qi_attempt it + 1,
                   qi_status := asc ''waiting'', qi_created := now\<rparr>
      in (it', update_queue_status now it' (asc ''retrying'') message
                 (rpush (queue_name_for_priority (qi_priority it')) it' q)))"

record queue_counts =
  c_waiting :: int
  c_running :: int
  c_success :: int
  c_failed :: int
  c_timeout :: int
  c_retrying :: int
  c_recent :: "queue_report list"

text \<open>\<^verbatim>\<open>get_queue_status\<close>: what waits in the lists, and the newest reports counted by status.\<close>

definition get_queue_status :: "int \<Rightarrow> brain_queue \<Rightarrow> queue_counts" where
  "get_queue_status limit q =
     (let waiting = int (length (q_high q) + length (q_normal q) + length (q_low q) + length (q_legacy q));
          last = (if 0 \<le> limit - 1 then limit - 1 else 0);
          rows = take (nat (last + 1)) (q_recent q);
          count = (\<lambda>s. int (length (filter (\<lambda>r. qr_status r = s) rows)))
      in \<lparr>c_waiting = waiting, c_running = count (asc ''running''), c_success = count (asc ''success''),
          c_failed = count (asc ''failed''), c_timeout = count (asc ''timeout''),
          c_retrying = count (asc ''retrying''), c_recent = rows\<rparr>)"

section \<open>The queue is a first-in first-out queue for each priority\<close>

text \<open>The abstract content: the waiting executions in the order they will be handed out.\<close>

definition waiting :: "brain_queue \<Rightarrow> queue_item list" where
  "waiting q = q_high q @ q_normal q @ q_low q"

fun queue_of :: "queue_name \<Rightarrow> brain_queue \<Rightarrow> queue_item list" where
  "queue_of HighQueue q = q_high q"
| "queue_of NormalQueue q = q_normal q"
| "queue_of LowQueue q = q_low q"

locale priority_fifo =
  fixes push :: "'p \<Rightarrow> 'i \<Rightarrow> 'q \<Rightarrow> 'q"
    and pop :: "'q \<Rightarrow> ('i \<times> 'q) option"
    and lane :: "'p \<Rightarrow> 'q \<Rightarrow> 'i list"
    and content :: "'q \<Rightarrow> 'i list"
  assumes push_lane: "lane p (push p' i q) = (if p = p' then lane p q @ [i] else lane p q)"
    and pop_content: "pop q = (case content q of [] \<Rightarrow> None | i # rest \<Rightarrow> map_option (\<lambda>x. (i, snd x)) (pop q))"
    and pop_rest: "pop q = Some (i, q') \<Longrightarrow> content q = i # content q'"
    and push_content: "mset (content (push p i q)) = mset (content q) + {#i#}"
begin

lemma pop_empty: "content q = [] \<Longrightarrow> pop q = None"
  by (simp add: pop_content [of q])

lemma pop_size: "pop q = Some (i, q') \<Longrightarrow> size (mset (content q)) = Suc (size (mset (content q')))"
  by (simp add: pop_rest)

lemma push_pop_conserves:
  "pop (push p i q) = Some (j, q') \<Longrightarrow> mset (content q) + {#i#} = mset (content q') + {#j#}"
  using push_content [of p i q] by (simp add: pop_rest)

end

interpretation brain_fifo: priority_fifo rpush dequeue_execution queue_of waiting
proof
  show "queue_of p (rpush p' i q) = (if p = p' then queue_of p q @ [i] else queue_of p q)" for p p' i q
    by (cases p; cases p') simp_all
  show "dequeue_execution q = (case waiting q of [] \<Rightarrow> None
      | i # rest \<Rightarrow> map_option (\<lambda>x. (i, snd x)) (dequeue_execution q))" for q
    by (auto simp: dequeue_execution_def waiting_def split: list.splits)
  show "waiting q = i # waiting q'" if "dequeue_execution q = Some (i, q')" for q i q'
    using that by (auto simp: dequeue_execution_def waiting_def split: list.splits)
  show "mset (waiting (rpush p i q)) = mset (waiting q) + {#i#}" for p i q
    by (cases p) (simp_all add: waiting_def)
qed

lemma dequeue_None: "dequeue_execution q = None \<longleftrightarrow> waiting q = []"
  by (auto simp: dequeue_execution_def waiting_def split: list.splits)

lemma update_queue_status_simps [simp]:
  "waiting (update_queue_status now it s m q) = waiting q"
  "queue_of p (update_queue_status now it s m q) = queue_of p q"
  "q_legacy (update_queue_status now it s m q) = q_legacy q"
  by (cases p; simp add: update_queue_status_def waiting_def Let_def)+

lemma recent_bounded:
  "length (q_recent (update_queue_status now it s m q)) \<le> 200"
  by (simp add: update_queue_status_def Let_def)

lemma rpush_recent [simp]: "q_recent (rpush p it q) = q_recent q" "q_status (rpush p it q) = q_status q"
  by (cases p; simp)+

lemma dequeue_recent: "dequeue_execution q = Some (it, q') \<Longrightarrow> q_recent q' = q_recent q"
  by (auto simp: dequeue_execution_def split: list.splits)

lemma reported_status:
  "\<exists>r. q_status (update_queue_status now it s m q) (qi_execution it) = Some r \<and> qr_status r = s"
  by (simp add: update_queue_status_def Let_def)

text \<open>
  The queue loses nothing and keeps the order. A queued execution is the last of its
  priority's list, the other lists stay, and an item handed out is the front of the first
  non-empty list, the rest staying as it was.
\<close>

theorem queue_is_priority_fifo:
  assumes "enqueue_execution now i task prio m payload q = (it, q1)"
  shows "queue_of p q1 = queue_of p q @ (if p = queue_name_for_priority prio then [it] else [])
    \<and> qi_execution it = i
    \<and> (case dequeue_execution q1 of None \<Rightarrow> False | Some (front, q2) \<Rightarrow> waiting q1 = front # waiting q2)"
proof -
  let ?lane = "queue_name_for_priority prio"
  from assms have it: "qi_execution it = i"
    and q1: "waiting q1 = waiting (rpush ?lane it q)" "queue_of p q1 = queue_of p (rpush ?lane it q)"
    by (auto simp: enqueue_execution_def Let_def)
  have "it \<in># mset (waiting q1)"
    by (simp only: q1 brain_fifo.push_content) simp
  then have "dequeue_execution q1 \<noteq> None"
    using brain_fifo.push_content [of ?lane it q] by (auto simp: dequeue_None)
  then obtain front q2 where pop: "dequeue_execution q1 = Some (front, q2)" by auto
  then have "waiting q1 = front # waiting q2" by (rule brain_fifo.pop_rest)
  with pop it q1 show ?thesis by (simp add: brain_fifo.push_lane)
qed

theorem queue_is_priority_fifo_witness:
  "waiting (snd (enqueue_execution 0 7 [] (asc ''HIGH'') 3 JNull
      (snd (enqueue_execution 0 8 [] (asc ''low'') 3 JNull empty_queue)))) \<noteq> []"
  using queue_is_priority_fifo [where p = HighQueue and now = 0 and i = 7 and task = "[]"
      and prio = "asc ''HIGH''" and m = 3 and payload = JNull
      and q = "snd (enqueue_execution 0 8 [] (asc ''low'') 3 JNull empty_queue)", OF surjective_pairing]
  by (auto split: option.splits)

end
