(* ===== verification/Brain_Plan.thy ===== *)
theory Brain_Plan
  imports Brain_Queue
begin

text \<open>
  Planning and approving an execution: \<^verbatim>\<open>backend/brain_execution/planner.py\<close> and the enqueueing
  of \<^verbatim>\<open>executor.py\<close>. An operation returns the world it commits; where the code raises
  (a transition outside the table) the answer is the error and the request's changes are rolled
  back. The approval record's Chinese reason is kept as its text, the answer of a request as the
  fields its caller reads.
\<close>

record brain_world =
  w_db :: brain_db
  w_queue :: brain_queue

section \<open>The approval decision\<close>

record decision =
  dc_blocked :: bool
  dc_allowed :: bool
  dc_reason :: ustr
  dc_risk :: ustr

definition approval_decision :: "ustr \<Rightarrow> bool \<Rightarrow> bool \<Rightarrow> decision" where
  "approval_decision risk_level boss_confirm security_audited =
     (let risk = clean_text (if risk_level = [] then asc ''low'' else risk_level) in
      if \<not> (boss_confirm \<and> security_audited)
      then \<lparr>dc_blocked = True, dc_allowed = False,
            dc_reason = [0x42, 0x72, 0x61, 0x69, 0x6E, 0x20, 0x52, 0x75, 0x6E, 0x74, 0x69, 0x6D, 0x65, 0x20, 0x56, 0x32, 0x20, 0x6267, 0x884C, 0x5FC5, 0x987B, 0x8001, 0x677F, 0x786E, 0x8BA4, 0x548C, 0x5929, 0x76D1, 0x5BA1, 0x6838], dc_risk = risk\<rparr>
      else \<lparr>dc_blocked = False, dc_allowed = True,
            dc_reason = [0x8001, 0x677F, 0x786E, 0x8BA4, 0x548C, 0x5929, 0x76D1, 0x5BA1, 0x6838, 0x5747, 0x5DF2, 0x5B8C, 0x6210], dc_risk = risk\<rparr>)"

definition decision_json :: "decision \<Rightarrow> json" where
  "decision_json d =
     JObj [(asc ''blocked'', JBool (dc_blocked d)), (asc ''allowed'', JBool (dc_allowed d)),
           (asc ''reason'', JStr (dc_reason d)), (asc ''risk_level'', JStr (dc_risk d))]"

text \<open>
  The contract of an approval decision, which the queueing and the worker rely on: it blocks
  unless the boss has confirmed and the audit has passed, and it allows exactly what it does not
  block.
\<close>

locale approval_contract =
  fixes decide :: "ustr \<Rightarrow> bool \<Rightarrow> bool \<Rightarrow> decision"
  assumes decide_blocked: "dc_blocked (decide risk boss audited) \<longleftrightarrow> \<not> (boss \<and> audited)"
    and decide_allowed: "dc_allowed (decide risk boss audited) \<longleftrightarrow> \<not> dc_blocked (decide risk boss audited)"
begin

lemma unblocked_confirmed: "\<not> dc_blocked (decide risk boss audited) \<Longrightarrow> boss \<and> audited"
  by (simp add: decide_blocked)

lemma blocked_whatever_risk: "dc_blocked (decide r b a) = dc_blocked (decide r' b a)"
  by (simp add: decide_blocked)

end

interpretation approval: approval_contract approval_decision
  by unfold_locales (simp_all add: approval_decision_def Let_def)

definition latest_approval :: "brain_db \<Rightarrow> int \<Rightarrow> approval_record option" where
  "latest_approval db i = last_by ap_id (filter (\<lambda>a. ap_execution a = i) (approvals db))"

text \<open>\<^verbatim>\<open>bool(approval and approval.boss_confirmed)\<close> and its twin, as one decision.\<close>

definition run_decision :: "brain_db \<Rightarrow> brain_run \<Rightarrow> decision" where
  "run_decision db run =
     (let approval = latest_approval db (r_id run)
      in approval_decision (r_risk run)
           (case approval of None \<Rightarrow> False | Some a \<Rightarrow> ap_boss a)
           (case approval of None \<Rightarrow> False | Some a \<Rightarrow> ap_audited a))"

section \<open>Analysing a goal\<close>

definition analyze_goal ::
  "(ustr \<Rightarrow> ustr) \<Rightarrow> ustr \<Rightarrow> ustr option \<Rightarrow> brain_db \<Rightarrow> brain_error + (int \<times> brain_db)"
where
  "analyze_goal digest goal created_by db =
     (let graph = build_task_graph digest goal;
          run = new_run (next_id db) (tg_goal graph) (tg_risk graph) (tg_approval graph)
                  (take 100 (clean_opt created_by));
          db1 = db\<lparr>runs := row_add run (runs db), next_id := next_id db + 1\<rparr>
      in case transition_run db1 run ANALYZED None
                (Some (JObj [(asc ''goal'', JStr (tg_goal graph)), (asc ''task_type'', JStr (tg_type graph))])) of
           Inl e \<Rightarrow> Inl e
         | Inr (run', db2) \<Rightarrow>
             Inr (r_id run',
               write_execution_log db2 run' (asc ''goal_analyzed'') (state_value ANALYZED) None None None
                 (Some (JObj [(asc ''task_type'', JStr (tg_type graph)), (asc ''risk_level'', JStr (tg_risk graph)),
                              (asc ''dry_run'', JBool True)])) None))"

section \<open>Creating a plan\<close>

definition plan_node_row :: "int \<Rightarrow> int \<Rightarrow> graph_node \<Rightarrow> brain_node" where
  "plan_node_row i run_id node =
     \<lparr>n_id = i, n_graph = asc ''run-'' @ int_text run_id, n_execution = run_id, n_node = gn_id node,
      n_name = gn_name node, n_type = gn_type node, n_employee = gn_employee node,
      n_employee_name = gn_employee_name node, n_role = gn_role node, n_goal = gn_goal node,
      n_tools = gn_tools node, n_tool = (case gn_tools node of [] \<Rightarrow> None | t # _ \<Rightarrow> Some t),
      n_risk = gn_risk node, n_approval = gn_approval node, n_cost = gn_cost node,
      n_order = gn_order node, n_status = state_value WAIT_APPROVAL\<rparr>"

definition plan_tool_call :: "task_graph \<Rightarrow> int \<Rightarrow> bool \<Rightarrow> bool \<Rightarrow> graph_node \<Rightarrow> ustr \<Rightarrow> brain_db \<Rightarrow> brain_db" where
  "plan_tool_call graph run_id boss audited node tool_name db =
     (let check = check_route_permission (tool_tables db) (gn_employee node) tool_name boss audited;
          risk = a_risk (rc_access check);
          call = \<lparr>tc_id = next_id db, tc_execution = run_id, tc_node = gn_id node,
            tc_employee = gn_employee node, tc_tool = tool_name,
            tc_request = to_json (JObj [(asc ''goal'', JStr (tg_goal graph)), (asc ''node_id'', JStr (gn_id node))]),
            tc_response = to_json (JObj [(asc ''mode'', JStr (asc ''simulation'')), (asc ''dry_run'', JBool True)]),
            tc_permission = check, tc_risk = clean_text (if risk = [] then gn_risk node else risk),
            tc_dry_run = True,
            tc_status = (if allowed (rc_access check) then asc ''allowed'' else asc ''denied'')\<rparr>
      in db\<lparr>calls := row_add call (calls db), next_id := next_id db + 1\<rparr>)"

definition plan_node :: "task_graph \<Rightarrow> int \<Rightarrow> bool \<Rightarrow> bool \<Rightarrow> graph_node \<Rightarrow> brain_db \<Rightarrow> brain_db" where
  "plan_node graph run_id boss audited node db =
     fold (plan_tool_call graph run_id boss audited node) (gn_tools node)
       (db\<lparr>nodes := row_add (plan_node_row (next_id db) run_id node) (nodes db), next_id := next_id db + 1\<rparr>)"

definition plan_edge :: "int \<Rightarrow> graph_edge \<Rightarrow> brain_db \<Rightarrow> brain_db" where
  "plan_edge run_id edge db =
     db\<lparr>edges := row_add \<lparr>ed_id = next_id db, ed_execution = run_id, ed_source = ge_source edge,
          ed_target = ge_target edge, ed_type = ge_type edge, ed_description = ge_description edge\<rparr> (edges db),
        next_id := next_id db + 1\<rparr>"

text \<open>The rows of an earlier plan of the same execution are deleted first.\<close>

definition drop_plan :: "int \<Rightarrow> brain_db \<Rightarrow> brain_db" where
  "drop_plan run_id db =
     db\<lparr>nodes := filter (\<lambda>n. n_execution n \<noteq> run_id) (nodes db),
        edges := filter (\<lambda>e. ed_execution e \<noteq> run_id) (edges db),
        calls := filter (\<lambda>c. tc_execution c \<noteq> run_id) (calls db)\<rparr>"

definition add_approval :: "int \<Rightarrow> ustr \<Rightarrow> ustr \<Rightarrow> ustr \<Rightarrow> bool \<Rightarrow> bool \<Rightarrow> brain_db \<Rightarrow> brain_db" where
  "add_approval run_id user verdict why boss audited db =
     db\<lparr>approvals := row_add \<lparr>ap_id = next_id db, ap_execution = run_id, ap_user = user,
          ap_decision = verdict, ap_reason = why, ap_boss = boss, ap_audited = audited\<rparr> (approvals db),
        next_id := next_id db + 1\<rparr>"

definition plan_reason :: ustr where
  "plan_reason = asc ''Brain Runtime V2 requires boss confirmation and security audit before execution''"

text \<open>The run the plan is for: the given one with the new goal, or a new one, brought to \<open>ANALYZED\<close>.\<close>

definition plan_run ::
  "task_graph \<Rightarrow> int option \<Rightarrow> ustr option \<Rightarrow> brain_db \<Rightarrow> brain_error + (brain_run \<times> brain_db)"
where
  "plan_run graph execution_id created_by db =
     (let data = Some (JObj [(asc ''goal'', JStr (tg_goal graph)), (asc ''task_type'', JStr (tg_type graph))]);
          found = (case execution_id of None \<Rightarrow> None | Some i \<Rightarrow> if i = 0 then None else get_run db i)
      in case found of
           Some run \<Rightarrow>
             let run1 = run\<lparr>r_goal := tg_goal graph, r_risk := tg_risk graph, r_approval := True\<rparr>;
                 db1 = save_run run1 db
             in if r_status run1 = state_value CREATED
                then transition_run db1 run1 ANALYZED None data
                else Inr (run1, db1)
         | None \<Rightarrow>
             let run1 = new_run (next_id db) (tg_goal graph) (tg_risk graph) True
                          (take 100 (clean_opt created_by))
             in transition_run (db\<lparr>runs := row_add run1 (runs db), next_id := next_id db + 1\<rparr>)
                  run1 ANALYZED None data)"

definition create_plan ::
  "(ustr \<Rightarrow> ustr) \<Rightarrow> ustr \<Rightarrow> int option \<Rightarrow> ustr option \<Rightarrow> bool \<Rightarrow> bool \<Rightarrow> brain_db \<Rightarrow> brain_error + (int \<times> brain_db)"
where
  "create_plan digest goal execution_id created_by boss_confirm security_audited db =
     (let graph = build_task_graph digest goal;
          approval = approval_decision (tg_risk graph) boss_confirm security_audited in
      case plan_run graph execution_id created_by db of
        Inl e \<Rightarrow> Inl e
      | Inr (run1, db1) \<Rightarrow>
      case transition_run db1 run1 PLANNED None
             (Some (JObj [(asc ''node_count'', JInt (int (length (tg_nodes graph)))),
                          (asc ''edge_count'', JInt (int (length (tg_edges graph))))])) of
        Inl e \<Rightarrow> Inl e
      | Inr (run2, db2) \<Rightarrow>
      case transition_run db2 run2 WAIT_APPROVAL None (Some (JObj [(asc ''reason'', JStr plan_reason)])) of
        Inl e \<Rightarrow> Inl e
      | Inr (run3, db3) \<Rightarrow>
          let i = r_id run3;
              db4 = drop_plan i db3;
              db5 = fold (plan_node graph i boss_confirm security_audited) (tg_nodes graph) db4;
              db6 = fold (plan_edge i) (tg_edges graph) db5;
              db7 = add_approval i (take 100 (clean_opt created_by)) (asc ''pending'') plan_reason
                      boss_confirm security_audited db6;
              db8 = write_execution_log db7 run3 (asc ''plan_generated'') (r_status run3) None None None
                      (Some (JObj [(asc ''approval'', decision_json approval), (asc ''dry_run'', JBool True),
                                   (asc ''state'', JStr (r_status run3))])) None
          in Inr (i, db8))"

section \<open>Approving and queueing\<close>

record approve_answer =
  aa_status :: ustr
  aa_decision :: ustr
  aa_approval :: decision

text \<open>\<^verbatim>\<open>approve_run\<close>: no answer where the execution is unknown.\<close>

definition approve_run ::
  "brain_db \<Rightarrow> int \<Rightarrow> ustr option \<Rightarrow> ustr \<Rightarrow> ustr option \<Rightarrow> bool \<Rightarrow> bool
     \<Rightarrow> brain_error + (approve_answer option \<times> brain_db)"
where
  "approve_run db execution_id approve_user verdict why boss_confirm security_audited =
     (case get_run db execution_id of
        None \<Rightarrow> Inr (None, db)
      | Some run \<Rightarrow>
          let approval = approval_decision (r_risk run) boss_confirm security_audited;
              asked = clean_text (if verdict = [] then asc ''approved'' else verdict);
              final = (if dc_blocked approval then asc ''blocked'' else asked);
              moved = (if dc_blocked approval then
                         let run' = run\<lparr>r_status := state_value WAIT_APPROVAL\<rparr> in Inr (run', save_run run' db)
                       else if asked = asc ''approved'' then
                         transition_run db run APPROVED None (Some (JObj [(asc ''approved_by'', jopt approve_user)]))
                       else Inr (run, db))
          in case moved of
               Inl e \<Rightarrow> Inl e
             | Inr (run1, db1) \<Rightarrow>
                 let reason_text = clean_text (case why of None \<Rightarrow> dc_reason approval
                                    | Some w \<Rightarrow> (if w = [] then dc_reason approval else w));
                     db2 = add_approval (r_id run1) (take 100 (clean_opt approve_user)) final reason_text
                             boss_confirm security_audited db1;
                     db3 = write_execution_log db2 run1 (asc ''approval_recorded'') final None None None
                             (Some (JObj [(asc ''approval'', decision_json approval)])) None
                 in Inr (Some \<lparr>aa_status = r_status run1, aa_decision = final, aa_approval = approval\<rparr>, db3))"

definition item_json :: "queue_item \<Rightarrow> json" where
  "item_json it =
     JObj [(asc ''execution_id'', JInt (qi_execution it)), (asc ''task_id'', JStr (qi_task it)),
           (asc ''priority'', JStr (qi_priority it)), (asc ''status'', JStr (qi_status it)),
           (asc ''attempt'', JInt (qi_attempt it)), (asc ''retry_count'', JInt (qi_retry it)),
           (asc ''max_retry'', JInt (qi_max_retry it)), (asc ''created_at'', JInt (qi_created it)),
           (asc ''payload'', qi_payload it)]"

datatype start_answer = StartMissing | StartBlocked decision | StartQueued ustr queue_item

text \<open>
  \<^verbatim>\<open>enqueue_approved_execution\<close>. The item is pushed to Redis before the database commit; nothing
  after the push raises.
\<close>

definition enqueue_approved_execution ::
  "int \<Rightarrow> int \<Rightarrow> brain_world \<Rightarrow> brain_error + (start_answer \<times> brain_world)"
where
  "enqueue_approved_execution now execution_id w =
     (let db = w_db w in
      case get_run db execution_id of
        None \<Rightarrow> Inr (StartMissing, w)
      | Some run \<Rightarrow>
          let decision = run_decision db run in
          if dc_blocked decision then
            let run1 = run\<lparr>r_status := state_value WAIT_APPROVAL\<rparr>;
                db1 = write_execution_log (save_run run1 db) run1 (asc ''queue_blocked'') (asc ''blocked'') None None None
                        (Some (JObj [(asc ''approval'', decision_json decision)])) None
            in Inr (StartBlocked decision, w\<lparr>w_db := db1\<rparr>)
          else
            case (if r_status run \<noteq> state_value QUEUED
                  then transition_run db run QUEUED None
                         (Some (JObj [(asc ''queue'', JStr (asc ''brain_execution_queue'')), (asc ''priority'', JStr (r_priority run))]))
                  else Inr (run, db)) of
              Inl e \<Rightarrow> Inl e
            | Inr (run1, db1) \<Rightarrow>
                let run2 = run1\<lparr>r_queued_at := Some now\<rparr>;
                    task = (case r_task_id run2 of None \<Rightarrow> asc ''brain-'' @ int_text (r_id run2)
                              | Some t \<Rightarrow> (if t = [] then asc ''brain-'' @ int_text (r_id run2) else t));
                    prio = (if r_priority run2 = [] then asc ''normal'' else r_priority run2);
                    (it, q) = enqueue_execution now (r_id run2) task prio (r_max_retry run2)
                                (JObj [(asc ''timeout_seconds'', JInt (r_timeout run2))]) (w_queue w);
                    db2 = write_execution_log (save_run run2 db1) run2 (asc ''queued_for_worker'') (state_value QUEUED)
                            None None None (Some (JObj [(asc ''queue_item'', item_json it)])) None
                in Inr (StartQueued (r_status run2) it, \<lparr>w_db = db2, w_queue = q\<rparr>))"

end
