(* ===== verification/Brain_Worker.thy ===== *)
theory Brain_Worker
  imports Brain_Plan
begin

text \<open>
  The queue worker of \<^verbatim>\<open>backend/brain_execution/worker.py\<close>: it takes an item, checks that the
  execution is queued and confirmed, runs its steps in order (the steps are simulated), and on
  failure requeues it until the item's retries are spent. The worker catches what
  \<^verbatim>\<open>execute_approved_nodes\<close> raises and goes on with the changes made so far, so a raised
  exception carries the run and the database of that moment.
\<close>

section \<open>Records the worker writes\<close>

definition update_worker_status ::
  "int \<Rightarrow> ustr \<Rightarrow> ustr \<Rightarrow> int option \<Rightarrow> ustr option \<Rightarrow> ustr option \<Rightarrow> int \<Rightarrow> int \<Rightarrow> int \<Rightarrow> int \<Rightarrow> brain_db \<Rightarrow> brain_db"
where
  "update_worker_status now worker_id status execution_id node_id task processed success failed timed_out db =
     (let known = row_get wk_id worker_id (workers db);
          old = (case known of Some r \<Rightarrow> r
            | None \<Rightarrow> \<lparr>wk_id = worker_id, wk_status = asc ''idle'', wk_execution = None, wk_node = None,
                wk_task = None, wk_heartbeat = now, wk_processed = 0, wk_success = 0, wk_failed = 0,
                wk_timeout = 0\<rparr>);
          table = (case known of Some _ \<Rightarrow> workers db | None \<Rightarrow> row_add old (workers db));
          row = old\<lparr>wk_status := status, wk_execution := execution_id, wk_node := node_id,
            wk_task := task, wk_heartbeat := now, wk_processed := wk_processed old + processed,
            wk_success := wk_success old + success, wk_failed := wk_failed old + failed,
            wk_timeout := wk_timeout old + timed_out\<rparr>
      in db\<lparr>workers := row_put wk_id row table\<rparr>)"

definition create_execution_context :: "brain_db \<Rightarrow> brain_run \<Rightarrow> brain_node \<Rightarrow> brain_run \<times> brain_db" where
  "create_execution_context db run node =
     (let data = JObj [(asc ''employee_name'', JStr (n_employee_name node)), (asc ''priority'', JStr (r_priority run))];
          context = \<lparr>cx_id = next_id db, cx_execution = r_id run, cx_node = n_node node,
            cx_employee = n_employee node, cx_task = n_goal node,
            cx_input = JObj [(asc ''goal'', JStr (r_goal run)), (asc ''node'', JStr (n_node node))],
            cx_permissions = JObj [(asc ''tool_name'', jopt (n_tool node)), (asc ''approved'', JBool True),
                                   (asc ''mode'', JStr (asc ''simulation''))],
            cx_risk = n_risk node,
            cx_history = JObj [(asc ''summary'', JStr (asc ''no external lookup; internal execution history placeholder''))],
            cx_approval_status = r_status run, cx_data = data\<rparr>;
          run' = run\<lparr>r_employee := Some (n_employee node), r_context := Some data\<rparr>
      in (run', (save_run run' db)\<lparr>contexts := row_add context (contexts db), next_id := next_id db + 1\<rparr>))"

definition create_recovery_record ::
  "brain_db \<Rightarrow> brain_run \<Rightarrow> ustr \<Rightarrow> ustr \<Rightarrow> int \<Rightarrow> int \<Rightarrow> ustr \<Rightarrow> brain_db"
where
  "create_recovery_record db run failure message retry_count max_retry status =
     (let record = \<lparr>rv_id = next_id db, rv_execution = r_id run, rv_node = r_node run,
          rv_failure = failure, rv_error = clean_text message, rv_retry = retry_count,
          rv_max_retry = max_retry,
          rv_action = (if status = asc ''requeued'' then asc ''retry'' else asc ''manual_review''),
          rv_status = status\<rparr>
      in db\<lparr>recoveries := row_add record (recoveries db), next_id := next_id db + 1\<rparr>)"

section \<open>Running the steps\<close>

datatype worker_exception = ExecutionTimeout ustr | ExecutionFailure ustr

definition save_node :: "brain_node \<Rightarrow> brain_db \<Rightarrow> brain_db" where
  "save_node node db = db\<lparr>nodes := row_put n_id node (nodes db)\<rparr>"

definition execute_node :: "int \<Rightarrow> ustr \<Rightarrow> brain_node \<Rightarrow> brain_run \<times> brain_db \<Rightarrow> brain_run \<times> brain_db" where
  "execute_node now worker_id node rd =
     (let (run, db) = rd;
          run1 = run\<lparr>r_node := Some (n_node node)\<rparr>;
          db1 = update_worker_status now worker_id (asc ''running'') (Some (r_id run1)) (Some (n_node node))
                  (Some (n_goal node)) 0 0 0 0 (save_run run1 db);
          (run2, db2) = create_execution_context db1 run1 node;
          running = node\<lparr>n_status := state_value RUNNING\<rparr>;
          db3 = write_execution_log (save_node running db2) run2 (asc ''worker_node_started'') (state_value RUNNING)
                  (Some (n_node node)) (Some (n_employee node))
                  (Some (JObj [(asc ''task_goal'', JStr (n_goal node)), (asc ''tool_name'', jopt (n_tool node))]))
                  (Some (JObj [(asc ''mode'', JStr (asc ''approved_tool'')), (asc ''simulation'', JBool True)])) None;
          finished = node\<lparr>n_status := state_value SUCCESS\<rparr>;
          db4 = write_execution_log (save_node finished db3) run2 (asc ''worker_node_completed'') (state_value SUCCESS)
                  (Some (n_node node)) (Some (n_employee node)) None
                  (Some (JObj [(asc ''result'', JStr (clean_text (n_name node) @ asc '' approved safe task completed'')),
                               (asc ''simulation'', JBool True)])) None
      in (run2, db4))"

definition run_nodes :: "brain_db \<Rightarrow> int \<Rightarrow> brain_node list" where
  "run_nodes db i = rows_by (\<lambda>n. (n_order n, n_id n)) (\<lambda>n. n_execution n = i) (nodes db)"

definition error_text :: "brain_error \<Rightarrow> ustr" where
  "error_text e =
     (case e of InvalidTransition s t \<Rightarrow>
        asc ''invalid brain execution transition: '' @ state_value s @ asc '' -> '' @ state_value t)"

definition execute_approved_nodes ::
  "int \<Rightarrow> brain_db \<Rightarrow> brain_run \<Rightarrow> queue_item \<Rightarrow> ustr \<Rightarrow> (worker_exception \<times> brain_run \<times> brain_db) + brain_db"
where
  "execute_approved_nodes now db run it worker_id =
     (let payload = qi_payload it in
      case transition_run db run RUNNING (Some (asc ''worker_started''))
             (Some (JObj [(asc ''queue'', JStr (asc ''brain_execution_queue''))])) of
        Inl e \<Rightarrow> Inl (ExecutionFailure (error_text e), run, db)
      | Inr (run1, db1) \<Rightarrow>
          let run2 = run1\<lparr>r_worker := Some worker_id, r_started := Some now\<rparr>;
              db2 = save_run run2 db1 in
          if truthy (jget (asc ''simulate_timeout'') payload)
          then Inl (ExecutionTimeout (asc ''brain execution worker timeout''), run2, db2)
          else if truthy (jget (asc ''simulate_failure'') payload)
          then Inl (ExecutionFailure (asc ''brain execution worker simulated failure''), run2, db2)
          else
            let rows = run_nodes db2 (r_id run2);
                (run3, db3) = fold (execute_node now worker_id) rows (run2, db2);
                completed = JArr (map (\<lambda>n. JStr (n_node n)) rows);
                run4 = run3\<lparr>r_node := None, r_finished := Some now\<rparr>;
                db4 = save_run run4 db3
            in case transition_run db4 run4 SUCCESS None (Some (JObj [(asc ''completed_nodes'', completed)])) of
                 Inl e \<Rightarrow> Inl (ExecutionFailure (error_text e), run4, db4)
               | Inr (run5, db5) \<Rightarrow>
                   Inr (write_execution_log db5 run5 (asc ''worker_execution_completed'') (state_value SUCCESS)
                          None None None (Some (JObj [(asc ''completed_nodes'', completed)])) None))"

section \<open>Failure and retry\<close>

datatype worker_answer =
    EmptyQueue
  | ExecutionNotFound
  | NotQueued int
  | SecurityBlocked int decision
  | Retrying int ustr
  | Ended ustr int ustr
  | Completed int

definition handle_failure ::
  "int \<Rightarrow> brain_db \<Rightarrow> brain_run \<Rightarrow> queue_item \<Rightarrow> ustr \<Rightarrow> bool \<Rightarrow> ustr \<Rightarrow> brain_queue
     \<Rightarrow> brain_error + (worker_answer \<times> brain_world)"
where
  "handle_failure now db run it message timed_out worker_id q =
     (let attempt = qi_attempt it; max_retry = qi_max_retry it;
          status = (if timed_out then asc ''timeout'' else asc ''failed'');
          db1 = write_execution_log db run (if timed_out then asc ''worker_timeout'' else asc ''worker_failed'') status
                  None None None
                  (Some (JObj [(asc ''attempt'', JInt attempt), (asc ''max_retry'', JInt max_retry)])) (Some message) in
      if attempt < max_retry then
        let run1 = run\<lparr>r_retry := attempt + 1, r_last_error := Some (clean_text message)\<rparr>;
            db2 = save_run run1 db1 in
        case transition_run db2 run1 QUEUED (Some (asc ''worker_retry''))
               (Some (JObj [(asc ''attempt'', JInt (attempt + 1)), (asc ''max_retry'', JInt max_retry),
                            (asc ''timeout'', JBool timed_out)])) of
          Inl e \<Rightarrow> Inl e
        | Inr (run2, db3) \<Rightarrow>
            let db4 = create_recovery_record db3 run2 status message (attempt + 1) max_retry (asc ''requeued'');
                (it', q') = requeue_execution now it message q;
                db5 = update_worker_status now worker_id (asc ''idle'') None None None 0 0 0 0 db4
            in Inr (Retrying (r_id run2) message, \<lparr>w_db = db5, w_queue = q'\<rparr>)
      else
        case transition_run db1 run (if timed_out then TIMEOUT else FAILED)
               (Some (if timed_out then asc ''worker_timeout'' else asc ''worker_failed'')) None of
          Inl e \<Rightarrow> Inl e
        | Inr (run1, db2) \<Rightarrow>
            let run2 = run1\<lparr>r_error := Some (clean_text message), r_last_error := Some (clean_text message),
                  r_finished := Some now\<rparr>;
                db3 = create_recovery_record (save_run run2 db2) run2 status message attempt max_retry
                        (asc ''manual_review_required'');
                q' = update_queue_status now it status message q;
                db4 = update_worker_status now worker_id (asc ''idle'') None None None 1 0
                        (if timed_out then 0 else 1) (if timed_out then 1 else 0) db3
            in Inr (Ended status (r_id run2) message, \<lparr>w_db = db4, w_queue = q'\<rparr>))"

section \<open>Processing an item\<close>

definition process_execution_item ::
  "int \<Rightarrow> ustr \<Rightarrow> queue_item \<Rightarrow> brain_world \<Rightarrow> brain_error + (worker_answer \<times> brain_world)"
where
  "process_execution_item now worker_id it w =
     (let db = w_db w; q = w_queue w in
      case get_run db (qi_execution it) of
        None \<Rightarrow>
          Inr (ExecutionNotFound,
            w\<lparr>w_queue := update_queue_status now it (asc ''failed'') (asc ''execution not found'') q\<rparr>)
      | Some run \<Rightarrow>
          if normalize_state (r_status run) \<noteq> QUEUED then
            let q1 = update_queue_status now it (asc ''failed'') (asc ''execution is not approved: '' @ r_status run) q;
                db1 = write_execution_log db run (asc ''worker_blocked'') (asc ''blocked'') None None None
                        (Some (JObj [(asc ''reason'', JStr (asc ''execution_not_approved''))])) None
            in Inr (NotQueued (qi_execution it), \<lparr>w_db = db1, w_queue = q1\<rparr>)
          else
            let decision = run_decision db run in
            if dc_blocked decision then
              let run1 = run\<lparr>r_status := state_value WAIT_APPROVAL\<rparr>;
                  q1 = update_queue_status now it (asc ''failed'') (dc_reason decision) q;
                  db1 = write_execution_log (save_run run1 db) run1 (asc ''worker_security_blocked'') (asc ''blocked'')
                          None None None (Some (JObj [(asc ''approval'', decision_json decision)])) None
              in Inr (SecurityBlocked (qi_execution it) decision, \<lparr>w_db = db1, w_queue = q1\<rparr>)
            else
              let db1 = update_worker_status now worker_id (asc ''running'') (Some (r_id run)) None
                          (Some (r_goal run)) 0 0 0 0 db;
                  q1 = update_queue_status now it (asc ''running'') (asc ''worker claimed execution'') q in
              case execute_approved_nodes now db1 run it worker_id of
                Inl (ExecutionTimeout m, run2, db2) \<Rightarrow> handle_failure now db2 run2 it m True worker_id q1
              | Inl (ExecutionFailure m, run2, db2) \<Rightarrow> handle_failure now db2 run2 it m False worker_id q1
              | Inr db2 \<Rightarrow>
                  Inr (Completed (r_id run),
                    \<lparr>w_db = update_worker_status now worker_id (asc ''idle'') None None None 1 1 0 0 db2,
                     w_queue = update_queue_status now it (asc ''success'') (asc ''execution completed'') q1\<rparr>))"

definition process_next_execution ::
  "int \<Rightarrow> ustr \<Rightarrow> brain_world \<Rightarrow> brain_error + (worker_answer \<times> brain_world)"
where
  "process_next_execution now worker_id w =
     (let w1 = w\<lparr>w_db := update_worker_status now worker_id (asc ''idle'') None None None 0 0 0 0 (w_db w)\<rparr> in
      case dequeue_execution (w_queue w1) of
        None \<Rightarrow> Inr (EmptyQueue, w1)
      | Some (it, q) \<Rightarrow> process_execution_item now worker_id it (w1\<lparr>w_queue := q\<rparr>))"

section \<open>What the worker's records leave alone\<close>

lemma worker_status_simps [simp]:
  "runs (update_worker_status now w s e n t a b c d db) = runs db"
  "nodes (update_worker_status now w s e n t a b c d db) = nodes db"
  "approvals (update_worker_status now w s e n t a b c d db) = approvals db"
  "contexts (update_worker_status now w s e n t a b c d db) = contexts db"
  "recoveries (update_worker_status now w s e n t a b c d db) = recoveries db"
  "next_id (update_worker_status now w s e n t a b c d db) = next_id db"
  "get_run (update_worker_status now w s e n t a b c d db) i = get_run db i"
  by (simp_all add: update_worker_status_def Let_def get_run_def)

lemma recovery_record_simps [simp]:
  "runs (create_recovery_record db r f m a b s) = runs db"
  "nodes (create_recovery_record db r f m a b s) = nodes db"
  "contexts (create_recovery_record db r f m a b s) = contexts db"
  "approvals (create_recovery_record db r f m a b s) = approvals db"
  "next_id (create_recovery_record db r f m a b s) = next_id db + 1"
  by (simp_all add: create_recovery_record_def Let_def)

lemma save_node_simps [simp]:
  "runs (save_node n db) = runs db" "approvals (save_node n db) = approvals db"
  "contexts (save_node n db) = contexts db" "nodes (save_node n db) = row_put n_id n (nodes db)"
  "next_id (save_node n db) = next_id db"
  by (simp_all add: save_node_def)

lemma execution_context_simps:
  assumes "create_execution_context db run node = (run', db')"
  shows "r_id run' = r_id run" "r_status run' = r_status run" "runs db' = row_put r_id run' (runs db)"
    "nodes db' = nodes db" "approvals db' = approvals db" "next_id db' = next_id db + 1"
    "map cx_node (contexts db') = map cx_node (contexts db) @ [n_node node]"
  using assms by (auto simp: create_execution_context_def Let_def row_add_def)

lemma row_put_twice: "key a = key b \<Longrightarrow> row_put key b (row_put key a t) = row_put key b t"
  by (simp add: row_put_def comp_def)

lemma execute_node_simps:
  assumes "execute_node now wk node (run, db) = (run', db')"
  shows "r_id run' = r_id run" "r_status run' = r_status run"
    "runs db' = row_put r_id run' (runs db)"
    "nodes db' = row_put n_id (node\<lparr>n_status := state_value SUCCESS\<rparr>) (nodes db)"
    "approvals db' = approvals db"
    "map cx_node (contexts db') = map cx_node (contexts db) @ [n_node node]"
    "next_id db \<le> next_id db'"
  using assms
  by (auto simp: execute_node_def Let_def row_put_twice execution_context_simps split: prod.splits
      dest: execution_context_simps)

end
