(* ===== verification/Brain_Safety.thy ===== *)
theory Brain_Safety
  imports Brain_Worker
begin

text \<open>
  What the brain runtime guarantees: no execution is queued, run or finished without a recorded
  approval that carries both confirmations; the worker runs the steps of confirmed executions
  only, in order and all of them; retries are bounded. Also what it does not guarantee: a later
  rejection is ignored, and an unconfirmed approval call resets a finished execution.
\<close>

section \<open>The worker's run of the steps\<close>

lemma execute_nodes_fold:
  assumes "fold (execute_node now wk) rows (run, db) = (run', db')"
    and "runs db = row_put r_id run (runs db)"
  shows "r_id run' = r_id run \<and> r_status run' = r_status run \<and> runs db' = row_put r_id run' (runs db)
     \<and> approvals db' = approvals db \<and> next_id db \<le> next_id db'
     \<and> nodes db' = fold (\<lambda>n. row_put n_id (n\<lparr>n_status := state_value SUCCESS\<rparr>)) rows (nodes db)
     \<and> map cx_node (contexts db') = map cx_node (contexts db) @ map n_node rows"
  using assms
proof (induction rows arbitrary: run db)
  case Nil
  then show ?case by auto
next
  case (Cons n rows)
  obtain run1 db1 where one: "execute_node now wk n (run, db) = (run1, db1)" by fastforce
  note step = execute_node_simps [OF one]
  from Cons.prems(1) one have rest: "fold (execute_node now wk) rows (run1, db1) = (run', db')" by simp
  from step(1,3) have fix1: "runs db1 = row_put r_id run1 (runs db1)" by (simp add: row_put_twice)
  from Cons.IH [OF rest fix1] step show ?case by (auto simp: row_put_twice)
qed

text \<open>Writing every row of the execution once is writing the status into the rows of the execution.\<close>

lemma fold_put_nodes:
  assumes "distinct (map n_id t)" and "set rows \<subseteq> set t" and "distinct (map n_id rows)"
  shows "fold (\<lambda>n. row_put n_id (n\<lparr>n_status := s\<rparr>)) rows t =
         map (\<lambda>x. if n_id x \<in> n_id ` set rows then x\<lparr>n_status := s\<rparr> else x) t"
proof -
  have gen: "fold (\<lambda>n. row_put n_id (n\<lparr>n_status := s\<rparr>)) rows t' =
      map (\<lambda>x. if n_id x \<in> n_id ` set rows then x\<lparr>n_status := s\<rparr> else x) t'"
    if "\<And>x n. x \<in> set t' \<Longrightarrow> n \<in> set rows \<Longrightarrow> n_id x = n_id n \<Longrightarrow> x = n" for t'
    using that assms(3)
  proof (induction rows arbitrary: t')
    case Nil
    then show ?case by simp
  next
    case (Cons n rows)
    let ?t = "row_put n_id (n\<lparr>n_status := s\<rparr>) t'"
    have "x = m" if "x \<in> set ?t" "m \<in> set rows" "n_id x = n_id m" for x m
    proof -
      from in_row_put [OF that(1)] have "x \<in> set t'"
        using that(2,3) Cons.prems(2) by force
      with Cons.prems(1) that(2,3) show ?thesis by simp
    qed
    with Cons.IH [of ?t] Cons.prems have
      "fold (\<lambda>n. row_put n_id (n\<lparr>n_status := s\<rparr>)) rows ?t =
        map (\<lambda>x. if n_id x \<in> n_id ` set rows then x\<lparr>n_status := s\<rparr> else x) ?t" by simp
    also have "\<dots> = map (\<lambda>x. if n_id x \<in> n_id ` set (n # rows) then x\<lparr>n_status := s\<rparr> else x) t'"
      using Cons.prems by (auto simp: row_put_def)
    finally show ?case by simp
  qed
  show ?thesis
    using assms(1,2) by (intro gen) (metis eq_key_imp_eq_value in_set_zip distinct_map inj_onD subsetD)
qed

lemma queued_may_run [simp]: "RUNNING \<in> ALLOWED_TRANSITIONS QUEUED" by simp

text \<open>One run of the steps, once the execution has been found queued: where it raises, and what it leaves.\<close>

definition claimed_run :: "int \<Rightarrow> ustr \<Rightarrow> brain_run \<Rightarrow> brain_run" where
  "claimed_run now wk run =
     run\<lparr>r_status := state_value RUNNING, r_worker := Some wk, r_started := Some now\<rparr>"

definition simulated_outage :: "queue_item \<Rightarrow> bool" where
  "simulated_outage it \<longleftrightarrow> truthy (jget ((asc ''simulate_timeout'')) (qi_payload it)) \<or>
     truthy (jget ((asc ''simulate_failure'')) (qi_payload it))"

lemma execute_nodes_cases:
  assumes "normalize_state (r_status run) = QUEUED"
  obtains (outage) e db2 where "simulated_outage it"
      "execute_approved_nodes now db run it wk = Inl (e, claimed_run now wk run, db2)"
      "runs db2 = row_put r_id (claimed_run now wk run) (runs db)" "approvals db2 = approvals db"
      "nodes db2 = nodes db \<and> contexts db2 = contexts db" "next_id db \<le> next_id db2"
      "(\<exists>m. e = ExecutionTimeout m) \<longleftrightarrow> truthy (jget ((asc ''simulate_timeout'')) (qi_payload it))"
  | (complete) run5 db5 where "\<not> simulated_outage it"
      "execute_approved_nodes now db run it wk = Inr db5"
      "r_id run5 = r_id run" "r_status run5 = state_value SUCCESS"
      "runs db5 = row_put r_id run5 (runs db)" "approvals db5 = approvals db" "next_id db \<le> next_id db5"
      "nodes db5 = fold (\<lambda>n. row_put n_id (n\<lparr>n_status := state_value SUCCESS\<rparr>)) (run_nodes db (r_id run)) (nodes db)"
      "map cx_node (contexts db5) = map cx_node (contexts db) @ map n_node (run_nodes db (r_id run))"
proof -
  have "transition_ok (normalize_state (r_status run)) RUNNING"
    by (simp add: transition_ok_def assms(1))
  then obtain db1 where tr: "transition_run db run RUNNING (Some ((asc ''worker_started'')))
      (Some (JObj [((asc ''queue''), JStr ((asc ''brain_execution_queue'')))])) = Inr (run\<lparr>r_status := state_value RUNNING\<rparr>, db1)"
    by (rule transition_run_ok)
  note row = transition_run_row [OF tr]
  let ?run2 = "claimed_run now wk run"
  let ?db2 = "save_run ?run2 db1"
  have upd: "run\<lparr>r_status := state_value RUNNING\<rparr>\<lparr>r_worker := Some wk, r_started := Some now\<rparr> = ?run2"
    and id2: "r_id ?run2 = r_id run"
    by (simp_all add: claimed_run_def)
  have runs2: "runs ?db2 = row_put r_id ?run2 (runs db)"
    unfolding save_run_simps row(2) by (rule row_put_twice) (simp add: claimed_run_def)
  show thesis
  proof (cases "simulated_outage it")
    case True
    then obtain e where e: "execute_approved_nodes now db run it wk = Inl (e, ?run2, ?db2)"
      and "(\<exists>m. e = ExecutionTimeout m) \<longleftrightarrow> truthy (jget ((asc ''simulate_timeout'')) (qi_payload it))"
      by (cases "truthy (jget ((asc ''simulate_timeout'')) (qi_payload it))")
        (auto simp: execute_approved_nodes_def Let_def tr upd simulated_outage_def)
    note cause = this
    show thesis
    proof (rule outage [OF True e runs2])
      show "approvals ?db2 = approvals db" "nodes ?db2 = nodes db \<and> contexts ?db2 = contexts db"
        "next_id db \<le> next_id ?db2"
        by (simp_all add: row(3,4,7,9))
    qed (rule cause)
  next
    case False
    let ?rows = "run_nodes db (r_id run)"
    have rows: "run_nodes ?db2 (r_id ?run2) = ?rows"
      by (simp add: run_nodes_def row(3) id2)
    obtain run3 db3 where fold3: "fold (execute_node now wk) ?rows (?run2, ?db2) = (run3, db3)"
      by fastforce
    have fix2: "runs ?db2 = row_put r_id ?run2 (runs ?db2)" by (simp add: row_put_twice)
    note done3 = execute_nodes_fold [OF fold3 fix2]
    define run4 where "run4 = run3\<lparr>r_node := None, r_finished := Some now\<rparr>"
    have st4: "normalize_state (r_status run4) = RUNNING" and id4: "r_id run4 = r_id run"
      using done3 by (simp_all add: run4_def claimed_run_def)
    define data where "data = Some (JObj [((asc ''completed_nodes''), JArr (map (\<lambda>n. JStr (n_node n)) ?rows))])"
    have "transition_ok (normalize_state (r_status run4)) SUCCESS"
      by (simp add: transition_ok_def st4)
    then obtain db5 where tr5: "transition_run (save_run run4 db3) run4 SUCCESS None data =
        Inr (run4\<lparr>r_status := state_value SUCCESS\<rparr>, db5)"
      by (rule transition_run_ok)
    note row5 = transition_run_row [OF tr5]
    let ?run5 = "run4\<lparr>r_status := state_value SUCCESS\<rparr>"
    let ?fin = "write_execution_log db5 ?run5 ((asc ''worker_execution_completed'')) (state_value SUCCESS) None None None data None"
    have "execute_approved_nodes now db run it wk = Inr ?fin"
      using False unfolding execute_approved_nodes_def simulated_outage_def
      by (simp add: Let_def tr upd rows fold3 run4_def [symmetric] data_def [symmetric] tr5)
    note finished = this
    have runs5: "runs ?fin = row_put r_id ?run5 (runs db)"
      using done3 by (simp add: row5(2) row(2) row_put_twice run4_def id2 claimed_run_def)
    show thesis
    proof (rule complete [OF False finished _ _ runs5])
      show "r_id ?run5 = r_id run" using id4 by simp
      show "approvals ?fin = approvals db"
        using done3 by (simp add: row5(4) row(4))
      show "next_id db \<le> next_id ?fin"
        using done3 by (simp add: row5(7) row(7))
      show "nodes ?fin = fold (\<lambda>n. row_put n_id (n\<lparr>n_status := state_value SUCCESS\<rparr>)) ?rows (nodes db)"
        using done3 by (simp add: row5(3) row(3))
      show "map cx_node (contexts ?fin) = map cx_node (contexts db) @ map n_node ?rows"
        using done3 by (simp add: row5(9) row(9))
    qed simp
  qed
qed

end
