(* ===== verification/Brain_Machine.thy ===== *)
theory Brain_Machine
  imports Brain_Safety
begin

text \<open>
  The brain runtime as one machine: its requests (analyse, plan, approve, start) and the worker,
  in any order, on one database and one queue. The invariant \<open>brain_ok\<close> ties every status past the
  approval to an approval record, and the audit trail only grows.
\<close>

section \<open>Requests\<close>

datatype brain_call =
    Analyze ustr "ustr option"
  | Plan ustr "int option" "ustr option" bool bool
  | Approve int "ustr option" ustr "ustr option" bool bool
  | Start int int
  | Work int ustr

text \<open>A request that raises is rolled back.\<close>

definition committed :: "brain_world \<Rightarrow> brain_error + ('a \<times> brain_db) \<Rightarrow> brain_world" where
  "committed w r = (case r of Inl e \<Rightarrow> w | Inr (a, db) \<Rightarrow> w\<lparr>w_db := db\<rparr>)"

fun brain_step :: "(ustr \<Rightarrow> ustr) \<Rightarrow> brain_world \<Rightarrow> brain_call \<Rightarrow> brain_world" where
  "brain_step digest w (Analyze goal user) = committed w (analyze_goal digest goal user (w_db w))"
| "brain_step digest w (Plan goal i user boss audited) =
     committed w (create_plan digest goal i user boss audited (w_db w))"
| "brain_step digest w (Approve i user verdict why boss audited) =
     committed w (approve_run (w_db w) i user verdict why boss audited)"
| "brain_step digest w (Start now i) =
     (case enqueue_approved_execution now i w of Inl e \<Rightarrow> w | Inr (a, w') \<Rightarrow> w')"
| "brain_step digest w (Work now worker) =
     (case process_next_execution now worker w of Inl e \<Rightarrow> w | Inr (a, w') \<Rightarrow> w')"

section \<open>The invariant\<close>

definition confirmed :: "brain_db \<Rightarrow> int \<Rightarrow> bool" where
  "confirmed db i \<longleftrightarrow> (\<exists>a \<in> set (approvals db). ap_execution a = i \<and> ap_decision a = asc ''approved'' \<and>
     ap_boss a \<and> ap_audited a)"

definition run_ok :: "brain_db \<Rightarrow> brain_run \<Rightarrow> bool" where
  "run_ok db r \<longleftrightarrow> r_id r < next_id db \<and>
     (\<exists>s. r_status r = state_value s \<and> (before_approval s \<or> confirmed db (r_id r)))"

definition brain_ok :: "brain_db \<Rightarrow> bool" where
  "brain_ok db \<longleftrightarrow> distinct (map r_id (runs db)) \<and> (\<forall>r \<in> set (runs db). run_ok db r)"

lemma confirmed_mono: "confirmed db i \<Longrightarrow> set (approvals db) \<subseteq> set (approvals db') \<Longrightarrow> confirmed db' i"
  by (auto simp: confirmed_def)

lemma run_ok_mono:
  "run_ok db r \<Longrightarrow> set (approvals db) \<subseteq> set (approvals db') \<Longrightarrow> next_id db \<le> next_id db' \<Longrightarrow> run_ok db' r"
  by (auto simp: run_ok_def dest: confirmed_mono)

lemma brain_ok_same:
  "brain_ok db \<Longrightarrow> runs db' = runs db \<Longrightarrow> set (approvals db) \<subseteq> set (approvals db') \<Longrightarrow>
     next_id db \<le> next_id db' \<Longrightarrow> brain_ok db'"
  by (auto simp: brain_ok_def dest: run_ok_mono)

lemma brain_ok_put:
  assumes "brain_ok db" "runs db' = row_put r_id r (runs db)" "set (approvals db) \<subseteq> set (approvals db')"
    "next_id db \<le> next_id db'" "run_ok db' r"
  shows "brain_ok db'"
  using assms by (auto simp: brain_ok_def dest!: in_row_put intro: run_ok_mono)

lemma brain_ok_add:
  assumes "brain_ok db" "runs db' = row_add r (runs db)" "r_id r = next_id db" "approvals db' = approvals db"
    "next_id db \<le> next_id db'" "run_ok db' r"
  shows "brain_ok db'"
proof -
  have "r_id r \<notin> r_id ` set (runs db)"
    using assms(1,3) by (fastforce simp: brain_ok_def run_ok_def)
  then show ?thesis
    using assms by (auto simp: brain_ok_def row_add_def intro: run_ok_mono)
qed

lemma get_run_ok: "brain_ok db \<Longrightarrow> get_run db i = Some r \<Longrightarrow> run_ok db r"
  unfolding get_run_def brain_ok_def by (auto dest: row_get_in)

lemma transition_ok_into:
  "transition_ok s APPROVED \<Longrightarrow> s = WAIT_APPROVAL \<or> s = APPROVED"
  "transition_ok s QUEUED \<Longrightarrow> \<not> before_approval s"
  "transition_ok s WAIT_APPROVAL \<Longrightarrow> before_approval s"
  by (cases s; simp add: transition_ok_def before_approval_def)+

text \<open>A change to a state before the approval, or of a confirmed execution, keeps the invariant.\<close>

lemma transition_keeps:
  assumes "transition_run db run target ty d = Inr (run', db')" and "brain_ok db"
    and "r_id run < next_id db" and "before_approval target \<or> confirmed db (r_id run)"
  shows "brain_ok db' \<and> run_ok db' run' \<and> r_id run' = r_id run"
proof -
  note row = transition_run_row [OF assms(1)]
  have "run_ok db' run'"
    using assms(3,4) by (auto simp: run_ok_def row(1,7) confirmed_def row(4))
  with brain_ok_put [OF assms(2) row(2)] show ?thesis
    by (simp add: row(1,4,7))
qed

lemma waits [simp]: "before_approval CREATED" "before_approval ANALYZED" "before_approval PLANNED"
    "before_approval WAIT_APPROVAL"
  by (simp_all add: before_approval_def)

section \<open>Every request keeps the invariant\<close>

lemma analyze_keeps:
  assumes "brain_ok db" and "analyze_goal digest goal user db = Inr (i, db')"
  shows "brain_ok db'"
proof -
  let ?g = "build_task_graph digest goal"
  let ?run = "new_run (next_id db) (tg_goal ?g) (tg_risk ?g) (tg_approval ?g) (take 100 (clean_opt user))"
  let ?db1 = "db\<lparr>runs := row_add ?run (runs db), next_id := next_id db + 1\<rparr>"
  have "run_ok ?db1 ?run"
    by (auto simp: run_ok_def new_run_def intro: exI [of _ CREATED])
  then have ok1: "brain_ok ?db1"
    by (intro brain_ok_add [OF assms(1), of _ ?run]) (simp_all add: new_run_def)
  from assms(2) obtain ty d run2 db2 where tr: "transition_run ?db1 ?run ANALYZED ty d = Inr (run2, db2)"
    and "runs db' = runs db2" "approvals db' = approvals db2" "next_id db' = next_id db2 + 1"
    by (auto simp: analyze_goal_def Let_def split: sum.splits)
  with transition_keeps [OF tr ok1] show ?thesis
    by (auto simp: new_run_def intro: brain_ok_same)
qed

lemma plan_run_keeps:
  assumes "brain_ok db" and "plan_run g i user db = Inr (run, db')"
  shows "brain_ok db' \<and> run_ok db' run"
proof (cases "case i of None \<Rightarrow> None | Some i \<Rightarrow> if i = 0 then None else get_run db i")
  case None
  let ?run = "new_run (next_id db) (tg_goal g) (tg_risk g) True (take 100 (clean_opt user))"
  let ?db1 = "db\<lparr>runs := row_add ?run (runs db), next_id := next_id db + 1\<rparr>"
  have "run_ok ?db1 ?run"
    by (auto simp: run_ok_def new_run_def intro: exI [of _ CREATED])
  then have ok1: "brain_ok ?db1"
    by (intro brain_ok_add [OF assms(1), of _ ?run]) (simp_all add: new_run_def)
  from assms(2) None obtain ty d where tr: "transition_run ?db1 ?run ANALYZED ty d = Inr (run, db')"
    unfolding plan_run_def Let_def by (simp only: option.case)
  from transition_keeps [OF tr ok1] show ?thesis by (simp add: new_run_def)
next
  case (Some old)
  then obtain j where "get_run db j = Some old" by (auto split: option.splits if_splits)
  with assms(1) have old: "run_ok db old" by (rule get_run_ok)
  let ?run1 = "old\<lparr>r_goal := tg_goal g, r_risk := tg_risk g, r_approval := True\<rparr>"
  let ?db1 = "save_run ?run1 db"
  have ok_run: "run_ok ?db1 ?run1" using old by (simp add: run_ok_def confirmed_def)
  then have ok1: "brain_ok ?db1" by (intro brain_ok_put [OF assms(1)]) simp_all
  show ?thesis
  proof (cases "r_status old = state_value CREATED")
    case True
    with assms(2) Some obtain ty d where tr: "transition_run ?db1 ?run1 ANALYZED ty d = Inr (run, db')"
      unfolding plan_run_def Let_def by simp
    from ok_run have "r_id ?run1 < next_id ?db1" by (simp add: run_ok_def)
    from transition_keeps [OF tr ok1 this] show ?thesis by simp
  next
    case False
    with assms(2) Some ok1 ok_run show ?thesis unfolding plan_run_def Let_def by auto
  qed
qed

lemma plan_tool_call_simps [simp]:
  "runs (plan_tool_call g i b a n t db) = runs db" "approvals (plan_tool_call g i b a n t db) = approvals db"
  "next_id (plan_tool_call g i b a n t db) = next_id db + 1" "nodes (plan_tool_call g i b a n t db) = nodes db"
  "edges (plan_tool_call g i b a n t db) = edges db"
  "tool_tables (plan_tool_call g i b a n t db) = tool_tables db"
  by (simp_all add: plan_tool_call_def Let_def)

text \<open>What writing the rows of a plan leaves alone.\<close>

definition same_runs :: "brain_db \<Rightarrow> brain_db \<Rightarrow> bool" where
  "same_runs db db' \<longleftrightarrow> runs db' = runs db \<and> approvals db' = approvals db \<and> next_id db \<le> next_id db'"

lemma same_runs_fold: "(\<And>x d. x \<in> set xs \<Longrightarrow> same_runs d (f x d)) \<Longrightarrow> same_runs db (fold f xs db)"
proof (induction xs arbitrary: db)
  case Nil
  show ?case by (simp add: same_runs_def)
next
  case (Cons x xs)
  then have "same_runs db (f x db)" "same_runs (f x db) (fold f xs (f x db))" by simp_all
  then show ?case by (simp add: same_runs_def)
qed

lemma plan_node_same: "same_runs db (plan_node g i b a n db)"
proof -
  let ?d = "db\<lparr>nodes := row_add (plan_node_row (next_id db) i n) (nodes db), next_id := next_id db + 1\<rparr>"
  have "same_runs ?d (fold (plan_tool_call g i b a n) (gn_tools n) ?d)"
    by (rule same_runs_fold) (simp add: same_runs_def)
  then show ?thesis by (simp add: plan_node_def same_runs_def)
qed

lemma plan_edge_same: "same_runs db (plan_edge i e db)"
  by (simp add: plan_edge_def same_runs_def)

lemma create_plan_steps:
  assumes "create_plan digest goal i user boss audited db = Inr (j, db')"
  obtains run1 db1 run2 db2 run3 db3 ty1 ty2 d1 d2 where
    "plan_run (build_task_graph digest goal) i user db = Inr (run1, db1)"
    "transition_run db1 run1 PLANNED ty1 d1 = Inr (run2, db2)"
    "transition_run db2 run2 WAIT_APPROVAL ty2 d2 = Inr (run3, db3)" "j = r_id run3"
    "runs db' = runs db3" "set (approvals db3) \<subseteq> set (approvals db')" "next_id db3 \<le> next_id db'"
proof -
  let ?g = "build_task_graph digest goal"
  from assms obtain run1 db1 run2 db2 run3 db3 ty1 ty2 d1 d2 x u where
    steps: "plan_run ?g i user db = Inr (run1, db1)"
    "transition_run db1 run1 PLANNED ty1 d1 = Inr (run2, db2)"
    "transition_run db2 run2 WAIT_APPROVAL ty2 d2 = Inr (run3, db3)" "j = r_id run3"
    and db': "db' = write_execution_log (add_approval j u (asc ''pending'') plan_reason boss audited
        (fold (plan_edge j) (tg_edges ?g) (fold (plan_node ?g j boss audited) (tg_nodes ?g) (drop_plan j db3))))
        run3 (asc ''plan_generated'') (r_status run3) None None None x None"
    unfolding create_plan_def Let_def by (simp split: sum.splits prod.splits) blast
  let ?d4 = "drop_plan j db3"
  let ?d5 = "fold (plan_node ?g j boss audited) (tg_nodes ?g) ?d4"
  let ?d6 = "fold (plan_edge j) (tg_edges ?g) ?d5"
  have "same_runs ?d4 ?d5" "same_runs ?d5 ?d6"
    by (rule same_runs_fold, rule plan_node_same plan_edge_same)+
  then have "runs db' = runs db3 \<and> set (approvals db3) \<subseteq> set (approvals db') \<and> next_id db3 \<le> next_id db'"
    by (auto simp: db' same_runs_def add_approval_def drop_plan_def)
  with steps that show thesis by blast
qed

lemma create_plan_keeps:
  assumes "brain_ok db" and "create_plan digest goal i user boss audited db = Inr (j, db')"
  shows "brain_ok db'"
  using assms(2)
proof (cases rule: create_plan_steps)
  case (1 run1 db1 run2 db2 run3 db3 ty1 ty2 d1 d2)
  from plan_run_keeps [OF assms(1) 1(1)] have "brain_ok db1" "r_id run1 < next_id db1"
    by (simp_all add: run_ok_def)
  with transition_keeps [OF 1(2)] have "brain_ok db2" "r_id run2 < next_id db2"
    by (auto simp: run_ok_def)
  with transition_keeps [OF 1(3)] have "brain_ok db3" by simp
  then show ?thesis using 1(5-7) by (rule brain_ok_same)
qed

lemma approve_run_cases:
  assumes "approve_run db i user verdict why boss audited = Inr (Some a, db')"
  obtains run run1 where "get_run db i = Some run"
    "runs db' = row_put r_id run1 (runs db) \<or> runs db' = runs db \<and> run1 = run"
    "r_id run1 = i" "aa_status a = r_status run1" "next_id db < next_id db'"
    "set (approvals db) \<subseteq> set (approvals db')"
    "\<not> (boss \<and> audited) \<and> aa_decision a = asc ''blocked'' \<and> r_status run1 = state_value WAIT_APPROVAL
     \<or> boss \<and> audited \<and> aa_decision a = asc ''approved'' \<and> confirmed db' i
         \<and> transition_ok (normalize_state (r_status run)) APPROVED \<and> r_status run1 = state_value APPROVED
     \<or> boss \<and> audited \<and> aa_decision a \<noteq> asc ''approved'' \<and> run1 = run \<and> runs db' = runs db"
proof -
  from assms obtain run where run: "get_run db i = Some run"
    by (auto simp: approve_run_def split: option.splits)
  then have i: "r_id run = i" by (rule get_run_id)
  let ?asked = "clean_text (if verdict = [] then asc ''approved'' else verdict)"
  consider (blocked) "\<not> (boss \<and> audited)" | (yes) "boss \<and> audited" "?asked = asc ''approved''"
    | (other) "boss \<and> audited" "?asked \<noteq> asc ''approved''" by blast
  then show thesis
  proof cases
    case blocked
    with assms run i show thesis
      by (intro that [of run "run\<lparr>r_status := state_value WAIT_APPROVAL\<rparr>"])
        (auto simp: approve_run_def approval.decide_blocked add_approval_def Let_def)
  next
    case yes
    from assms run yes obtain d run1 db1 u t x where
      tr: "transition_run db run APPROVED None d = Inr (run1, db1)"
      and res: "a = \<lparr>aa_status = r_status run1, aa_decision = asc ''approved'', aa_approval = x\<rparr>"
        "runs db' = runs db1" "next_id db' = next_id db1 + 2"
        "approvals db' = row_add \<lparr>ap_id = next_id db1, ap_execution = r_id run1, ap_user = u,
           ap_decision = asc ''approved'', ap_reason = t, ap_boss = boss, ap_audited = audited\<rparr> (approvals db1)"
      by (auto simp: approve_run_def approval.decide_blocked add_approval_def Let_def split: sum.splits)
    note row = transition_run_row [OF tr]
    show thesis
      using run i res row(2,8) yes(1)
      by (intro that [of run run1]) (auto simp: row(1,4,7) confirmed_def)
  next
    case other
    with assms run i show thesis
      by (intro that [of run run])
        (auto simp: approve_run_def approval.decide_blocked add_approval_def Let_def)
  qed
qed

lemma approve_keeps:
  assumes "brain_ok db" and "approve_run db i user verdict why boss audited = Inr (x, db')"
  shows "brain_ok db'"
proof (cases x)
  case None
  with assms show ?thesis by (auto simp: approve_run_def Let_def split: option.splits sum.splits)
next
  case (Some a)
  with assms(2) have "approve_run db i user verdict why boss audited = Inr (Some a, db')" by simp
  then show ?thesis
  proof (cases rule: approve_run_cases)
    case (1 run run1)
    from get_run_ok [OF assms(1) 1(1)] have old: "run_ok db run" .
    have "run_ok db' run1"
      using 1(3,5,6,7) run_ok_mono [OF old 1(6)] get_run_id [OF 1(1)] old
      by (auto simp: run_ok_def intro: exI [of _ WAIT_APPROVAL] exI [of _ APPROVED])
    with 1 assms(1) show ?thesis
      by (auto intro: brain_ok_put brain_ok_same)
  qed
qed

lemma start_keeps:
  assumes "brain_ok (w_db w)" and "enqueue_approved_execution now i w = Inr (a, w')"
  shows "brain_ok (w_db w')"
proof (cases "get_run (w_db w) i")
  case None
  with assms show ?thesis by (simp add: enqueue_approved_execution_def Let_def)
next
  case (Some run)
  let ?db = "w_db w"
  from get_run_ok [OF assms(1) Some] have old: "run_ok ?db run" .
  show ?thesis
  proof (cases "dc_blocked (run_decision ?db run)")
    case True
    with assms Some old show ?thesis
      by (intro brain_ok_put [OF assms(1), of _ "run\<lparr>r_status := state_value WAIT_APPROVAL\<rparr>"])
        (auto simp: enqueue_approved_execution_def Let_def run_ok_def intro: exI [of _ WAIT_APPROVAL])
  next
    case False
    let ?goes = "if r_status run \<noteq> state_value QUEUED
        then transition_run ?db run QUEUED None
          (Some (JObj [(asc ''queue'', JStr (asc ''brain_execution_queue'')), (asc ''priority'', JStr (r_priority run))]))
        else Inr (run, ?db)"
    from assms(2) Some False obtain run1 db1 where goes: "?goes = Inr (run1, db1)"
      and end_db: "runs (w_db w') = row_put r_id (run1\<lparr>r_queued_at := Some now\<rparr>) (runs db1)"
        "approvals (w_db w') = approvals db1" "next_id (w_db w') = next_id db1 + 1"
      by (auto simp: enqueue_approved_execution_def Let_def split: sum.splits prod.splits if_splits)
    have sure: "confirmed ?db (r_id run)"
      using old goes transition_run_row(8) transition_ok_into(2)
      by (fastforce simp: run_ok_def before_approval_def split: if_splits)
    have "brain_ok db1 \<and> run_ok db1 run1"
    proof (cases "r_status run = state_value QUEUED")
      case True
      with goes old assms(1) show ?thesis by simp
    next
      case False
      with goes have "transition_run ?db run QUEUED None
          (Some (JObj [(asc ''queue'', JStr (asc ''brain_execution_queue'')), (asc ''priority'', JStr (r_priority run))]))
          = Inr (run1, db1)" by simp
      from transition_keeps [OF this assms(1)] sure old have "brain_ok db1" "run_ok db1 run1"
        by (auto simp: run_ok_def [of ?db])
      then show ?thesis by simp
    qed
    then show ?thesis
      using end_db by (auto intro!: brain_ok_put [of db1] simp: run_ok_def confirmed_def)
  qed
qed

section \<open>The worker\<close>

text \<open>
  A running execution that fails is queued again while its item has attempts left, and ends
  otherwise; neither branch can raise.
\<close>

lemma handle_failure_retry:
  assumes "r_status run = state_value RUNNING" and "qi_attempt it < qi_max_retry it"
  obtains w' run' where "handle_failure now db run it message timed_out wk q = Inr (Retrying (r_id run) message, w')"
    "runs (w_db w') = row_put r_id run' (runs db)" "r_id run' = r_id run" "r_status run' = state_value QUEUED"
    "r_retry run' = qi_attempt it + 1" "approvals (w_db w') = approvals db" "next_id db \<le> next_id (w_db w')"
    "nodes (w_db w') = nodes db \<and> contexts (w_db w') = contexts db" "w_queue w' = snd (requeue_execution now it message q)"
proof -
  let ?data = "Some (JObj [(asc ''attempt'', JInt (qi_attempt it)), (asc ''max_retry'', JInt (qi_max_retry it))])"
  let ?db1 = "write_execution_log db run (if timed_out then asc ''worker_timeout'' else asc ''worker_failed'')
      (if timed_out then asc ''timeout'' else asc ''failed'') None None None ?data (Some message)"
  let ?run1 = "run\<lparr>r_retry := qi_attempt it + 1, r_last_error := Some (clean_text message)\<rparr>"
  let ?d = "Some (JObj [(asc ''attempt'', JInt (qi_attempt it + 1)), (asc ''max_retry'', JInt (qi_max_retry it)),
      (asc ''timeout'', JBool timed_out)])"
  have "transition_ok (normalize_state (r_status ?run1)) QUEUED"
    using assms(1) by (simp add: transition_ok_def)
  then obtain db3 where tr: "transition_run (save_run ?run1 ?db1) ?run1 QUEUED (Some (asc ''worker_retry'')) ?d =
      Inr (?run1\<lparr>r_status := state_value QUEUED\<rparr>, db3)" by (rule transition_run_ok)
  note row = transition_run_row [OF tr]
  have res: "handle_failure now db run it message timed_out wk q =
      Inr (Retrying (r_id run) message,
        \<lparr>w_db = update_worker_status now wk (asc ''idle'') None None None 0 0 0 0
           (create_recovery_record db3 (?run1\<lparr>r_status := state_value QUEUED\<rparr>)
              (if timed_out then asc ''timeout'' else asc ''failed'') message (qi_attempt it + 1) (qi_max_retry it)
              (asc ''requeued'')),
         w_queue = snd (requeue_execution now it message q)\<rparr>)"
    using assms(2) tr by (simp add: handle_failure_def Let_def split_beta)
  show thesis
    by (rule that [OF res, of "?run1\<lparr>r_status := state_value QUEUED\<rparr>"])
      (simp_all add: row(2,3,4,7,9) row_put_twice)
qed

lemma handle_failure_end:
  assumes "r_status run = state_value RUNNING" and "\<not> qi_attempt it < qi_max_retry it"
  obtains w' run' where "handle_failure now db run it message timed_out wk q =
      Inr (Ended (if timed_out then asc ''timeout'' else asc ''failed'') (r_id run) message, w')"
    "runs (w_db w') = row_put r_id run' (runs db)" "r_id run' = r_id run"
    "r_status run' = state_value (if timed_out then TIMEOUT else FAILED)"
    "approvals (w_db w') = approvals db" "next_id db \<le> next_id (w_db w')"
    "nodes (w_db w') = nodes db \<and> contexts (w_db w') = contexts db"
    "w_queue w' = update_queue_status now it (if timed_out then asc ''timeout'' else asc ''failed'') message q"
proof -
  let ?data = "Some (JObj [(asc ''attempt'', JInt (qi_attempt it)), (asc ''max_retry'', JInt (qi_max_retry it))])"
  let ?db1 = "write_execution_log db run (if timed_out then asc ''worker_timeout'' else asc ''worker_failed'')
      (if timed_out then asc ''timeout'' else asc ''failed'') None None None ?data (Some message)"
  let ?goal = "if timed_out then TIMEOUT else FAILED"
  let ?ty = "Some (if timed_out then asc ''worker_timeout'' else asc ''worker_failed'')"
  have "transition_ok (normalize_state (r_status run)) ?goal"
    using assms(1) by (simp add: transition_ok_def)
  then obtain db2 where tr: "transition_run ?db1 run ?goal ?ty None = Inr (run\<lparr>r_status := state_value ?goal\<rparr>, db2)"
    by (rule transition_run_ok)
  note row = transition_run_row [OF tr]
  let ?run2 = "run\<lparr>r_status := state_value ?goal, r_error := Some (clean_text message),
      r_last_error := Some (clean_text message), r_finished := Some now\<rparr>"
  let ?kind = "if timed_out then asc ''timeout'' else asc ''failed''"
  have res: "handle_failure now db run it message timed_out wk q =
      Inr (Ended ?kind (r_id run) message,
        \<lparr>w_db = update_worker_status now wk (asc ''idle'') None None None 1 0
           (if timed_out then 0 else 1) (if timed_out then 1 else 0)
           (create_recovery_record (save_run ?run2 db2) ?run2 ?kind message (qi_attempt it) (qi_max_retry it)
              (asc ''manual_review_required'')),
         w_queue = update_queue_status now it ?kind message q\<rparr>)"
    using assms(2) tr by (simp add: handle_failure_def Let_def)
  show thesis
    by (rule that [OF res, of ?run2]) (simp_all add: row(2,3,4,7,9) row_put_twice)
qed

text \<open>One item of a confirmed, queued execution: the three ways it goes.\<close>

lemma process_item_cases:
  assumes "get_run (w_db w) (qi_execution it) = Some run" and "normalize_state (r_status run) = QUEUED"
    and "\<not> dc_blocked (run_decision (w_db w) run)"
  obtains (complete) w' run' where "\<not> simulated_outage it"
      "process_execution_item now wk it w = Inr (Completed (r_id run), w')"
      "runs (w_db w') = row_put r_id run' (runs (w_db w))" "r_id run' = r_id run"
      "r_status run' = state_value SUCCESS" "approvals (w_db w') = approvals (w_db w)"
      "next_id (w_db w) \<le> next_id (w_db w')"
      "nodes (w_db w') = fold (\<lambda>n. row_put n_id (n\<lparr>n_status := state_value SUCCESS\<rparr>))
         (run_nodes (w_db w) (r_id run)) (nodes (w_db w))"
      "map cx_node (contexts (w_db w')) =
         map cx_node (contexts (w_db w)) @ map n_node (run_nodes (w_db w) (r_id run))"
      "waiting (w_queue w') = waiting (w_queue w)"
  | (retry) w' run' m where "simulated_outage it" "qi_attempt it < qi_max_retry it"
      "process_execution_item now wk it w = Inr (Retrying (r_id run) m, w')"
      "runs (w_db w') = row_put r_id run' (runs (w_db w))" "r_id run' = r_id run"
      "r_status run' = state_value QUEUED" "approvals (w_db w') = approvals (w_db w)"
      "next_id (w_db w) \<le> next_id (w_db w')" "nodes (w_db w') = nodes (w_db w) \<and> contexts (w_db w') = contexts (w_db w)"
      "\<forall>p. queue_of p (w_queue w') = queue_of p (w_queue w) @
         (if p = queue_name_for_priority (qi_priority it)
          then [it\<lparr>qi_attempt := qi_attempt it + 1, qi_retry := qi_attempt it + 1, qi_status := asc ''waiting'',
                  qi_created := now\<rparr>] else [])"
  | (stop) w' run' m timed_out where "simulated_outage it" "\<not> qi_attempt it < qi_max_retry it"
      "process_execution_item now wk it w =
         Inr (Ended (if timed_out then asc ''timeout'' else asc ''failed'') (r_id run) m, w')"
      "timed_out \<longleftrightarrow> truthy (jget ((asc ''simulate_timeout'')) (qi_payload it))"
      "runs (w_db w') = row_put r_id run' (runs (w_db w))" "r_id run' = r_id run"
      "r_status run' = state_value (if timed_out then TIMEOUT else FAILED)"
      "approvals (w_db w') = approvals (w_db w)" "next_id (w_db w) \<le> next_id (w_db w')"
      "nodes (w_db w') = nodes (w_db w) \<and> contexts (w_db w') = contexts (w_db w)" "waiting (w_queue w') = waiting (w_queue w)"
proof -
  let ?db1 = "update_worker_status now wk (asc ''running'') (Some (r_id run)) None (Some (r_goal run)) 0 0 0 0 (w_db w)"
  let ?q1 = "update_queue_status now it (asc ''running'') (asc ''worker claimed execution'') (w_queue w)"
  let ?claimed = "claimed_run now wk run"
  have id1: "r_id ?claimed = r_id run" and st1: "r_status ?claimed = state_value RUNNING"
    by (simp_all add: claimed_run_def)
  have opened: "process_execution_item now wk it w =
      (case execute_approved_nodes now ?db1 run it wk of
         Inl (ExecutionTimeout m, run2, db2) \<Rightarrow> handle_failure now db2 run2 it m True wk ?q1
       | Inl (ExecutionFailure m, run2, db2) \<Rightarrow> handle_failure now db2 run2 it m False wk ?q1
       | Inr db2 \<Rightarrow> Inr (Completed (r_id run),
           \<lparr>w_db = update_worker_status now wk (asc ''idle'') None None None 1 1 0 0 db2,
            w_queue = update_queue_status now it (asc ''success'') (asc ''execution completed'') ?q1\<rparr>))"
    using assms by (simp add: process_execution_item_def Let_def)
  from assms(2) show thesis
  proof (cases rule: execute_nodes_cases [where db = ?db1 and it = it and now = now and wk = wk])
    case (outage e db2)
    obtain m t where fails: "process_execution_item now wk it w = handle_failure now db2 ?claimed it m t wk ?q1"
      and kind: "t \<longleftrightarrow> truthy (jget ((asc ''simulate_timeout'')) (qi_payload it))"
      using outage(2,7) by (cases e) (auto simp: opened)
    note same = outage(3-6) id1
    show thesis
    proof (cases "qi_attempt it < qi_max_retry it")
      case True
      from handle_failure_retry [OF st1 True, of now db2 m t wk ?q1] obtain w' run' where
        res: "handle_failure now db2 ?claimed it m t wk ?q1 = Inr (Retrying (r_id ?claimed) m, w')"
          "runs (w_db w') = row_put r_id run' (runs db2)" "r_id run' = r_id ?claimed"
          "r_status run' = state_value QUEUED" "approvals (w_db w') = approvals db2"
          "next_id db2 \<le> next_id (w_db w')" "nodes (w_db w') = nodes db2 \<and> contexts (w_db w') = contexts db2"
          "w_queue w' = snd (requeue_execution now it m ?q1)" by metis
      show thesis
        by (rule retry [OF outage(1) True, of m w' run'])
          (use res same fails in \<open>simp_all add: row_put_twice requeue_execution_def Let_def brain_fifo.push_lane\<close>)
    next
      case False
      from handle_failure_end [OF st1 False, of now db2 m t wk ?q1] obtain w' run' where
        res: "handle_failure now db2 ?claimed it m t wk ?q1 =
            Inr (Ended (if t then asc ''timeout'' else asc ''failed'') (r_id ?claimed) m, w')"
          "runs (w_db w') = row_put r_id run' (runs db2)" "r_id run' = r_id ?claimed"
          "r_status run' = state_value (if t then TIMEOUT else FAILED)" "approvals (w_db w') = approvals db2"
          "next_id db2 \<le> next_id (w_db w')" "nodes (w_db w') = nodes db2 \<and> contexts (w_db w') = contexts db2"
          "w_queue w' = update_queue_status now it (if t then asc ''timeout'' else asc ''failed'') m ?q1" by metis
      show thesis
        by (rule stop [OF outage(1) False, of t m w' run'])
          (use res same fails kind in \<open>simp_all add: row_put_twice\<close>)
    qed
  next
    case (complete run5 db5)
    let ?w' = "\<lparr>w_db = update_worker_status now wk (asc ''idle'') None None None 1 1 0 0 db5,
      w_queue = update_queue_status now it (asc ''success'') (asc ''execution completed'') ?q1\<rparr>"
    have "process_execution_item now wk it w = Inr (Completed (r_id run), ?w')"
      by (simp add: opened complete(2))
    then show thesis
      by (rule that(1) [OF complete(1), of ?w' run5]) (use complete(3-9) in \<open>simp_all add: run_nodes_def\<close>)
  qed
qed

lemma process_item_blocked:
  assumes "get_run (w_db w) (qi_execution it) = Some run" and "normalize_state (r_status run) = QUEUED"
    and "dc_blocked (run_decision (w_db w) run)"
  obtains w' where "process_execution_item now wk it w = Inr (SecurityBlocked (qi_execution it) (run_decision (w_db w) run), w')"
    "runs (w_db w') = row_put r_id (run\<lparr>r_status := state_value WAIT_APPROVAL\<rparr>) (runs (w_db w))"
    "approvals (w_db w') = approvals (w_db w)" "next_id (w_db w) \<le> next_id (w_db w')"
    "nodes (w_db w') = nodes (w_db w)" "contexts (w_db w') = contexts (w_db w)"
  using assms by (simp add: process_execution_item_def Let_def)

lemma process_item_refused:
  assumes "\<And>run. get_run (w_db w) (qi_execution it) = Some run \<Longrightarrow> normalize_state (r_status run) \<noteq> QUEUED"
  obtains a w' where "process_execution_item now wk it w = Inr (a, w')"
    "a = ExecutionNotFound \<or> a = NotQueued (qi_execution it)" "runs (w_db w') = runs (w_db w)"
    "approvals (w_db w') = approvals (w_db w)" "next_id (w_db w) \<le> next_id (w_db w')"
    "nodes (w_db w') = nodes (w_db w)" "contexts (w_db w') = contexts (w_db w)"
proof (cases "get_run (w_db w) (qi_execution it)")
  case None
  with that show thesis by (simp add: process_execution_item_def Let_def)
next
  case (Some run)
  with assms [of run] that show thesis by (simp add: process_execution_item_def Let_def)
qed

text \<open>Whatever the item, the worker answers, and the invariant is kept.\<close>

lemma process_item_keeps:
  assumes "brain_ok (w_db w)"
  shows "\<exists>a w'. process_execution_item now wk it w = Inr (a, w') \<and> brain_ok (w_db w')"
proof (cases "\<exists>run. get_run (w_db w) (qi_execution it) = Some run \<and> normalize_state (r_status run) = QUEUED")
  case False
  then show ?thesis
    by (metis assms brain_ok_same order_refl process_item_refused)
next
  case True
  then obtain run where run: "get_run (w_db w) (qi_execution it) = Some run"
    and queued: "normalize_state (r_status run) = QUEUED" by auto
  from get_run_ok [OF assms run] have old: "run_ok (w_db w) run" .
  with queued have sure: "confirmed (w_db w) (r_id run)"
    by (auto simp: run_ok_def before_approval_def)
  have put: "brain_ok (w_db w')" if "runs (w_db w') = row_put r_id run' (runs (w_db w))" "r_id run' = r_id run"
    "r_status run' = state_value s" "approvals (w_db w') = approvals (w_db w)"
    "next_id (w_db w) \<le> next_id (w_db w')" for w' run' s
    using that old sure by (intro brain_ok_put [OF assms that(1)]) (auto simp: run_ok_def confirmed_def)
  show ?thesis
  proof (cases "dc_blocked (run_decision (w_db w) run)")
    case True
    from process_item_blocked [OF run queued True, of now wk] obtain w' where
      "process_execution_item now wk it w = Inr (SecurityBlocked (qi_execution it) (run_decision (w_db w) run), w')"
      "runs (w_db w') = row_put r_id (run\<lparr>r_status := state_value WAIT_APPROVAL\<rparr>) (runs (w_db w))"
      "approvals (w_db w') = approvals (w_db w)" "next_id (w_db w) \<le> next_id (w_db w')" .
    with put [of w' "run\<lparr>r_status := state_value WAIT_APPROVAL\<rparr>" WAIT_APPROVAL] show ?thesis by simp
  next
    case False
    from run queued False show ?thesis
    proof (cases rule: process_item_cases [where now = now and wk = wk])
      case (complete w' run') then show ?thesis using put [of w' run' SUCCESS] by blast
    next
      case (retry w' run' m) then show ?thesis using put [of w' run' QUEUED] by blast
    next
      case (stop w' run' m t) then show ?thesis using put [of w' run' "if t then TIMEOUT else FAILED"] by blast
    qed
  qed
qed

lemma process_next_keeps:
  assumes "brain_ok (w_db w)"
  shows "\<exists>a w'. process_next_execution now wk w = Inr (a, w') \<and> brain_ok (w_db w')"
proof -
  let ?w1 = "w\<lparr>w_db := update_worker_status now wk (asc ''idle'') None None None 0 0 0 0 (w_db w)\<rparr>"
  have ok1: "brain_ok (w_db (?w1\<lparr>w_queue := q\<rparr>))" for q
    using assms by (auto intro: brain_ok_same)
  show ?thesis
    using ok1 [of "w_queue w"] process_item_keeps [OF ok1, of now wk]
    by (auto simp: process_next_execution_def Let_def split: option.splits)
qed

section \<open>The machine\<close>

lemma brain_step_keeps: "brain_ok (w_db w) \<Longrightarrow> brain_ok (w_db (brain_step digest w c))"
proof (cases c)
  case (Work now wk)
  assume "brain_ok (w_db w)"
  then obtain a w' where "process_next_execution now wk w = Inr (a, w')" "brain_ok (w_db w')"
    using process_next_keeps by blast
  with Work show ?thesis by simp
qed (auto simp: committed_def split: sum.splits
      intro: analyze_keeps create_plan_keeps approve_keeps start_keeps)

interpretation brain_machine: invariant_machine "brain_step digest" "\<lambda>w. brain_ok (w_db w)" for digest
  by unfold_locales (rule brain_step_keeps)

definition empty_brain :: "tool_db \<Rightarrow> brain_world" where
  "empty_brain tools =
     \<lparr>w_db = \<lparr>runs = [], nodes = [], edges = [], events = [], approvals = [], calls = [], logs = [],
        contexts = [], recoveries = [], workers = [], tool_tables = tools, next_id = 1\<rparr>,
      w_queue = empty_queue\<rparr>"

lemma empty_brain_ok: "brain_ok (w_db (empty_brain tools))"
  by (simp add: empty_brain_def brain_ok_def)

end
