(* ===== verification/Brain_Audit.thy ===== *)
theory Brain_Audit
  imports Brain_Machine
begin

text \<open>
  The audit trail of the brain runtime: approvals, state events, execution logs, contexts and
  recovery records are only ever appended to, by every request and by the worker.
\<close>

section \<open>What only grows\<close>

definition trail :: "brain_db \<Rightarrow> brain_db \<Rightarrow> bool" where
  "trail db db' \<longleftrightarrow> prefix (approvals db) (approvals db') \<and> prefix (events db) (events db') \<and>
     prefix (logs db) (logs db') \<and> prefix (contexts db) (contexts db') \<and>
     prefix (recoveries db) (recoveries db')"

named_theorems trail_intros \<open>operations that only extend the audit trail\<close>

lemma trail_refl [simp, trail_intros]: "trail db db"
  by (simp add: trail_def)

lemma trail_trans: "trail db db' \<Longrightarrow> trail db' db'' \<Longrightarrow> trail db db''"
  by (auto simp: trail_def)

text \<open>The writes, each after any database that extends the trail.\<close>

lemma trail_save_run [trail_intros]: "trail db d \<Longrightarrow> trail db (save_run r d)"
  by (simp add: trail_def)

lemma trail_save_node [trail_intros]: "trail db d \<Longrightarrow> trail db (save_node n d)"
  by (simp add: trail_def save_node_def)

lemma trail_log [trail_intros]: "trail db d \<Longrightarrow> trail db (write_execution_log d r a s n e i ou er)"
  by (auto simp: trail_def write_execution_log_def Let_def row_add_def intro: prefix_prefix)

lemma trail_worker [trail_intros]: "trail db d \<Longrightarrow> trail db (update_worker_status now w s e n t a b c f d)"
  by (simp add: trail_def update_worker_status_def Let_def)

lemma trail_recovery [trail_intros]: "trail db d \<Longrightarrow> trail db (create_recovery_record d r f m a b s)"
  by (auto simp: trail_def create_recovery_record_def Let_def row_add_def intro: prefix_prefix)

lemma trail_approval [trail_intros]: "trail db d \<Longrightarrow> trail db (add_approval i u v y b a d)"
  by (auto simp: trail_def add_approval_def row_add_def intro: prefix_prefix)

lemma trail_drop [trail_intros]: "trail db d \<Longrightarrow> trail db (drop_plan i d)"
  by (simp add: trail_def drop_plan_def)

lemma trail_edge [trail_intros]: "trail db d \<Longrightarrow> trail db (plan_edge i e d)"
  by (simp add: trail_def plan_edge_def)

lemma trail_add_run [trail_intros]:
  "trail db d \<Longrightarrow> trail db (d\<lparr>runs := row_add r (runs d'), next_id := k\<rparr>)"
  by (simp add: trail_def)

lemma trail_fold [trail_intros]:
  "trail db d \<Longrightarrow> (\<And>x d. trail db d \<Longrightarrow> trail db (f x d)) \<Longrightarrow> trail db (fold f xs d)"
  by (induction xs arbitrary: d) auto

lemma trail_tool_call [trail_intros]: "trail db d \<Longrightarrow> trail db (plan_tool_call g i b a n t d)"
  by (simp add: trail_def plan_tool_call_def Let_def)

lemma trail_node [trail_intros]: "trail db d \<Longrightarrow> trail db (plan_node g i b a n d)"
  unfolding plan_node_def by (intro trail_fold trail_tool_call) (simp add: trail_def)

lemma trail_transition: "transition_run d run t ty x = Inr (r, d') \<Longrightarrow> trail db d \<Longrightarrow> trail db d'"
  by (auto simp: transition_run_def trail_def Let_def row_add_def intro: prefix_prefix split: if_splits)

lemma trail_context: "create_execution_context d run node = (r, d') \<Longrightarrow> trail db d \<Longrightarrow> trail db d'"
  by (auto simp: create_execution_context_def trail_def Let_def row_add_def intro: prefix_prefix)

lemma trail_execute_node: "trail db (snd rd) \<Longrightarrow> trail db (snd (execute_node now wk n rd))"
  by (cases rd) (auto simp: execute_node_def Let_def split: prod.splits intro!: trail_intros
      elim!: trail_context)

lemma trail_execute_all: "trail db (snd rd) \<Longrightarrow> trail db (snd (fold (execute_node now wk) ns rd))"
  by (induction ns arbitrary: rd) (simp_all add: trail_execute_node)

section \<open>Every request extends the trail\<close>

lemma analyze_trail: "analyze_goal digest goal user db = Inr (i, db') \<Longrightarrow> trail db db'"
  by (auto simp: analyze_goal_def Let_def split: sum.splits intro!: trail_intros elim!: trail_transition)

lemma plan_run_trail: "plan_run g i user db = Inr (run, db') \<Longrightarrow> trail db db'"
  by (auto simp: plan_run_def Let_def split: option.splits if_splits intro!: trail_intros elim!: trail_transition)

lemma create_plan_trail: "create_plan digest goal i user b a db = Inr (j, db') \<Longrightarrow> trail db db'"
  by (auto simp: create_plan_def Let_def split: sum.splits prod.splits
      intro!: trail_log trail_approval trail_fold trail_edge trail_node trail_drop elim!: trail_transition plan_run_trail)

lemma approve_trail: "approve_run db i u v y b a = Inr (x, db') \<Longrightarrow> trail db db'"
  by (auto simp: approve_run_def Let_def split: option.splits sum.splits if_splits
      intro!: trail_intros elim!: trail_transition)

lemma start_trail: "enqueue_approved_execution now i w = Inr (x, w') \<Longrightarrow> trail (w_db w) (w_db w')"
  by (auto simp: enqueue_approved_execution_def Let_def split: option.splits sum.splits if_splits prod.splits
      intro!: trail_intros elim!: trail_transition)

lemma handle_failure_trail:
  "handle_failure now d run it m t wk q = Inr (x, w') \<Longrightarrow> trail db d \<Longrightarrow> trail db (w_db w')"
  unfolding handle_failure_def Let_def
  by (cases "qi_attempt it < qi_max_retry it"; simp split: sum.splits prod.splits)
    (auto intro!: trail_recovery trail_save_run trail_log trail_worker elim!: trail_transition)

lemma execute_nodes_trail:
  "(\<forall>e r d'. execute_approved_nodes now d run it wk = Inl (e, r, d') \<longrightarrow> trail db d') \<and>
   (\<forall>d'. execute_approved_nodes now d run it wk = Inr d' \<longrightarrow> trail db d')" if "trail db d"
proof (cases "transition_run d run RUNNING (Some ((asc ''worker_started'')))
      (Some (JObj [((asc ''queue''), JStr ((asc ''brain_execution_queue'')))]))")
  case (Inl e)
  with that show ?thesis by (simp add: execute_approved_nodes_def Let_def)
next
  case (Inr x)
  obtain run1 db1 where x: "x = (run1, db1)" by fastforce
  from Inr have tr: "trail db db1" unfolding x by (rule trail_transition) (rule that)
  let ?d2 = "save_run (run1\<lparr>r_worker := Some wk, r_started := Some now\<rparr>) db1"
  have tr2: "trail db ?d2" using tr by (rule trail_save_run)
  have tr3: "trail db d3" if "fold (execute_node now wk) ns (r2, ?d2) = (r3, d3)" for ns r2 r3 d3
    using trail_execute_all [of db "(r2, ?d2)" now wk ns] tr2 that by simp
  show ?thesis
    unfolding execute_approved_nodes_def Let_def Inr x
    by (auto simp: tr2 split: if_splits prod.splits sum.splits
        intro!: trail_log trail_save_run elim!: trail_transition dest: tr3)
qed

lemma process_item_trail:
  assumes "process_execution_item now wk it w = Inr (x, w')" and "trail db (w_db w)"
  shows "trail db (w_db w')"
proof -
  let ?d = "\<lambda>run. update_worker_status now wk (asc ''running'') (Some (r_id run)) None (Some (r_goal run)) 0 0 0 0 (w_db w)"
  have "trail db (?d run)" for run using assms(2) by (rule trail_worker)
  then have body: "execute_approved_nodes now (?d run) run it wk = Inl (e, r, d') \<Longrightarrow> trail db d'"
    "execute_approved_nodes now (?d run) run it wk = Inr d' \<Longrightarrow> trail db d'" for run e r d'
    using execute_nodes_trail by blast+
  show ?thesis
    using assms
    unfolding process_execution_item_def Let_def
    by (auto split: option.splits if_splits sum.splits prod.splits worker_exception.splits
        intro!: trail_log trail_save_run trail_worker dest: body elim!: handle_failure_trail)
qed

lemma process_next_trail:
  assumes "process_next_execution now wk w = Inr (x, w')"
  shows "trail (w_db w) (w_db w')"
proof -
  have "trail (w_db w) (update_worker_status now wk (asc ''idle'') None None None 0 0 0 0 (w_db w))"
    by (rule trail_worker) simp
  with assms show ?thesis
    by (auto simp: process_next_execution_def Let_def split: option.splits elim: process_item_trail)
qed

lemma brain_step_trail: "trail (w_db w) (w_db (brain_step digest w c))"
  by (cases c) (auto simp: committed_def split: sum.splits
      intro: analyze_trail create_plan_trail approve_trail start_trail process_next_trail)

interpretation brain_trail: monotone_machine "brain_step digest" "\<lambda>w w'. trail (w_db w) (w_db w')" for digest
  by unfold_locales (auto intro: trail_trans brain_step_trail)

end
