(* ===== verification/Brain_Claims.thy ===== *)
theory Brain_Claims
  imports Brain_Audit
begin

text \<open>
  The properties of the brain runtime over its requests and worker: who may start an execution,
  what the worker does with it, how retries end, and what later approvals do.
\<close>

section \<open>Facts the properties share\<close>

lemma run_decision_iff:
  "dc_blocked (run_decision db run) \<longleftrightarrow>
     \<not> (\<exists>a. latest_approval db (r_id run) = Some a \<and> ap_boss a \<and> ap_audited a)"
  by (auto simp: run_decision_def Let_def approval.decide_blocked split: option.splits)

definition cleared :: "brain_db \<Rightarrow> int \<Rightarrow> bool" where
  "cleared db i \<longleftrightarrow> (\<exists>a. latest_approval db i = Some a \<and> ap_boss a \<and> ap_audited a)"

lemma cleared_iff: "get_run db i = Some run \<Longrightarrow> dc_blocked (run_decision db run) \<longleftrightarrow> \<not> cleared db i"
  by (auto simp: run_decision_iff cleared_def dest: get_run_id)

lemma latest_approval_same: "approvals db' = approvals db \<Longrightarrow> latest_approval db' i = latest_approval db i"
  by (simp add: latest_approval_def)

lemma cleared_same: "approvals db' = approvals db \<Longrightarrow> cleared db' i = cleared db i"
  by (simp add: cleared_def latest_approval_def)

definition fresh_approvals :: "brain_db \<Rightarrow> bool" where
  "fresh_approvals db \<longleftrightarrow> (\<forall>a \<in> set (approvals db). ap_id a < next_id db)"

lemma latest_added:
  assumes "fresh_approvals db" and "approvals db' = row_add a (approvals db)" and "next_id db \<le> ap_id a"
  shows "latest_approval db' (ap_execution a) = Some a"
  using assms unfolding latest_approval_def fresh_approvals_def row_add_def
  by (fastforce intro!: last_by_snoc)

lemma get_put_run: "get_run db i = Some run \<Longrightarrow> r_id run' = i \<Longrightarrow> runs db' = row_put r_id run' (runs db) \<Longrightarrow>
    get_run db' i = Some run'"
  by (simp add: get_run_def run_table.get_put)

section \<open>Confirmation\<close>

text \<open>
  C1: whatever sequence of requests and worker runs, an execution that has got past waiting for
  approval has a recorded approval with both the boss's confirmation and the security audit.
\<close>

theorem no_execution_without_approval:
  assumes "db = w_db (run_events (brain_step digest) (empty_brain tools) requests)"
    and "get_run db i = Some run" and "\<not> before_approval (normalize_state (r_status run))"
  shows "\<exists>a \<in> set (approvals db). ap_execution a = i \<and> ap_decision a = asc ''approved'' \<and> ap_boss a \<and> ap_audited a"
proof -
  have "brain_ok db"
    unfolding assms(1) by (rule brain_machine.run_inv) (rule empty_brain_ok)
  from get_run_ok [OF this assms(2)] have "run_ok db run" .
  with assms(3) get_run_id [OF assms(2)] show ?thesis
    by (auto simp: run_ok_def confirmed_def)
qed

text \<open>
  C27: a start request queues an execution exactly when the execution exists, its latest approval
  record carries both confirmations and its state may go to \<open>QUEUED\<close>; then one item with no attempts
  used joins its priority's list. In every other case nothing is queued.
\<close>

theorem start_queues_iff_cleared:
  "((\<exists>s it w'. enqueue_approved_execution now i w = Inr (StartQueued s it, w')) \<longleftrightarrow>
      (\<exists>run. get_run (w_db w) i = Some run \<and> cleared (w_db w) i \<and> transition_ok (normalize_state (r_status run)) QUEUED))
   \<and> (case enqueue_approved_execution now i w of
        Inr (StartQueued s it, w') \<Rightarrow> qi_execution it = i \<and> qi_attempt it = 0 \<and>
           queue_of p (w_queue w') = queue_of p (w_queue w) @
             (if p = queue_name_for_priority (qi_priority it) then [it] else [])
      | Inr (_, w') \<Rightarrow> w_queue w' = w_queue w
      | Inl _ \<Rightarrow> True)"
proof (cases "get_run (w_db w) i")
  case None
  then show ?thesis by (simp add: enqueue_approved_execution_def Let_def)
next
  case (Some run)
  note i = get_run_id [OF Some]
  show ?thesis
  proof (cases "cleared (w_db w) i")
    case False
    with Some show ?thesis by (auto simp: enqueue_approved_execution_def Let_def cleared_iff)
  next
    case True
    show ?thesis
    proof (cases "transition_ok (normalize_state (r_status run)) QUEUED")
      case ok: True
      let ?data = "Some (JObj [(asc ''queue'', JStr (asc ''brain_execution_queue'')), (asc ''priority'', JStr (r_priority run))])"
      from ok obtain db1 where "transition_run (w_db w) run QUEUED None ?data =
          Inr (run\<lparr>r_status := state_value QUEUED\<rparr>, db1)" by (rule transition_run_ok)
      with Some True ok i show ?thesis
        by (simp add: enqueue_approved_execution_def Let_def cleared_iff enqueue_execution_def brain_fifo.push_lane)
    next
      case bad: False
      then have "r_status run \<noteq> state_value QUEUED"
        by (auto simp: transition_ok_def)
      moreover from bad have "transition_run (w_db w) run QUEUED ty d = Inr x \<Longrightarrow> False" for ty d x
        using transition_run_iff by blast
      ultimately show ?thesis
        using Some True bad by (auto simp: enqueue_approved_execution_def Let_def cleared_iff split: sum.splits)
    qed
  qed
qed

section \<open>Later approvals\<close>

text \<open>
  An approval call without both confirmations sends the execution back to waiting for
  approval, from any state (a finished or running one too), and no start request can queue it
  until a later approval carries both.
\<close>

theorem unconfirmed_approval_stops:
  assumes "get_run (w_db w) i = Some run" and "fresh_approvals (w_db w)" and "\<not> (boss \<and> audited)"
  shows "\<exists>a db'. approve_run (w_db w) i user verdict why boss audited = Inr (Some a, db')
     \<and> aa_decision a = asc ''blocked'' \<and> aa_status a = state_value WAIT_APPROVAL
     \<and> (\<exists>d w2. enqueue_approved_execution now i (w\<lparr>w_db := db'\<rparr>) = Inr (StartBlocked d, w2) \<and> w_queue w2 = w_queue w)"
proof -
  let ?run1 = "run\<lparr>r_status := state_value WAIT_APPROVAL\<rparr>"
  from assms(1) have i: "r_id run = i" by (rule get_run_id)
  let ?dc = "approval_decision (r_risk run) boss audited"
  let ?db1 = "save_run ?run1 (w_db w)"
  let ?why = "clean_text (case why of None \<Rightarrow> dc_reason ?dc | Some x \<Rightarrow> (if x = [] then dc_reason ?dc else x))"
  let ?db2 = "add_approval i (take 100 (clean_opt user)) (asc ''blocked'') ?why boss audited ?db1"
  define a where "a = \<lparr>ap_id = next_id (w_db w), ap_execution = i,
      ap_user = take 100 (clean_opt user), ap_decision = asc ''blocked'', ap_reason = ?why, ap_boss = boss,
      ap_audited = audited\<rparr>"
  define db3 where "db3 = write_execution_log ?db2 ?run1 (asc ''approval_recorded'') (asc ''blocked'') None None None
      (Some (JObj [(asc ''approval'', decision_json ?dc)])) None"
  have blocked: "dc_blocked ?dc" using assms(3) by (simp add: approval.decide_blocked)
  have step: "approve_run (w_db w) i user verdict why boss audited =
      Inr (Some \<lparr>aa_status = state_value WAIT_APPROVAL, aa_decision = asc ''blocked'', aa_approval = ?dc\<rparr>, db3)"
    using assms(1) blocked i by (simp add: approve_run_def Let_def db3_def)
  have appr: "approvals db3 = row_add a (approvals (w_db w))"
    by (simp add: add_approval_def db3_def a_def)
  have a: "next_id (w_db w) \<le> ap_id a" "ap_execution a = i" "\<not> (ap_boss a \<and> ap_audited a)"
    using assms(3) by (simp_all add: a_def)
  have "\<not> cleared db3 i"
    using latest_added [OF assms(2) appr a(1)] a(2,3) by (auto simp: cleared_def)
  moreover have "get_run db3 i = Some ?run1"
    by (rule get_put_run [OF assms(1)]) (simp_all add: add_approval_def db3_def i)
  ultimately have "\<exists>d w2. enqueue_approved_execution now i (w\<lparr>w_db := db3\<rparr>) = Inr (StartBlocked d, w2)
      \<and> w_queue w2 = w_queue w"
    by (simp add: enqueue_approved_execution_def Let_def cleared_iff)
  with step show ?thesis by auto
qed

text \<open>
  A decision other than \<open>approved\<close> on an approved execution, when it carries both confirmations,
  changes no status and leaves the execution startable: the rejection is recorded, not honoured.
\<close>

theorem confirmed_rejection_is_ignored:
  assumes "get_run (w_db w) i = Some run" and "fresh_approvals (w_db w)" and "r_status run = state_value APPROVED"
    and "clean_text verdict \<noteq> asc ''approved''" and "verdict \<noteq> []"
  shows "\<exists>a db'. approve_run (w_db w) i user verdict why True True = Inr (Some a, db')
     \<and> aa_decision a = clean_text verdict \<and> get_run db' i = Some run
     \<and> (\<exists>s it w2. enqueue_approved_execution now i (w\<lparr>w_db := db'\<rparr>) = Inr (StartQueued s it, w2))"
proof -
  from assms(1) have i: "r_id run = i" by (rule get_run_id)
  let ?dc = "approval_decision (r_risk run) True True"
  let ?why = "clean_text (case why of None \<Rightarrow> dc_reason ?dc | Some x \<Rightarrow> (if x = [] then dc_reason ?dc else x))"
  let ?db2 = "add_approval i (take 100 (clean_opt user)) (clean_text verdict) ?why True True (w_db w)"
  define a where "a = \<lparr>ap_id = next_id (w_db w), ap_execution = i, ap_user = take 100 (clean_opt user),
      ap_decision = clean_text verdict, ap_reason = ?why, ap_boss = True, ap_audited = True\<rparr>"
  define db' where "db' = write_execution_log ?db2 run (asc ''approval_recorded'') (clean_text verdict) None None None
      (Some (JObj [(asc ''approval'', decision_json ?dc)])) None"
  have open_dc: "\<not> dc_blocked ?dc" by (simp add: approval.decide_blocked)
  have step: "approve_run (w_db w) i user verdict why True True =
      Inr (Some \<lparr>aa_status = r_status run, aa_decision = clean_text verdict, aa_approval = ?dc\<rparr>, db')"
    using assms(1,4,5) open_dc i by (simp add: approve_run_def Let_def db'_def)
  have appr: "approvals db' = row_add a (approvals (w_db w))"
    by (simp add: add_approval_def db'_def a_def)
  have a: "next_id (w_db w) \<le> ap_id a" "ap_execution a = i" "ap_boss a" "ap_audited a"
    by (simp_all add: a_def)
  have cl: "cleared db' i"
    using latest_added [OF assms(2) appr a(1)] a(2-4) by (auto simp: cleared_def)
  have run': "get_run db' i = Some run"
    using assms(1) by (simp add: get_run_def add_approval_def db'_def)
  have "transition_ok (normalize_state (r_status run)) QUEUED"
    using assms(3) by (simp add: transition_ok_def)
  then obtain db2 where "transition_run db' run QUEUED None
      (Some (JObj [(asc ''queue'', JStr (asc ''brain_execution_queue'')), (asc ''priority'', JStr (r_priority run))]))
      = Inr (run\<lparr>r_status := state_value QUEUED\<rparr>, db2)" by (rule transition_run_ok)
  with run' cl assms(3) have "\<exists>s it w2. enqueue_approved_execution now i (w\<lparr>w_db := db'\<rparr>) = Inr (StartQueued s it, w2)"
    by (auto simp: enqueue_approved_execution_def Let_def cleared_iff split: prod.splits)
  with step run' show ?thesis by auto
qed

section \<open>The worker\<close>

text \<open>The worker may run an item's execution: it is queued and its latest approval carries both confirmations.\<close>

definition may_work :: "brain_db \<Rightarrow> int \<Rightarrow> bool" where
  "may_work db i \<longleftrightarrow> (\<exists>run. get_run db i = Some run \<and> normalize_state (r_status run) = QUEUED \<and> cleared db i)"

text \<open>
  C2: handling an item never raises. The steps of an execution run only when it is queued and
  cleared by its latest approval, and then each of them runs, once and in order; otherwise no
  step changes and no context is created.
\<close>

theorem worker_runs_only_cleared:
  "\<exists>a w'. process_execution_item now wk it w = Inr (a, w') \<and>
     (if may_work (w_db w) (qi_execution it) \<and> \<not> simulated_outage it
      then a = Completed (qi_execution it) \<and>
        map cx_node (contexts (w_db w')) =
          map cx_node (contexts (w_db w)) @ map n_node (run_nodes (w_db w) (qi_execution it))
      else (\<forall>i. a \<noteq> Completed i) \<and> contexts (w_db w') = contexts (w_db w) \<and> nodes (w_db w') = nodes (w_db w))"
proof (cases "\<exists>run. get_run (w_db w) (qi_execution it) = Some run \<and> normalize_state (r_status run) = QUEUED")
  case False
  then have no: "\<not> may_work (w_db w) (qi_execution it)"
    and refused: "\<And>run. get_run (w_db w) (qi_execution it) = Some run \<Longrightarrow> normalize_state (r_status run) \<noteq> QUEUED"
    by (auto simp: may_work_def)
  show ?thesis
    by (rule process_item_refused [where now = now and wk = wk, OF refused]) (use no in auto)
next
  case True
  then obtain run where run: "get_run (w_db w) (qi_execution it) = Some run"
    and queued: "normalize_state (r_status run) = QUEUED" by auto
  note id = get_run_id [OF run]
  have may: "may_work (w_db w) (qi_execution it) \<longleftrightarrow> \<not> dc_blocked (run_decision (w_db w) run)"
    using run queued by (auto simp: may_work_def cleared_iff)
  show ?thesis
  proof (cases "dc_blocked (run_decision (w_db w) run)")
    case True
    show ?thesis
      by (rule process_item_blocked [where now = now and wk = wk, OF run queued True]) (use may True in auto)
  next
    case False
    from run queued False show ?thesis
      by (cases rule: process_item_cases [where now = now and wk = wk])
        (use may False id in auto)
  qed
qed

text \<open>
  C33: an execution the worker completes ends \<open>SUCCESS\<close> with every one of its steps \<open>SUCCESS\<close>; the
  steps of other executions stay as they were.
\<close>

theorem completed_execution_finishes_steps:
  assumes "may_work (w_db w) (qi_execution it)" and "\<not> simulated_outage it"
    and "distinct (map n_id (nodes (w_db w)))"
  shows "\<exists>w' run. process_execution_item now wk it w = Inr (Completed (qi_execution it), w')
     \<and> get_run (w_db w') (qi_execution it) = Some run \<and> r_status run = state_value SUCCESS
     \<and> nodes (w_db w') = map (\<lambda>n. if n_execution n = qi_execution it then n\<lparr>n_status := state_value SUCCESS\<rparr> else n)
         (nodes (w_db w))"
proof -
  let ?i = "qi_execution it"
  from assms(1) obtain run where run: "get_run (w_db w) ?i = Some run"
    and queued: "normalize_state (r_status run) = QUEUED" and open_dc: "\<not> dc_blocked (run_decision (w_db w) run)"
    by (auto simp: may_work_def cleared_iff)
  note id = get_run_id [OF run]
  have rows: "set (run_nodes (w_db w) ?i) = {n \<in> set (nodes (w_db w)). n_execution n = ?i}"
    by (auto simp: run_nodes_def)
  have "distinct (map n_id (filter (\<lambda>n. n_execution n = ?i) (nodes (w_db w))))"
    using assms(3) by (simp add: distinct_map_filter)
  then have dist: "distinct (map n_id (run_nodes (w_db w) ?i))"
    by (simp add: run_nodes_def rows_by_def distinct_map)
  have hit: "n_id n \<in> n_id ` {m \<in> set (nodes (w_db w)). n_execution m = ?i} \<longleftrightarrow> n_execution n = ?i"
    if "n \<in> set (nodes (w_db w))" for n
    using assms(3) that by (auto simp: distinct_map inj_on_def)
  have put: "fold (\<lambda>n. row_put n_id (n\<lparr>n_status := state_value SUCCESS\<rparr>)) (run_nodes (w_db w) ?i) (nodes (w_db w)) =
      map (\<lambda>n. if n_execution n = ?i then n\<lparr>n_status := state_value SUCCESS\<rparr> else n) (nodes (w_db w))"
    using fold_put_nodes [OF assms(3) _ dist] rows hit by (simp cong: map_cong)
  from run queued open_dc show ?thesis
    by (cases rule: process_item_cases [where now = now and wk = wk])
      (use assms(2) id put run in \<open>auto intro: get_put_run\<close>)
qed

section \<open>Retries\<close>

lemma failing_step:
  assumes "waiting (w_queue w) = [it]" and "may_work (w_db w) (qi_execution it)" and "simulated_outage it"
  shows "\<exists>a w' run'. process_next_execution now wk w = Inr (a, w') \<and> get_run (w_db w') (qi_execution it) = Some run'
    \<and> (if qi_attempt it < qi_max_retry it
       then may_work (w_db w') (qi_execution it) \<and> waiting (w_queue w') =
         [it\<lparr>qi_attempt := qi_attempt it + 1, qi_retry := qi_attempt it + 1, qi_status := asc ''waiting'', qi_created := now\<rparr>]
       else r_status run' \<in> {state_value TIMEOUT, state_value FAILED} \<and> waiting (w_queue w') = [])"
proof -
  let ?i = "qi_execution it"
  let ?w1 = "w\<lparr>w_db := update_worker_status now wk (asc ''idle'') None None None 0 0 0 0 (w_db w)\<rparr>"
  from assms(1) obtain q where pop: "dequeue_execution (w_queue w) = Some (it, q)"
    by (cases "dequeue_execution (w_queue w)") (auto simp: dequeue_None dest: brain_fifo.pop_rest)
  with assms(1) have q: "waiting q = []" by (auto dest: brain_fifo.pop_rest)
  let ?w2 = "?w1\<lparr>w_queue := q\<rparr>"
  have popped: "process_next_execution now wk w = process_execution_item now wk it ?w2"
    by (simp add: process_next_execution_def pop)
  from assms(2) obtain run where run: "get_run (w_db ?w2) ?i = Some run"
    and queued: "normalize_state (r_status run) = QUEUED" and cl: "cleared (w_db ?w2) ?i"
    using cleared_same [of "w_db ?w2" "w_db w" ?i] by (auto simp: may_work_def)
  from run cl have open_dc: "\<not> dc_blocked (run_decision (w_db ?w2) run)" by (simp add: cleared_iff)
  note id = get_run_id [OF run]
  from run queued open_dc show ?thesis
  proof (cases rule: process_item_cases [where now = now and wk = wk])
    case (retry w' run' m)
    have "get_run (w_db w') ?i = Some run'"
      by (rule get_put_run [OF run _ retry(4)]) (simp add: retry(5) id)
    moreover have "cleared (w_db w') ?i" using cl cleared_same [OF retry(7)] by simp
    moreover have "waiting (w_queue w') = [it\<lparr>qi_attempt := qi_attempt it + 1, qi_retry := qi_attempt it + 1,
        qi_status := asc ''waiting'', qi_created := now\<rparr>]"
      using q spec [OF retry(10), of HighQueue] spec [OF retry(10), of NormalQueue] spec [OF retry(10), of LowQueue]
      by (cases "queue_name_for_priority (qi_priority it)") (simp_all add: waiting_def)
    ultimately show ?thesis using retry(2,3,6) by (auto simp: may_work_def popped)
  next
    case (stop w' run' m t)
    have "get_run (w_db w') ?i = Some run'"
      by (rule get_put_run [OF run _ stop(5)]) (simp add: stop(6) id)
    moreover have "r_status run' \<in> {state_value TIMEOUT, state_value FAILED}"
      unfolding stop(7) by simp
    moreover have "waiting (w_queue w') = []" using stop(11) q by simp
    ultimately show ?thesis using stop(2,3) by (auto simp: popped)
  qed (use assms(3) in simp)
qed

text \<open>
  C26: retries end. A queued, cleared execution whose item keeps failing, alone in the queue, has
  ended as \<open>TIMEOUT\<close> or \<open>FAILED\<close> after one worker run more than the attempts its item has left,
  and nothing is left waiting.
\<close>

theorem failing_execution_ends:
  assumes "waiting (w_queue w) = [it]" and "may_work (w_db w) (qi_execution it)" and "simulated_outage it"
    and "w' = run_events (brain_step digest) w (replicate (Suc (nat (qi_max_retry it - qi_attempt it))) (Work now wk))"
  shows "\<exists>run. get_run (w_db w') (qi_execution it) = Some run \<and>
      r_status run \<in> {state_value TIMEOUT, state_value FAILED} \<and> waiting (w_queue w') = []"
  using assms
proof (induction "nat (qi_max_retry it - qi_attempt it)" arbitrary: w it)
  case 0
  from failing_step [OF 0(2-4), of now wk] 0(1) obtain a w1 run1 where
    "process_next_execution now wk w = Inr (a, w1)" "get_run (w_db w1) (qi_execution it) = Some run1"
    "r_status run1 \<in> {state_value TIMEOUT, state_value FAILED}" "waiting (w_queue w1) = []" by auto
  with 0(1,5) show ?case by simp
next
  case (Suc k)
  let ?it = "it\<lparr>qi_attempt := qi_attempt it + 1, qi_retry := qi_attempt it + 1, qi_status := asc ''waiting'',
    qi_created := now\<rparr>"
  from Suc(2) have more: "qi_attempt it < qi_max_retry it" and k: "k = nat (qi_max_retry ?it - qi_attempt ?it)"
    by auto
  from failing_step [OF Suc(3-5), of now wk] more obtain a w1 where
    one: "process_next_execution now wk w = Inr (a, w1)"
    and w1: "may_work (w_db w1) (qi_execution ?it)" "waiting (w_queue w1) = [?it]" by auto
  have "simulated_outage ?it" using Suc(5) by (simp add: simulated_outage_def)
  moreover have "w' = run_events (brain_step digest) w1 (replicate (Suc (nat (qi_max_retry ?it - qi_attempt ?it))) (Work now wk))"
    using Suc(6) one by (simp only: k [symmetric] Suc(2) [symmetric]) simp
  ultimately show ?case
    using Suc(1) [OF k w1(2,1)] by simp
qed

section \<open>The record\<close>

text \<open>
  C35: the audit trail is append-only: no request and no worker run removes or changes an approval,
  a state event, an execution log, a context or a recovery record.
\<close>

theorem audit_trail_is_append_only:
  fixes w :: brain_world
  shows "trail (w_db w) (w_db (run_events (brain_step digest) w requests))"
  by (rule brain_trail.run_rel)

section \<open>Concrete executions\<close>

text \<open>A plan on an empty database, whatever the goal, waits for approval as execution 1.\<close>

lemma first_plan:
  "\<exists>db' run. create_plan digest goal None user boss audited (w_db (empty_brain tls)) = Inr (1, db')
     \<and> get_run db' 1 = Some run \<and> r_status run = state_value WAIT_APPROVAL"
proof -
  let ?g = "build_task_graph digest goal"
  let ?d0 = "w_db (empty_brain tls)"
  let ?run = "new_run 1 (tg_goal ?g) (tg_risk ?g) True (take 100 (clean_opt user))"
  let ?d1 = "?d0\<lparr>runs := [?run], next_id := 2\<rparr>"
  let ?x1 = "Some (JObj [(asc ''goal'', JStr (tg_goal ?g)), (asc ''task_type'', JStr (tg_type ?g))])"
  let ?x2 = "Some (JObj [(asc ''node_count'', JInt (int (length (tg_nodes ?g)))),
      (asc ''edge_count'', JInt (int (length (tg_edges ?g))))])"
  let ?x3 = "Some (JObj [(asc ''reason'', JStr plan_reason)])"
  obtain d2 where t1: "transition_run ?d1 ?run ANALYZED None ?x1 = Inr (?run\<lparr>r_status := state_value ANALYZED\<rparr>, d2)"
    by (rule transition_run_ok [of ?run ANALYZED]) (simp_all add: new_run_def transition_ok_def)
  let ?run2 = "?run\<lparr>r_status := state_value ANALYZED\<rparr>"
  obtain d3 where t2: "transition_run d2 ?run2 PLANNED None ?x2 = Inr (?run2\<lparr>r_status := state_value PLANNED\<rparr>, d3)"
    by (rule transition_run_ok [of ?run2 PLANNED]) (simp_all add: transition_ok_def)
  let ?run3 = "?run2\<lparr>r_status := state_value PLANNED\<rparr>"
  obtain d4 where t3: "transition_run d3 ?run3 WAIT_APPROVAL None ?x3 =
      Inr (?run3\<lparr>r_status := state_value WAIT_APPROVAL\<rparr>, d4)"
    by (rule transition_run_ok [of ?run3 WAIT_APPROVAL]) (simp_all add: transition_ok_def)
  have plan: "plan_run ?g None user ?d0 = Inr (?run2, d2)"
    using t1 by (simp add: plan_run_def Let_def empty_brain_def row_add_def)
  obtain j db' where made: "create_plan digest goal None user boss audited ?d0 = Inr (j, db')"
    using plan t2 t3 by (simp add: create_plan_def Let_def)
  then show ?thesis
  proof (cases rule: create_plan_steps)
    case (1 ra da rb db rc dc ty1 ty2 y1 y2)
    note a = transition_run_row [OF t1] and b = transition_run_row [OF 1(2)] and c = transition_run_row [OF 1(3)]
    from 1(1) plan have ra: "ra = ?run2" "da = d2" by simp_all
    have "r_id rc = 1" "r_status rc = state_value WAIT_APPROVAL"
      by (simp_all add: c(1) b(1) ra new_run_def)
    moreover from this have "runs db' = [rc]"
      using 1(5) by (simp add: c(2) b(2) ra a(2) row_put_def b(1) new_run_def c(1))
    ultimately show ?thesis
      using made 1(4) by (simp add: get_run_def row_get_def)
  qed
qed

theorem no_execution_without_approval_witness:
  "\<exists>a \<in> set (approvals (w_db (run_events (brain_step (take 12)) (empty_brain \<lparr>d_tools = [], d_bindings = [], d_routes = []\<rparr>)
       [Plan (asc ''sum'') None None False False, Approve 1 None [] None True True]))).
     ap_execution a = 1 \<and> ap_decision a = asc ''approved'' \<and> ap_boss a \<and> ap_audited a"
proof -
  let ?w0 = "empty_brain \<lparr>d_tools = [], d_bindings = [], d_routes = []\<rparr>"
  obtain db1 run where plan: "create_plan (take 12) (asc ''sum'') None None False False (w_db ?w0) = Inr (1, db1)"
    and run: "get_run db1 1 = Some run" "r_status run = state_value WAIT_APPROVAL"
    using first_plan by blast
  have "transition_ok (normalize_state (r_status run)) APPROVED"
    using run(2) by (simp add: transition_ok_def)
  then obtain db2 where "transition_run db1 run APPROVED None (Some (JObj [(asc ''approved_by'', jopt None)])) =
      Inr (run\<lparr>r_status := state_value APPROVED\<rparr>, db2)" by (rule transition_run_ok)
  moreover have "clean_text (asc ''approved'') = asc ''approved''" by code_simp
  ultimately obtain a db3 where yes: "approve_run db1 1 None [] None True True = Inr (Some a, db3)"
    and ans: "aa_decision a = asc ''approved''"
    using run(1) by (simp add: approve_run_def Let_def approval.decide_blocked)
  let ?rs = "[Plan (asc ''sum'') None None False False, Approve 1 None [] None True True]"
  have end_db: "w_db (run_events (brain_step (take 12)) ?w0 ?rs) = db3"
    using plan yes by (simp add: committed_def)
  obtain run1 where run1: "get_run db3 1 = Some run1" "r_status run1 = state_value APPROVED"
    using yes
  proof (cases rule: approve_run_cases)
    case (1 r r1)
    from 1(7) ans have st: "r_status r1 = state_value APPROVED" by auto
    with 1(1) run have "r1 \<noteq> r" by auto
    with 1(2) have "runs db3 = row_put r_id r1 (runs db1)" by blast
    with st that [OF get_put_run [OF 1(1,3)]] show thesis by blast
  qed
  show ?thesis
    by (rule no_execution_without_approval [OF refl run1(1) [folded end_db]])
      (simp add: run1(2) before_approval_def)
qed

text \<open>
  A small world for the instances: execution 1 in the given state with a confirmed approval, two
  steps of it (in the reverse of their order) and one step of another execution.
\<close>

definition demo_run :: "exec_state \<Rightarrow> brain_run" where
  "demo_run s = (new_run 1 (asc ''sum'') (asc ''low'') True [])\<lparr>r_status := state_value s\<rparr>"

definition demo_step :: "int \<Rightarrow> int \<Rightarrow> int \<Rightarrow> brain_node" where
  "demo_step i run ord =
     \<lparr>n_id = i, n_graph = [], n_execution = run, n_node = int_text i, n_name = [], n_type = [], n_employee = [],
      n_employee_name = [], n_role = [], n_goal = [], n_tools = [], n_tool = None, n_risk = asc ''low'',
      n_approval = True, n_cost = [], n_order = ord, n_status = state_value WAIT_APPROVAL\<rparr>"

definition demo_item :: "json \<Rightarrow> queue_item" where
  "demo_item payload =
     \<lparr>qi_execution = 1, qi_task = asc ''brain-1'', qi_priority = asc ''normal'', qi_status = asc ''waiting'',
      qi_attempt = 0, qi_retry = 0, qi_max_retry = 3, qi_created = 0, qi_payload = payload\<rparr>"

definition demo_world :: "exec_state \<Rightarrow> queue_item list \<Rightarrow> brain_world" where
  "demo_world s items =
     \<lparr>w_db = \<lparr>runs = [demo_run s], nodes = [demo_step 2 1 2, demo_step 3 1 1, demo_step 4 9 1], edges = [], events = [],
        approvals = [\<lparr>ap_id = 5, ap_execution = 1, ap_user = [], ap_decision = asc ''approved'', ap_reason = [],
          ap_boss = True, ap_audited = True\<rparr>],
        calls = [], logs = [], contexts = [], recoveries = [], workers = [],
        tool_tables = \<lparr>d_tools = [], d_bindings = [], d_routes = []\<rparr>, next_id = 6\<rparr>,
      w_queue = empty_queue\<lparr>q_normal := items\<rparr>\<rparr>"

lemma demo_get: "get_run (w_db (demo_world s items)) 1 = Some (demo_run s)"
  by (simp add: get_run_def row_get_def demo_world_def demo_run_def new_run_def)

lemma demo_fresh: "fresh_approvals (w_db (demo_world s items))"
  by (simp add: fresh_approvals_def demo_world_def)

lemma demo_works: "may_work (w_db (demo_world QUEUED items)) 1"
  by (simp add: may_work_def demo_get) (simp add: demo_run_def cleared_def latest_approval_def demo_world_def)

theorem unconfirmed_approval_stops_witness:
  "\<exists>a db'. approve_run (w_db (demo_world SUCCESS [])) 1 None [] None True False = Inr (Some a, db')
     \<and> aa_decision a = asc ''blocked'' \<and> aa_status a = state_value WAIT_APPROVAL
     \<and> (\<exists>d w2. enqueue_approved_execution 7 1 ((demo_world SUCCESS [])\<lparr>w_db := db'\<rparr>) = Inr (StartBlocked d, w2)
         \<and> w_queue w2 = w_queue (demo_world SUCCESS []))"
  by (rule unconfirmed_approval_stops [OF demo_get demo_fresh]) simp

theorem confirmed_rejection_is_ignored_witness:
  "\<exists>a db'. approve_run (w_db (demo_world APPROVED [])) 1 None (asc ''rejected'') None True True = Inr (Some a, db')
     \<and> aa_decision a = clean_text (asc ''rejected'') \<and> get_run db' 1 = Some (demo_run APPROVED)
     \<and> (\<exists>s it w2. enqueue_approved_execution 7 1 ((demo_world APPROVED [])\<lparr>w_db := db'\<rparr>) = Inr (StartQueued s it, w2))"
proof (rule confirmed_rejection_is_ignored [OF demo_get demo_fresh])
  show "clean_text (asc ''rejected'') \<noteq> asc ''approved''" by code_simp
qed (simp_all add: demo_run_def)

theorem completed_execution_finishes_steps_witness:
  "\<exists>w' run. process_execution_item 7 [] (demo_item (JObj [])) (demo_world QUEUED []) = Inr (Completed 1, w')
     \<and> get_run (w_db w') 1 = Some run \<and> r_status run = state_value SUCCESS
     \<and> map n_status (nodes (w_db w')) = [state_value SUCCESS, state_value SUCCESS, state_value WAIT_APPROVAL]"
proof -
  have "\<not> simulated_outage (demo_item (JObj []))" by code_simp
  moreover have "distinct (map n_id (nodes (w_db (demo_world QUEUED []))))"
    by (simp add: demo_world_def demo_step_def)
  moreover have "may_work (w_db (demo_world QUEUED [])) (qi_execution (demo_item (JObj [])))"
    using demo_works by (simp add: demo_item_def)
  ultimately obtain w' run where
    "process_execution_item 7 [] (demo_item (JObj [])) (demo_world QUEUED []) = Inr (Completed 1, w')"
    "get_run (w_db w') 1 = Some run" "r_status run = state_value SUCCESS"
    "nodes (w_db w') = map (\<lambda>n. if n_execution n = 1 then n\<lparr>n_status := state_value SUCCESS\<rparr> else n)
       (nodes (w_db (demo_world QUEUED [])))"
    using completed_execution_finishes_steps [of "demo_world QUEUED []" "demo_item (JObj [])" 7 "[]"]
    by (auto simp: demo_item_def)
  then show ?thesis by (simp add: demo_world_def demo_step_def)
qed

theorem failing_execution_ends_witness:
  "\<exists>run. get_run (w_db (run_events (brain_step (take 12))
        (demo_world QUEUED [demo_item (JObj [(asc ''simulate_failure'', JBool True)])]) (replicate 4 (Work 7 [])))) 1 = Some run
     \<and> r_status run \<in> {state_value TIMEOUT, state_value FAILED}"
proof -
  let ?it = "demo_item (JObj [(asc ''simulate_failure'', JBool True)])"
  have "simulated_outage ?it" by code_simp
  moreover have "waiting (w_queue (demo_world QUEUED [?it])) = [?it]"
    by (simp add: demo_world_def waiting_def empty_queue_def)
  moreover have "may_work (w_db (demo_world QUEUED [?it])) (qi_execution ?it)"
    using demo_works by (simp add: demo_item_def)
  moreover have four: "Suc (nat (qi_max_retry ?it - qi_attempt ?it)) = 4" by (simp add: demo_item_def)
  ultimately show ?thesis
    using failing_execution_ends [of "demo_world QUEUED [?it]" ?it _ "take 12" 7 "[]", OF _ _ _ refl]
    unfolding four by (auto simp: demo_item_def)
qed

end
