(* ===== verification/Gateway_Claims.thy ===== *)
theory Gateway_Claims
  imports Tool_Gateway
begin

text \<open>
  The properties of the tool gateway and the router: when a call is allowed, what no table can
  allow, what the router recommends, and what disabling a built-in route does not do.
\<close>

text \<open>
  C29: the routed access decision in full. A call through the router is allowed exactly when the
  employee has an enabled route to the tool, the tool is registered, enabled and not on the
  forbidden list, the employee's binding allows it, and both confirmations are there whenever the
  binding or the tool's risk asks for approval.
\<close>

theorem routed_access_allowed_iff:
  "allowed (rc_access (check_route_permission db e n boss audited)) \<longleftrightarrow>
     (\<exists>r tool b. find_enabled_route db e n = Some r \<and> get_tool db (clean_text n) = Some tool \<and> t_enabled tool \<and>
        clean_text n \<notin> set FORBIDDEN_TOOLS \<and>
        find_binding db (clean_text e) (clean_text n) = Some b \<and> v_allowed b \<and>
        (if v_approval b \<or> is_high_risk tool then boss \<and> audited else True))"
  by (auto simp: check_route_permission_def access_allowed_iff split: option.splits)

text \<open>
  No contents of the tables can open a forbidden tool: neither the gateway nor the router ever
  allows one of \<^verbatim>\<open>FORBIDDEN_TOOLS\<close>, whoever confirms.
\<close>

theorem forbidden_tools_stay_closed:
  assumes "clean_text n \<in> set FORBIDDEN_TOOLS"
  shows "\<not> allowed (check_tool_access db e n boss audited) \<and>
         \<not> allowed (rc_access (check_route_permission db e n boss audited))"
  using tool_gate.gate_forbidden [OF assms] route_gate.gate_forbidden [OF assms] by simp

theorem forbidden_tools_stay_closed_witness:
  "\<not> allowed (check_tool_access \<lparr>d_tools = [(default_tool 1 (asc ''delete_data'') [] True (asc ''low''))],
        d_bindings = [default_binding (asc ''tiancai'') 1 (asc ''all'') True False], d_routes = []\<rparr>
      (asc ''tiancai'') (asc '' delete_data '') True True)"
proof -
  have "clean_text (asc '' delete_data '') \<in> set FORBIDDEN_TOOLS" by code_simp
  then show ?thesis by (rule forbidden_tools_stay_closed [THEN conjunct1])
qed

text \<open>
  \<^verbatim>\<open>route_tool\<close> recommends only from the employee's enabled routes, the keyword's tool whenever
  one of them leads to it, the first enabled route otherwise, and answers without a tool exactly
  when there is no enabled route.
\<close>

theorem route_tool_recommends:
  "(let routes = filter rt_enabled (list_routes db (Some e)); word = match_tool_by_text task req;
        answer = route_tool db e task req boss audited
    in case recommended answer of
         None \<Rightarrow> routes = [] \<and> routed_check answer = None
       | Some t \<Rightarrow> t \<in> rt_tool ` set routes \<and>
           (if (\<exists>r \<in> set routes. word = Some (rt_tool r)) then word = Some t \<and> by_keyword answer
            else t = rt_tool (hd routes) \<and> \<not> by_keyword answer) \<and>
           routed_check answer = Some (check_route_permission db e t boss audited))"
proof -
  define routes where "routes = filter rt_enabled (list_routes db (Some e))"
  define word where "word = match_tool_by_text task req"
  show ?thesis
  proof (cases "find (\<lambda>r. Some (rt_tool r) = word) routes")
    case None
    then have none: "\<not> (\<exists>r \<in> set routes. word = Some (rt_tool r))" by (auto simp: find_None_iff)
    with None show ?thesis
      by (cases routes) (auto simp: route_tool_def Let_def routes_def [symmetric] word_def [symmetric])
  next
    case (Some r)
    then have r: "r \<in> set routes" "word = Some (rt_tool r)" by (auto simp: find_Some_iff)
    with Some show ?thesis
      by (auto simp: route_tool_def Let_def routes_def [symmetric] word_def [symmetric])
  qed
qed

text \<open>
  Disabling a built-in route in the table has no effect on the permission check: while every
  stored route of an employee to a tool is disabled, the check falls back to the built-in route.
\<close>

lemma disabled_builtin_route_still_counts:
  assumes "d \<in> set DEFAULT_TOOL_ROUTES"
    and "\<And>r. r \<in> set (d_routes db) \<Longrightarrow> rt_employee r = rt_employee d \<Longrightarrow> rt_tool r = rt_tool d \<Longrightarrow> \<not> rt_enabled r"
  shows "rc_access (check_route_permission db (rt_employee d) (rt_tool d) boss audited) =
         check_tool_access db (rt_employee d) (rt_tool d) boss audited"
proof -
  let ?P = "\<lambda>r. rt_employee r = rt_employee d \<and> rt_tool r = rt_tool d \<and> rt_enabled r"
  have "set (rows_by route_order ?P (d_routes db)) = {}"
    using assms(2) by auto
  then have none: "rows_by route_order ?P (d_routes db) = []" by (simp only: set_empty)
  have "rt_enabled d"
    using assms(1) by (auto simp: DEFAULT_TOOL_ROUTES_def default_route_def)
  with assms(1) obtain r where "find ?P DEFAULT_TOOL_ROUTES = Some r"
    by (cases "find ?P DEFAULT_TOOL_ROUTES") (auto simp: find_None_iff)
  with none show ?thesis
    by (simp add: check_route_permission_def find_enabled_route_def)
qed

theorem disabled_builtin_route_still_counts_witness:
  "(let e = asc ''tianyu''; t = asc ''seo_analyzer'';
        off = \<lparr>rt_id = Some 1, rt_employee = e, rt_tool = t, rt_priority = 10, rt_risk = asc ''low'', rt_enabled = False\<rparr>;
        db = \<lparr>d_tools = [], d_bindings = [], d_routes = [off]\<rparr>
    in rc_access (check_route_permission db e t False False) = check_tool_access db e t False False)"
proof -
  let ?d = "\<lparr>rt_id = None, rt_employee = asc ''tianyu'', rt_tool = asc ''seo_analyzer'', rt_priority = 10,
    rt_risk = asc ''low'', rt_enabled = True\<rparr>"
  have "?d \<in> set DEFAULT_TOOL_ROUTES" by (simp add: DEFAULT_TOOL_ROUTES_def default_route_def)
  then show ?thesis
    using disabled_builtin_route_still_counts [of ?d "\<lparr>d_tools = [], d_bindings = [], d_routes =
        [\<lparr>rt_id = Some 1, rt_employee = asc ''tianyu'', rt_tool = asc ''seo_analyzer'', rt_priority = 10,
          rt_risk = asc ''low'', rt_enabled = False\<rparr>]\<rparr>" False False]
    by (simp add: Let_def)
qed

end
