(* ===== verification/Url.thy ===== *)
theory Url
  imports Prelude
begin

text \<open>
  What the program uses of \<^verbatim>\<open>urllib.parse\<close>: splitting a URL and putting it together, and reading a query
  string with its percent escapes. The second part shows when splitting undoes putting together.
\<close>

section \<open>Splitting a URL\<close>

text \<open>
  \<^verbatim>\<open>urllib.parse.urlsplit\<close>. A bracketed authority (an IPv6 literal) counts as malformed here: no
  allowed origin is one. The check of characters outside ASCII whose compatibility form is a
  delimiter is left out.
\<close>

record url_parts =
  up_scheme :: ustr
  up_netloc :: ustr
  up_path :: ustr
  up_query :: ustr
  up_fragment :: ustr

definition is_alpha :: "int \<Rightarrow> bool" where
  "is_alpha c \<longleftrightarrow> 65 \<le> c \<and> c \<le> 90 \<or> 97 \<le> c \<and> c \<le> 122"

definition scheme_char :: "int \<Rightarrow> bool" where
  "scheme_char c \<longleftrightarrow> is_alpha c \<or> is_digit c \<or> c \<in> {43, 45, 46}"

definition cut_at :: "(int \<Rightarrow> bool) \<Rightarrow> ustr \<Rightarrow> ustr \<times> ustr option" where
  "cut_at p s =
     (takeWhile (\<lambda>c. \<not> p c) s,
      case dropWhile (\<lambda>c. \<not> p c) s of [] \<Rightarrow> None | _ # rest \<Rightarrow> Some rest)"

definition split_scheme :: "ustr \<Rightarrow> ustr \<times> ustr" where
  "split_scheme url =
     (case cut_at (\<lambda>c. c = 58) url of
        (s, Some rest) \<Rightarrow>
          if s \<noteq> [] \<and> is_alpha (hd s) \<and> list_all scheme_char s then (lower s, rest) else ([], url)
      | (_, None) \<Rightarrow> ([], url))"

definition split_netloc :: "ustr \<Rightarrow> ustr \<times> ustr" where
  "split_netloc url =
     (if take 2 url = [47, 47]
      then (takeWhile (\<lambda>c. c \<notin> {47, 63, 35}) (drop 2 url), dropWhile (\<lambda>c. c \<notin> {47, 63, 35}) (drop 2 url))
      else ([], url))"

definition opt_empty :: "ustr option \<Rightarrow> ustr" where
  "opt_empty x = (case x of None \<Rightarrow> [] | Some s \<Rightarrow> s)"

definition urlsplit :: "ustr \<Rightarrow> url_parts option" where
  "urlsplit raw =
     (let url = filter (\<lambda>c. c \<notin> {9, 10, 13}) (dropWhile (\<lambda>c. c \<le> 32) raw);
          (scheme, rest) = split_scheme url;
          (netloc, rest1) = split_netloc rest;
          (rest2, fragment) = cut_at (\<lambda>c. c = 35) rest1;
          (path, query) = cut_at (\<lambda>c. c = 63) rest2
      in if 91 \<in> set netloc \<or> 93 \<in> set netloc then None
         else Some \<lparr>up_scheme = scheme, up_netloc = netloc, up_path = path,
                    up_query = opt_empty query, up_fragment = opt_empty fragment\<rparr>)"

text \<open>\<^verbatim>\<open>urlunsplit\<close> of parts with a scheme and an authority.\<close>

definition urlunsplit :: "url_parts \<Rightarrow> ustr" where
  "urlunsplit u =
     up_scheme u @ (asc ''://'') @ up_netloc u @ (if up_path u = [] \<or> hd (up_path u) = 47 then up_path u else 47 # up_path u) @
     (if up_query u = [] then [] else 63 # up_query u) @ (if up_fragment u = [] then [] else 35 # up_fragment u)"

section \<open>Query strings\<close>

definition hex_value :: "int \<Rightarrow> int option" where
  "hex_value c =
     (if 48 \<le> c \<and> c \<le> 57 then Some (c - 48)
      else if 65 \<le> c \<and> c \<le> 70 then Some (c - 55)
      else if 97 \<le> c \<and> c \<le> 102 then Some (c - 87) else None)"

text \<open>\<^verbatim>\<open>unquote_to_bytes\<close>: a percent sign not followed by two hexadecimal digits stays.\<close>

fun unpercent :: "ustr \<Rightarrow> int list" where
  "unpercent [] = []"
| "unpercent [c] = [c]"
| "unpercent [c, d] = [c, d]"
| "unpercent (c # d # e # rest) =
     (case (hex_value d, hex_value e) of
        (Some h, Some l) \<Rightarrow> if c = 37 then (16 * h + l) # unpercent rest else c # unpercent (d # e # rest)
      | _ \<Rightarrow> c # unpercent (d # e # rest))"

text \<open>
  Decoding UTF-8 with \<^verbatim>\<open>errors="replace"\<close>: the ranges of the bytes that may follow a first byte; the longest
  valid start of a broken sequence becomes one replacement character.
\<close>

definition utf8_follow :: "int \<Rightarrow> (int \<times> int) list option" where
  "utf8_follow b =
     (if b < 0x80 then Some []
      else if 0xC2 \<le> b \<and> b \<le> 0xDF then Some [(0x80, 0xBF)]
      else if b = 0xE0 then Some [(0xA0, 0xBF), (0x80, 0xBF)]
      else if b = 0xED then Some [(0x80, 0x9F), (0x80, 0xBF)]
      else if 0xE1 \<le> b \<and> b \<le> 0xEF then Some [(0x80, 0xBF), (0x80, 0xBF)]
      else if b = 0xF0 then Some [(0x90, 0xBF), (0x80, 0xBF), (0x80, 0xBF)]
      else if 0xF1 \<le> b \<and> b \<le> 0xF3 then Some [(0x80, 0xBF), (0x80, 0xBF), (0x80, 0xBF)]
      else if b = 0xF4 then Some [(0x80, 0x8F), (0x80, 0xBF), (0x80, 0xBF)]
      else None)"

fun following :: "(int \<times> int) list \<Rightarrow> int list \<Rightarrow> nat" where
  "following ((lo, hi) # rs) (b # bs) = (if lo \<le> b \<and> b \<le> hi then Suc (following rs bs) else 0)"
| "following _ _ = 0"

definition utf8_value :: "int \<Rightarrow> int list \<Rightarrow> int" where
  "utf8_value b bs =
     fold (\<lambda>c acc. 64 * acc + (c - 0x80)) bs
       (if bs = [] then b else if length bs = 1 then b - 0xC0 else if length bs = 2 then b - 0xE0 else b - 0xF0)"

function utf8_decode :: "int list \<Rightarrow> ustr" where
  "utf8_decode [] = []"
| "utf8_decode (b # bs) =
     (case utf8_follow b of
        None \<Rightarrow> 0xFFFD # utf8_decode bs
      | Some ranges \<Rightarrow>
          let n = following ranges bs
          in (if n = length ranges then utf8_value b (take n bs) else 0xFFFD) # utf8_decode (drop n bs))"
  by pat_completeness auto
termination by (relation "measure length") auto

text \<open>\<^verbatim>\<open>unquote\<close> decodes the runs of ASCII characters and leaves the others.\<close>

function unquote_runs :: "ustr \<Rightarrow> ustr" where
  "unquote_runs [] = []"
| "unquote_runs (c # cs) =
     (if c < 128
      then utf8_decode (unpercent (c # takeWhile (\<lambda>x. x < 128) cs)) @ unquote_runs (dropWhile (\<lambda>x. x < 128) cs)
      else c # unquote_runs cs)"
  by pat_completeness auto
termination by (relation "measure length") (auto simp: le_imp_less_Suc length_dropWhile_le)

definition unquote :: "ustr \<Rightarrow> ustr" where
  "unquote t = (if 37 \<notin> set t then t else unquote_runs t)"

definition unquote_plus :: "ustr \<Rightarrow> ustr" where
  "unquote_plus t = unquote (map (\<lambda>c. if c = 43 then 32 else c) t)"

fun split_on :: "int \<Rightarrow> ustr \<Rightarrow> ustr list" where
  "split_on c [] = [[]]"
| "split_on c (x # xs) =
     (if x = c then [] # split_on c xs
      else case split_on c xs of [] \<Rightarrow> [[x]] | y # ys \<Rightarrow> (x # y) # ys)"

text \<open>\<^verbatim>\<open>parse_qsl\<close> with \<^verbatim>\<open>keep_blank_values\<close>.\<close>

definition parse_field :: "ustr \<Rightarrow> ustr \<times> ustr" where
  "parse_field f = (case cut_at (\<lambda>c. c = 61) f of (k, v) \<Rightarrow> (unquote_plus k, unquote_plus (opt_empty v)))"

definition parse_qsl :: "ustr \<Rightarrow> (ustr \<times> ustr) list" where
  "parse_qsl query = map parse_field (filter (\<lambda>f. f \<noteq> []) (split_on 38 query))"

section \<open>Reading back a query\<close>

lemma cut_at_app: "list_all (\<lambda>c. \<not> p c) k \<Longrightarrow> p x \<Longrightarrow> cut_at p (k @ x # v) = (k, Some v)"
  by (auto simp: cut_at_def list_all_iff takeWhile_append dropWhile_append)

lemma cut_at_none: "list_all (\<lambda>c. \<not> p c) k \<Longrightarrow> cut_at p k = (k, None)"
  by (auto simp: cut_at_def list_all_iff takeWhile_eq_all_conv dropWhile_eq_Nil_conv split: list.splits)
    (metis dropWhile_eq_Nil_conv list.distinct(1))

lemma cut_at_set: "cut_at p s = (k, v) \<Longrightarrow> set k \<subseteq> set s \<and> set (opt_empty v) \<subseteq> set s \<and> list_all (\<lambda>c. \<not> p c) k"
  by (auto simp: cut_at_def opt_empty_def list_all_iff dest!: set_takeWhileD split: list.splits)
    (metis list.set_intros(2) set_dropWhileD)

lemma split_on_set: "f \<in> set (split_on c s) \<Longrightarrow> set f \<subseteq> set s \<and> c \<notin> set f"
proof (induction s arbitrary: f)
  case (Cons x xs)
  then show ?case by (cases "split_on c xs") (fastforce split: if_splits)+
qed simp

lemma split_on_not_empty [simp]: "split_on c s \<noteq> []"
  by (induction s) (auto split: list.splits)

lemma split_on_app: "c \<notin> set f \<Longrightarrow> split_on c (f @ c # s) = f # split_on c s"
  by (induction f) auto

lemma split_on_one: "c \<notin> set f \<Longrightarrow> split_on c f = [f]"
  by (induction f) auto

lemma unquote_plus_plain [simp]: "37 \<notin> set t \<Longrightarrow> 43 \<notin> set t \<Longrightarrow> unquote_plus t = t"
  by (auto simp: unquote_plus_def unquote_def intro: map_idI)

text \<open>The items of a query without escapes are pieces of it.\<close>

lemma parse_plain:
  assumes "37 \<notin> set q" and "43 \<notin> set q" and "(k, v) \<in> set (parse_qsl q)"
  shows "set k \<subseteq> set q" and "set v \<subseteq> set q" and "61 \<notin> set k" and "38 \<notin> set k" and "38 \<notin> set v"
proof -
  from assms(3) obtain f where f: "f \<in> set (split_on 38 q)" "(k, v) = parse_field f" by (auto simp: parse_qsl_def)
  obtain k0 v0 where cut: "cut_at (\<lambda>c. c = 61) f = (k0, v0)" by fastforce
  from split_on_set [OF f(1)] cut_at_set [OF cut]
  have sub: "set k0 \<subseteq> set q" "set (opt_empty v0) \<subseteq> set q" "61 \<notin> set k0" "38 \<notin> set k0" "38 \<notin> set (opt_empty v0)"
    by (auto simp: list_all_iff)
  moreover from sub assms(1,2) have "37 \<notin> set k0" "43 \<notin> set k0" "37 \<notin> set (opt_empty v0)" "43 \<notin> set (opt_empty v0)"
    by blast+
  then have "k = k0" "v = opt_empty v0" using f(2) by (simp_all add: parse_field_def cut)
  ultimately show "set k \<subseteq> set q" "set v \<subseteq> set q" "61 \<notin> set k" "38 \<notin> set k" "38 \<notin> set v" by auto
qed

fun query_text :: "(ustr \<times> ustr) list \<Rightarrow> ustr" where
  "query_text [] = []"
| "query_text [(k, v)] = k @ 61 # v"
| "query_text ((k, v) # y # ys) = k @ 61 # v @ 38 # query_text (y # ys)"

definition plain_item :: "ustr \<times> ustr \<Rightarrow> bool" where
  "plain_item kv \<longleftrightarrow> {37, 38, 43, 61} \<inter> set (fst kv) = {} \<and> {37, 38, 43} \<inter> set (snd kv) = {}"

lemma parse_field_text: "plain_item (k, v) \<Longrightarrow> parse_field (k @ 61 # v) = (k, v)"
proof -
  assume plain: "plain_item (k, v)"
  then have "list_all (\<lambda>c. c \<noteq> 61) k" by (auto simp: plain_item_def list_all_iff)
  then have "cut_at (\<lambda>c. c = 61) (k @ 61 # v) = (k, Some v)" by (intro cut_at_app) simp_all
  with plain show ?thesis by (simp add: plain_item_def parse_field_def opt_empty_def)
qed

lemma parse_query_text: "list_all plain_item kvs \<Longrightarrow> parse_qsl (query_text kvs) = kvs"
proof (induction kvs rule: query_text.induct)
  case 1
  show ?case by (simp add: parse_qsl_def)
next
  case (2 k v)
  then have "38 \<notin> set (k @ 61 # v)" by (auto simp: plain_item_def)
  from split_on_one [OF this] 2 show ?case by (simp add: parse_qsl_def parse_field_text)
next
  case (3 k v y ys)
  then have "38 \<notin> set (k @ 61 # v)" by (auto simp: plain_item_def)
  from split_on_app [OF this, of "query_text (y # ys)"] 3 show ?case
    by (simp add: parse_qsl_def parse_field_text)
qed

lemma set_query_text: "set (query_text kvs) \<subseteq> {38, 61} \<union> (\<Union>kv \<in> set kvs. set (fst kv) \<union> set (snd kv))"
  by (induction kvs rule: query_text.induct) auto

section \<open>Splitting what was put together\<close>

text \<open>The characters a part cannot hold when \<^verbatim>\<open>urlsplit\<close> has split it off.\<close>

definition url_parts_ok :: "url_parts \<Rightarrow> bool" where
  "url_parts_ok u \<longleftrightarrow>
     up_scheme u \<in> {(asc ''http''), (asc ''https'')} \<and> {9, 10, 13, 35, 47, 63, 91, 93} \<inter> set (up_netloc u) = {} \<and>
     {9, 10, 13, 35, 63} \<inter> set (up_path u) = {} \<and> (up_path u = [] \<or> hd (up_path u) = 47) \<and>
     {9, 10, 13, 35} \<inter> set (up_query u) = {} \<and> {9, 10, 13} \<inter> set (up_fragment u) = {}"

lemma takeWhile_stop: "list_all p xs \<Longrightarrow> ys = [] \<or> \<not> p (hd ys) \<Longrightarrow> takeWhile p (xs @ ys) = xs \<and> dropWhile p (xs @ ys) = ys"
  by (cases ys) (auto simp: list_all_iff takeWhile_append dropWhile_append takeWhile_eq_all_conv dropWhile_eq_Nil_conv)

lemma cut_optional:
  assumes "list_all (\<lambda>c. c \<noteq> x) k"
  shows "cut_at (\<lambda>c. c = x) (k @ (if v = [] then [] else x # v)) = (k, if v = [] then None else Some v)"
  using assms cut_at_app [of "\<lambda>c. c = x" k x v] cut_at_none [of "\<lambda>c. c = x" k] by (auto simp: list_all_iff)

lemma scheme_texts:
  "asc ''http'' = [104, 116, 116, 112]" "asc ''https'' = [104, 116, 116, 112, 115]" "asc ''://'' = [58, 47, 47]"
  by code_simp+

text \<open>The first two steps of \<^verbatim>\<open>urlsplit\<close> on a URL of one of the two schemes.\<close>

lemma http_kept:
  fixes S :: ustr
  assumes "S = [104, 116, 116, 112] \<or> S = [104, 116, 116, 112, 115]" and "list_all (\<lambda>c. c \<notin> {9, 10, 13}) r"
  shows "filter (\<lambda>c. c \<notin> {9, 10, 13}) (dropWhile (\<lambda>c. c \<le> 32) (S @ 58 # r)) = S @ 58 # r"
proof -
  define keep :: "int \<Rightarrow> bool" where "keep = (\<lambda>c. c \<notin> {9, 10, 13})"
  have keep: "keep 104" "keep 116" "keep 112" "keep 115" "keep 58" by (simp_all add: keep_def)
  have "filter keep r = r" using assms(2) unfolding keep_def [symmetric] by (simp only: filter_id_conv list_all_iff)
  with assms(1) keep show ?thesis unfolding keep_def [symmetric] by (elim disjE) simp_all
qed

lemma http_scheme:
  fixes S :: ustr
  assumes "S = [104, 116, 116, 112] \<or> S = [104, 116, 116, 112, 115]"
  shows "split_scheme (S @ 58 # r) = (S, r)"
proof -
  have "cut_at (\<lambda>c. c = 58) (S @ 58 # r) = (S, Some r)" using assms by (intro cut_at_app) auto
  then show ?thesis
    using assms by (auto simp: split_scheme_def lower_def lower_char_def is_alpha_def scheme_char_def)
qed

lemma urlsplit_unsplit:
  assumes "url_parts_ok u"
  shows "urlsplit (urlunsplit u) = Some u"
proof -
  define P where "P = up_path u"
  define Q where "Q = (if up_query u = [] then [] else 63 # up_query u)"
  define F where "F = (if up_fragment u = [] then [] else 35 # up_fragment u)"
  define N where "N = up_netloc u"
  define S where "S = up_scheme u"
  note parts = assms [unfolded url_parts_ok_def, folded P_def N_def S_def]
  have url: "urlunsplit u = S @ 58 # 47 # 47 # N @ P @ Q @ F"
    using parts by (simp add: urlunsplit_def P_def Q_def F_def N_def S_def scheme_texts(3))
  have S: "S = [104, 116, 116, 112] \<or> S = [104, 116, 116, 112, 115]"
    using parts by (simp add: scheme_texts)
  have "list_all (\<lambda>c. c \<notin> {9, 10, 13}) N" "list_all (\<lambda>c. c \<notin> {9, 10, 13}) P"
    "list_all (\<lambda>c. c \<notin> {9, 10, 13}) Q" "list_all (\<lambda>c. c \<notin> {9, 10, 13}) F"
    using parts by (auto simp: list_all_iff Q_def F_def)
  then have "list_all (\<lambda>c. c \<notin> {9, 10, 13}) (47 # 47 # N @ P @ Q @ F)" by simp
  from http_kept [OF S this] have plain: "filter (\<lambda>c. c \<notin> {9, 10, 13}) (dropWhile (\<lambda>c. c \<le> 32) (urlunsplit u)) = urlunsplit u"
    unfolding url .
  from http_scheme [OF S] have s: "split_scheme (urlunsplit u) = (S, 47 # 47 # N @ P @ Q @ F)"
    unfolding url .
  have "list_all (\<lambda>c. c \<notin> {47, 63, 35}) N" "P @ Q @ F = [] \<or> hd (P @ Q @ F) \<in> {47, 63, 35}"
    using parts by (auto simp: list_all_iff Q_def F_def hd_append)
  then have n: "split_netloc (47 # 47 # N @ P @ Q @ F) = (N, P @ Q @ F)"
    using takeWhile_stop [of "\<lambda>c. c \<notin> {47, 63, 35}" N "P @ Q @ F"] by (simp add: split_netloc_def)
  have "list_all (\<lambda>c. c \<noteq> 35) (P @ Q)" "list_all (\<lambda>c. c \<noteq> 63) P"
    using parts by (auto simp: list_all_iff Q_def)
  then have f: "cut_at (\<lambda>c. c = 35) (P @ Q @ F) = (P @ Q, if up_fragment u = [] then None else Some (up_fragment u))"
    and q: "cut_at (\<lambda>c. c = 63) (P @ Q) = (P, if up_query u = [] then None else Some (up_query u))"
    using cut_optional [of 35 "P @ Q" "up_fragment u"] cut_optional [of 63 P "up_query u"] by (simp_all add: F_def Q_def)
  show ?thesis
    unfolding urlsplit_def plain s n f q prod.case Let_def
    using parts by (simp add: opt_empty_def P_def N_def S_def)
qed

text \<open>What \<^verbatim>\<open>urlsplit\<close> makes of a URL with one of the two schemes.\<close>

lemma urlsplit_parts:
  assumes "urlsplit (s @ (asc ''://'') @ r) = Some u" and "s \<in> {(asc ''http''), (asc ''https'')}"
  shows "url_parts_ok u"
proof -
  have S: "s = [104, 116, 116, 112] \<or> s = [104, 116, 116, 112, 115]"
    using assms(2) by (simp add: scheme_texts)
  define r1 where "r1 = filter (\<lambda>c. c \<notin> {9, 10, 13}) r"
  have url: "filter (\<lambda>c. c \<notin> {9, 10, 13}) (dropWhile (\<lambda>c. c \<le> 32) (s @ (asc ''://'') @ r)) = s @ 58 # 47 # 47 # r1"
    using S by (auto simp: scheme_texts r1_def)
  have clean: "{9, 10, 13} \<inter> set r1 = {}" by (auto simp: r1_def)
  define N where "N = takeWhile (\<lambda>c. c \<notin> {47, 63, 35}) r1"
  define T where "T = dropWhile (\<lambda>c. c \<notin> {47, 63, 35}) r1"
  have n: "split_netloc (47 # 47 # r1) = (N, T)" by (simp add: split_netloc_def N_def T_def)
  have N: "set N \<subseteq> set r1" "{47, 63, 35} \<inter> set N = {}" by (auto simp: N_def dest: set_takeWhileD)
  have T: "set T \<subseteq> set r1" by (auto simp: T_def dest: set_dropWhileD)
  have T_hd: "T = [] \<or> hd T \<in> {47, 63, 35}"
    using hd_dropWhile [of "\<lambda>c. c \<notin> {47, 63, 35}" r1] by (auto simp: T_def)
  obtain PQ f where f: "cut_at (\<lambda>c. c = 35) T = (PQ, f)" by fastforce
  obtain P q where q: "cut_at (\<lambda>c. c = 63) PQ = (P, q)" by fastforce
  from assms(1) have bracket: "{91, 93} \<inter> set N = {}"
    and u: "u = \<lparr>up_scheme = s, up_netloc = N, up_path = P, up_query = opt_empty q, up_fragment = opt_empty f\<rparr>"
    unfolding urlsplit_def url http_scheme [OF S] n f q prod.case Let_def by (auto split: if_splits)
  have P_hd: "P = [] \<or> hd P = 47"
  proof -
    have "PQ = takeWhile (\<lambda>c. c \<noteq> 35) T" "P = takeWhile (\<lambda>c. c \<noteq> 63) PQ"
      using f q by (auto simp: cut_at_def)
    then show ?thesis using T_hd by (cases T) (auto split: if_splits)
  qed
  from cut_at_set [OF f] cut_at_set [OF q] T
  have sub: "set PQ \<subseteq> set r1" "set (opt_empty f) \<subseteq> set r1" "35 \<notin> set PQ" "set P \<subseteq> set PQ"
    "set (opt_empty q) \<subseteq> set PQ" "63 \<notin> set P"
    by (auto simp: list_all_iff)
  show ?thesis
    unfolding url_parts_ok_def u using assms(2) bracket N P_hd sub clean by (simp add: subset_iff) blast
qed

end
