(* ===== verification/Agent_Data.thy ===== *)
theory Agent_Data
  imports Json Url
begin

text \<open>
  The data of the agent runtime (\<^verbatim>\<open>backend/agent_runtime/models.py\<close>, \<^verbatim>\<open>constants.py\<close>), the
  redaction of payloads and the audit events (\<^verbatim>\<open>audit.py\<close>). JSON columns are kept as the values
  they encode; of an input schema the part the code reads is kept. The parameter \<open>ru\<close> stands for what
  comes of a URL that \<^verbatim>\<open>urlsplit\<close> refuses: the \<^verbatim>\<open>ValueError\<close> the code raises there is not followed.
\<close>

section \<open>Rows\<close>

text \<open>What \<^verbatim>\<open>json.loads(input_schema_json)\<close> meets: no text, text that is no JSON, a value.\<close>

datatype schema = NoSchema | BadSchema | Schema json

record capability =
  cp_id :: ustr
  cp_name :: ustr
  cp_type :: ustr
  cp_executor :: ustr
  cp_risk :: ustr
  cp_enabled :: bool
  cp_readonly :: bool
  cp_boss :: bool
  cp_audit :: bool
  cp_timeout :: int
  cp_retries :: int
  cp_schema :: schema
  cp_allowed :: "ustr list"
  cp_version :: ustr

record agent_execution =
  ax_id :: ustr
  ax_task :: "int option"
  ax_employee :: int
  ax_capability :: ustr
  ax_status :: ustr
  ax_risk :: ustr
  ax_approval :: ustr
  ax_executor :: ustr
  ax_input :: json
  ax_output :: json
  ax_error_code :: "ustr option"
  ax_error :: "ustr option"
  ax_retry :: int
  ax_started :: "int option"
  ax_finished :: "int option"
  ax_duration :: "int option"
  ax_trace :: ustr
  ax_creator :: int

record agent_audit =
  au_execution :: ustr
  au_event :: ustr
  au_actor_type :: ustr
  au_actor :: ustr
  au_approval :: "ustr option"
  au_decision :: "ustr option"
  au_risk :: ustr
  au_input :: "ustr option"
  au_output :: "ustr option"
  au_error :: "ustr option"
  au_executor :: ustr
  au_sensitive :: bool
  au_trace :: ustr

record ai_employee =
  em_id :: int
  em_code :: ustr
  em_name :: ustr
  em_status :: ustr
  em_legacy :: bool

record agent_user =
  us_id :: int
  us_name :: ustr

record task_row =
  tk_id :: int
  tk_summary :: "ustr option"

record agent_db =
  ag_caps :: "capability list"
  ag_execs :: "agent_execution list"
  ag_audits :: "agent_audit list"
  ag_employees :: "ai_employee list"
  ag_tasks :: "task_row list"

interpretation cap_table: keyed_table cp_id "row_get cp_id" "row_put cp_id" row_add
  by (rule row_keyed_table)

interpretation exec_table: keyed_table ax_id "row_get ax_id" "row_put ax_id" row_add
  by (rule row_keyed_table)

section \<open>Redaction\<close>

definition SENSITIVE_MARKERS :: "ustr list" where
  "SENSITIVE_MARKERS =
     [(asc ''password''), (asc ''secret''), (asc ''token''), (asc ''cookie''), (asc ''private_key''), (asc ''authorization''), (asc ''bearer''), (asc ''api_key''), (asc ''api key'')]"

text \<open>\<^verbatim>\<open>SENSITIVE_RE.search\<close>.\<close>

definition sensitive :: "ustr \<Rightarrow> bool" where
  "sensitive t \<longleftrightarrow> occurs_any SENSITIVE_MARKERS (map re_fold t)"

definition MASK :: ustr where
  "MASK = [0x5B, 0x5DF2, 0x8131, 0x654F, 0x5D]"

text \<open>
  \<^verbatim>\<open>redact_url\<close>: the values of the query items whose key is sensitive are masked. The items are printed
  as they were decoded. \<open>None\<close> is the \<^verbatim>\<open>ValueError\<close> of \<^verbatim>\<open>urlsplit\<close>.
\<close>

definition masked_item :: "ustr \<times> ustr \<Rightarrow> ustr \<times> ustr" where
  "masked_item = (\<lambda>(key, item). (key, if sensitive key then MASK else item))"

definition redact_url :: "ustr \<Rightarrow> ustr option" where
  "redact_url value =
     (case urlsplit value of
        None \<Rightarrow> None
      | Some u \<Rightarrow>
          if up_scheme u = [] \<or> up_netloc u = [] then Some value
          else Some (urlunsplit (u\<lparr>up_query :=
                 joined [38] (map (\<lambda>(key, item). key @ [61] @ item) (map masked_item (parse_qsl (up_query u))))\<rparr>)))"

definition http_url :: "ustr \<Rightarrow> bool" where
  "http_url value \<longleftrightarrow> starts_with (asc ''http://'') value \<or> starts_with (asc ''https://'') value"

definition redact_text :: "(ustr \<Rightarrow> ustr) \<Rightarrow> ustr \<Rightarrow> ustr" where
  "redact_text ru value =
     (if strip value = [] then []
      else if http_url value then (case redact_url value of Some v \<Rightarrow> v | None \<Rightarrow> ru value)
      else if sensitive value then MASK
      else value)"

fun sanitize_payload :: "(ustr \<Rightarrow> ustr) \<Rightarrow> json \<Rightarrow> json" where
  "sanitize_payload ru (JObj kvs) =
     JObj (dict_of (map (\<lambda>kv. if sensitive (fst kv) then (MASK, JStr MASK)
                               else (fst kv, sanitize_payload ru (snd kv))) kvs))"
| "sanitize_payload ru (JArr xs) = JArr (map (sanitize_payload ru) xs)"
| "sanitize_payload ru (JStr s) = JStr (redact_text ru s)"
| "sanitize_payload ru j = j"

definition payload_summary :: "(ustr \<Rightarrow> ustr) \<Rightarrow> json \<Rightarrow> ustr option" where
  "payload_summary ru value =
     (case sanitize_payload ru value of
        JNull \<Rightarrow> None
      | JObj kvs \<Rightarrow> Some (take 500 (dumps (JObj kvs)))
      | JArr xs \<Rightarrow> Some (take 500 (dumps (JArr xs)))
      | v \<Rightarrow> Some (take 500 (scalar_text v)))"

text \<open>\<^verbatim>\<open>contains_sensitive\<close> of \<^verbatim>\<open>service.py\<close>: its own, shorter, word list, on the lowered text.\<close>

definition contains_sensitive :: "json \<Rightarrow> bool" where
  "contains_sensitive payload =
     (truthy payload \<and> occurs_any [(asc ''password''), (asc ''secret''), (asc ''token''), (asc ''cookie''), (asc ''private_key''), (asc ''api key'')]
        (lower (dumps payload)))"

section \<open>Audit events\<close>

record audit_note =
  no_approval :: "ustr option"
  no_decision :: "ustr option"
  no_input :: json
  no_output :: json
  no_error :: json
  no_executor :: ustr
  no_sensitive :: bool

definition plain_note :: "ustr \<Rightarrow> ustr \<Rightarrow> audit_note" where
  "plain_note approval executor =
     \<lparr>no_approval = Some approval, no_decision = None, no_input = JNull, no_output = JNull, no_error = JNull,
      no_executor = executor, no_sensitive = False\<rparr>"

text \<open>Every caller passes the execution's own risk level.\<close>

definition write_audit_event ::
  "(ustr \<Rightarrow> ustr) \<Rightarrow> agent_execution \<Rightarrow> ustr \<Rightarrow> ustr \<Rightarrow> ustr \<Rightarrow> audit_note \<Rightarrow> agent_db \<Rightarrow> agent_db"
where
  "write_audit_event ru e event actor_type actor n db =
     db\<lparr>ag_audits := row_add
       \<lparr>au_execution = ax_id e, au_event = event, au_actor_type = actor_type, au_actor = actor,
        au_approval = no_approval n, au_decision = no_decision n, au_risk = ax_risk e,
        au_input = payload_summary ru (no_input n), au_output = payload_summary ru (no_output n),
        au_error = payload_summary ru (no_error n), au_executor = no_executor n,
        au_sensitive = no_sensitive n, au_trace = ax_trace e\<rparr> (ag_audits db)\<rparr>"

definition execution_actor :: "agent_user \<Rightarrow> ustr" where
  "execution_actor u = (asc ''user:'') @ us_name u"

definition get_exec :: "agent_db \<Rightarrow> ustr \<Rightarrow> agent_execution option" where
  "get_exec db i = row_get ax_id i (ag_execs db)"

definition save_exec :: "agent_execution \<Rightarrow> agent_db \<Rightarrow> agent_db" where
  "save_exec e db = db\<lparr>ag_execs := row_put ax_id e (ag_execs db)\<rparr>"

lemma write_audit_simps [simp]:
  "ag_caps (write_audit_event ru e ev t a n db) = ag_caps db"
  "ag_execs (write_audit_event ru e ev t a n db) = ag_execs db"
  "ag_employees (write_audit_event ru e ev t a n db) = ag_employees db"
  "ag_tasks (write_audit_event ru e ev t a n db) = ag_tasks db"
  "get_exec (write_audit_event ru e ev t a n db) i = get_exec db i"
  "map au_event (ag_audits (write_audit_event ru e ev t a n db)) = map au_event (ag_audits db) @ [ev]"
  by (simp_all add: write_audit_event_def get_exec_def row_add_def)

lemma save_exec_simps [simp]:
  "ag_caps (save_exec e db) = ag_caps db" "ag_audits (save_exec e db) = ag_audits db"
  "ag_employees (save_exec e db) = ag_employees db" "ag_tasks (save_exec e db) = ag_tasks db"
  "ag_execs (save_exec e db) = row_put ax_id e (ag_execs db)"
  by (simp_all add: save_exec_def)

lemma get_exec_id: "get_exec db i = Some e \<Longrightarrow> ax_id e = i"
  unfolding get_exec_def by (rule exec_table.get_key)

lemma get_save_exec: "get_exec (save_exec e db) i =
    (if i = ax_id e then (case get_exec db i of None \<Rightarrow> None | Some _ \<Rightarrow> Some e) else get_exec db i)"
  by (simp add: get_exec_def exec_table.get_put)

section \<open>What redaction guarantees\<close>


lemma empty_clean [simp]: "\<not> sensitive []"
  by code_simp











end
