(* ===== verification/Agent_Registry.thy ===== *)
theory Agent_Registry
  imports Agent_Data
begin

text \<open>
  The capability registry (\<^verbatim>\<open>backend/agent_runtime/registry.py\<close>, the built-in capabilities of
  \<^verbatim>\<open>constants.py\<close>), the permission check (\<^verbatim>\<open>permission.py\<close>) and the capability requests of
  \<^verbatim>\<open>service.py\<close>. A request returns its answer or error together with the database it has
  committed: looking up an unknown capability commits the built-in rows even when the request
  then fails.
\<close>

section \<open>Constants\<close>

definition CAPABILITY_TYPES :: "ustr list" where
  "CAPABILITY_TYPES = [[0x6570, 0x636E, 0x8BFB, 0x53D6], [0x41, 0x50, 0x49, 0x20, 0x8C03, 0x7528], [0x6D4F, 0x89C8, 0x5668, 0x64CD, 0x4F5C], [0x7535, 0x8111, 0x64CD, 0x4F5C], [0x624B, 0x673A, 0x64CD, 0x4F5C], [0x6587, 0x4EF6, 0x5904, 0x7406], [0x6570, 0x636E, 0x5E93, 0x64CD, 0x4F5C], [0x53, 0x68, 0x65, 0x6C, 0x6C, 0x20, 0x64CD, 0x4F5C], [0x47, 0x69, 0x74, 0x20, 0x64CD, 0x4F5C], [0x44, 0x6F, 0x63, 0x6B, 0x65, 0x72, 0x20, 0x64CD, 0x4F5C], [0x90AE, 0x4EF6, 0x64CD, 0x4F5C], [0x65E5, 0x5386, 0x64CD, 0x4F5C], [0x641C, 0x7D22, 0x80FD, 0x529B], [0x41, 0x49, 0x20, 0x6A21, 0x578B, 0x8C03, 0x7528], [0x7814, 0x7A76, 0x5206, 0x6790]]"

definition EXECUTOR_TYPES :: "ustr list" where
  "EXECUTOR_TYPES = [(asc ''mock''), (asc ''real''), (asc ''browser''), (asc ''research''), (asc ''desktop''), (asc ''mobile''), (asc ''shell''), (asc ''api''), (asc ''database''), (asc ''file'')]"

definition RISK_LEVELS :: "ustr list" where
  "RISK_LEVELS = [(asc ''low''), (asc ''medium''), (asc ''high''), (asc ''critical'')]"

definition schema_requiring :: "ustr list \<Rightarrow> schema" where
  "schema_requiring required =
     Schema (JObj [((asc ''type''), JStr (asc ''object'')), ((asc ''required''), JArr (map JStr required)),
                   ((asc ''additionalProperties''), JBool True)])"

definition builtin_cap ::
  "ustr \<Rightarrow> ustr \<Rightarrow> ustr \<Rightarrow> ustr \<Rightarrow> ustr \<Rightarrow> bool \<Rightarrow> bool \<Rightarrow> bool \<Rightarrow> bool \<Rightarrow> int \<Rightarrow> int \<Rightarrow> ustr list \<Rightarrow> ustr list
     \<Rightarrow> capability"
where
  "builtin_cap i n ty ex risk en ro boss audit timeout retries required allowed =
     \<lparr>cp_id = i, cp_name = n, cp_type = ty, cp_executor = ex, cp_risk = risk, cp_enabled = en,
      cp_readonly = ro, cp_boss = boss, cp_audit = audit, cp_timeout = timeout, cp_retries = retries,
      cp_schema = schema_requiring required, cp_allowed = allowed, cp_version = (asc ''1.0.0'')\<rparr>"

definition DEFAULT_CAPABILITIES :: "capability list" where
  "DEFAULT_CAPABILITIES = [
     builtin_cap (asc ''mock.echo'') [0x6A21, 0x62DF, 0x56DE, 0x58F0] [0x6587, 0x4EF6, 0x5904, 0x7406] (asc ''mock'') (asc ''low'') True False False False 30 0
       [(asc ''message'')] [],
     builtin_cap (asc ''mock.failure'') [0x6A21, 0x62DF, 0x5931, 0x8D25] [0x6587, 0x4EF6, 0x5904, 0x7406] (asc ''mock'') (asc ''low'') True False False False 30 0
       [(asc ''message'')] [],
     builtin_cap (asc ''mock.timeout'') [0x6A21, 0x62DF, 0x8D85, 0x65F6] [0x6587, 0x4EF6, 0x5904, 0x7406] (asc ''mock'') (asc ''medium'') True False False True 1 0
       [(asc ''message'')] [],
     builtin_cap (asc ''mock.retry'') [0x6A21, 0x62DF, 0x91CD, 0x8BD5] [0x6587, 0x4EF6, 0x5904, 0x7406] (asc ''mock'') (asc ''medium'') True True False True 30 2
       [(asc ''message'')] [],
     builtin_cap (asc ''task.writeback'') [0x4EFB, 0x52A1, 0x7ED3, 0x679C, 0x56DE, 0x5199] [0x6570, 0x636E, 0x5E93, 0x64CD, 0x4F5C] (asc ''mock'') (asc ''medium'') True False False True 30 0
       [(asc ''task_summary'')] [],
     builtin_cap (asc ''browser.public.read'') [0x516C, 0x5F00, 0x7F51, 0x9875, 0x8BFB, 0x53D6] [0x6D4F, 0x89C8, 0x5668, 0x64CD, 0x4F5C] (asc ''browser'') (asc ''low'') False True False True 20 1
       [(asc ''url'')] [(asc ''tiancai_data'')],
     builtin_cap (asc ''research.public.multi_source'') [0x591A, 0x6765, 0x6E90, 0x516C, 0x5F00, 0x4FE1, 0x606F, 0x7814, 0x7A76] [0x7814, 0x7A76, 0x5206, 0x6790] (asc ''research'') (asc ''low'') False True False True 120 1
       [(asc ''topic''), (asc ''goal'')] [(asc ''tiancai_data'')],
     builtin_cap (asc ''computer.sandbox.observe'') [0x9694, 0x79BB, 0x684C, 0x9762, 0x67E5, 0x770B] [0x7535, 0x8111, 0x64CD, 0x4F5C] (asc ''desktop'') (asc ''low'') False True False True 30 0
       [(asc ''session_id'')] [(asc ''tiancai_data'')],
     builtin_cap (asc ''computer.macos.observe'') [0x4D, 0x61, 0x63, 0x20, 0x6D4B, 0x8BD5, 0x8BBE, 0x5907, 0x53EA, 0x8BFB, 0x89C2, 0x5BDF] [0x7535, 0x8111, 0x64CD, 0x4F5C] (asc ''desktop'') (asc ''low'') False True False True 30 0
       [(asc ''device_id'')] [(asc ''tianjian_test''), (asc ''tiancai_data'')],
     builtin_cap (asc ''computer.macos.safe_move'') [0x4D, 0x61, 0x63, 0x20, 0x6D4B, 0x8BD5, 0x7A97, 0x53E3, 0x9F20, 0x6807, 0x79FB, 0x52A8] [0x7535, 0x8111, 0x64CD, 0x4F5C] (asc ''desktop'') (asc ''low'') False True False True 20 0
       [(asc ''session_id''), (asc ''coordinates'')] [(asc ''tianjian_test'')],
     builtin_cap (asc ''computer.macos.safe_click'') [0x4D, 0x61, 0x63, 0x20, 0x6D4B, 0x8BD5, 0x7A97, 0x53E3, 0x5B89, 0x5168, 0x5355, 0x51FB] [0x7535, 0x8111, 0x64CD, 0x4F5C] (asc ''desktop'') (asc ''medium'') False True True True 20 0
       [(asc ''session_id''), (asc ''coordinates'')] [(asc ''tianjian_test'')],
     builtin_cap (asc ''computer.macos.safe_text_input'') [0x4D, 0x61, 0x63, 0x20, 0x6D4B, 0x8BD5, 0x7A97, 0x53E3, 0x5B89, 0x5168, 0x6587, 0x672C, 0x8F93, 0x5165] [0x7535, 0x8111, 0x64CD, 0x4F5C] (asc ''desktop'') (asc ''medium'') False True True True 20 0
       [(asc ''session_id''), (asc ''text_input'')] [(asc ''tianjian_test'')],
     builtin_cap (asc ''computer.macos.safe_workflow'') [0x4D, 0x61, 0x63, 0x20, 0x6D4B, 0x8BD5, 0x73AF, 0x5883, 0x5B89, 0x5168, 0x591A, 0x6B65, 0x9AA4, 0x5DE5, 0x4F5C, 0x6D41] [0x7535, 0x8111, 0x64CD, 0x4F5C] (asc ''workflow'') (asc ''medium'') False True True True 300 0
       [(asc ''workflow_goal''), (asc ''steps'')] [(asc ''tianjian_test'')]]"

section \<open>Registry\<close>

definition get_cap :: "agent_db \<Rightarrow> ustr \<Rightarrow> capability option" where
  "get_cap db i = row_get cp_id i (ag_caps db)"

text \<open>Every built-in row is added, or overwritten with the built-in values.\<close>

definition seed_one :: "capability \<Rightarrow> capability list \<Rightarrow> capability list" where
  "seed_one c t = (case row_get cp_id (cp_id c) t of None \<Rightarrow> row_add c t | Some _ \<Rightarrow> row_put cp_id c t)"

definition seed_builtin_capabilities :: "agent_db \<Rightarrow> agent_db" where
  "seed_builtin_capabilities db = db\<lparr>ag_caps := fold seed_one DEFAULT_CAPABILITIES (ag_caps db)\<rparr>"

definition list_capability_rows :: "agent_db \<Rightarrow> capability list \<times> agent_db" where
  "list_capability_rows db =
     (let rows = rows_by cp_id (\<lambda>_. True) (ag_caps db) in
      if rows \<noteq> [] then (rows, db)
      else let db' = seed_builtin_capabilities db in (rows_by cp_id (\<lambda>_. True) (ag_caps db'), db'))"

definition resolve_capability :: "agent_db \<Rightarrow> ustr \<Rightarrow> capability option \<times> agent_db" where
  "resolve_capability db i =
     (case get_cap db i of
        Some c \<Rightarrow> (Some c, db)
      | None \<Rightarrow> let db' = seed_builtin_capabilities db in (get_cap db' i, db'))"

definition capability_allowed_employee_codes :: "capability \<Rightarrow> ustr list" where
  "capability_allowed_employee_codes c = filter (\<lambda>code. strip code \<noteq> []) (cp_allowed c)"

definition resolve_executor_type :: "capability \<Rightarrow> ustr option \<Rightarrow> ustr" where
  "resolve_executor_type c executor_type =
     (let asked = (case executor_type of None \<Rightarrow> [] | Some t \<Rightarrow> t);
          raw = (if asked \<noteq> [] then asked else if cp_executor c \<noteq> [] then cp_executor c else (asc ''mock''));
          chosen = lower (strip raw)
      in if chosen = [] then (asc ''mock'') else chosen)"

section \<open>Permission\<close>

datatype agent_error =
    RuntimeDisabled
  | CapabilityNotFound
  | ExecutionNotFound
  | PermissionDenied ustr
  | ExecutorUnavailable ustr
  | InvalidInput ustr
  | BadSchemaType
  | DuplicateTrace
  | UnsupportedExecutor ustr
  | ExecutorRaised
  | ResearchNotSaved

record agent_settings =
  s_runtime :: bool
  s_browser_readonly :: bool
  s_browser_control :: bool
  s_research :: bool
  s_real :: bool
  s_computer :: bool
  s_mobile :: bool
  s_shell :: bool

record permission =
  pm_capability :: capability
  pm_executor :: ustr
  pm_risk :: ustr
  pm_approval :: bool
  pm_security_audit :: bool

text \<open>The switches in front of an executor; \<^verbatim>\<open>None\<close> lets it pass.\<close>

definition executor_gate :: "agent_settings \<Rightarrow> capability \<Rightarrow> ustr \<Rightarrow> agent_error option" where
  "executor_gate st c chosen =
     (let first =
        (if chosen = (asc ''browser'') then
           (if cp_readonly c then (if s_browser_readonly st then None else Some (ExecutorUnavailable [0x6D4F, 0x89C8, 0x5668, 0x53EA, 0x8BFB, 0x80FD, 0x529B, 0x5DF2, 0x5173, 0x95ED]))
            else if s_browser_control st then None else Some (ExecutorUnavailable [0x6D4F, 0x89C8, 0x5668, 0x63A7, 0x5236, 0x80FD, 0x529B, 0x5DF2, 0x5173, 0x95ED]))
         else if chosen = (asc ''research'') then
           (if s_research st then None else Some (ExecutorUnavailable [0x516C, 0x5F00, 0x7814, 0x7A76, 0x80FD, 0x529B, 0x5DF2, 0x5173, 0x95ED]))
         else if chosen \<noteq> (asc ''mock'') \<and> \<not> s_real st then Some (ExecutorUnavailable [0x771F, 0x5B9E, 0x6267, 0x884C, 0x5668, 0x5DF2, 0x5173, 0x95ED])
         else None)
      in case first of Some e \<Rightarrow> Some e | None \<Rightarrow>
         if chosen = (asc ''desktop'') \<and> \<not> s_computer st then Some (ExecutorUnavailable [0x7535, 0x8111, 0x63A7, 0x5236, 0x80FD, 0x529B, 0x5DF2, 0x5173, 0x95ED])
         else if chosen = (asc ''mobile'') \<and> \<not> s_mobile st then Some (ExecutorUnavailable [0x624B, 0x673A, 0x63A7, 0x5236, 0x80FD, 0x529B, 0x5DF2, 0x5173, 0x95ED])
         else if chosen = (asc ''shell'') \<and> \<not> s_shell st then Some (ExecutorUnavailable [0x53, 0x68, 0x65, 0x6C, 0x6C, 0x20, 0x6267, 0x884C, 0x80FD, 0x529B, 0x5DF2, 0x5173, 0x95ED])
         else None)"

text \<open>
  \<^verbatim>\<open>for field in required: if field not in payload\<close>. A field that is a number, a truth value or
  null is never a key; a list or an object cannot be looked up and raises.
\<close>

fun missing_field :: "json list \<Rightarrow> json \<Rightarrow> agent_error option" where
  "missing_field [] payload = None"
| "missing_field (f # fs) payload =
     (case f of
        JStr k \<Rightarrow> (if jhas k payload then missing_field fs payload
                   else Some (InvalidInput ([0x7F3A, 0x5C11, 0x5FC5, 0x586B, 0x5B57, 0x6BB5, 0xFF1A] @ k)))
      | JArr _ \<Rightarrow> Some BadSchemaType
      | JObj _ \<Rightarrow> Some BadSchemaType
      | _ \<Rightarrow> Some (InvalidInput ([0x7F3A, 0x5C11, 0x5FC5, 0x586B, 0x5B57, 0x6BB5, 0xFF1A] @ scalar_text f)))"

definition validate_schema_like_payload :: "schema \<Rightarrow> json \<Rightarrow> agent_error option" where
  "validate_schema_like_payload s payload =
     (case s of
        NoSchema \<Rightarrow> None
      | BadSchema \<Rightarrow> Some (InvalidInput [0x80FD, 0x529B, 0x8F93, 0x5165, 0x20, 0x53, 0x63, 0x68, 0x65, 0x6D, 0x61, 0x20, 0x65E0, 0x6CD5, 0x89E3, 0x6790])
      | Schema (JObj kvs) \<Rightarrow>
          (case jget (asc ''required'') (JObj kvs) of JArr required \<Rightarrow> missing_field required payload | _ \<Rightarrow> None)
      | Schema _ \<Rightarrow> Some BadSchemaType)"

definition employee_usable :: "ai_employee \<Rightarrow> bool" where
  "employee_usable e \<longleftrightarrow> em_status e = (asc ''active'') \<and> \<not> em_legacy e"

definition evaluate_permission ::
  "agent_settings \<Rightarrow> agent_db \<Rightarrow> ai_employee \<Rightarrow> ustr \<Rightarrow> json \<Rightarrow> ustr option \<Rightarrow> (agent_error + permission) \<times> agent_db"
where
  "evaluate_permission st db employee capability_id payload executor_type =
     (let (found, db') = resolve_capability db capability_id in
      case found of
        None \<Rightarrow> (Inl CapabilityNotFound, db')
      | Some c \<Rightarrow>
          let codes = capability_allowed_employee_codes c; chosen = resolve_executor_type c executor_type in
          if \<not> cp_enabled c then (Inl (PermissionDenied [0x80FD, 0x529B, 0x5DF2, 0x505C, 0x7528]), db')
          else if \<not> employee_usable employee then (Inl (PermissionDenied [0x41, 0x49, 0x20, 0x5458, 0x5DE5, 0x4E0D, 0x53EF, 0x7528]), db')
          else if codes \<noteq> [] \<and> em_code employee \<notin> set codes
          then (Inl (PermissionDenied [0x5F53, 0x524D, 0x20, 0x41, 0x49, 0x20, 0x5458, 0x5DE5, 0x65E0, 0x6743, 0x4F7F, 0x7528, 0x8BE5, 0x80FD, 0x529B]), db')
          else case executor_gate st c chosen of
            Some e \<Rightarrow> (Inl e, db')
          | None \<Rightarrow> (case validate_schema_like_payload (cp_schema c) payload of
              Some e \<Rightarrow> (Inl e, db')
            | None \<Rightarrow>
                if cp_risk c = (asc ''critical'') then (Inl (PermissionDenied [0x6781, 0x9AD8, 0x98CE, 0x9669, 0x80FD, 0x529B, 0x9ED8, 0x8BA4, 0x7981, 0x6B62]), db')
                else (Inr \<lparr>pm_capability = c, pm_executor = chosen, pm_risk = cp_risk c,
                        pm_approval = (cp_boss c \<or> cp_risk c \<in> {(asc ''high''), (asc ''critical'')}),
                        pm_security_audit = (cp_audit c \<or> cp_risk c \<in> {(asc ''medium''), (asc ''high''), (asc ''critical'')})\<rparr>, db')))"

section \<open>Capability requests\<close>

record capability_form =
  cf_name :: ustr
  cf_type :: ustr
  cf_executor :: ustr
  cf_risk :: ustr
  cf_enabled :: bool
  cf_readonly :: bool
  cf_boss :: bool
  cf_audit :: bool
  cf_timeout :: int
  cf_retries :: int
  cf_schema :: schema
  cf_allowed :: "ustr list"
  cf_version :: ustr

definition or_default :: "ustr \<Rightarrow> ustr \<Rightarrow> ustr" where
  "or_default x d = (if x = [] then d else x)"

definition put_cap :: "capability \<Rightarrow> agent_db \<Rightarrow> agent_db" where
  "put_cap c db = db\<lparr>ag_caps := seed_one c (ag_caps db)\<rparr>"

definition create_capability ::
  "agent_settings \<Rightarrow> agent_db \<Rightarrow> ustr \<Rightarrow> capability_form \<Rightarrow> (agent_error + capability) \<times> agent_db"
where
  "create_capability st db capability_id f =
     (let i = strip capability_id;
          c = \<lparr>cp_id = i, cp_name = strip (cf_name f), cp_type = strip (cf_type f),
               cp_executor = or_default (strip (or_default (cf_executor f) (asc ''mock''))) (asc ''mock''),
               cp_risk = or_default (strip (or_default (cf_risk f) (asc ''low''))) (asc ''low''),
               cp_enabled = cf_enabled f, cp_readonly = cf_readonly f, cp_boss = cf_boss f, cp_audit = cf_audit f,
               cp_timeout = (if cf_timeout f = 0 then 30 else cf_timeout f), cp_retries = cf_retries f,
               cp_schema = cf_schema f, cp_allowed = cf_allowed f, cp_version = or_default (cf_version f) (asc ''1.0.0'')\<rparr>
      in if \<not> s_runtime st then (Inl RuntimeDisabled, db)
         else if i = [] then (Inl (InvalidInput [0x80FD, 0x529B, 0x6807, 0x8BC6, 0x4E0D, 0x80FD, 0x4E3A, 0x7A7A]), db)
         else if cp_name c = [] \<or> cp_type c = [] then (Inl (InvalidInput [0x80FD, 0x529B, 0x540D, 0x79F0, 0x548C, 0x7C7B, 0x578B, 0x4E0D, 0x80FD, 0x4E3A, 0x7A7A]), db)
         else if cp_type c \<notin> set CAPABILITY_TYPES then (Inl (InvalidInput [0x80FD, 0x529B, 0x7C7B, 0x578B, 0x4E0D, 0x53D7, 0x652F, 0x6301]), db)
         else if cp_executor c \<notin> set EXECUTOR_TYPES then (Inl (InvalidInput [0x6267, 0x884C, 0x5668, 0x7C7B, 0x578B, 0x4E0D, 0x53D7, 0x652F, 0x6301]), db)
         else if cp_risk c \<notin> set RISK_LEVELS then (Inl (InvalidInput [0x98CE, 0x9669, 0x7B49, 0x7EA7, 0x4E0D, 0x53D7, 0x652F, 0x6301]), db)
         else (Inr c, put_cap c db))"

text \<open>A field of an update that is absent or null leaves the row's value.\<close>

record capability_patch =
  pt_name :: "ustr option"
  pt_type :: "ustr option"
  pt_executor :: "ustr option"
  pt_risk :: "ustr option"
  pt_enabled :: "bool option"
  pt_readonly :: "bool option"
  pt_boss :: "bool option"
  pt_audit :: "bool option"
  pt_timeout :: "int option"
  pt_retries :: "int option"
  pt_schema :: "schema option"
  pt_allowed :: "ustr list option"
  pt_version :: "ustr option"

definition given :: "'a \<Rightarrow> 'a option \<Rightarrow> 'a" where
  "given old new = (case new of None \<Rightarrow> old | Some v \<Rightarrow> v)"

definition patched :: "capability_patch \<Rightarrow> capability \<Rightarrow> capability" where
  "patched p c =
     c\<lparr>cp_name := given (cp_name c) (pt_name p), cp_type := given (cp_type c) (pt_type p),
       cp_executor := given (cp_executor c) (pt_executor p), cp_risk := given (cp_risk c) (pt_risk p),
       cp_enabled := given (cp_enabled c) (pt_enabled p), cp_readonly := given (cp_readonly c) (pt_readonly p),
       cp_boss := given (cp_boss c) (pt_boss p), cp_audit := given (cp_audit c) (pt_audit p),
       cp_timeout := given (cp_timeout c) (pt_timeout p), cp_retries := given (cp_retries c) (pt_retries p),
       cp_schema := given (cp_schema c) (pt_schema p), cp_allowed := given (cp_allowed c) (pt_allowed p),
       cp_version := given (cp_version c) (pt_version p)\<rparr>"

definition update_capability ::
  "agent_settings \<Rightarrow> agent_db \<Rightarrow> ustr \<Rightarrow> capability_patch \<Rightarrow> (agent_error + capability) \<times> agent_db"
where
  "update_capability st db capability_id p =
     (if \<not> s_runtime st then (Inl RuntimeDisabled, db)
      else let (found, db1) = resolve_capability db capability_id in
        case found of
          None \<Rightarrow> (Inl CapabilityNotFound, db1)
        | Some c \<Rightarrow>
            let c' = patched p c in
            if cp_type c' \<notin> set CAPABILITY_TYPES then (Inl (InvalidInput [0x80FD, 0x529B, 0x7C7B, 0x578B, 0x4E0D, 0x53D7, 0x652F, 0x6301]), db1)
            else if cp_executor c' \<notin> set EXECUTOR_TYPES then (Inl (InvalidInput [0x6267, 0x884C, 0x5668, 0x7C7B, 0x578B, 0x4E0D, 0x53D7, 0x652F, 0x6301]), db1)
            else if cp_risk c' \<notin> set RISK_LEVELS then (Inl (InvalidInput [0x98CE, 0x9669, 0x7B49, 0x7EA7, 0x4E0D, 0x53D7, 0x652F, 0x6301]), db1)
            else (Inr c', put_cap c' db1))"

definition enable_capability :: "agent_db \<Rightarrow> ustr \<Rightarrow> bool \<Rightarrow> (agent_error + capability) \<times> agent_db" where
  "enable_capability db capability_id enabled =
     (let (found, db1) = resolve_capability db capability_id in
      case found of
        None \<Rightarrow> (Inl CapabilityNotFound, db1)
      | Some c \<Rightarrow> let c' = c\<lparr>cp_enabled := enabled\<rparr> in (Inr c', put_cap c' db1))"

definition get_capability :: "agent_settings \<Rightarrow> agent_db \<Rightarrow> ustr \<Rightarrow> (agent_error + capability) \<times> agent_db" where
  "get_capability st db capability_id =
     (if \<not> s_runtime st then (Inl RuntimeDisabled, db)
      else let (found, db1) = resolve_capability db capability_id in
        (case found of None \<Rightarrow> Inl CapabilityNotFound | Some c \<Rightarrow> Inr c, db1))"

end
