(* ===== verification/Agent_Flow.thy ===== *)
theory Agent_Flow
  imports Agent_Registry
begin

text \<open>
  Running an execution: the mock executor (\<^verbatim>\<open>backend/agent_runtime/executor.py\<close>), one attempt and
  the retry recursion of \<^verbatim>\<open>run_execution_flow\<close>, and the requests that create, approve, reject and
  cancel executions (\<^verbatim>\<open>service.py\<close>). The browser and research executors, the storing of research
  results, task ownership, the clock and fresh identifiers are the fields of \<open>agent_env\<close>. An
  executor that raises is \<^verbatim>\<open>None\<close>. A request answers with the execution's row or an error,
  together with the database it has committed: what was only flushed when an error is raised is
  rolled back.
\<close>

section \<open>Executors\<close>

record exec_ctx =
  x_execution :: ustr
  x_trace :: ustr
  x_capability :: ustr
  x_capability_name :: ustr
  x_capability_type :: ustr
  x_executor :: ustr
  x_employee :: int
  x_employee_code :: "ustr option"
  x_employee_name :: "ustr option"
  x_task :: "int option"
  x_retry :: int
  x_timeout :: int
  x_input :: json

record exec_result =
  o_success :: bool
  o_output :: json
  o_code :: "ustr option"
  o_message :: "ustr option"
  o_started :: int
  o_finished :: int
  o_duration :: int
  o_retryable :: bool

text \<open>
  \<open>e_ms\<close> is \<^verbatim>\<open>int(seconds * 1000)\<close> of a difference in microseconds; \<open>e_mock_clock\<close> gives the two clock
  readings of the mock executor.
\<close>

record agent_env =
  e_settings :: agent_settings
  e_redact_url :: "ustr \<Rightarrow> ustr"
  e_browser :: "exec_ctx \<Rightarrow> exec_result option"
  e_research :: "exec_ctx \<Rightarrow> exec_result option"
  e_mock_clock :: "exec_ctx \<Rightarrow> int \<times> int"
  e_ms :: "int \<Rightarrow> int"
  e_persist :: "agent_execution \<Rightarrow> json \<Rightarrow> bool"
  e_owns :: "int \<Rightarrow> int \<Rightarrow> bool"
  e_now :: int
  e_fresh_id :: ustr
  e_fresh_trace :: ustr

definition jint_opt :: "int option \<Rightarrow> json" where
  "jint_opt x = (case x of None \<Rightarrow> JNull | Some i \<Rightarrow> JInt i)"

definition mock_mode :: "json \<Rightarrow> ustr" where
  "mock_mode payload =
     (let a = jget (asc ''simulate_mode'') payload; b = jget (asc ''mode'') payload
      in lower (strip (scalar_text (if truthy a then a else if truthy b then b else JStr (asc ''success'')))))"

definition mock_execute :: "agent_env \<Rightarrow> exec_ctx \<Rightarrow> exec_result option" where
  "mock_execute env ctx =
     (let (t0, t1) = e_mock_clock env ctx; mode = mock_mode (x_input ctx);
          answer = (\<lambda>ok out code msg again.
            Some \<lparr>o_success = ok, o_output = out, o_code = code, o_message = msg, o_started = t0, o_finished = t1,
              o_duration = max 1 (e_ms env (t1 - t0)), o_retryable = again\<rparr>);
          brief = (\<lambda>m. JObj [((asc ''message''), JStr m), ((asc ''mode''), JStr mode)])
      in if x_executor ctx \<noteq> (asc ''mock'') then None
         else if mode = (asc ''failure'') then
           answer False (brief [0x6A21, 0x62DF, 0x5931, 0x8D25]) (Some (asc ''MOCK_FAILURE'')) (Some [0x6A21, 0x62DF, 0x6267, 0x884C, 0x5931, 0x8D25]) False
         else if mode = (asc ''timeout'') then
           answer False (brief [0x6A21, 0x62DF, 0x8D85, 0x65F6]) (Some (asc ''MOCK_TIMEOUT'')) (Some [0x6A21, 0x62DF, 0x6267, 0x884C, 0x8D85, 0x65F6]) False
         else if mode = (asc ''retry'') \<and> x_retry ctx < 1 then
           answer False (brief [0x6A21, 0x62DF, 0x91CD, 0x8BD5, 0x89E6, 0x53D1]) (Some (asc ''MOCK_RETRY'')) (Some [0x6A21, 0x62DF, 0x89E6, 0x53D1, 0x81EA, 0x52A8, 0x91CD, 0x8BD5]) True
         else
           answer True (JObj [((asc ''message''), JStr [0x6A21, 0x62DF, 0x6267, 0x884C, 0x6210, 0x529F]), ((asc ''mode''), JStr mode),
             ((asc ''capability_id''), JStr (x_capability ctx)), ((asc ''employee_code''), jopt (x_employee_code ctx)),
             ((asc ''task_id''), jint_opt (x_task ctx)), ((asc ''trace_id''), JStr (x_trace ctx))]) None None False)"

datatype executor_kind = MockExecutor | BrowserExecutor | ResearchExecutor

definition get_executor :: "ustr \<Rightarrow> executor_kind option" where
  "get_executor executor_type =
     map_of [((asc ''mock''), MockExecutor), ((asc ''browser''), BrowserExecutor), ((asc ''research''), ResearchExecutor)]
       (lower (strip (if executor_type = [] then (asc ''mock'') else executor_type)))"

fun executor_name :: "executor_kind \<Rightarrow> ustr" where
  "executor_name MockExecutor = (asc ''MockExecutor'')"
| "executor_name BrowserExecutor = (asc ''ReadonlyHttpBrowserExecutor'')"
| "executor_name ResearchExecutor = (asc ''ResearchExecutor'')"

fun run_executor :: "agent_env \<Rightarrow> executor_kind \<Rightarrow> exec_ctx \<Rightarrow> exec_result option" where
  "run_executor env MockExecutor ctx = mock_execute env ctx"
| "run_executor env BrowserExecutor ctx = e_browser env ctx"
| "run_executor env ResearchExecutor ctx = e_research env ctx"

section \<open>One attempt\<close>

definition stored_input :: "agent_env \<Rightarrow> agent_execution \<Rightarrow> json" where
  "stored_input env e =
     (let v = sanitize_payload (e_redact_url env) (ax_input e) in if truthy v then v else JObj [])"

definition payload_should_write_back :: "json \<Rightarrow> bool" where
  "payload_should_write_back payload = truthy (jget (asc ''link_task_result'') payload)"

definition summary_json :: "(ustr \<Rightarrow> ustr) \<Rightarrow> json \<Rightarrow> json" where
  "summary_json ru v = jopt (payload_summary ru v)"

definition execution_context :: "agent_env \<Rightarrow> agent_db \<Rightarrow> capability \<Rightarrow> agent_execution \<Rightarrow> exec_ctx" where
  "execution_context env db c e =
     (let employee = (if ax_employee e = 0 then None else row_get em_id (ax_employee e) (ag_employees db))
      in \<lparr>x_execution = ax_id e, x_trace = ax_trace e, x_capability = cp_id c, x_capability_name = cp_name c,
          x_capability_type = cp_type c, x_executor = ax_executor e, x_employee = ax_employee e,
          x_employee_code = map_option em_code employee, x_employee_name = map_option em_name employee,
          x_task = ax_task e, x_retry = ax_retry e, x_timeout = cp_timeout c, x_input = stored_input env e\<rparr>)"

definition write_back :: "capability \<Rightarrow> agent_execution \<Rightarrow> json \<Rightarrow> json \<Rightarrow> task_row option \<Rightarrow> agent_db \<Rightarrow> agent_db" where
  "write_back c e payload output task db =
     (case task of
        None \<Rightarrow> db
      | Some t \<Rightarrow>
          if (case ax_task e of None \<Rightarrow> False | Some i \<Rightarrow> i \<noteq> 0) \<and> payload_should_write_back payload
          then let old = (case tk_summary t of None \<Rightarrow> [] | Some s \<Rightarrow> s);
                   note = (asc ''[V2 Agent Runtime] '') @ cp_name c @ asc '': '' @ dumps output;
                   t' = t\<lparr>tk_summary := Some (strip (old @ (if old = [] then [] else [10]) @ note))\<rparr>
               in db\<lparr>ag_tasks := row_put tk_id t' (ag_tasks db)\<rparr>
          else db)"

datatype attempt_result = Raised agent_error | Settled agent_execution agent_db | Again agent_execution agent_db

text \<open>What follows the executor's answer: the row and the event of the outcome.\<close>

definition settle_attempt ::
  "agent_env \<Rightarrow> task_row option \<Rightarrow> capability \<Rightarrow> ustr \<Rightarrow> json \<Rightarrow> agent_execution \<Rightarrow> agent_db \<Rightarrow> exec_result
     \<Rightarrow> attempt_result"
where
  "settle_attempt env task c name payload e1 db1 r =
     (let ru = e_redact_url env;
          e2 = e1\<lparr>ax_finished := Some (o_finished r), ax_duration := Some (o_duration r),
                 ax_output := sanitize_payload ru (o_output r), ax_error_code := o_code r,
                 ax_error := map_option (redact_text ru) (o_message r)\<rparr>;
          note = plain_note (ax_approval e1) name;
          failing = note\<lparr>no_error := jopt (o_message r)\<rparr>
      in if o_success r then
           let e3 = e2\<lparr>ax_status := (asc ''success'')\<rparr>;
               db2 = write_audit_event ru e3 (asc ''execution_succeeded'') (asc ''executor'') name
                       (note\<lparr>no_output := summary_json ru (o_output r)\<rparr>) (save_exec e3 db1)
           in if cp_id c = (asc ''research.public.multi_source'') \<and> \<not> e_persist env e3 (o_output r)
              then Raised ResearchNotSaved
              else Settled e3 (write_back c e3 payload (o_output r) task db2)
         else if o_code r = Some (asc ''MOCK_TIMEOUT'') then
           let e3 = e2\<lparr>ax_status := (asc ''timeout'')\<rparr>
           in Settled e3 (write_audit_event ru e3 (asc ''execution_timeout'') (asc ''executor'') name failing (save_exec e3 db1))
         else if o_retryable r \<and> ax_retry e2 < cp_retries c then
           let e3 = e2\<lparr>ax_retry := ax_retry e2 + 1\<rparr>
           in Again e3 (write_audit_event ru e3 (asc ''execution_retry'') (asc ''executor'') name failing (save_exec e3 db1))
         else
           let e3 = e2\<lparr>ax_status := (asc ''failed'')\<rparr>
           in Settled e3 (write_audit_event ru e3 (asc ''execution_failed'') (asc ''executor'') name failing (save_exec e3 db1)))"

definition run_attempt ::
  "agent_env \<Rightarrow> agent_user \<Rightarrow> task_row option \<Rightarrow> agent_execution \<Rightarrow> agent_db \<Rightarrow> attempt_result"
where
  "run_attempt env user task e db =
     (case get_cap db (ax_capability e) of
        None \<Rightarrow> Raised CapabilityNotFound
      | Some c \<Rightarrow>
          if ax_status e \<notin> {(asc ''waiting_execution''), (asc ''running'')} then Raised (InvalidInput [0x5F53, 0x524D, 0x72B6, 0x6001, 0x4E0D, 0x5141, 0x8BB8, 0x6267, 0x884C])
          else case get_executor (ax_executor e) of
            None \<Rightarrow> Raised (UnsupportedExecutor (ax_executor e))
          | Some kind \<Rightarrow>
              let ctx = execution_context env db c e; name = executor_name kind;
                  e1 = e\<lparr>ax_status := (asc ''running''),
                         ax_started := Some (case ax_started e of None \<Rightarrow> e_now env | Some t \<Rightarrow> t)\<rparr>;
                  db1 = write_audit_event (e_redact_url env) e1 (asc ''execution_started'') (asc ''user'') (execution_actor user)
                          ((plain_note (ax_approval e) name)\<lparr>no_input := summary_json (e_redact_url env) (x_input ctx)\<rparr>)
                          (save_exec e1 db)
              in case run_executor env kind ctx of
                   None \<Rightarrow> Raised ExecutorRaised
                 | Some r \<Rightarrow> settle_attempt env task c name (x_input ctx) e1 db1 r)"

section \<open>The retry recursion\<close>

text \<open>The attempts an execution has left, by its capability's row.\<close>

definition retries_left :: "agent_execution \<Rightarrow> agent_db \<Rightarrow> nat" where
  "retries_left e db = (case get_cap db (ax_capability e) of None \<Rightarrow> 0 | Some c \<Rightarrow> nat (cp_retries c - ax_retry e))"

lemma write_back_simps [simp]:
  "ag_caps (write_back c e p v t db) = ag_caps db" "ag_execs (write_back c e p v t db) = ag_execs db"
  "ag_audits (write_back c e p v t db) = ag_audits db" "get_exec (write_back c e p v t db) i = get_exec db i"
  by (simp_all add: write_back_def get_exec_def Let_def split: option.splits)

lemma settle_attempt_again:
  assumes "settle_attempt env task c name p e db r = Again e' db'"
  shows "ag_caps db' = ag_caps db \<and> ax_capability e' = ax_capability e \<and> ax_retry e' = ax_retry e + 1
     \<and> ax_status e' = ax_status e \<and> ax_id e' = ax_id e \<and> ax_retry e < cp_retries c"
  using assms by (auto simp: settle_attempt_def Let_def split: if_splits)

lemma run_attempt_again:
  assumes "run_attempt env user task e db = Again e' db'"
  shows "ag_caps db' = ag_caps db \<and> ax_capability e' = ax_capability e \<and> ax_retry e' = ax_retry e + 1
     \<and> ax_status e' = (asc ''running'') \<and> ax_id e' = ax_id e
     \<and> (\<exists>c. get_cap db (ax_capability e) = Some c \<and> ax_retry e < cp_retries c)"
  using assms by (auto simp: run_attempt_def Let_def split: option.splits if_splits dest!: settle_attempt_again)

lemma again_fewer: "run_attempt env user task e db = Again e' db' \<Longrightarrow> retries_left e' db' < retries_left e db"
  by (auto dest!: run_attempt_again simp: retries_left_def get_cap_def)

text \<open>\<open>kept\<close> is the last committed database, which a raised error leaves.\<close>

function run_execution_flow ::
  "agent_env \<Rightarrow> agent_user \<Rightarrow> task_row option \<Rightarrow> agent_db \<Rightarrow> agent_execution \<Rightarrow> agent_db
     \<Rightarrow> (agent_error + agent_execution) \<times> agent_db"
where
  "run_execution_flow env user task kept e db =
     (case run_attempt env user task e db of
        Raised err \<Rightarrow> (Inl err, kept)
      | Settled e' db' \<Rightarrow> (Inr e', db')
      | Again e' db' \<Rightarrow> run_execution_flow env user task db' e' db')"
  by pat_completeness auto
termination
  by (relation "measure (\<lambda>(env, user, task, kept, e, db). retries_left e db)") (auto intro: again_fewer)

declare run_execution_flow.simps [simp del]

section \<open>Requests\<close>

definition owned_execution :: "agent_env \<Rightarrow> agent_user \<Rightarrow> agent_execution \<Rightarrow> bool" where
  "owned_execution env user e =
     (case ax_task e of Some t \<Rightarrow> e_owns env (us_id user) t | None \<Rightarrow> ax_creator e = us_id user)"

definition find_owned :: "agent_env \<Rightarrow> agent_user \<Rightarrow> agent_db \<Rightarrow> ustr \<Rightarrow> agent_execution option" where
  "find_owned env user db i =
     (case get_exec db i of None \<Rightarrow> None | Some e \<Rightarrow> if owned_execution env user e then Some e else None)"

definition owned_task :: "agent_env \<Rightarrow> agent_user \<Rightarrow> agent_db \<Rightarrow> int \<Rightarrow> task_row option" where
  "owned_task env user db t = (if e_owns env (us_id user) t then row_get tk_id t (ag_tasks db) else None)"

record execution_form =
  xf_task :: "int option"
  xf_employee :: int
  xf_capability :: ustr
  xf_input :: json
  xf_executor :: "ustr option"
  xf_trace :: "ustr option"

definition form_payload :: "execution_form \<Rightarrow> json" where
  "form_payload f = (if truthy (xf_input f) then xf_input f else JObj [])"

definition new_execution ::
  "agent_env \<Rightarrow> agent_user \<Rightarrow> execution_form \<Rightarrow> task_row option \<Rightarrow> ai_employee \<Rightarrow> permission \<Rightarrow> agent_execution"
where
  "new_execution env user f task employee p =
     \<lparr>ax_id = e_fresh_id env, ax_task = map_option tk_id task, ax_employee = em_id employee,
      ax_capability = cp_id (pm_capability p),
      ax_status = (if pm_approval p then (asc ''waiting_approval'') else (asc ''waiting_execution'')),
      ax_risk = pm_risk p, ax_approval = (if pm_approval p then (asc ''pending'') else (asc ''not_required'')),
      ax_executor = pm_executor p, ax_input = sanitize_payload (e_redact_url env) (form_payload f),
      ax_output = JNull, ax_error_code = None, ax_error = None, ax_retry = 0, ax_started = None,
      ax_finished = None, ax_duration = None,
      ax_trace = (case xf_trace f of None \<Rightarrow> e_fresh_trace env | Some t \<Rightarrow> or_default t (e_fresh_trace env)),
      ax_creator = us_id user\<rparr>"

text \<open>The row is flushed (two executions cannot share a trace), logged, and run at once unless it needs approval.\<close>

definition admit_execution ::
  "agent_env \<Rightarrow> agent_user \<Rightarrow> execution_form \<Rightarrow> task_row option \<Rightarrow> permission \<Rightarrow> agent_execution \<Rightarrow> agent_db
     \<Rightarrow> (agent_error + agent_execution) \<times> agent_db"
where
  "admit_execution env user f task p e db =
     (if ax_trace e \<in> set (map ax_trace (ag_execs db)) then (Inl DuplicateTrace, db)
      else let db2 = write_audit_event (e_redact_url env) e (asc ''execution_created'') (asc ''user'') (execution_actor user)
                 ((plain_note (ax_approval e) (pm_executor p))\<lparr>no_input := ax_input e,
                    no_sensitive := contains_sensitive (xf_input f)\<rparr>)
                 (db\<lparr>ag_execs := row_add e (ag_execs db)\<rparr>)
           in if pm_approval p then (Inr e, db2) else run_execution_flow env user task db e db2)"

definition create_execution ::
  "agent_env \<Rightarrow> agent_user \<Rightarrow> execution_form \<Rightarrow> agent_db \<Rightarrow> (agent_error + agent_execution) \<times> agent_db"
where
  "create_execution env user f db =
     (let task = (case xf_task f of None \<Rightarrow> None | Some t \<Rightarrow> owned_task env user db t);
          capability_id = strip (xf_capability f) in
      if \<not> s_runtime (e_settings env) then (Inl RuntimeDisabled, db)
      else if xf_task f \<noteq> None \<and> task = None then (Inl (InvalidInput [0x4EFB, 0x52A1, 0x4E0D, 0x5B58, 0x5728]), db)
      else case row_get em_id (xf_employee f) (ag_employees db) of
        None \<Rightarrow> (Inl (InvalidInput [0x41, 0x49, 0x20, 0x5458, 0x5DE5, 0x4E0D, 0x5B58, 0x5728]), db)
      | Some employee \<Rightarrow>
          if capability_id = [] then (Inl (InvalidInput [0x80FD, 0x529B, 0x6807, 0x8BC6, 0x4E0D, 0x80FD, 0x4E3A, 0x7A7A]), db)
          else case evaluate_permission (e_settings env) db employee capability_id (form_payload f) (xf_executor f) of
            (Inl err, db1) \<Rightarrow> (Inl err, db1)
          | (Inr p, db1) \<Rightarrow> admit_execution env user f task p (new_execution env user f task employee p) db1)"

definition approve_execution ::
  "agent_env \<Rightarrow> agent_user \<Rightarrow> ustr \<Rightarrow> bool \<Rightarrow> bool \<Rightarrow> agent_db \<Rightarrow> (agent_error + agent_execution) \<times> agent_db"
where
  "approve_execution env user execution_id boss_confirmed security_audited db =
     (if \<not> s_runtime (e_settings env) then (Inl RuntimeDisabled, db)
      else case find_owned env user db execution_id of
        None \<Rightarrow> (Inl ExecutionNotFound, db)
      | Some e \<Rightarrow>
          if ax_status e \<notin> {(asc ''waiting_approval''), (asc ''pending_validation'')}
          then (Inl (InvalidInput [0x5F53, 0x524D, 0x72B6, 0x6001, 0x4E0D, 0x5141, 0x8BB8, 0x5BA1, 0x6279]), db)
          else let e1 = e\<lparr>ax_approval := (asc ''approved''), ax_status := (asc ''waiting_execution'')\<rparr>;
                   db1 = write_audit_event (e_redact_url env) e1 (asc ''execution_approved'') (asc ''user'') (execution_actor user)
                           ((plain_note (asc ''approved'') (ax_executor e))\<lparr>no_decision := Some (asc ''approved'')\<rparr>) (save_exec e1 db);
                   task = (case ax_task e of None \<Rightarrow> None | Some t \<Rightarrow> if t = 0 then None else owned_task env user db1 t)
               in run_execution_flow env user task db1 e1 db1)"

definition reject_execution ::
  "agent_env \<Rightarrow> agent_user \<Rightarrow> ustr \<Rightarrow> ustr option \<Rightarrow> agent_db \<Rightarrow> (agent_error + agent_execution) \<times> agent_db"
where
  "reject_execution env user execution_id why db =
     (if \<not> s_runtime (e_settings env) then (Inl RuntimeDisabled, db)
      else case find_owned env user db execution_id of
        None \<Rightarrow> (Inl ExecutionNotFound, db)
      | Some e \<Rightarrow>
          let message = (case why of None \<Rightarrow> [0x8001, 0x677F, 0x62D2, 0x7EDD, 0x6267, 0x884C] | Some w \<Rightarrow> or_default w [0x8001, 0x677F, 0x62D2, 0x7EDD, 0x6267, 0x884C]);
              e1 = e\<lparr>ax_approval := (asc ''rejected''), ax_status := (asc ''rejected''), ax_error_code := Some (asc ''APPROVAL_REJECTED''),
                     ax_error := Some message, ax_finished := Some (e_now env), ax_duration := Some 0\<rparr>
          in (Inr e1, write_audit_event (e_redact_url env) e1 (asc ''execution_rejected'') (asc ''user'') (execution_actor user)
                ((plain_note (asc ''rejected'') (ax_executor e))\<lparr>no_decision := Some (asc ''rejected''), no_error := JStr message\<rparr>)
                (save_exec e1 db)))"

definition cancel_execution ::
  "agent_env \<Rightarrow> agent_user \<Rightarrow> ustr \<Rightarrow> ustr option \<Rightarrow> agent_db \<Rightarrow> (agent_error + agent_execution) \<times> agent_db"
where
  "cancel_execution env user execution_id why db =
     (if \<not> s_runtime (e_settings env) then (Inl RuntimeDisabled, db)
      else case find_owned env user db execution_id of
        None \<Rightarrow> (Inl ExecutionNotFound, db)
      | Some e \<Rightarrow>
          if ax_status e \<in> {(asc ''success''), (asc ''failed''), (asc ''cancelled''), (asc ''timeout'')}
          then (Inl (InvalidInput [0x5DF2, 0x7ED3, 0x675F, 0x7684, 0x6267, 0x884C, 0x65E0, 0x6CD5, 0x53D6, 0x6D88]), db)
          else let message = (case why of None \<Rightarrow> [0x6267, 0x884C, 0x5DF2, 0x53D6, 0x6D88] | Some w \<Rightarrow> or_default w [0x6267, 0x884C, 0x5DF2, 0x53D6, 0x6D88]);
                   e1 = e\<lparr>ax_status := (asc ''cancelled''),
                          ax_approval := (if ax_approval e = (asc ''pending'') then (asc ''rejected'') else ax_approval e),
                          ax_error_code := Some (asc ''EXECUTION_CANCELLED''), ax_error := Some message,
                          ax_finished := Some (e_now env),
                          ax_duration := Some (case ax_duration e of None \<Rightarrow> 0 | Some d \<Rightarrow> d)\<rparr>
               in (Inr e1, write_audit_event (e_redact_url env) e1 (asc ''execution_cancelled'') (asc ''user'') (execution_actor user)
                     ((plain_note (ax_approval e1) (ax_executor e))\<lparr>no_decision := Some (asc ''cancelled''), no_error := JStr message\<rparr>)
                     (save_exec e1 db)))"

end
