(* ===== verification/Agent_Machine.thy ===== *)
theory Agent_Machine
  imports Agent_Flow
begin

text \<open>
  The agent runtime as one machine over its committed database: capability requests and the four
  execution requests, each with its own environment. The invariant \<open>agents_ok\<close> ties every started
  high-risk execution to an earlier approval event.
\<close>

section \<open>Requests\<close>

datatype agent_call =
    GetCapability ustr
  | ListCapabilities
  | CreateCapability ustr capability_form
  | UpdateCapability ustr capability_patch
  | EnableCapability ustr bool
  | CreateExecution execution_form
  | ApproveExecution ustr bool bool
  | RejectExecution ustr "ustr option"
  | CancelExecution ustr "ustr option"

type_synonym agent_event = "agent_env \<times> agent_user \<times> agent_call"

fun agent_call_step :: "agent_env \<Rightarrow> agent_user \<Rightarrow> agent_db \<Rightarrow> agent_call \<Rightarrow> agent_db" where
  "agent_call_step env u db (GetCapability i) = snd (get_capability (e_settings env) db i)"
| "agent_call_step env u db ListCapabilities =
     (if s_runtime (e_settings env) then snd (list_capability_rows db) else db)"
| "agent_call_step env u db (CreateCapability i f) = snd (create_capability (e_settings env) db i f)"
| "agent_call_step env u db (UpdateCapability i p) = snd (update_capability (e_settings env) db i p)"
| "agent_call_step env u db (EnableCapability i b) = snd (enable_capability db i b)"
| "agent_call_step env u db (CreateExecution f) = snd (create_execution env u f db)"
| "agent_call_step env u db (ApproveExecution i b a) = snd (approve_execution env u i b a db)"
| "agent_call_step env u db (RejectExecution i w) = snd (reject_execution env u i w db)"
| "agent_call_step env u db (CancelExecution i w) = snd (cancel_execution env u i w db)"

definition agent_step :: "agent_db \<Rightarrow> agent_event \<Rightarrow> agent_db" where
  "agent_step db ev = (case ev of (env, u, c) \<Rightarrow> agent_call_step env u db c)"

section \<open>The invariant\<close>

definition running_states :: "ustr list" where
  "running_states = [(asc ''waiting_execution''), (asc ''running''), (asc ''success''), (asc ''failed''), (asc ''timeout'')]"

definition was_approved :: "agent_audit list \<Rightarrow> ustr \<Rightarrow> bool" where
  "was_approved audits i \<longleftrightarrow> (\<exists>a \<in> set audits. au_execution a = i \<and> au_event a = (asc ''execution_approved''))"

definition exec_ok :: "agent_audit list \<Rightarrow> agent_execution \<Rightarrow> bool" where
  "exec_ok audits e \<longleftrightarrow>
     ax_risk e \<noteq> (asc ''critical'') \<and>
     (ax_approval e = (asc ''not_required'') \<longrightarrow> ax_risk e \<noteq> (asc ''high'')) \<and>
     (ax_status e \<in> set running_states \<longrightarrow> ax_approval e = (asc ''not_required'') \<or> ax_approval e = (asc ''approved'')) \<and>
     (ax_approval e = (asc ''approved'') \<longrightarrow> was_approved audits (ax_id e))"

text \<open>Every start of a high-risk execution in the log has an approval of it earlier in the log.\<close>

definition starts_approved :: "agent_audit list \<Rightarrow> bool" where
  "starts_approved audits \<longleftrightarrow>
     (\<forall>xs a ys. audits = xs @ a # ys \<longrightarrow> au_event a = (asc ''execution_started'') \<longrightarrow> au_risk a = (asc ''high'') \<longrightarrow>
        was_approved xs (au_execution a))"

definition agents_ok :: "agent_db \<Rightarrow> bool" where
  "agents_ok db \<longleftrightarrow> (\<forall>e \<in> set (ag_execs db). exec_ok (ag_audits db) e) \<and> starts_approved (ag_audits db)"

lemma was_approved_append: "was_approved xs i \<Longrightarrow> was_approved (xs @ ys) i"
  by (auto simp: was_approved_def)

lemma exec_ok_append: "exec_ok xs e \<Longrightarrow> exec_ok (xs @ ys) e"
  by (auto simp: exec_ok_def intro: was_approved_append)

lemma starts_approved_snoc:
  "starts_approved (xs @ [a]) \<longleftrightarrow> starts_approved xs \<and>
     (au_event a = (asc ''execution_started'') \<longrightarrow> au_risk a = (asc ''high'') \<longrightarrow> was_approved xs (au_execution a))"
proof
  assume all: "starts_approved (xs @ [a])"
  have "starts_approved xs"
    unfolding starts_approved_def
  proof (intro allI impI)
    fix us b vs assume "xs = us @ b # vs" "au_event b = (asc ''execution_started'')" "au_risk b = (asc ''high'')"
    with all show "was_approved us (au_execution b)"
      by (auto simp: starts_approved_def)
  qed
  with all show "starts_approved xs \<and>
     (au_event a = (asc ''execution_started'') \<longrightarrow> au_risk a = (asc ''high'') \<longrightarrow> was_approved xs (au_execution a))"
    by (auto simp: starts_approved_def)
next
  assume parts: "starts_approved xs \<and>
     (au_event a = (asc ''execution_started'') \<longrightarrow> au_risk a = (asc ''high'') \<longrightarrow> was_approved xs (au_execution a))"
  show "starts_approved (xs @ [a])"
    unfolding starts_approved_def
  proof (intro allI impI)
    fix us b vs assume split: "xs @ [a] = us @ b # vs" and b: "au_event b = (asc ''execution_started'')" "au_risk b = (asc ''high'')"
    show "was_approved us (au_execution b)"
    proof (cases vs rule: rev_cases)
      case Nil
      with split parts b show ?thesis by auto
    next
      case (snoc ws c)
      with split have "xs = us @ b # ws" by auto
      with parts b show ?thesis by (auto simp: starts_approved_def)
    qed
  qed
qed

section \<open>Steps of the log\<close>

lemma audits_written:
  "\<exists>a. ag_audits (write_audit_event ru e ev t ac n db) = ag_audits db @ [a] \<and>
     au_event a = ev \<and> au_risk a = ax_risk e \<and> au_execution a = ax_id e"
  by (simp add: write_audit_event_def row_add_def)

text \<open>Writing an execution's row and then an event of it.\<close>

lemma agents_ok_write:
  assumes "agents_ok db" and "exec_ok (ag_audits (write_audit_event ru e ev t ac n db)) e"
    and "ev = (asc ''execution_started'') \<longrightarrow> ax_risk e = (asc ''high'') \<longrightarrow> was_approved (ag_audits db) (ax_id e)"
    and "ag_audits d = ag_audits (write_audit_event ru e ev t ac n db)"
    and "\<And>x. x \<in> set (ag_execs d) \<Longrightarrow> x = e \<or> x \<in> set (ag_execs db)"
  shows "agents_ok d"
proof -
  obtain a where a: "ag_audits (write_audit_event ru e ev t ac n db) = ag_audits db @ [a]" "au_event a = ev"
      "au_risk a = ax_risk e" "au_execution a = ax_id e"
    using audits_written by blast
  have "exec_ok (ag_audits d) x" if "x \<in> set (ag_execs d)" for x
    using assms(5) [OF that] assms(1,2) unfolding assms(4) by (auto simp: a(1) agents_ok_def intro: exec_ok_append)
  moreover have "starts_approved (ag_audits d)"
    using assms(1,3) by (simp add: assms(4) a starts_approved_snoc agents_ok_def)
  ultimately show ?thesis by (simp add: agents_ok_def)
qed

lemma agents_ok_save:
  assumes "agents_ok db" and "exec_ok (ag_audits (write_audit_event ru e ev t ac n db)) e"
    and "ev = (asc ''execution_started'') \<longrightarrow> ax_risk e = (asc ''high'') \<longrightarrow> was_approved (ag_audits db) (ax_id e)"
  shows "agents_ok (write_audit_event ru e ev t ac n (save_exec e db))"
  by (rule agents_ok_write [OF assms]) (auto simp: write_audit_event_def dest: in_row_put)

lemma agents_ok_same:
  "agents_ok db \<Longrightarrow> ag_execs d = ag_execs db \<Longrightarrow> ag_audits d = ag_audits db \<Longrightarrow> agents_ok d"
  by (simp add: agents_ok_def)

lemma get_exec_ok: "agents_ok db \<Longrightarrow> get_exec db i = Some e \<Longrightarrow> exec_ok (ag_audits db) e"
  unfolding agents_ok_def get_exec_def by (auto dest: row_get_in)

lemma exec_ok_more: "exec_ok (ag_audits db) e \<Longrightarrow> exec_ok (ag_audits (write_audit_event ru x ev t ac n db)) e"
  using audits_written [of ru x ev t ac n db] by (auto intro: exec_ok_append)

section \<open>The flow keeps the invariant\<close>

text \<open>What an attempt does to the row and the log, whatever its executor.\<close>

definition ready :: "agent_execution \<Rightarrow> agent_db \<Rightarrow> bool" where
  "ready e db \<longleftrightarrow> exec_ok (ag_audits db) e \<and> (ax_approval e = (asc ''not_required'') \<or> ax_approval e = (asc ''approved''))"

lemma ready_high: "ready e db \<Longrightarrow> ax_risk e = (asc ''high'') \<Longrightarrow> was_approved (ag_audits db) (ax_id e)"
  by (auto simp: ready_def exec_ok_def)

text \<open>A row that differs from a ready one outside approval, risk and identity is ready.\<close>

lemma ready_like:
  "ready e db \<Longrightarrow> ax_approval e' = ax_approval e \<Longrightarrow> ax_risk e' = ax_risk e \<Longrightarrow> ax_id e' = ax_id e \<Longrightarrow> ready e' db"
  by (auto simp: ready_def exec_ok_def)

lemma ready_more: "ready e db \<Longrightarrow> ready e (write_audit_event ru x ev t ac n db)"
  by (auto simp: ready_def intro: exec_ok_more)

lemma ready_save: "ready e db \<Longrightarrow> ready e (save_exec x db)"
  by (simp add: ready_def)

lemma ready_write: "agents_ok db \<Longrightarrow> ready e db \<Longrightarrow>
    agents_ok (write_audit_event ru e ev t ac n (save_exec e db)) \<and> ready e (write_audit_event ru e ev t ac n (save_exec e db))"
  by (intro conjI agents_ok_save ready_more ready_save)
    (auto simp: ready_def intro: exec_ok_more ready_high [unfolded ready_def])

lemma agents_ok_write_back: "agents_ok db \<Longrightarrow> agents_ok (write_back c e p v t db)"
  by (erule agents_ok_same) simp_all

definition settled_like :: "agent_execution \<Rightarrow> agent_execution \<Rightarrow> bool" where
  "settled_like e e' \<longleftrightarrow> ax_approval e' = ax_approval e \<and> ax_risk e' = ax_risk e \<and> ax_id e' = ax_id e"

lemma settle_keeps:
  assumes "settle_attempt env task c name p e db r = Settled e' db' \<or> settle_attempt env task c name p e db r = Again e' db'"
    and "agents_ok db" and "ready e db"
  shows "agents_ok db' \<and> ready e' db' \<and> settled_like e e'"
proof -
  have wr: "agents_ok (write_audit_event ru x ev t ac n (save_exec x db)) \<and>
      ready x (write_audit_event ru x ev t ac n (save_exec x db)) \<and> settled_like e x"
    if "settled_like e x" for ru x ev t ac n
    using ready_write [OF assms(2) ready_like [OF assms(3)]] that by (simp add: settled_like_def)
  have kept: "ready x (write_back c y v w t d) = ready x d" for x c y v w t d
    by (simp add: ready_def)
  show ?thesis
    using assms(1) by (auto simp: settle_attempt_def Let_def kept settled_like_def agents_ok_write_back
        intro!: wr [unfolded settled_like_def, THEN conjunct1] wr [THEN conjunct2, THEN conjunct1]
          agents_ok_write_back split: if_splits)
qed

lemma attempt_keeps:
  assumes "run_attempt env u task e db = Settled e' db' \<or> run_attempt env u task e db = Again e' db'"
    and "agents_ok db" and "exec_ok (ag_audits db) e"
  shows "agents_ok db' \<and> ready e' db' \<and> settled_like e e'"
proof -
  from assms(1) have st: "ax_status e \<in> {(asc ''waiting_execution''), (asc ''running'')}"
    by (auto simp: run_attempt_def Let_def split: option.splits if_splits)
  with assms(3) have ready: "ready e db" by (auto simp: ready_def exec_ok_def running_states_def)
  let ?e1 = "e\<lparr>ax_status := (asc ''running''), ax_started := Some (case ax_started e of None \<Rightarrow> e_now env | Some t \<Rightarrow> t)\<rparr>"
  from assms(1) obtain c name p n r where
    settle: "settle_attempt env task c name p ?e1 (write_audit_event (e_redact_url env) ?e1 (asc ''execution_started'') (asc ''user'')
        (execution_actor u) n (save_exec ?e1 db)) r = Settled e' db'
     \<or> settle_attempt env task c name p ?e1 (write_audit_event (e_redact_url env) ?e1 (asc ''execution_started'') (asc ''user'')
        (execution_actor u) n (save_exec ?e1 db)) r = Again e' db'"
    unfolding run_attempt_def Let_def by (auto split: option.splits if_splits)
  have "ready ?e1 db" by (rule ready_like [OF ready]) simp_all
  with settle_keeps [OF settle] ready_write [OF assms(2)] show ?thesis
    by (simp add: settled_like_def)
qed

lemma flow_keeps:
  assumes "run_execution_flow env u task kept e db = (res, db')"
    and "agents_ok kept" and "agents_ok db" and "exec_ok (ag_audits db) e"
  shows "agents_ok db'"
  using assms
proof (induction env u task kept e db rule: run_execution_flow.induct)
  case (1 env u task kept e db)
  show ?case
  proof (cases "run_attempt env u task e db")
    case (Raised err)
    with 1(2,3) show ?thesis by (simp add: run_execution_flow.simps)
  next
    case (Settled e1 db1)
    with 1(2,4,5) attempt_keeps [of env u task e db e1 db1] show ?thesis
      by (simp add: run_execution_flow.simps)
  next
    case (Again e1 db1)
    with attempt_keeps [of env u task e db e1 db1] 1(4,5) have "agents_ok db1" "exec_ok (ag_audits db1) e1"
      by (simp_all add: ready_def)
    with 1(1) [OF Again] 1(2) Again show ?thesis by (simp add: run_execution_flow.simps)
  qed
qed

section \<open>Every request keeps the invariant\<close>

lemma seed_same [simp]:
  "ag_execs (seed_builtin_capabilities db) = ag_execs db" "ag_audits (seed_builtin_capabilities db) = ag_audits db"
  "ag_employees (seed_builtin_capabilities db) = ag_employees db" "ag_tasks (seed_builtin_capabilities db) = ag_tasks db"
  by (simp_all add: seed_builtin_capabilities_def)

lemma put_cap_same [simp]:
  "ag_execs (put_cap c db) = ag_execs db" "ag_audits (put_cap c db) = ag_audits db"
  by (simp_all add: put_cap_def)

lemma resolve_same:
  "resolve_capability db i = (c, db') \<Longrightarrow> ag_execs db' = ag_execs db \<and> ag_audits db' = ag_audits db \<and>
     ag_employees db' = ag_employees db \<and> ag_tasks db' = ag_tasks db"
  by (auto simp: resolve_capability_def Let_def split: option.splits)

lemma registry_keeps:
  assumes "agents_ok db"
  shows "agents_ok (snd (get_capability st db i))" "agents_ok (snd (list_capability_rows db))"
    "agents_ok (snd (create_capability st db i f))" "agents_ok (snd (update_capability st db i p))"
    "agents_ok (snd (enable_capability db i b))"
  using assms
  by (auto simp: get_capability_def list_capability_rows_def create_capability_def update_capability_def
      enable_capability_def Let_def split: prod.splits option.splits dest!: resolve_same intro: agents_ok_same)

lemma evaluate_permission_same:
  "evaluate_permission st db em i p x = (r, db') \<Longrightarrow> ag_execs db' = ag_execs db \<and> ag_audits db' = ag_audits db"
  unfolding evaluate_permission_def Let_def
  by (auto split: prod.splits option.splits if_splits dest!: resolve_same)

lemma evaluate_permission_risk:
  assumes "evaluate_permission st db em i p x = (Inr pm, db')"
  shows "pm_risk pm \<noteq> (asc ''critical'') \<and> (pm_risk pm = (asc ''high'') \<longrightarrow> pm_approval pm)"
  using assms unfolding evaluate_permission_def Let_def
  by (auto split: prod.splits option.splits if_splits)

lemma new_execution_ok:
  assumes "pm_risk p \<noteq> (asc ''critical'')" and "pm_risk p = (asc ''high'') \<longrightarrow> pm_approval p"
  shows "exec_ok xs (new_execution env u f t em p)"
  using assms by (auto simp: exec_ok_def new_execution_def running_states_def)

lemma admit_keeps:
  assumes "agents_ok db" and "\<And>xs. exec_ok xs e"
  shows "agents_ok (snd (admit_execution env u f t p e db))"
proof -
  let ?db2 = "write_audit_event (e_redact_url env) e (asc ''execution_created'') (asc ''user'') (execution_actor u)
      ((plain_note (ax_approval e) (pm_executor p))\<lparr>no_input := ax_input e,
         no_sensitive := contains_sensitive (xf_input f)\<rparr>) (db\<lparr>ag_execs := row_add e (ag_execs db)\<rparr>)"
  have ok2: "agents_ok ?db2"
    by (rule agents_ok_write [where ru = "e_redact_url env" and ev = "asc ''execution_created''"
          and t = "asc ''user''" and ac = "execution_actor u" and n = "(plain_note (ax_approval e) (pm_executor p))\<lparr>no_input := ax_input e,
            no_sensitive := contains_sensitive (xf_input f)\<rparr>", OF assms])
      (auto simp: write_audit_event_def)
  have "agents_ok (snd (run_execution_flow env u t db e ?db2))"
    using flow_keeps [OF _ assms(1) ok2 assms(2)] by (metis prod.collapse)
  with ok2 assms(1) show ?thesis by (simp add: admit_execution_def Let_def)
qed

lemma create_keeps:
  assumes "agents_ok db"
  shows "agents_ok (snd (create_execution env u f db))"
proof -
  have "agents_ok (snd (case evaluate_permission (e_settings env) db em i py x of
      (Inl err, db1) \<Rightarrow> (Inl err, db1) | (Inr p, db1) \<Rightarrow> admit_execution env u f t p (new_execution env u f t em p) db1))"
    for em i py x t
  proof -
    obtain res db1 where ev: "evaluate_permission (e_settings env) db em i py x = (res, db1)" by fastforce
    from evaluate_permission_same [OF ev] assms have ok1: "agents_ok db1" by (auto intro: agents_ok_same)
    show ?thesis
    proof (cases res)
      case (Inl err)
      with ev ok1 show ?thesis by simp
    next
      case (Inr p)
      from evaluate_permission_risk [OF ev [unfolded Inr]] have "agents_ok (snd (admit_execution env u f t p
          (new_execution env u f t em p) db1))"
        by (intro admit_keeps [OF ok1] new_execution_ok) auto
      with ev Inr show ?thesis by simp
    qed
  qed
  with assms show ?thesis
    unfolding create_execution_def Let_def by (simp split: option.split)
qed

lemma agent_approve_keeps:
  assumes "agents_ok db"
  shows "agents_ok (snd (approve_execution env u i b a db))"
proof (cases "find_owned env u db i")
  case None
  with assms show ?thesis by (simp add: approve_execution_def)
next
  case (Some e)
  then have e: "get_exec db i = Some e" by (auto simp: find_owned_def split: option.splits if_splits)
  with assms have ok: "exec_ok (ag_audits db) e" by (rule get_exec_ok)
  let ?e1 = "e\<lparr>ax_approval := (asc ''approved''), ax_status := (asc ''waiting_execution'')\<rparr>"
  let ?n = "(plain_note (asc ''approved'') (ax_executor e))\<lparr>no_decision := Some (asc ''approved'')\<rparr>"
  let ?db1 = "write_audit_event (e_redact_url env) ?e1 (asc ''execution_approved'') (asc ''user'') (execution_actor u) ?n (save_exec ?e1 db)"
  have ok1: "exec_ok (ag_audits ?db1) ?e1"
    using ok by (auto simp: exec_ok_def was_approved_def write_audit_event_def row_add_def)
  have "agents_ok ?db1"
    by (rule agents_ok_save [OF assms]) (use ok1 in \<open>simp_all add: write_audit_event_def\<close>)
  then have "agents_ok (snd (run_execution_flow env u t ?db1 ?e1 ?db1))" for t
    using flow_keeps [of env u t ?db1 ?e1 ?db1] ok1 by (metis prod.collapse)
  with assms Some show ?thesis by (simp add: approve_execution_def Let_def)
qed

text \<open>A row that ends rejected or cancelled, with approval kept or rejected.\<close>

lemma close_keeps:
  assumes "agents_ok db" and "exec_ok (ag_audits db) e" and "ax_risk e1 = ax_risk e" and "ax_id e1 = ax_id e"
    and "ax_status e1 \<notin> set running_states" and "ax_approval e1 = (asc ''rejected'') \<or> ax_approval e1 = ax_approval e"
    and "ev \<noteq> (asc ''execution_started'')"
  shows "agents_ok (write_audit_event ru e1 ev t ac n (save_exec e1 db))"
proof -
  from assms(2-6) have "exec_ok (ag_audits db) e1" by (auto simp: exec_ok_def)
  then show ?thesis
    using assms(7) by (intro agents_ok_save [OF assms(1)] exec_ok_more) auto
qed

lemma reject_keeps:
  assumes "agents_ok db"
  shows "agents_ok (snd (reject_execution env u i w db))"
proof (cases "find_owned env u db i")
  case None
  with assms show ?thesis by (simp add: reject_execution_def)
next
  case (Some e)
  then have e: "get_exec db i = Some e" by (auto simp: find_owned_def split: option.splits if_splits)
  show ?thesis
    using assms Some unfolding reject_execution_def Let_def
    by (simp add: close_keeps [OF assms get_exec_ok [OF assms e]] running_states_def)
qed

lemma cancel_keeps:
  assumes "agents_ok db"
  shows "agents_ok (snd (cancel_execution env u i w db))"
proof (cases "find_owned env u db i")
  case None
  with assms show ?thesis by (simp add: cancel_execution_def)
next
  case (Some e)
  then have e: "get_exec db i = Some e" by (auto simp: find_owned_def split: option.splits if_splits)
  show ?thesis
    using assms Some unfolding cancel_execution_def Let_def
    by (simp add: close_keeps [OF assms get_exec_ok [OF assms e]] running_states_def)
qed

lemma agent_step_keeps: "agents_ok db \<Longrightarrow> agents_ok (agent_step db ev)"
  unfolding agent_step_def
  by (cases ev rule: prod_cases3; simp; rename_tac env u c; case_tac c)
    (simp_all add: registry_keeps create_keeps agent_approve_keeps reject_keeps cancel_keeps)

interpretation agent_machine: invariant_machine agent_step agents_ok
  by unfold_locales (rule agent_step_keeps)

end
