(* ===== verification/Agent_Claims.thy ===== *)
theory Agent_Claims
  imports Agent_Machine
begin

text \<open>
  The properties of the agent runtime: what must come before a high-risk start, when permission is
  given, how the retry recursion ends, what the mock executor leads to, and where the requests
  fall short of what they promise.
\<close>

section \<open>Approval before a high-risk start\<close>

text \<open>
  C3: in the audit log of any sequence of requests, each start of a high-risk execution is preceded
  by an approval event of the same execution.
\<close>

theorem high_risk_start_was_approved:
  assumes "agents_ok db0" and "audits = ag_audits (run_events agent_step db0 requests)"
    and "i < length audits" and "au_event (audits ! i) = (asc ''execution_started'')" and "au_risk (audits ! i) = (asc ''high'')"
  shows "\<exists>j < i. au_event (audits ! j) = (asc ''execution_approved'') \<and> au_execution (audits ! j) = au_execution (audits ! i)"
proof -
  from agent_machine.run_inv [OF assms(1)] have "starts_approved audits"
    by (simp add: agents_ok_def assms(2))
  moreover have "audits = take i audits @ audits ! i # drop (Suc i) audits"
    using assms(3) by (rule id_take_nth_drop)
  ultimately have "was_approved (take i audits) (au_execution (audits ! i))"
    using assms(4,5) unfolding starts_approved_def by metis
  then show ?thesis
    using assms(3) by (fastforce simp: was_approved_def in_set_conv_nth)
qed

section \<open>Permission\<close>

text \<open>
  The permission check in full. It grants an execution exactly when the capability (looked up,
  with the built-in ones seeded on a miss) is enabled and not critical, the employee is active,
  not a legacy one and on the capability's list when that is not empty, the executor's switches
  are on, and the payload has the required fields. Approval is asked for when the capability says
  so or is high risk.
\<close>

theorem permission_granted_iff:
  "fst (evaluate_permission st db employee i payload x) = Inr p \<longleftrightarrow>
     (\<exists>c. fst (resolve_capability db i) = Some c \<and> cp_enabled c \<and> cp_risk c \<noteq> (asc ''critical'') \<and> employee_usable employee \<and>
        (capability_allowed_employee_codes c = [] \<or> em_code employee \<in> set (capability_allowed_employee_codes c)) \<and>
        executor_gate st c (resolve_executor_type c x) = None \<and>
        validate_schema_like_payload (cp_schema c) payload = None \<and>
        p = \<lparr>pm_capability = c, pm_executor = resolve_executor_type c x, pm_risk = cp_risk c,
             pm_approval = (cp_boss c \<or> cp_risk c = (asc ''high'')),
             pm_security_audit = (cp_audit c \<or> cp_risk c \<in> {(asc ''medium''), (asc ''high'')})\<rparr>)"
  unfolding evaluate_permission_def Let_def
  by (cases "resolve_capability db i") (auto split: option.splits)

section \<open>The retry recursion\<close>

definition starts :: "agent_db \<Rightarrow> nat" where
  "starts db = length (filter (\<lambda>a. au_event a = (asc ''execution_started'')) (ag_audits db))"

lemma starts_written [simp]:
  "starts (write_audit_event ru e ev t ac n db) = starts db + (if ev = (asc ''execution_started'') then 1 else 0)"
  by (simp add: starts_def write_audit_event_def row_add_def)

lemma starts_kept [simp]: "starts (save_exec e db) = starts db" "starts (write_back c e p v t db) = starts db"
  by (simp_all add: starts_def)

lemma settle_starts:
  "settle_attempt env t c name p e db r = Settled e' db' \<Longrightarrow>
     starts db' = starts db \<and> ax_status e' \<in> {(asc ''success''), (asc ''failed''), (asc ''timeout'')}"
  "settle_attempt env t c name p e db r = Again e' db' \<Longrightarrow> starts db' = starts db"
  by (auto simp: settle_attempt_def Let_def split: if_splits)

lemma attempt_starts:
  "run_attempt env u t e db = Settled e' db' \<Longrightarrow>
     starts db' = Suc (starts db) \<and> ax_status e' \<in> {(asc ''success''), (asc ''failed''), (asc ''timeout'')}"
  "run_attempt env u t e db = Again e' db' \<Longrightarrow> starts db' = Suc (starts db)"
  by (auto simp: run_attempt_def Let_def split: option.splits if_splits dest!: settle_starts)

text \<open>
  C31: a run ends. It starts the executor at most once more than the execution has retries left,
  and an answer without an error is an execution that is \<open>success\<close>, \<open>failed\<close> or \<open>timeout\<close>.
\<close>

theorem retries_are_bounded:
  assumes "run_execution_flow env u t kept e db = (res, db')" and "starts kept \<le> starts db"
  shows "starts db' \<le> starts db + Suc (retries_left e db)
    \<and> (case res of Inl err \<Rightarrow> True | Inr e' \<Rightarrow> ax_status e' \<in> {(asc ''success''), (asc ''failed''), (asc ''timeout'')})"
  using assms
proof (induction env u t kept e db rule: run_execution_flow.induct)
  case (1 env u t kept e db)
  show ?case
  proof (cases "run_attempt env u t e db")
    case (Raised err)
    with 1(2,3) show ?thesis by (auto simp: run_execution_flow.simps)
  next
    case (Settled e1 db1)
    with 1(2) attempt_starts(1) [OF Settled] show ?thesis by (auto simp: run_execution_flow.simps)
  next
    case (Again e1 db1)
    from 1(2) Again have "run_execution_flow env u t db1 e1 db1 = (res, db')"
      by (simp add: run_execution_flow.simps)
    with 1(1) [OF Again] have "starts db' \<le> starts db1 + Suc (retries_left e1 db1)
        \<and> (case res of Inl err \<Rightarrow> True | Inr e' \<Rightarrow> ax_status e' \<in> {(asc ''success''), (asc ''failed''), (asc ''timeout'')})" by simp
    with attempt_starts(2) [OF Again] again_fewer [OF Again] show ?thesis by auto
  qed
qed

section \<open>The mock executor\<close>

definition mock_ready :: "agent_execution \<Rightarrow> agent_db \<Rightarrow> capability \<Rightarrow> bool" where
  "mock_ready e db c \<longleftrightarrow> get_cap db (ax_capability e) = Some c \<and> cp_id c \<noteq> (asc ''research.public.multi_source'') \<and>
     ax_status e \<in> {(asc ''waiting_execution''), (asc ''running'')} \<and> ax_executor e = (asc ''mock'')"

lemma get_mock: "get_executor (asc ''mock'') = Some MockExecutor"
  by code_simp

lemma mock_ready_again:
  assumes "mock_ready e db c" and "run_attempt env u t e db = Again e' db'"
  shows "mock_ready e' db' c"
proof -
  have "ax_executor e' = ax_executor e"
    using assms(2) by (auto simp: run_attempt_def settle_attempt_def Let_def split: option.splits if_splits)
  with assms run_attempt_again [OF assms(2)] show ?thesis by (simp add: mock_ready_def get_cap_def)
qed

definition mock_outcome :: "ustr \<Rightarrow> int \<Rightarrow> int \<Rightarrow> ustr" where
  "mock_outcome mode retry max_retries =
     (if mode = (asc ''failure'') then (asc ''failed'') else if mode = (asc ''timeout'') then (asc ''timeout'')
      else if mode = (asc ''retry'') \<and> retry < 1 \<and> max_retries \<le> retry then (asc ''failed'') else (asc ''success''))"

text \<open>The four outcomes of an attempt, for any executor.\<close>

lemma settle_outcome:
  assumes "cp_id c \<noteq> (asc ''research.public.multi_source'')"
  shows "o_success r \<Longrightarrow> \<exists>e' d. settle_attempt env t c name p e db r = Settled e' d \<and> ax_retry e' = ax_retry e
      \<and> ax_status e' = (asc ''success'')"
    and "\<not> o_success r \<Longrightarrow> o_code r = Some (asc ''MOCK_TIMEOUT'') \<Longrightarrow>
      \<exists>e' d. settle_attempt env t c name p e db r = Settled e' d \<and> ax_retry e' = ax_retry e \<and> ax_status e' = (asc ''timeout'')"
    and "\<not> o_success r \<Longrightarrow> o_code r \<noteq> Some (asc ''MOCK_TIMEOUT'') \<Longrightarrow> o_retryable r \<Longrightarrow> ax_retry e < cp_retries c \<Longrightarrow>
      \<exists>e' d. settle_attempt env t c name p e db r = Again e' d \<and> ax_input e' = ax_input e"
    and "\<not> o_success r \<Longrightarrow> o_code r \<noteq> Some (asc ''MOCK_TIMEOUT'') \<Longrightarrow> \<not> (o_retryable r \<and> ax_retry e < cp_retries c) \<Longrightarrow>
      \<exists>e' d. settle_attempt env t c name p e db r = Settled e' d \<and> ax_retry e' = ax_retry e \<and> ax_status e' = (asc ''failed'')"
  using assms by (simp_all add: settle_attempt_def Let_def)

lemma mock_attempt:
  assumes "mock_ready e db c"
  shows "(if mock_mode (stored_input env e) = (asc ''retry'') \<and> ax_retry e < 1 \<and> ax_retry e < cp_retries c
          then \<exists>e' db'. run_attempt env u t e db = Again e' db' \<and> ax_input e' = ax_input e
          else \<exists>e' db'. run_attempt env u t e db = Settled e' db' \<and> ax_retry e' = ax_retry e \<and>
                 ax_status e' = mock_outcome (mock_mode (stored_input env e)) (ax_retry e) (cp_retries c))"
proof -
  let ?ctx = "execution_context env db c e"
  have ctx: "x_executor ?ctx = (asc ''mock'')" "x_retry ?ctx = ax_retry e" "x_input ?ctx = stored_input env e"
    using assms by (simp_all add: execution_context_def Let_def mock_ready_def)
  let ?mode = "mock_mode (stored_input env e)"
  obtain t0 t1 where clock: "e_mock_clock env ?ctx = (t0, t1)" by fastforce
  have "\<exists>r. mock_execute env ?ctx = Some r \<and>
      o_success r = (?mode \<noteq> (asc ''failure'') \<and> ?mode \<noteq> (asc ''timeout'') \<and> \<not> (?mode = (asc ''retry'') \<and> ax_retry e < 1)) \<and>
      (o_code r = Some (asc ''MOCK_TIMEOUT'')) = (?mode = (asc ''timeout'')) \<and>
      o_retryable r = (?mode = (asc ''retry'') \<and> ax_retry e < 1)"
    using ctx clock by (simp add: mock_execute_def Let_def)
  then obtain r where r: "mock_execute env ?ctx = Some r"
      "o_success r = (?mode \<noteq> (asc ''failure'') \<and> ?mode \<noteq> (asc ''timeout'') \<and> \<not> (?mode = (asc ''retry'') \<and> ax_retry e < 1))"
      "(o_code r = Some (asc ''MOCK_TIMEOUT'')) = (?mode = (asc ''timeout''))"
      "o_retryable r = (?mode = (asc ''retry'') \<and> ax_retry e < 1)" by blast
  define e1 where "e1 = e\<lparr>ax_status := (asc ''running''),
      ax_started := Some (case ax_started e of None \<Rightarrow> e_now env | Some t \<Rightarrow> t)\<rparr>"
  define db1 where "db1 = write_audit_event (e_redact_url env) e1 (asc ''execution_started'') (asc ''user'') (execution_actor u)
      ((plain_note (ax_approval e) (executor_name MockExecutor))\<lparr>no_input := summary_json (e_redact_url env) (x_input ?ctx)\<rparr>)
      (save_exec e1 db)"
  have attempt: "run_attempt env u t e db =
      settle_attempt env t c (executor_name MockExecutor) (x_input ?ctx) e1 db1 r"
    using assms r(1) by (simp add: mock_ready_def run_attempt_def Let_def get_mock db1_def e1_def)
  have e1: "ax_retry e1 = ax_retry e" "ax_input e1 = ax_input e"
    by (simp_all add: e1_def)
  have c: "cp_id c \<noteq> (asc ''research.public.multi_source'')" using assms by (simp add: mock_ready_def)
  note out = settle_outcome [OF c, where r = r and e = e1 and env = env and db = db1, unfolded e1]
  consider (fail) "?mode = (asc ''failure'')" | (late) "?mode = (asc ''timeout'')" | (retry) "?mode = (asc ''retry'')" "ax_retry e < 1"
    | (good) "?mode \<noteq> (asc ''failure'')" "?mode \<noteq> (asc ''timeout'')" "\<not> (?mode = (asc ''retry'') \<and> ax_retry e < 1)" by blast
  then show ?thesis
  proof cases
    case fail
    with r out(4) show ?thesis by (simp add: attempt mock_outcome_def)
  next
    case late
    with r out(2) show ?thesis by (simp add: attempt mock_outcome_def)
  next
    case retry
    with r out(3,4) show ?thesis by (cases "ax_retry e < cp_retries c") (simp_all add: attempt mock_outcome_def)
  next
    case good
    with r out(1) show ?thesis by (auto simp add: attempt mock_outcome_def)
  qed
qed

text \<open>
  What the mock executor's modes lead to. A first run of a mock execution ends \<open>failed\<close> for
  \<open>failure\<close>, \<open>timeout\<close> for \<open>timeout\<close>, and \<open>success\<close> otherwise; in mode \<open>retry\<close> it succeeds on its second
  attempt when the capability allows a retry and fails when it does not.
\<close>

theorem mock_run_outcome:
  assumes "mock_ready e db c" and "ax_retry e = 0" and "mode = mock_mode (stored_input env e)"
  shows "\<exists>e' db'. run_execution_flow env u t kept e db = (Inr e', db') \<and>
     ax_status e' = mock_outcome mode 0 (cp_retries c) \<and>
     ax_retry e' = (if mode = (asc ''retry'') \<and> 0 < cp_retries c then 1 else 0)"
proof (cases "mode = (asc ''retry'') \<and> 0 < cp_retries c")
  case True
  then have "mock_mode (stored_input env e) = (asc ''retry'') \<and> ax_retry e < 1 \<and> ax_retry e < cp_retries c"
    using assms(2,3) by simp
  with mock_attempt [OF assms(1), of env u t] have "\<exists>e' db'. run_attempt env u t e db = Again e' db' \<and> ax_input e' = ax_input e"
    by (simp only: if_True simp_thms)
  then obtain e1 db1 where
    again: "run_attempt env u t e db = Again e1 db1" and input: "ax_input e1 = ax_input e" by blast
  from run_attempt_again [OF again] assms(2) have one: "ax_retry e1 = 1" by simp
  from input assms(3) have mode: "mock_mode (stored_input env e1) = mode" by (simp add: stored_input_def)
  have "\<exists>e' db'. run_attempt env u t e1 db1 = Settled e' db' \<and> ax_retry e' = 1 \<and> ax_status e' = mock_outcome mode 1 (cp_retries c)"
    using mock_attempt [OF mock_ready_again [OF assms(1) again], of env u t] unfolding one mode by simp
  then obtain e2 db2 where
    last: "run_attempt env u t e1 db1 = Settled e2 db2" and fin: "ax_retry e2 = 1" "ax_status e2 = mock_outcome mode 1 (cp_retries c)"
    by blast
  have "run_execution_flow env u t kept e db = run_execution_flow env u t db1 e1 db1"
    by (subst run_execution_flow.simps) (simp add: again)
  also have "\<dots> = (Inr e2, db2)"
    by (subst run_execution_flow.simps) (simp add: last)
  finally show ?thesis using True fin by (simp add: mock_outcome_def)
next
  case False
  with mock_attempt [OF assms(1), of env u t] assms(2,3) obtain e1 db1 where
    "run_attempt env u t e db = Settled e1 db1" "ax_retry e1 = 0" "ax_status e1 = mock_outcome mode 0 (cp_retries c)"
    by auto
  moreover from this have "run_execution_flow env u t kept e db = (Inr e1, db1)"
    by (subst run_execution_flow.simps) simp
  ultimately show ?thesis using False by simp
qed

section \<open>Where the requests fall short\<close>

text \<open>
  Rejecting has no status guard: an owned execution in any state, a successful one too, becomes
  \<open>rejected\<close>, while cancelling refuses the ended ones.
\<close>

theorem reject_overwrites_any_state:
  assumes "s_runtime (e_settings env)" and "find_owned env u db i = Some e"
  shows "(\<exists>e' db'. reject_execution env u i why db = (Inr e', db') \<and> get_exec db' i = Some e' \<and> ax_status e' = (asc ''rejected''))
     \<and> (fst (cancel_execution env u i why db) = Inl (InvalidInput [0x5DF2, 0x7ED3, 0x675F, 0x7684, 0x6267, 0x884C, 0x65E0, 0x6CD5, 0x53D6, 0x6D88]) \<longleftrightarrow>
          ax_status e \<in> {(asc ''success''), (asc ''failed''), (asc ''cancelled''), (asc ''timeout'')})"
proof -
  from assms(2) have e: "get_exec db i = Some e" by (auto simp: find_owned_def split: option.splits if_splits)
  note id = get_exec_id [OF e]
  show ?thesis
    using assms e id by (simp add: reject_execution_def cancel_execution_def Let_def get_save_exec)
qed

text \<open>
  Approving an execution whose executor type has no executor (for example \<open>desktop\<close>) raises
  after the approval is committed: the execution stays \<open>waiting_execution\<close>, and approving it again
  is refused.
\<close>

theorem approval_without_executor_gets_stuck:
  assumes "s_runtime (e_settings env)" and "find_owned env u db i = Some e" and "ax_status e = (asc ''waiting_approval'')"
    and "get_cap db (ax_capability e) = Some c" and "get_executor (ax_executor e) = None"
  shows "\<exists>db' e'. approve_execution env u i boss audited db = (Inl (UnsupportedExecutor (ax_executor e)), db')
     \<and> find_owned env u db' i = Some e' \<and> ax_status e' = (asc ''waiting_execution'')
     \<and> approve_execution env u i boss audited db' = (Inl (InvalidInput [0x5F53, 0x524D, 0x72B6, 0x6001, 0x4E0D, 0x5141, 0x8BB8, 0x5BA1, 0x6279]), db')"
proof -
  from assms(2) have e: "get_exec db i = Some e" and own: "owned_execution env u e"
    by (auto simp: find_owned_def split: option.splits if_splits)
  note id = get_exec_id [OF e]
  define e1 where "e1 = e\<lparr>ax_approval := (asc ''approved''), ax_status := (asc ''waiting_execution'')\<rparr>"
  define db1 where "db1 = write_audit_event (e_redact_url env) e1 (asc ''execution_approved'') (asc ''user'') (execution_actor u)
     ((plain_note (asc ''approved'') (ax_executor e))\<lparr>no_decision := Some (asc ''approved'')\<rparr>) (save_exec e1 db)"
  have e1: "ax_id e1 = i" "ax_status e1 = (asc ''waiting_execution'')" "ax_capability e1 = ax_capability e"
      "ax_executor e1 = ax_executor e" "owned_execution env u e1"
    using id own by (simp_all add: e1_def owned_execution_def split: option.splits)
  have "run_attempt env u t e1 db1 = Raised (UnsupportedExecutor (ax_executor e))" for t
    using assms(4,5) e1 by (simp add: run_attempt_def db1_def get_cap_def)
  then have flow: "run_execution_flow env u t db1 e1 db1 = (Inl (UnsupportedExecutor (ax_executor e)), db1)" for t
    by (subst run_execution_flow.simps) simp
  have first: "approve_execution env u i boss audited db = (Inl (UnsupportedExecutor (ax_executor e)), db1)"
    using assms(1,2,3) flow by (simp add: approve_execution_def Let_def e1_def [symmetric] db1_def [symmetric])
  have found: "find_owned env u db1 i = Some e1"
    using e e1 by (simp add: find_owned_def db1_def get_save_exec)
  then have "approve_execution env u i boss audited db1 = (Inl (InvalidInput [0x5F53, 0x524D, 0x72B6, 0x6001, 0x4E0D, 0x5141, 0x8BB8, 0x5BA1, 0x6279]), db1)"
    using assms(1) e1(2) by (simp add: approve_execution_def)
  with first found e1(2) show ?thesis by blast
qed

lemma seed_one_get: "row_get cp_id i (seed_one c t) = (if i = cp_id c then Some c else row_get cp_id i t)"
  by (auto simp: seed_one_def cap_table.get_put cap_table.get_add split: option.splits)

lemma seed_fold_get:
  "distinct (map cp_id cs) \<Longrightarrow> row_get cp_id i (fold seed_one cs t) =
     (case find (\<lambda>c. cp_id c = i) cs of Some c \<Rightarrow> Some c | None \<Rightarrow> row_get cp_id i t)"
proof (induction cs arbitrary: t)
  case (Cons c cs)
  show ?case
  proof (cases "cp_id c = i")
    case True
    with Cons.prems have "find (\<lambda>c. cp_id c = i) cs = None" unfolding find_None_iff by (simp add: image_iff) metis
    with Cons True show ?thesis by (simp add: seed_one_get)
  next
    case False
    with Cons show ?thesis by (simp add: seed_one_get split: option.split)
  qed
qed simp

lemma default_ids: "distinct (map cp_id DEFAULT_CAPABILITIES)"
  by (simp add: DEFAULT_CAPABILITIES_def builtin_cap_def)

lemma find_distinct: "distinct (map k cs) \<Longrightarrow> c \<in> set cs \<Longrightarrow> find (\<lambda>x. k x = k c) cs = Some c"
  by (induction cs) (auto simp: image_iff)

text \<open>
  Asking for a capability that does not exist undoes every change to the built-in ones: the
  request fails, but the built-in rows it commits are the original ones, whatever an administrator
  had set (a disabled one is enabled again).
\<close>

theorem unknown_capability_resets_builtins:
  assumes "s_runtime st" and "get_cap db i = None" and "i \<notin> cp_id ` set DEFAULT_CAPABILITIES"
    and "b \<in> set DEFAULT_CAPABILITIES"
  shows "fst (get_capability st db i) = Inl CapabilityNotFound
     \<and> get_cap (snd (get_capability st db i)) (cp_id b) = Some b"
proof -
  have get: "get_cap (seed_builtin_capabilities db) j =
      (case find (\<lambda>c. cp_id c = j) DEFAULT_CAPABILITIES of Some c \<Rightarrow> Some c | None \<Rightarrow> get_cap db j)" for j
    unfolding get_cap_def seed_builtin_capabilities_def by (simp add: seed_fold_get [OF default_ids])
  have "find (\<lambda>c. cp_id c = i) DEFAULT_CAPABILITIES = None"
    using assms(3) by (auto simp: find_None_iff)
  with get [of i] assms(2) have "get_cap (seed_builtin_capabilities db) i = None" by simp
  moreover have "get_cap (seed_builtin_capabilities db) (cp_id b) = Some b"
    using get [of "cp_id b"] find_distinct [OF default_ids assms(4)] by simp
  ultimately show ?thesis
    using assms(1,2) by (simp add: get_capability_def resolve_capability_def Let_def)
qed

text \<open>
  The security audit a capability asks for is never waited for: when the boss's approval is not
  needed as well, the execution is run at once, with no approval recorded.
\<close>

theorem security_audit_is_not_enforced:
  assumes "evaluate_permission (e_settings env) db em (strip (xf_capability f)) (form_payload f) (xf_executor f) = (Inr p, db1)"
    and "pm_security_audit p" and "\<not> pm_approval p"
    and "s_runtime (e_settings env)" and "xf_task f = None" and "row_get em_id (xf_employee f) (ag_employees db) = Some em"
    and "strip (xf_capability f) \<noteq> []" and "ax_trace (new_execution env u f None em p) \<notin> set (map ax_trace (ag_execs db1))"
  shows "\<exists>e db2. create_execution env u f db = run_execution_flow env u None db1 e db2 \<and>
     ax_approval e = (asc ''not_required'') \<and> ax_status e = (asc ''waiting_execution'')
     \<and> map au_event (ag_audits db2) = map au_event (ag_audits db1) @ [(asc ''execution_created'')]"
proof -
  define e where "e = new_execution env u f None em p"
  define db2 where "db2 = write_audit_event (e_redact_url env) e (asc ''execution_created'') (asc ''user'') (execution_actor u)
      ((plain_note (ax_approval e) (pm_executor p))\<lparr>no_input := ax_input e,
         no_sensitive := contains_sensitive (xf_input f)\<rparr>) (db1\<lparr>ag_execs := row_add e (ag_execs db1)\<rparr>)"
  have "create_execution env u f db = admit_execution env u f None p e db1"
    using assms(1,4-7) by (simp add: create_execution_def e_def)
  also have "\<dots> = run_execution_flow env u None db1 e db2"
    using assms(3,8) by (simp add: admit_execution_def e_def [symmetric] db2_def [symmetric])
  finally have "create_execution env u f db = run_execution_flow env u None db1 e db2" .
  moreover have "ax_approval e = (asc ''not_required'')" "ax_status e = (asc ''waiting_execution'')"
    using assms(3) by (simp_all add: e_def new_execution_def)
  moreover have "map au_event (ag_audits db2) = map au_event (ag_audits db1) @ [(asc ''execution_created'')]"
    by (simp add: db2_def)
  ultimately show ?thesis by blast
qed

section \<open>Concrete requests\<close>

definition demo_env :: agent_env where
  "demo_env =
     \<lparr>e_settings = \<lparr>s_runtime = True, s_browser_readonly = False, s_browser_control = False, s_research = False,
        s_real = True, s_computer = True, s_mobile = False, s_shell = False\<rparr>,
      e_redact_url = (\<lambda>s. s), e_browser = (\<lambda>_. None), e_research = (\<lambda>_. None), e_mock_clock = (\<lambda>_. (5, 9)),
      e_ms = (\<lambda>d. d div 1000), e_persist = (\<lambda>_ _. False), e_owns = (\<lambda>_ _. True), e_now = 3,
      e_fresh_id = (asc ''e1''), e_fresh_trace = (asc ''t1'')\<rparr>"

definition demo_user :: agent_user where
  "demo_user = \<lparr>us_id = 1, us_name = (asc ''boss'')\<rparr>"

definition demo_cap :: "ustr \<Rightarrow> ustr \<Rightarrow> bool \<Rightarrow> capability" where
  "demo_cap ex risk audit =
     \<lparr>cp_id = (asc ''c1''), cp_name = (asc ''c1''), cp_type = [0x6587, 0x4EF6, 0x5904, 0x7406], cp_executor = ex, cp_risk = risk, cp_enabled = True,
      cp_readonly = True, cp_boss = False, cp_audit = audit, cp_timeout = 30, cp_retries = 2, cp_schema = NoSchema,
      cp_allowed = [], cp_version = (asc ''1.0.0'')\<rparr>"

definition demo_exec :: "ustr \<Rightarrow> ustr \<Rightarrow> ustr \<Rightarrow> ustr \<Rightarrow> json \<Rightarrow> agent_execution" where
  "demo_exec status approval ex risk input =
     \<lparr>ax_id = (asc ''e0''), ax_task = None, ax_employee = 0, ax_capability = (asc ''c1''), ax_status = status, ax_risk = risk,
      ax_approval = approval, ax_executor = ex, ax_input = input, ax_output = JNull, ax_error_code = None,
      ax_error = None, ax_retry = 0, ax_started = None, ax_finished = None, ax_duration = None, ax_trace = (asc ''t0''),
      ax_creator = 1\<rparr>"

definition demo_agents :: "capability \<Rightarrow> agent_execution list \<Rightarrow> agent_db" where
  "demo_agents c es =
     \<lparr>ag_caps = [c], ag_execs = es, ag_audits = [],
      ag_employees = [\<lparr>em_id = 4, em_code = (asc ''tiancai''), em_name = [], em_status = (asc ''active''), em_legacy = False\<rparr>],
      ag_tasks = []\<rparr>"

lemma demo_agents_simps [simp]:
  "get_cap (demo_agents (demo_cap ex risk audit) es) (asc ''c1'') = Some (demo_cap ex risk audit)"
  "get_exec (demo_agents c [demo_exec st ap ex risk input]) (asc ''e0'') = Some (demo_exec st ap ex risk input)"
  "find_owned demo_env demo_user (demo_agents c [demo_exec st ap ex risk input]) (asc ''e0'') = Some (demo_exec st ap ex risk input)"
  "ax_capability (demo_exec st ap ex risk input) = (asc ''c1'')" "ax_status (demo_exec st ap ex risk input) = st"
  "ax_executor (demo_exec st ap ex risk input) = ex" "ax_retry (demo_exec st ap ex risk input) = 0"
  "s_runtime (e_settings demo_env)"
  by (simp_all add: get_cap_def get_exec_def find_owned_def owned_execution_def row_get_def demo_agents_def demo_cap_def
      demo_exec_def demo_env_def demo_user_def)

theorem retries_are_bounded_witness:
  "starts (snd (run_execution_flow demo_env demo_user None (demo_agents (demo_cap (asc ''mock'') (asc ''low'') False) [])
      (demo_exec (asc ''running'') (asc ''approved'') (asc ''mock'') (asc ''low'') JNull) (demo_agents (demo_cap (asc ''mock'') (asc ''low'') False) []))) \<le> 3"
proof -
  let ?db = "demo_agents (demo_cap (asc ''mock'') (asc ''low'') False) []"
  let ?e = "demo_exec (asc ''running'') (asc ''approved'') (asc ''mock'') (asc ''low'') JNull"
  obtain res db' where flow: "run_execution_flow demo_env demo_user None ?db ?e ?db = (res, db')" by fastforce
  have "retries_left ?e ?db = 2" by (simp add: retries_left_def) (simp add: demo_cap_def)
  moreover have "starts ?db = 0" by (simp add: starts_def demo_agents_def)
  ultimately show ?thesis using retries_are_bounded [OF flow order_refl] flow by simp
qed

theorem mock_run_outcome_witness:
  "\<exists>e' db'. run_execution_flow demo_env demo_user None (demo_agents (demo_cap (asc ''mock'') (asc ''low'') False) [])
      (demo_exec (asc ''running'') (asc ''approved'') (asc ''mock'') (asc ''low'') (JObj [((asc ''mode''), JStr (asc '' Retry ''))]))
      (demo_agents (demo_cap (asc ''mock'') (asc ''low'') False) []) = (Inr e', db') \<and> ax_status e' = (asc ''success'') \<and> ax_retry e' = 1"
proof -
  let ?e = "demo_exec (asc ''running'') (asc ''approved'') (asc ''mock'') (asc ''low'') (JObj [((asc ''mode''), JStr (asc '' Retry ''))])"
  have "mock_ready ?e (demo_agents (demo_cap (asc ''mock'') (asc ''low'') False) []) (demo_cap (asc ''mock'') (asc ''low'') False)"
    by (simp add: mock_ready_def) (simp add: demo_cap_def)
  moreover have "(asc ''retry'') = mock_mode (stored_input demo_env ?e)" by code_simp
  ultimately obtain e' db' where "run_execution_flow demo_env demo_user None (demo_agents (demo_cap (asc ''mock'') (asc ''low'') False) [])
      ?e (demo_agents (demo_cap (asc ''mock'') (asc ''low'') False) []) = (Inr e', db')"
    "ax_status e' = mock_outcome (asc ''retry'') 0 (cp_retries (demo_cap (asc ''mock'') (asc ''low'') False))"
    "ax_retry e' = (if asc ''retry'' = asc ''retry'' \<and> 0 < cp_retries (demo_cap (asc ''mock'') (asc ''low'') False) then 1 else 0)"
    using mock_run_outcome [where e = ?e and env = demo_env and mode = "asc ''retry''" and u = demo_user and t = None
        and kept = "demo_agents (demo_cap (asc ''mock'') (asc ''low'') False) []"] by fastforce
  then show ?thesis by (simp add: mock_outcome_def demo_cap_def)
qed

theorem reject_overwrites_any_state_witness:
  "\<exists>e' db'. reject_execution demo_env demo_user (asc ''e0'') None (demo_agents (demo_cap (asc ''mock'') (asc ''low'') False)
      [demo_exec (asc ''success'') (asc ''not_required'') (asc ''mock'') (asc ''low'') JNull]) = (Inr e', db') \<and> ax_status e' = (asc ''rejected'')"
  using reject_overwrites_any_state [of demo_env demo_user
      "demo_agents (demo_cap (asc ''mock'') (asc ''low'') False) [demo_exec (asc ''success'') (asc ''not_required'') (asc ''mock'') (asc ''low'') JNull]" "asc ''e0''" _ None]
  by auto

theorem approval_without_executor_gets_stuck_witness:
  "\<exists>db'. approve_execution demo_env demo_user (asc ''e0'') True True (demo_agents (demo_cap (asc ''desktop'') (asc ''high'') True)
      [demo_exec (asc ''waiting_approval'') (asc ''pending'') (asc ''desktop'') (asc ''high'') JNull]) = (Inl (UnsupportedExecutor (asc ''desktop'')), db')"
proof -
  have "get_executor (asc ''desktop'') = None" by code_simp
  then show ?thesis
    using approval_without_executor_gets_stuck [of demo_env demo_user "demo_agents (demo_cap (asc ''desktop'') (asc ''high'') True)
      [demo_exec (asc ''waiting_approval'') (asc ''pending'') (asc ''desktop'') (asc ''high'') JNull]" "asc ''e0''"
      "demo_exec (asc ''waiting_approval'') (asc ''pending'') (asc ''desktop'') (asc ''high'') JNull" "demo_cap (asc ''desktop'') (asc ''high'') True" True True]
    by auto
qed

theorem unknown_capability_resets_builtins_witness:
  "(let off = (hd DEFAULT_CAPABILITIES)\<lparr>cp_enabled := False\<rparr>;
        db = snd (get_capability (e_settings demo_env) (demo_agents off []) (asc ''nothing''))
    in get_cap db (asc ''mock.echo'') = Some (hd DEFAULT_CAPABILITIES) \<and> cp_enabled (hd DEFAULT_CAPABILITIES))"
proof -
  let ?b = "hd DEFAULT_CAPABILITIES"
  have b: "?b \<in> set DEFAULT_CAPABILITIES" "cp_id ?b = (asc ''mock.echo'')" "cp_enabled ?b"
    by (simp_all add: DEFAULT_CAPABILITIES_def builtin_cap_def)
  have "get_cap (demo_agents (?b\<lparr>cp_enabled := False\<rparr>) []) (asc ''nothing'') = None"
    using b(2) by (simp add: get_cap_def row_get_def demo_agents_def)
  moreover have "(asc ''nothing'') \<notin> cp_id ` set DEFAULT_CAPABILITIES"
    by (simp add: DEFAULT_CAPABILITIES_def builtin_cap_def)
  ultimately show ?thesis
    using unknown_capability_resets_builtins [of "e_settings demo_env" _ "asc ''nothing''" ?b] b by (simp add: Let_def)
qed

theorem high_risk_start_was_approved_witness:
  "(let audits = ag_audits (run_events agent_step (demo_agents (demo_cap (asc ''mock'') (asc ''high'') False)
          [demo_exec (asc ''waiting_approval'') (asc ''pending'') (asc ''mock'') (asc ''high'') (JObj [])])
          [(demo_env, demo_user, ApproveExecution (asc ''e0'') True True)])
    in \<exists>j < 1. au_event (audits ! j) = (asc ''execution_approved'') \<and> au_execution (audits ! j) = au_execution (audits ! 1))"
proof -
  let ?db = "demo_agents (demo_cap (asc ''mock'') (asc ''high'') False) [demo_exec (asc ''waiting_approval'') (asc ''pending'') (asc ''mock'') (asc ''high'') (JObj [])]"
  let ?audits = "ag_audits (run_events agent_step ?db [(demo_env, demo_user, ApproveExecution (asc ''e0'') True True)])"
  let ?e = "demo_exec (asc ''waiting_approval'') (asc ''pending'') (asc ''mock'') (asc ''high'') (JObj [])"
  have mode: "mock_mode (JObj []) = asc ''success''" by code_simp
  have clock: "e_mock_clock demo_env x = (5, 9)" for x by (simp add: demo_env_def)
  have own: "find_owned demo_env demo_user ?db (asc ''e0'') = Some ?e" by simp
  have input: "stored_input demo_env x = JObj []" if "ax_input x = JObj []" for x
    using that by (simp add: stored_input_def dict_of_def)
  let ?e1 = "?e\<lparr>ax_approval := asc ''approved'', ax_status := asc ''waiting_execution''\<rparr>"
  have e1: "ax_input ?e1 = JObj []" "ax_executor ?e1 = asc ''mock''" "ax_capability ?e1 = asc ''c1''"
      "ax_status ?e1 = asc ''waiting_execution''" "ax_risk ?e = asc ''high''"
    by (simp_all add: demo_exec_def)
  have cap: "get_cap d (asc ''c1'') = Some (demo_cap (asc ''mock'') (asc ''high'') False)" if "ag_caps d = ag_caps ?db" for d
    using that by (simp add: get_cap_def row_get_def demo_agents_def) (simp add: demo_cap_def)
  have log: "map (\<lambda>a. (au_event a, au_risk a)) (ag_audits (snd (run_execution_flow demo_env demo_user t d ?e1 d))) =
      map (\<lambda>a. (au_event a, au_risk a)) (ag_audits d) @ [(asc ''execution_started'', asc ''high''), (asc ''execution_succeeded'', asc ''high'')]"
    if "ag_caps d = ag_caps ?db" for d t
    using that
    by (subst run_execution_flow.simps)
      (simp add: run_attempt_def settle_attempt_def Let_def e1 cap get_mock mock_execute_def execution_context_def input mode
        clock demo_cap_def write_audit_event_def row_add_def)
  have "map (\<lambda>a. (au_event a, au_risk a)) ?audits = [(asc ''execution_approved'', asc ''high''),
      (asc ''execution_started'', asc ''high''), (asc ''execution_succeeded'', asc ''high'')]"
    by (simp add: agent_step_def approve_execution_def Let_def own log)
      (simp add: write_audit_event_def row_add_def demo_agents_def demo_exec_def)
  note log = this
  have "length ?audits = 3" using arg_cong [OF log, of length] by (simp only: length_map) simp
  then have len: "1 < length ?audits" by linarith
  from len have "(\<lambda>a. (au_event a, au_risk a)) (?audits ! 1) = map (\<lambda>a. (au_event a, au_risk a)) ?audits ! 1"
    by (simp only: nth_map)
  then have one: "au_event (?audits ! 1) = (asc ''execution_started'')" "au_risk (?audits ! 1) = (asc ''high'')"
    unfolding log by simp_all
  have "agents_ok ?db"
    by (simp add: agents_ok_def exec_ok_def starts_approved_def running_states_def demo_agents_def demo_exec_def)
  from high_risk_start_was_approved [OF this refl len one] show ?thesis by (simp add: Let_def)
qed

theorem security_audit_is_not_enforced_witness:
  "\<exists>e db2. create_execution demo_env demo_user \<lparr>xf_task = None, xf_employee = 4, xf_capability = (asc ''c1''), xf_input = JNull,
       xf_executor = None, xf_trace = None\<rparr> (demo_agents (demo_cap (asc ''mock'') (asc ''medium'') True) []) =
       run_execution_flow demo_env demo_user None (demo_agents (demo_cap (asc ''mock'') (asc ''medium'') True) []) e db2 \<and>
     ax_status e = (asc ''waiting_execution'')"
proof -
  let ?db = "demo_agents (demo_cap (asc ''mock'') (asc ''medium'') True) []"
  let ?f = "\<lparr>xf_task = None, xf_employee = 4, xf_capability = (asc ''c1''), xf_input = JNull, xf_executor = None, xf_trace = None\<rparr>"
  let ?em = "\<lparr>em_id = 4, em_code = (asc ''tiancai''), em_name = [], em_status = (asc ''active''), em_legacy = False\<rparr>"
  let ?p = "\<lparr>pm_capability = demo_cap (asc ''mock'') (asc ''medium'') True, pm_executor = (asc ''mock''), pm_risk = (asc ''medium''),
      pm_approval = False, pm_security_audit = True\<rparr>"
  have strip: "strip (asc ''c1'') = (asc ''c1'')" by code_simp
  have cap: "resolve_capability ?db (asc ''c1'') = (Some (demo_cap (asc ''mock'') (asc ''medium'') True), ?db)"
    by (simp add: resolve_capability_def)
  have chosen: "resolve_executor_type (demo_cap (asc ''mock'') (asc ''medium'') True) None = (asc ''mock'')" by code_simp
  have perm: "evaluate_permission (e_settings demo_env) ?db ?em (strip (xf_capability ?f)) (form_payload ?f) (xf_executor ?f) = (Inr ?p, ?db)"
    by (simp add: evaluate_permission_def strip cap chosen)
      (simp add: demo_cap_def capability_allowed_employee_codes_def employee_usable_def executor_gate_def
        validate_schema_like_payload_def Let_def)
  have "row_get em_id (xf_employee ?f) (ag_employees ?db) = Some ?em"
    by (simp add: row_get_def demo_agents_def)
  moreover have "ag_execs ?db = []" by (simp add: demo_agents_def)
  ultimately show ?thesis
    using security_audit_is_not_enforced [OF perm] by (simp add: strip) blast
qed

end
