(* ===== verification/Device_Data.thy ===== *)
theory Device_Data
  imports Json
begin

text \<open>
  The data of the device center (\<^verbatim>\<open>backend/device_center/models.py\<close>, \<^verbatim>\<open>schemas.py\<close>), its
  redaction and security events (\<^verbatim>\<open>audit.py\<close>), and the authentication of devices
  (\<^verbatim>\<open>authentication.py\<close>): one-time registration tokens, signatures and nonces. A time is an integer
  of microseconds, a JSON column the value it encodes. SHA-256, HMAC, the printed form of a time and
  the random identifiers are the fields of \<open>device_env\<close>; one request reads the clock once.
\<close>

section \<open>Rows\<close>

record device =
  dv_id :: ustr
  dv_code :: ustr
  dv_name :: ustr
  dv_type :: ustr
  dv_os :: ustr
  dv_arch :: ustr
  dv_version :: ustr
  dv_status :: ustr
  dv_trust :: ustr
  dv_environment :: ustr
  dv_owner :: "int option"
  dv_registered_by :: "int option"
  dv_approved_by :: "int option"
  dv_seen :: "int option"
  dv_ip :: "ustr option"
  dv_certificate :: ustr
  dv_capabilities :: "ustr list"
  dv_enabled :: bool
  dv_revoked :: "int option"
  dv_approved :: "int option"

record reg_token =
  rt_id :: ustr
  rt_hash :: ustr
  rt_type :: ustr
  rt_environment :: ustr
  rt_capabilities :: "ustr list"
  rt_expires :: int
  rt_used :: "int option"
  rt_revoked :: "int option"
  rt_creator :: "int option"

record credential =
  cr_id :: ustr
  cr_device :: ustr
  cr_type :: ustr
  cr_fingerprint :: ustr
  cr_status :: ustr
  cr_public :: ustr
  cr_nonce :: "ustr option"
  cr_request :: "int option"
  cr_revoked :: "int option"

record observation =
  ob_id :: ustr
  ob_device :: ustr
  ob_session :: "ustr option"
  ob_task :: "int option"
  ob_employee :: "int option"
  ob_skill :: "int option"
  ob_status :: ustr
  ob_applications :: "ustr list"
  ob_windows :: "ustr list"
  ob_goal :: "ustr option"
  ob_count :: int
  ob_max :: int
  ob_started :: int
  ob_expires :: int
  ob_finished :: "int option"
  ob_stop :: "ustr option"
  ob_trace :: "ustr option"

record observation_event =
  oe_id :: ustr
  oe_observation :: ustr
  oe_sequence :: int
  oe_application :: ustr
  oe_bundle :: ustr
  oe_title :: ustr
  oe_reference :: "ustr option"
  oe_hash :: ustr
  oe_state :: ustr
  oe_flags :: json
  oe_step :: json
  oe_trace :: "ustr option"

record security_event =
  sv_id :: ustr
  sv_device :: "ustr option"
  sv_observation :: "ustr option"
  sv_code :: ustr
  sv_message :: ustr
  sv_risk :: ustr
  sv_sensitive :: bool
  sv_trace :: "ustr option"

record staff =
  sf_id :: int
  sf_code :: ustr

record device_db =
  dc_devices :: "device list"
  dc_tokens :: "reg_token list"
  dc_credentials :: "credential list"
  dc_observations :: "observation list"
  dc_events :: "observation_event list"
  dc_security :: "security_event list"
  dc_staff :: "staff list"

record device_env =
  dn_now :: int
  dn_iso :: "int \<Rightarrow> ustr"
  dn_sha :: "ustr \<Rightarrow> ustr"
  dn_hmac :: "ustr \<Rightarrow> ustr \<Rightarrow> ustr"
  dn_uuid :: "nat \<Rightarrow> ustr"
  dn_hex :: "nat \<Rightarrow> ustr"
  dn_feature :: bool

interpretation device_table: keyed_table dv_id "row_get dv_id" "row_put dv_id" row_add
  by (rule row_keyed_table)

interpretation token_table: keyed_table rt_hash "row_get rt_hash" "row_put rt_hash" row_add
  by (rule row_keyed_table)

interpretation credential_table: keyed_table cr_id "row_get cr_id" "row_put cr_id" row_add
  by (rule row_keyed_table)

interpretation observation_table: keyed_table ob_id "row_get ob_id" "row_put ob_id" row_add
  by (rule row_keyed_table)

text \<open>
  A request answers or raises: an \<^verbatim>\<open>HTTPException\<close> with its status and detail, or a Python
  \<^verbatim>\<open>TypeError\<close> or \<^verbatim>\<open>AttributeError\<close> the code does not catch, or the database refuses a random
  primary key that exists already. (The row id of a
  token and the digests that are keys of events are taken to be new.)
\<close>

datatype device_error = Http int ustr | PyTypeError | PyAttributeError | DuplicateKey

section \<open>Redaction and security events\<close>

definition REDACTED :: ustr where
  "REDACTED = (asc ''[REDACTED]'')"

definition redact_words :: "ustr \<Rightarrow> ustr" where
  "redact_words value =
     (if occurs_any [(asc ''password=''), (asc ''token=''), (asc ''cookie=''), (asc ''secret=''), (asc ''private key''), (asc ''authorization''),
                     (asc ''apikey''), (asc ''api_key'')] (lower value)
      then REDACTED else take 256 value)"

definition secret_key :: "ustr \<Rightarrow> bool" where
  "secret_key k = occurs_any [(asc ''password''), (asc ''token''), (asc ''cookie''), (asc ''secret''), (asc ''key''), (asc ''authorization'')] (lower k)"

fun redact_sensitive :: "json \<Rightarrow> json" where
  "redact_sensitive (JObj kvs) =
     JObj (map (\<lambda>kv. (fst kv, if secret_key (fst kv) then JStr (redact_words REDACTED)
                               else redact_sensitive (snd kv))) kvs)"
| "redact_sensitive (JArr xs) = JArr (map redact_sensitive xs)"
| "redact_sensitive (JStr s) = JStr (redact_words s)"
| "redact_sensitive j = j"

definition opt_text :: "ustr option \<Rightarrow> ustr" where
  "opt_text x = (case x of None \<Rightarrow> (asc ''None'') | Some s \<Rightarrow> s)"

definition record_security_event ::
  "device_env \<Rightarrow> ustr option \<Rightarrow> ustr option \<Rightarrow> ustr \<Rightarrow> ustr \<Rightarrow> ustr \<Rightarrow> bool \<Rightarrow> ustr option \<Rightarrow> device_db \<Rightarrow> device_db"
where
  "record_security_event env device_id observation_id code message risk sensitive_data trace db =
     db\<lparr>dc_security := row_add
       \<lparr>sv_id = take 36 (dn_sha env (opt_text device_id @ (asc '':'') @ opt_text observation_id @ (asc '':'') @ code @
                                    (asc '':'') @ dn_iso env (dn_now env))),
        sv_device = device_id, sv_observation = observation_id, sv_code = code, sv_message = message,
        sv_risk = risk, sv_sensitive = sensitive_data, sv_trace = trace\<rparr> (dc_security db)\<rparr>"

section \<open>Registration tokens\<close>

definition create_registration_token_record ::
  "device_env \<Rightarrow> ustr \<Rightarrow> ustr \<Rightarrow> ustr list \<Rightarrow> int \<Rightarrow> int option \<Rightarrow> device_db
     \<Rightarrow> (reg_token \<times> ustr) \<times> device_db"
where
  "create_registration_token_record env dtype environment capabilities minutes creator db =
     (let token = (asc ''dtok_'') @ dn_hex env 0 @ (asc ''_'') @ dn_hex env 1;
          row = \<lparr>rt_id = dn_uuid env 0, rt_hash = dn_sha env token, rt_type = dtype,
                 rt_environment = environment, rt_capabilities = capabilities,
                 rt_expires = dn_now env + minutes * 60000000, rt_used = None, rt_revoked = None,
                 rt_creator = creator\<rparr>
      in ((row, token), db\<lparr>dc_tokens := row_add row (dc_tokens db)\<rparr>))"

text \<open>The row is marked used and committed before anything else of the registration is checked.\<close>

definition consume_registration_token ::
  "device_env \<Rightarrow> ustr \<Rightarrow> device_db \<Rightarrow> (device_error + reg_token) \<times> device_db"
where
  "consume_registration_token env token db =
     (case row_get rt_hash (dn_sha env token) (dc_tokens db) of
        None \<Rightarrow> (Inl (Http 403 [0x6CE8, 0x518C, 0x4EE4, 0x724C, 0x65E0, 0x6548]), db)
      | Some row \<Rightarrow>
          if rt_revoked row \<noteq> None then (Inl (Http 403 [0x6CE8, 0x518C, 0x4EE4, 0x724C, 0x5DF2, 0x64A4, 0x9500]), db)
          else if rt_used row \<noteq> None then (Inl (Http 403 [0x6CE8, 0x518C, 0x4EE4, 0x724C, 0x5DF2, 0x4F7F, 0x7528]), db)
          else if rt_expires row \<le> dn_now env then (Inl (Http 403 [0x6CE8, 0x518C, 0x4EE4, 0x724C, 0x5DF2, 0x8FC7, 0x671F]), db)
          else let row1 = row\<lparr>rt_used := Some (dn_now env)\<rparr>
               in (Inr row1, db\<lparr>dc_tokens := row_put rt_hash row1 (dc_tokens db)\<rparr>))"

section \<open>Signatures and nonces\<close>

definition make_device_fingerprint :: "device_env \<Rightarrow> ustr \<Rightarrow> ustr \<Rightarrow> ustr \<Rightarrow> ustr \<Rightarrow> ustr" where
  "make_device_fingerprint env code certificate nonce timestamp =
     dn_sha env (code @ (asc '':'') @ certificate @ (asc '':'') @ nonce @ (asc '':'') @ timestamp)"

definition make_request_signature :: "device_env \<Rightarrow> ustr \<Rightarrow> ustr \<Rightarrow> ustr \<Rightarrow> ustr \<Rightarrow> ustr \<Rightarrow> ustr" where
  "make_request_signature env material code nonce timestamp path =
     dn_hmac env material (code @ (asc '':'') @ nonce @ (asc '':'') @ timestamp @ (asc '':'') @ path)"

text \<open>\<^verbatim>\<open>hmac.compare_digest\<close> refuses text outside ASCII with a \<^verbatim>\<open>TypeError\<close>.\<close>

definition verify_signature :: "device_env \<Rightarrow> ustr \<Rightarrow> ustr \<Rightarrow> ustr \<Rightarrow> ustr \<Rightarrow> ustr \<Rightarrow> ustr \<Rightarrow> device_error option" where
  "verify_signature env material code nonce timestamp signature path =
     (if list_ex (\<lambda>c. 128 \<le> c) signature then Some PyTypeError
      else if make_request_signature env material code nonce timestamp path = signature then None
      else Some (Http 403 [0x8BBE, 0x5907, 0x7B7E, 0x540D, 0x6821, 0x9A8C, 0x5931, 0x8D25]))"

definition remember_nonce :: "device_env \<Rightarrow> credential \<Rightarrow> ustr \<Rightarrow> device_db \<Rightarrow> (device_error + unit) \<times> device_db" where
  "remember_nonce env credential nonce db =
     (if cr_nonce credential \<notin> {None, Some []} \<and> cr_nonce credential = Some nonce
      then (Inl (Http 409 [0x8BF7, 0x6C42, 0x91CD, 0x653E, 0x88AB, 0x62D2, 0x7EDD]), db)
      else (Inr (), db\<lparr>dc_credentials :=
              row_put cr_id (credential\<lparr>cr_nonce := Some nonce, cr_request := Some (dn_now env)\<rparr>)
                (dc_credentials db)\<rparr>))"

section \<open>Employee codes\<close>

definition EMPLOYEE_CODE_ALIASES :: "(ustr \<times> ustr) list" where
  "EMPLOYEE_CODE_ALIASES =
     [((asc ''tian_cai''), (asc ''tiancai_data'')), ((asc ''tiancai''), (asc ''tiancai_data'')), ((asc ''tian-cai''), (asc ''tiancai_data'')),
      ((asc ''tian_ce''), (asc ''tiance_strategy'')), ((asc ''tiance''), (asc ''tiance_strategy'')), ((asc ''tian-ce''), (asc ''tiance_strategy'')),
      ((asc ''tian_chuang''), (asc ''tianchuang'')), ((asc ''tian-chuang''), (asc ''tianchuang'')),
      ((asc ''tian_shang''), (asc ''tianshang'')), ((asc ''tian-shang''), (asc ''tianshang'')),
      ((asc ''tian_tou''), (asc ''tiantou'')), ((asc ''tian-tou''), (asc ''tiantou'')),
      ((asc ''tian_jian''), (asc ''tianjian_test'')), ((asc ''tianjian''), (asc ''tianjian_test'')), ((asc ''tian-jian''), (asc ''tianjian_test'')),
      ((asc ''tian_dun''), (asc ''tiandun_ops'')), ((asc ''tiandun''), (asc ''tiandun_ops'')), ((asc ''tian-dun''), (asc ''tiandun_ops''))]"

definition normalize_employee_code :: "ustr option \<Rightarrow> ustr option" where
  "normalize_employee_code code =
     map_option (\<lambda>c. case map_of EMPLOYEE_CODE_ALIASES (strip c) of None \<Rightarrow> strip c | Some d \<Rightarrow> d) code"

section \<open>Frame facts\<close>

lemma security_event_simps [simp]:
  "dc_devices (record_security_event env d ob c m r s t db) = dc_devices db"
  "dc_tokens (record_security_event env d ob c m r s t db) = dc_tokens db"
  "dc_credentials (record_security_event env d ob c m r s t db) = dc_credentials db"
  "dc_observations (record_security_event env d ob c m r s t db) = dc_observations db"
  "dc_events (record_security_event env d ob c m r s t db) = dc_events db"
  "dc_staff (record_security_event env d ob c m r s t db) = dc_staff db"
  by (simp_all add: record_security_event_def)

lemma security_event_codes:
  "map (\<lambda>e. (sv_device e, sv_code e)) (dc_security (record_security_event env d ob c m r s t db)) =
   map (\<lambda>e. (sv_device e, sv_code e)) (dc_security db) @ [(d, c)]"
  by (simp add: record_security_event_def row_add_def)

lemma consume_simps [simp]:
  "dc_devices (snd (consume_registration_token env token db)) = dc_devices db"
  "dc_credentials (snd (consume_registration_token env token db)) = dc_credentials db"
  "dc_observations (snd (consume_registration_token env token db)) = dc_observations db"
  "dc_events (snd (consume_registration_token env token db)) = dc_events db"
  "dc_security (snd (consume_registration_token env token db)) = dc_security db"
  "dc_staff (snd (consume_registration_token env token db)) = dc_staff db"
  by (simp_all add: consume_registration_token_def Let_def split: option.splits)

text \<open>When a token is accepted.\<close>

definition token_open :: "int \<Rightarrow> reg_token \<Rightarrow> bool" where
  "token_open now row \<longleftrightarrow> rt_revoked row = None \<and> rt_used row = None \<and> now < rt_expires row"

lemma consume_ok_iff:
  "fst (consume_registration_token env token db) = Inr row \<longleftrightarrow>
     (\<exists>old. row_get rt_hash (dn_sha env token) (dc_tokens db) = Some old \<and> token_open (dn_now env) old \<and>
            row = old\<lparr>rt_used := Some (dn_now env)\<rparr>)"
  by (auto simp: consume_registration_token_def token_open_def Let_def split: option.splits)

lemma consume_tokens:
  "dc_tokens (snd (consume_registration_token env token db)) =
     (case fst (consume_registration_token env token db) of
        Inl _ \<Rightarrow> dc_tokens db | Inr row \<Rightarrow> row_put rt_hash row (dc_tokens db))"
  by (auto simp: consume_registration_token_def Let_def split: option.splits)

end
