(* ===== verification/Mac_Observer.thy ===== *)
theory Mac_Observer
  imports Json
begin

text \<open>
  The read-only desktop observer (\<^verbatim>\<open>device_agents/macos_observer\<close>): window snapshots, the detection
  and redaction of sensitive windows (\<^verbatim>\<open>sanitizer.py\<close>), the rule-based reading of the screen
  (\<^verbatim>\<open>vision.py\<close>), the screenshots and the round of observation (\<^verbatim>\<open>agent.py\<close>). The windows the system
  shows and the capture of one window are arguments; the provider the agent falls back to when it is
  given none is \<open>static_capture\<close>.
\<close>

section \<open>Windows\<close>

record window_snapshot =
  ws_application :: ustr
  ws_bundle :: ustr
  ws_title :: ustr
  ws_width :: json
  ws_height :: json
  ws_front :: bool
  ws_capture :: bool
  ws_metadata :: json

record sanitized_window =
  sw_application :: ustr
  sw_bundle :: ustr
  sw_title :: ustr
  sw_front :: bool
  sw_capture :: bool
  sw_blocked :: bool
  sw_reason :: "ustr option"

definition SENSITIVE_WINDOW_PATTERNS :: "ustr list" where
  "SENSITIVE_WINDOW_PATTERNS =
     [(asc ''password''), (asc ''token''), (asc ''secret''), (asc ''otp''), [0x9A8C, 0x8BC1, 0x7801], [0x94F6, 0x884C, 0x5361], [0x8EAB, 0x4EFD, 0x8BC1], (asc ''keychain''), [0x94A5, 0x5319, 0x4E32],
      (asc ''ssh''), (asc ''private key'')]"

definition window_is_sensitive :: "window_snapshot \<Rightarrow> bool" where
  "window_is_sensitive w =
     occurs_any SENSITIVE_WINDOW_PATTERNS
       (map re_fold (ws_application w @ (asc '' '') @ ws_title w @ (asc '' '') @ ws_bundle w))"

definition TITLE_MASK :: ustr where
  "TITLE_MASK = (asc ''[REDACTED]'')"

definition sanitize_window :: "window_snapshot \<Rightarrow> sanitized_window" where
  "sanitize_window w =
     (let blocked = window_is_sensitive w
      in \<lparr>sw_application = ws_application w, sw_bundle = ws_bundle w,
          sw_title = (if \<not> blocked then ws_title w else TITLE_MASK),
          sw_front = ws_front w, sw_capture = (ws_capture w \<and> \<not> blocked), sw_blocked = blocked,
          sw_reason = (if blocked then Some (asc ''SENSITIVE_WINDOW_BLOCKED'') else None)\<rparr>)"

record window_summary =
  sm_application :: "ustr option"
  sm_window :: "ustr option"
  sm_count :: int
  sm_sensitive :: bool
  sm_continue :: bool
  sm_step :: ustr

definition continue_step :: ustr where
  "continue_step = [0x7EE7, 0x7EED, 0x53EA, 0x8BFB, 0x89C2, 0x5BDF]"

definition handover_step :: ustr where
  "handover_step = [0x8BF7, 0x6C42, 0x4EBA, 0x5DE5, 0x5904, 0x7406, 0x654F, 0x611F, 0x7A97, 0x53E3]"

definition summarize_windows :: "sanitized_window list \<Rightarrow> window_summary" where
  "summarize_windows ws =
     (let active = find (\<lambda>w. sw_front w \<and> \<not> sw_blocked w) ws;
          blocked = filter sw_blocked ws
      in \<lparr>sm_application = map_option sw_application active, sm_window = map_option sw_title active,
          sm_count = int (length ws), sm_sensitive = (blocked \<noteq> []), sm_continue = (blocked = []),
          sm_step = (if blocked = [] then continue_step else handover_step)\<rparr>)"

section \<open>The rule-based reading of the screen\<close>

record vision_result =
  vi_state :: ustr
  vi_loading :: bool
  vi_error :: bool
  vi_confirm :: bool
  vi_login :: bool
  vi_sensitive :: bool
  vi_step :: ustr

definition vision_words :: "ustr list" where
  "vision_words =
     [(asc ''password''), (asc ''token''), (asc ''secret''), [0x9A8C, 0x8BC1, 0x7801], [0x94F6, 0x884C, 0x5361], [0x8EAB, 0x4EFD, 0x8BC1], (asc ''keychain''), [0x94A5, 0x5319, 0x4E32]]"

definition analyze_titles :: "ustr list \<Rightarrow> vision_result" where
  "analyze_titles titles =
     (let lowered = lower (joined (asc '' '') titles);
          sens = occurs_any vision_words lowered;
          login = occurs_any [[0x767B, 0x5F55], (asc ''login''), (asc ''sign in'')] lowered;
          err = occurs_any [[0x9519, 0x8BEF], (asc ''error''), (asc ''failed''), [0x5931, 0x8D25]] lowered;
          loading = occurs_any [[0x52A0, 0x8F7D, 0x4E2D], (asc ''loading''), (asc ''...'')] lowered;
          confirm = occurs_any [[0x786E, 0x8BA4], (asc ''confirm''), (asc ''allow'')] lowered
      in \<lparr>vi_state = (if sens then [0x68C0, 0x6D4B, 0x5230, 0x654F, 0x611F, 0x7A97, 0x53E3] else if login then [0x5B58, 0x5728, 0x767B, 0x5F55, 0x9875, 0x9762]
                      else if err then [0x5B58, 0x5728, 0x9519, 0x8BEF, 0x63D0, 0x793A] else [0x9875, 0x9762, 0x72B6, 0x6001, 0x6B63, 0x5E38]),
          vi_loading = loading, vi_error = err, vi_confirm = confirm, vi_login = login,
          vi_sensitive = sens,
          vi_step = (if sens then handover_step else if loading then [0x7B49, 0x5F85, 0x9875, 0x9762, 0x52A0, 0x8F7D, 0x5B8C, 0x6210]
                     else continue_step)\<rparr>)"

section \<open>One round of observation\<close>

record screenshot =
  sc_reference :: ustr
  sc_hash :: ustr
  sc_width :: int
  sc_height :: int

definition static_capture :: "ustr \<Rightarrow> screenshot" where
  "static_capture title =
     \<lparr>sc_reference = (asc ''screenshot://static-observer'') @ (asc '':'') @ title, sc_hash = (asc ''static-hash''),
      sc_width = 1440, sc_height = 900\<rparr>"

record observer_config =
  oc_code :: ustr
  oc_name :: ustr
  oc_applications :: "ustr list"
  oc_patterns :: "ustr list"
  oc_max :: int
  oc_capture :: bool
  oc_enumerate :: bool
  oc_stop :: bool

record observer_policy =
  po_recording :: bool
  po_accessibility :: bool
  po_automation :: bool
  po_files :: bool

definition minimal_permissions :: "observer_policy \<Rightarrow> ustr list" where
  "minimal_permissions p =
     (if po_recording p then [[0x5C4F, 0x5E55, 0x5F55, 0x5236]] else []) @ (if po_accessibility p then [[0x8F85, 0x52A9, 0x529F, 0x80FD]] else []) @
     (if po_automation p then [[0x81EA, 0x52A8, 0x5316]] else []) @ (if po_files p then [[0x6587, 0x4EF6, 0x8BBF, 0x95EE]] else [])"

text \<open>\<^verbatim>\<open>xs[:n]\<close>: a negative bound counts from the end.\<close>

definition slice_to :: "int \<Rightarrow> 'a list \<Rightarrow> 'a list" where
  "slice_to n xs = (if 0 \<le> n then take (nat n) xs else take (length xs - nat (- n)) xs)"

record round_report =
  rr_windows :: "sanitized_window list"
  rr_summary :: window_summary
  rr_vision :: vision_result
  rr_step :: ustr
  rr_screenshots :: "screenshot list"
  rr_sent :: "ustr list"
  rr_permissions :: "ustr list"

definition observe :: "(ustr \<Rightarrow> screenshot) \<Rightarrow> observer_policy \<Rightarrow> observer_config \<Rightarrow> window_snapshot list \<Rightarrow> round_report" where
  "observe capture policy config shown =
     (let windows = (if oc_enumerate config then shown else []);
          clean = map sanitize_window windows;
          summary = summarize_windows clean;
          vision = analyze_titles (map sw_title clean);
          shots = (if oc_capture config \<and> clean \<noteq> []
                   then map (\<lambda>w. capture (sw_title w)) (filter sw_capture (slice_to (oc_max config) clean))
                   else [])
      in \<lparr>rr_windows = clean, rr_summary = summary, rr_vision = vision,
          rr_step = (if sm_sensitive summary \<and> oc_stop config then handover_step else sm_step summary),
          rr_screenshots = shots, rr_sent = map sc_reference shots,
          rr_permissions = minimal_permissions policy\<rparr>)"

section \<open>What leaves the desktop\<close>

text \<open>The report shows a title only when nothing in it is sensitive.\<close>

definition sensitive_title :: "ustr \<Rightarrow> bool" where
  "sensitive_title t = occurs_any SENSITIVE_WINDOW_PATTERNS (map re_fold t)"

lemma title_in_window: "sensitive_title (ws_title w) \<Longrightarrow> window_is_sensitive w"
  unfolding sensitive_title_def window_is_sensitive_def
  by (erule occurs_any_mono) (auto simp: sublist_def intro: exI [of _ "map re_fold (ws_application w @ asc '' '')"])

lemma title_mask_plain: "\<not> sensitive_title TITLE_MASK"
  by code_simp

lemma sanitized_title: "\<not> sensitive_title (sw_title (sanitize_window w))"
  using title_in_window [of w] title_mask_plain by (auto simp: sanitize_window_def Let_def)

lemma slice_to_prefix: "prefix (slice_to n xs) xs"
  by (simp add: slice_to_def take_is_prefix)

lemma slice_to_length: "length (slice_to n xs) \<le> (if 0 \<le> n then nat n else length xs)"
  by (simp add: slice_to_def)

text \<open>
  The text the vision rules look at is lowered, the sanitizer's is case-folded. For a word outside
  the few characters on which the two differ, what lowering finds, folding finds.
\<close>

definition plain_word :: "ustr \<Rightarrow> bool" where
  "plain_word w = list_all (\<lambda>c. c \<notin> {0x130, 0x131, 0x17F, 0x307, 32}) w"

lemma starts_with_fold:
  "starts_with w (lower t) \<Longrightarrow> plain_word w \<Longrightarrow> starts_with w (map re_fold t)"
proof (induction t arbitrary: w)
  case Nil
  then show ?case by (cases w) (auto simp: lower_def)
next
  case (Cons c t)
  show ?case
  proof (cases w)
    case (Cons p ps)
    show ?thesis
    proof (cases "c = 0x130")
      case True
      with Cons.prems Cons have "p = 105 \<and> ps = []"
        by (cases ps) (auto simp: lower_def lower_char_def plain_word_def)
      with True Cons show ?thesis by (simp add: re_fold_def)
    next
      case False
      then have "lower (c # t) = hd (lower_char c) # lower t" "length (lower_char c) = 1"
        by (auto simp: lower_def lower_char_def)
      with Cons.prems Cons have "p = hd (lower_char c)" "starts_with ps (lower t)" "plain_word ps"
        by (auto simp: plain_word_def)
      with Cons.prems Cons False Cons.IH [of ps] show ?thesis
        by (auto simp: lower_char_def re_fold_def plain_word_def split: if_splits)
    qed
  qed simp
qed

lemma occurs_fold: "occurs w (lower t) \<Longrightarrow> plain_word w \<Longrightarrow> w \<noteq> [] \<Longrightarrow> occurs w (map re_fold t)"
proof (induction t)
  case (Cons c t)
  show ?case
  proof (cases "starts_with w (lower (c # t))")
    case True
    with Cons.prems starts_with_fold [of w "c # t"] show ?thesis by simp
  next
    case False
    have "occurs w (lower t)"
    proof (cases "c = 0x130")
      case True
      have "lower (c # t) = 105 # 0x307 # lower t" using True by (simp add: lower_def lower_char_def)
      moreover have "\<not> starts_with w (0x307 # lower t)"
        using Cons.prems by (cases w) (auto simp: plain_word_def)
      ultimately show ?thesis using Cons.prems(1) False by simp
    next
      case False
      then obtain d where "lower (c # t) = d # lower t"
        by (cases "65 \<le> c \<and> c \<le> 90"; cases "c = 0x212A") (auto simp: lower_def lower_char_def)
      with Cons.prems(1) \<open>\<not> starts_with w (lower (c # t))\<close> show ?thesis by simp
    qed
    with Cons show ?thesis by simp
  qed
qed (simp add: lower_def)

lemma plain_word_between: "plain_word w \<Longrightarrow> sublist w (a @ 32 # b) \<Longrightarrow> sublist w a \<or> sublist w b"
proof -
  assume w: "plain_word w" and "sublist w (a @ 32 # b)"
  then obtain us vs where e: "a @ 32 # b = us @ w @ vs" by (auto simp: sublist_def)
  have no: "32 \<notin> set w" using w by (auto simp: plain_word_def list_all_iff)
  from e consider zs where "a = us @ zs" "zs @ 32 # b = w @ vs" | zs where "us = a @ zs" "32 # b = zs @ w @ vs"
    by (auto simp: append_eq_append_conv2)
  then show ?thesis
  proof cases
    case 1
    from 1(2) no obtain xs where "zs = w @ xs"
      by (auto simp: append_eq_append_conv2 Cons_eq_append_conv)
    with 1 show ?thesis by (auto simp: sublist_def)
  next
    case 2
    with no show ?thesis by (cases "w = []"; cases zs) (auto simp: sublist_def Cons_eq_append_conv)
  qed
qed

lemma occurs_joined:
  "plain_word w \<Longrightarrow> w \<noteq> [] \<Longrightarrow> occurs w (lower (joined [32] ts)) \<Longrightarrow> \<exists>t \<in> set ts. occurs w (lower t)"
proof (induction "[32::int]" ts rule: joined.induct)
  case (3 x y ys)
  from 3(4) have "sublist w (lower x @ 32 # lower (joined [32] (y # ys)))"
    by (simp add: occurs_sublist lower_append) (simp add: lower_def lower_char_def)
  with plain_word_between 3(2) have "occurs w (lower x) \<or> occurs w (lower (joined [32] (y # ys)))"
    by (auto simp: occurs_sublist)
  with 3 show ?case by auto
qed (auto simp: lower_def)

lemma vision_words_plain: "list_all (\<lambda>w. plain_word w \<and> w \<noteq> [] \<and> w \<in> set SENSITIVE_WINDOW_PATTERNS) vision_words"
  by code_simp

lemma vision_needs_title:
  assumes "vi_sensitive (analyze_titles ts)"
  shows "\<exists>t \<in> set ts. sensitive_title t"
proof -
  have sp: "asc '' '' = [32]" by code_simp
  have "vi_sensitive (analyze_titles ts) = occurs_any vision_words (lower (joined [32] ts))"
    by (simp add: analyze_titles_def Let_def sp)
  with assms obtain w where w: "w \<in> set vision_words" "occurs w (lower (joined [32] ts))"
    by (auto simp: occurs_any_def list_ex_iff)
  from vision_words_plain w(1) have p: "plain_word w" "w \<noteq> []" "w \<in> set SENSITIVE_WINDOW_PATTERNS"
    by (auto simp only: list_all_iff)
  from occurs_joined [OF p(1,2) w(2)] obtain t where "t \<in> set ts" "occurs w (lower t)" by blast
  with occurs_fold p have "t \<in> set ts" "occurs w (map re_fold t)" by auto
  with p(3) show ?thesis
    unfolding sensitive_title_def occurs_any_def list_ex_iff by blast
qed

text \<open>
  C36: a round of observation captures at most the configured number of windows, each of them shown
  by the system, allowed to be captured and not sensitive, under its own title; and no title of the
  report holds a sensitive pattern in any capitalisation.
\<close>

theorem observation_is_bounded_and_clean:
  "(\<exists>ws. subseq ws shown \<and>
         rr_screenshots (observe capture policy config shown) = map (\<lambda>w. capture (ws_title w)) ws \<and>
         list_all (\<lambda>w. ws_capture w \<and> \<not> window_is_sensitive w) ws \<and>
         length ws \<le> (if 0 \<le> oc_max config then nat (oc_max config) else length shown)) \<and>
   list_all (\<lambda>w. \<not> sensitive_title (sw_title w)) (rr_windows (observe capture policy config shown))"
proof (intro conjI)
  let ?r = "observe capture policy config shown"
  let ?ok = "\<lambda>w. sw_capture (sanitize_window w)"
  define ws where "ws = (if oc_enumerate config \<and> oc_capture config
                          then filter ?ok (slice_to (oc_max config) shown) else [])"
  have cap: "?ok w \<longleftrightarrow> ws_capture w \<and> \<not> window_is_sensitive w" for w
    by (auto simp: sanitize_window_def Let_def)
  have title: "map (\<lambda>w. capture (sw_title (sanitize_window w))) (filter ?ok xs) =
               map (\<lambda>w. capture (ws_title w)) (filter ?ok xs)" for xs
    by (rule map_cong [OF refl]) (auto simp: sanitize_window_def Let_def split: if_splits)
  have slices: "slice_to n (map f xs) = map f (slice_to n xs)" for n xs and f :: "window_snapshot \<Rightarrow> sanitized_window"
    by (simp add: slice_to_def take_map)
  have empty: "slice_to n [] = []" for n
    by (simp add: slice_to_def)
  have "rr_screenshots ?r = map (\<lambda>w. capture (ws_title w)) ws"
    unfolding observe_def Let_def ws_def
    by (cases "shown = []") (simp_all add: slices filter_map comp_def empty title cong: map_cong filter_cong)
  moreover have "subseq ws shown"
    unfolding ws_def using slice_to_prefix [of "oc_max config" shown]
    by (auto intro: subseq_order.order_trans [OF subseq_filter_left] prefix_imp_subseq)
  moreover have "length ws \<le> (if 0 \<le> oc_max config then nat (oc_max config) else length shown)"
    unfolding ws_def using slice_to_length [of "oc_max config" shown]
    by (auto intro: order_trans [OF length_filter_le])
  moreover have "list_all (\<lambda>w. ws_capture w \<and> \<not> window_is_sensitive w) ws"
    unfolding ws_def by (auto simp: list_all_iff cap)
  ultimately show "\<exists>ws. subseq ws shown \<and> rr_screenshots ?r = map (\<lambda>w. capture (ws_title w)) ws \<and>
         list_all (\<lambda>w. ws_capture w \<and> \<not> window_is_sensitive w) ws \<and>
         length ws \<le> (if 0 \<le> oc_max config then nat (oc_max config) else length shown)"
    by blast
  show "list_all (\<lambda>w. \<not> sensitive_title (sw_title w)) (rr_windows ?r)"
    unfolding observe_def Let_def by (auto simp: list_all_iff sanitized_title)
qed

text \<open>
  The vision rules only ever see redacted titles, so they never report a sensitive screen: in
  every round, whatever the windows, the state read is one of the other three, and a round with a
  sensitive window and no login, error or loading words is read as normal and to be continued.
\<close>

theorem vision_never_reports_sensitive:
  "\<not> vi_sensitive (rr_vision (observe capture policy config shown))"
proof
  assume "vi_sensitive (rr_vision (observe capture policy config shown))"
  then have "\<exists>w \<in> set shown. sensitive_title (sw_title (sanitize_window w))"
    unfolding observe_def Let_def by (auto dest!: vision_needs_title split: if_splits)
  with sanitized_title show False by blast
qed

end
