(* ===== verification/Device_Service.thy ===== *)
theory Device_Service
  imports Device_Data Mac_Observer
begin

text \<open>
  The requests of the device center (\<^verbatim>\<open>backend/device_center/service.py\<close>, \<^verbatim>\<open>session.py\<close>,
  \<^verbatim>\<open>heartbeat.py\<close>, \<^verbatim>\<open>registry.py\<close>). A request returns its answer or what it raises, and the database
  as committed at that point: changes made before an exception stay only when the code has already
  committed them. Foreign keys and column lengths are not modelled.
\<close>

section \<open>Request bodies\<close>

record register_form =
  rf_token :: ustr
  rf_code :: ustr
  rf_name :: ustr
  rf_type :: ustr
  rf_os :: ustr
  rf_arch :: ustr
  rf_version :: ustr
  rf_trust :: ustr
  rf_environment :: ustr
  rf_owner :: "ustr option"
  rf_certificate :: ustr
  rf_public :: "ustr option"
  rf_nonce :: ustr
  rf_timestamp :: ustr
  rf_signature :: ustr
  rf_capabilities :: "ustr list"

record heartbeat_form =
  hf_nonce :: ustr
  hf_timestamp :: ustr
  hf_signature :: ustr
  hf_ip :: "ustr option"
  hf_version :: "ustr option"
  hf_capabilities :: "ustr list option"

record observation_form =
  of_task :: "int option"
  of_employee :: "int option"
  of_skill :: "int option"
  of_session :: "ustr option"
  of_goal :: "ustr option"
  of_applications :: "ustr list"
  of_window_patterns :: "ustr list"
  of_max :: int
  of_minutes :: int
  of_trace :: "ustr option"
  of_windows :: "json list"
  of_state :: "ustr option"

definition or_text :: "ustr option \<Rightarrow> ustr \<Rightarrow> ustr" where
  "or_text x d = (case x of None \<Rightarrow> d | Some s \<Rightarrow> if s = [] then d else s)"

definition or_number :: "int option \<Rightarrow> int option \<Rightarrow> int option" where
  "or_number x d = (if x = None \<or> x = Some 0 then d else x)"

section \<open>Registration\<close>

text \<open>The device is looked up by its primary key or by its unique code.\<close>

definition get_device :: "device_db \<Rightarrow> ustr \<Rightarrow> device option" where
  "get_device db i = row_get dv_id i (dc_devices db)"

definition save_device :: "device \<Rightarrow> device_db \<Rightarrow> device_db" where
  "save_device d db = db\<lparr>dc_devices := row_put dv_id d (dc_devices db)\<rparr>"

definition not_found :: device_error where
  "not_found = Http 404 [0x6D4B, 0x8BD5, 0x8BBE, 0x5907, 0x4E0D, 0x5B58, 0x5728]"

definition disabled_feature :: device_error where
  "disabled_feature = Http 403 [0x8BBE, 0x5907, 0x4E2D, 0x5FC3, 0x529F, 0x80FD, 0x5F53, 0x524D, 0x672A, 0x5F00, 0x542F]"

definition create_registration_token ::
  "device_env \<Rightarrow> ustr \<Rightarrow> ustr \<Rightarrow> ustr list \<Rightarrow> int \<Rightarrow> int option \<Rightarrow> device_db
     \<Rightarrow> (device_error + (reg_token \<times> ustr)) \<times> device_db"
where
  "create_registration_token env dtype environment capabilities minutes creator db =
     (if \<not> dn_feature env then (Inl disabled_feature, db)
      else let r = create_registration_token_record env dtype
                     (if environment = [] then (asc ''test'') else environment) capabilities
                     (if minutes = 0 then 30 else minutes) creator db
           in (Inr (fst r), snd r))"

definition find_owner :: "ustr option \<Rightarrow> device_db \<Rightarrow> int option" where
  "find_owner code db =
     (if code \<in> {None, Some []} then None
      else map_option sf_id (find (\<lambda>e. Some (sf_code e) = normalize_employee_code code) (dc_staff db)))"

definition new_device :: "device_env \<Rightarrow> register_form \<Rightarrow> reg_token \<Rightarrow> int option \<Rightarrow> device_db \<Rightarrow> device" where
  "new_device env f token registered_by db =
     \<lparr>dv_id = dn_uuid env 0, dv_code = rf_code f, dv_name = rf_name f, dv_type = rf_type f, dv_os = rf_os f,
      dv_arch = rf_arch f, dv_version = rf_version f, dv_status = [0x7B49, 0x5F85, 0x6279, 0x51C6],
      dv_trust = (if rf_trust f = [] then [0x6D4B, 0x8BD5] else rf_trust f),
      dv_environment = (if rf_environment f = [] then rt_environment token else rf_environment f),
      dv_owner = find_owner (rf_owner f) db, dv_registered_by = registered_by, dv_approved_by = None,
      dv_seen = None, dv_ip = None, dv_certificate = rf_certificate f,
      dv_capabilities = (if rf_capabilities f = [] then rt_capabilities token else rf_capabilities f),
      dv_enabled = False, dv_revoked = None, dv_approved = None\<rparr>"

definition new_credential :: "device_env \<Rightarrow> register_form \<Rightarrow> device \<Rightarrow> credential" where
  "new_credential env f d =
     \<lparr>cr_id = dn_uuid env 1, cr_device = dv_id d, cr_type = (asc ''signature''),
      cr_fingerprint = make_device_fingerprint env (rf_code f) (rf_certificate f) (rf_nonce f) (rf_timestamp f),
      cr_status = [0x6709, 0x6548], cr_public = or_text (rf_public f) (rf_certificate f),
      cr_nonce = None, cr_request = None, cr_revoked = None\<rparr>"

definition register_device ::
  "device_env \<Rightarrow> register_form \<Rightarrow> int option \<Rightarrow> device_db \<Rightarrow> (device_error + (device \<times> ustr)) \<times> device_db"
where
  "register_device env f registered_by db =
     (if \<not> dn_feature env then (Inl disabled_feature, db)
      else let r = consume_registration_token env (rf_token f) db; db1 = snd r
           in case fst r of
                Inl e \<Rightarrow> (Inl e, db1)
              | Inr token \<Rightarrow>
                  if rt_type token \<noteq> rf_type f then (Inl (Http 400 [0x8BBE, 0x5907, 0x7C7B, 0x578B, 0x4E0E, 0x6CE8, 0x518C, 0x4EE4, 0x724C, 0x4E0D, 0x5339, 0x914D]), db1)
                  else case verify_signature env (rf_certificate f) (rf_code f) (rf_nonce f) (rf_timestamp f)
                              (rf_signature f) (asc ''/api/v2/devices/register'') of
                    Some e \<Rightarrow> (Inl e, db1)
                  | None \<Rightarrow>
                      if find (\<lambda>d. dv_code d = rf_code f) (dc_devices db1) \<noteq> None
                      then (Inl (Http 409 [0x8BBE, 0x5907, 0x7F16, 0x7801, 0x5DF2, 0x5B58, 0x5728]), db1)
                      else let d = new_device env f token registered_by db1; c = new_credential env f d
                           in if dv_id d \<in> set (map dv_id (dc_devices db1)) \<or>
                                cr_id c \<in> set (map cr_id (dc_credentials db1)) then (Inl DuplicateKey, db1)
                             else (Inr (d, cr_fingerprint c),
                               db1\<lparr>dc_devices := row_add d (dc_devices db1),
                                   dc_credentials := row_add c (dc_credentials db1)\<rparr>))"

section \<open>Approval, disabling and revocation\<close>

definition approve_device ::
  "device_env \<Rightarrow> ustr \<Rightarrow> int option \<Rightarrow> ustr option \<Rightarrow> ustr option \<Rightarrow> ustr option \<Rightarrow> device_db
     \<Rightarrow> (device_error + device) \<times> device_db"
where
  "approve_device env i approved_by trust environment reason db =
     (case get_device db i of
        None \<Rightarrow> (Inl not_found, db)
      | Some d \<Rightarrow>
          let d1 = d\<lparr>dv_status := [0x5DF2, 0x6279, 0x51C6], dv_enabled := True, dv_trust := or_text trust (dv_trust d),
                     dv_environment := or_text environment (dv_environment d),
                     dv_approved_by := approved_by, dv_approved := Some (dn_now env)\<rparr>
          in (Inr d1, record_security_event env (Some (dv_id d)) None (asc ''DEVICE_APPROVED'')
                        (or_text reason [0x6D4B, 0x8BD5, 0x8BBE, 0x5907, 0x5DF2, 0x6279, 0x51C6]) [0x4F4E] False None (save_device d1 db)))"

definition disable_device ::
  "device_env \<Rightarrow> ustr \<Rightarrow> int option \<Rightarrow> ustr option \<Rightarrow> device_db \<Rightarrow> (device_error + device) \<times> device_db"
where
  "disable_device env i approved_by reason db =
     (case get_device db i of
        None \<Rightarrow> (Inl not_found, db)
      | Some d \<Rightarrow>
          let d1 = d\<lparr>dv_enabled := False, dv_status := [0x5DF2, 0x7981, 0x7528],
                     dv_approved_by := or_number approved_by (dv_approved_by d)\<rparr>
          in (Inr d1, record_security_event env (Some (dv_id d)) None (asc ''DEVICE_DISABLED'')
                        (or_text reason [0x6D4B, 0x8BD5, 0x8BBE, 0x5907, 0x5DF2, 0x7981, 0x7528]) [0x4E2D] False None (save_device d1 db)))"

definition revoke_device ::
  "device_env \<Rightarrow> ustr \<Rightarrow> int option \<Rightarrow> ustr option \<Rightarrow> device_db \<Rightarrow> (device_error + device) \<times> device_db"
where
  "revoke_device env i approved_by reason db =
     (case get_device db i of
        None \<Rightarrow> (Inl not_found, db)
      | Some d \<Rightarrow>
          let d1 = d\<lparr>dv_enabled := False, dv_status := [0x5DF2, 0x64A4, 0x9500], dv_revoked := Some (dn_now env),
                     dv_approved_by := or_number approved_by (dv_approved_by d)\<rparr>;
              db1 = (save_device d1 db)\<lparr>dc_credentials :=
                map (\<lambda>c. if cr_device c = dv_id d
                         then c\<lparr>cr_status := [0x5DF2, 0x64A4, 0x9500], cr_revoked := Some (dn_now env)\<rparr> else c)
                  (dc_credentials db)\<rparr>
          in (Inr d1, record_security_event env (Some (dv_id d)) None (asc ''DEVICE_REVOKED'')
                        (or_text reason [0x6D4B, 0x8BD5, 0x8BBE, 0x5907, 0x5DF2, 0x64A4, 0x9500]) [0x9AD8] False None db1))"

section \<open>Heartbeat\<close>

definition mark_online :: "device_env \<Rightarrow> ustr option \<Rightarrow> ustr option \<Rightarrow> ustr list option \<Rightarrow> device \<Rightarrow> device" where
  "mark_online env ip version capabilities d =
     d\<lparr>dv_status := [0x5728, 0x7EBF], dv_seen := Some (dn_now env),
       dv_ip := (if ip \<noteq> None then ip else dv_ip d), dv_version := or_text version (dv_version d),
       dv_capabilities := (case capabilities of None \<Rightarrow> dv_capabilities d | Some cs \<Rightarrow> cs)\<rparr>"

text \<open>\<^verbatim>\<open>device.credentials[0]\<close>, in the order of the table.\<close>

definition first_credential :: "device_db \<Rightarrow> ustr \<Rightarrow> credential option" where
  "first_credential db i = find (\<lambda>c. cr_device c = i) (dc_credentials db)"

definition heartbeat_path :: "ustr \<Rightarrow> ustr" where
  "heartbeat_path i = (asc ''/api/v2/devices/'') @ i @ (asc ''/heartbeat'')"

definition heartbeat_device ::
  "device_env \<Rightarrow> ustr \<Rightarrow> heartbeat_form \<Rightarrow> device_db \<Rightarrow> (device_error + device) \<times> device_db"
where
  "heartbeat_device env i f db =
     (case get_device db i of
        None \<Rightarrow> (Inl not_found, db)
      | Some d \<Rightarrow>
          if \<not> dv_enabled d \<or> dv_status d \<in> {[0x5DF2, 0x7981, 0x7528], [0x5DF2, 0x64A4, 0x9500]} then (Inl (Http 403 [0x8BBE, 0x5907, 0x5F53, 0x524D, 0x4E0D, 0x53EF, 0x7528]), db)
          else case first_credential db (dv_id d) of
            None \<Rightarrow> (Inl (Http 403 [0x8BBE, 0x5907, 0x7F3A, 0x5C11, 0x8BA4, 0x8BC1, 0x51ED, 0x636E]), db)
          | Some c \<Rightarrow>
              case verify_signature env (cr_fingerprint c) (dv_code d) (hf_nonce f) (hf_timestamp f)
                     (hf_signature f) (heartbeat_path (dv_id d)) of
                Some e \<Rightarrow> (Inl e, db)
              | None \<Rightarrow>
                  let r = remember_nonce env c (hf_nonce f) db
                  in case fst r of
                       Inl e \<Rightarrow> (Inl e, snd r)
                     | Inr _ \<Rightarrow>
                         let caps = (case hf_capabilities f of None \<Rightarrow> [] | Some cs \<Rightarrow> cs);
                             d1 = mark_online env (hf_ip f) (hf_version f)
                                    (Some (if caps = [] then dv_capabilities d else caps)) d
                         in (Inr d1, save_device d1 (snd r)))"

section \<open>Observation sessions\<close>

definition DEFAULT_MAC_ALLOWED_APPLICATIONS :: "ustr list" where
  "DEFAULT_MAC_ALLOWED_APPLICATIONS =
     [(asc ''VS Code''), (asc ''Chrome''), (asc ''Safari''), [0x7EAF, 0x6587, 0x672C, 0x6D4B, 0x8BD5, 0x7F16, 0x8F91, 0x5668], [0x5929, 0x7EDF, 0x20, 0x41, 0x49, 0x20, 0x6D4B, 0x8BD5, 0x9875, 0x9762], [0x9694, 0x79BB, 0x6F14, 0x793A, 0x5E94, 0x7528]]"

definition DEFAULT_MAC_ALLOWED_WINDOW_PATTERNS :: "ustr list" where
  "DEFAULT_MAC_ALLOWED_WINDOW_PATTERNS =
     [[0x2E, 0x2A, 0x6D4B, 0x8BD5, 0x2E, 0x2A], [0x2E, 0x2A, 0x9694, 0x79BB, 0x2E, 0x2A], [0x2E, 0x2A, 0x5929, 0x7EDF, 0x2E, 0x2A], (asc ''.*VS Code.*''), (asc ''.*Chrome.*''), (asc ''.*Safari.*'')]"

definition normalize_list :: "ustr list \<Rightarrow> ustr list" where
  "normalize_list values = filter (\<lambda>v. v \<noteq> []) (map strip values)"

definition or_list :: "'a list \<Rightarrow> 'a list \<Rightarrow> 'a list" where
  "or_list xs d = (if xs = [] then d else xs)"

definition create_observation_session :: "device_env \<Rightarrow> device \<Rightarrow> observation_form \<Rightarrow> observation" where
  "create_observation_session env d f =
     \<lparr>ob_id = dn_uuid env 0, ob_device = dv_id d, ob_session = of_session f, ob_task = of_task f,
      ob_employee = of_employee f, ob_skill = of_skill f, ob_status = [0x7B49, 0x5F85, 0x8BBE, 0x5907],
      ob_applications = or_list (normalize_list (of_applications f)) DEFAULT_MAC_ALLOWED_APPLICATIONS,
      ob_windows = or_list (normalize_list (of_window_patterns f)) DEFAULT_MAC_ALLOWED_WINDOW_PATTERNS,
      ob_goal = of_goal f, ob_count = 0, ob_max = (if of_max f = 0 then 3 else of_max f),
      ob_started = dn_now env,
      ob_expires = dn_now env + (if of_minutes f = 0 then 30 else of_minutes f) * 60000000,
      ob_finished = None, ob_stop = None, ob_trace = of_trace f\<rparr>"

definition append_observation_event ::
  "device_env \<Rightarrow> sanitized_window \<Rightarrow> ustr option \<Rightarrow> ustr \<Rightarrow> json list \<Rightarrow> json \<Rightarrow> ustr option \<Rightarrow> observation
     \<Rightarrow> observation_event \<times> observation"
where
  "append_observation_event env w reference state flags step trace ob =
     (let text = ob_id ob @ (asc '':'') @ int_text (ob_count ob) @ (asc '':'') @ sw_application w @ (asc '':'') @ sw_title w @
                 (asc '':'') @ state @ (asc '':'') @ opt_text reference
      in (\<lparr>oe_id = take 36 (dn_sha env text), oe_observation = ob_id ob, oe_sequence = ob_count ob + 1,
           oe_application = sw_application w, oe_bundle = sw_bundle w, oe_title = sw_title w,
           oe_reference = reference, oe_hash = dn_sha env (or_text reference text), oe_state = state,
           oe_flags = redact_sensitive (JArr flags), oe_step = step, oe_trace = trace\<rparr>,
          ob\<lparr>ob_count := ob_count ob + 1, ob_status := [0x6267, 0x884C, 0x4E2D]\<rparr>))"

text \<open>\<^verbatim>\<open>value or ""\<close> turned to text; \<^verbatim>\<open>list(value or [])\<close>, which only takes what can be iterated.\<close>

definition text_or_empty :: "json \<Rightarrow> ustr" where
  "text_or_empty v = (if truthy v then scalar_text v else [])"

definition list_or_empty :: "json \<Rightarrow> json list option" where
  "list_or_empty v =
     (if \<not> truthy v then Some []
      else case v of
        JArr xs \<Rightarrow> Some xs
      | JObj kvs \<Rightarrow> Some (map (\<lambda>kv. JStr (fst kv)) kvs)
      | JStr s \<Rightarrow> Some (map (\<lambda>c. JStr [c]) s)
      | _ \<Rightarrow> None)"

definition snapshot_of :: "nat \<Rightarrow> json \<Rightarrow> window_snapshot" where
  "snapshot_of index w =
     \<lparr>ws_application = text_or_empty (jget (asc ''application_name'') w),
      ws_bundle = text_or_empty (jget (asc ''bundle_id'') w), ws_title = text_or_empty (jget (asc ''window_title'') w),
      ws_width = jget (asc ''width'') w, ws_height = jget (asc ''height'') w,
      ws_front = (if jhas (asc ''frontmost'') w then truthy (jget (asc ''frontmost'') w) else index = 1),
      ws_capture = (if jhas (asc ''screenshot_allowed'') w then truthy (jget (asc ''screenshot_allowed'') w) else True),
      ws_metadata = (if truthy (jget (asc ''metadata'') w) then jget (asc ''metadata'') w else JObj [])\<rparr>"

text \<open>A reference that is no text fails when its hash is taken.\<close>

definition window_reference :: "device_env \<Rightarrow> nat \<Rightarrow> json \<Rightarrow> window_snapshot \<Rightarrow> sanitized_window \<Rightarrow> device_error + ustr option" where
  "window_reference env index w snapshot clean =
     (if sw_blocked clean \<or> \<not> ws_capture snapshot then Inr None
      else let given = jget (asc ''screenshot_reference'') w
           in if truthy given then (case given of JStr s \<Rightarrow> Inr (Some s) | _ \<Rightarrow> Inl PyAttributeError)
              else Inr (Some ((asc ''screenshot://'') @ take 24 (dn_hex env index))))"

definition observe_window ::
  "device_env \<Rightarrow> observation_form \<Rightarrow> nat \<Rightarrow> json \<Rightarrow> observation
     \<Rightarrow> device_error + (observation_event \<times> bool \<times> observation)"
where
  "observe_window env f index w ob =
     (let snapshot = snapshot_of index w; clean = sanitize_window snapshot
      in case list_or_empty (jget (asc ''risk_flags'') w) of
           None \<Rightarrow> Inl PyTypeError
         | Some flags \<Rightarrow>
             case window_reference env index w snapshot clean of
               Inl e \<Rightarrow> Inl e
             | Inr reference \<Rightarrow>
                 let given = jget (asc ''suggested_next_step'') w;
                     r = append_observation_event env clean reference
                           (or_text (of_state f) (if sw_blocked clean then [0x654F, 0x611F, 0x7A97, 0x53E3, 0x963B, 0x65AD] else [0x9875, 0x9762, 0x72B6, 0x6001, 0x6B63, 0x5E38]))
                           (flags @ (case sw_reason clean of None \<Rightarrow> [] | Some s \<Rightarrow> [JStr s]))
                           (if sw_blocked clean then JStr handover_step
                            else if truthy given then given else JStr continue_step)
                           (of_trace f) ob
                 in Inr (fst r, sw_blocked clean, snd r))"

fun observe_windows ::
  "device_env \<Rightarrow> observation_form \<Rightarrow> nat \<Rightarrow> json list \<Rightarrow> observation
     \<Rightarrow> device_error + (observation_event list \<times> bool \<times> observation)"
where
  "observe_windows env f index [] ob = Inr ([], False, ob)"
| "observe_windows env f index (w # ws) ob =
     (case observe_window env f index w ob of
        Inl e \<Rightarrow> Inl e
      | Inr (ev, blocked, ob1) \<Rightarrow>
          (case observe_windows env f (index + 1) ws ob1 of
             Inl e \<Rightarrow> Inl e
           | Inr (evs, later, ob2) \<Rightarrow> Inr (ev # evs, blocked \<or> later, ob2)))"

definition finish_observation :: "observation_event list \<Rightarrow> bool \<Rightarrow> observation \<Rightarrow> observation" where
  "finish_observation evs blocked ob =
     (if blocked then ob\<lparr>ob_status := [0x654F, 0x611F, 0x5185, 0x5BB9, 0x963B, 0x65AD], ob_stop := Some [0x68C0, 0x6D4B, 0x5230, 0x654F, 0x611F, 0x7A97, 0x53E3]\<rparr>
      else ob\<lparr>ob_status := (if evs \<noteq> [] then [0x6267, 0x884C, 0x4E2D] else [0x7B49, 0x5F85, 0x8BBE, 0x5907])\<rparr>)"

definition create_observation ::
  "device_env \<Rightarrow> ustr \<Rightarrow> observation_form \<Rightarrow> device_db
     \<Rightarrow> (device_error + (observation \<times> observation_event list)) \<times> device_db"
where
  "create_observation env i f db =
     (if \<not> dn_feature env then (Inl disabled_feature, db)
      else case get_device db i of
        None \<Rightarrow> (Inl not_found, db)
      | Some d \<Rightarrow>
          if dv_status d \<notin> {[0x5DF2, 0x6279, 0x51C6], [0x5728, 0x7EBF]} \<or> \<not> dv_enabled d
          then (Inl (Http 403 [0x8BBE, 0x5907, 0x5C1A, 0x672A, 0x6279, 0x51C6, 0x6216, 0x5DF2, 0x7981, 0x7528]), db)
          else case observe_windows env f 1 (of_windows f) (create_observation_session env d f) of
            Inl e \<Rightarrow> (Inl e, db)
          | Inr (evs, blocked, ob) \<Rightarrow>
              let ob1 = (if of_windows f \<noteq> [] then finish_observation evs blocked ob else ob)
              in if ob_id ob1 \<in> set (map ob_id (dc_observations db)) then (Inl DuplicateKey, db)
                 else (Inr (ob1, evs),
                  db\<lparr>dc_observations := row_add ob1 (dc_observations db), dc_events := dc_events db @ evs\<rparr>))"

definition cancel_observation ::
  "device_env \<Rightarrow> ustr \<Rightarrow> ustr option \<Rightarrow> device_db \<Rightarrow> (device_error + observation) \<times> device_db"
where
  "cancel_observation env i reason db =
     (case row_get ob_id i (dc_observations db) of
        None \<Rightarrow> (Inl (Http 404 [0x89C2, 0x5BDF, 0x4F1A, 0x8BDD, 0x4E0D, 0x5B58, 0x5728]), db)
      | Some ob \<Rightarrow>
          let ob1 = ob\<lparr>ob_status := [0x5DF2, 0x53D6, 0x6D88], ob_stop := Some (or_text reason [0x7528, 0x6237, 0x53D6, 0x6D88]),
                       ob_finished := Some (dn_now env)\<rparr>
          in (Inr ob1, db\<lparr>dc_observations := row_put ob_id ob1 (dc_observations db)\<rparr>))"

definition get_observation_events :: "ustr \<Rightarrow> device_db \<Rightarrow> device_error + observation_event list" where
  "get_observation_events i db =
     (case row_get ob_id i (dc_observations db) of
        None \<Rightarrow> Inl (Http 404 [0x89C2, 0x5BDF, 0x4F1A, 0x8BDD, 0x4E0D, 0x5B58, 0x5728])
      | Some _ \<Rightarrow> Inr (rows_by oe_sequence (\<lambda>e. oe_observation e = i) (dc_events db)))"

end
