(* ===== verification/Device_Machine.thy ===== *)
theory Device_Machine
  imports Device_Service
begin

text \<open>
  The device center as a machine: a call of any of its requests is an event. Proved of every
  sequence of calls: the registration tokens behave as one-time tickets of an abstract ledger
  (an interpretation of \<open>step_refinement\<close>), and an invariant of the tables holds (an interpretation
  of \<open>invariant_machine\<close>).
\<close>

section \<open>Calls\<close>

datatype device_call =
    NewToken ustr ustr "ustr list" int "int option"
  | Register register_form "int option"
  | Approve ustr "int option" "ustr option" "ustr option" "ustr option"
  | Disable ustr "int option" "ustr option"
  | Revoke ustr "int option" "ustr option"
  | Heartbeat ustr heartbeat_form
  | Observe ustr observation_form
  | CancelObservation ustr "ustr option"

fun device_step :: "device_db \<Rightarrow> device_env \<times> device_call \<Rightarrow> device_db" where
  "device_step db (env, NewToken t n cs m u) = snd (create_registration_token env t n cs m u db)"
| "device_step db (env, Register f u) = snd (register_device env f u db)"
| "device_step db (env, Approve i u t n r) = snd (approve_device env i u t n r db)"
| "device_step db (env, Disable i u r) = snd (disable_device env i u r db)"
| "device_step db (env, Revoke i u r) = snd (revoke_device env i u r db)"
| "device_step db (env, Heartbeat i f) = snd (heartbeat_device env i f db)"
| "device_step db (env, Observe i f) = snd (create_observation env i f db)"
| "device_step db (env, CancelObservation i r) = snd (cancel_observation env i r db)"

definition empty_devices :: "staff list \<Rightarrow> device_db" where
  "empty_devices staff = \<lparr>dc_devices = [], dc_tokens = [], dc_credentials = [], dc_observations = [],
     dc_events = [], dc_security = [], dc_staff = staff\<rparr>"

section \<open>Registration tokens as tickets\<close>

text \<open>
  The abstract ledger knows of a token only whether it can still be used and until when. Issuing
  adds an open ticket, spending closes it when it has not expired, nothing else touches it.
\<close>

datatype ticket = Open int | Closed

type_synonym ledger = "ustr \<Rightarrow> ticket option"

definition issue :: "ustr \<Rightarrow> int \<Rightarrow> ledger \<Rightarrow> ledger" where
  "issue h expires l = (if l h = None then l(h \<mapsto> Open expires) else l)"

definition spend :: "ustr \<Rightarrow> int \<Rightarrow> ledger \<Rightarrow> ledger" where
  "spend h now l =
     (case l h of Some (Open expires) \<Rightarrow> if now < expires then l(h \<mapsto> Closed) else l | _ \<Rightarrow> l)"

definition new_hash :: "device_env \<Rightarrow> ustr" where
  "new_hash env = dn_sha env (asc ''dtok_'' @ dn_hex env 0 @ asc ''_'' @ dn_hex env 1)"

fun ledger_step :: "ledger \<Rightarrow> device_env \<times> device_call \<Rightarrow> ledger" where
  "ledger_step l (env, NewToken t n cs m u) =
     (if dn_feature env
      then issue (new_hash env) (dn_now env + (if m = 0 then 30 else m) * 60000000) l else l)"
| "ledger_step l (env, Register f u) =
     (if dn_feature env then spend (dn_sha env (rf_token f)) (dn_now env) l else l)"
| "ledger_step l _ = l"

definition ticket_of :: "reg_token \<Rightarrow> ticket" where
  "ticket_of row = (if rt_revoked row = None \<and> rt_used row = None then Open (rt_expires row) else Closed)"

definition ledger_of :: "device_db \<Rightarrow> ledger" where
  "ledger_of db h = map_option ticket_of (row_get rt_hash h (dc_tokens db))"

lemma ledger_same: "dc_tokens db1 = dc_tokens db \<Longrightarrow> ledger_of db1 = ledger_of db"
  by (simp add: ledger_of_def fun_eq_iff)

lemma ledger_add: "ledger_of (db\<lparr>dc_tokens := row_add row (dc_tokens db)\<rparr>) h =
    (case ledger_of db h of None \<Rightarrow> if rt_hash row = h then Some (ticket_of row) else None | Some t \<Rightarrow> Some t)"
  by (simp add: ledger_of_def token_table.get_add split: option.splits)

lemma ledger_put: "ledger_of (db\<lparr>dc_tokens := row_put rt_hash row (dc_tokens db)\<rparr>) h =
    (if h = rt_hash row then map_option (\<lambda>_. ticket_of row) (ledger_of db h) else ledger_of db h)"
  by (simp add: ledger_of_def token_table.get_put split: option.splits)

text \<open>Consuming a token spends its ticket, and succeeds exactly on an open one.\<close>

lemma ledger_consume:
  "ledger_of (snd (consume_registration_token env token db)) = spend (dn_sha env token) (dn_now env) (ledger_of db)"
proof
  fix h
  show "ledger_of (snd (consume_registration_token env token db)) h =
        spend (dn_sha env token) (dn_now env) (ledger_of db) h"
  proof (cases "row_get rt_hash (dn_sha env token) (dc_tokens db)")
    case None
    then show ?thesis
      by (simp add: consume_registration_token_def spend_def ledger_of_def)
  next
    case (Some row)
    then have hash: "rt_hash row = dn_sha env token" by (rule token_table.get_key)
    define row1 where "row1 = row\<lparr>rt_used := Some (dn_now env)\<rparr>"
    have now: "ledger_of db (dn_sha env token) = Some (ticket_of row)"
      by (simp add: ledger_of_def Some)
    have after: "snd (consume_registration_token env token db) =
        (if token_open (dn_now env) row then db\<lparr>dc_tokens := row_put rt_hash row1 (dc_tokens db)\<rparr> else db)"
      by (auto simp: consume_registration_token_def Some token_open_def row1_def Let_def)
    have "rt_hash row1 = dn_sha env token" "ticket_of row1 = Closed"
      by (simp_all add: row1_def ticket_of_def hash)
    moreover have "token_open (dn_now env) row \<longleftrightarrow> ticket_of row = Open (rt_expires row) \<and> dn_now env < rt_expires row"
      by (auto simp: token_open_def ticket_of_def)
    ultimately show ?thesis
      by (cases "ticket_of row") (auto simp: after now spend_def ledger_put ticket_of_def split: if_splits)
  qed
qed

lemma consume_open:
  "fst (consume_registration_token env token db) = Inr row \<Longrightarrow>
   \<exists>e. ledger_of db (dn_sha env token) = Some (Open e) \<and> dn_now env < e"
  by (auto simp: consume_ok_iff token_open_def ledger_of_def ticket_of_def)

lemma register_tokens:
  "dn_feature env \<Longrightarrow>
   dc_tokens (snd (register_device env f u db)) = dc_tokens (snd (consume_registration_token env (rf_token f) db))"
  unfolding register_device_def Let_def by (auto split: sum.splits option.splits)

lemma other_tokens [simp]:
  "dc_tokens (snd (approve_device env i u t n r db)) = dc_tokens db"
  "dc_tokens (snd (disable_device env i u r db)) = dc_tokens db"
  "dc_tokens (snd (revoke_device env i u r db)) = dc_tokens db"
  "dc_tokens (snd (heartbeat_device env i hf db)) = dc_tokens db"
  "dc_tokens (snd (create_observation env i ff db)) = dc_tokens db"
  "dc_tokens (snd (cancel_observation env i r db)) = dc_tokens db"
  by (auto simp: approve_device_def disable_device_def revoke_device_def heartbeat_device_def
        create_observation_def cancel_observation_def remember_nonce_def save_device_def Let_def
        split: option.splits sum.splits prod.splits)

lemma ledger_step_refines: "ledger_of (device_step db (env, c)) = ledger_step (ledger_of db) (env, c)"
proof (cases c)
  case (NewToken t n cs m u)
  show ?thesis
  proof (cases "dn_feature env")
    case True
    define row where "row = fst (fst (create_registration_token_record env t
      (if n = [] then asc ''test'' else n) cs (if m = 0 then 30 else m) u db))"
    have "device_step db (env, c) = db\<lparr>dc_tokens := row_add row (dc_tokens db)\<rparr>"
      using True unfolding NewToken row_def
      by (simp add: create_registration_token_def create_registration_token_record_def Let_def)
    moreover have "rt_hash row = new_hash env"
      and "ticket_of row = Open (dn_now env + (if m = 0 then 30 else m) * 60000000)"
      by (simp_all add: row_def create_registration_token_record_def new_hash_def ticket_of_def Let_def)
    ultimately have "ledger_of (device_step db (env, c)) h = ledger_step (ledger_of db) (env, c) h" for h
      using True NewToken
      by (cases "ledger_of db (new_hash env)"; cases "h = new_hash env"; cases "ledger_of db h")
        (simp_all add: ledger_add issue_def del: device_step.simps)
    then show ?thesis by (rule ext)
  qed (simp add: NewToken create_registration_token_def)
next
  case (Register f u)
  show ?thesis
  proof (cases "dn_feature env")
    case True
    have "ledger_of (device_step db (env, c)) = ledger_of (snd (consume_registration_token env (rf_token f) db))"
      using register_tokens [OF True] Register by (intro ledger_same) simp
    with True Register show ?thesis by (simp add: ledger_consume)
  qed (simp add: Register register_device_def)
qed (simp_all add: other_tokens [THEN ledger_same])

interpretation token_ledger: step_refinement device_step ledger_step ledger_of
  by unfold_locales (metis ledger_step_refines surj_pair)

section \<open>The invariant of the tables\<close>

definition approval_logged :: "device_db \<Rightarrow> ustr \<Rightarrow> bool" where
  "approval_logged db i \<longleftrightarrow>
     (Some i, asc ''DEVICE_APPROVED'') \<in> set (map (\<lambda>e. (sv_device e, sv_code e)) (dc_security db))"

definition usable :: "device \<Rightarrow> bool" where
  "usable d \<longleftrightarrow> dv_enabled d \<or> dv_status d \<in> {[0x5DF2, 0x6279, 0x51C6], [0x5728, 0x7EBF]}"

definition events_of :: "device_db \<Rightarrow> ustr \<Rightarrow> observation_event list" where
  "events_of db i = filter (\<lambda>e. oe_observation e = i) (dc_events db)"

definition devices_ok :: "device_db \<Rightarrow> bool" where
  "devices_ok db \<longleftrightarrow>
     distinct (map dv_code (dc_devices db)) \<and> distinct (map dv_id (dc_devices db)) \<and>
     (\<forall>d \<in> set (dc_devices db). usable d \<longrightarrow> approval_logged db (dv_id d))"

definition observations_ok :: "device_db \<Rightarrow> bool" where
  "observations_ok db \<longleftrightarrow>
     distinct (map ob_id (dc_observations db)) \<and>
     (\<forall>e \<in> set (dc_events db). oe_observation e \<in> set (map ob_id (dc_observations db)) \<and>
                                \<not> sensitive_title (oe_title e)) \<and>
     (\<forall>ob \<in> set (dc_observations db). map oe_sequence (events_of db (ob_id ob)) = [1..ob_count ob])"

definition center_ok :: "device_db \<Rightarrow> bool" where
  "center_ok db \<longleftrightarrow> devices_ok db \<and> observations_ok db"

lemma distinct_row_put [simp]: "distinct (map key (row_put key r t)) = distinct (map key t)"
  by simp

lemma map_row_put_same:
  "row_get key (key r) t = Some old \<Longrightarrow> distinct (map key t) \<Longrightarrow> f r = f old \<Longrightarrow> map f (row_put key r t) = map f t"
  by (induction t) (auto simp: row_get_def row_put_def image_iff split: if_splits)

lemma approval_logged_event [simp]:
  "approval_logged (record_security_event env (Some j) ob c m r s t db) i \<longleftrightarrow>
     i = j \<and> c = asc ''DEVICE_APPROVED'' \<or> approval_logged db i"
  unfolding approval_logged_def security_event_codes by auto

lemma approval_logged_frame [simp]:
  "approval_logged (save_device d db) i = approval_logged db i"
  "approval_logged (db\<lparr>dc_credentials := cs\<rparr>) i = approval_logged db i"
  by (simp_all add: approval_logged_def save_device_def)

lemma save_device_simps [simp]:
  "dc_devices (save_device d db) = row_put dv_id d (dc_devices db)"
  "dc_credentials (save_device d db) = dc_credentials db" "dc_observations (save_device d db) = dc_observations db"
  "dc_events (save_device d db) = dc_events db" "dc_security (save_device d db) = dc_security db"
  by (simp_all add: save_device_def)

text \<open>A device is written back under its identity; when it is usable, its approval is on record.\<close>

lemma devices_ok_save:
  assumes ok: "devices_ok db" and d: "get_device db i = Some d"
    and same: "dv_id d1 = dv_id d" "dv_code d1 = dv_code d"
    and rows: "dc_devices db1 = row_put dv_id d1 (dc_devices db)"
    and log: "\<And>j. approval_logged db j \<Longrightarrow> approval_logged db1 j"
    and use: "usable d1 \<Longrightarrow> approval_logged db1 (dv_id d)"
  shows "devices_ok db1"
proof -
  from d have i: "dv_id d = i" "row_get dv_id (dv_id d1) (dc_devices db) = Some d"
    using device_table.get_key [of i "dc_devices db" d] same by (auto simp: get_device_def)
  have "map dv_code (dc_devices db1) = map dv_code (dc_devices db)"
    unfolding rows by (rule map_row_put_same [OF i(2)]) (use ok same in \<open>auto simp: devices_ok_def\<close>)
  moreover have "approval_logged db1 (dv_id x)" if "x \<in> set (dc_devices db1)" "usable x" for x
    using that in_row_put [of x dv_id d1 "dc_devices db"] ok log use same
    unfolding rows devices_ok_def by auto
  ultimately show ?thesis using ok unfolding devices_ok_def by (simp add: rows)
qed

lemma devices_ok_same:
  "devices_ok db \<Longrightarrow> dc_devices db1 = dc_devices db \<Longrightarrow> dc_security db1 = dc_security db \<Longrightarrow> devices_ok db1"
  by (simp add: devices_ok_def approval_logged_def)

lemma observations_ok_same:
  "observations_ok db \<Longrightarrow> dc_observations db1 = dc_observations db \<Longrightarrow> dc_events db1 = dc_events db
     \<Longrightarrow> observations_ok db1"
  by (simp add: observations_ok_def events_of_def)

subsection \<open>Devices\<close>

lemma approve_devices: "devices_ok db \<Longrightarrow> devices_ok (snd (approve_device env i u t n r db))"
proof (cases "get_device db i")
  case (Some d)
  assume "devices_ok db"
  with Some show ?thesis
    unfolding approve_device_def by (simp add: Let_def) (erule devices_ok_save, auto)
qed (simp add: approve_device_def)

lemma disable_devices: "devices_ok db \<Longrightarrow> devices_ok (snd (disable_device env i u r db))"
proof (cases "get_device db i")
  case (Some d)
  assume "devices_ok db"
  with Some show ?thesis
    unfolding disable_device_def
    by (simp add: Let_def) (erule devices_ok_save, auto simp: usable_def)
qed (simp add: disable_device_def)

lemma revoke_devices: "devices_ok db \<Longrightarrow> devices_ok (snd (revoke_device env i u r db))"
proof (cases "get_device db i")
  case (Some d)
  assume "devices_ok db"
  with Some show ?thesis
    unfolding revoke_device_def
    by (simp add: Let_def) (erule devices_ok_save, auto simp: usable_def)
qed (simp add: revoke_device_def)

lemma nonce_simps [simp]:
  "dc_devices (snd (remember_nonce env c n db)) = dc_devices db"
  "dc_observations (snd (remember_nonce env c n db)) = dc_observations db"
  "dc_events (snd (remember_nonce env c n db)) = dc_events db"
  "dc_security (snd (remember_nonce env c n db)) = dc_security db"
  by (simp_all add: remember_nonce_def)

text \<open>What a heartbeat commits: nothing, the nonce alone never, the nonce and the device.\<close>

lemma heartbeat_cases:
  obtains (refused) e where "heartbeat_device env i f db = (Inl e, db)"
  | (accepted) d c d1 where "get_device db i = Some d" "dv_enabled d" "dv_status d \<notin> {[0x5DF2, 0x7981, 0x7528], [0x5DF2, 0x64A4, 0x9500]}"
      "first_credential db (dv_id d) = Some c"
      "verify_signature env (cr_fingerprint c) (dv_code d) (hf_nonce f) (hf_timestamp f) (hf_signature f)
         (heartbeat_path (dv_id d)) = None"
      "fst (remember_nonce env c (hf_nonce f) db) = Inr ()"
      "d1 = mark_online env (hf_ip f) (hf_version f)
         (Some (if hf_capabilities f \<in> {None, Some []} then dv_capabilities d else the (hf_capabilities f))) d"
      "heartbeat_device env i f db = (Inr d1, save_device d1 (snd (remember_nonce env c (hf_nonce f) db)))"
proof (cases "get_device db i")
  case None
  then show ?thesis by (intro refused) (simp add: heartbeat_device_def)
next
  case d: (Some d)
  show ?thesis
  proof (cases "\<not> dv_enabled d \<or> dv_status d \<in> {[0x5DF2, 0x7981, 0x7528], [0x5DF2, 0x64A4, 0x9500]}")
    case True
    with d show ?thesis by (intro refused) (simp add: heartbeat_device_def)
  next
    case usable: False
    show ?thesis
    proof (cases "first_credential db (dv_id d)")
      case None
      with d usable show ?thesis by (intro refused) (simp add: heartbeat_device_def)
    next
      case c: (Some c)
      let ?v = "verify_signature env (cr_fingerprint c) (dv_code d) (hf_nonce f) (hf_timestamp f) (hf_signature f)
         (heartbeat_path (dv_id d))"
      show ?thesis
      proof (cases ?v)
        case (Some e)
        with d usable c show ?thesis by (intro refused) (simp add: heartbeat_device_def)
      next
        case v: None
        show ?thesis
        proof (cases "fst (remember_nonce env c (hf_nonce f) db)")
          case (Inl e)
          then have "snd (remember_nonce env c (hf_nonce f) db) = db"
            by (auto simp: remember_nonce_def split: if_splits)
          with d usable c v Inl show ?thesis by (intro refused) (simp add: heartbeat_device_def Let_def)
        next
          case (Inr x)
          have n: "fst (remember_nonce env c (hf_nonce f) db) = Inr ()" using Inr by simp
          show ?thesis
          proof (rule accepted [OF d _ _ c v n refl])
            show "heartbeat_device env i f db =
              (Inr (mark_online env (hf_ip f) (hf_version f)
                 (Some (if hf_capabilities f \<in> {None, Some []} then dv_capabilities d else the (hf_capabilities f))) d),
               save_device (mark_online env (hf_ip f) (hf_version f)
                 (Some (if hf_capabilities f \<in> {None, Some []} then dv_capabilities d else the (hf_capabilities f))) d)
                 (snd (remember_nonce env c (hf_nonce f) db)))"
              using d usable c v Inr
              by (cases "hf_capabilities f") (simp_all add: heartbeat_device_def Let_def)
          qed (use usable in auto)
        qed
      qed
    qed
  qed
qed

lemma mark_online_simps [simp]:
  "dv_id (mark_online env a v cs d) = dv_id d" "dv_code (mark_online env a v cs d) = dv_code d"
  "dv_enabled (mark_online env a v cs d) = dv_enabled d"
  by (simp_all add: mark_online_def)

lemma heartbeat_devices: "devices_ok db \<Longrightarrow> devices_ok (snd (heartbeat_device env i f db))"
proof (cases rule: heartbeat_cases [of env i f db])
  case (accepted d c d1)
  assume ok: "devices_ok db"
  from accepted(1) have in_db: "d \<in> set (dc_devices db)" "dv_id d = i"
    using device_table.get_key by (auto simp: get_device_def dest: row_get_in)
  with ok accepted(2) have "approval_logged db (dv_id d)"
    by (auto simp: devices_ok_def usable_def)
  with ok accepted(1,7,8) show ?thesis
    by (auto simp: approval_logged_def intro!: devices_ok_save [of db i d d1])
qed simp

text \<open>A registration is refused, or refused after its token is gone, or admitted.\<close>

lemma consume_refused: "fst (consume_registration_token env token db) = Inl e \<Longrightarrow>
    snd (consume_registration_token env token db) = db"
  by (auto simp: consume_registration_token_def Let_def split: option.splits if_splits)

lemma register_cases:
  obtains (refused) e where "register_device env f u db = (Inl e, db)"
      "\<not> dn_feature env \<or> fst (consume_registration_token env (rf_token f) db) = Inl e"
  | (burned) e token where "dn_feature env" "fst (consume_registration_token env (rf_token f) db) = Inr token"
      "register_device env f u db = (Inl e, snd (consume_registration_token env (rf_token f) db))"
  | (admitted) db1 token d c where "dn_feature env" "consume_registration_token env (rf_token f) db = (Inr token, db1)"
      "rt_type token = rf_type f"
      "verify_signature env (rf_certificate f) (rf_code f) (rf_nonce f) (rf_timestamp f) (rf_signature f)
         (asc ''/api/v2/devices/register'') = None"
      "rf_code f \<notin> set (map dv_code (dc_devices db1))" "dv_id d \<notin> set (map dv_id (dc_devices db1))"
      "d = new_device env f token u db1" "c = new_credential env f d"
      "register_device env f u db =
         (Inr (d, cr_fingerprint c), db1\<lparr>dc_devices := row_add d (dc_devices db1),
                                        dc_credentials := row_add c (dc_credentials db1)\<rparr>)"
proof (cases "dn_feature env")
  case False
  then show ?thesis by (intro refused) (auto simp: register_device_def)
next
  case feature: True
  obtain x db1 where r: "consume_registration_token env (rf_token f) db = (x, db1)" by (cases "consume_registration_token env (rf_token f) db")
  show ?thesis
  proof (cases x)
    case (Inl e)
    with consume_refused [of env "rf_token f" db e] r have "db1 = db" by simp
    with Inl feature r show ?thesis by (intro refused) (simp_all add: register_device_def)
  next
    case (Inr token)
    define d where "d = new_device env f token u db1"
    define c where "c = new_credential env f d"
    let ?v = "verify_signature env (rf_certificate f) (rf_code f) (rf_nonce f) (rf_timestamp f) (rf_signature f)
         (asc ''/api/v2/devices/register'')"
    let ?ok = "rt_type token = rf_type f \<and> ?v = None \<and> find (\<lambda>d. dv_code d = rf_code f) (dc_devices db1) = None \<and>
       dv_id d \<notin> set (map dv_id (dc_devices db1)) \<and> cr_id c \<notin> set (map cr_id (dc_credentials db1))"
    show ?thesis
    proof (cases ?ok)
      case True
      with feature r Inr show ?thesis
        by (intro admitted [OF feature _ _ _ _ _ d_def c_def])
          (auto simp: register_device_def d_def c_def find_None_iff Let_def)
    next
      case False
      have "\<exists>e. register_device env f u db = (Inl e, db1)"
        unfolding register_device_def using feature r Inr False
        by (cases ?v) (auto simp: Let_def d_def c_def)
      with feature r Inr show ?thesis by (auto intro: burned)
    qed
  qed
qed

lemma devices_ok_add:
  assumes "devices_ok db" "dv_code d \<notin> set (map dv_code (dc_devices db))"
    "dv_id d \<notin> set (map dv_id (dc_devices db))" "\<not> usable d"
  shows "devices_ok (db\<lparr>dc_devices := row_add d (dc_devices db), dc_credentials := cs\<rparr>)"
  using assms by (auto simp: devices_ok_def approval_logged_def row_add_def)

lemma new_device_waits: "\<not> usable (new_device env f token u db)" "dv_code (new_device env f token u db) = rf_code f"
  by (simp_all add: usable_def new_device_def)

lemma register_devices:
  assumes ok: "devices_ok db"
  shows "devices_ok (snd (register_device env f u db))"
proof -
  have ok1: "devices_ok (snd (consume_registration_token env (rf_token f) db))"
    using ok by (rule devices_ok_same) simp_all
  show ?thesis
  proof (cases rule: register_cases [of env f u db])
    case (admitted db1 token d c)
    from ok1 admitted(2) have "devices_ok db1" by simp
    with admitted show ?thesis by (simp add: devices_ok_add new_device_waits)
  qed (use ok ok1 in simp_all)
qed

subsection \<open>Observations\<close>

text \<open>What the walk over the windows produces, window by window.\<close>

lemma observe_window_result:
  assumes "observe_window env f index w ob = Inr (ev, blocked, ob1)"
  shows "oe_observation ev = ob_id ob" "oe_sequence ev = ob_count ob + 1"
    "oe_title ev = sw_title (sanitize_window (snapshot_of index w))"
    "blocked = window_is_sensitive (snapshot_of index w)"
    "blocked \<Longrightarrow> oe_reference ev = None"
    "ob1 = ob\<lparr>ob_count := ob_count ob + 1, ob_status := [0x6267, 0x884C, 0x4E2D]\<rparr>"
proof -
  have b: "sw_blocked (sanitize_window x) = window_is_sensitive x" for x
    by (simp add: sanitize_window_def Let_def)
  from assms show "oe_observation ev = ob_id ob" "oe_sequence ev = ob_count ob + 1"
    "oe_title ev = sw_title (sanitize_window (snapshot_of index w))"
    "blocked = window_is_sensitive (snapshot_of index w)"
    "ob1 = ob\<lparr>ob_count := ob_count ob + 1, ob_status := [0x6267, 0x884C, 0x4E2D]\<rparr>"
    unfolding observe_window_def append_observation_event_def Let_def
    by (auto simp: b split: option.splits sum.splits)
  from assms show "blocked \<Longrightarrow> oe_reference ev = None"
    unfolding observe_window_def append_observation_event_def window_reference_def Let_def
    by (auto simp: b split: option.splits sum.splits if_splits)
qed

definition snapshots :: "nat \<Rightarrow> json list \<Rightarrow> window_snapshot list" where
  "snapshots index ws = map (\<lambda>(i, w). snapshot_of i w) (zip [index..<index + length ws] ws)"

lemma snapshots_Nil [simp]: "snapshots index [] = []"
  by (simp add: snapshots_def)

lemma snapshots_Cons [simp]: "snapshots index (w # ws) = snapshot_of index w # snapshots (index + 1) ws"
  by (simp add: snapshots_def upt_conv_Cons del: upt_Suc)

lemma length_snapshots: "length (snapshots index ws) = length ws"
  by (simp add: snapshots_def)

lemma observe_windows_result:
  "observe_windows env f index ws ob = Inr (evs, blocked, ob1) \<Longrightarrow>
     list_all (\<lambda>e. oe_observation e = ob_id ob) evs \<and>
     map oe_sequence evs = [ob_count ob + 1..ob_count ob + int (length ws)] \<and>
     map oe_title evs = map (\<lambda>w. sw_title (sanitize_window w)) (snapshots index ws) \<and>
     list_all2 (\<lambda>w e. window_is_sensitive w \<longrightarrow> oe_reference e = None) (snapshots index ws) evs \<and>
     blocked = list_ex window_is_sensitive (snapshots index ws) \<and>
     ob1 = ob\<lparr>ob_count := ob_count ob + int (length ws), ob_status := (if ws = [] then ob_status ob else [0x6267, 0x884C, 0x4E2D])\<rparr>"
proof (induction ws arbitrary: index ob evs blocked ob1)
  case (Cons w ws)
  from Cons.prems obtain ev b ob2 evs' b' where
    one: "observe_window env f index w ob = Inr (ev, b, ob2)" and
    rest: "observe_windows env f (index + 1) ws ob2 = Inr (evs', b', ob1)" and
    eq: "evs = ev # evs'" "blocked = (b \<or> b')"
    by (auto split: sum.splits prod.splits)
  note r = observe_window_result [OF one]
  have c: "ob_count ob2 = ob_count ob + 1" "ob_id ob2 = ob_id ob" "ob_status ob2 = [0x6267, 0x884C, 0x4E2D]"
    using r(6) by simp_all
  have up: "[ob_count ob + 1..ob_count ob + int (length (w # ws))] =
      (ob_count ob + 1) # [ob_count ob + 1 + 1..ob_count ob + 1 + int (length ws)]"
    by (subst upto_rec1) (simp_all add: algebra_simps)
  from Cons.IH [OF rest] show ?case
    unfolding eq up c by (auto simp: r)
qed simp

text \<open>The rows an observation request adds, once the request is admitted.\<close>

lemma create_observation_result:
  assumes "create_observation env i f db = (Inr (ob, evs), db1)"
  obtains d where "get_device db i = Some d" "dn_feature env" "dv_status d \<in> {[0x5DF2, 0x6279, 0x51C6], [0x5728, 0x7EBF]}" "dv_enabled d"
    "ob_id ob \<notin> set (map ob_id (dc_observations db))" "ob_id ob = dn_uuid env 0" "ob_device ob = dv_id d"
    "ob_count ob = int (length (of_windows f))" "ob_max ob = (if of_max f = 0 then 3 else of_max f)"
    "list_all (\<lambda>e. oe_observation e = ob_id ob) evs"
    "map oe_sequence evs = [1..ob_count ob]"
    "map oe_title evs = map (\<lambda>w. sw_title (sanitize_window w)) (snapshots 1 (of_windows f))"
    "list_all2 (\<lambda>w e. window_is_sensitive w \<longrightarrow> oe_reference e = None) (snapshots 1 (of_windows f)) evs"
    "ob_status ob = (if of_windows f = [] then [0x7B49, 0x5F85, 0x8BBE, 0x5907]
       else if list_ex window_is_sensitive (snapshots 1 (of_windows f)) then [0x654F, 0x611F, 0x5185, 0x5BB9, 0x963B, 0x65AD] else [0x6267, 0x884C, 0x4E2D])"
    "db1 = db\<lparr>dc_observations := row_add ob (dc_observations db), dc_events := dc_events db @ evs\<rparr>"
proof -
  from assms obtain d where d: "get_device db i = Some d" "dn_feature env" "dv_status d \<in> {[0x5DF2, 0x6279, 0x51C6], [0x5728, 0x7EBF]}" "dv_enabled d"
    by (auto simp: create_observation_def split: if_splits option.splits)
  obtain x where x: "observe_windows env f 1 (of_windows f) (create_observation_session env d f) = x" by blast
  from assms d x obtain evs' blocked ob' where w: "x = Inr (evs', blocked, ob')"
    by (cases x) (auto simp: create_observation_def)
  let ?ob = "if of_windows f \<noteq> [] then finish_observation evs' blocked ob' else ob'"
  from assms d x w have r: "ob = ?ob" "evs = evs'" "ob_id ob \<notin> set (map ob_id (dc_observations db))"
    "db1 = db\<lparr>dc_observations := row_add ob (dc_observations db), dc_events := dc_events db @ evs\<rparr>"
    by (auto simp: create_observation_def Let_def split: if_splits)
  note res = observe_windows_result [OF x [unfolded w]]
  have keep: "ob_id ?ob = ob_id ob'" "ob_count ?ob = ob_count ob'" "ob_max ?ob = ob_max ob'"
    "ob_device ?ob = ob_device ob'"
    by (auto simp: finish_observation_def)
  have n: "length evs' = length (of_windows f)"
    using res by (metis length_map list_all2_lengthD snapshots_def length_zip length_upt min.idem diff_add_inverse)
  have st: "ob_status ob = (if of_windows f = [] then [0x7B49, 0x5F85, 0x8BBE, 0x5907]
       else if list_ex window_is_sensitive (snapshots 1 (of_windows f)) then [0x654F, 0x611F, 0x5185, 0x5BB9, 0x963B, 0x65AD] else [0x6267, 0x884C, 0x4E2D])"
    using res n unfolding r(1) by (auto simp: finish_observation_def create_observation_session_def)
  show thesis
    by (rule that [OF d r(3) _ _ _ _ _ _ _ _ st r(4)])
      (use res keep in \<open>auto simp: r create_observation_session_def\<close>)
qed

lemma observe_observations:
  assumes ok: "observations_ok db"
  shows "observations_ok (snd (create_observation env i f db))"
proof (cases "create_observation env i f db")
  case (Pair x db1)
  show ?thesis
  proof (cases x)
    case (Inl e)
    then show ?thesis using Pair ok
      by (auto simp: create_observation_def Let_def split: if_splits option.splits sum.splits prod.splits)
  next
    case (Inr y)
    obtain ob evs where y: "y = (ob, evs)" by (cases y)
    from Pair Inr y have c: "create_observation env i f db = (Inr (ob, evs), db1)" by simp
    show ?thesis
    proof (rule create_observation_result [OF c])
      fix d
      assume fresh: "ob_id ob \<notin> set (map ob_id (dc_observations db))"
        and mine: "list_all (\<lambda>e. oe_observation e = ob_id ob) evs"
        and seqs: "map oe_sequence evs = [1..ob_count ob]"
        and titles: "map oe_title evs = map (\<lambda>w. sw_title (sanitize_window w)) (snapshots 1 (of_windows f))"
        and db1: "db1 = db\<lparr>dc_observations := row_add ob (dc_observations db), dc_events := dc_events db @ evs\<rparr>"
      have none: "events_of db (ob_id ob) = []"
        using ok fresh unfolding events_of_def observations_ok_def filter_empty_conv by fastforce
      have others: "ob_id o' \<noteq> ob_id ob \<Longrightarrow> events_of db1 (ob_id o') = events_of db (ob_id o')" for o' :: observation
        using mine by (auto simp: events_of_def db1 list_all_iff filter_empty_conv)
      have own: "events_of db1 (ob_id ob) = evs"
        using mine none by (simp add: events_of_def db1 list_all_iff filter_id_conv)
      have clean: "\<not> sensitive_title (oe_title e)" if "e \<in> set evs" for e
      proof -
        from that have "oe_title e \<in> set (map oe_title evs)" by simp
        then show ?thesis unfolding titles by (auto simp: sanitized_title)
      qed
      have "observations_ok db1"
        unfolding observations_ok_def
      proof (intro conjI ballI)
        show "distinct (map ob_id (dc_observations db1))"
          using ok fresh by (auto simp: db1 row_add_def observations_ok_def)
      next
        fix e assume "e \<in> set (dc_events db1)"
        then show "oe_observation e \<in> set (map ob_id (dc_observations db1))" "\<not> sensitive_title (oe_title e)"
          using ok mine clean by (auto simp: db1 observations_ok_def list_all_iff)
      next
        fix o' assume o': "o' \<in> set (dc_observations db1)"
        show "map oe_sequence (events_of db1 (ob_id o')) = [1..ob_count o']"
        proof (cases "o' = ob")
          case True
          with own seqs show ?thesis by simp
        next
          case False
          with o' have m: "o' \<in> set (dc_observations db)" by (auto simp: db1)
          then have "ob_id o' \<in> set (map ob_id (dc_observations db))" by simp
          with fresh have "ob_id o' \<noteq> ob_id ob" by metis
          with m others ok show ?thesis by (auto simp: observations_ok_def)
        qed
      qed
      with Pair show ?thesis by simp
    qed
  qed
qed

lemma observe_devices: "devices_ok db \<Longrightarrow> devices_ok (snd (create_observation env i f db))"
  by (erule devices_ok_same)
    (auto simp: create_observation_def Let_def split: option.splits sum.splits prod.splits)

lemma cancel_observations:
  assumes ok: "observations_ok db"
  shows "observations_ok (snd (cancel_observation env i r db))"
proof (cases "row_get ob_id i (dc_observations db)")
  case None
  then show ?thesis using ok by (simp add: cancel_observation_def)
next
  case (Some ob)
  define ob1 where "ob1 = ob\<lparr>ob_status := [0x5DF2, 0x53D6, 0x6D88], ob_stop := Some (or_text r [0x7528, 0x6237, 0x53D6, 0x6D88]),
     ob_finished := Some (dn_now env)\<rparr>"
  have same: "ob_id ob1 = ob_id ob" "ob_count ob1 = ob_count ob" by (simp_all add: ob1_def)
  have db1: "snd (cancel_observation env i r db) = db\<lparr>dc_observations := row_put ob_id ob1 (dc_observations db)\<rparr>"
    by (simp add: cancel_observation_def Some ob1_def Let_def)
  from Some have "ob \<in> set (dc_observations db)" by (rule row_get_in)
  with ok same have "map oe_sequence (events_of db (ob_id ob1)) = [1..ob_count ob1]"
    by (simp add: observations_ok_def)
  moreover have "x = ob1 \<or> x \<in> set (dc_observations db)" if "x \<in> set (row_put ob_id ob1 (dc_observations db))" for x
    using in_row_put [OF that] by blast
  ultimately show ?thesis
    using ok unfolding db1 observations_ok_def events_of_def by (auto simp del: set_map simp: list.set_map)
qed

lemma cancel_devices: "devices_ok db \<Longrightarrow> devices_ok (snd (cancel_observation env i r db))"
  by (erule devices_ok_same) (auto simp: cancel_observation_def Let_def split: option.splits)

lemma token_keeps:
  "dc_devices (snd (create_registration_token env t n cs m u db)) = dc_devices db"
  "dc_security (snd (create_registration_token env t n cs m u db)) = dc_security db"
  "dc_observations (snd (create_registration_token env t n cs m u db)) = dc_observations db"
  "dc_events (snd (create_registration_token env t n cs m u db)) = dc_events db"
  by (simp_all add: create_registration_token_def create_registration_token_record_def Let_def)

lemma same_observations:
  "dc_observations (snd (register_device env f u db)) = dc_observations db \<and>
   dc_events (snd (register_device env f u db)) = dc_events db"
proof (cases rule: register_cases [of env f u db])
  case (admitted db1 token d c)
  have "dc_observations db1 = dc_observations db" "dc_events db1 = dc_events db"
    using consume_simps(3,4) [of env "rf_token f" db] admitted(2) by simp_all
  with admitted show ?thesis by simp
qed simp_all

lemma same_observations2 [simp]:
  "dc_observations (snd (approve_device env i u t n r db)) = dc_observations db"
  "dc_events (snd (approve_device env i u t n r db)) = dc_events db"
  "dc_observations (snd (disable_device env i u r db)) = dc_observations db"
  "dc_events (snd (disable_device env i u r db)) = dc_events db"
  "dc_observations (snd (revoke_device env i u r db)) = dc_observations db"
  "dc_events (snd (revoke_device env i u r db)) = dc_events db"
  by (auto simp: approve_device_def disable_device_def revoke_device_def Let_def split: option.splits)

lemma heartbeat_observations:
  "dc_observations (snd (heartbeat_device env i f db)) = dc_observations db \<and>
   dc_events (snd (heartbeat_device env i f db)) = dc_events db"
  by (cases rule: heartbeat_cases [of env i f db]) simp_all

lemma device_step_keeps: "center_ok db \<Longrightarrow> center_ok (device_step db (env, c))"
proof -
  assume ok: "center_ok db"
  then have d: "devices_ok db" and ob: "observations_ok db" by (simp_all add: center_ok_def)
  have "devices_ok (device_step db (env, c))"
    using d by (cases c)
      (auto intro: approve_devices disable_devices revoke_devices heartbeat_devices register_devices
         observe_devices cancel_devices devices_ok_same simp: token_keeps)
  moreover have "observations_ok (device_step db (env, c))"
    using ob by (cases c)
      (auto intro: observe_observations cancel_observations observations_ok_same
         simp: token_keeps same_observations heartbeat_observations)
  ultimately show ?thesis by (simp add: center_ok_def)
qed

interpretation device_center: invariant_machine device_step center_ok
  by unfold_locales (metis device_step_keeps surj_pair)

lemma empty_center_ok: "center_ok (empty_devices staff)"
  by (simp add: center_ok_def devices_ok_def observations_ok_def empty_devices_def)

end
