(* ===== verification/Device_Claims.thy ===== *)
theory Device_Claims
  imports Device_Machine
begin

text \<open>
  The properties of the device center. They rest on the case rules of \<open>Device_Machine\<close>
  (\<open>register_cases\<close>, \<open>heartbeat_cases\<close>, \<open>create_observation_result\<close>) and on its interpretations.
\<close>

section \<open>Registration\<close>

text \<open>
  C10: along any sequence of requests the registration tokens behave as the one-time tickets of the
  abstract ledger: issuing opens one, a registration request that names it before it expires closes it
  whatever else the request gets wrong, and nothing else touches it.
\<close>

theorem token_ledger_refined:
  "ledger_of (run_events device_step db es) = run_events ledger_step (ledger_of db) es"
  by (rule token_ledger.run_refines)

text \<open>How many registrations with tokens of a given hash succeed along a sequence of requests.\<close>

fun admits :: "ustr \<Rightarrow> device_db \<Rightarrow> device_env \<times> device_call \<Rightarrow> bool" where
  "admits h db (env, Register f u) = (dn_sha env (rf_token f) = h \<and> \<not> isl (fst (register_device env f u db)))"
| "admits h db _ = False"

fun admissions :: "ustr \<Rightarrow> device_db \<Rightarrow> (device_env \<times> device_call) list \<Rightarrow> nat" where
  "admissions h db [] = 0"
| "admissions h db (e # es) = (if admits h db e then 1 else 0) + admissions h (device_step db e) es"

lemma admits_closes:
  assumes "admits h db e"
  shows "ledger_of db h \<noteq> Some Closed" and "ledger_of (device_step db e) h = Some Closed"
proof -
  from assms obtain env f u where e: "e = (env, Register f u)" and h: "dn_sha env (rf_token f) = h"
    and ok: "\<not> isl (fst (register_device env f u db))"
    by (cases "(h, db, e)" rule: admits.cases) auto
  have "\<exists>x. ledger_of db h = Some (Open x) \<and> dn_now env < x \<and> dn_feature env"
  proof (cases rule: register_cases [of env f u db])
    case (admitted db1 token d c)
    with consume_open [of env "rf_token f" db token] h show ?thesis by simp
  qed (use ok in simp_all)
  then obtain x where x: "ledger_of db h = Some (Open x)" "dn_now env < x" "dn_feature env" by blast
  then show "ledger_of db h \<noteq> Some Closed" by simp
  have "ledger_of (device_step db e) = ledger_step (ledger_of db) e" by (rule token_ledger.step_refines)
  then show "ledger_of (device_step db e) h = Some Closed" using x h by (simp add: e spend_def)
qed

lemma closed_stays: "ledger_of db h = Some Closed \<Longrightarrow> ledger_of (device_step db e) h = Some Closed"
proof -
  assume "ledger_of db h = Some Closed"
  then have "ledger_step (ledger_of db) e h = Some Closed"
    by (cases "(ledger_of db, e)" rule: ledger_step.cases) (auto simp: issue_def spend_def split: option.splits ticket.splits)
  then show ?thesis by (simp add: token_ledger.step_refines)
qed

lemma closed_admits_none: "ledger_of db h = Some Closed \<Longrightarrow> admissions h db es = 0"
proof (induction es arbitrary: db)
  case (Cons e es)
  with admits_closes(1) [of h db e] closed_stays [of db h e] show ?case by auto
qed simp

text \<open>
  However often and by whomever a registration token is presented, at most one device is ever
  admitted with it.
\<close>

theorem token_admits_one_device: "admissions h db es \<le> 1"
proof (induction es arbitrary: db)
  case (Cons e es)
  show ?case
  proof (cases "admits h db e")
    case True
    with admits_closes(2) closed_admits_none show ?thesis by simp
  qed (use Cons in simp)
qed simp

text \<open>
  A registration that names an open token and fails afterwards (device type, signature or a code
  already taken) has still used the token: no device is added, and every later attempt with the same
  token, however correct, is refused as already used.
\<close>

theorem failed_registration_burns_token:
  assumes "dn_feature env" and "row_get rt_hash (dn_sha env (rf_token f)) (dc_tokens db) = Some row"
    and "token_open (dn_now env) row" and "isl (fst (register_device env f u db))"
  shows "dc_devices (snd (register_device env f u db)) = dc_devices db \<and>
    fst (register_device (env\<lparr>dn_now := later\<rparr>) (g\<lparr>rf_token := rf_token f\<rparr>) v (snd (register_device env f u db))) =
      Inl (Http 403 [0x6CE8, 0x518C, 0x4EE4, 0x724C, 0x5DF2, 0x4F7F, 0x7528])"
proof -
  let ?r = "consume_registration_token env (rf_token f) db"
  let ?db1 = "snd ?r"
  have ok: "fst ?r = Inr (row\<lparr>rt_used := Some (dn_now env)\<rparr>)"
    using assms(2,3) by (simp add: consume_ok_iff)
  have db1: "snd (register_device env f u db) = ?db1"
  proof (cases rule: register_cases [of env f u db])
    case (refused e)
    with assms(1) ok show ?thesis by simp
  next
    case (admitted x token d c)
    with assms(4) show ?thesis by simp
  qed simp
  have hash: "rt_hash row = dn_sha env (rf_token f)"
    using assms(2) by (rule token_table.get_key)
  have "row_get rt_hash (dn_sha env (rf_token f)) (dc_tokens ?db1) = Some (row\<lparr>rt_used := Some (dn_now env)\<rparr>)"
    using assms(2) hash by (simp add: consume_tokens ok token_table.get_put)
  then have "fst (consume_registration_token (env\<lparr>dn_now := later\<rparr>) (rf_token f) ?db1) =
      Inl (Http 403 [0x6CE8, 0x518C, 0x4EE4, 0x724C, 0x5DF2, 0x4F7F, 0x7528])"
    using assms(3) by (simp add: consume_registration_token_def token_open_def)
  then have "fst (register_device (env\<lparr>dn_now := later\<rparr>) (g\<lparr>rf_token := rf_token f\<rparr>) v ?db1) =
      Inl (Http 403 [0x6CE8, 0x518C, 0x4EE4, 0x724C, 0x5DF2, 0x4F7F, 0x7528])"
    using assms(1) by (simp add: register_device_def Let_def)
  then show ?thesis unfolding db1 by simp
qed

section \<open>The tables\<close>

text \<open>
  C11: after any sequence of requests on an empty database, device codes are unique, every device
  that is enabled, approved or online has an approval on record, and the events of every observation
  session are numbered 1, 2, ... up to its counter, with no sensitive title stored.
\<close>

theorem device_tables_invariant:
  "let db = run_events device_step (empty_devices staff) es
   in distinct (map dv_code (dc_devices db)) \<and>
      list_all (\<lambda>d. if usable d then approval_logged db (dv_id d) else True) (dc_devices db) \<and>
      list_all (\<lambda>ob. map oe_sequence (events_of db (ob_id ob)) = [1..ob_count ob]) (dc_observations db) \<and>
      list_all (\<lambda>e. \<not> sensitive_title (oe_title e)) (dc_events db)"
proof -
  have "center_ok (run_events device_step (empty_devices staff) es)"
    by (rule device_center.run_inv) (rule empty_center_ok)
  then show ?thesis
    by (simp add: center_ok_def devices_ok_def observations_ok_def list_all_iff Let_def)
qed

section \<open>Heartbeats\<close>

definition nonce_fresh :: "credential \<Rightarrow> ustr \<Rightarrow> bool" where
  "nonce_fresh c n \<longleftrightarrow> cr_nonce c \<noteq> Some n \<or> n = []"

lemma remember_ok: "(fst (remember_nonce env c n db) = Inr ()) = nonce_fresh c n"
  by (auto simp: remember_nonce_def nonce_fresh_def)

text \<open>
  A heartbeat is accepted exactly when the device exists, is enabled and neither disabled nor
  revoked, its first credential exists, the signature under that credential's fingerprint matches, and
  the nonce is not the one of the request before. The credential's own status and the timestamp of the
  message play no part.
\<close>

theorem heartbeat_accepted_iff:
  "(\<not> isl (fst (heartbeat_device env i f db))) =
   (case get_device db i of
      None \<Rightarrow> False
    | Some d \<Rightarrow>
        dv_enabled d \<and> dv_status d \<notin> {[0x5DF2, 0x7981, 0x7528], [0x5DF2, 0x64A4, 0x9500]} \<and>
        (case first_credential db (dv_id d) of
           None \<Rightarrow> False
         | Some c \<Rightarrow>
             list_all (\<lambda>x. x < 128) (hf_signature f) \<and>
             make_request_signature env (cr_fingerprint c) (dv_code d) (hf_nonce f) (hf_timestamp f)
               (heartbeat_path (dv_id d)) = hf_signature f \<and>
             nonce_fresh c (hf_nonce f)))"
proof -
  have ascii: "list_ex (\<lambda>x. 128 \<le> x) s \<longleftrightarrow> \<not> list_all (\<lambda>x. x < 128) s" for s :: ustr
    by (induction s) auto
  have n: "\<not> isl (fst (remember_nonce env c n db)) \<longleftrightarrow> nonce_fresh c n" for c n
    using remember_ok [of env c n db] by (cases "fst (remember_nonce env c n db)") auto
  show ?thesis
    unfolding heartbeat_device_def verify_signature_def
    by (auto simp: ascii n [symmetric] Let_def split: option.splits sum.splits)
qed

text \<open>The device and its first credential after an accepted heartbeat.\<close>

lemma find_row_put:
  "find P t = Some c \<Longrightarrow> key c1 = key c \<Longrightarrow> P c1 \<Longrightarrow> find P (row_put key c1 t) = Some c1"
  by (induction t) (auto simp: row_put_def split: if_splits)

lemma find_map_same: "(\<And>c. P (g c) = P c) \<Longrightarrow> find P (map g t) = map_option g (find P t)"
  by (induction t) auto

lemma accepted_heartbeat:
  assumes "\<not> isl (fst (heartbeat_device env i f db))"
  obtains d c d1 c1 where "get_device db i = Some d" "first_credential db i = Some c"
    "get_device (snd (heartbeat_device env i f db)) i = Some d1"
    "first_credential (snd (heartbeat_device env i f db)) i = Some c1"
    "dv_id d = i" "dv_id d1 = i" "dv_code d1 = dv_code d" "dv_enabled d1" "dv_status d1 = [0x5728, 0x7EBF]"
    "cr_fingerprint c1 = cr_fingerprint c" "cr_nonce c1 = Some (hf_nonce f)"
proof (cases rule: heartbeat_cases [of env i f db])
  case (refused e)
  with assms show ?thesis by simp
next
  case (accepted d c d1)
  define c1 where "c1 = c\<lparr>cr_nonce := Some (hf_nonce f), cr_request := Some (dn_now env)\<rparr>"
  from accepted(1) have i: "dv_id d = i" unfolding get_device_def by (rule device_table.get_key)
  from accepted(6) have creds: "dc_credentials (snd (remember_nonce env c (hf_nonce f) db)) =
      row_put cr_id c1 (dc_credentials db)"
    by (auto simp: remember_nonce_def c1_def split: if_splits)
  have "cr_device c = i" using accepted(4) i by (auto simp: first_credential_def find_Some_iff)
  then have "first_credential (snd (heartbeat_device env i f db)) i = Some c1"
    using accepted(4) i by (auto simp: first_credential_def accepted(8) creds c1_def intro!: find_row_put)
  moreover have "get_device (snd (heartbeat_device env i f db)) i = Some d1"
    using accepted(1,7) i by (simp add: get_device_def accepted(8) device_table.get_put)
  ultimately show ?thesis
    using that [of d c d1 c1] accepted i
    by (auto simp: c1_def mark_online_def)
qed

text \<open>
  Only the very last nonce is remembered. When a heartbeat and then another one with a different
  nonce have been accepted, the first message, sent again unchanged at any later time, is accepted
  once more; sent again at once it is refused.
\<close>

theorem older_heartbeat_can_be_replayed:
  assumes "\<not> isl (fst (heartbeat_device env i f db))"
    and "\<not> isl (fst (heartbeat_device env i g (snd (heartbeat_device env i f db))))"
    and "hf_nonce f \<noteq> hf_nonce g" and "hf_nonce f \<noteq> []"
  shows "\<not> isl (fst (heartbeat_device (env\<lparr>dn_now := later\<rparr>) i f
            (snd (heartbeat_device env i g (snd (heartbeat_device env i f db)))))) \<and>
    fst (heartbeat_device (env\<lparr>dn_now := later\<rparr>) i f (snd (heartbeat_device env i f db))) =
      Inl (Http 409 [0x8BF7, 0x6C42, 0x91CD, 0x653E, 0x88AB, 0x62D2, 0x7EDD])"
proof -
  let ?db1 = "snd (heartbeat_device env i f db)"
  let ?db2 = "snd (heartbeat_device env i g ?db1)"
  have alive: "[0x5728, 0x7EBF] \<notin> {[0x5DF2, 0x7981, 0x7528], [0x5DF2, 0x64A4, 0x9500]}" by simp
  obtain d c d1 c1 where 1: "get_device db i = Some d" "first_credential db i = Some c" "get_device ?db1 i = Some d1"
    "first_credential ?db1 i = Some c1" "dv_id d = i" "dv_id d1 = i" "dv_code d1 = dv_code d" "dv_enabled d1"
    "dv_status d1 = [0x5728, 0x7EBF]" "cr_fingerprint c1 = cr_fingerprint c" "cr_nonce c1 = Some (hf_nonce f)"
    using assms(1) by (rule accepted_heartbeat)
  obtain d2 c2 where 2: "get_device ?db2 i = Some d2" "first_credential ?db2 i = Some c2" "dv_id d2 = i"
    "dv_code d2 = dv_code d" "dv_enabled d2" "dv_status d2 = [0x5728, 0x7EBF]"
    "cr_fingerprint c2 = cr_fingerprint c" "cr_nonce c2 = Some (hf_nonce g)"
    using assms(2) by (rule accepted_heartbeat) (use 1 in auto)
  have sig: "list_all (\<lambda>x. x < 128) (hf_signature f)"
    "make_request_signature env (cr_fingerprint c) (dv_code d) (hf_nonce f) (hf_timestamp f)
       (heartbeat_path i) = hf_signature f"
    using assms(1) 1(1,2,5) unfolding heartbeat_accepted_iff by simp_all
  have sig_later: "make_request_signature (env\<lparr>dn_now := later\<rparr>) m co n t p = make_request_signature env m co n t p"
    for m co n t p by (simp add: make_request_signature_def)
  have "\<not> isl (fst (heartbeat_device (env\<lparr>dn_now := later\<rparr>) i f ?db2))"
    unfolding heartbeat_accepted_iff
    using 2 sig assms(3) by (simp add: nonce_fresh_def sig_later)
  moreover have "fst (heartbeat_device (env\<lparr>dn_now := later\<rparr>) i f ?db1) = Inl (Http 409 [0x8BF7, 0x6C42, 0x91CD, 0x653E, 0x88AB, 0x62D2, 0x7EDD])"
    using 1 sig assms(4) unfolding heartbeat_device_def [of "env\<lparr>dn_now := later\<rparr>"] verify_signature_def remember_nonce_def
    by (simp add: sig_later list_ex_iff list_all_iff not_le)
  ultimately show ?thesis by blast
qed

text \<open>
  Revocation is not final. A revoked device is refused, and all its credentials are marked revoked;
  one approval call later a heartbeat signed under that same revoked credential is accepted and the
  device is online.
\<close>

theorem revoked_device_returns:
  assumes "get_device db i = Some d" and "first_credential db i = Some c"
    and "list_all (\<lambda>x. x < 128) (hf_signature f)"
    and "make_request_signature env (cr_fingerprint c) (dv_code d) (hf_nonce f) (hf_timestamp f)
           (heartbeat_path i) = hf_signature f"
    and "nonce_fresh c (hf_nonce f)"
  shows "let revoked = snd (revoke_device env i u reason db);
             back = snd (approve_device env i v trust environment reason2 revoked)
         in fst (heartbeat_device env i f revoked) = Inl (Http 403 [0x8BBE, 0x5907, 0x5F53, 0x524D, 0x4E0D, 0x53EF, 0x7528]) \<and>
            map_option cr_status (first_credential back i) = Some [0x5DF2, 0x64A4, 0x9500] \<and>
            (case fst (heartbeat_device env i f back) of
               Inl _ \<Rightarrow> False | Inr d1 \<Rightarrow> dv_id d1 = i \<and> dv_enabled d1 \<and> dv_status d1 = [0x5728, 0x7EBF])"
proof -
  define db1 where "db1 = snd (revoke_device env i u reason db)"
  define db2 where "db2 = snd (approve_device env i v trust environment reason2 db1)"
  define g :: "credential \<Rightarrow> credential" where "g = (\<lambda>c. if cr_device c = i then c\<lparr>cr_status := [0x5DF2, 0x64A4, 0x9500], cr_revoked := Some (dn_now env)\<rparr> else c)"
  have i: "dv_id d = i" using assms(1) unfolding get_device_def by (rule device_table.get_key)
  have ci: "cr_device c = i" using assms(2) by (auto simp: first_credential_def find_Some_iff)
  obtain d1 where d1: "get_device db1 i = Some d1" "dv_id d1 = i" "dv_code d1 = dv_code d" "\<not> dv_enabled d1"
    using assms(1) i by (simp add: db1_def revoke_device_def Let_def get_device_def device_table.get_put)
  have cs1: "dc_credentials db1 = map g (dc_credentials db)"
    using assms(1) i by (simp add: db1_def revoke_device_def Let_def g_def)
  obtain d2 where d2: "get_device db2 i = Some d2" "dv_id d2 = i" "dv_code d2 = dv_code d" "dv_enabled d2"
    "dv_status d2 = [0x5DF2, 0x6279, 0x51C6]"
    using d1 by (simp add: db2_def approve_device_def Let_def get_device_def device_table.get_put)
  have cs2: "dc_credentials db2 = map g (dc_credentials db)"
    using d1 by (simp add: db2_def approve_device_def Let_def cs1)
  have keeps: "cr_device (g x) = cr_device x" for x by (simp add: g_def)
  have "first_credential db2 i = map_option g (first_credential db i)"
    by (simp add: first_credential_def cs2 find_map_same keeps)
  then have c2: "first_credential db2 i = Some (g c)" using assms(2) by simp
  have gc: "cr_status (g c) = [0x5DF2, 0x64A4, 0x9500]" "cr_fingerprint (g c) = cr_fingerprint c" "cr_nonce (g c) = cr_nonce c"
    using ci by (simp_all add: g_def)
  have "fst (heartbeat_device env i f db1) = Inl (Http 403 [0x8BBE, 0x5907, 0x5F53, 0x524D, 0x4E0D, 0x53EF, 0x7528])"
    using d1 by (simp add: heartbeat_device_def)
  moreover have "\<not> isl (fst (heartbeat_device env i f db2))"
    unfolding heartbeat_accepted_iff using d2 c2 gc assms(3-5) by (simp add: nonce_fresh_def)
  then have "case fst (heartbeat_device env i f db2) of
      Inl _ \<Rightarrow> False | Inr d1 \<Rightarrow> dv_id d1 = i \<and> dv_enabled d1 \<and> dv_status d1 = [0x5728, 0x7EBF]"
  proof (cases rule: heartbeat_cases [of env i f db2])
    case (accepted x y d3)
    with d2 show ?thesis by (simp add: mark_online_def)
  qed simp
  ultimately show ?thesis
    unfolding db1_def [symmetric] db2_def [symmetric] Let_def using c2 gc by simp
qed

section \<open>Observations\<close>

text \<open>
  C28: an accepted observation stores one event for every window sent, however few screenshots were
  asked for: the title of a sensitive window is replaced by the mask, every other title is stored as
  sent, a sensitive window has no screenshot reference, and the session is blocked exactly when some
  window is sensitive.
\<close>

theorem sensitive_windows_are_redacted:
  assumes "create_observation env i f db = (Inr (ob, evs), db1)"
  shows "map oe_title evs = map (\<lambda>w. if window_is_sensitive w then TITLE_MASK else ws_title w) (snapshots 1 (of_windows f)) \<and>
    list_all2 (\<lambda>w e. window_is_sensitive w \<longrightarrow> oe_reference e = None) (snapshots 1 (of_windows f)) evs \<and>
    (ob_status ob = [0x654F, 0x611F, 0x5185, 0x5BB9, 0x963B, 0x65AD] \<longleftrightarrow> list_ex window_is_sensitive (snapshots 1 (of_windows f))) \<and>
    ob_count ob = int (length (of_windows f)) \<and> length evs = length (of_windows f) \<and>
    events_of db1 (ob_id ob) = events_of db (ob_id ob) @ evs"
proof (rule create_observation_result [OF assms])
  fix d
  assume mine: "list_all (\<lambda>e. oe_observation e = ob_id ob) evs"
    and count: "ob_count ob = int (length (of_windows f))"
    and titles: "map oe_title evs = map (\<lambda>w. sw_title (sanitize_window w)) (snapshots 1 (of_windows f))"
    and refs: "list_all2 (\<lambda>w e. window_is_sensitive w \<longrightarrow> oe_reference e = None) (snapshots 1 (of_windows f)) evs"
    and st: "ob_status ob = (if of_windows f = [] then [0x7B49, 0x5F85, 0x8BBE, 0x5907]
       else if list_ex window_is_sensitive (snapshots 1 (of_windows f)) then [0x654F, 0x611F, 0x5185, 0x5BB9, 0x963B, 0x65AD] else [0x6267, 0x884C, 0x4E2D])"
    and db1: "db1 = db\<lparr>dc_observations := row_add ob (dc_observations db), dc_events := dc_events db @ evs\<rparr>"
  have mask: "sw_title (sanitize_window w) = (if window_is_sensitive w then TITLE_MASK else ws_title w)" for w
    by (simp add: sanitize_window_def Let_def)
  have "length evs = length (of_windows f)"
    using titles by (metis length_map length_snapshots)
  moreover have "filter (\<lambda>e. oe_observation e = ob_id ob) evs = evs"
    using mine by (simp add: filter_id_conv list_all_iff)
  moreover have "\<not> list_ex window_is_sensitive (snapshots 1 (of_windows f))" if "of_windows f = []"
    using that by simp
  ultimately show ?thesis
    using titles refs st count by (auto simp: mask db1 events_of_def)
qed

section \<open>Witnesses\<close>

text \<open>
  A concrete device center: hashes and signatures are printed material, one token for the device
  type \<^verbatim>\<open>mac\<close>, one approved device with its credential.
\<close>

definition demo_env :: device_env where
  "demo_env = \<lparr>dn_now = 100, dn_iso = (\<lambda>t. int_text t), dn_sha = (\<lambda>t. t), dn_hmac = (\<lambda>k m. m),
     dn_uuid = (\<lambda>n. [900 + int n]), dn_hex = (\<lambda>n. [800 + int n]), dn_feature = True\<rparr>"

definition demo_device :: device where
  "demo_device = \<lparr>dv_id = [1], dv_code = (asc ''m1''), dv_name = [], dv_type = (asc ''mac''), dv_os = [], dv_arch = [],
     dv_version = [], dv_status = [0x5DF2, 0x6279, 0x51C6], dv_trust = [], dv_environment = [], dv_owner = None,
     dv_registered_by = None, dv_approved_by = None, dv_seen = None, dv_ip = None, dv_certificate = [],
     dv_capabilities = [], dv_enabled = True, dv_revoked = None, dv_approved = None\<rparr>"

definition demo_token :: reg_token where
  "demo_token = \<lparr>rt_id = [2], rt_hash = (asc ''tok''), rt_type = (asc ''mac''), rt_environment = [], rt_capabilities = [],
     rt_expires = 500, rt_used = None, rt_revoked = None, rt_creator = None\<rparr>"

definition demo_credential :: credential where
  "demo_credential = \<lparr>cr_id = [3], cr_device = [1], cr_type = [], cr_fingerprint = [], cr_status = [],
     cr_public = [], cr_nonce = None, cr_request = None, cr_revoked = None\<rparr>"

definition demo_center :: device_db where
  "demo_center = (empty_devices [])\<lparr>dc_devices := [demo_device], dc_tokens := [demo_token],
     dc_credentials := [demo_credential]\<rparr>"

definition demo_form :: register_form where
  "demo_form = \<lparr>rf_token = (asc ''tok''), rf_code = (asc ''m2''), rf_name = [], rf_type = (asc ''linux''), rf_os = [], rf_arch = [],
     rf_version = [], rf_trust = [], rf_environment = [], rf_owner = None, rf_certificate = [], rf_public = None,
     rf_nonce = [], rf_timestamp = [], rf_signature = [], rf_capabilities = []\<rparr>"

definition demo_beat :: "ustr \<Rightarrow> heartbeat_form" where
  "demo_beat n = \<lparr>hf_nonce = n, hf_timestamp = [],
     hf_signature = make_request_signature demo_env [] (asc ''m1'') n [] (heartbeat_path [1]),
     hf_ip = None, hf_version = None, hf_capabilities = None\<rparr>"

definition demo_look :: observation_form where
  "demo_look = \<lparr>of_task = None, of_employee = None, of_skill = None, of_session = None, of_goal = None,
     of_applications = [], of_window_patterns = [], of_max = 1, of_minutes = 5, of_trace = None,
     of_windows = [JObj [((asc ''window_title''), JStr (asc ''My Password''))], JObj [((asc ''window_title''), JStr (asc ''News''))]],
     of_state = None\<rparr>"

lemma demo_token_open: "row_get rt_hash (dn_sha demo_env (rf_token demo_form)) (dc_tokens demo_center) = Some demo_token"
  "token_open (dn_now demo_env) demo_token"
  by (simp_all add: demo_env_def demo_form_def demo_center_def demo_token_def row_get_def token_open_def)

lemma demo_register_fails: "isl (fst (register_device demo_env demo_form None demo_center))"
  by (simp add: register_device_def consume_registration_token_def demo_env_def demo_form_def demo_center_def
      demo_token_def row_get_def Let_def)

lemma failed_registration_burns_token_witness:
  "dc_devices (snd (register_device demo_env demo_form None demo_center)) = dc_devices demo_center \<and>
   fst (register_device (demo_env\<lparr>dn_now := 200\<rparr>) (demo_form\<lparr>rf_type := (asc ''mac''), rf_token := rf_token demo_form\<rparr>) None
      (snd (register_device demo_env demo_form None demo_center))) = Inl (Http 403 [0x6CE8, 0x518C, 0x4EE4, 0x724C, 0x5DF2, 0x4F7F, 0x7528])"
  by (rule failed_registration_burns_token [OF _ demo_token_open demo_register_fails]) (simp add: demo_env_def)

lemma demo_rows: "get_device demo_center [1] = Some demo_device" "first_credential demo_center [1] = Some demo_credential"
  by (simp_all add: demo_center_def demo_device_def demo_credential_def get_device_def row_get_def first_credential_def)

lemma demo_beat_signed:
  "list_all (\<lambda>x. x < 128) (hf_signature (demo_beat (asc ''a'')))" "list_all (\<lambda>x. x < 128) (hf_signature (demo_beat (asc ''b'')))"
  by code_simp+

lemma demo_beat_simps:
  "hf_nonce (demo_beat n) = n" "hf_timestamp (demo_beat n) = []"
  "hf_signature (demo_beat n) = make_request_signature demo_env [] (asc ''m1'') n [] (heartbeat_path [1])"
  "cr_fingerprint demo_credential = []" "dv_code demo_device = (asc ''m1'')" "cr_nonce demo_credential = None"
  "dv_id demo_device = [1]" "dv_enabled demo_device" "dv_status demo_device = [0x5DF2, 0x6279, 0x51C6]"
  by (simp_all add: demo_beat_def demo_credential_def demo_device_def)

lemma demo_first_beat: "\<not> isl (fst (heartbeat_device demo_env [1] (demo_beat (asc ''a'')) demo_center))"
  unfolding heartbeat_accepted_iff
  using demo_beat_signed by (simp add: demo_rows demo_beat_simps nonce_fresh_def)

lemma demo_second_beat:
  "\<not> isl (fst (heartbeat_device demo_env [1] (demo_beat (asc ''b''))
      (snd (heartbeat_device demo_env [1] (demo_beat (asc ''a'')) demo_center))))"
  using demo_first_beat
proof (rule accepted_heartbeat)
  let ?db1 = "snd (heartbeat_device demo_env [1] (demo_beat (asc ''a'')) demo_center)"
  fix d c d1 c1
  assume "get_device demo_center [1] = Some d" "first_credential demo_center [1] = Some c"
    "get_device ?db1 [1] = Some d1" "first_credential ?db1 [1] = Some c1" "dv_id d1 = [1]" "dv_code d1 = dv_code d"
    "dv_enabled d1" "dv_status d1 = [0x5728, 0x7EBF]" "cr_fingerprint c1 = cr_fingerprint c"
    "cr_nonce c1 = Some (hf_nonce (demo_beat (asc ''a'')))"
  then show ?thesis
    unfolding heartbeat_accepted_iff
    using demo_beat_signed by (simp add: demo_rows demo_beat_simps nonce_fresh_def)
qed

lemma older_heartbeat_can_be_replayed_witness:
  "\<not> isl (fst (heartbeat_device (demo_env\<lparr>dn_now := 999\<rparr>) [1] (demo_beat (asc ''a''))
      (snd (heartbeat_device demo_env [1] (demo_beat (asc ''b''))
         (snd (heartbeat_device demo_env [1] (demo_beat (asc ''a'')) demo_center))))))"
  using older_heartbeat_can_be_replayed [OF demo_first_beat demo_second_beat]
  by (simp add: demo_beat_simps)

lemma revoked_device_returns_witness:
  "let revoked = snd (revoke_device demo_env [1] None None demo_center);
       back = snd (approve_device demo_env [1] None None None None revoked)
   in fst (heartbeat_device demo_env [1] (demo_beat (asc ''a'')) revoked) = Inl (Http 403 [0x8BBE, 0x5907, 0x5F53, 0x524D, 0x4E0D, 0x53EF, 0x7528]) \<and>
      map_option cr_status (first_credential back [1]) = Some [0x5DF2, 0x64A4, 0x9500] \<and>
      (case fst (heartbeat_device demo_env [1] (demo_beat (asc ''a'')) back) of
         Inl _ \<Rightarrow> False | Inr d1 \<Rightarrow> dv_id d1 = [1] \<and> dv_enabled d1 \<and> dv_status d1 = [0x5728, 0x7EBF])"
  by (rule revoked_device_returns [OF demo_rows demo_beat_signed(1)])
    (simp_all add: demo_beat_simps nonce_fresh_def)

lemma observe_plain_window:
  "jget (asc ''risk_flags'') w = JNull \<Longrightarrow> jget (asc ''screenshot_reference'') w = JNull \<Longrightarrow>
     \<exists>x. observe_window env f index w ob = Inr x"
  unfolding observe_window_def window_reference_def list_or_empty_def Let_def
  by (simp del: split_paired_Ex)

lemma observe_plain_windows:
  "list_all (\<lambda>w. jget (asc ''risk_flags'') w = JNull \<and> jget (asc ''screenshot_reference'') w = JNull) ws \<Longrightarrow>
     \<exists>x. observe_windows env f index ws ob = Inr x"
proof (induction ws arbitrary: index ob)
  case (Cons w ws)
  then obtain ev b ob1 where one: "observe_window env f index w ob = Inr (ev, b, ob1)"
    using observe_plain_window [of w env f index ob] by auto
  have "\<exists>x. observe_windows env f (index + 1) ws ob1 = Inr x"
    by (rule Cons.IH) (use Cons.prems in simp)
  then obtain x where "observe_windows env f (index + 1) ws ob1 = Inr x" by blast
  with one show ?case by (cases x) auto
qed (simp del: split_paired_Ex)

lemma demo_look_simps:
  "of_windows demo_look = [JObj [((asc ''window_title''), JStr (asc ''My Password''))], JObj [((asc ''window_title''), JStr (asc ''News''))]]"
  "dn_feature demo_env" "dc_observations demo_center = []"
  by (simp_all add: demo_look_def demo_env_def demo_center_def empty_devices_def)

lemma demo_observation: "\<exists>ob evs db1. create_observation demo_env [1] demo_look demo_center = (Inr (ob, evs), db1)"
proof -
  obtain evs blocked ob where
    "observe_windows demo_env demo_look 1 (of_windows demo_look)
       (create_observation_session demo_env demo_device demo_look) = Inr (evs, blocked, ob)"
    using observe_plain_windows [of "of_windows demo_look" demo_env demo_look 1
      "create_observation_session demo_env demo_device demo_look"]
    by (auto simp: demo_look_simps)
  then show ?thesis
    unfolding create_observation_def by (simp add: demo_rows demo_beat_simps demo_look_simps Let_def)
qed

lemma demo_snapshots:
  "list_ex window_is_sensitive (snapshots 1 (of_windows demo_look))"
  "map (\<lambda>w. if window_is_sensitive w then TITLE_MASK else ws_title w) (snapshots 1 (of_windows demo_look)) =
     [TITLE_MASK, (asc ''News'')]"
  by code_simp+

lemma sensitive_windows_are_redacted_witness:
  "\<exists>ob evs db1. create_observation demo_env [1] demo_look demo_center = (Inr (ob, evs), db1) \<and>
     map oe_title evs = [TITLE_MASK, (asc ''News'')] \<and> ob_status ob = [0x654F, 0x611F, 0x5185, 0x5BB9, 0x963B, 0x65AD] \<and> ob_count ob = 2"
proof -
  from demo_observation obtain ob evs db1
    where "create_observation demo_env [1] demo_look demo_center = (Inr (ob, evs), db1)" by blast
  with sensitive_windows_are_redacted [OF this] demo_snapshots show ?thesis
    by (intro exI [of _ ob] exI [of _ evs] exI [of _ db1]) (simp add: demo_look_simps)
qed

end
