(* ===== verification/Py_Float.thy ===== *)
theory Py_Float
  imports Main
begin

text \<open>
  Python's true division and \<^verbatim>\<open>round\<close> on the values the source divides: a non-negative float is a
  mantissa and a scale, \<open>(m, k)\<close> for \<open>m / 2 ^ k\<close>, with 53 bits of precision below \<open>2 ^ 53\<close> and at
  least down to \<open>2 ^ -1074\<close>. Every operation computes the exact result and rounds it to the nearest
  float, ties to even, as IEEE 754 requires. From \<open>2 ^ 53\<close> on a value is kept to the integer.
\<close>

type_synonym float64 = "int \<times> nat"

text \<open>The nearest integer of \<open>n / d\<close>, ties to even.\<close>

definition round_div :: "int \<Rightarrow> int \<Rightarrow> int" where
  "round_div n d =
     (let q = n div d; r = n mod d
      in if 2 * r < d then q else if 2 * r > d then q + 1 else if even q then q else q + 1)"

text \<open>The scale at which \<open>n / d\<close> has 53 bits.\<close>

function scale_from :: "nat \<Rightarrow> int \<Rightarrow> int \<Rightarrow> nat" where
  "scale_from k n d = (if 1074 \<le> k \<or> 2 ^ 52 * d \<le> n * 2 ^ k then k else scale_from (k + 1) n d)"
  by pat_completeness auto
termination
  by (relation "measure (\<lambda>(k, n, d). 1074 - k)") auto

declare scale_from.simps [simp del]

definition nearest :: "int \<Rightarrow> int \<Rightarrow> float64" where
  "nearest n d = (let k = scale_from 0 n d in (round_div (n * 2 ^ k) d, k))"

definition true_div :: "int \<Rightarrow> int \<Rightarrow> float64" where
  "true_div a b = nearest a b"

definition times_int :: "float64 \<Rightarrow> int \<Rightarrow> float64" where
  "times_int x c = nearest (fst x * c) (2 ^ snd x)"

definition py_round :: "float64 \<Rightarrow> int" where
  "py_round x = round_div (fst x) (2 ^ snd x)"

text \<open>\<^verbatim>\<open>int(x)\<close> of a non-negative float.\<close>

definition py_int :: "float64 \<Rightarrow> int" where
  "py_int x = fst x div 2 ^ snd x"

text \<open>\<^verbatim>\<open>int(round(a / b * 100))\<close>.\<close>

definition percent :: "int \<Rightarrow> int \<Rightarrow> int" where
  "percent a b = py_round (times_int (true_div a b) 100)"

section \<open>Bounds survive rounding\<close>

lemma round_div_le:
  assumes "0 < d" and "n \<le> c * d"
  shows "round_div n d \<le> c"
proof -
  from assms have q: "n div d \<le> c"
    by (metis nonzero_mult_div_cancel_right order_less_irrefl zdiv_mono1)
  show ?thesis
  proof (cases "n div d = c")
    case True
    with assms have "n mod d = 0"
      by (smt (verit) div_mult_mod_eq pos_mod_sign)
    with True assms(1) show ?thesis by (simp add: round_div_def)
  next
    case False
    with q show ?thesis by (simp add: round_div_def Let_def)
  qed
qed

lemma round_div_ge:
  assumes "0 < d" and "c * d \<le> n"
  shows "c \<le> round_div n d"
proof -
  from assms have "c \<le> n div d"
    by (metis nonzero_mult_div_cancel_right order_less_irrefl zdiv_mono1)
  then show ?thesis by (simp add: round_div_def Let_def)
qed

lemma nearest_le: "0 < d \<Longrightarrow> n \<le> c * d \<Longrightarrow> fst (nearest n d) \<le> c * 2 ^ snd (nearest n d)"
  unfolding nearest_def Let_def fst_conv snd_conv
  by (rule round_div_le) (auto simp: mult.assoc mult.commute intro: mult_right_mono)

lemma nearest_ge: "0 < d \<Longrightarrow> c * d \<le> n \<Longrightarrow> c * 2 ^ snd (nearest n d) \<le> fst (nearest n d)"
  unfolding nearest_def Let_def fst_conv snd_conv
  by (rule round_div_ge) (auto simp: mult.assoc mult.commute intro: mult_right_mono)

lemma py_round_bounds:
  "fst x \<le> c * 2 ^ snd x \<Longrightarrow> py_round x \<le> c"
  "c * 2 ^ snd x \<le> fst x \<Longrightarrow> c \<le> py_round x"
  by (auto simp: py_round_def intro: round_div_le round_div_ge)

lemma percent_bounds:
  assumes "0 \<le> a" "a \<le> b" "0 < b"
  shows "0 \<le> percent a b" "percent a b \<le> 100"
proof -
  let ?q = "true_div a b"
  from assms have "0 \<le> fst ?q" "fst ?q \<le> 2 ^ snd ?q"
    using nearest_ge [of b 0 a] nearest_le [of b a 1] by (simp_all add: true_div_def)
  then have "0 \<le> fst (times_int ?q 100)" "fst (times_int ?q 100) \<le> 100 * 2 ^ snd (times_int ?q 100)"
    using nearest_ge [of "2 ^ snd ?q" 0 "fst ?q * 100"] nearest_le [of "2 ^ snd ?q" "fst ?q * 100" 100]
    by (simp_all add: times_int_def)
  then show "0 \<le> percent a b" "percent a b \<le> 100"
    using py_round_bounds(1) [of "times_int ?q 100" 100] py_round_bounds(2) [of 0 "times_int ?q 100"]
    by (simp_all add: percent_def)
qed

lemma mean_bounds:
  assumes "0 < n" "0 \<le> s" "s \<le> c * n"
  shows "0 \<le> py_round (true_div s n)" "py_round (true_div s n) \<le> c"
  using nearest_ge [of n 0 s] nearest_le [of n s c] assms
    py_round_bounds(1) [of "true_div s n" c] py_round_bounds(2) [of 0 "true_div s n"]
  by (simp_all add: true_div_def)

lemma py_int_nonneg: "0 \<le> a \<Longrightarrow> 0 < b \<Longrightarrow> 0 \<le> py_int (true_div a b)"
  using nearest_ge [of b 0 a] by (simp add: py_int_def true_div_def pos_imp_zdiv_nonneg_iff)

lemma percent_zero: "0 < b \<Longrightarrow> percent 0 b = 0"
  using percent_bounds [of 0 b] nearest_le [of b 0 0] nearest_ge [of b 0 0]
  by (simp add: percent_def true_div_def times_int_def nearest_def round_div_def py_round_def Let_def)

end
