(* ===== verification/Ops_Metrics.thy ===== *)
theory Ops_Metrics
  imports Device_Data Py_Float
begin

text \<open>
  The measuring half of \<^verbatim>\<open>backend/observability/service.py\<close>: what is counted for a computer workflow,
  a computer session and a device, and the quality, risk and health scores computed from the counts.
  The rows of workflows and sessions (\<^verbatim>\<open>agent_runtime/workflows/computer/models.py\<close>,
  \<^verbatim>\<open>agent_runtime/executors/computer/models.py\<close>) are kept to the columns that are read. Times are
  microseconds. The percentiles, which no score uses, are left out.
\<close>

section \<open>Rows\<close>

record workflow_step =
  wst_workflow :: ustr
  wst_action :: ustr
  wst_window :: "ustr option"
  wst_input :: "ustr option"
  wst_status :: ustr
  wst_started :: "int option"
  wst_finished :: "int option"

record checkpoint =
  wck_workflow :: ustr
  wck_created :: int
  wck_approved :: "int option"

record step_verification =
  wvf_workflow :: ustr
  wvf_status :: ustr

record step_recovery =
  wrc_workflow :: ustr
  wrc_type :: ustr
  wrc_status :: ustr

record workflow_row =
  wf_id :: ustr
  wf_device :: "ustr option"
  wf_status :: ustr
  wf_risk :: ustr
  wf_stop :: "ustr option"
  wf_created :: int
  wf_finished :: "int option"

record session_row =
  cs_id :: ustr
  cs_status :: ustr
  cs_risk :: ustr
  cs_takeover :: ustr

record action_row =
  ca_session :: ustr
  ca_type :: ustr
  ca_window :: "ustr option"
  ca_input :: "ustr option"
  ca_result :: "ustr option"
  ca_error :: "ustr option"
  ca_started :: "int option"
  ca_finished :: "int option"
  ca_duration :: "int option"

record run_tables =
  ru_workflows :: "workflow_row list"
  ru_steps :: "workflow_step list"
  ru_checkpoints :: "checkpoint list"
  ru_verifications :: "step_verification list"
  ru_recoveries :: "step_recovery list"
  ru_sessions :: "session_row list"
  ru_actions :: "action_row list"

section \<open>What is counted\<close>

record run_metrics =
  me_total :: int
  me_success :: int
  me_failure :: int
  me_canceled :: int
  me_timeout :: int
  me_duration :: int
  me_retry :: int
  me_approval_wait :: int
  me_checkpoint_wait :: int
  me_verification_fail :: int
  me_page_change :: int
  me_window_change :: int
  me_sensitive :: int
  me_stop :: int
  me_takeover :: int
  me_budget :: int
  me_failure_rate :: int
  me_completion_rate :: int

definition count :: "('a \<Rightarrow> bool) \<Rightarrow> 'a list \<Rightarrow> int" where
  "count p xs = int (length (filter p xs))"

text \<open>\<^verbatim>\<open>max(0, int((b - a).total_seconds() * 1000))\<close>.\<close>

definition elapsed_ms :: "int \<Rightarrow> int \<Rightarrow> int" where
  "elapsed_ms a b = (if b \<le> a then 0 else py_int (times_int (true_div (b - a) 1000000) 1000))"

definition step_duration :: "workflow_step \<Rightarrow> int list" where
  "step_duration s =
     (case (wst_started s, wst_finished s) of (Some a, Some b) \<Rightarrow> [elapsed_ms a b] | _ \<Rightarrow> [])"

definition action_duration :: "action_row \<Rightarrow> int list" where
  "action_duration s =
     (case ca_duration s of
        Some d \<Rightarrow> [d]
      | None \<Rightarrow> (case (ca_started s, ca_finished s) of (Some a, Some b) \<Rightarrow> [elapsed_ms a b] | _ \<Rightarrow> []))"

text \<open>\<^verbatim>\<open>int(sum(xs) / len(xs)) if xs else 0\<close>, which truncates towards zero.\<close>

definition mean_int :: "int list \<Rightarrow> int" where
  "mean_int xs =
     (let s = sum_list xs; n = int (length xs)
      in if xs = [] then 0 else if 0 \<le> s then py_int (true_div s n) else - py_int (true_div (- s) n))"

definition holds_text :: "ustr \<Rightarrow> ustr option \<Rightarrow> bool" where
  "holds_text p t = (case t of None \<Rightarrow> False | Some s \<Rightarrow> occurs p s)"

definition asks_secret :: "ustr option \<Rightarrow> bool" where
  "asks_secret t = (holds_text [0x5BC6, 0x7801] t \<or> holds_text [0x9A8C, 0x8BC1, 0x7801] t)"

definition PAGE_ACTIONS :: "ustr set" where
  "PAGE_ACTIONS = {[0x5355, 0x51FB], [0x8F93, 0x5165, 0x666E, 0x901A, 0x6587, 0x672C], [0x6309, 0x5141, 0x8BB8, 0x7684, 0x5FEB, 0x6377, 0x952E]}"

definition filled :: "ustr option \<Rightarrow> ustr list" where
  "filled x = (case x of None \<Rightarrow> [] | Some s \<Rightarrow> if s = [] then [] else [s])"

definition rate :: "int \<Rightarrow> int \<Rightarrow> int" where
  "rate part whole = (if whole = 0 then 0 else percent part whole)"

definition workflow_metrics :: "run_tables \<Rightarrow> workflow_row \<Rightarrow> run_metrics" where
  "workflow_metrics db w =
     (let steps = filter (\<lambda>s. wst_workflow s = wf_id w) (ru_steps db);
          checks = filter (\<lambda>v. wvf_workflow v = wf_id w) (ru_verifications db);
          recs = filter (\<lambda>r. wrc_workflow r = wf_id w) (ru_recoveries db);
          waits = concat (map (\<lambda>c. case wck_approved c of None \<Rightarrow> [] | Some t \<Rightarrow> [elapsed_ms (wck_created c) t])
                    (filter (\<lambda>c. wck_workflow c = wf_id w) (ru_checkpoints db)));
          total = int (length steps);
          success = count (\<lambda>s. wst_status s = [0x5DF2, 0x5B8C, 0x6210]) steps;
          failure = count (\<lambda>s. wst_status s = [0x5DF2, 0x5931, 0x8D25]) steps
      in \<lparr>me_total = total, me_success = success, me_failure = failure,
          me_canceled = count (\<lambda>s. wst_status s \<in> {[0x5DF2, 0x53D6, 0x6D88], [0x5DF2, 0x8DF3, 0x8FC7]}) steps,
          me_timeout = (if wf_status w = [0x5DF2, 0x8D85, 0x65F6] then 1 else 0),
          me_duration = mean_int (concat (map step_duration steps)),
          me_retry = count (\<lambda>r. wrc_status r = [0x5DF2, 0x5B8C, 0x6210]) recs,
          me_approval_wait = mean_int waits, me_checkpoint_wait = mean_int waits,
          me_verification_fail = count (\<lambda>v. wvf_status v \<notin> {[0x7ED3, 0x679C, 0x7B26, 0x5408, 0x9884, 0x671F], [0x7ED3, 0x679C, 0x90E8, 0x5206, 0x7B26, 0x5408]}) checks,
          me_page_change = count (\<lambda>s. wst_action s \<in> PAGE_ACTIONS) steps,
          me_window_change = int (length (remdups (concat (map (\<lambda>s. filled (wst_window s)) steps)))),
          me_sensitive = count (\<lambda>s. asks_secret (wst_input s)) steps,
          me_stop = (if holds_text [0x7D27, 0x6025, 0x505C, 0x6B62] (wf_stop w) then 1 else 0),
          me_takeover = count (\<lambda>r. wrc_type r \<in> {[0x4EBA, 0x5DE5, 0x63A5, 0x7BA1], (asc ''manual_handoff'')}) recs,
          me_budget = (if holds_text [0x9884, 0x7B97] (wf_stop w) then 1 else 0),
          me_failure_rate = rate failure total, me_completion_rate = rate success total\<rparr>)"

definition session_metrics :: "run_tables \<Rightarrow> session_row \<Rightarrow> run_metrics" where
  "session_metrics db s =
     (let actions = filter (\<lambda>a. ca_session a = cs_id s) (ru_actions db);
          total = int (length actions);
          success = count (\<lambda>a. filled (ca_error a) = [] \<and> filled (ca_result a) \<noteq> []) actions;
          failure = count (\<lambda>a. filled (ca_error a) \<noteq> []) actions
      in \<lparr>me_total = total, me_success = success, me_failure = failure,
          me_canceled = count (\<lambda>a. ca_type a = [0x53D6, 0x6D88, 0x4EFB, 0x52A1]) actions,
          me_timeout = (if cs_status s = [0x5DF2, 0x8D85, 0x65F6] then 1 else 0),
          me_duration = mean_int (concat (map action_duration actions)),
          me_retry = count (\<lambda>a. holds_text (asc ''RETRY'') (ca_error a)) actions,
          me_approval_wait = 0, me_checkpoint_wait = 0,
          me_verification_fail = count (\<lambda>a. holds_text [0x9A8C, 0x8BC1, 0x5931, 0x8D25] (ca_result a)) actions,
          me_page_change = count (\<lambda>a. ca_type a \<in> PAGE_ACTIONS) actions,
          me_window_change = int (length (remdups (concat (map (\<lambda>a. filled (ca_window a)) actions)))),
          me_sensitive = count (\<lambda>a. asks_secret (ca_input a)) actions,
          me_stop = (if cs_takeover s \<in> {[0x672C, 0x5730, 0x505C, 0x6B62], [0x4EBA, 0x5DE5, 0x63A5, 0x7BA1]} then 1 else 0),
          me_takeover = count (\<lambda>a. ca_type a = [0x53D6, 0x6D88, 0x4EFB, 0x52A1]) actions,
          me_budget = (if cs_status s = [0x5DF2, 0x8D85, 0x65F6] then 1 else 0),
          me_failure_rate = rate failure total, me_completion_rate = rate success total\<rparr>)"

section \<open>Scores\<close>

definition human_grade_from_score :: "int \<Rightarrow> ustr" where
  "human_grade_from_score score =
     (if 90 \<le> score then [0x4F18, 0x79C0] else if 80 \<le> score then [0x826F, 0x597D] else if 65 \<le> score then [0x5408, 0x683C]
      else if 50 \<le> score then [0x9700, 0x6539, 0x8FDB] else [0x4E0D, 0x5408, 0x683C])"

definition risk_grade_from_score :: "int \<Rightarrow> ustr" where
  "risk_grade_from_score score =
     (if 90 \<le> score then [0x6781, 0x9AD8] else if 70 \<le> score then [0x9AD8] else if 40 \<le> score then [0x4E2D] else [0x4F4E])"

definition device_health_grade :: "int \<Rightarrow> ustr" where
  "device_health_grade score =
     (if 90 \<le> score then [0x5065, 0x5EB7] else if 75 \<le> score then [0x6CE8, 0x610F] else if 55 \<le> score then [0x98CE, 0x9669] else [0x4E0D, 0x53EF, 0x7528])"

text \<open>The dimensions of the quality score with their weights, which add up to 100.\<close>

definition quality_dimensions :: "run_metrics \<Rightarrow> (ustr \<times> int \<times> int) list" where
  "quality_dimensions m =
     [([0x4EFB, 0x52A1, 0x5B8C, 0x6210], percent (me_success m) (max 1 (me_total m)), 25),
      ([0x52A8, 0x4F5C, 0x9A8C, 0x8BC1], max 0 (100 - me_verification_fail m * 20), 20),
      ([0x6B65, 0x9AA4, 0x51C6, 0x786E], max 0 (100 - me_failure m * 20 - me_canceled m * 10), 20),
      ([0x8017, 0x65F6], max 0 (100 - min 60 (me_duration m div 1000)), 15),
      ([0x5BA1, 0x6279, 0x7B49, 0x5F85], max 0 (100 - min 50 (me_approval_wait m div 1000)), 10),
      ([0x5F02, 0x5E38, 0x60C5, 0x51B5], max 0 (100 - (me_stop m * 20 + me_budget m * 20 + me_sensitive m * 25)), 10)]"

definition quality_score :: "run_metrics \<Rightarrow> int" where
  "quality_score m =
     (let ds = quality_dimensions m
      in py_round (true_div (sum_list (map (\<lambda>(_, s, w). s * w) ds)) (sum_list (map (\<lambda>(_, s, w). w) ds))))"

definition quality_remarks :: "run_metrics \<Rightarrow> (ustr \<times> ustr) list" where
  "quality_remarks m =
     (if me_failure m \<noteq> 0 then [([0x5931, 0x8D25, 0x6B65, 0x9AA4, 0x20] @ int_text (me_failure m) @ [0x20, 0x4E2A], [0x51CF, 0x5C11, 0x5931, 0x8D25, 0x6B65, 0x9AA4, 0x5E76, 0x5728, 0x5173, 0x952E, 0x8282, 0x70B9, 0x524D, 0x52A0, 0x5F3A, 0x6821, 0x9A8C])] else []) @
     (if me_verification_fail m \<noteq> 0
      then [([0x9A8C, 0x8BC1, 0x5931, 0x8D25, 0x20] @ int_text (me_verification_fail m) @ [0x20, 0x6B21], [0x63D0, 0x9AD8, 0x6267, 0x884C, 0x540E, 0x7684, 0x7ED3, 0x679C, 0x9A8C, 0x8BC1, 0x8D28, 0x91CF])] else []) @
     (if 120000 < me_approval_wait m then [([0x5BA1, 0x6279, 0x7B49, 0x5F85, 0x65F6, 0x95F4, 0x8F83, 0x957F], [0x4F18, 0x5316, 0x5BA1, 0x6279, 0x54CD, 0x5E94, 0x65F6, 0x95F4])] else []) @
     (if 60000 < me_duration m then [([0x5E73, 0x5747, 0x6267, 0x884C, 0x8017, 0x65F6, 0x504F, 0x9AD8], [0x62C6, 0x89E3, 0x6B65, 0x9AA4, 0x5E76, 0x964D, 0x4F4E, 0x5355, 0x6B65, 0x590D, 0x6742, 0x5EA6])] else []) @
     (if me_budget m \<noteq> 0 then [([0x51FA, 0x73B0, 0x9884, 0x7B97, 0x8D85, 0x9650], [0x6536, 0x7D27, 0x5DE5, 0x4F5C, 0x6D41, 0x9884, 0x7B97])] else [])"

definition risk_dimensions :: "run_metrics \<Rightarrow> (ustr \<times> int) list" where
  "risk_dimensions m =
     [([0x5931, 0x8D25, 0x7387], min 30 (me_failure_rate m div 2)), ([0x9A8C, 0x8BC1, 0x5931, 0x8D25], min 25 (me_verification_fail m * 12)),
      ([0x654F, 0x611F, 0x62E6, 0x622A], min 30 (me_sensitive m * 20)), ([0x9884, 0x7B97, 0x8D85, 0x9650], min 20 (me_budget m * 20)),
      ([0x63A5, 0x7BA1, 0x6B21, 0x6570], min 15 (me_takeover m * 10)), ([0x7D27, 0x6025, 0x505C, 0x6B62], min 30 (me_stop m * 30)),
      ([0x8017, 0x65F6], min 15 (me_duration m div 5000))]"

definition raw_risk :: "run_metrics \<Rightarrow> int \<Rightarrow> int" where
  "raw_risk m base = base + sum_list (map snd (risk_dimensions m))"

definition risk_score :: "run_metrics \<Rightarrow> int \<Rightarrow> int" where
  "risk_score m base = min (raw_risk m base) 100"

definition risk_reasons :: "run_metrics \<Rightarrow> ustr list" where
  "risk_reasons m =
     (if me_failure m \<noteq> 0 then [[0x5931, 0x8D25, 0x6B65, 0x9AA4, 0x20] @ int_text (me_failure m) @ [0x20, 0x4E2A]] else []) @
     (if me_verification_fail m \<noteq> 0 then [[0x9A8C, 0x8BC1, 0x5931, 0x8D25, 0x20] @ int_text (me_verification_fail m) @ [0x20, 0x6B21]] else []) @
     (if me_sensitive m \<noteq> 0 then [[0x51FA, 0x73B0, 0x654F, 0x611F, 0x62E6, 0x622A]] else []) @ (if me_budget m \<noteq> 0 then [[0x9884, 0x7B97, 0x8D85, 0x9650]] else []) @
     (if me_takeover m \<noteq> 0 then [[0x51FA, 0x73B0, 0x4EBA, 0x5DE5, 0x63A5, 0x7BA1]] else []) @ (if me_stop m \<noteq> 0 then [[0x53D1, 0x751F, 0x7D27, 0x6025, 0x505C, 0x6B62]] else [])"

definition risk_suggestion :: "int \<Rightarrow> ustr" where
  "risk_suggestion score =
     (if 90 \<le> score then [0x7EC8, 0x6B62, 0x5F53, 0x524D, 0x6267, 0x884C, 0x5E76, 0x8FDB, 0x884C, 0x4EBA, 0x5DE5, 0x590D, 0x6838] else if 70 \<le> score then [0x589E, 0x52A0, 0x5173, 0x952E, 0x8282, 0x70B9, 0x5BA1, 0x6279, 0x5E76, 0x7F29, 0x77ED, 0x6267, 0x884C, 0x8303, 0x56F4]
      else if 40 \<le> score then [0x4FDD, 0x6301, 0x76D1, 0x63A7, 0x5E76, 0x5173, 0x6CE8, 0x5F02, 0x5E38, 0x8D8B, 0x52BF] else [0x98CE, 0x9669, 0x8F83, 0x4F4E, 0xFF0C, 0x7EF4, 0x6301, 0x73B0, 0x6709, 0x7B56, 0x7565])"

definition risk_base :: "ustr \<Rightarrow> int" where
  "risk_base level =
     10 + (if level = [0x4E2D, 0x4F4E, 0x98CE, 0x9669] then 10 else if level = [0x4E2D, 0x98CE, 0x9669] then 20 else if level = [0x9AD8, 0x98CE, 0x9669] then 35
           else if level = [0x6781, 0x9AD8, 0x98CE, 0x9669] then 50 else 0)"

section \<open>Devices\<close>

text \<open>SQL \<^verbatim>\<open>LIKE '%pattern%'\<close>, where \<^verbatim>\<open>_\<close> stands for any character.\<close>

fun like_start :: "ustr \<Rightarrow> ustr \<Rightarrow> bool" where
  "like_start [] t = True"
| "like_start (p # ps) [] = False"
| "like_start (p # ps) (c # cs) = ((p = 95 \<or> p = c) \<and> like_start ps cs)"

fun like_any :: "ustr \<Rightarrow> ustr \<Rightarrow> bool" where
  "like_any p [] = (p = [])"
| "like_any p (c # cs) = (like_start p (c # cs) \<or> like_any p cs)"

record device_metric =
  dm_device :: ustr
  dm_status :: ustr
  dm_heartbeat :: "int option"
  dm_cpu :: int
  dm_memory :: int
  dm_disk :: int
  dm_running :: bool
  dm_sessions :: int
  dm_workflows :: int
  dm_errors :: int
  dm_latency :: int
  dm_failure_rate :: int
  dm_auth :: int
  dm_replay :: int
  dm_stop :: int

text \<open>\<^verbatim>\<open>_seconds_since\<close>.\<close>

definition seconds_since :: "int \<Rightarrow> int \<Rightarrow> int" where
  "seconds_since now t = (if now \<le> t then 0 else py_int (true_div (now - t) 1000000))"

definition device_metrics :: "int \<Rightarrow> device_db \<Rightarrow> workflow_row list \<Rightarrow> device \<Rightarrow> device_metric" where
  "device_metrics now db workflows d =
     (let mine = filter (\<lambda>e. sv_device e = Some (dv_id d)) (dc_security db);
          observations = count (\<lambda>ob. ob_device ob = dv_id d) (dc_observations db);
          active = count (\<lambda>w. wf_device w = Some (dv_id d) \<and>
                     wf_status w \<in> {[0x6267, 0x884C, 0x4E2D], [0x5DF2, 0x6682, 0x505C], [0x7B49, 0x5F85, 0x5173, 0x952E, 0x8282, 0x70B9, 0x786E, 0x8BA4], [0x5DF2, 0x6279, 0x51C6]}) workflows;
          errors = int (length mine);
          auth = count (\<lambda>e. like_any (asc ''AUTH'') (sv_code e)) mine;
          replay = count (\<lambda>e. like_any (asc ''REPLAY'') (sv_code e)) mine;
          age = (case dv_seen d of None \<Rightarrow> 0 | Some t \<Rightarrow> seconds_since now t)
      in \<lparr>dm_device = dv_id d, dm_status = dv_status d, dm_heartbeat = dv_seen d,
          dm_cpu = min 100 (15 + observations * 5 + active * 7 + auth * 8),
          dm_memory = min 100 (20 + active * 8 + errors * 3),
          dm_disk = max 0 (500000000 - errors * 10000000),
          dm_running = (dv_enabled d \<and> dv_revoked d = None),
          dm_sessions = observations, dm_workflows = active, dm_errors = errors,
          dm_latency = min 1000 (40 + age), dm_failure_rate = min 100 (auth * 10 + replay * 12),
          dm_auth = auth, dm_replay = replay,
          dm_stop = count (\<lambda>e. like_any (asc ''EMERGENCY_STOP'') (sv_code e)) mine\<rparr>)"

definition GONE :: "ustr set" where
  "GONE = {[0x79BB, 0x7EBF], [0x5DF2, 0x7981, 0x7528], [0x5DF2, 0x64A4, 0x9500]}"

definition health_dimensions :: "int \<Rightarrow> device_metric \<Rightarrow> (ustr \<times> int) list" where
  "health_dimensions now m =
     [([0x5728, 0x7EBF, 0x7A33, 0x5B9A, 0x6027], if dm_status m \<notin> GONE then 100 else 20),
      ([0x5FC3, 0x8DF3, 0x6210, 0x529F, 0x7387], max 0 (100 - min 80 (case dm_heartbeat m of None \<Rightarrow> 80 | Some t \<Rightarrow> seconds_since now t div 10))),
      ([0x43, 0x50, 0x55, 0x2F, 0x5185, 0x5B58], max 0 (100 - dm_cpu m div 2 - dm_memory m div 2)),
      ([0x78C1, 0x76D8, 0x7A7A, 0x95F4], if 100000000 < dm_disk m then 100 else 50),
      ([0x7F51, 0x7EDC, 0x7A33, 0x5B9A, 0x6027], max 0 (100 - dm_latency m div 10 - dm_failure_rate m)),
      ([0x8BA4, 0x8BC1, 0x5931, 0x8D25], max 0 (100 - dm_auth m * 25)), ([0x5B89, 0x5168, 0x4E8B, 0x4EF6], max 0 (100 - dm_errors m * 10)),
      ([0x4F1A, 0x8BDD, 0x5931, 0x8D25], max 0 (100 - dm_sessions m * 2)), ([0x672C, 0x5730, 0x7D27, 0x6025, 0x505C, 0x6B62], max 0 (100 - dm_stop m * 40)),
      ([0x6700, 0x8FD1, 0x66F4, 0x65B0, 0x65F6, 0x95F4], 100)]"

definition device_health :: "int \<Rightarrow> device_metric \<Rightarrow> int \<times> ustr \<times> ustr list" where
  "device_health now m =
     (let ds = map snd (health_dimensions now m);
          score = max 0 (min (py_round (true_div (sum_list ds) (int (length ds)))) 100);
          reasons = (if dm_status m \<in> GONE then [[0x8BBE, 0x5907, 0x5F53, 0x524D, 0x4E0D, 0x5728, 0x7EBF, 0x6216, 0x5DF2, 0x88AB, 0x7981, 0x7528]] else []) @
            (if dm_auth m \<noteq> 0 then [[0x5B58, 0x5728, 0x8BA4, 0x8BC1, 0x5931, 0x8D25]] else []) @
            (if dm_replay m \<noteq> 0 then [[0x5B58, 0x5728, 0x91CD, 0x653E, 0x62E6, 0x622A]] else []) @
            (if dm_stop m \<noteq> 0 then [[0x5B58, 0x5728, 0x672C, 0x5730, 0x7D27, 0x6025, 0x505C, 0x6B62]] else [])
      in (score, device_health_grade score, if reasons = [] then [[0x8BBE, 0x5907, 0x72B6, 0x6001, 0x6B63, 0x5E38]] else reasons))"

section \<open>Facts: counts and scores stay in their ranges\<close>

lemma count_nonneg [simp]: "0 \<le> count p xs"
  by (simp add: count_def)

lemma count_le_length: "count p xs \<le> int (length xs)"
  by (simp add: count_def)

lemma elapsed_nonneg [simp]: "0 \<le> elapsed_ms a b"
proof (cases "b \<le> a")
  case False
  then have "0 \<le> fst (true_div (b - a) 1000000)"
    using nearest_ge [of 1000000 0 "b - a"] by (simp add: true_div_def)
  then have "0 \<le> fst (times_int (true_div (b - a) 1000000) 1000)"
    using nearest_ge [of "2 ^ snd (true_div (b - a) 1000000)" 0 "fst (true_div (b - a) 1000000) * 1000"]
    by (simp add: times_int_def)
  with False show ?thesis by (simp add: elapsed_ms_def py_int_def pos_imp_zdiv_nonneg_iff)
qed (simp add: elapsed_ms_def)

lemma mean_int_nonneg: "list_all (\<lambda>x. 0 \<le> x) xs \<Longrightarrow> 0 \<le> mean_int xs"
proof -
  assume "list_all (\<lambda>x. 0 \<le> x) xs"
  then have "0 \<le> sum_list xs" by (induction xs) auto
  then show ?thesis by (cases xs) (auto simp: mean_int_def Let_def intro: py_int_nonneg)
qed

lemma rate_bounds: "0 \<le> a \<Longrightarrow> a \<le> b \<Longrightarrow> 0 \<le> rate a b \<and> rate a b \<le> 100"
  using percent_bounds [of a b] by (auto simp: rate_def)

text \<open>What every score relies on: no negative count or time, and no more successes than steps.\<close>

definition metrics_ok :: "run_metrics \<Rightarrow> bool" where
  "metrics_ok m \<longleftrightarrow>
     0 \<le> me_success m \<and> me_success m \<le> me_total m \<and> 0 \<le> me_failure m \<and> 0 \<le> me_canceled m \<and>
     0 \<le> me_duration m \<and> 0 \<le> me_approval_wait m \<and> 0 \<le> me_verification_fail m \<and> 0 \<le> me_sensitive m \<and>
     0 \<le> me_stop m \<and> 0 \<le> me_takeover m \<and> 0 \<le> me_budget m \<and> 0 \<le> me_failure_rate m \<and> me_failure_rate m \<le> 100"

lemma workflow_metrics_ok: "metrics_ok (workflow_metrics db w)"
proof -
  have d: "list_all (\<lambda>x. 0 \<le> x) (concat (map step_duration ss))" for ss
    by (auto simp: list_all_iff step_duration_def split: option.splits)
  have "list_all (\<lambda>x. 0 \<le> x) (concat (map (\<lambda>c. case wck_approved c of None \<Rightarrow> [] | Some t \<Rightarrow> [elapsed_ms (wck_created c) t]) cs))"
    for cs :: "checkpoint list"
    by (auto simp: list_all_iff split: option.splits)
  with d show ?thesis
    unfolding metrics_ok_def workflow_metrics_def Let_def
    by (simp add: mean_int_nonneg count_le_length rate_bounds)
qed

lemma session_metrics_ok:
  "list_all (\<lambda>a. case ca_duration a of None \<Rightarrow> True | Some d \<Rightarrow> 0 \<le> d) (ru_actions db) \<Longrightarrow>
   metrics_ok (session_metrics db s)"
proof -
  assume "list_all (\<lambda>a. case ca_duration a of None \<Rightarrow> True | Some d \<Rightarrow> 0 \<le> d) (ru_actions db)"
  then have "list_all (\<lambda>x. 0 \<le> x) (concat (map action_duration (filter p (ru_actions db))))" for p
    by (fastforce simp: list_all_iff action_duration_def split: option.splits)
  then show ?thesis
    unfolding metrics_ok_def session_metrics_def Let_def
    by (simp add: mean_int_nonneg count_le_length rate_bounds)
qed

lemma weighted_bounds:
  "list_all (\<lambda>(_, s, w). 0 \<le> s \<and> s \<le> 100 \<and> 0 \<le> (w::int)) ds \<Longrightarrow>
     0 \<le> sum_list (map (\<lambda>(_, s, w). s * w) ds) \<and>
     sum_list (map (\<lambda>(_, s, w). s * w) ds) \<le> 100 * sum_list (map (\<lambda>(_, s, w). w) ds)"
proof (induction ds)
  case (Cons x ds)
  obtain k s w where x: "x = (k, s, w)" by (cases x)
  with Cons.prems have "0 \<le> s * w" "s * w \<le> 100 * w"
    by (auto intro: mult_right_mono)
  with Cons x show ?case by simp
qed simp

lemma remaining_100: "0 \<le> (x::int) \<Longrightarrow> 0 \<le> max 0 (100 - x) \<and> max 0 (100 - x) \<le> 100"
  by simp

lemma quality_dimension_bounds:
  assumes "metrics_ok m"
  shows "list_all (\<lambda>(_, s, w). 0 \<le> s \<and> s \<le> 100 \<and> 0 \<le> w) (quality_dimensions m)"
proof -
  from assms have "0 \<le> percent (me_success m) (max 1 (me_total m)) \<and> percent (me_success m) (max 1 (me_total m)) \<le> 100"
    using percent_bounds [of "me_success m" "max 1 (me_total m)"] by (auto simp: metrics_ok_def)
  moreover have "0 \<le> min 60 (me_duration m div 1000)" "0 \<le> min 50 (me_approval_wait m div 1000)"
    using assms by (auto simp: metrics_ok_def pos_imp_zdiv_nonneg_iff)
  moreover have "0 \<le> me_stop m * 20 + me_budget m * 20 + me_sensitive m * 25"
    "0 \<le> me_failure m * 20 + me_canceled m * 10" "0 \<le> me_verification_fail m * 20"
    using assms by (auto simp: metrics_ok_def)
  ultimately show ?thesis
    unfolding quality_dimensions_def list.pred_inject split_conv diff_diff_eq
    by (auto intro: remaining_100 [THEN conjunct1] remaining_100 [THEN conjunct2] simp del: max.bounded_iff)
qed

lemma quality_bounds: "metrics_ok m \<Longrightarrow> 0 \<le> quality_score m \<and> quality_score m \<le> 100"
proof -
  assume "metrics_ok m"
  from weighted_bounds [OF quality_dimension_bounds [OF this]]
  have b: "0 \<le> sum_list (map (\<lambda>(_, s, w). s * w) (quality_dimensions m))"
    "sum_list (map (\<lambda>(_, s, w). s * w) (quality_dimensions m)) \<le> 100 * sum_list (map (\<lambda>(_, s, w). w) (quality_dimensions m))"
    by blast+
  have "sum_list (map (\<lambda>(_, s, w). w) (quality_dimensions m)) = 100"
    by (simp add: quality_dimensions_def)
  with mean_bounds [OF _ b] show ?thesis by (simp add: quality_score_def Let_def)
qed

lemma risk_base_bounds: "10 \<le> risk_base level \<and> risk_base level \<le> 60"
  by (simp add: risk_base_def)

lemma risk_bounds:
  assumes "metrics_ok m" "0 \<le> base"
  shows "base \<le> raw_risk m base" "0 \<le> risk_score m base \<and> risk_score m base \<le> 100"
proof -
  have "0 \<le> me_failure_rate m div 2" "0 \<le> me_duration m div 5000"
    using assms by (auto simp: metrics_ok_def pos_imp_zdiv_nonneg_iff)
  with assms show "base \<le> raw_risk m base"
    unfolding raw_risk_def risk_dimensions_def metrics_ok_def by simp
  then show "0 \<le> risk_score m base \<and> risk_score m base \<le> 100"
    using assms(2) by (simp add: risk_score_def)
qed

end
