(* ===== verification/Ops_Alerts.thy ===== *)
theory Ops_Alerts
  imports Ops_Metrics
begin

text \<open>
  The reacting half of \<^verbatim>\<open>backend/observability/service.py\<close>: the score tables, the overview, alert rules,
  security incidents, the automatic pause, circuit breakers and the collection round that runs them in
  order. The links of an incident to devices, tasks and runs, which no caller passes, and the random
  row ids of alerts and scores are left out. Left out of the round are the rows nothing else reads
  (execution metrics, employee metrics, replay indexes).
\<close>

section \<open>Rows\<close>

record score_row =
  sr_scope :: ustr
  sr_run :: ustr
  sr_score :: int
  sr_grade :: ustr
  sr_reasons :: "ustr list"
  sr_suggestions :: "ustr list"

record health_row =
  hr_device :: ustr
  hr_score :: int
  hr_grade :: ustr
  hr_reasons :: "ustr list"

record alert_rule =
  ar_id :: ustr
  ar_name :: ustr
  ar_code :: ustr
  ar_metric :: ustr
  ar_condition :: ustr
  ar_threshold :: ustr
  ar_seconds :: int
  ar_severity :: ustr
  ar_action :: ustr
  ar_enabled :: bool
  ar_environment :: ustr

record alert_event =
  ae_rule :: ustr
  ae_incident :: ustr
  ae_status :: ustr
  ae_title :: ustr
  ae_message :: ustr
  ae_severity :: ustr
  ae_action :: ustr

record anomaly =
  an_metric :: ustr
  an_rule :: ustr
  an_severity :: ustr
  an_status :: ustr
  an_title :: ustr
  an_description :: ustr

record incident =
  ic_id :: ustr
  ic_code :: ustr
  ic_type :: ustr
  ic_severity :: ustr
  ic_status :: ustr
  ic_title :: ustr
  ic_description :: "ustr option"
  ic_evidence :: "ustr list"
  ic_risk :: int
  ic_action :: "ustr option"
  ic_acknowledged_by :: "ustr option"
  ic_acknowledged_at :: "int option"
  ic_resolved_by :: "ustr option"
  ic_resolved_at :: "int option"
  ic_resolution :: "ustr option"
  ic_trace :: "ustr option"

record breaker =
  br_id :: ustr
  br_scope :: ustr
  br_key :: ustr
  br_status :: ustr
  br_reason :: ustr
  br_count :: int
  br_risk :: int
  br_triggered :: "int option"
  br_reset :: "int option"
  br_manual :: bool
  br_trace :: "ustr option"

record ops_db =
  op_runs :: run_tables
  op_center :: device_db
  op_metrics :: "device_metric list"
  op_quality :: "score_row list"
  op_risk :: "score_row list"
  op_health :: "health_row list"
  op_rules :: "alert_rule list"
  op_alerts :: "alert_event list"
  op_anomalies :: "anomaly list"
  op_incidents :: "incident list"
  op_breakers :: "breaker list"

text \<open>
  The clock, fresh ids, the switches of the settings object and the printed form of the alert list. A
  switch is \<^verbatim>\<open>None\<close> where the object has no such attribute, so that reading it raises an
  \<^verbatim>\<open>AttributeError\<close>. \<open>SETTINGS_SWITCHES\<close> are the switches of \<^verbatim>\<open>Settings\<close> in \<^verbatim>\<open>backend/config.py\<close>.
\<close>

record ops_env =
  on_now :: int
  on_uuid :: "nat \<Rightarrow> ustr"
  on_settings :: "ustr \<Rightarrow> bool option"
  on_print :: "alert_event list \<Rightarrow> ustr"

definition SETTINGS_SWITCHES :: "ustr list" where
  "SETTINGS_SWITCHES =
    [(asc ''CORS_ALLOW_CREDENTIALS''), (asc ''DEBUG''), (asc ''AGENT_RUNTIME_ENABLED''),
     (asc ''REAL_EXECUTOR_ENABLED''), (asc ''COMPUTER_CONTROL_ENABLED''), (asc ''OPENCLAW_ADAPTER_ENABLED''),
     (asc ''COMPUTER_EXECUTOR_ENABLED''), (asc ''ISOLATED_DESKTOP_ENABLED''), (asc ''SCREEN_CAPTURE_ENABLED''),
     (asc ''HUMAN_TAKEOVER_ENABLED''), (asc ''COMPUTER_TEXT_INPUT_ENABLED''), (asc ''COMPUTER_MOUSE_INPUT_ENABLED''),
     (asc ''CLIPBOARD_READ_ENABLED''), (asc ''CLIPBOARD_WRITE_ENABLED''), (asc ''FILE_UPLOAD_ENABLED''),
     (asc ''FILE_DOWNLOAD_ENABLED''), (asc ''MAC_SAFE_ACTION_ENABLED''), (asc ''MAC_SAFE_MOUSE_MOVE_ENABLED''),
     (asc ''MAC_SAFE_CLICK_ENABLED''), (asc ''MAC_SAFE_TEXT_INPUT_ENABLED''), (asc ''PER_ACTION_APPROVAL_ENABLED''),
     (asc ''POST_ACTION_VERIFICATION_ENABLED''), (asc ''MAC_SAFE_WORKFLOW_ENABLED''),
     (asc ''MAC_MULTI_STEP_ENABLED''), (asc ''WORKFLOW_SCOPE_APPROVAL_ENABLED''),
     (asc ''WORKFLOW_CHECKPOINT_APPROVAL_ENABLED''), (asc ''WORKFLOW_AUTO_CONTINUE_ENABLED''),
     (asc ''WORKFLOW_RECOVERY_ENABLED''), (asc ''DEVICE_CENTER_ENABLED''), (asc ''MAC_DEVICE_AGENT_ENABLED''),
     (asc ''MAC_READONLY_OBSERVER_ENABLED''), (asc ''MAC_WINDOW_ENUMERATION_ENABLED''),
     (asc ''MAC_SCREEN_CAPTURE_ENABLED''), (asc ''LOCAL_VISION_PROVIDER_ENABLED''),
     (asc ''EXTERNAL_VISION_PROVIDER_ENABLED''), (asc ''MOBILE_CONTROL_ENABLED''), (asc ''BROWSER_CONTROL_ENABLED''),
     (asc ''BROWSER_READONLY_ENABLED''), (asc ''BROWSER_ALLOW_HTTP''), (asc ''BROWSER_BLOCK_PRIVATE_NETWORKS''),
     (asc ''PUBLIC_RESEARCH_ENABLED''), (asc ''PUBLIC_SEARCH_ENABLED''), (asc ''SHELL_EXECUTION_ENABLED''),
     (asc ''KNOWLEDGE_CENTER_ENABLED''), (asc ''KNOWLEDGE_SUBMISSION_ENABLED''), (asc ''KNOWLEDGE_PUBLISH_ENABLED''),
     (asc ''KNOWLEDGE_LOCAL_SEARCH_ENABLED''), (asc ''KNOWLEDGE_VECTOR_SEARCH_ENABLED''),
     (asc ''ALPHA_WORKFLOW_ENABLED''), (asc ''ALPHA_SCENARIO_ENABLED''), (asc ''ALPHA_WORKFLOW_DASHBOARD_ENABLED''),
     (asc ''ALPHA_DASHBOARD_ENABLED''), (asc ''SKILLS_ENGINE_ENABLED''), (asc ''SKILL_INSTALLATION_ENABLED''),
     (asc ''SKILL_INVOCATION_ENABLED''), (asc ''THIRD_PARTY_SKILLS_ENABLED''), (asc ''UNSIGNED_SKILLS_ENABLED''),
     (asc ''AUTO_SKILL_UPDATE_ENABLED''), (asc ''SKILL_MARKETPLACE_ENABLED'')]"

datatype ops_error = OpsNotFound ustr | BadInteger | MissingSetting ustr | DuplicateIncident

interpretation incident_table: keyed_table ic_code "row_get ic_code" "row_put ic_code" row_add
  by (rule row_keyed_table)

section \<open>Scores\<close>

definition row_upsert :: "('r \<Rightarrow> 'k) \<Rightarrow> 'r \<Rightarrow> 'r list \<Rightarrow> 'r list" where
  "row_upsert key r t = (if row_get key (key r) t = None then row_add r t else row_put key r t)"

definition run_key :: "score_row \<Rightarrow> ustr \<times> ustr" where
  "run_key r = (sr_scope r, sr_run r)"

definition quality_row :: "ustr \<Rightarrow> ustr \<Rightarrow> run_metrics \<Rightarrow> score_row" where
  "quality_row scope i m =
     \<lparr>sr_scope = scope, sr_run = i, sr_score = quality_score m, sr_grade = human_grade_from_score (quality_score m),
      sr_reasons = map fst (quality_remarks m), sr_suggestions = map snd (quality_remarks m)\<rparr>"

definition risk_row :: "ustr \<Rightarrow> ustr \<Rightarrow> run_metrics \<Rightarrow> int \<Rightarrow> score_row" where
  "risk_row scope i m base =
     \<lparr>sr_scope = scope, sr_run = i, sr_score = risk_score m base, sr_grade = risk_grade_from_score (risk_score m base),
      sr_reasons = risk_reasons m, sr_suggestions = [risk_suggestion (raw_risk m base)]\<rparr>"

definition quality_rows :: "run_tables \<Rightarrow> score_row list" where
  "quality_rows db =
     map (\<lambda>w. quality_row (asc ''workflow'') (wf_id w) (workflow_metrics db w)) (ru_workflows db) @
     map (\<lambda>s. quality_row (asc ''session'') (cs_id s) (session_metrics db s)) (ru_sessions db)"

definition collect_quality_scores :: "ops_db \<Rightarrow> ops_db" where
  "collect_quality_scores db = db\<lparr>op_quality := fold (row_upsert run_key) (quality_rows (op_runs db)) (op_quality db)\<rparr>"

definition risk_rows :: "run_tables \<Rightarrow> score_row list" where
  "risk_rows db =
     map (\<lambda>w. risk_row (asc ''workflow'') (wf_id w) (workflow_metrics db w) (risk_base (wf_risk w))) (ru_workflows db) @
     map (\<lambda>s. risk_row (asc ''session'') (cs_id s) (session_metrics db s) (risk_base (cs_risk s))) (ru_sessions db)"

definition collect_risk_scores :: "ops_db \<Rightarrow> ops_db" where
  "collect_risk_scores db = db\<lparr>op_risk := fold (row_upsert run_key) (risk_rows (op_runs db)) (op_risk db)\<rparr>"

definition collect_device_metrics :: "ops_env \<Rightarrow> ops_db \<Rightarrow> ops_db" where
  "collect_device_metrics env db =
     (let rows = map (device_metrics (on_now env) (op_center db) (ru_workflows (op_runs db))) (dc_devices (op_center db))
      in db\<lparr>op_metrics := fold (row_upsert dm_device) rows (op_metrics db)\<rparr>)"

definition health_row_of :: "int \<Rightarrow> device_metric \<Rightarrow> health_row" where
  "health_row_of now m =
     (let h = device_health now m
      in \<lparr>hr_device = dm_device m, hr_score = fst h, hr_grade = fst (snd h), hr_reasons = snd (snd h)\<rparr>)"

definition collect_device_health_scores :: "ops_env \<Rightarrow> ops_db \<Rightarrow> ops_db" where
  "collect_device_health_scores env db =
     db\<lparr>op_health := fold (row_upsert hr_device) (map (health_row_of (on_now env)) (op_metrics db)) (op_health db)\<rparr>"

section \<open>The overview\<close>

datatype metric_value = Number int | Listing ustr

definition rounded_mean :: "int list \<Rightarrow> int" where
  "rounded_mean xs = (if xs = [] then 0 else py_round (true_div (sum_list xs) (int (length xs))))"

definition largest :: "int list \<Rightarrow> int" where
  "largest xs = (if xs = [] then 0 else fold max xs (hd xs))"

definition day_of :: "int \<Rightarrow> int" where
  "day_of t = t div 86400000000"

text \<open>The columns of the alerts are not dated here; the newest five are the last five added.\<close>

definition build_overview :: "ops_env \<Rightarrow> ops_db \<Rightarrow> (ustr \<times> metric_value) list" where
  "build_overview env db =
     (let devices = dc_devices (op_center db); workflows = ru_workflows (op_runs db);
          quality = map sr_score (op_quality db); risk = map sr_score (op_risk db);
          today = day_of (on_now env);
          started = count (\<lambda>w. day_of (wf_created w) = today) workflows;
          finished = count (\<lambda>w. (case wf_finished w of None \<Rightarrow> False | Some t \<Rightarrow> day_of t = today) \<and>
                                wf_status w = [0x5DF2, 0x5B8C, 0x6210]) workflows
      in [((asc ''online_test_devices''), Number (count (\<lambda>d. dv_status d \<notin> GONE \<and> dv_enabled d) devices)),
          ((asc ''running_workflows''), Number (count (\<lambda>w. wf_status w \<in>
             {[0x6267, 0x884C, 0x4E2D], [0x5DF2, 0x6279, 0x51C6], [0x7B49, 0x5F85, 0x5173, 0x952E, 0x8282, 0x70B9, 0x786E, 0x8BA4], [0x5DF2, 0x6682, 0x505C]}) workflows)),
          ((asc ''today_executions''), Number started), ((asc ''today_success_rate''), Number (rate finished started)),
          ((asc ''average_quality_score''), Number (rounded_mean quality)),
          ((asc ''current_high_risk''), Number (count (\<lambda>s. 70 \<le> s) risk)),
          ((asc ''unhandled_security_incidents''),
             Number (count (\<lambda>i. ic_status i \<notin> {[0x5DF2, 0x89E3, 0x51B3], [0x5DF2, 0x5173, 0x95ED]}) (op_incidents db))),
          ((asc ''triggered_breakers''), Number (count (\<lambda>b. br_status b \<in> {[0x5DF2, 0x7194, 0x65AD], [0x7B49, 0x5F85, 0x6062, 0x590D]}) (op_breakers db))),
          ((asc ''latest_alerts''), Listing (on_print env (take 5 (rev (op_alerts db))))),
          ((asc ''device_count''), Number (int (length devices))),
          ((asc ''session_count''), Number (int (length (ru_sessions (op_runs db))))),
          ((asc ''workflow_count''), Number (int (length workflows))),
          ((asc ''max_risk_score''), Number (largest risk)), ((asc ''max_quality_score''), Number (largest quality)),
          ((asc ''average_risk_score''), Number (rounded_mean risk)),
          ((asc ''incident_count''), Number (int (length (op_incidents db))))])"

definition max_risk :: "ops_db \<Rightarrow> int" where
  "max_risk db = largest (map sr_score (op_risk db))"

section \<open>Incidents\<close>

definition open_incident ::
  "ustr \<Rightarrow> ustr \<Rightarrow> ustr \<Rightarrow> ustr \<Rightarrow> ustr \<Rightarrow> ustr \<Rightarrow> ustr list \<Rightarrow> int \<Rightarrow> ustr option \<Rightarrow> ustr option \<Rightarrow> incident"
where
  "open_incident i code kind severity title description evidence risk action trace =
     \<lparr>ic_id = i, ic_code = code, ic_type = kind, ic_severity = severity, ic_status = [0x65B0, 0x53D1, 0x73B0], ic_title = title,
      ic_description = Some description, ic_evidence = evidence, ic_risk = risk, ic_action = action,
      ic_acknowledged_by = None, ic_acknowledged_at = None, ic_resolved_by = None, ic_resolved_at = None,
      ic_resolution = None, ic_trace = trace\<rparr>"

text \<open>
  An incident of the code that exists is brought up to date, and reopened when it was closed. The lookup
  sees the incidents of the last flush, \<open>seen\<close>: the session does not flush before a query.
\<close>

definition get_or_create_incident ::
  "incident list \<Rightarrow> ustr \<Rightarrow> ustr \<Rightarrow> ustr \<Rightarrow> ustr \<Rightarrow> ustr \<Rightarrow> ustr \<Rightarrow> ustr list \<Rightarrow> int \<Rightarrow> ustr option \<Rightarrow> ustr option
     \<Rightarrow> ops_db \<Rightarrow> incident \<times> ops_db"
where
  "get_or_create_incident seen i code kind severity title description evidence risk action trace db =
     (case (if row_get ic_code code seen = None then None else row_get ic_code code (op_incidents db)) of
        None \<Rightarrow>
          let x = open_incident i code kind severity title description evidence risk action trace
          in (x, db\<lparr>op_incidents := row_add x (op_incidents db)\<rparr>)
      | Some old \<Rightarrow>
          let x = old\<lparr>ic_title := title, ic_description := Some description,
                     ic_evidence := (if evidence = [] then ic_evidence old else evidence),
                     ic_risk := risk, ic_action := action,
                     ic_trace := (if trace \<in> {None, Some []} then ic_trace old else trace),
                     ic_status := (if ic_status old \<in> {[0x5DF2, 0x89E3, 0x51B3], [0x5DF2, 0x5173, 0x95ED]} then [0x5F85, 0x786E, 0x8BA4] else ic_status old)\<rparr>
          in (x, db\<lparr>op_incidents := row_put ic_code x (op_incidents db)\<rparr>))"

definition save_incident :: "incident \<Rightarrow> ops_db \<Rightarrow> ops_db" where
  "save_incident x db = db\<lparr>op_incidents := row_put ic_id x (op_incidents db)\<rparr>"

definition acknowledge_incident ::
  "ops_env \<Rightarrow> ustr \<Rightarrow> ustr \<Rightarrow> ustr option \<Rightarrow> ops_db \<Rightarrow> (ops_error + incident) \<times> ops_db"
where
  "acknowledge_incident env i who comment db =
     (case row_get ic_id i (op_incidents db) of
        None \<Rightarrow> (Inl (OpsNotFound [0x5B89, 0x5168, 0x4E8B, 0x4EF6, 0x4E0D, 0x5B58, 0x5728]), db)
      | Some x \<Rightarrow>
          let x1 = x\<lparr>ic_status := [0x5904, 0x7406, 0x4E2D], ic_acknowledged_by := Some who,
                     ic_acknowledged_at := Some (on_now env),
                     ic_description := (if comment \<in> {None, Some []} then ic_description x
                        else Some (strip ((case ic_description x of None \<Rightarrow> [] | Some d \<Rightarrow> d) @ [10] @ [0x5904, 0x7406, 0x5907, 0x6CE8, 0xFF1A] @
                                          the comment)))\<rparr>
          in (Inr x1, save_incident x1 db))"

definition resolve_incident ::
  "ops_env \<Rightarrow> ustr \<Rightarrow> ustr \<Rightarrow> ustr option \<Rightarrow> ops_db \<Rightarrow> (ops_error + incident) \<times> ops_db"
where
  "resolve_incident env i who summary db =
     (case row_get ic_id i (op_incidents db) of
        None \<Rightarrow> (Inl (OpsNotFound [0x5B89, 0x5168, 0x4E8B, 0x4EF6, 0x4E0D, 0x5B58, 0x5728]), db)
      | Some x \<Rightarrow>
          let x1 = x\<lparr>ic_status := [0x5DF2, 0x89E3, 0x51B3], ic_resolved_by := Some who, ic_resolved_at := Some (on_now env),
                     ic_resolution := summary\<rparr>
          in (Inr x1, save_incident x1 db))"

section \<open>Alert rules\<close>

text \<open>Code, name, metric, condition, threshold, seconds, severity, action; all enabled, environment \<^verbatim>\<open>test\<close>.\<close>

definition ALERT_DEFAULT_RULES :: "(ustr \<times> ustr \<times> ustr \<times> ustr \<times> ustr \<times> int \<times> ustr \<times> ustr) list" where
  "ALERT_DEFAULT_RULES =
     [((asc ''device_offline''), [0x8BBE, 0x5907, 0x79BB, 0x7EBF], (asc ''device_online_status''), (asc ''equals''), [0x79BB, 0x7EBF], 0, [0x4E2D], [0x6682, 0x505C, 0x8BBE, 0x5907]),
      ((asc ''heartbeat_timeout''), [0x5FC3, 0x8DF3, 0x8D85, 0x65F6], (asc ''device_last_heartbeat_age''), (asc ''gte''), (asc ''120''), 120, [0x9AD8], [0x6682, 0x505C, 0x8BBE, 0x5907]),
      ((asc ''auth_failure_burst''), [0x9AD8, 0x9891, 0x8BA4, 0x8BC1, 0x5931, 0x8D25], (asc ''device_auth_failure_count''), (asc ''gte''), (asc ''3''), 300, [0x9AD8], [0x64A4, 0x9500, 0x51ED, 0x636E]),
      ((asc ''replay_attack''), [0x91CD, 0x653E, 0x653B, 0x51FB], (asc ''device_replay_block_count''), (asc ''gte''), (asc ''1''), 60, [0x9AD8], [0x64A4, 0x9500, 0x51ED, 0x636E]),
      ((asc ''workflow_fail_burst''), [0x5DE5, 0x4F5C, 0x6D41, 0x8FDE, 0x7EED, 0x5931, 0x8D25], (asc ''workflow_failure_count''), (asc ''gte''), (asc ''3''), 600, [0x9AD8], [0x6682, 0x505C, 0x5DE5, 0x4F5C, 0x6D41]),
      ((asc ''verification_fail_burst''), [0x9A8C, 0x8BC1, 0x8FDE, 0x7EED, 0x5931, 0x8D25], (asc ''verification_failure_count''), (asc ''gte''), (asc ''2''), 600, [0x9AD8], [0x6682, 0x505C, 0x5DE5, 0x4F5C, 0x6D41]),
      ((asc ''sensitive_window''), [0x654F, 0x611F, 0x7A97, 0x53E3, 0x51FA, 0x73B0], (asc ''sensitive_window_count''), (asc ''gte''), (asc ''1''), 60, [0x9AD8], [0x8BF7, 0x6C42, 0x4EBA, 0x5DE5, 0x63A5, 0x7BA1]),
      ((asc ''terminal_attempt''), [0x54, 0x65, 0x72, 0x6D, 0x69, 0x6E, 0x61, 0x6C, 0x20, 0x76EE, 0x6807, 0x5C1D, 0x8BD5], (asc ''terminal_attempt_count''), (asc ''gte''), (asc ''1''), 0, [0x7D27, 0x6025], [0x7194, 0x65AD, 0x4F1A, 0x8BDD]),
      ((asc ''shell_attempt''), [0x53, 0x68, 0x65, 0x6C, 0x6C, 0x20, 0x76EE, 0x6807, 0x5C1D, 0x8BD5], (asc ''shell_attempt_count''), (asc ''gte''), (asc ''1''), 0, [0x7D27, 0x6025], [0x7194, 0x65AD, 0x4F1A, 0x8BDD]),
      ((asc ''password_input_attempt''), [0x5BC6, 0x7801, 0x8F93, 0x5165, 0x5C1D, 0x8BD5], (asc ''password_input_attempt_count''), (asc ''gte''), (asc ''1''), 0, [0x7D27, 0x6025], [0x7194, 0x65AD, 0x4F1A, 0x8BDD]),
      ((asc ''otp_input_attempt''), [0x9A8C, 0x8BC1, 0x7801, 0x8F93, 0x5165, 0x5C1D, 0x8BD5], (asc ''otp_input_attempt_count''), (asc ''gte''), (asc ''1''), 0, [0x7D27, 0x6025], [0x7194, 0x65AD, 0x4F1A, 0x8BDD]),
      ((asc ''file_transfer_attempt''), [0x6587, 0x4EF6, 0x4E0A, 0x4F20, 0x4E0B, 0x8F7D, 0x5C1D, 0x8BD5], (asc ''file_transfer_attempt_count''), (asc ''gte''), (asc ''1''), 0, [0x9AD8], [0x6682, 0x505C, 0x5DE5, 0x4F5C, 0x6D41]),
      ((asc ''workflow_timeout''), [0x5DE5, 0x4F5C, 0x6D41, 0x8D85, 0x65F6], (asc ''workflow_timeout_count''), (asc ''gte''), (asc ''1''), 300, [0x9AD8], [0x6682, 0x505C, 0x5DE5, 0x4F5C, 0x6D41]),
      ((asc ''budget_exceeded''), [0x9884, 0x7B97, 0x8D85, 0x9650], (asc ''budget_exceeded_count''), (asc ''gte''), (asc ''1''), 300, [0x9AD8], [0x6682, 0x505C, 0x5DE5, 0x4F5C, 0x6D41]),
      ((asc ''local_stop''), [0x672C, 0x5730, 0x7D27, 0x6025, 0x505C, 0x6B62], (asc ''local_emergency_stop_count''), (asc ''gte''), (asc ''1''), 0, [0x9AD8], [0x6682, 0x505C, 0x5DE5, 0x4F5C, 0x6D41]),
      ((asc ''risk_high''), [0x98CE, 0x9669, 0x5206, 0x6570, 0x8FBE, 0x5230, 0x9AD8], (asc ''risk_score''), (asc ''gte''), (asc ''70''), 0, [0x9AD8], [0x6682, 0x505C, 0x5DE5, 0x4F5C, 0x6D41]),
      ((asc ''risk_extreme''), [0x98CE, 0x9669, 0x5206, 0x6570, 0x8FBE, 0x5230, 0x6781, 0x9AD8], (asc ''risk_score''), (asc ''gte''), (asc ''90''), 0, [0x7D27, 0x6025], [0x7194, 0x65AD, 0x4F1A, 0x8BDD])]"

definition default_rule :: "ustr \<Rightarrow> ustr \<times> ustr \<times> ustr \<times> ustr \<times> ustr \<times> int \<times> ustr \<times> ustr \<Rightarrow> alert_rule" where
  "default_rule i data =
     (case data of (code, name, metric, condition, threshold, seconds, severity, action) \<Rightarrow>
        \<lparr>ar_id = i, ar_name = name, ar_code = code, ar_metric = metric, ar_condition = condition,
         ar_threshold = threshold, ar_seconds = seconds, ar_severity = severity, ar_action = action,
         ar_enabled = True, ar_environment = (asc ''test'')\<rparr>)"

fun add_default_rules ::
  "ops_env \<Rightarrow> nat \<Rightarrow> (ustr \<times> ustr \<times> ustr \<times> ustr \<times> ustr \<times> int \<times> ustr \<times> ustr) list \<Rightarrow> alert_rule list \<Rightarrow> alert_rule list"
where
  "add_default_rules env n [] rules = rules"
| "add_default_rules env n (data # rest) rules =
     add_default_rules env (n + 1) rest
       (if row_get ar_code (fst data) rules = None then row_add (default_rule (on_uuid env n) data) rules else rules)"

definition ensure_default_alert_rules :: "ops_env \<Rightarrow> ops_db \<Rightarrow> ops_db" where
  "ensure_default_alert_rules env db = db\<lparr>op_rules := add_default_rules env 0 ALERT_DEFAULT_RULES (op_rules db)\<rparr>"

text \<open>The threshold arrives as text or number and is stored as text.\<close>

definition create_alert_rule :: "ops_env \<Rightarrow> alert_rule \<Rightarrow> json \<Rightarrow> ops_db \<Rightarrow> alert_rule \<times> ops_db" where
  "create_alert_rule env form threshold db =
     (let rule = form\<lparr>ar_id := on_uuid env 0, ar_threshold := scalar_text threshold\<rparr>
      in (rule, db\<lparr>op_rules := row_add rule (op_rules db)\<rparr>))"

definition value_text :: "metric_value \<Rightarrow> ustr" where
  "value_text v = (case v of Number n \<Rightarrow> int_text n | Listing t \<Rightarrow> t)"

text \<open>
  Comparing needs two integers: a list as the value or a threshold that is no number raises. The
  text compared by \<^verbatim>\<open>equals\<close> and \<^verbatim>\<open>contains\<close> is that of the parsed threshold.
\<close>

definition rule_matches :: "alert_rule \<Rightarrow> metric_value \<Rightarrow> ops_error + bool" where
  "rule_matches rule v =
     (let parsed = py_int_of (ar_threshold rule);
          shown = (case parsed of Some n \<Rightarrow> int_text n | None \<Rightarrow> ar_threshold rule);
          compared = (\<lambda>f. case v of Listing _ \<Rightarrow> Inl BadInteger
                          | Number n \<Rightarrow> (case parsed of None \<Rightarrow> Inl BadInteger | Some t \<Rightarrow> Inr (f n t)))
      in if ar_condition rule = (asc ''equals'') then Inr (value_text v = shown)
         else if ar_condition rule = (asc ''gte'') then compared (\<lambda>n t. t \<le> n)
         else if ar_condition rule = (asc ''lte'') then compared (\<lambda>n t. n \<le> t)
         else if ar_condition rule = (asc ''contains'') then Inr (occurs shown (value_text v))
         else Inr False)"

definition fire_rule :: "incident list \<Rightarrow> ops_env \<Rightarrow> nat \<Rightarrow> int \<Rightarrow> alert_rule \<Rightarrow> ops_db \<Rightarrow> ops_db" where
  "fire_rule seen env n risk rule db =
     (let message = [0x6307, 0x6807, 0x20] @ ar_metric rule @ [0x20, 0x547D, 0x4E2D, 0x89C4, 0x5219, 0x20] @ ar_condition rule @ (asc '' '') @ ar_threshold rule;
          title = ar_name rule @ [0x89E6, 0x53D1];
          r = get_or_create_incident seen (on_uuid env n) ((asc ''ALERT_'') @ upper (ar_code rule)) [0x544A, 0x8B66, 0x89C4, 0x5219, 0x89E6, 0x53D1]
                (ar_severity rule) title message [(asc ''metric:'') @ ar_metric rule] risk (Some (ar_action rule))
                (Some (asc ''observability-alert'')) db;
          db1 = snd r
      in db1\<lparr>op_alerts := row_add \<lparr>ae_rule = ar_id rule, ae_incident = ic_id (fst r), ae_status = [0x5DF2, 0x89E6, 0x53D1],
                 ae_title = title, ae_message = message, ae_severity = ar_severity rule, ae_action = ar_action rule\<rparr>
               (op_alerts db1),
             op_anomalies := row_add \<lparr>an_metric = ar_metric rule, an_rule = ar_code rule, an_severity = ar_severity rule,
                 an_status = [0x65B0, 0x53D1, 0x73B0], an_title = ar_name rule @ [0x5F02, 0x5E38],
                 an_description = [0x89C4, 0x5219, 0x20] @ ar_code rule @ [0x20, 0x5DF2, 0x89E6, 0x53D1]\<rparr> (op_anomalies db1)\<rparr>)"

fun fire_rules ::
  "incident list \<Rightarrow> ops_env \<Rightarrow> nat \<Rightarrow> int \<Rightarrow> (ustr \<times> metric_value) list \<Rightarrow> alert_rule list \<Rightarrow> ops_db
     \<Rightarrow> ops_error + ops_db"
where
  "fire_rules seen env n risk overview [] db = Inr db"
| "fire_rules seen env n risk overview (rule # rules) db =
     (case map_of overview (ar_metric rule) of
        None \<Rightarrow> fire_rules seen env (n + 1) risk overview rules db
      | Some v \<Rightarrow>
          (case rule_matches rule v of
             Inl e \<Rightarrow> Inl e
           | Inr hit \<Rightarrow> fire_rules seen env (n + 1) risk overview rules (if hit then fire_rule seen env n risk rule db else db)))"

text \<open>
  The flush at the end: two rules of this round whose codes agree in capitals have each added an incident
  of the same code, which its unique column refuses.
\<close>

definition flush_incidents :: "ops_db \<Rightarrow> ops_db \<Rightarrow> ops_error + ops_db" where
  "flush_incidents old db =
     (if distinct (map ic_code (drop (length (op_incidents old)) (op_incidents db))) then Inr db else Inl DuplicateIncident)"

definition evaluate_alerts_and_anomalies :: "ops_env \<Rightarrow> ops_db \<Rightarrow> ops_error + ops_db" where
  "evaluate_alerts_and_anomalies env db =
     (case fire_rules (op_incidents db) env 1 (max_risk db) (build_overview env db) (filter ar_enabled (op_rules db)) db of
        Inl e \<Rightarrow> Inl e
      | Inr db1 \<Rightarrow> flush_incidents db db1)"

section \<open>The automatic pause\<close>

definition pause_workflows :: "run_tables \<Rightarrow> run_tables" where
  "pause_workflows db = db\<lparr>ru_workflows :=
     map (\<lambda>w. if wf_status w \<in> {[0x6267, 0x884C, 0x4E2D], [0x7B49, 0x5F85, 0x5173, 0x952E, 0x8282, 0x70B9, 0x786E, 0x8BA4]}
              then w\<lparr>wf_status := [0x5DF2, 0x6682, 0x505C], wf_stop := Some [0x9AD8, 0x98CE, 0x9669, 0x81EA, 0x52A8, 0x6682, 0x505C]\<rparr> else w) (ru_workflows db)\<rparr>"

definition pause_sessions :: "run_tables \<Rightarrow> run_tables" where
  "pause_sessions db = db\<lparr>ru_sessions :=
     map (\<lambda>s. if cs_status s \<in> {[0x6267, 0x884C, 0x4E2D], [0x7B49, 0x5F85, 0x63A5, 0x7BA1], [0x5DF2, 0x521B, 0x5EFA]}
              then s\<lparr>cs_status := [0x5DF2, 0x6682, 0x505C], cs_takeover := [0x7B49, 0x5F85, 0x4EBA, 0x5DE5, 0x63A5, 0x7BA1]\<rparr> else s) (ru_sessions db)\<rparr>"

definition maybe_auto_pause :: "ops_env \<Rightarrow> ops_db \<Rightarrow> ops_error + ops_db" where
  "maybe_auto_pause env db =
     (let risk = max_risk db; trace = Some (asc ''observability-auto-pause''); evidence = [(asc ''metric:max_risk_score'')]
      in case on_settings env (asc ''AUTOMATIC_PAUSE_ENABLED'') of
           None \<Rightarrow> Inl (MissingSetting (asc ''AUTOMATIC_PAUSE_ENABLED''))
         | Some False \<Rightarrow> Inr db
         | Some True \<Rightarrow> Inr (
         if 90 \<le> risk then
           snd (get_or_create_incident (op_incidents db) (on_uuid env 0) (asc ''AUTO_PAUSE_RISK_90'') [0x9AD8, 0x98CE, 0x9669, 0x81EA, 0x52A8, 0x6682, 0x505C] [0x9AD8] [0x6781, 0x9AD8, 0x98CE, 0x9669, 0x81EA, 0x52A8, 0x7194, 0x65AD]
                  [0x98CE, 0x9669, 0x5206, 0x6570, 0x8FBE, 0x5230, 0x6781, 0x9AD8, 0xFF0C, 0x5DF2, 0x81EA, 0x52A8, 0x6682, 0x505C, 0x76F8, 0x5173, 0x4F1A, 0x8BDD, 0x4E0E, 0x5DE5, 0x4F5C, 0x6D41, 0x3002] evidence risk (Some [0x6682, 0x505C, 0x4F1A, 0x8BDD, 0x2F, 0x5DE5, 0x4F5C, 0x6D41]) trace
                  (db\<lparr>op_runs := pause_sessions (pause_workflows (op_runs db))\<rparr>))
         else if 70 \<le> risk then
           snd (get_or_create_incident (op_incidents db) (on_uuid env 0) (asc ''AUTO_PAUSE_RISK_70'') [0x9AD8, 0x98CE, 0x9669, 0x81EA, 0x52A8, 0x6682, 0x505C] [0x4E2D] [0x9AD8, 0x98CE, 0x9669, 0x81EA, 0x52A8, 0x6682, 0x505C]
                  [0x98CE, 0x9669, 0x5206, 0x6570, 0x8FBE, 0x5230, 0x9AD8, 0xFF0C, 0x5DF2, 0x81EA, 0x52A8, 0x6682, 0x505C, 0x5F53, 0x524D, 0x5DE5, 0x4F5C, 0x6D41, 0x3002] evidence risk (Some [0x6682, 0x505C, 0x5DE5, 0x4F5C, 0x6D41]) trace
                  (db\<lparr>op_runs := pause_workflows (op_runs db)\<rparr>))
         else db))"

text \<open>One collection round; nothing is committed when a rule raises or the switch cannot be read.\<close>

definition collect_scores :: "ops_env \<Rightarrow> ops_db \<Rightarrow> ops_db" where
  "collect_scores env db =
     collect_device_health_scores env (collect_risk_scores (collect_quality_scores
       (collect_device_metrics env (ensure_default_alert_rules env db))))"

definition collect_all :: "ops_env \<Rightarrow> ops_db \<Rightarrow> ops_error + ops_db" where
  "collect_all env db =
     (case evaluate_alerts_and_anomalies env (collect_scores env db) of
        Inl e \<Rightarrow> Inl e
      | Inr db1 \<Rightarrow> maybe_auto_pause env db1)"

section \<open>Circuit breakers\<close>

definition get_breaker :: "ustr \<Rightarrow> ustr \<Rightarrow> ops_db \<Rightarrow> breaker option" where
  "get_breaker scope key db = row_get (\<lambda>b. (br_scope b, br_key b)) (scope, key) (op_breakers db)"

definition find_or_create_breaker :: "ustr \<Rightarrow> ustr \<Rightarrow> ustr \<Rightarrow> ustr option \<Rightarrow> ops_db \<Rightarrow> breaker \<times> ops_db" where
  "find_or_create_breaker i scope key trace db =
     (case get_breaker scope key db of
        Some b \<Rightarrow> (b, db)
      | None \<Rightarrow>
          let b = \<lparr>br_id = i, br_scope = scope, br_key = key, br_status = [0x6B63, 0x5E38], br_reason = [0x521D, 0x59CB, 0x521B, 0x5EFA],
                   br_count = 0, br_risk = 0, br_triggered = None, br_reset = None, br_manual = True, br_trace = trace\<rparr>
          in (b, db\<lparr>op_breakers := row_add b (op_breakers db)\<rparr>))"

definition trigger_breaker ::
  "ops_env \<Rightarrow> ustr \<Rightarrow> ustr \<Rightarrow> int \<Rightarrow> ustr \<Rightarrow> ustr option \<Rightarrow> bool \<Rightarrow> ops_db \<Rightarrow> breaker \<times> ops_db"
where
  "trigger_breaker env scope key risk reason trace manual db =
     (let r = find_or_create_breaker (on_uuid env 0) scope key trace db; b = fst r; db1 = snd r;
          b1 = b\<lparr>br_status := (if 90 \<le> risk then [0x5DF2, 0x7194, 0x65AD] else [0x8B66, 0x544A]), br_reason := reason,
                 br_count := br_count b + 1, br_risk := max (br_risk b) risk, br_triggered := Some (on_now env),
                 br_manual := manual, br_trace := (if trace \<in> {None, Some []} then br_trace b else trace)\<rparr>
      in (b1, db1\<lparr>op_breakers := row_put (\<lambda>b. (br_scope b, br_key b)) b1 (op_breakers db1)\<rparr>))"

definition reset_circuit_breaker :: "ops_env \<Rightarrow> ustr \<Rightarrow> ops_db \<Rightarrow> (ops_error + breaker) \<times> ops_db" where
  "reset_circuit_breaker env i db =
     (case row_get br_id i (op_breakers db) of
        None \<Rightarrow> (Inl (OpsNotFound [0x7194, 0x65AD, 0x5668, 0x4E0D, 0x5B58, 0x5728]), db)
      | Some b \<Rightarrow>
          let b1 = b\<lparr>br_status := [0x6B63, 0x5E38], br_reset := Some (on_now env), br_reason := [0x4EBA, 0x5DE5, 0x6062, 0x590D], br_manual := True\<rparr>
          in (Inr b1, db\<lparr>op_breakers := row_put br_id b1 (op_breakers db)\<rparr>))"

end
