(* ===== verification/Ops_Claims.thy ===== *)
theory Ops_Claims
  imports Ops_Alerts Device_Machine
begin

text \<open>
  The properties of scoring, alerting and pausing, and one that joins them to the device center: what
  a device's security log can ever say to the device metrics.
\<close>

section \<open>Score tables\<close>

definition quality_ok :: "score_row \<Rightarrow> bool" where
  "quality_ok r \<longleftrightarrow> 0 \<le> sr_score r \<and> sr_score r \<le> 100 \<and> sr_grade r = human_grade_from_score (sr_score r)"

definition risk_ok :: "score_row \<Rightarrow> bool" where
  "risk_ok r \<longleftrightarrow> 0 \<le> sr_score r \<and> sr_score r \<le> 100 \<and> sr_grade r = risk_grade_from_score (sr_score r)"

definition health_ok :: "health_row \<Rightarrow> bool" where
  "health_ok r \<longleftrightarrow> 0 \<le> hr_score r \<and> hr_score r \<le> 100 \<and> hr_grade r = device_health_grade (hr_score r) \<and> hr_reasons r \<noteq> []"

definition scores_ok :: "ops_db \<Rightarrow> bool" where
  "scores_ok db \<longleftrightarrow> list_all quality_ok (op_quality db) \<and> list_all risk_ok (op_risk db) \<and> list_all health_ok (op_health db)"

definition times_ok :: "ops_db \<Rightarrow> bool" where
  "times_ok db \<longleftrightarrow> list_all (\<lambda>a. case ca_duration a of None \<Rightarrow> True | Some d \<Rightarrow> 0 \<le> d) (ru_actions (op_runs db))"

lemma set_row_upsert: "x \<in> set (row_upsert key r t) \<Longrightarrow> x = r \<or> x \<in> set t"
  by (auto simp: row_upsert_def dest: in_row_put split: if_splits)

lemma upsert_fold_all: "list_all p rows \<Longrightarrow> list_all p t \<Longrightarrow> list_all p (fold (row_upsert key) rows t)"
proof (induction rows arbitrary: t)
  case (Cons r rows)
  have "list_all p (row_upsert key r t)"
    using Cons.prems set_row_upsert [of _ key r t] by (auto simp: list_all_iff)
  with Cons show ?case by simp
qed simp

lemma upsert_in: "r \<in> set (row_upsert key r t)"
proof (cases "row_get key (key r) t")
  case (Some y)
  then have "y \<in> set t" "key y = key r" by (auto dest: row_get_in row_get_key)
  with Some show ?thesis by (auto simp: row_upsert_def row_put_def image_iff intro!: bexI [of _ y])
qed (simp add: row_upsert_def)

lemma upsert_keeps: "x \<in> set t \<Longrightarrow> key x \<noteq> key r \<Longrightarrow> x \<in> set (row_upsert key r t)"
  by (auto simp: row_upsert_def row_put_def image_iff intro!: bexI [of _ x])

lemma upsert_fold_in: "x \<in> set t \<or> x \<in> set rows \<Longrightarrow> list_all (\<lambda>r. key r = key x \<longrightarrow> r = x) rows \<Longrightarrow>
    x \<in> set (fold (row_upsert key) rows t)"
proof (induction rows arbitrary: t)
  case (Cons r rows)
  have "x \<in> set (row_upsert key r t) \<or> x \<in> set rows"
    using Cons.prems upsert_in [of r key t] upsert_keeps [of x t key r] by auto
  with Cons show ?case by simp
qed simp

subsection \<open>What the later stages leave alone\<close>

lemma incident_simps [simp]:
  "op_runs (snd (get_or_create_incident se i c k s t d e r a tr db)) = op_runs db"
  "op_quality (snd (get_or_create_incident se i c k s t d e r a tr db)) = op_quality db"
  "op_risk (snd (get_or_create_incident se i c k s t d e r a tr db)) = op_risk db"
  "op_health (snd (get_or_create_incident se i c k s t d e r a tr db)) = op_health db"
  by (simp_all add: get_or_create_incident_def Let_def split: option.splits)

lemma fire_rule_simps [simp]:
  "op_runs (fire_rule se env n r rule db) = op_runs db" "op_quality (fire_rule se env n r rule db) = op_quality db"
  "op_risk (fire_rule se env n r rule db) = op_risk db" "op_health (fire_rule se env n r rule db) = op_health db"
  by (simp_all add: fire_rule_def Let_def)

lemma fire_rules_same:
  "fire_rules se env n r ov rules db = Inr db1 \<Longrightarrow>
     op_runs db1 = op_runs db \<and> op_quality db1 = op_quality db \<and> op_risk db1 = op_risk db \<and> op_health db1 = op_health db"
proof (induction env n r ov rules db rule: fire_rules.induct)
  case (2 se env n risk overview rule rules db)
  show ?case
  proof (cases "map_of overview (ar_metric rule)")
    case None
    with 2 show ?thesis by simp
  next
    case (Some v)
    with 2 show ?thesis by (cases "rule_matches rule v") (auto split: if_splits)
  qed
qed simp

lemma evaluate_fired:
  "evaluate_alerts_and_anomalies env db = Inr db1 \<Longrightarrow>
     fire_rules (op_incidents db) env 1 (max_risk db) (build_overview env db) (filter ar_enabled (op_rules db)) db = Inr db1"
  by (auto simp: evaluate_alerts_and_anomalies_def flush_incidents_def split: sum.splits if_splits)

lemma evaluate_same:
  "evaluate_alerts_and_anomalies env db = Inr db1 \<Longrightarrow>
     op_runs db1 = op_runs db \<and> op_quality db1 = op_quality db \<and> op_risk db1 = op_risk db \<and> op_health db1 = op_health db"
  by (rule fire_rules_same [OF evaluate_fired])

lemma pause_same:
  "maybe_auto_pause env db = Inr db1 \<Longrightarrow> op_quality db1 = op_quality db \<and> op_risk db1 = op_risk db \<and> op_health db1 = op_health db"
  by (auto simp: maybe_auto_pause_def Let_def split: option.splits bool.splits if_splits)

lemma collect_simps [simp]:
  "op_runs (collect_scores env db) = op_runs db"
  "op_risk (collect_scores env db) = op_risk (collect_risk_scores db)"
  "op_quality (collect_scores env db) = op_quality (collect_quality_scores db)"
  by (simp_all add: collect_scores_def collect_device_health_scores_def collect_risk_scores_def
      collect_quality_scores_def collect_device_metrics_def ensure_default_alert_rules_def Let_def)

lemma collect_all_cases:
  assumes "collect_all env db = Inr db1"
  obtains db0 where "op_runs db0 = op_runs db" "op_quality db0 = op_quality (collect_quality_scores db)"
    "op_risk db0 = op_risk (collect_risk_scores db)" "op_health db0 = op_health (collect_scores env db)"
    "maybe_auto_pause env db0 = Inr db1"
proof (cases "evaluate_alerts_and_anomalies env (collect_scores env db)")
  case (Inl e)
  with assms show ?thesis by (simp add: collect_all_def)
next
  case (Inr db0)
  with assms evaluate_same [OF Inr] show ?thesis by (intro that [of db0]) (simp_all add: collect_all_def)
qed

lemma collect_frames:
  "op_metrics (collect_quality_scores d) = op_metrics d" "op_metrics (collect_risk_scores d) = op_metrics d"
  "op_health (collect_quality_scores d) = op_health d" "op_health (collect_risk_scores d) = op_health d"
  "op_health (collect_device_metrics env d) = op_health d" "op_health (ensure_default_alert_rules env d) = op_health d"
  by (simp_all add: collect_quality_scores_def collect_risk_scores_def collect_device_metrics_def
      ensure_default_alert_rules_def Let_def del: fold_map)

lemma health_after: "op_health (collect_device_health_scores env d) =
    fold (row_upsert hr_device) (map (health_row_of (on_now env)) (op_metrics d)) (op_health d)"
  by (simp add: collect_device_health_scores_def del: fold_map)

lemma collect_scores_health:
  "op_health (collect_scores env db) =
     fold (row_upsert hr_device)
       (map (health_row_of (on_now env)) (op_metrics (collect_device_metrics env (ensure_default_alert_rules env db))))
       (op_health db)"
  by (simp only: collect_scores_def health_after collect_frames)

text \<open>
  C30: a collection round keeps every quality, risk and health score between 0 and 100 and its grade
  the one of its score, as long as no recorded duration is negative.
\<close>

theorem collected_scores_in_range:
  assumes "scores_ok db" and "times_ok db" and "collect_all env db = Inr db1"
  shows "scores_ok db1"
proof -
  let ?w = "workflow_metrics (op_runs db)"
  let ?s = "session_metrics (op_runs db)"
  have m: "metrics_ok (?w w)" "metrics_ok (?s s)" for w s
    using assms(2) by (simp_all add: workflow_metrics_ok session_metrics_ok times_ok_def)
  have q: "quality_ok (quality_row k i m)" if "metrics_ok m" for k i m
    using quality_bounds [OF that] by (simp add: quality_ok_def quality_row_def)
  have r: "risk_ok (risk_row k i m (risk_base l))" if "metrics_ok m" for k i m l
    using risk_bounds(2) [OF that, of "risk_base l"] risk_base_bounds [of l] by (simp add: risk_ok_def risk_row_def)
  from assms(1) have old: "list_all quality_ok (op_quality db)" "list_all risk_ok (op_risk db)" "list_all health_ok (op_health db)"
    by (simp_all add: scores_ok_def)
  have "list_all quality_ok (op_quality (collect_quality_scores db))"
  proof -
    have "list_all quality_ok (quality_rows (op_runs db))"
      by (auto simp: quality_rows_def list_all_iff m q)
    from upsert_fold_all [OF this old(1)] show ?thesis by (simp add: collect_quality_scores_def)
  qed
  moreover have "list_all risk_ok (op_risk (collect_risk_scores db))"
  proof -
    have "list_all risk_ok (risk_rows (op_runs db))"
      by (auto simp: risk_rows_def list_all_iff m r)
    from upsert_fold_all [OF this old(2)] show ?thesis by (simp add: collect_risk_scores_def)
  qed
  moreover have "list_all health_ok (op_health (collect_scores env db))"
  proof -
    have h: "health_ok (health_row_of now x)" for now x
      unfolding health_ok_def health_row_of_def device_health_def Let_def by simp
    have "list_all health_ok (map (health_row_of (on_now env)) ms)" for ms
      by (simp add: list_all_iff h)
    from upsert_fold_all [OF this old(3)] show ?thesis
      unfolding collect_scores_health .
  qed
  ultimately show ?thesis
    using assms(3) by (auto elim!: collect_all_cases dest!: pause_same simp: scores_ok_def)
qed

section \<open>The automatic pause\<close>

lemma fold_max_ge: "x \<le> fold max xs (a::int)" if "x \<in> set xs \<or> x \<le> a"
  using that by (induction xs arbitrary: a) (auto simp: le_max_iff_disj)

lemma largest_ge: "x \<in> set xs \<Longrightarrow> x \<le> largest xs"
  using fold_max_ge [of x xs "hd xs"] by (auto simp: largest_def)

lemma incident_opened:
  "\<exists>x. row_get ic_code c (op_incidents (snd (get_or_create_incident (op_incidents db) i c k s t d e r a tr db))) = Some x \<and>
       ic_status x \<notin> {[0x5DF2, 0x89E3, 0x51B3], [0x5DF2, 0x5173, 0x95ED]} \<and> ic_risk x = r"
proof (cases "row_get ic_code c (op_incidents db)")
  case None
  then show ?thesis
    by (simp add: get_or_create_incident_def open_incident_def incident_table.add_fresh incident_table.get_add Let_def)
next
  case (Some old)
  then have "ic_code old = c" by (rule incident_table.get_key)
  with Some show ?thesis
    by (simp add: get_or_create_incident_def incident_table.get_put Let_def)
qed

text \<open>
  What the pause leaves of the workflows and sessions, and the incident it puts on record: nothing is left
  running or waiting at a checkpoint, every other workflow is the row it was.
\<close>

definition paused_state :: "run_tables \<Rightarrow> int \<Rightarrow> ops_db \<Rightarrow> bool" where
  "paused_state runs risk db \<longleftrightarrow>
    list_all (\<lambda>v. wf_status v \<notin> {[0x6267, 0x884C, 0x4E2D], [0x7B49, 0x5F85, 0x5173, 0x952E, 0x8282, 0x70B9, 0x786E, 0x8BA4]}) (ru_workflows (op_runs db)) \<and>
    list_all (\<lambda>s. cs_status s \<notin> {[0x6267, 0x884C, 0x4E2D], [0x7B49, 0x5F85, 0x63A5, 0x7BA1], [0x5DF2, 0x521B, 0x5EFA]}) (ru_sessions (op_runs db)) \<and>
    list_all2 (\<lambda>old new. if wf_status old \<in> {[0x6267, 0x884C, 0x4E2D], [0x7B49, 0x5F85, 0x5173, 0x952E, 0x8282, 0x70B9, 0x786E, 0x8BA4]}
                          then wf_status new = [0x5DF2, 0x6682, 0x505C] else new = old)
      (ru_workflows runs) (ru_workflows (op_runs db)) \<and>
    (case row_get ic_code (asc ''AUTO_PAUSE_RISK_90'') (op_incidents db) of
       None \<Rightarrow> False
     | Some x \<Rightarrow> ic_status x \<notin> {[0x5DF2, 0x89E3, 0x51B3], [0x5DF2, 0x5173, 0x95ED]} \<and> risk \<le> ic_risk x)"

lemma risky_workflow_pauses:
  assumes "collect_all env db = Inr db1" and "on_settings env (asc ''AUTOMATIC_PAUSE_ENABLED'') = Some True"
    and "w \<in> set (ru_workflows (op_runs db))" and "distinct (map wf_id (ru_workflows (op_runs db)))"
    and "90 \<le> risk_score (workflow_metrics (op_runs db) w) (risk_base (wf_risk w))"
  shows "paused_state (op_runs db) (risk_score (workflow_metrics (op_runs db) w) (risk_base (wf_risk w))) db1"
proof -
  obtain db0 where runs: "op_runs db0 = op_runs db" and risk: "op_risk db0 = op_risk (collect_risk_scores db)"
    and db1: "maybe_auto_pause env db0 = Inr db1"
    using assms(1) by (rule collect_all_cases)
  define row where "row = risk_row (asc ''workflow'') (wf_id w) (workflow_metrics (op_runs db) w) (risk_base (wf_risk w))"
  have "row \<in> set (risk_rows (op_runs db))"
    using assms(3) by (auto simp: risk_rows_def row_def)
  moreover have "list_all (\<lambda>r. run_key r = run_key row \<longrightarrow> r = row) (risk_rows (op_runs db))"
    using assms(3,4) unfolding risk_rows_def row_def
    by (auto simp: list_all_iff run_key_def risk_row_def inj_on_eq_iff [OF distinct_map [THEN iffD1, THEN conjunct2]])
  ultimately have "row \<in> set (op_risk db0)"
    unfolding risk collect_risk_scores_def by (simp add: upsert_fold_in)
  then have le: "risk_score (workflow_metrics (op_runs db) w) (risk_base (wf_risk w)) \<le> max_risk db0"
    unfolding max_risk_def by (intro largest_ge) (auto simp: row_def risk_row_def image_iff intro!: bexI [of _ row])
  let ?paused = "db0\<lparr>op_runs := pause_sessions (pause_workflows (op_runs db0))\<rparr>"
  have auto_pause: "db1 = snd (get_or_create_incident (op_incidents db0) (on_uuid env 0) (asc ''AUTO_PAUSE_RISK_90'') [0x9AD8, 0x98CE, 0x9669, 0x81EA, 0x52A8, 0x6682, 0x505C] [0x9AD8]
      [0x6781, 0x9AD8, 0x98CE, 0x9669, 0x81EA, 0x52A8, 0x7194, 0x65AD] [0x98CE, 0x9669, 0x5206, 0x6570, 0x8FBE, 0x5230, 0x6781, 0x9AD8, 0xFF0C, 0x5DF2, 0x81EA, 0x52A8, 0x6682, 0x505C, 0x76F8, 0x5173, 0x4F1A, 0x8BDD, 0x4E0E, 0x5DE5, 0x4F5C, 0x6D41, 0x3002] [(asc ''metric:max_risk_score'')] (max_risk db0)
      (Some [0x6682, 0x505C, 0x4F1A, 0x8BDD, 0x2F, 0x5DE5, 0x4F5C, 0x6D41]) (Some (asc ''observability-auto-pause'')) ?paused)"
    using assms(2,5) le db1 by (simp add: maybe_auto_pause_def Let_def)
  then have tables: "op_runs db1 = pause_sessions (pause_workflows (op_runs db))"
    by (simp add: runs)
  have found: "\<exists>x. row_get ic_code (asc ''AUTO_PAUSE_RISK_90'') (op_incidents db1) = Some x \<and>
      ic_status x \<notin> {[0x5DF2, 0x89E3, 0x51B3], [0x5DF2, 0x5173, 0x95ED]} \<and> ic_risk x = max_risk db0"
    unfolding auto_pause using incident_opened [where db = ?paused] by simp
  have "list_all (\<lambda>v. wf_status v \<notin> {[0x6267, 0x884C, 0x4E2D], [0x7B49, 0x5F85, 0x5173, 0x952E, 0x8282, 0x70B9, 0x786E, 0x8BA4]}) (ru_workflows (op_runs db1))"
    unfolding tables pause_sessions_def pause_workflows_def by (auto simp: list_all_iff)
  moreover have "list_all (\<lambda>s. cs_status s \<notin> {[0x6267, 0x884C, 0x4E2D], [0x7B49, 0x5F85, 0x63A5, 0x7BA1], [0x5DF2, 0x521B, 0x5EFA]}) (ru_sessions (op_runs db1))"
    unfolding tables pause_sessions_def pause_workflows_def by (auto simp: list_all_iff)
  moreover have "list_all2 (\<lambda>old new. if wf_status old \<in> {[0x6267, 0x884C, 0x4E2D], [0x7B49, 0x5F85, 0x5173, 0x952E, 0x8282, 0x70B9, 0x786E, 0x8BA4]}
                          then wf_status new = [0x5DF2, 0x6682, 0x505C] else new = old)
      (ru_workflows (op_runs db)) (ru_workflows (op_runs db1))"
    unfolding tables pause_sessions_def pause_workflows_def by (simp add: list_all2_map2 list.rel_refl)
  ultimately show ?thesis using found le by (auto simp: paused_state_def)
qed

lemma collect_all_failure:
  assumes "collect_all env db = Inl e"
  shows "evaluate_alerts_and_anomalies env (collect_scores env db) = Inl e \<or>
         on_settings env (asc ''AUTOMATIC_PAUSE_ENABLED'') = None"
  using assms by (auto simp: collect_all_def maybe_auto_pause_def Let_def split: sum.splits option.splits bool.splits)

lemma collect_all_off:
  "collect_all env db = Inr db1 \<Longrightarrow> on_settings env (asc ''AUTOMATIC_PAUSE_ENABLED'') = Some False \<Longrightarrow> op_runs db1 = op_runs db"
  by (erule collect_all_cases) (simp add: maybe_auto_pause_def Let_def)

text \<open>Without the switch the round always fails, after the alerts have been evaluated.\<close>

lemma round_without_switch:
  assumes "on_settings env (asc ''AUTOMATIC_PAUSE_ENABLED'') = None"
  shows "\<exists>e. collect_all env db = Inl e"
  using assms by (auto simp: collect_all_def maybe_auto_pause_def Let_def split: sum.splits)

text \<open>
  The settings of the repository lack the switch: no round of the program as it is configured commits.
\<close>

lemma shipped_round_never_commits:
  assumes "\<And>name. name \<notin> set SETTINGS_SWITCHES \<Longrightarrow> on_settings env name = None"
  shows "\<exists>e. collect_all env db = Inl e"
proof -
  have "list_all (\<lambda>s. s \<noteq> asc ''AUTOMATIC_PAUSE_ENABLED'') SETTINGS_SWITCHES" by code_simp
  then show ?thesis by (intro round_without_switch assms) (auto simp: list_all_iff)
qed

text \<open>
  C4: what a collection round does about a workflow whose risk it counts as 90 or more. With
  \<^verbatim>\<open>AUTOMATIC_PAUSE_ENABLED\<close> on, the round leaves no workflow running or waiting at a checkpoint and no
  session running, created or waiting for a takeover, every other workflow is the row it was, and an
  unresolved incident of the automatic pause is on record with that risk or more; it fails only where the
  alert rules fail. With the switch off, workflows and sessions are untouched. Where the settings lack the
  switch, as those of the repository do, every round fails and nothing is committed.
\<close>

theorem risky_workflow_pauses_everything:
  assumes "w \<in> set (ru_workflows (op_runs db))" and "distinct (map wf_id (ru_workflows (op_runs db)))"
    and "90 \<le> risk_score (workflow_metrics (op_runs db) w) (risk_base (wf_risk w))"
  shows "case (on_settings env (asc ''AUTOMATIC_PAUSE_ENABLED''), collect_all env db) of
      (None, Inr _) \<Rightarrow> False
    | (None, Inl _) \<Rightarrow> True
    | (Some on, Inl e) \<Rightarrow> evaluate_alerts_and_anomalies env (collect_scores env db) = Inl e
    | (Some on, Inr db1) \<Rightarrow>
        if on then paused_state (op_runs db) (risk_score (workflow_metrics (op_runs db) w) (risk_base (wf_risk w))) db1
        else op_runs db1 = op_runs db"
proof (cases "on_settings env (asc ''AUTOMATIC_PAUSE_ENABLED'')")
  case None
  with round_without_switch [OF None, of db] show ?thesis by auto
next
  case (Some on)
  show ?thesis
  proof (cases "collect_all env db")
    case (Inl e)
    with Some collect_all_failure [OF Inl] show ?thesis by simp
  next
    case (Inr db1)
    with Some risky_workflow_pauses [OF Inr _ assms] collect_all_off [OF Inr] show ?thesis by simp
  qed
qed

section \<open>Alerts\<close>

definition overview_keys :: "ustr list" where
  "overview_keys = [(asc ''online_test_devices''), (asc ''running_workflows''), (asc ''today_executions''), (asc ''today_success_rate''),
     (asc ''average_quality_score''), (asc ''current_high_risk''), (asc ''unhandled_security_incidents''), (asc ''triggered_breakers''),
     (asc ''latest_alerts''), (asc ''device_count''), (asc ''session_count''), (asc ''workflow_count''), (asc ''max_risk_score''),
     (asc ''max_quality_score''), (asc ''average_risk_score''), (asc ''incident_count'')]"

lemma overview_keys: "map fst (build_overview env db) = overview_keys"
  by (simp add: build_overview_def overview_keys_def Let_def)

definition default_metrics :: "ustr list" where
  "default_metrics = map (\<lambda>(_, _, metric, _). metric) ALERT_DEFAULT_RULES"

lemma default_metrics_unknown: "list_all (\<lambda>m. m \<notin> set overview_keys) default_metrics"
  by code_simp

lemma fire_rules_nothing:
  "list_all (\<lambda>r. map_of ov (ar_metric r) = None) rules \<Longrightarrow> fire_rules se env n risk ov rules db = Inr db"
  by (induction rules arbitrary: n) auto

lemma default_rules_silent:
  assumes "list_all (\<lambda>r. ar_metric r \<in> set default_metrics) (op_rules db)"
  shows "evaluate_alerts_and_anomalies env db = Inr db"
proof -
  have "map_of (build_overview env db) m = None" if "m \<in> set default_metrics" for m
    using that default_metrics_unknown overview_keys [of env db]
    by (auto simp: map_of_eq_None_iff list_all_iff simp flip: set_map)
  with assms have "fire_rules (op_incidents db) env 1 (max_risk db) (build_overview env db) (filter ar_enabled (op_rules db)) db = Inr db"
    by (intro fire_rules_nothing) (auto simp: list_all_iff)
  then show ?thesis by (simp add: evaluate_alerts_and_anomalies_def flush_incidents_def)
qed

text \<open>
  C32: the default alert rules never fire. Every one of them names a metric the overview does not
  have, so as long as all rules watch default metrics, evaluating them raises no alert, no incident and
  no anomaly, whatever has happened to devices, workflows and scores.
\<close>

theorem default_alerts_never_fire:
  assumes "list_all (\<lambda>r. ar_metric r \<in> set default_metrics) (op_rules db)"
  shows "evaluate_alerts_and_anomalies env db = Inr db"
  using assms by (rule default_rules_silent)

text \<open>
  A numeric threshold survives its storage as text: a rule created with an integer threshold
  compares every metric with exactly that integer.
\<close>

theorem threshold_survives_storage:
  "rule_matches (fst (create_alert_rule env (form\<lparr>ar_condition := (asc ''gte'')\<rparr>) (JInt t) db)) (Number v) = Inr (t \<le> v) \<and>
   rule_matches (fst (create_alert_rule env (form\<lparr>ar_condition := (asc ''lte'')\<rparr>) (JInt t) db)) (Number v) = Inr (v \<le> t) \<and>
   rule_matches (fst (create_alert_rule env (form\<lparr>ar_condition := (asc ''equals'')\<rparr>) (JInt t) db)) (Number v) = Inr (v = t)"
  by (simp add: create_alert_rule_def rule_matches_def parse_int_text value_text_def Let_def)

section \<open>Circuit breakers\<close>

text \<open>
  A tripped breaker does not stay tripped. The next trigger with a risk below 90 turns it into a
  mere warning, without any reset and with whatever manual-reset flag the caller passes, although its
  recorded risk stays at the level that tripped it.
\<close>

theorem low_risk_trigger_untrips:
  assumes "get_breaker scope key db = Some b" and "br_status b = [0x5DF2, 0x7194, 0x65AD]" and "90 \<le> br_risk b" and "risk < 90"
  shows "(case get_breaker scope key (snd (trigger_breaker env scope key risk reason trace manual db)) of
      None \<Rightarrow> False
    | Some c \<Rightarrow> br_status c = [0x8B66, 0x544A] \<and> br_risk c = br_risk b \<and> br_reset c = br_reset b \<and> br_manual c = manual)"
proof -
  let ?k = "\<lambda>b. (br_scope b, br_key b)"
  from assms(1) have k: "br_scope b = scope" "br_key b = key"
    unfolding get_breaker_def by (auto dest: row_get_key)
  have "max (br_risk b) risk = br_risk b" using assms(3,4) by simp
  with assms(1) k show ?thesis
    unfolding trigger_breaker_def find_or_create_breaker_def
    using assms(4) by (simp add: get_breaker_def row_get_put Let_def)
qed

section \<open>What the device center tells the metrics\<close>

definition admin_codes :: "ustr list" where
  "admin_codes = [(asc ''DEVICE_APPROVED''), (asc ''DEVICE_DISABLED''), (asc ''DEVICE_REVOKED'')]"

definition log_ok :: "device_db \<Rightarrow> bool" where
  "log_ok db \<longleftrightarrow> list_all (\<lambda>e. sv_code e \<in> set admin_codes) (dc_security db)"

lemma log_ok_event [simp]:
  "log_ok (record_security_event env d ob c m r s t db) \<longleftrightarrow> log_ok db \<and> c \<in> set admin_codes"
  by (auto simp: log_ok_def record_security_event_def row_add_def)

lemma log_ok_frame [simp]: "log_ok (save_device d db) = log_ok db" "log_ok (db\<lparr>dc_credentials := cs\<rparr>) = log_ok db"
  by (simp_all add: log_ok_def)

lemma log_ok_same: "log_ok db \<Longrightarrow> dc_security db1 = dc_security db \<Longrightarrow> log_ok db1"
  by (simp add: log_ok_def)

lemma register_log: "dc_security (snd (register_device env f u db)) = dc_security db"
proof (cases rule: register_cases [of env f u db])
  case (admitted db1 token d c)
  have "dc_security db1 = dc_security db"
    using consume_simps(5) [of env "rf_token f" db] admitted(2) by simp
  with admitted show ?thesis by simp
qed simp_all

lemma heartbeat_log: "dc_security (snd (heartbeat_device env i f db)) = dc_security db"
  by (cases rule: heartbeat_cases [of env i f db]) simp_all

lemma observe_log: "dc_security (snd (create_observation env i f db)) = dc_security db"
  by (auto simp: create_observation_def Let_def split: option.splits sum.splits prod.splits)

lemma cancel_log: "dc_security (snd (cancel_observation env i r db)) = dc_security db"
  by (auto simp: cancel_observation_def Let_def split: option.splits)

lemma device_step_log: "log_ok db \<Longrightarrow> log_ok (device_step db (env, c))"
proof (cases c)
  case (Approve i u t n r)
  assume "log_ok db"
  with Approve show ?thesis
    by (auto simp: approve_device_def admin_codes_def Let_def split: option.splits)
next
  case (Disable i u r)
  assume "log_ok db"
  with Disable show ?thesis
    by (auto simp: disable_device_def admin_codes_def Let_def split: option.splits)
next
  case (Revoke i u r)
  assume "log_ok db"
  with Revoke show ?thesis
    by (auto simp: revoke_device_def admin_codes_def Let_def split: option.splits)
qed (auto elim!: log_ok_same simp: token_keeps register_log heartbeat_log observe_log cancel_log)

interpretation device_log: invariant_machine device_step log_ok
  by unfold_locales (metis device_step_log surj_pair)

lemma admin_codes_no_attack:
  "list_all (\<lambda>c. \<not> like_any (asc ''AUTH'') c \<and> \<not> like_any (asc ''REPLAY'') c \<and> \<not> like_any (asc ''EMERGENCY_STOP'') c) admin_codes"
  by code_simp

text \<open>
  Attacks on the device center leave no trace in the device metrics. After any sequence of
  requests, forged signatures and replayed nonces included, the counts of authentication failures,
  replay blocks and emergency stops of every device are 0; the errors counted for a device are the
  administrator's approvals, disablings and revocations.
\<close>

theorem attacks_leave_no_metric:
  "let db = run_events device_step (empty_devices staff) es; m = device_metrics now db workflows d
   in dm_auth m = 0 \<and> dm_replay m = 0 \<and> dm_stop m = 0 \<and> dm_failure_rate m = 0 \<and>
      dm_errors m = count (\<lambda>e. sv_device e = Some (dv_id d) \<and> sv_code e \<in> set admin_codes) (dc_security db)"
proof -
  define db where "db = run_events device_step (empty_devices staff) es"
  have "log_ok db"
    unfolding db_def by (rule device_log.run_inv) (simp add: log_ok_def empty_devices_def)
  then have codes: "sv_code e \<in> set admin_codes" if "e \<in> set (dc_security db)" for e
    using that by (simp add: log_ok_def list_all_iff)
  have none: "\<not> like_any (asc ''AUTH'') (sv_code e)" "\<not> like_any (asc ''REPLAY'') (sv_code e)" "\<not> like_any (asc ''EMERGENCY_STOP'') (sv_code e)"
    if "e \<in> set (dc_security db)" for e
    using codes [OF that] admin_codes_no_attack by (auto simp only: list_all_iff)
  have "filter (\<lambda>e. sv_device e = Some (dv_id d) \<and> sv_code e \<in> set admin_codes) (dc_security db) =
        filter (\<lambda>e. sv_device e = Some (dv_id d)) (dc_security db)"
    using codes by (intro filter_cong) auto
  then show ?thesis
    unfolding db_def [symmetric] Let_def
    by (simp add: device_metrics_def count_def none filter_empty_conv Let_def)
qed

section \<open>Witnesses\<close>

text \<open>A workflow of the highest risk level with two steps that ask for passwords, beside a quiet one.\<close>

definition demo_ops_env :: ops_env where
  "demo_ops_env = \<lparr>on_now = 0, on_uuid = (\<lambda>n. [int n]), on_settings = (\<lambda>_. Some True), on_print = (\<lambda>_. [])\<rparr>"

definition demo_workflow :: "ustr \<Rightarrow> ustr \<Rightarrow> workflow_row" where
  "demo_workflow i level = \<lparr>wf_id = i, wf_device = None, wf_status = [0x6267, 0x884C, 0x4E2D], wf_risk = level, wf_stop = None,
     wf_created = 0, wf_finished = None\<rparr>"

definition demo_step :: workflow_step where
  "demo_step = \<lparr>wst_workflow = [1], wst_action = [], wst_window = None, wst_input = Some [0x5BC6, 0x7801], wst_status = [],
     wst_started = None, wst_finished = None\<rparr>"

definition demo_runs :: run_tables where
  "demo_runs = \<lparr>ru_workflows = [demo_workflow [1] [0x6781, 0x9AD8, 0x98CE, 0x9669], demo_workflow [2] []], ru_steps = [demo_step, demo_step],
     ru_checkpoints = [], ru_verifications = [], ru_recoveries = [], ru_sessions = [], ru_actions = []\<rparr>"

definition demo_breaker :: breaker where
  "demo_breaker = \<lparr>br_id = [1], br_scope = [2], br_key = [3], br_status = [0x5DF2, 0x7194, 0x65AD], br_reason = [], br_count = 1,
     br_risk = 95, br_triggered = None, br_reset = None, br_manual = True, br_trace = None\<rparr>"

definition demo_ops :: ops_db where
  "demo_ops = \<lparr>op_runs = demo_runs, op_center = empty_devices [], op_metrics = [], op_quality = [], op_risk = [],
     op_health = [], op_rules = [], op_alerts = [], op_anomalies = [], op_incidents = [], op_breakers = [demo_breaker]\<rparr>"

lemma add_default_rules_all:
  "list_all p rules \<Longrightarrow> (\<And>i d. d \<in> set ds \<Longrightarrow> p (default_rule i d)) \<Longrightarrow> list_all p (add_default_rules env n ds rules)"
  by (induction env n ds rules rule: add_default_rules.induct) (auto simp: row_add_def)

lemma default_rule_metric: "ar_metric (default_rule i d) = (\<lambda>(_, _, metric, _). metric) d"
  by (simp add: default_rule_def split: prod.splits)

lemma default_rules_watch_defaults:
  "op_rules db = [] \<Longrightarrow> list_all (\<lambda>r. ar_metric r \<in> set default_metrics) (op_rules (ensure_default_alert_rules env db))"
proof -
  assume none: "op_rules db = []"
  have "list_all (\<lambda>r. ar_metric r \<in> set default_metrics) (add_default_rules env 0 ALERT_DEFAULT_RULES [])"
    by (rule add_default_rules_all) (simp_all only: default_rule_metric default_metrics_def set_map imageI list.pred_inject)
  with none show ?thesis by (simp add: ensure_default_alert_rules_def del: add_default_rules.simps)
qed

lemma default_alerts_never_fire_witness:
  "evaluate_alerts_and_anomalies demo_ops_env (ensure_default_alert_rules demo_ops_env demo_ops) =
     Inr (ensure_default_alert_rules demo_ops_env demo_ops)"
  by (rule default_alerts_never_fire) (rule default_rules_watch_defaults, simp add: demo_ops_def)

definition demo_round :: ops_db where
  "demo_round = (case collect_all demo_ops_env demo_ops of Inr db \<Rightarrow> db | Inl _ \<Rightarrow> demo_ops)"

lemma demo_collects: "collect_all demo_ops_env demo_ops = Inr demo_round"
proof -
  have "op_rules (collect_scores demo_ops_env demo_ops) = op_rules (ensure_default_alert_rules demo_ops_env demo_ops)"
    by (simp add: collect_scores_def collect_device_health_scores_def collect_risk_scores_def collect_quality_scores_def
        collect_device_metrics_def Let_def)
  then have "list_all (\<lambda>r. ar_metric r \<in> set default_metrics) (op_rules (collect_scores demo_ops_env demo_ops))"
    using default_rules_watch_defaults [of demo_ops demo_ops_env] by (simp add: demo_ops_def)
  then have "collect_all demo_ops_env demo_ops = maybe_auto_pause demo_ops_env (collect_scores demo_ops_env demo_ops)"
    by (simp add: collect_all_def default_rules_silent)
  moreover have "\<exists>db. maybe_auto_pause demo_ops_env (collect_scores demo_ops_env demo_ops) = Inr db"
    by (simp add: maybe_auto_pause_def demo_ops_env_def Let_def)
  ultimately show ?thesis by (auto simp: demo_round_def)
qed

lemma collected_scores_in_range_witness: "scores_ok demo_round"
  by (rule collected_scores_in_range [OF _ _ demo_collects])
    (simp_all add: scores_ok_def times_ok_def demo_ops_def demo_runs_def)

lemma demo_risk: "90 \<le> risk_score (workflow_metrics demo_runs (demo_workflow [1] [0x6781, 0x9AD8, 0x98CE, 0x9669])) (risk_base [0x6781, 0x9AD8, 0x98CE, 0x9669])"
proof -
  let ?m = "workflow_metrics demo_runs (demo_workflow [1] [0x6781, 0x9AD8, 0x98CE, 0x9669])"
  have "asks_secret (wst_input demo_step)" by code_simp
  moreover have "wst_workflow demo_step = [1]" "wst_status demo_step = []" "step_duration demo_step = []"
    by (simp_all add: demo_step_def step_duration_def)
  ultimately have "me_sensitive ?m = 2" "me_failure_rate ?m = 0" "me_verification_fail ?m = 0" "me_stop ?m = 0"
    "me_takeover ?m = 0" "me_budget ?m = 0" "me_duration ?m = 0"
    unfolding workflow_metrics_def Let_def
    by (simp_all add: demo_runs_def demo_workflow_def count_def rate_def percent_zero mean_int_def holds_text_def)
  then show ?thesis
    by (simp add: risk_score_def raw_risk_def risk_dimensions_def risk_base_def)
qed

lemma risky_workflow_pauses_everything_witness:
  "list_all (\<lambda>v. wf_status v \<notin> {[0x6267, 0x884C, 0x4E2D], [0x7B49, 0x5F85, 0x5173, 0x952E, 0x8282, 0x70B9, 0x786E, 0x8BA4]}) (ru_workflows (op_runs demo_round))"
proof -
  have runs: "op_runs demo_ops = demo_runs" "on_settings demo_ops_env = (\<lambda>_. Some True)"
    by (simp_all add: demo_ops_def demo_ops_env_def)
  have level: "wf_risk (demo_workflow [1] [0x6781, 0x9AD8, 0x98CE, 0x9669]) = [0x6781, 0x9AD8, 0x98CE, 0x9669]" by (simp add: demo_workflow_def)
  have "demo_workflow [1] [0x6781, 0x9AD8, 0x98CE, 0x9669] \<in> set (ru_workflows (op_runs demo_ops))"
    "distinct (map wf_id (ru_workflows (op_runs demo_ops)))"
    by (simp_all add: runs) (simp_all add: demo_runs_def demo_workflow_def)
  from risky_workflow_pauses_everything [OF this, where env = demo_ops_env] demo_risk
  show ?thesis by (simp add: runs level demo_collects paused_state_def)
qed

lemma low_risk_trigger_untrips_witness:
  "(case get_breaker [2] [3] (snd (trigger_breaker demo_ops_env [2] [3] 10 [] None False demo_ops)) of
      None \<Rightarrow> False
    | Some c \<Rightarrow> br_status c = [0x8B66, 0x544A] \<and> br_risk c = 95 \<and> br_reset c = None \<and> \<not> br_manual c)"
  using low_risk_trigger_untrips [where scope = "[2]" and key = "[3]" and db = demo_ops and b = demo_breaker
    and risk = 10 and env = demo_ops_env and reason = "[]" and trace = None and manual = False]
  by (simp add: get_breaker_def demo_ops_def demo_breaker_def row_get_def split: option.splits)

end
