(* ===== verification/Web_Frame.thy ===== *)
theory Web_Frame
  imports Prelude "HOL-Library.Word"
begin

text \<open>
  The WebSocket frames the capture adapter exchanges with the browser (\<^verbatim>\<open>_send_frame\<close>,
  \<^verbatim>\<open>_recv_bytes\<close>, \<^verbatim>\<open>_recv_frame\<close> and \<^verbatim>\<open>_recv_json\<close> of
  \<^verbatim>\<open>executors/computer/openclaw_adapter.py\<close>). A byte is an \<open>8 word\<close>. What is read is the list of all
  bytes that will arrive; a connection that closes is its end.
\<close>

unbundle bit_operations_syntax

type_synonym byte = "8 word"

section \<open>Big-endian lengths\<close>

fun to_bytes :: "nat \<Rightarrow> nat \<Rightarrow> byte list" where
  "to_bytes 0 n = []"
| "to_bytes (Suc k) n = to_bytes k (n div 256) @ [of_nat n]"

definition from_bytes :: "byte list \<Rightarrow> nat" where
  "from_bytes bs = fold (\<lambda>b n. n * 256 + unat b) bs 0"

lemma length_to_bytes [simp]: "length (to_bytes k n) = k"
  by (induction k arbitrary: n) auto

lemma from_to_bytes: "n < 256 ^ k \<Longrightarrow> from_bytes (to_bytes k n) = n"
proof (induction k arbitrary: n)
  case 0
  then show ?case by (simp add: from_bytes_def)
next
  case (Suc k)
  then have "n div 256 < 256 ^ k" by (simp add: less_mult_imp_div_less mult.commute)
  then have "from_bytes (to_bytes k (n div 256)) = n div 256" by (rule Suc.IH)
  moreover have "unat (of_nat n :: byte) = n mod 256" by (simp add: unat_of_nat)
  ultimately show ?case by (simp add: from_bytes_def)
qed

section \<open>Frames\<close>

text \<open>\<^verbatim>\<open>byte ^ mask[index % 4]\<close> over the payload.\<close>

definition xor_mask :: "byte list \<Rightarrow> byte list \<Rightarrow> byte list" where
  "xor_mask key data = map (\<lambda>i. (data ! i) XOR (key ! (i mod 4))) [0..<length data]"

definition length_bytes :: "byte \<Rightarrow> nat \<Rightarrow> byte list" where
  "length_bytes mask_bit n =
     (if n < 126 then [mask_bit OR of_nat n]
      else if n < 65536 then (mask_bit OR 126) # to_bytes 2 n
      else (mask_bit OR 127) # to_bytes 8 n)"

text \<open>\<open>None\<close> is the \<^verbatim>\<open>OverflowError\<close> of a length beyond 64 bits. \<open>key\<close> is the random mask of four bytes.\<close>

definition send_frame :: "byte list \<Rightarrow> byte \<Rightarrow> byte list \<Rightarrow> byte list option" where
  "send_frame key opcode data =
     (if length data < 2 ^ 64
      then Some ((0x80 OR opcode) # length_bytes 0x80 (length data) @ key @ xor_mask key data)
      else None)"

definition recv_bytes :: "nat \<Rightarrow> byte list \<Rightarrow> (byte list \<times> byte list) option" where
  "recv_bytes n stream = (if n \<le> length stream then Some (take n stream, drop n stream) else None)"

definition recv_length :: "byte \<Rightarrow> byte list \<Rightarrow> (nat \<times> byte list) option" where
  "recv_length second stream =
     (let n = unat (second AND 0x7F)
      in if n = 126 then map_option (\<lambda>(bs, rest). (from_bytes bs, rest)) (recv_bytes 2 stream)
         else if n = 127 then map_option (\<lambda>(bs, rest). (from_bytes bs, rest)) (recv_bytes 8 stream)
         else Some (n, stream))"

text \<open>\<open>None\<close> is the error of a connection that closes inside a frame.\<close>

definition recv_frame :: "byte list \<Rightarrow> ((bool \<times> byte \<times> byte list) \<times> byte list) option" where
  "recv_frame stream =
     (case recv_bytes 2 stream of None \<Rightarrow> None
      | Some (head, s0) \<Rightarrow>
     (case recv_length (head ! 1) s0 of None \<Rightarrow> None
      | Some (n, s1) \<Rightarrow>
     (case recv_bytes (if (head ! 1) AND 0x80 \<noteq> 0 then 4 else 0) s1 of None \<Rightarrow> None
      | Some (key, s2) \<Rightarrow>
     (case recv_bytes n s2 of None \<Rightarrow> None
      | Some (data, s3) \<Rightarrow>
          Some (((head ! 0) AND 0x80 \<noteq> 0, (head ! 0) AND 0x0F,
                 if key = [] then data else xor_mask key data), s3)))))"

section \<open>Messages\<close>

datatype recv_error = Closed | PeerClosed | UnexpectedText | UnexpectedFrame

lemma recv_bytes_some:
  "recv_bytes n s = Some (a, b) \<longleftrightarrow> s = a @ b \<and> length a = n"
  by (auto simp: recv_bytes_def)

lemma recv_length_shorter: "recv_length b s = Some (n, t) \<Longrightarrow> length t \<le> length s"
  by (auto simp: recv_length_def recv_bytes_some Let_def split: if_splits)

lemma recv_frame_shorter: "recv_frame s = Some (f, t) \<Longrightarrow> length t < length s"
  by (auto simp: recv_frame_def recv_bytes_some split: option.splits dest!: recv_length_shorter)

text \<open>
  The loop of \<^verbatim>\<open>_recv_json\<close>: the payload of the next text message, the pongs sent while waiting for
  it, and what is left to read. \<open>parts\<close> is \<open>None\<close> outside a fragmented message. Decoding the payload
  as UTF-8 and JSON is left to the caller.
\<close>

function recv_message ::
  "byte list option \<Rightarrow> byte list list \<Rightarrow> byte list \<Rightarrow> (recv_error + byte list \<times> byte list) \<times> byte list list"
where
  "recv_message parts pongs stream =
     (case recv_frame stream of
        None \<Rightarrow> (Inl Closed, pongs)
      | Some ((final, opcode, data), rest) \<Rightarrow>
          if opcode = 0x8 then (Inl PeerClosed, pongs)
          else if opcode = 0x9 then recv_message parts (pongs @ [data]) rest
          else if opcode = 0xA then recv_message parts pongs rest
          else if opcode = 0x1 then
            (if parts \<noteq> None then (Inl UnexpectedText, pongs)
             else if final then (Inr (data, rest), pongs)
             else recv_message (Some data) pongs rest)
          else if opcode = 0x0 \<and> parts \<noteq> None then
            (if final then (Inr (the parts @ data, rest), pongs)
             else recv_message (Some (the parts @ data)) pongs rest)
          else (Inl UnexpectedFrame, pongs))"
  by pat_completeness auto
termination
  by (relation "measure (\<lambda>(parts, pongs, stream). length stream)") (auto dest: recv_frame_shorter)

declare recv_message.simps [simp del]

section \<open>Round trips\<close>

lemma xor_mask_twice: "xor_mask key (xor_mask key data) = data"
  by (rule nth_equalityI) (simp_all add: xor_mask_def xor.assoc)

lemma length_xor_mask [simp]: "length (xor_mask key data) = length data"
  by (simp add: xor_mask_def)

lemma length_byte_masked: "n < 128 \<Longrightarrow> unat ((0x80 OR of_nat n :: byte) AND 0x7F) = n"
proof -
  assume "n < 128"
  have "list_all (\<lambda>n. unat ((0x80 OR of_nat n :: byte) AND 0x7F) = n) [0..<128]" by code_simp
  with \<open>n < 128\<close> show ?thesis by (simp add: list_all_iff)
qed

lemma mask_bit_set: "n < 128 \<Longrightarrow> (0x80 OR of_nat n :: byte) AND 0x80 \<noteq> 0"
proof -
  assume "n < 128"
  have "list_all (\<lambda>n. (0x80 OR of_nat n :: byte) AND 0x80 \<noteq> 0) [0..<128]" by code_simp
  with \<open>n < 128\<close> show ?thesis by (simp add: list_all_iff)
qed

lemma low_bits:
  assumes "unat (opcode :: byte) < 16"
  shows "(0x80 OR opcode) AND 0x0F = opcode" and "(0x80 OR opcode) AND 0x80 \<noteq> 0"
    and "opcode AND 0x0F = opcode" and "opcode AND 0x80 = 0"
proof -
  have "list_all (\<lambda>n. (0x80 OR of_nat n :: byte) AND 0x0F = of_nat n \<and> (0x80 OR of_nat n :: byte) AND 0x80 \<noteq> 0 \<and>
      (of_nat n :: byte) AND 0x0F = of_nat n \<and> (of_nat n :: byte) AND 0x80 = 0) [0..<16]" by code_simp
  then have "\<forall>n<16. (0x80 OR of_nat n :: byte) AND 0x0F = of_nat n \<and> (0x80 OR of_nat n :: byte) AND 0x80 \<noteq> 0 \<and>
      (of_nat n :: byte) AND 0x0F = of_nat n \<and> (of_nat n :: byte) AND 0x80 = 0"
    by (auto simp: list_all_iff)
  from this [rule_format, OF assms]
  show "(0x80 OR opcode) AND 0x0F = opcode" and "(0x80 OR opcode) AND 0x80 \<noteq> 0"
    and "opcode AND 0x0F = opcode" and "opcode AND 0x80 = 0" by simp_all
qed

lemma plain_length_byte:
  "n < 128 \<Longrightarrow> unat ((of_nat n :: byte) AND 0x7F) = n \<and> (of_nat n :: byte) AND 0x80 = 0"
proof -
  assume "n < 128"
  have "list_all (\<lambda>n. unat ((of_nat n :: byte) AND 0x7F) = n \<and> (of_nat n :: byte) AND 0x80 = 0) [0..<128]"
    by code_simp
  with \<open>n < 128\<close> show ?thesis by (simp add: list_all_iff)
qed

lemma length_roundtrip:
  assumes "n < 2 ^ 64" and "m = 0 \<or> m = (0x80 :: byte)"
  shows "\<exists>b bs. length_bytes m n = b # bs \<and> recv_length b (bs @ s) = Some (n, s) \<and> (b AND 0x80 \<noteq> 0 \<longleftrightarrow> m = 0x80)"
proof -
  have hd: "unat ((m OR of_nat k) AND 0x7F) = k \<and> ((m OR of_nat k) AND 0x80 \<noteq> 0 \<longleftrightarrow> m = 0x80)" if "k < 128" for k
    using assms(2) length_byte_masked [OF that] mask_bit_set [OF that] plain_length_byte [OF that] by auto
  consider "n < 126" | "126 \<le> n" "n < 65536" | "65536 \<le> n" by linarith
  then show ?thesis
  proof cases
    case 1
    with hd [of n] show ?thesis by (simp add: length_bytes_def recv_length_def Let_def)
  next
    case 2
    then have "from_bytes (to_bytes 2 n) = n" by (intro from_to_bytes) simp
    with 2 hd [of 126] show ?thesis by (simp add: length_bytes_def recv_length_def Let_def recv_bytes_def)
  next
    case 3
    have "from_bytes (to_bytes 8 n) = n" using assms(1) by (intro from_to_bytes) simp
    with 3 hd [of 127] show ?thesis by (simp add: length_bytes_def recv_length_def Let_def recv_bytes_def)
  qed
qed

text \<open>A frame as the browser sends it: without a mask, final or not.\<close>

definition server_frame :: "bool \<Rightarrow> byte \<Rightarrow> byte list \<Rightarrow> byte list" where
  "server_frame final opcode data =
     (if final then 0x80 OR opcode else opcode) # length_bytes 0 (length data) @ data"

lemma sent_frame_received:
  assumes "unat opcode < 16" and "length key = 4" and "send_frame key opcode data = Some bytes"
  shows "recv_frame (bytes @ rest) = Some ((True, opcode, data), rest)"
proof -
  from assms(3) have n: "length data < 2 ^ 64"
    and bytes: "bytes = (0x80 OR opcode) # length_bytes 0x80 (length data) @ key @ xor_mask key data"
    by (auto simp: send_frame_def split: if_splits)
  from length_roundtrip [OF n, of "0x80" "key @ xor_mask key data @ rest"] obtain b bs
    where l: "length_bytes 0x80 (length data) = b # bs" and b: "b AND 0x80 \<noteq> 0"
      and r: "recv_length b (bs @ key @ xor_mask key data @ rest) = Some (length data, key @ xor_mask key data @ rest)"
    by auto
  from assms(2) have "key \<noteq> []" by auto
  with r b show ?thesis
    by (simp add: bytes l recv_frame_def recv_bytes_def low_bits [OF assms(1)] assms(2) xor_mask_twice)
qed

lemma server_frame_received:
  assumes "unat opcode < 16" and "length data < 2 ^ 64"
  shows "recv_frame (server_frame final opcode data @ rest) = Some ((final, opcode, data), rest)"
proof -
  from length_roundtrip [OF assms(2), of 0 "data @ rest"] obtain b bs
    where l: "length_bytes 0 (length data) = b # bs" and b: "b AND 0x80 = 0"
      and r: "recv_length b (bs @ data @ rest) = Some (length data, data @ rest)"
    by auto
  then show ?thesis
    by (simp add: server_frame_def l recv_frame_def recv_bytes_def low_bits [OF assms(1)])
qed

text \<open>A message in fragments, each preceded by control frames.\<close>

datatype control = Ping "byte list" | Pong "byte list"

fun control_data :: "control \<Rightarrow> byte list" where
  "control_data (Ping d) = d"
| "control_data (Pong d) = d"

fun control_frame :: "control \<Rightarrow> byte list" where
  "control_frame (Ping d) = server_frame True 0x9 d"
| "control_frame (Pong d) = server_frame True 0xA d"

fun pings :: "control list \<Rightarrow> byte list list" where
  "pings [] = []"
| "pings (Ping d # cs) = d # pings cs"
| "pings (Pong d # cs) = pings cs"

fun continuation :: "(control list \<times> byte list) list \<Rightarrow> byte list" where
  "continuation [] = []"
| "continuation (f # fs) =
     concat (map control_frame (fst f)) @ server_frame (fs = []) 0x0 (snd f) @ continuation fs"

definition message_stream :: "control list \<Rightarrow> byte list \<Rightarrow> (control list \<times> byte list) list \<Rightarrow> byte list" where
  "message_stream cs first fs =
     concat (map control_frame cs) @ server_frame (fs = []) 0x1 first @ continuation fs"

lemma recv_controls:
  assumes "list_all (\<lambda>c. length (control_data c) < 2 ^ 64) cs"
  shows "recv_message parts pongs (concat (map control_frame cs) @ rest) = recv_message parts (pongs @ pings cs) rest"
  using assms
proof (induction cs arbitrary: pongs)
  case Nil
  then show ?case by simp
next
  case (Cons c cs)
  then show ?case
    by (cases c) (subst recv_message.simps, simp add: server_frame_received)+
qed

definition parts_ok :: "(control list \<times> byte list) list \<Rightarrow> bool" where
  "parts_ok fs = list_all (\<lambda>f. list_all (\<lambda>c. length (control_data c) < 2 ^ 64) (fst f) \<and> length (snd f) < 2 ^ 64) fs"

lemma recv_continuation:
  assumes "parts_ok fs" and "fs \<noteq> []"
  shows "recv_message (Some acc) pongs (continuation fs @ rest) =
     (Inr (acc @ concat (map snd fs), rest), pongs @ concat (map (\<lambda>f. pings (fst f)) fs))"
  using assms
proof (induction fs arbitrary: acc pongs)
  case Nil
  then show ?case by simp
next
  case (Cons f fs)
  then have ok: "list_all (\<lambda>c. length (control_data c) < 2 ^ 64) (fst f)" "length (snd f) < 2 ^ 64" "parts_ok fs"
    by (simp_all add: parts_ok_def)
  have "recv_message (Some acc) pongs (continuation (f # fs) @ rest) =
      recv_message (Some acc) (pongs @ pings (fst f)) (server_frame (fs = []) 0x0 (snd f) @ continuation fs @ rest)"
    using recv_controls [OF ok(1)] by simp
  also have "\<dots> = (Inr (acc @ concat (map snd (f # fs)), rest), pongs @ concat (map (\<lambda>f. pings (fst f)) (f # fs)))"
    using Cons.IH [OF ok(3), of "acc @ snd f" "pongs @ pings (fst f)"] ok(2)
    by (subst recv_message.simps) (auto simp: server_frame_received)
  finally show ?case .
qed

end
