(* ===== verification/Capture_Auth.thy ===== *)
theory Capture_Auth
  imports Json Url
begin

text \<open>
  The authorisation of a page capture: the check of a target URL and of the requests a captured page
  sends (\<^verbatim>\<open>executors/computer/openclaw_adapter.py\<close>), the short-lived capture token and the requests
  it opens (\<^verbatim>\<open>create_capture_authorization\<close>, \<^verbatim>\<open>decode_capture_access_token\<close> of \<^verbatim>\<open>backend/auth.py\<close>).
  Signing and verifying a JWT are arguments.
\<close>

section \<open>Host, user and port of a URL\<close>

text \<open>The part after the last \<^verbatim>\<open>@\<close> is the host and port, the part before it user and password.\<close>

definition host_info :: "ustr \<Rightarrow> ustr" where
  "host_info netloc = rev (takeWhile (\<lambda>c. c \<noteq> 64) (rev netloc))"

definition user_info :: "ustr \<Rightarrow> ustr" where
  "user_info netloc = rev (drop 1 (dropWhile (\<lambda>c. c \<noteq> 64) (rev netloc)))"

text \<open>\<^verbatim>\<open>parsed.username or parsed.password\<close> is falsy exactly when nothing but a colon is before the \<^verbatim>\<open>@\<close>.\<close>

definition has_user :: "url_parts \<Rightarrow> bool" where
  "has_user u = (user_info (up_netloc u) \<notin> {[], [58]})"

definition hostname :: "url_parts \<Rightarrow> ustr" where
  "hostname u =
     (case cut_at (\<lambda>c. c = 37) (fst (cut_at (\<lambda>c. c = 58) (host_info (up_netloc u)))) of
        (h, None) \<Rightarrow> lower h
      | (h, Some zone) \<Rightarrow> lower h @ [37] @ zone)"

text \<open>\<open>None\<close> is the \<^verbatim>\<open>ValueError\<close> of a port that is no number up to 65535.\<close>

definition url_port :: "url_parts \<Rightarrow> int option option" where
  "url_port u =
     (case snd (cut_at (\<lambda>c. c = 58) (host_info (up_netloc u))) of
        None \<Rightarrow> Some None
      | Some p \<Rightarrow>
          if p = [] then Some None
          else if \<not> list_all is_digit p then None
          else (case unsigned_value p of None \<Rightarrow> None | Some n \<Rightarrow> if n \<le> 65535 then Some (Some n) else None))"

definition url_origin :: "url_parts \<Rightarrow> ustr option" where
  "url_origin u =
     map_option (\<lambda>port. up_scheme u @ (asc ''://'') @ (if hostname u = [] then (asc ''None'') else hostname u) @
                        (case port of None \<Rightarrow> [] | Some n \<Rightarrow> (asc '':'') @ int_text n))
       (url_port u)"

section \<open>The target of a capture\<close>

definition strip_slashes :: "ustr \<Rightarrow> ustr" where
  "strip_slashes s = rev (dropWhile (\<lambda>c. c = 47) (rev s))"

definition normalized_allowed :: "ustr list \<Rightarrow> ustr list" where
  "normalized_allowed origins = map (\<lambda>o'. strip_slashes (strip o')) (filter (\<lambda>o'. strip o' \<noteq> []) origins)"

text \<open>\<open>None\<close> is the \<^verbatim>\<open>ValueError\<close> of a URL that may not be captured.\<close>

definition validate_capture_target_url :: "ustr option \<Rightarrow> ustr list \<Rightarrow> ustr option" where
  "validate_capture_target_url target origins =
     (let value = strip (opt_empty target)
      in if value = [] then None
         else case urlsplit value of
           None \<Rightarrow> None
         | Some u \<Rightarrow>
             if up_scheme u \<notin> {(asc ''http''), (asc ''https'')} \<or> hostname u = [] \<or> has_user u then None
             else case url_origin u of
               None \<Rightarrow> None
             | Some origin \<Rightarrow> if origin \<in> set (normalized_allowed origins) then Some value else None)"

section \<open>The capture token\<close>

definition CAPTURE_AUTH_PURPOSE :: ustr where
  "CAPTURE_AUTH_PURPOSE = (asc ''computer_workflow_readonly_capture'')"

definition CAPTURE_AUTH_WORKFLOW_HEADER :: ustr where
  "CAPTURE_AUTH_WORKFLOW_HEADER = (asc ''X-Tiantong-Capture-Workflow'')"

definition CAPTURE_PAGE_PATH :: ustr where
  "CAPTURE_PAGE_PATH = (asc ''/computer-workflow-center.html'')"

definition CAPTURE_READONLY_PATHS :: "ustr list" where
  "CAPTURE_READONLY_PATHS =
     [CAPTURE_PAGE_PATH, (asc ''/rbac-navigation.js''), (asc ''/api/me''), (asc ''/api/task-center/tasks''), (asc ''/api/v2/computer/workflows'')]"

definition CAPTURE_READONLY_METHODS :: "ustr list" where
  "CAPTURE_READONLY_METHODS = [(asc ''GET''), (asc ''HEAD'')]"

record capture_claims =
  cc_sub :: int
  cc_purpose :: ustr
  cc_workflow :: ustr
  cc_origin :: ustr
  cc_path :: ustr
  cc_issued :: int
  cc_expires :: int

record capture_authorization =
  ca_token :: ustr
  ca_workflow :: ustr
  ca_origin :: ustr
  ca_path :: ustr
  ca_allowed :: "ustr list"

record capture_settings =
  cp_test :: bool
  cp_production :: bool
  cp_origins :: "ustr list"

text \<open>Times are seconds here; \<open>jwt\<close> signs the claims.\<close>

definition create_capture_authorization ::
  "capture_settings \<Rightarrow> (capture_claims \<Rightarrow> ustr) \<Rightarrow> int \<Rightarrow> int \<Rightarrow> ustr \<Rightarrow> ustr option \<Rightarrow> capture_authorization option"
where
  "create_capture_authorization st jwt now user_id workflow_id target =
     (case urlsplit (strip (opt_empty target)) of
        None \<Rightarrow> None
      | Some u \<Rightarrow>
          (case url_origin u of
             None \<Rightarrow> None
           | Some origin \<Rightarrow>
               if \<not> cp_test st \<or> cp_production st \<or> origin \<notin> set (cp_origins st) \<or> up_path u \<noteq> CAPTURE_PAGE_PATH \<or>
                  up_query u \<noteq> [] \<or> up_fragment u \<noteq> [] \<or> has_user u \<or> workflow_id = [] \<or> user_id \<le> 0
               then None
               else Some \<lparr>ca_token = jwt \<lparr>cc_sub = user_id, cc_purpose = CAPTURE_AUTH_PURPOSE,
                            cc_workflow = workflow_id, cc_origin = origin, cc_path = up_path u,
                            cc_issued = now, cc_expires = now + 60\<rparr>,
                          ca_workflow = workflow_id, ca_origin = origin, ca_path = up_path u,
                          ca_allowed = CAPTURE_READONLY_PATHS\<rparr>))"

definition clear_authorization :: "capture_authorization \<Rightarrow> capture_authorization" where
  "clear_authorization a = a\<lparr>ca_token := []\<rparr>"

text \<open>
  A request presenting the token. \<open>verify\<close> returns the claims of a token signed with the capture
  key that has not expired.
\<close>

record web_request =
  wq_scheme :: ustr
  wq_host :: ustr
  wq_port :: "int option"
  wq_method :: ustr
  wq_path :: ustr
  wq_workflow :: "ustr option"

definition request_origin :: "web_request \<Rightarrow> ustr" where
  "request_origin r =
     wq_scheme r @ (asc ''://'') @ wq_host r @ (case wq_port r of None \<Rightarrow> [] | Some n \<Rightarrow> (asc '':'') @ int_text n)"

definition decode_capture_access_token ::
  "capture_settings \<Rightarrow> (ustr \<Rightarrow> capture_claims option) \<Rightarrow> ustr \<Rightarrow> web_request \<Rightarrow> (int \<times> ustr) option"
where
  "decode_capture_access_token st verify token r =
     (case verify token of
        None \<Rightarrow> None
      | Some c \<Rightarrow>
          if \<not> cp_test st \<or> cp_production st \<or> cc_purpose c \<noteq> CAPTURE_AUTH_PURPOSE \<or>
             upper (wq_method r) \<notin> set CAPTURE_READONLY_METHODS \<or> wq_path r \<notin> set CAPTURE_READONLY_PATHS \<or>
             request_origin r \<noteq> cc_origin c \<or> cc_path c \<noteq> CAPTURE_PAGE_PATH \<or> wq_workflow r \<noteq> Some (cc_workflow c)
          then None
          else Some (cc_sub c, cc_workflow c))"

section \<open>The requests of the captured page\<close>

definition validate_authorization ::
  "ustr list \<Rightarrow> ustr option \<Rightarrow> capture_authorization option \<Rightarrow> (ustr \<times> capture_authorization) option"
where
  "validate_authorization origins target authorization =
     (case (validate_capture_target_url target origins, authorization) of
        (Some value, Some a) \<Rightarrow>
          (case urlsplit value of
             None \<Rightarrow> None
           | Some u \<Rightarrow>
               if ca_token a = [] \<or> ca_origin a \<noteq> up_scheme u @ (asc ''://'') @ up_netloc u \<or> ca_path a \<noteq> up_path u \<or>
                  up_path u \<notin> set (ca_allowed a)
               then None else Some (value, a))
      | _ \<Rightarrow> None)"

record paused_request =
  pr_url :: ustr
  pr_method :: ustr
  pr_headers :: "(ustr \<times> ustr) list"
  pr_document :: bool

datatype pause_answer = Continue "(ustr \<times> ustr) list" | Fail
datatype pause_error = NotReadOnly | LeftBoundary

definition request_method :: "paused_request \<Rightarrow> ustr" where
  "request_method r = upper (if pr_method r = [] then (asc ''GET'') else pr_method r)"

definition path_allowed :: "capture_authorization \<Rightarrow> ustr \<Rightarrow> bool" where
  "path_allowed a url = (case urlsplit url of None \<Rightarrow> False | Some u \<Rightarrow> up_path u \<in> set (ca_allowed a))"

definition authorized_headers :: "capture_authorization \<Rightarrow> (ustr \<times> ustr) list \<Rightarrow> (ustr \<times> ustr) list" where
  "authorized_headers a hs =
     filter (\<lambda>h. lower (fst h) \<notin> {(asc ''authorization''), lower CAPTURE_AUTH_WORKFLOW_HEADER}) hs @
     [((asc ''Authorization''), (asc ''Bearer '') @ ca_token a), (CAPTURE_AUTH_WORKFLOW_HEADER, ca_workflow a)]"

text \<open>
  The answer to a request the browser has paused, and the error raised after it is sent. A URL outside
  the allowed origins is an error whatever the resource; a refused document too.
\<close>

definition continue_allowlisted_request ::
  "ustr list \<Rightarrow> capture_authorization option \<Rightarrow> paused_request \<Rightarrow> pause_answer \<times> pause_error option"
where
  "continue_allowlisted_request origins authorization r =
     (let boundary = (validate_capture_target_url (Some (pr_url r)) origins = None);
          method = request_method r;
          answer = (case authorization of
                      None \<Rightarrow> Fail
                    | Some a \<Rightarrow>
                        if boundary \<or> ca_token a = [] \<or> method \<notin> set CAPTURE_READONLY_METHODS \<or>
                           \<not> path_allowed a (pr_url r)
                        then Fail else Continue (authorized_headers a (pr_headers r)))
      in (answer,
          if answer \<noteq> Fail then None
          else if method \<notin> set CAPTURE_READONLY_METHODS then Some NotReadOnly
          else if pr_document r \<or> boundary then Some LeftBoundary
          else None))"

section \<open>Facts\<close>

lemma valid_target_origin:
  assumes "validate_capture_target_url t origins = Some v"
  shows "v = strip (opt_empty t)"
    and "\<exists>u origin. urlsplit v = Some u \<and> up_scheme u \<in> {(asc ''http''), (asc ''https'')} \<and> \<not> has_user u \<and>
            url_origin u = Some origin \<and> origin \<in> set (normalized_allowed origins)"
  using assms by (auto simp: validate_capture_target_url_def Let_def split: option.splits if_splits)

lemma created_authorization:
  assumes "create_capture_authorization st jwt now user wid target = Some a"
  shows "cp_test st" and "\<not> cp_production st" and "ca_origin a \<in> set (cp_origins st)" and "ca_path a = CAPTURE_PAGE_PATH"
    and "ca_workflow a = wid" and "ca_allowed a = CAPTURE_READONLY_PATHS" and "0 < user"
    and "ca_token a = jwt \<lparr>cc_sub = user, cc_purpose = CAPTURE_AUTH_PURPOSE, cc_workflow = wid,
           cc_origin = ca_origin a, cc_path = CAPTURE_PAGE_PATH, cc_issued = now, cc_expires = now + 60\<rparr>"
  using assms by (auto simp: create_capture_authorization_def split: option.splits if_splits)

text \<open>The page's own authorisation headers never survive.\<close>

lemma authorized_headers_unique:
  "map snd (filter (\<lambda>h. lower (fst h) = (asc ''authorization'')) (authorized_headers a hs)) = [(asc ''Bearer '') @ ca_token a]"
proof -
  have 1: "lower (asc ''Authorization'') = asc ''authorization''" by code_simp
  have 2: "lower CAPTURE_AUTH_WORKFLOW_HEADER \<noteq> asc ''authorization''" by code_simp
  show ?thesis
    by (auto simp add: authorized_headers_def 1 2 filter_empty_conv)
qed

end
