(* ===== verification/Capture_Claims.thy ===== *)
theory Capture_Claims
  imports Web_Frame Capture_Auth
begin

text \<open>The properties of the page capture: its frames, its token, the requests it lets through.\<close>

text \<open>
  C13: a frame the adapter sends is read back as the one final frame with that opcode and that
  payload, whatever follows it on the connection, for every payload whose length fits in 64 bits.
\<close>

theorem frame_roundtrip:
  assumes "unat opcode < 16" and "length key = 4" and "send_frame key opcode data = Some bytes"
  shows "recv_frame (bytes @ rest) = Some ((True, opcode, data), rest)"
  using assms by (rule sent_frame_received)

theorem frame_roundtrip_witness:
  "recv_frame ((case send_frame [1, 2, 3, 4] 0x1 [72, 105] of Some b \<Rightarrow> b | None \<Rightarrow> []) @ [7]) =
     Some ((True, 0x1, [72, 105]), [7])"
proof -
  have s: "send_frame [1, 2, 3, 4] 0x1 [72, 105] = Some [0x81, 0x82, 1, 2, 3, 4, 73, 107]"
    by (simp add: send_frame_def length_bytes_def xor_mask_def upt_rec)
  have "recv_frame ([0x81, 0x82, 1, 2, 3, 4, 73, 107] @ [7]) = Some ((True, 0x1, [72, 105]), [7])"
    by (rule frame_roundtrip [OF _ _ s]) simp_all
  with s show ?thesis by simp
qed

text \<open>
  C25: a text message the browser splits into any number of fragments, with any pings and pongs sent
  in between, is received as the concatenation of its fragments; every ping is answered with its own
  payload, in order; and what follows the message stays on the connection.
\<close>

theorem message_reassembled:
  assumes "parts_ok ((cs, first) # fs)"
  shows "recv_message None [] (message_stream cs first fs @ rest) =
     (Inr (first @ concat (map snd fs), rest), pings cs @ concat (map (\<lambda>f. pings (fst f)) fs))"
proof -
  from assms have ok: "list_all (\<lambda>c. length (control_data c) < 2 ^ 64) cs" "length first < 2 ^ 64" "parts_ok fs"
    by (simp_all add: parts_ok_def)
  have "recv_message None [] (message_stream cs first fs @ rest) =
      recv_message None (pings cs) (server_frame (fs = []) 0x1 first @ continuation fs @ rest)"
    using recv_controls [OF ok(1)] by (simp add: message_stream_def)
  also have "\<dots> = (Inr (first @ concat (map snd fs), rest), pings cs @ concat (map (\<lambda>f. pings (fst f)) fs))"
    using recv_continuation [OF ok(3)] ok(2)
    by (subst recv_message.simps) (auto simp: server_frame_received)
  finally show ?thesis .
qed

theorem message_reassembled_witness:
  "recv_message None [] (message_stream [Ping [5]] [104] [([Pong [], Ping [6]], [105])] @ [1]) =
     (Inr ([104, 105], [1]), [[5], [6]])"
  using message_reassembled [of "[Ping [5]]" "[104]" "[([Pong [], Ping [6]], [105])]" "[1]"]
  by (simp add: parts_ok_def)

text \<open>
  C12: a request of the captured page is continued only when its URL is of an allowed origin, its
  method is \<^verbatim>\<open>GET\<close> or \<^verbatim>\<open>HEAD\<close>, its path is one the authorisation names and the authorisation still
  holds a token; the request then carries that token as its only \<^verbatim>\<open>Authorization\<close> header. Anything else
  is refused, and a refused page, a refused method or a foreign origin also ends the capture.
\<close>

theorem continued_requests_are_readonly:
  "(fst (continue_allowlisted_request origins authorization r) = Continue hs \<longleftrightarrow>
     (\<exists>a. authorization = Some a \<and> ca_token a \<noteq> [] \<and>
          validate_capture_target_url (Some (pr_url r)) origins \<noteq> None \<and>
          request_method r \<in> {(asc ''GET''), (asc ''HEAD'')} \<and> path_allowed a (pr_url r) \<and>
          hs = authorized_headers a (pr_headers r) \<and>
          map snd (filter (\<lambda>h. lower (fst h) = (asc ''authorization'')) hs) = [(asc ''Bearer '') @ ca_token a])) \<and>
   (snd (continue_allowlisted_request origins authorization r) \<noteq> None \<longleftrightarrow>
       fst (continue_allowlisted_request origins authorization r) = Fail \<and>
       (if request_method r \<in> {(asc ''GET''), (asc ''HEAD'')}
        then pr_document r \<or> validate_capture_target_url (Some (pr_url r)) origins = None else True))"
  by (auto simp: continue_allowlisted_request_def Let_def CAPTURE_READONLY_METHODS_def authorized_headers_unique
      split: option.splits)

text \<open>
  C16: what a capture token opens. When the server accepts a token it has issued for a workflow, the
  environment is the test environment, the request is a \<^verbatim>\<open>GET\<close> or \<^verbatim>\<open>HEAD\<close> of one of the five read-only
  paths at an allowed origin, it names the workflow the token was issued for, and it acts as the user
  the token was issued to. Verification is taken to return the claims that were signed.
\<close>

theorem capture_token_scope:
  assumes "create_capture_authorization st jwt now user wid target = Some a"
    and "\<And>c d. verify (jwt c) = Some d \<Longrightarrow> d = c"
    and "decode_capture_access_token st verify (ca_token a) r = Some (i, w)"
  shows "i = user \<and> w = wid \<and> cp_test st \<and> \<not> cp_production st \<and> request_origin r \<in> set (cp_origins st) \<and>
    upper (wq_method r) \<in> {(asc ''GET''), (asc ''HEAD'')} \<and> wq_path r \<in> set CAPTURE_READONLY_PATHS \<and> wq_workflow r = Some wid"
proof -
  from assms(3) obtain c where v: "verify (ca_token a) = Some c"
    by (auto simp: decode_capture_access_token_def split: option.splits)
  with assms(2) created_authorization(8) [OF assms(1)]
  have c: "c = \<lparr>cc_sub = user, cc_purpose = CAPTURE_AUTH_PURPOSE, cc_workflow = wid,
       cc_origin = ca_origin a, cc_path = CAPTURE_PAGE_PATH, cc_issued = now, cc_expires = now + 60\<rparr>" by metis
  with assms(3) v created_authorization(1-3) [OF assms(1)] show ?thesis
    by (auto simp: decode_capture_access_token_def CAPTURE_READONLY_METHODS_def split: if_splits)
qed

definition sample_settings :: capture_settings where
  "sample_settings = \<lparr>cp_test = True, cp_production = False, cp_origins = [(asc ''http://127.0.0.1'')]\<rparr>"

definition sample_target :: ustr where
  "sample_target = (asc ''http://127.0.0.1/computer-workflow-center.html'')"

definition sample_claims :: capture_claims where
  "sample_claims =
     \<lparr>cc_sub = 7, cc_purpose = CAPTURE_AUTH_PURPOSE, cc_workflow = (asc ''w1''),
      cc_origin = (asc ''http://127.0.0.1''), cc_path = CAPTURE_PAGE_PATH, cc_issued = 0, cc_expires = 60\<rparr>"

definition sample_jwt :: "capture_claims \<Rightarrow> ustr" where
  "sample_jwt c = (if c = sample_claims then (asc ''t'') else (asc ''x''))"

definition sample_verify :: "ustr \<Rightarrow> capture_claims option" where
  "sample_verify t = (if t = (asc ''t'') then Some sample_claims else None)"

definition sample_request :: web_request where
  "sample_request = \<lparr>wq_scheme = (asc ''http''), wq_host = (asc ''127.0.0.1''), wq_port = None, wq_method = (asc ''get''),
     wq_path = (asc ''/api/me''), wq_workflow = Some (asc ''w1'')\<rparr>"

theorem capture_token_scope_witness:
  "\<exists>a. create_capture_authorization sample_settings sample_jwt 0 7 (asc ''w1'') (Some sample_target) = Some a \<and>
     decode_capture_access_token sample_settings sample_verify (ca_token a) sample_request = Some (7, (asc ''w1'')) \<and>
     request_origin sample_request \<in> set (cp_origins sample_settings)"
proof -
  obtain a where a: "create_capture_authorization sample_settings sample_jwt 0 7 (asc ''w1'') (Some sample_target) = Some a"
    and t: "ca_token a = asc ''t''"
  proof -
    have "map_option ca_token (create_capture_authorization sample_settings sample_jwt 0 7 (asc ''w1'') (Some sample_target))
        = Some (asc ''t'')" by code_simp
    then show ?thesis by (auto intro: that)
  qed
  have d: "decode_capture_access_token sample_settings sample_verify (ca_token a) sample_request = Some (7, (asc ''w1''))"
    unfolding t by code_simp
  have v: "sample_verify (sample_jwt c) = Some e \<Longrightarrow> e = c" for c e
    by (auto simp: sample_verify_def sample_jwt_def split: if_splits)
  from capture_token_scope [OF a v d] a d show ?thesis by blast
qed

end
