(* ===== verification/Computer_Policy.thy ===== *)
theory Computer_Policy
  imports Capture_Auth
begin

text \<open>
  What may be done on a computer at all: the checks of \<^verbatim>\<open>executors/computer/policy.py\<close>,
  \<^verbatim>\<open>actions/policy.py\<close>, \<^verbatim>\<open>action_validator.py\<close>, \<^verbatim>\<open>actions/target_resolver.py\<close> and the preflight of
  \<^verbatim>\<open>runtime.py\<close> and \<^verbatim>\<open>actions/service.py\<close>. A check answers \<open>None\<close> or the error it raises. The settings
  are a record, one per request. Names configured in the settings are compared by their ASCII case.
\<close>

section \<open>Errors and settings\<close>

text \<open>
  An \<^verbatim>\<open>HTTPException\<close>; a pydantic \<^verbatim>\<open>ValidationError\<close> raised inside a handler; the \<^verbatim>\<open>NameError\<close>,
  \<^verbatim>\<open>re.error\<close>, \<^verbatim>\<open>TypeError\<close> and \<^verbatim>\<open>ValueError\<close> nobody catches; a key or reference the database refuses; an
  error of the adapter.
\<close>

datatype computer_error =
    Refused int ustr
  | InvalidForm
  | UndefinedName
  | BadPattern
  | BadType
  | BadValue
  | DbRefused
  | AdapterError

fun first_error :: "'e option list \<Rightarrow> 'e option" where
  "first_error [] = None"
| "first_error (None # es) = first_error es"
| "first_error (Some e # es) = Some e"

definition require :: "bool \<Rightarrow> 'e \<Rightarrow> 'e option" where
  "require b e = (if b then None else Some e)"

text \<open>A window pattern: the literal \<^verbatim>\<open>*\<close>, or a regular expression as the texts it is found in.\<close>

datatype window_pattern = AnyWindow | Found "ustr \<Rightarrow> bool"

record computer_settings =
  st_test :: bool
  st_production :: bool
  st_executor :: bool
  st_openclaw :: bool
  st_capture :: bool
  st_takeover :: bool
  st_clipboard_read :: bool
  st_clipboard_write :: bool
  st_upload :: bool
  st_download :: bool
  st_safe_action :: bool
  st_move :: bool
  st_click :: bool
  st_text :: bool
  st_per_action :: bool
  st_verification :: bool
  st_safe_workflow :: bool
  st_auto_continue :: bool
  st_allowed_apps :: "ustr list"
  st_blocked_apps :: "ustr list"
  st_allowed_windows :: "window_pattern list"
  st_blocked_windows :: "window_pattern list"
  st_origins :: "ustr list"
  st_chrome :: bool

section \<open>Constants\<close>

definition DEFAULT_ALLOWED_APPLICATIONS :: "ustr list" where
  "DEFAULT_ALLOWED_APPLICATIONS = [[0x9694, 0x79BB, 0x6D4B, 0x8BD5, 0x6D4F, 0x89C8, 0x5668], [0x9694, 0x79BB, 0x6587, 0x672C, 0x7F16, 0x8F91, 0x5668], [0x9694, 0x79BB, 0x6F14, 0x793A, 0x7A97, 0x53E3]]"

definition DEFAULT_BLOCKED_APPLICATIONS :: "ustr list" where
  "DEFAULT_BLOCKED_APPLICATIONS =
     [(asc ''Terminal''), (asc ''iTerm''), [0x7CFB, 0x7EDF, 0x8BBE, 0x7F6E], [0x94A5, 0x5319, 0x4E32], [0x5BC6, 0x7801, 0x7BA1, 0x7406, 0x5668], [0x94F6, 0x884C, 0x5E94, 0x7528], [0x652F, 0x4ED8, 0x5E94, 0x7528], [0x90AE, 0x4EF6, 0x5BA2, 0x6237, 0x7AEF],
      [0x901A, 0x8BAF, 0x8F6F, 0x4EF6], [0x8FDC, 0x7A0B, 0x684C, 0x9762], [0x53, 0x53, 0x48, 0x20, 0x5BA2, 0x6237, 0x7AEF], (asc ''Docker Desktop''), [0x751F, 0x4EA7, 0x8FD0, 0x7EF4, 0x5DE5, 0x5177]]"

definition HIGH_RISK_ACTION_KEYWORDS :: "ustr list" where
  "HIGH_RISK_ACTION_KEYWORDS =
     [[0x5220, 0x9664], [0x8986, 0x76D6], [0x6279, 0x91CF], [0x5B89, 0x88C5], [0x5378, 0x8F7D], [0x652F, 0x4ED8], [0x4E0B, 0x5355], [0x53D1, 0x5E03], [0x63D0, 0x4EA4], [0x5BC6, 0x7801], [0x9A8C, 0x8BC1, 0x7801], (asc ''Secret''), (asc ''Token''),
      [0x79C1, 0x94A5], (asc ''Terminal''), (asc ''Shell'')]"

definition DEFAULT_FORBIDDEN_TARGETS :: "ustr list" where
  "DEFAULT_FORBIDDEN_TARGETS =
     [[0x63D0, 0x4EA4, 0x8BA2, 0x5355], [0x4ED8, 0x6B3E], [0x53D1, 0x5E03], [0x5220, 0x9664], [0x786E, 0x8BA4, 0x5220, 0x9664], [0x4FDD, 0x5B58, 0x5BC6, 0x7801], [0x767B, 0x5F55], [0x9000, 0x51FA, 0x8D26, 0x53F7], [0x4FEE, 0x6539, 0x8D26, 0x53F7], [0x4E0A, 0x4F20, 0x6587, 0x4EF6],
      [0x4E0B, 0x8F7D, 0x6587, 0x4EF6], [0x5B89, 0x88C5], [0x5141, 0x8BB8, 0x7CFB, 0x7EDF, 0x6743, 0x9650], [0x7BA1, 0x7406, 0x5458, 0x6388, 0x6743], [0x751F, 0x4EA7, 0x90E8, 0x7F72], [0x6570, 0x636E, 0x5E93, 0x64CD, 0x4F5C]]"

definition SAFE_ACTION_TYPES :: "ustr list" where
  "SAFE_ACTION_TYPES = [[0x79FB, 0x52A8, 0x9F20, 0x6807], [0x5355, 0x51FB], [0x6EDA, 0x52A8], [0x8F93, 0x5165, 0x666E, 0x901A, 0x6587, 0x672C], [0x6309, 0x5141, 0x8BB8, 0x7684, 0x5FEB, 0x6377, 0x952E], [0x7B49, 0x5F85], [0x622A, 0x56FE]]"

definition ACTION_TYPES :: "ustr list" where
  "ACTION_TYPES =
     [[0x67E5, 0x770B, 0x5C4F, 0x5E55], [0x83B7, 0x53D6, 0x7A97, 0x53E3, 0x5217, 0x8868], [0x6FC0, 0x6D3B, 0x5141, 0x8BB8, 0x7684, 0x7A97, 0x53E3], [0x79FB, 0x52A8, 0x9F20, 0x6807], [0x5355, 0x51FB], [0x53CC, 0x51FB], [0x6EDA, 0x52A8], [0x8F93, 0x5165, 0x666E, 0x901A, 0x6587, 0x672C],
      [0x6309, 0x5141, 0x8BB8, 0x7684, 0x5FEB, 0x6377, 0x952E], [0x622A, 0x56FE], [0x7B49, 0x5F85], [0x8FD4, 0x56DE, 0x4E0A, 0x4E00, 0x6B65], [0x53D6, 0x6D88, 0x4EFB, 0x52A1]]"

definition ACTION_CONTROL_TYPES :: "ustr list" where
  "ACTION_CONTROL_TYPES =
     [[0x666E, 0x901A, 0x6309, 0x94AE], [0x5355, 0x9009, 0x6309, 0x94AE], [0x590D, 0x9009, 0x6846], [0x666E, 0x901A, 0x6587, 0x672C, 0x6846], [0x6D4B, 0x8BD5, 0x9875, 0x9762, 0x94FE, 0x63A5], [0x5206, 0x9875, 0x6309, 0x94AE], [0x5B89, 0x5168, 0x5BFC, 0x822A, 0x63A7, 0x4EF6]]"

definition SAFE_SHORTCUTS :: "ustr list" where
  "SAFE_SHORTCUTS = [(asc ''Tab''), (asc ''Shift+Tab''), (asc ''Escape''), (asc ''Enter''), [0x65B9, 0x5411, 0x4E0A], [0x65B9, 0x5411, 0x4E0B], [0x65B9, 0x5411, 0x5DE6], [0x65B9, 0x5411, 0x53F3]]"

section \<open>The policy of the executor\<close>

definition text_of :: "ustr option \<Rightarrow> ustr" where
  "text_of x = (case x of None \<Rightarrow> [] | Some s \<Rightarrow> s)"

definition ensure_executor_enabled :: "computer_settings \<Rightarrow> computer_error option" where
  "ensure_executor_enabled st = require (st_executor st) (Refused 403 [0x7535, 0x8111, 0x6267, 0x884C, 0x5668, 0x5F53, 0x524D, 0x672A, 0x5F00, 0x542F])"

definition ensure_screen_capture_enabled :: "computer_settings \<Rightarrow> computer_error option" where
  "ensure_screen_capture_enabled st = require (st_capture st) (Refused 403 [0x622A, 0x56FE, 0x529F, 0x80FD, 0x5F53, 0x524D, 0x672A, 0x5F00, 0x542F])"

definition ensure_human_takeover_enabled :: "computer_settings \<Rightarrow> computer_error option" where
  "ensure_human_takeover_enabled st = require (st_takeover st) (Refused 403 [0x4EBA, 0x5DE5, 0x63A5, 0x7BA1, 0x529F, 0x80FD, 0x5F53, 0x524D, 0x672A, 0x5F00, 0x542F])"

definition allowed_applications :: "computer_settings \<Rightarrow> ustr list" where
  "allowed_applications st =
     (if st_allowed_apps st \<noteq> [] then st_allowed_apps st
      else if st_production st then [] else DEFAULT_ALLOWED_APPLICATIONS)"

definition blocked_applications :: "computer_settings \<Rightarrow> ustr list" where
  "blocked_applications st = DEFAULT_BLOCKED_APPLICATIONS @ st_blocked_apps st"

definition allowed_windows :: "computer_settings \<Rightarrow> window_pattern list" where
  "allowed_windows st =
     (if st_allowed_windows st \<noteq> [] then st_allowed_windows st
      else if st_production st then []
      else [Found (occurs [0x9694, 0x79BB]), Found (occurs [0x6D4B, 0x8BD5]), Found (occurs [0x6F14, 0x793A])])"

definition ensure_application_allowed :: "computer_settings \<Rightarrow> ustr option \<Rightarrow> computer_error option" where
  "ensure_application_allowed st application =
     (let app = strip (text_of application)
      in if app = [] then None
         else if list_ex (\<lambda>t. t \<noteq> [] \<and> occurs (lower t) (lower app)) (blocked_applications st)
         then Some (Refused 403 [0x76EE, 0x6807, 0x5E94, 0x7528, 0x4E0D, 0x5141, 0x8BB8, 0x6267, 0x884C])
         else require (allowed_applications st = [] \<or> app \<in> set (allowed_applications st))
                (Refused 403 [0x76EE, 0x6807, 0x5E94, 0x7528, 0x4E0D, 0x5728, 0x767D, 0x540D, 0x5355, 0x5185]))"

text \<open>\<^verbatim>\<open>*\<close> on its own is no regular expression: as a blocked pattern it raises.\<close>

fun blocked_window :: "ustr \<Rightarrow> window_pattern list \<Rightarrow> computer_error option" where
  "blocked_window w [] = None"
| "blocked_window w (AnyWindow # ps) = Some BadPattern"
| "blocked_window w (Found p # ps) = (if p w then Some (Refused 403 [0x76EE, 0x6807, 0x7A97, 0x53E3, 0x4E0D, 0x5728, 0x767D, 0x540D, 0x5355, 0x5185]) else blocked_window w ps)"

fun window_matches :: "ustr \<Rightarrow> window_pattern \<Rightarrow> bool" where
  "window_matches w AnyWindow = True"
| "window_matches w (Found p) = p w"

definition only_any :: "window_pattern list \<Rightarrow> bool" where
  "only_any ps = (case ps of [AnyWindow] \<Rightarrow> True | _ \<Rightarrow> False)"

definition ensure_window_allowed :: "computer_settings \<Rightarrow> ustr option \<Rightarrow> computer_error option" where
  "ensure_window_allowed st window =
     (let w = strip (text_of window); allowed = allowed_windows st
      in if w = [] then None
         else first_error
           [blocked_window w (st_blocked_windows st),
            require (allowed = [] \<or> only_any allowed \<or> list_ex (window_matches w) allowed)
              (Refused 403 [0x76EE, 0x6807, 0x7A97, 0x53E3, 0x4E0D, 0x5728, 0x767D, 0x540D, 0x5355, 0x5185])])"

definition ensure_input_safe :: "ustr option \<Rightarrow> computer_error option" where
  "ensure_input_safe text =
     (let content = strip (text_of text)
      in require (content = [] \<or>
           \<not> occurs_any [(asc ''password''), (asc ''token''), (asc ''cookie''), (asc ''secret''), (asc ''private key''), [0x9A8C, 0x8BC1, 0x7801], [0x94F6, 0x884C, 0x5361], [0x8EAB, 0x4EFD, 0x8BC1], (asc ''ssh'')]
               (lower content))
           (Refused 403 [0x654F, 0x611F, 0x8F93, 0x5165, 0x4E0D, 0x5141, 0x8BB8, 0x81EA, 0x52A8, 0x5199, 0x5165]))"

text \<open>The high-risk words are looked for only in action types that are refused anyway.\<close>

definition ensure_action_allowed ::
  "ustr \<Rightarrow> ustr option \<Rightarrow> ustr option \<Rightarrow> ustr option \<Rightarrow> computer_error option"
where
  "ensure_action_allowed action_type application window text =
     (let high_risk = list_ex (\<lambda>k. occurs (lower k)
              (lower (action_type @ [32] @ text_of application @ [32] @ text_of window @ [32] @ text_of text)))
            HIGH_RISK_ACTION_KEYWORDS
      in if action_type = [0x53D6, 0x6D88, 0x4EFB, 0x52A1] then None
         else if action_type \<in> {[0x8FD4, 0x56DE, 0x4E0A, 0x4E00, 0x6B65], [0x7B49, 0x5F85], [0x622A, 0x56FE], [0x67E5, 0x770B, 0x5C4F, 0x5E55], [0x83B7, 0x53D6, 0x7A97, 0x53E3, 0x5217, 0x8868]} then None
         else if action_type \<in> {[0x79FB, 0x52A8, 0x9F20, 0x6807], [0x5355, 0x51FB], [0x53CC, 0x51FB], [0x6EDA, 0x52A8]} then None
         else if action_type = [0x8F93, 0x5165, 0x666E, 0x901A, 0x6587, 0x672C] then ensure_input_safe text
         else if action_type = [0x6309, 0x5141, 0x8BB8, 0x7684, 0x5FEB, 0x6377, 0x952E] then
           require (strip (text_of text) \<in> {(asc ''Enter''), (asc ''Esc''), (asc ''Tab''), (asc ''Shift+Tab''), (asc ''Escape''), [0x65B9, 0x5411, 0x4E0A], [0x65B9, 0x5411, 0x4E0B], [0x65B9, 0x5411, 0x5DE6], [0x65B9, 0x5411, 0x53F3]})
             (Refused 403 [0x5FEB, 0x6377, 0x952E, 0x4E0D, 0x5728, 0x5141, 0x8BB8, 0x8303, 0x56F4, 0x5185])
         else if high_risk then Some (Refused 403 [0x9AD8, 0x98CE, 0x9669, 0x52A8, 0x4F5C, 0x9ED8, 0x8BA4, 0x7981, 0x6B62])
         else Some (Refused 403 [0x7535, 0x8111, 0x64CD, 0x4F5C, 0x7C7B, 0x578B, 0x4E0D, 0x5141, 0x8BB8]))"

definition detect_sensitive_region :: "ustr option \<Rightarrow> ustr option \<Rightarrow> ustr option \<Rightarrow> bool" where
  "detect_sensitive_region window application text =
     occurs_any [[0x5BC6, 0x7801], (asc ''token''), (asc ''cookie''), (asc ''keychain''), [0x94A5, 0x5319, 0x4E32], (asc ''bank''), [0x94F6, 0x884C, 0x5361], [0x9A8C, 0x8BC1, 0x7801], (asc ''secret''), (asc ''ssh'')]
       (lower (text_of window @ [32] @ text_of application @ [32] @ text_of text))"

definition validate_action_payload ::
  "computer_settings \<Rightarrow> ustr \<Rightarrow> ustr option \<Rightarrow> ustr option \<Rightarrow> ustr option \<Rightarrow> computer_error option"
where
  "validate_action_payload st action_type application window text =
     first_error
       [ensure_action_allowed action_type application window text,
        ensure_application_allowed st application,
        ensure_window_allowed st window,
        require (\<not> detect_sensitive_region window application text) (Refused 403 [0x68C0, 0x6D4B, 0x5230, 0x654F, 0x611F, 0x533A, 0x57DF, 0xFF0C, 0x9700, 0x8981, 0x4EBA, 0x5DE5, 0x63A5, 0x7BA1])]"

section \<open>The policy of single actions\<close>

definition ensure_safe_action_enabled :: "computer_settings \<Rightarrow> computer_error option" where
  "ensure_safe_action_enabled st = require (st_safe_action st) (Refused 403 [0x5B89, 0x5168, 0x5355, 0x6B65, 0x64CD, 0x4F5C, 0x529F, 0x80FD, 0x5F53, 0x524D, 0x672A, 0x5F00, 0x542F])"

definition ensure_move_enabled :: "computer_settings \<Rightarrow> computer_error option" where
  "ensure_move_enabled st = require (st_move st) (Refused 403 [0x9F20, 0x6807, 0x79FB, 0x52A8, 0x529F, 0x80FD, 0x5F53, 0x524D, 0x672A, 0x5F00, 0x542F])"

definition ensure_click_enabled :: "computer_settings \<Rightarrow> computer_error option" where
  "ensure_click_enabled st = require (st_click st) (Refused 403 [0x5B89, 0x5168, 0x5355, 0x51FB, 0x529F, 0x80FD, 0x5F53, 0x524D, 0x672A, 0x5F00, 0x542F])"

definition ensure_text_input_enabled :: "computer_settings \<Rightarrow> computer_error option" where
  "ensure_text_input_enabled st = require (st_text st) (Refused 403 [0x5B89, 0x5168, 0x6587, 0x672C, 0x8F93, 0x5165, 0x529F, 0x80FD, 0x5F53, 0x524D, 0x672A, 0x5F00, 0x542F])"

definition ensure_per_action_approval_enabled :: "computer_settings \<Rightarrow> computer_error option" where
  "ensure_per_action_approval_enabled st = require (st_per_action st) (Refused 403 [0x9010, 0x6B65, 0x5BA1, 0x6279, 0x529F, 0x80FD, 0x5F53, 0x524D, 0x672A, 0x5F00, 0x542F])"

definition ensure_post_action_verification_enabled :: "computer_settings \<Rightarrow> computer_error option" where
  "ensure_post_action_verification_enabled st = require (st_verification st) (Refused 403 [0x52A8, 0x4F5C, 0x540E, 0x9A8C, 0x8BC1, 0x529F, 0x80FD, 0x5F53, 0x524D, 0x672A, 0x5F00, 0x542F])"

definition ensure_clipboard_disabled :: "computer_settings \<Rightarrow> computer_error option" where
  "ensure_clipboard_disabled st =
     require (\<not> st_clipboard_read st \<and> \<not> st_clipboard_write st) (Refused 403 [0x526A, 0x8D34, 0x677F, 0x80FD, 0x529B, 0x5FC5, 0x987B, 0x4FDD, 0x6301, 0x5173, 0x95ED])"

definition ensure_file_transfer_disabled :: "computer_settings \<Rightarrow> computer_error option" where
  "ensure_file_transfer_disabled st =
     require (\<not> st_upload st \<and> \<not> st_download st) (Refused 403 [0x6587, 0x4EF6, 0x4F20, 0x8F93, 0x80FD, 0x529B, 0x5FC5, 0x987B, 0x4FDD, 0x6301, 0x5173, 0x95ED])"

definition ensure_action_type_allowed :: "ustr \<Rightarrow> computer_error option" where
  "ensure_action_type_allowed t = require (t \<in> set SAFE_ACTION_TYPES) (Refused 403 [0x52A8, 0x4F5C, 0x7C7B, 0x578B, 0x4E0D, 0x88AB, 0x5141, 0x8BB8])"

definition ensure_target_application_allowed :: "ustr option \<Rightarrow> computer_error option" where
  "ensure_target_application_allowed application =
     (let value = lower (strip (text_of application))
      in first_error
        [require (\<not> list_ex (\<lambda>t. lower t \<noteq> [] \<and> occurs (lower t) value) DEFAULT_BLOCKED_APPLICATIONS)
           (Refused 403 [0x76EE, 0x6807, 0x5E94, 0x7528, 0x4E0D, 0x88AB, 0x5141, 0x8BB8]),
         require (\<not> list_ex (\<lambda>t. occurs (lower t) value) HIGH_RISK_ACTION_KEYWORDS)
           (Refused 403 [0x9AD8, 0x98CE, 0x9669, 0x76EE, 0x6807, 0x4E0D, 0x88AB, 0x5141, 0x8BB8])])"

definition ensure_target_control_allowed ::
  "ustr option \<Rightarrow> ustr option \<Rightarrow> ustr option \<Rightarrow> ustr option \<Rightarrow> computer_error option"
where
  "ensure_target_control_allowed control_type label identifier description =
     require (\<not> list_ex (\<lambda>item. occurs (lower item)
                  (lower (text_of control_type @ [32] @ text_of label @ [32] @ text_of identifier @ [32] @ text_of description)))
                DEFAULT_FORBIDDEN_TARGETS)
       (Refused 403 [0x76EE, 0x6807, 0x63A7, 0x4EF6, 0x4E0D, 0x88AB, 0x5141, 0x8BB8])"

definition ensure_text_safe :: "ustr option \<Rightarrow> computer_error option" where
  "ensure_text_safe text =
     (let content = strip (text_of text)
      in require (content = [] \<or>
           \<not> occurs_any [(asc ''password''), [0x9A8C, 0x8BC1, 0x7801], (asc ''token''), (asc ''cookie''), (asc ''api key''), (asc ''secret''), (asc ''private key''), (asc ''sql''), (asc ''shell''),
                         (asc ''ssh''), [0x94F6, 0x884C, 0x5361], [0x8EAB, 0x4EFD, 0x8BC1]] (lower content))
           (Refused 403 [0x654F, 0x611F, 0x6587, 0x672C, 0x4E0D, 0x5141, 0x8BB8, 0x8F93, 0x5165]))"

type_synonym coordinates = "(ustr \<times> int) list option"

definition ensure_coordinates_safe :: "coordinates \<Rightarrow> computer_error option" where
  "ensure_coordinates_safe coordinates =
     (case coordinates of
        None \<Rightarrow> None
      | Some [] \<Rightarrow> None
      | Some kvs \<Rightarrow>
          (case (map_of kvs (asc ''x''), map_of kvs (asc ''y'')) of
             (Some x, Some y) \<Rightarrow> require (0 \<le> x \<and> 0 \<le> y) (Refused 403 [0x5750, 0x6807, 0x4E0D, 0x5408, 0x6CD5])
           | _ \<Rightarrow> Some (Refused 403 [0x5750, 0x6807, 0x4E0D, 0x5408, 0x6CD5])))"

section \<open>Preflight\<close>

text \<open>With the real adapter only captures of allowed pages, and waiting, are possible.\<close>

definition preflight_action_payload :: "computer_settings \<Rightarrow> ustr \<Rightarrow> ustr option \<Rightarrow> computer_error option" where
  "preflight_action_payload st action_type target_url =
     (if \<not> st_openclaw st then None
      else if action_type = [0x7B49, 0x5F85] then None
      else if action_type \<noteq> [0x622A, 0x56FE] then Some (Refused 400 [0x771F, 0x5B9E, 0x9875, 0x9762, 0x6267, 0x884C, 0x5668, 0x4EC5, 0x652F, 0x6301, 0x622A, 0x56FE, 0x548C, 0x7B49, 0x5F85, 0x52A8, 0x4F5C])
      else if \<not> st_capture st then Some (Refused 403 [0x622A, 0x56FE, 0x529F, 0x80FD, 0x5F53, 0x524D, 0x672A, 0x5F00, 0x542F])
      else if validate_capture_target_url target_url (st_origins st) = None
      then Some (Refused 400 [0x622A, 0x56FE, 0x52A8, 0x4F5C, 0x5FC5, 0x987B, 0x63D0, 0x4F9B, 0x5141, 0x8BB8, 0x7684, 0x74, 0x61, 0x72, 0x67, 0x65, 0x74, 0x5F, 0x75, 0x72, 0x6C])
      else require (st_chrome st) (Refused 503 [0x771F, 0x5B9E, 0x9875, 0x9762, 0x622A, 0x56FE, 0x9002, 0x914D, 0x5668, 0x4E0D, 0x53EF, 0x7528]))"

record action_form =
  af_session :: ustr
  af_observation :: "ustr option"
  af_task :: "int option"
  af_employee :: "int option"
  af_skill :: "int option"
  af_application :: "ustr option"
  af_bundle :: "ustr option"
  af_window :: "ustr option"
  af_url :: "ustr option"
  af_goal :: ustr
  af_type :: ustr
  af_control :: "ustr option"
  af_label :: "ustr option"
  af_identifier :: "ustr option"
  af_description :: "ustr option"
  af_coordinates :: coordinates
  af_text :: "ustr option"
  af_mode :: ustr
  af_risk :: ustr
  af_max :: int
  af_trace :: "ustr option"
  af_fallback :: bool

text \<open>What the pydantic model accepts: a safe action type, a known or empty control type, a URL of at most 255 characters.\<close>

definition form_valid :: "action_form \<Rightarrow> bool" where
  "form_valid f \<longleftrightarrow>
     af_type f \<in> set SAFE_ACTION_TYPES \<and>
     (af_control f \<in> {None, Some []} \<or> the (af_control f) \<in> set ACTION_CONTROL_TYPES) \<and>
     length (text_of (af_url f)) \<le> 255"

text \<open>\<^verbatim>\<open>ensure_shortcut_safe\<close> is not imported where it is called: a shortcut raises a \<^verbatim>\<open>NameError\<close>.\<close>

definition preflight_action_plan :: "computer_settings \<Rightarrow> action_form \<Rightarrow> computer_error option" where
  "preflight_action_plan st f =
     first_error
       [ensure_safe_action_enabled st,
        ensure_per_action_approval_enabled st,
        ensure_post_action_verification_enabled st,
        ensure_clipboard_disabled st,
        ensure_file_transfer_disabled st,
        ensure_action_type_allowed (af_type f),
        ensure_target_application_allowed (af_application f),
        ensure_target_control_allowed (af_control f) (af_label f) (af_identifier f) (af_description f),
        ensure_coordinates_safe (af_coordinates f),
        (if af_type f = [0x79FB, 0x52A8, 0x9F20, 0x6807] then ensure_move_enabled st
         else if af_type f = [0x5355, 0x51FB] then ensure_click_enabled st
         else if af_type f = [0x8F93, 0x5165, 0x666E, 0x901A, 0x6587, 0x672C] then first_error [ensure_text_input_enabled st, ensure_text_safe (af_text f)]
         else if af_type f = [0x6309, 0x5141, 0x8BB8, 0x7684, 0x5FEB, 0x6377, 0x952E] then Some UndefinedName
         else None),
        preflight_action_payload st (af_type f) (af_url f)]"

definition resolve_target :: "action_form \<Rightarrow> computer_error option" where
  "resolve_target f =
     first_error
       [ensure_target_application_allowed (af_application f),
        ensure_target_control_allowed (af_control f) (af_label f) (af_identifier f) (af_description f),
        ensure_coordinates_safe (af_coordinates f),
        require (af_application f \<in> {None, Some []} \<or> af_window f \<noteq> None) (Refused 400 [0x76EE, 0x6807, 0x7A97, 0x53E3, 0x7F3A, 0x5931])]"

section \<open>Facts\<close>

lemma first_error_None [simp]: "first_error es = None \<longleftrightarrow> list_all (\<lambda>e. e = None) es"
  by (induction es rule: first_error.induct) auto

lemma require_None [simp]: "require b e = None \<longleftrightarrow> b"
  by (simp add: require_def)

lemma real_adapter_actions:
  "st_openclaw st \<Longrightarrow> preflight_action_payload st t url = None \<Longrightarrow>
     t = [0x7B49, 0x5F85] \<or> t = [0x622A, 0x56FE] \<and> validate_capture_target_url url (st_origins st) \<noteq> None"
  by (auto simp: preflight_action_payload_def split: if_splits)

lemma shortcut_never_planned: "af_type f = [0x6309, 0x5141, 0x8BB8, 0x7684, 0x5FEB, 0x6377, 0x952E] \<Longrightarrow> preflight_action_plan st f \<noteq> None"
  by (simp add: preflight_action_plan_def)

end
