(* ===== verification/Ownership.thy ===== *)
theory Ownership
  imports Json
begin

text \<open>
  Who owns a task (\<^verbatim>\<open>backend/task_center_ownership.py\<close> and \<^verbatim>\<open>resolve_graph_ownership\<close> of
  \<^verbatim>\<open>backend/brain_orchestrator/planner.py\<close>): the scope a user acts in, the predicate every owned
  query filters by, and the ownership a queue message carries from one process to the next. SHA-256 is
  the argument \<open>sha\<close>.
\<close>

section \<open>Rows\<close>

record app_user =
  ur_id :: int
  ur_tenant :: int
  ur_company :: int

record store_row =
  so_id :: int
  so_active :: bool
  so_tenant :: int
  so_company :: int

record membership =
  mb_user :: int
  mb_store :: int
  mb_active :: bool
  mb_read :: bool

record center_task =
  ct_id :: int
  ct_status :: ustr
  ct_summary :: "ustr option"
  ct_code :: "ustr option"
  ct_name :: "ustr option"
  ct_tenant :: "int option"
  ct_company :: "int option"
  ct_requester :: "int option"
  ct_stores :: "ustr option"
  ct_key :: "ustr option"
  ct_run :: "ustr option"

record center_result =
  cx_task :: int
  cx_code :: ustr
  cx_name :: ustr
  cx_content :: ustr

record alpha_run =
  al_id :: ustr
  al_task :: "int option"
  al_user :: "int option"

record graph_scope =
  gs_tenant :: int
  gs_company :: int
  gs_requester :: int
  gs_stores :: ustr
  gs_key :: ustr

record owned_graph =
  og_run :: "ustr option"
  og_tenant :: "int option"
  og_company :: "int option"
  og_requester :: "int option"
  og_stores :: ustr
  og_key :: ustr

record task_db =
  td_stores :: "store_row list"
  td_members :: "membership list"
  td_tasks :: "center_task list"
  td_results :: "center_result list"
  td_runs :: "alpha_run list"
  td_graphs :: "owned_graph list"

interpretation task_table: keyed_table ct_id "row_get ct_id" "row_put ct_id" row_add
  by (rule row_keyed_table)

section \<open>The scope of a user\<close>

text \<open>The stores the user may read, in the order of their ids.\<close>

definition readable_stores :: "app_user \<Rightarrow> task_db \<Rightarrow> int list" where
  "readable_stores u db =
     map mb_store (rows_by mb_store
       (\<lambda>m. mb_user m = ur_id u \<and> mb_active m \<and> mb_read m \<and>
            list_ex (\<lambda>s. so_id s = mb_store m \<and> so_active s \<and> so_tenant s = ur_tenant u \<and> so_company s = ur_company u)
              (td_stores db))
       (td_members db))"

definition store_scope_text :: "app_user \<Rightarrow> int list \<Rightarrow> ustr" where
  "store_scope_text u stores =
     (if stores \<noteq> []
      then (asc ''{\"store_ids\":['') @ joined (asc '','') (map int_text stores) @ (asc '']}'')
      else (asc ''{\"unassigned_user_id\":'') @ int_text (ur_id u) @ (asc ''}''))"

definition ownership_text :: "app_user \<Rightarrow> ustr \<Rightarrow> ustr" where
  "ownership_text u store_scope =
     (asc ''{\"company_id\":'') @ int_text (ur_company u) @ (asc '',\"requester_id\":'') @ int_text (ur_id u) @
     (asc '',\"store_scope\":'') @ store_scope @ (asc '',\"tenant_id\":'') @ int_text (ur_tenant u) @ (asc ''}'')"

definition resolve_graph_ownership :: "(ustr \<Rightarrow> ustr) \<Rightarrow> app_user \<Rightarrow> task_db \<Rightarrow> graph_scope" where
  "resolve_graph_ownership sha u db =
     (let stores = store_scope_text u (readable_stores u db)
      in \<lparr>gs_tenant = ur_tenant u, gs_company = ur_company u, gs_requester = ur_id u, gs_stores = stores,
          gs_key = sha (ownership_text u stores)\<rparr>)"

section \<open>Owned tasks\<close>

definition run_matches :: "graph_scope \<Rightarrow> task_db \<Rightarrow> center_task \<Rightarrow> bool" where
  "run_matches scope db t =
     list_ex (\<lambda>r. Some (al_id r) = ct_run t \<and> al_task r = Some (ct_id t) \<and> al_user r = Some (gs_requester scope) \<and>
                 list_ex (\<lambda>g. og_run g = Some (al_id r) \<and> og_tenant g = Some (gs_tenant scope) \<and>
                             og_company g = Some (gs_company scope) \<and> og_requester g = Some (gs_requester scope) \<and>
                             og_stores g = gs_stores scope \<and> og_key g = gs_key scope) (td_graphs db))
       (td_runs db)"

definition task_ownership_predicate :: "graph_scope \<Rightarrow> task_db \<Rightarrow> center_task \<Rightarrow> bool" where
  "task_ownership_predicate scope db t \<longleftrightarrow>
     ct_tenant t = Some (gs_tenant scope) \<and> ct_company t = Some (gs_company scope) \<and>
     ct_requester t = Some (gs_requester scope) \<and> ct_stores t = Some (gs_stores scope) \<and>
     ct_key t = Some (gs_key scope) \<and> (ct_run t = None \<or> run_matches scope db t)"

text \<open>A session without a bound user owns nothing.\<close>

definition owned_tasks :: "(ustr \<Rightarrow> ustr) \<Rightarrow> app_user option \<Rightarrow> task_db \<Rightarrow> center_task list" where
  "owned_tasks sha user db =
     (case user of None \<Rightarrow> []
      | Some u \<Rightarrow> filter (task_ownership_predicate (resolve_graph_ownership sha u db) db) (td_tasks db))"

definition owned_task_or_none :: "(ustr \<Rightarrow> ustr) \<Rightarrow> app_user option \<Rightarrow> task_db \<Rightarrow> int \<Rightarrow> center_task option" where
  "owned_task_or_none sha user db i = row_get ct_id i (owned_tasks sha user db)"

definition owned_results :: "(ustr \<Rightarrow> ustr) \<Rightarrow> app_user option \<Rightarrow> task_db \<Rightarrow> center_result list" where
  "owned_results sha user db =
     filter (\<lambda>r. list_ex (\<lambda>t. ct_id t = cx_task r) (owned_tasks sha user db)) (td_results db)"

text \<open>\<^verbatim>\<open>owned_task_rows_query\<close>: the rows of a table whose task column names an owned task.\<close>

definition owned_rows :: "(ustr \<Rightarrow> ustr) \<Rightarrow> app_user option \<Rightarrow> task_db \<Rightarrow> ('r \<Rightarrow> int option) \<Rightarrow> 'r list \<Rightarrow> 'r list" where
  "owned_rows sha user db task_of rows =
     filter (\<lambda>r. list_ex (\<lambda>t. task_of r = Some (ct_id t)) (owned_tasks sha user db)) rows"

definition bind_task_ownership :: "(ustr \<Rightarrow> ustr) \<Rightarrow> app_user \<Rightarrow> ustr option \<Rightarrow> task_db \<Rightarrow> center_task \<Rightarrow> center_task" where
  "bind_task_ownership sha u run db t =
     (let scope = resolve_graph_ownership sha u db
      in t\<lparr>ct_tenant := Some (gs_tenant scope), ct_company := Some (gs_company scope),
           ct_requester := Some (gs_requester scope), ct_stores := Some (gs_stores scope),
           ct_key := Some (gs_key scope), ct_run := run\<rparr>)"

section \<open>Ownership carried in a message\<close>

definition num_json :: "int option \<Rightarrow> json" where
  "num_json x = (case x of None \<Rightarrow> JNull | Some i \<Rightarrow> JInt i)"

definition ownership_values :: "center_task \<Rightarrow> (ustr \<times> json) list" where
  "ownership_values t =
     [((asc ''tenant_id''), num_json (ct_tenant t)), ((asc ''company_id''), num_json (ct_company t)),
      ((asc ''requester_id''), num_json (ct_requester t)), ((asc ''store_scope_key''), jopt (ct_stores t)),
      ((asc ''ownership_scope_key''), jopt (ct_key t))]"

definition blank :: "json \<Rightarrow> bool" where
  "blank j \<longleftrightarrow> j = JNull \<or> j = JStr []"

text \<open>\<open>None\<close> is the \<^verbatim>\<open>ValueError\<close> of an incomplete ownership.\<close>

definition task_ownership_context :: "center_task \<Rightarrow> json option" where
  "task_ownership_context t =
     (if list_ex (\<lambda>kv. blank (snd kv)) (ownership_values t) then None
      else Some (JObj (ownership_values t @ [((asc ''canonical_run_id''), jopt (ct_run t))])))"

definition bind_task_ownership_from_task :: "center_task \<Rightarrow> center_task \<Rightarrow> center_task option" where
  "bind_task_ownership_from_task t parent =
     (case task_ownership_context parent of None \<Rightarrow> None
      | Some _ \<Rightarrow> Some (t\<lparr>ct_tenant := ct_tenant parent, ct_company := ct_company parent,
                          ct_requester := ct_requester parent, ct_stores := ct_stores parent,
                          ct_key := ct_key parent, ct_run := None\<rparr>))"

definition owned_task_from_context :: "task_db \<Rightarrow> int \<Rightarrow> json \<Rightarrow> center_task option" where
  "owned_task_from_context db i ownership =
     (case ownership of
        JObj kvs \<Rightarrow>
          (let fields = [(asc ''tenant_id''), (asc ''company_id''), (asc ''requester_id''), (asc ''store_scope_key''), (asc ''ownership_scope_key'')]
           in if set (map fst kvs) \<noteq> set (fields @ [(asc ''canonical_run_id'')]) \<or>
                 list_ex (\<lambda>k. blank (jget k ownership)) fields then None
              else find (\<lambda>t. ct_id t = i \<and> list_all (\<lambda>kv. snd kv = jget (fst kv) ownership) (ownership_values t) \<and>
                             jopt (ct_run t) = jget (asc ''canonical_run_id'') ownership) (td_tasks db))
      | _ \<Rightarrow> None)"

section \<open>Facts\<close>

lemma owned_tasks_iff:
  "t \<in> set (owned_tasks sha user db) \<longleftrightarrow>
     (\<exists>u. user = Some u \<and> t \<in> set (td_tasks db) \<and>
          task_ownership_predicate (resolve_graph_ownership sha u db) db t)"
  by (auto simp: owned_tasks_def split: option.splits)

lemma owned_task_some:
  assumes "owned_task_or_none sha user db i = Some t"
  shows "t \<in> set (owned_tasks sha user db)" and "ct_id t = i"
  using assms by (auto simp: owned_task_or_none_def dest: row_get_in row_get_key)

lemma owned_task_requester:
  assumes "t \<in> set (owned_tasks sha (Some u) db)"
  shows "ct_requester t = Some (ur_id u)" and "ct_tenant t = Some (ur_tenant u)" and "ct_company t = Some (ur_company u)"
  using assms by (auto simp: owned_tasks_iff task_ownership_predicate_def resolve_graph_ownership_def Let_def)

text \<open>A task has one owner.\<close>

lemma one_owner:
  "t \<in> set (owned_tasks sha (Some u) db) \<Longrightarrow> t \<in> set (owned_tasks sha (Some v) db) \<Longrightarrow> ur_id u = ur_id v"
  by (auto dest!: owned_task_requester(1))

lemma owned_rows_in:
  "r \<in> set (owned_rows sha user db f rows) \<longleftrightarrow>
     r \<in> set rows \<and> (\<exists>t \<in> set (owned_tasks sha user db). f r = Some (ct_id t))"
  by (auto simp: owned_rows_def list_ex_iff)

text \<open>A task bound to a user outside a canonical run is owned by that user.\<close>

lemma bound_task_owned:
  assumes "db' = db\<lparr>td_tasks := ts\<rparr>" and "bind_task_ownership sha u None db t \<in> set ts"
  shows "bind_task_ownership sha u None db t \<in> set (owned_tasks sha (Some u) db')"
proof -
  have "resolve_graph_ownership sha u db' = resolve_graph_ownership sha u db"
    using assms(1) by (simp add: resolve_graph_ownership_def readable_stores_def)
  with assms show ?thesis
    by (simp add: owned_tasks_iff task_ownership_predicate_def bind_task_ownership_def Let_def)
qed

end
