(* ===== verification/Transaction.thy ===== *)
theory Transaction
  imports Prelude
begin

text \<open>
  Database transactions as state passing. An operation answers with a value and the new database, or
  raises; an error comes with the database it leaves committed, if it commits one before it is
  raised, and without one nothing is kept. \<open>keeps R f\<close> says that every database the transaction
  \<open>f\<close> can leave is related by \<open>R\<close> to the one it started from; the locale \<open>tx_frame\<close> gives the rules
  for a relation that is reflexive and transitive. \<open>unsaved f\<close> says that \<open>f\<close> commits nothing before
  it raises.
\<close>

type_synonym ('s, 'e, 'a) transaction = "'s \<Rightarrow> ('e \<times> 's option) + 'a \<times> 's"

definition tx_return :: "'a \<Rightarrow> ('s, 'e, 'a) transaction" where
  "tx_return x db = Inr (x, db)"

definition tx_fail :: "'e \<Rightarrow> ('s, 'e, 'a) transaction" where
  "tx_fail e db = Inl (e, None)"

definition tx_bind :: "('s, 'e, 'a) transaction \<Rightarrow> ('a \<Rightarrow> ('s, 'e, 'b) transaction) \<Rightarrow> ('s, 'e, 'b) transaction" where
  "tx_bind f g db = (case f db of Inl e \<Rightarrow> Inl e | Inr (x, db1) \<Rightarrow> g x db1)"

definition tx_check :: "'e option \<Rightarrow> ('s, 'e, unit) transaction" where
  "tx_check e db = (case e of None \<Rightarrow> Inr ((), db) | Some x \<Rightarrow> Inl (x, None))"

definition tx_read :: "('s \<Rightarrow> 'a) \<Rightarrow> ('s, 'e, 'a) transaction" where
  "tx_read f db = Inr (f db, db)"

definition tx_write :: "('s \<Rightarrow> 's) \<Rightarrow> ('s, 'e, unit) transaction" where
  "tx_write f db = Inr ((), f db)"

definition tx_some :: "'a option \<Rightarrow> 'e \<Rightarrow> ('s, 'e, 'a) transaction" where
  "tx_some x e db = (case x of None \<Rightarrow> Inl (e, None) | Some y \<Rightarrow> Inr (y, db))"

text \<open>What follows a \<^verbatim>\<open>db.commit()\<close>: a later error leaves the committed database.\<close>

definition after_commit :: "bool \<Rightarrow> ('s, 'e, 'a) transaction \<Rightarrow> ('s, 'e, 'a) transaction" where
  "after_commit commit f db =
     (case f db of Inl (e, None) \<Rightarrow> Inl (e, if commit then Some db else None) | r \<Rightarrow> r)"

text \<open>Raise after a change that is committed, or only flushed and then undone with the caller.\<close>

definition fail_saving ::
  "bool \<Rightarrow> 'e \<Rightarrow> 's \<Rightarrow> ('e \<times> 's option) + 'a"
where
  "fail_saving commit e saved = Inl (e, if commit then Some saved else None)"

definition run_tx :: "('s, 'e, 'a) transaction \<Rightarrow> 's \<Rightarrow> ('e + 'a) \<times> 's" where
  "run_tx f db =
     (case f db of
        Inl (e, None) \<Rightarrow> (Inl e, db)
      | Inl (e, Some saved) \<Rightarrow> (Inl e, saved)
      | Inr (x, db1) \<Rightarrow> (Inr x, db1))"

text \<open>A new row whose key the table must not hold yet.\<close>

definition add_new :: "('r \<Rightarrow> 'k) \<Rightarrow> 'r \<Rightarrow> 'r list \<Rightarrow> 'r list option" where
  "add_new key r t = (if row_get key (key r) t = None then Some (row_add r t) else None)"

section \<open>Facts\<close>

lemma add_new_some: "add_new key r t = Some t' \<longleftrightarrow> row_get key (key r) t = None \<and> t' = row_add r t"
  by (auto simp: add_new_def)

lemma tx_bind_Inr:
  "tx_bind f g db = Inr (y, db') \<longleftrightarrow> (\<exists>x db1. f db = Inr (x, db1) \<and> g x db1 = Inr (y, db'))"
  by (auto simp: tx_bind_def split: sum.splits)

lemma tx_bind_Inl:
  "tx_bind f g db = Inl e \<longleftrightarrow> f db = Inl e \<or> (\<exists>x db1. f db = Inr (x, db1) \<and> g x db1 = Inl e)"
  by (auto simp: tx_bind_def split: sum.splits)

lemma tx_simps [simp]:
  "tx_return x db = Inr (y, db') \<longleftrightarrow> y = x \<and> db' = db"
  "tx_return x db \<noteq> Inl p"
  "tx_fail e db \<noteq> Inr r"
  "tx_fail e db = Inl (e', s) \<longleftrightarrow> e' = e \<and> s = None"
  "tx_check c db = Inr (u, db') \<longleftrightarrow> c = None \<and> db' = db"
  "tx_check c db = Inl (e', s) \<longleftrightarrow> c = Some e' \<and> s = None"
  "tx_read f db = Inr (y, db') \<longleftrightarrow> y = f db \<and> db' = db"
  "tx_read f db \<noteq> Inl p"
  "tx_write h db = Inr (u, db') \<longleftrightarrow> db' = h db"
  "tx_write h db \<noteq> Inl p"
  "tx_some z e db = Inr (y, db') \<longleftrightarrow> z = Some y \<and> db' = db"
  "tx_some z e db = Inl (e', s) \<longleftrightarrow> z = None \<and> e' = e \<and> s = None"
  "fail_saving keep e saved \<noteq> Inr r"
  "fail_saving keep e saved = Inl (e', s) \<longleftrightarrow> e' = e \<and> s = (if keep then Some saved else None)"
  by (auto simp: tx_return_def tx_fail_def tx_check_def tx_read_def tx_write_def tx_some_def
      fail_saving_def split: option.splits)

lemma after_commit_Inr [simp]: "after_commit c f db = Inr r \<longleftrightarrow> f db = Inr r"
  by (auto simp: after_commit_def split: sum.splits option.splits)

lemma after_commit_Inl:
  "after_commit c f db = Inl (e, s) \<longleftrightarrow>
     (\<exists>s'. f db = Inl (e, s') \<and> s = (if s' = None \<and> c then Some db else s'))"
  by (auto simp: after_commit_def split: sum.splits option.splits)

section \<open>What a transaction leaves\<close>

definition leaves :: "('s, 'e, 'a) transaction \<Rightarrow> 's \<Rightarrow> 's \<Rightarrow> bool" where
  "leaves f db db' \<longleftrightarrow> (\<exists>x. f db = Inr (x, db')) \<or> (\<exists>e. f db = Inl (e, Some db'))"

definition keeps :: "('s \<Rightarrow> 's \<Rightarrow> bool) \<Rightarrow> ('s, 'e, 'a) transaction \<Rightarrow> bool" where
  "keeps R f \<longleftrightarrow> (\<forall>db db'. leaves f db db' \<longrightarrow> R db db')"

definition unsaved :: "('s, 'e, 'a) transaction \<Rightarrow> bool" where
  "unsaved f \<longleftrightarrow> (\<forall>db e d. f db \<noteq> Inl (e, Some d))"

lemma keepsD: "keeps R f \<Longrightarrow> f db = Inr (x, db') \<Longrightarrow> R db db'"
  by (auto simp: keeps_def leaves_def)

lemma keepsD_saved: "keeps R f \<Longrightarrow> f db = Inl (e, Some db') \<Longrightarrow> R db db'"
  by (auto simp: keeps_def leaves_def)

lemma leaves_bind: "leaves (tx_bind f g) db db' \<Longrightarrow>
    (\<exists>e. f db = Inl (e, Some db')) \<or> (\<exists>x db1. f db = Inr (x, db1) \<and> leaves (g x) db1 db')"
  by (auto simp: leaves_def tx_bind_Inr tx_bind_Inl)

lemma run_tx_leaves: "snd (run_tx f db) = db \<or> leaves f db (snd (run_tx f db))"
  by (auto simp: run_tx_def leaves_def split: sum.splits option.splits)

locale tx_frame =
  fixes R :: "'s \<Rightarrow> 's \<Rightarrow> bool"
  assumes refl: "R db db"
    and trans: "R a b \<Longrightarrow> R b c \<Longrightarrow> R a c"
begin

lemma keeps_basic:
  "keeps R (tx_return x)" "keeps R (tx_fail e)" "keeps R (tx_check c)" "keeps R (tx_read h)"
  "keeps R (\<lambda>db. tx_some (k db) e db)" "keeps R (\<lambda>db. tx_check (b db) db)"
  by (auto simp: keeps_def leaves_def refl)

lemma keeps_write: "(\<And>db. R db (h db)) \<Longrightarrow> keeps R (tx_write h)"
  by (auto simp: keeps_def leaves_def)

lemma keeps_bind:
  assumes "keeps R f" and "\<And>x. keeps R (g x)"
  shows "keeps R (tx_bind f g)"
  unfolding keeps_def
proof (intro allI impI)
  fix db db' assume "leaves (tx_bind f g) db db'"
  then have "(\<exists>e. f db = Inl (e, Some db')) \<or> (\<exists>x db1. f db = Inr (x, db1) \<and> leaves (g x) db1 db')"
    by (rule leaves_bind)
  then consider e where "f db = Inl (e, Some db')" | x db1 where "f db = Inr (x, db1)" "leaves (g x) db1 db'"
    by auto
  then show "R db db'"
  proof cases
    case 1
    with assms(1) show ?thesis by (rule keepsD_saved)
  next
    case 2
    from assms(1) 2(1) have "R db db1" by (rule keepsD)
    moreover from assms(2) 2(2) have "R db1 db'" by (auto simp: keeps_def)
    ultimately show ?thesis by (rule trans)
  qed
qed

lemma keeps_after_commit: "keeps R f \<Longrightarrow> keeps R (after_commit c f)"
  by (auto simp: keeps_def leaves_def after_commit_Inl split: if_splits intro: refl)

lemma keeps_run: "keeps R f \<Longrightarrow> R db (snd (run_tx f db))"
  using run_tx_leaves [of f db] by (auto simp: keeps_def refl)

end

lemma unsaved_basic:
  "unsaved (tx_return x)" "unsaved (tx_fail e)" "unsaved (tx_check c)" "unsaved (tx_read h)" "unsaved (tx_write k)"
  "unsaved (\<lambda>db. tx_some (m db) e db)" "unsaved (\<lambda>db. tx_check (b db) db)"
  by (auto simp: unsaved_def)

lemma unsaved_bind: "unsaved f \<Longrightarrow> (\<And>x. unsaved (g x)) \<Longrightarrow> unsaved (tx_bind f g)"
  by (auto simp: unsaved_def tx_bind_Inl)

lemma unsaved_after_commit: "unsaved f \<Longrightarrow> unsaved (after_commit False f)"
  by (auto simp: unsaved_def after_commit_Inl)

section \<open>Transactions that a change of the database leaves alike\<close>

text \<open>
  \<open>alike h g f f'\<close>: on the database changed by \<open>h\<close> the transaction \<open>f'\<close> does what \<open>f\<close> does on the database
  as it was, up to \<open>h\<close> in the databases it leaves and \<open>g\<close> in its answer.
\<close>

definition image_of :: "('s \<Rightarrow> 's) \<Rightarrow> ('a \<Rightarrow> 'b) \<Rightarrow> ('e \<times> 's option) + ('a \<times> 's) \<Rightarrow> ('e \<times> 's option) + ('b \<times> 's)" where
  "image_of h g r = map_sum (map_prod id (map_option h)) (map_prod g h) r"

definition alike ::
  "('s \<Rightarrow> 's) \<Rightarrow> ('a \<Rightarrow> 'b) \<Rightarrow> ('s, 'e, 'a) transaction \<Rightarrow> ('s, 'e, 'b) transaction \<Rightarrow> bool"
where
  "alike h g f f' \<longleftrightarrow> (\<forall>db. f' (h db) = image_of h g (f db))"

lemma image_of_simps [simp]:
  "image_of h g (Inl (e, s)) = Inl (e, map_option h s)" "image_of h g (Inr (x, db)) = Inr (g x, h db)"
  by (simp_all add: image_of_def)

lemma alike_bind:
  assumes "alike h g f f'" and "\<And>x. alike h g' (k x) (k' (g x))"
  shows "alike h g' (tx_bind f k) (tx_bind f' k')"
  using assms by (auto simp: alike_def tx_bind_def split: sum.splits prod.splits)

lemma alike_basic:
  "alike h id (tx_return x) (tx_return x)" "alike h id (tx_fail e) (tx_fail e)" "alike h id (tx_check c) (tx_check c)"
  by (auto simp: alike_def tx_return_def tx_fail_def tx_check_def split: option.splits)

lemma alike_read: "(\<And>db. n (h db) = g (m db)) \<Longrightarrow> alike h g (tx_read m) (tx_read n)"
  by (simp add: alike_def tx_read_def)

lemma alike_write: "(\<And>db. n (h db) = h (m db)) \<Longrightarrow> alike h id (tx_write m) (tx_write n)"
  by (simp add: alike_def tx_write_def)

lemma alike_some: "(\<And>db. n (h db) = map_option g (m db)) \<Longrightarrow> alike h g (\<lambda>db. tx_some (m db) e db) (\<lambda>db. tx_some (n db) e db)"
  by (auto simp: alike_def tx_some_def split: option.splits)

lemma alike_run: "alike h g f f' \<Longrightarrow> snd (run_tx f' (h db)) = h (snd (run_tx f db))"
  by (auto simp: alike_def run_tx_def image_of_def split: sum.splits option.splits)

end
