(* ===== verification/Computer_Data.thy ===== *)
theory Computer_Data
  imports Computer_Policy Ownership Transaction
begin

text \<open>
  The tables of the computer executor and of its workflows (\<^verbatim>\<open>executors/computer/models.py\<close>,
  \<^verbatim>\<open>actions/models.py\<close>, \<^verbatim>\<open>workflows/computer/models.py\<close>), the transactions that change them, and the
  rows every operation writes (\<^verbatim>\<open>executors/computer/session.py\<close>). JSON columns hold the value they
  encode, times are integers of microseconds. The database refuses a second row with the same key;
  foreign keys and column widths are not checked.
\<close>

section \<open>Rows\<close>

record computer_session =
  cs_id :: ustr
  cs_execution :: "int option"
  cs_task :: "int option"
  cs_employee :: "int option"
  cs_skill :: "int option"
  cs_executor :: ustr
  cs_environment :: ustr
  cs_status :: ustr
  cs_risk :: ustr
  cs_approval :: ustr
  cs_apps :: "ustr list"
  cs_windows :: "ustr list"
  cs_started :: int
  cs_expires :: int
  cs_ended :: "int option"
  cs_takeover :: ustr
  cs_shot :: "int option"
  cs_trace :: "ustr option"

record computer_action =
  ac_id :: ustr
  ac_session :: ustr
  ac_sequence :: int
  ac_type :: ustr
  ac_application :: "ustr option"
  ac_window :: "ustr option"
  ac_description :: "ustr option"
  ac_input :: "ustr option"
  ac_coordinates :: coordinates
  ac_risk :: ustr
  ac_required :: bool
  ac_approval :: ustr
  ac_before :: "ustr option"
  ac_after :: "ustr option"
  ac_result :: "ustr option"
  ac_started :: "int option"
  ac_finished :: "int option"
  ac_trace :: "ustr option"

record evidence_row =
  ev_id :: ustr
  ev_session :: ustr
  ev_action :: "ustr option"
  ev_type :: ustr
  ev_reference :: ustr

record takeover_row =
  to_id :: ustr
  to_session :: ustr
  to_by :: "ustr option"
  to_reason :: "ustr option"
  to_approval :: ustr
  to_status :: ustr

record policy_event =
  pe_id :: ustr
  pe_session :: "ustr option"
  pe_action :: "ustr option"
  pe_code :: ustr
  pe_message :: "ustr option"
  pe_risk :: ustr
  pe_sensitive :: bool
  pe_trace :: "ustr option"

record proposed_action =
  pa_id :: ustr
  pa_type :: ustr
  pa_application :: "ustr option"
  pa_bundle :: "ustr option"
  pa_window :: "ustr option"
  pa_url :: "ustr option"
  pa_control :: "ustr option"
  pa_label :: "ustr option"
  pa_identifier :: "ustr option"
  pa_description :: "ustr option"
  pa_coordinates :: coordinates
  pa_text :: "ustr option"
  pa_mode :: ustr

record action_plan =
  pl_id :: ustr
  pl_session :: ustr
  pl_observation :: "ustr option"
  pl_task :: "int option"
  pl_employee :: "int option"
  pl_skill :: "int option"
  pl_application :: "ustr option"
  pl_bundle :: "ustr option"
  pl_window :: "ustr option"
  pl_goal :: ustr
  pl_proposed :: "proposed_action list"
  pl_index :: int
  pl_max :: int
  pl_risk :: ustr
  pl_mode :: ustr
  pl_status :: ustr
  pl_expires :: int
  pl_trace :: "ustr option"

record action_target =
  tg_id :: ustr
  tg_plan :: ustr
  tg_action :: ustr
  tg_type :: ustr
  tg_control :: "ustr option"
  tg_label :: "ustr option"
  tg_identifier :: "ustr option"
  tg_description :: "ustr option"
  tg_window :: "ustr option"
  tg_application :: "ustr option"
  tg_coordinates :: coordinates
  tg_text :: "ustr option"
  tg_before :: "ustr option"
  tg_hash :: "ustr option"
  tg_status :: ustr

text \<open>
  The scope column: the JSON object written with the plan (session, window, fingerprint of the owner,
  fingerprint of the form), or free text, which is taken not to be a JSON object.
\<close>

datatype approval_scope = Bound ustr "ustr option" "ustr option" ustr | Free "ustr option"

record action_approval =
  aa_id :: ustr
  aa_plan :: ustr
  aa_action :: ustr
  aa_by :: "int option"
  aa_status :: ustr
  aa_scope :: approval_scope
  aa_hash :: "ustr option"
  aa_approved :: "int option"
  aa_expires :: int
  aa_reason :: "ustr option"
  aa_trace :: "ustr option"

record action_verification =
  av_id :: ustr
  av_plan :: ustr
  av_action :: ustr
  av_status :: ustr
  av_window :: "ustr option"
  av_application :: "ustr option"
  av_before :: "ustr option"
  av_after :: "ustr option"
  av_summary :: ustr
  av_trace :: "ustr option"

record workflow =
  wf_id :: ustr
  wf_task :: "int option"
  wf_employee :: "int option"
  wf_skill :: "int option"
  wf_device :: "ustr option"
  wf_session :: "ustr option"
  wf_goal :: ustr
  wf_status :: ustr
  wf_risk :: ustr
  wf_approval :: ustr
  wf_total :: int
  wf_current :: int
  wf_max :: int
  wf_checkpoints :: int
  wf_budget :: json
  wf_started :: "int option"
  wf_finished :: "int option"
  wf_stop :: "ustr option"
  wf_trace :: "ustr option"

record flow_step =
  ws_id :: ustr
  ws_workflow :: ustr
  ws_number :: int
  ws_type :: ustr
  ws_application :: "ustr option"
  ws_bundle :: "ustr option"
  ws_window :: "ustr option"
  ws_control :: "ustr option"
  ws_input :: "ustr option"
  ws_expected :: "ustr option"
  ws_risk :: ustr
  ws_approval :: bool
  ws_checkpoint :: bool
  ws_status :: ustr
  ws_action :: "ustr option"
  ws_verification :: "ustr option"
  ws_started :: "int option"
  ws_finished :: "int option"
  ws_trace :: "ustr option"

record workflow_approval =
  wa_id :: ustr
  wa_workflow :: ustr
  wa_scope :: "ustr option"
  wa_status :: ustr
  wa_by :: "int option"
  wa_approved :: "int option"
  wa_reason :: "ustr option"
  wa_trace :: "ustr option"

record workflow_checkpoint =
  wc_id :: ustr
  wc_workflow :: ustr
  wc_step :: "ustr option"
  wc_type :: ustr
  wc_reason :: "ustr option"
  wc_reference :: "ustr option"
  wc_summary :: "ustr option"
  wc_risk :: ustr
  wc_status :: ustr
  wc_by :: "int option"
  wc_approved :: "int option"
  wc_trace :: "ustr option"

record workflow_verification =
  wv_id :: ustr
  wv_workflow :: ustr
  wv_step :: ustr
  wv_status :: ustr
  wv_before :: "ustr option"
  wv_after :: "ustr option"
  wv_summary :: "ustr option"
  wv_result :: "ustr option"
  wv_trace :: "ustr option"

record workflow_recovery =
  wr_id :: ustr
  wr_workflow :: ustr
  wr_step :: "ustr option"
  wr_type :: ustr
  wr_status :: ustr
  wr_reason :: "ustr option"
  wr_result :: "ustr option"
  wr_trace :: "ustr option"

record computer_db =
  cd_sessions :: "computer_session list"
  cd_actions :: "computer_action list"
  cd_evidence :: "evidence_row list"
  cd_takeovers :: "takeover_row list"
  cd_events :: "policy_event list"
  cd_plans :: "action_plan list"
  cd_targets :: "action_target list"
  cd_approvals :: "action_approval list"
  cd_verifications :: "action_verification list"
  cd_workflows :: "workflow list"
  cd_steps :: "flow_step list"
  cd_scopes :: "workflow_approval list"
  cd_checkpoints :: "workflow_checkpoint list"
  cd_checked :: "workflow_verification list"
  cd_recoveries :: "workflow_recovery list"
  cd_tasks :: task_db

text \<open>
  The outside world of one request: the settings, the user bound to the session, the clock, fresh
  identifiers, digests, and the page capture (the reference of the image and the printed result).
\<close>

record computer_env =
  cn_settings :: computer_settings
  cn_user :: "app_user option"
  cn_now :: int
  cn_iso :: "int \<Rightarrow> ustr"
  cn_sha :: "ustr \<Rightarrow> ustr"
  cn_digest :: "json \<Rightarrow> ustr"
  cn_uuid :: "nat \<Rightarrow> ustr"
  cn_uuid5 :: "json \<Rightarrow> ustr"
  cn_jwt :: "capture_claims \<Rightarrow> ustr"
  cn_page :: "ustr \<Rightarrow> capture_authorization \<Rightarrow> (ustr \<times> ustr) option"
  cn_float :: "ustr \<Rightarrow> int"

interpretation session_table: keyed_table cs_id "row_get cs_id" "row_put cs_id" row_add
  by (rule row_keyed_table)

interpretation action_table: keyed_table ac_id "row_get ac_id" "row_put ac_id" row_add
  by (rule row_keyed_table)

interpretation plan_table: keyed_table pl_id "row_get pl_id" "row_put pl_id" row_add
  by (rule row_keyed_table)

interpretation workflow_table: keyed_table wf_id "row_get wf_id" "row_put wf_id" row_add
  by (rule row_keyed_table)

interpretation step_table: keyed_table ws_id "row_get ws_id" "row_put ws_id" row_add
  by (rule row_keyed_table)

section \<open>Transactions\<close>

text \<open>
  The transactions of these tables (\<open>Transaction\<close>): an operation answers or raises, and what it has
  committed before it raises is kept.
\<close>

type_synonym 'a tx = "(computer_db, computer_error, 'a) transaction"

section \<open>Rows the operations share\<close>

definition screenshot_reference :: "computer_env \<Rightarrow> ustr \<Rightarrow> ustr option \<Rightarrow> ustr" where
  "screenshot_reference env session_id action_id =
     (asc ''screenshot://'') @ take 24 (cn_sha env (session_id @ (asc '':'') @
        (if action_id \<in> {None, Some []} then (asc ''screen'') else text_of action_id) @ (asc '':'') @ cn_iso env (cn_now env)))"

definition evidence_reference :: "computer_env \<Rightarrow> ustr \<Rightarrow> ustr \<Rightarrow> ustr \<Rightarrow> ustr" where
  "evidence_reference env session_id action_id kind =
     (asc ''evidence://'') @ take 32 (cn_sha env (session_id @ (asc '':'') @ action_id @ (asc '':'') @ kind @ (asc '':'') @ cn_iso env (cn_now env)))"

definition create_session_row ::
  "computer_env \<Rightarrow> ustr \<Rightarrow> computer_session \<Rightarrow> computer_session"
where
  "create_session_row env sid form =
     form\<lparr>cs_id := sid, cs_status := [0x5DF2, 0x521B, 0x5EFA], cs_started := cn_now env,
          cs_expires := cn_now env + 1800000000, cs_ended := None, cs_takeover := [0x672A, 0x63A5, 0x7BA1], cs_shot := None\<rparr>"

definition add_evidence_row ::
  "computer_env \<Rightarrow> ustr \<Rightarrow> ustr option \<Rightarrow> ustr \<Rightarrow> ustr \<Rightarrow> evidence_row tx"
where
  "add_evidence_row env session_id action_id kind reference db =
     (let row = \<lparr>ev_id = cn_uuid5 env (JArr [JStr (asc ''computer_evidence''), JStr session_id, jopt action_id, JStr kind, JStr reference]),
                 ev_session = session_id, ev_action = action_id, ev_type = kind, ev_reference = reference\<rparr>
      in case add_new ev_id row (cd_evidence db) of
           None \<Rightarrow> Inl (DbRefused, None)
         | Some rows \<Rightarrow> Inr (row, db\<lparr>cd_evidence := rows\<rparr>))"

text \<open>An event's key is made of the session, the action and the code: each code at most once per action.\<close>

definition policy_row ::
  "computer_env \<Rightarrow> ustr option \<Rightarrow> ustr option \<Rightarrow> ustr \<Rightarrow> ustr option \<Rightarrow> ustr \<Rightarrow> bool \<Rightarrow> ustr option \<Rightarrow> policy_event"
where
  "policy_row env session_id action_id code message risk sensitive_data trace =
     \<lparr>pe_id = cn_uuid5 env (JArr [JStr (asc ''computer_policy_event''), jopt session_id, jopt action_id, JStr code]),
      pe_session = session_id, pe_action = action_id, pe_code = code, pe_message = message,
      pe_risk = risk, pe_sensitive = sensitive_data, pe_trace = trace\<rparr>"

definition add_policy_event :: "policy_event \<Rightarrow> unit tx" where
  "add_policy_event row db =
     (case add_new pe_id row (cd_events db) of
        None \<Rightarrow> Inl (DbRefused, None)
      | Some rows \<Rightarrow> Inr ((), db\<lparr>cd_events := rows\<rparr>))"

text \<open>The columns an action row is given when it is planned or executed.\<close>

record action_write =
  aw_type :: ustr
  aw_application :: "ustr option"
  aw_window :: "ustr option"
  aw_description :: "ustr option"
  aw_text :: "ustr option"
  aw_coordinates :: coordinates
  aw_risk :: ustr
  aw_required :: bool
  aw_approval :: ustr
  aw_before :: "ustr option"
  aw_after :: "ustr option"
  aw_result :: "ustr option"
  aw_started :: "int option"
  aw_finished :: "int option"
  aw_trace :: "ustr option"

definition clip :: "nat \<Rightarrow> ustr option \<Rightarrow> ustr option" where
  "clip n x = (if x = Some [] then None else map_option (take n) x)"

definition some_coordinates :: "coordinates \<Rightarrow> coordinates" where
  "some_coordinates c = (if c = Some [] then None else c)"

definition written_action :: "action_write \<Rightarrow> ustr \<Rightarrow> ustr \<Rightarrow> int \<Rightarrow> computer_action" where
  "written_action w action_id session_id n =
     \<lparr>ac_id = action_id, ac_session = session_id, ac_sequence = n, ac_type = aw_type w,
      ac_application = aw_application w, ac_window = aw_window w, ac_description = aw_description w,
      ac_input = clip 128 (aw_text w), ac_coordinates = some_coordinates (aw_coordinates w),
      ac_risk = aw_risk w, ac_required = aw_required w, ac_approval = aw_approval w,
      ac_before = aw_before w, ac_after = aw_after w, ac_result = aw_result w,
      ac_started = aw_started w, ac_finished = aw_finished w, ac_trace = aw_trace w\<rparr>"

definition add_action_row :: "ustr \<Rightarrow> ustr \<Rightarrow> action_write \<Rightarrow> computer_action tx" where
  "add_action_row session_id action_id w db =
     (case row_get ac_id action_id (cd_actions db) of
        None \<Rightarrow>
          (let row = written_action w action_id session_id
                       (int (length (filter (\<lambda>a. ac_session a = session_id) (cd_actions db))) + 1)
           in Inr (row, db\<lparr>cd_actions := row_add row (cd_actions db)\<rparr>))
      | Some old \<Rightarrow>
          if ac_session old \<noteq> session_id then Inl (BadValue, None)
          else (let row = written_action w action_id session_id (ac_sequence old)
                in Inr (row, db\<lparr>cd_actions := row_put ac_id row (cd_actions db)\<rparr>)))"

definition request_takeover :: "ustr \<Rightarrow> ustr option \<Rightarrow> ustr option \<Rightarrow> computer_session \<Rightarrow> computer_session tx" where
  "request_takeover session_id by_user reason session db =
     (case add_new to_id \<lparr>to_id = session_id @ (asc ''-takeover''), to_session = session_id, to_by = by_user,
             to_reason = reason, to_approval = [0x7B49, 0x5F85, 0x5BA1, 0x6279], to_status = [0x7B49, 0x5F85, 0x63A5, 0x7BA1]\<rparr> (cd_takeovers db) of
        None \<Rightarrow> Inl (DbRefused, None)
      | Some rows \<Rightarrow>
          (let s = session\<lparr>cs_takeover := [0x7B49, 0x5F85, 0x4EBA, 0x5DE5, 0x63A5, 0x7BA1]\<rparr>
           in Inr (s, db\<lparr>cd_takeovers := rows, cd_sessions := row_put cs_id s (cd_sessions db)\<rparr>)))"

section \<open>Facts\<close>

lemma add_policy_event_Inr:
  "add_policy_event row db = Inr (u, db') \<longleftrightarrow>
     row_get pe_id (pe_id row) (cd_events db) = None \<and> db' = db\<lparr>cd_events := row_add row (cd_events db)\<rparr>"
  by (auto simp: add_policy_event_def add_new_def split: option.splits)

end
