(* ===== verification/Computer_Actions.thy ===== *)
theory Computer_Actions
  imports Computer_Data
begin

text \<open>
  Planned actions and their execution (\<^verbatim>\<open>actions/service.py\<close>, \<^verbatim>\<open>actions/planner.py\<close>,
  \<^verbatim>\<open>actions/approval.py\<close>, \<^verbatim>\<open>actions/verifier.py\<close>, \<^verbatim>\<open>actions/rollback.py\<close>, \<^verbatim>\<open>runtime.py\<close>, the mock
  executor and the choice between it and the page capture adapter). \<open>commit\<close> is the parameter of the
  same name: without it everything stays in the transaction of the caller.
\<close>

section \<open>Helpers\<close>

text \<open>\<^verbatim>\<open>a or b\<close> on numbers and on texts.\<close>

definition int_or :: "int option \<Rightarrow> int option \<Rightarrow> int option" where
  "int_or a b = (if a \<in> {None, Some 0} then b else a)"

definition text_or :: "ustr option \<Rightarrow> ustr option \<Rightarrow> ustr option" where
  "text_or a b = (if a \<in> {None, Some []} then b else a)"

definition has_text :: "ustr option \<Rightarrow> bool" where
  "has_text x = (x \<notin> {None, Some []})"

text \<open>\<^verbatim>\<open>order_by(created_at.desc()).first()\<close> on a table kept in the order of creation.\<close>

definition latest_row :: "('r \<Rightarrow> bool) \<Rightarrow> 'r list \<Rightarrow> 'r option" where
  "latest_row p t = find p (rev t)"

definition coordinates_json :: "coordinates \<Rightarrow> json" where
  "coordinates_json c = (case c of None \<Rightarrow> JNull | Some kvs \<Rightarrow> JObj (map (\<lambda>kv. (fst kv, JInt (snd kv))) kvs))"

text \<open>\<^verbatim>\<open>model_dump\<close> of the form, whose digest is the fingerprint of the payload.\<close>

definition form_json :: "action_form \<Rightarrow> json" where
  "form_json f = JObj
     [((asc ''session_id''), JStr (af_session f)), ((asc ''observation_id''), jopt (af_observation f)), ((asc ''task_id''), num_json (af_task f)),
      ((asc ''employee_id''), num_json (af_employee f)), ((asc ''skill_id''), num_json (af_skill f)),
      ((asc ''target_application''), jopt (af_application f)), ((asc ''target_bundle_id''), jopt (af_bundle f)),
      ((asc ''target_window''), jopt (af_window f)), ((asc ''target_url''), jopt (af_url f)), ((asc ''goal''), JStr (af_goal f)),
      ((asc ''action_type''), JStr (af_type f)), ((asc ''control_type''), jopt (af_control f)), ((asc ''control_label''), jopt (af_label f)),
      ((asc ''control_identifier''), jopt (af_identifier f)), ((asc ''target_description''), jopt (af_description f)),
      ((asc ''coordinates''), coordinates_json (af_coordinates f)), ((asc ''text_input''), jopt (af_text f)),
      ((asc ''approval_mode''), JStr (af_mode f)), ((asc ''risk_level''), JStr (af_risk f)), ((asc ''max_actions''), JInt (af_max f)),
      ((asc ''trace_id''), jopt (af_trace f)), ((asc ''allow_coordinate_fallback''), JBool (af_fallback f))]"

definition owner_fingerprint :: "computer_env \<Rightarrow> app_user option \<Rightarrow> computer_db \<Rightarrow> ustr option" where
  "owner_fingerprint env owner db =
     map_option (\<lambda>u. let s = resolve_graph_ownership (cn_sha env) u (cd_tasks db)
        in cn_digest env (JArr [JInt (gs_tenant s), JInt (gs_company s), JInt (gs_requester s), JStr (gs_stores s), JStr (gs_key s)]))
       owner"

section \<open>Planning an action\<close>

definition build_proposed_action :: "action_form \<Rightarrow> ustr \<Rightarrow> proposed_action" where
  "build_proposed_action f action_id =
     \<lparr>pa_id = action_id, pa_type = af_type f, pa_application = af_application f, pa_bundle = af_bundle f,
      pa_window = af_window f, pa_url = af_url f, pa_control = af_control f, pa_label = af_label f,
      pa_identifier = af_identifier f, pa_description = text_or (af_description f) (Some (af_goal f)),
      pa_coordinates = af_coordinates f, pa_text = af_text f, pa_mode = af_mode f\<rparr>"

definition new_plan :: "computer_env \<Rightarrow> action_form \<Rightarrow> action_plan" where
  "new_plan env f =
     \<lparr>pl_id = cn_uuid env 1, pl_session = af_session f, pl_observation = af_observation f, pl_task = af_task f,
      pl_employee = af_employee f, pl_skill = af_skill f, pl_application = af_application f,
      pl_bundle = af_bundle f, pl_window = af_window f, pl_goal = af_goal f,
      pl_proposed = [build_proposed_action f (cn_uuid env 0)], pl_index = 0, pl_max = af_max f,
      pl_risk = af_risk f, pl_mode = af_mode f, pl_status = [0x7B49, 0x5F85, 0x6279, 0x51C6],
      pl_expires = cn_now env + 1800000000, pl_trace = af_trace f\<rparr>"

definition new_target :: "computer_env \<Rightarrow> action_form \<Rightarrow> action_target" where
  "new_target env f =
     \<lparr>tg_id = cn_uuid env 2, tg_plan = cn_uuid env 1, tg_action = cn_uuid env 0, tg_type = af_type f,
      tg_control = af_control f, tg_label = af_label f, tg_identifier = af_identifier f,
      tg_description = text_or (af_description f) (Some (af_goal f)), tg_window = af_window f,
      tg_application = af_application f, tg_coordinates = some_coordinates (af_coordinates f),
      tg_text = clip 80 (af_text f), tg_before = None, tg_hash = None, tg_status = [0x5F85, 0x6821, 0x9A8C]\<rparr>"

definition new_approval ::
  "computer_env \<Rightarrow> nat \<Rightarrow> action_target \<Rightarrow> int option \<Rightarrow> approval_scope \<Rightarrow> ustr option \<Rightarrow> action_approval"
where
  "new_approval env i target approver scope trace =
     \<lparr>aa_id = cn_uuid env i, aa_plan = tg_plan target, aa_action = tg_action target, aa_by = approver,
      aa_status = [0x7B49, 0x5F85, 0x5BA1, 0x6279], aa_scope = scope, aa_hash = tg_hash target, aa_approved = None,
      aa_expires = cn_now env + 600000000, aa_reason = None, aa_trace = trace\<rparr>"

definition planned_action :: "action_form \<Rightarrow> action_write" where
  "planned_action f =
     \<lparr>aw_type = af_type f, aw_application = af_application f, aw_window = af_window f,
      aw_description = af_description f, aw_text = af_text f, aw_coordinates = af_coordinates f,
      aw_risk = af_risk f, aw_required = True, aw_approval = [0x7B49, 0x5F85, 0x5BA1, 0x6279], aw_before = None, aw_after = None,
      aw_result = None, aw_started = None, aw_finished = None, aw_trace = af_trace f\<rparr>"

definition insert_plan :: "action_plan \<Rightarrow> action_target \<Rightarrow> action_approval \<Rightarrow> unit tx" where
  "insert_plan plan target approval db =
     (if list_ex (\<lambda>p. pl_trace plan \<noteq> None \<and> pl_session p = pl_session plan \<and> pl_trace p = pl_trace plan) (cd_plans db) \<or>
         list_ex (\<lambda>t. tg_action t = tg_action target) (cd_targets db)
      then Inl (DbRefused, None)
      else case (add_new pl_id plan (cd_plans db), add_new tg_id target (cd_targets db), add_new aa_id approval (cd_approvals db)) of
             (Some ps, Some ts, Some xs) \<Rightarrow> Inr ((), db\<lparr>cd_plans := ps, cd_targets := ts, cd_approvals := xs\<rparr>)
           | _ \<Rightarrow> Inl (DbRefused, None))"

type_synonym plan_reply = "action_plan \<times> action_target \<times> action_approval"

definition new_action_plan :: "computer_env \<Rightarrow> action_form \<Rightarrow> approval_scope \<Rightarrow> plan_reply tx" where
  "new_action_plan env f scope =
     (let plan = new_plan env f; target = new_target env f;
          approval = new_approval env 3 target None scope (af_trace f)
      in tx_bind (insert_plan plan target approval) (\<lambda>_.
         tx_bind (add_action_row (af_session f) (tg_action target) (planned_action f)) (\<lambda>_.
         tx_bind (add_policy_event (policy_row env (Some (af_session f)) (Some (tg_action target))
                    (asc ''ACTION_PREVIEW_CREATED'') (Some [0x5DF2, 0x751F, 0x6210, 0x5355, 0x6B65, 0x52A8, 0x4F5C, 0x9884, 0x89C8]) (af_risk f)
                    (detect_sensitive_region (tg_window target) (tg_application target) (af_text f)) (af_trace f))) (\<lambda>_.
         tx_return (plan, target, approval)))))"

definition scope_owner :: "approval_scope \<Rightarrow> ustr option" where
  "scope_owner s = (case s of Bound _ _ owner_print _ \<Rightarrow> owner_print | Free _ \<Rightarrow> None)"

definition scope_payload :: "approval_scope \<Rightarrow> ustr option" where
  "scope_payload s = (case s of Bound _ _ _ payload_print \<Rightarrow> Some payload_print | Free _ \<Rightarrow> None)"

text \<open>The rows an earlier request with the same session and trace has stored are those this request would store.\<close>

definition graph_matches ::
  "action_form \<Rightarrow> ustr \<Rightarrow> action_plan \<Rightarrow> action_target \<Rightarrow> action_approval \<Rightarrow> computer_action option \<Rightarrow> bool"
where
  "graph_matches f payload_print plan target approval action \<longleftrightarrow>
     scope_payload (aa_scope approval) = Some payload_print \<and>
     pl_session plan = af_session f \<and> pl_observation plan = af_observation f \<and> pl_task plan = af_task f \<and>
     pl_employee plan = af_employee f \<and> pl_skill plan = af_skill f \<and> pl_application plan = af_application f \<and>
     pl_bundle plan = af_bundle f \<and> pl_window plan = af_window f \<and> pl_goal plan = af_goal f \<and>
     pl_max plan = af_max f \<and> pl_risk plan = af_risk f \<and> pl_mode plan = af_mode f \<and> pl_trace plan = af_trace f \<and>
     pl_proposed plan = [build_proposed_action f (tg_action target)] \<and>
     tg_action target = aa_action approval \<and> tg_plan target = pl_id plan \<and> aa_plan approval = pl_id plan \<and>
     tg_type target = af_type f \<and> tg_control target = af_control f \<and> tg_label target = af_label f \<and>
     tg_identifier target = af_identifier f \<and> tg_description target = text_or (af_description f) (Some (af_goal f)) \<and>
     tg_window target = af_window f \<and> tg_application target = af_application f \<and>
     tg_coordinates target = af_coordinates f \<and> tg_text target = clip 80 (af_text f) \<and>
     (case action of None \<Rightarrow> False
      | Some a \<Rightarrow>
          ac_session a = af_session f \<and> ac_type a = af_type f \<and> ac_application a = af_application f \<and>
          ac_window a = af_window f \<and> ac_description a = af_description f \<and> ac_coordinates a = af_coordinates f \<and>
          ac_input a = clip 128 (af_text f) \<and> ac_risk a = af_risk f \<and> ac_required a \<and> ac_trace a = af_trace f)"

definition reuse_plan :: "action_form \<Rightarrow> ustr option \<Rightarrow> ustr \<Rightarrow> action_plan \<Rightarrow> plan_reply tx" where
  "reuse_plan f owner_print payload_print plan db =
     (case (filter (\<lambda>t. tg_plan t = pl_id plan) (cd_targets db), filter (\<lambda>a. aa_plan a = pl_id plan) (cd_approvals db)) of
        ([target], [approval]) \<Rightarrow>
          if scope_owner (aa_scope approval) \<noteq> owner_print then Inl (Refused 404 [0x52A8, 0x4F5C, 0x8BA1, 0x5212, 0x4E0D, 0x5B58, 0x5728], None)
          else if graph_matches f payload_print plan target approval (row_get ac_id (tg_action target) (cd_actions db))
          then Inr ((plan, target, approval), db)
          else Inl (Refused 409 [0x52A8, 0x4F5C, 0x8BA1, 0x5212, 0x5E42, 0x7B49, 0x8EAB, 0x4EFD, 0x51B2, 0x7A81], None)
      | _ \<Rightarrow> Inl (Refused 409 [0x52A8, 0x4F5C, 0x8BA1, 0x5212, 0x5E42, 0x7B49, 0x8EAB, 0x4EFD, 0x51B2, 0x7A81], None))"

definition find_session :: "computer_env \<Rightarrow> app_user option \<Rightarrow> ustr \<Rightarrow> computer_db \<Rightarrow> computer_session option" where
  "find_session env owner sid db =
     (case owner of
        None \<Rightarrow> row_get cs_id sid (cd_sessions db)
      | Some u \<Rightarrow> row_get cs_id sid (owned_rows (cn_sha env) (Some u) (cd_tasks db) cs_task (cd_sessions db)))"

definition planned_form :: "computer_session \<Rightarrow> app_user option \<Rightarrow> action_form \<Rightarrow> action_form" where
  "planned_form session owner f =
     f\<lparr>af_session := cs_id session,
       af_task := (if owner = None then int_or (cs_task session) (af_task f) else cs_task session),
       af_employee := int_or (af_employee f) (cs_employee session),
       af_skill := int_or (af_skill f) (cs_skill session),
       af_max := max 1 (if af_max f = 0 then 1 else af_max f),
       af_trace := text_or (af_trace f) (cs_trace session)\<rparr>"

definition find_plan :: "action_form \<Rightarrow> computer_db \<Rightarrow> action_plan option" where
  "find_plan f db =
     (if has_text (af_trace f)
      then find (\<lambda>p. pl_session p = af_session f \<and> pl_trace p = af_trace f) (cd_plans db) else None)"

definition create_action_plan :: "computer_env \<Rightarrow> app_user option \<Rightarrow> action_form \<Rightarrow> plan_reply tx" where
  "create_action_plan env owner f =
     tx_bind (tx_check (preflight_action_plan (cn_settings env) f)) (\<lambda>_.
     tx_bind (\<lambda>db. tx_some (find_session env owner (af_session f) db)
                (Refused 404 (if owner = None then [0x7535, 0x8111, 0x4F1A, 0x8BDD, 0x4E0D, 0x5B58, 0x5728] else [0x52A8, 0x4F5C, 0x8BA1, 0x5212, 0x4E0D, 0x5B58, 0x5728])) db) (\<lambda>session.
     tx_bind (tx_check (require (owner = None \<or> af_task f \<in> {None, Some 0} \<or> af_task f = cs_task session)
                (Refused 409 [0x52A8, 0x4F5C, 0x8BA1, 0x5212, 0x5E42, 0x7B49, 0x8EAB, 0x4EFD, 0x51B2, 0x7A81]))) (\<lambda>_.
     tx_bind (tx_check (resolve_target f)) (\<lambda>_.
     tx_bind (tx_read (owner_fingerprint env owner)) (\<lambda>owner_print.
     (let form = planned_form session owner f;
          payload_print = cn_digest env (form_json form);
          scope = Bound (cs_id session) (af_window form) owner_print payload_print
      in tx_bind (tx_read (find_plan form)) (\<lambda>existing.
           case existing of
             Some plan \<Rightarrow> reuse_plan form owner_print payload_print plan
           | None \<Rightarrow> new_action_plan env form scope)))))))"

section \<open>Approving, rejecting, cancelling\<close>

definition plan_target :: "ustr \<Rightarrow> (action_plan \<times> action_target) tx" where
  "plan_target plan_id =
     tx_bind (\<lambda>db. tx_some (row_get pl_id plan_id (cd_plans db)) (Refused 404 [0x52A8, 0x4F5C, 0x8BA1, 0x5212, 0x4E0D, 0x5B58, 0x5728]) db) (\<lambda>plan.
     tx_bind (\<lambda>db. tx_some (find (\<lambda>t. tg_plan t = plan_id) (cd_targets db)) (Refused 404 [0x52A8, 0x4F5C, 0x76EE, 0x6807, 0x4E0D, 0x5B58, 0x5728]) db) (\<lambda>target.
     tx_return (plan, target)))"

definition plan_approval :: "action_plan \<Rightarrow> action_target \<Rightarrow> computer_db \<Rightarrow> action_approval option" where
  "plan_approval plan target db =
     latest_row (\<lambda>a. aa_plan a = pl_id plan \<and> aa_action a = tg_action target) (cd_approvals db)"

definition approval_or_new ::
  "computer_env \<Rightarrow> action_plan \<Rightarrow> action_target \<Rightarrow> int option \<Rightarrow> ustr option \<Rightarrow> ustr option \<Rightarrow> action_approval tx"
where
  "approval_or_new env plan target approver scope trace db =
     (case plan_approval plan target db of
        Some a \<Rightarrow> Inr (a, db)
      | None \<Rightarrow>
          (let a = new_approval env 0 target approver (Free scope) trace
           in case add_new aa_id a (cd_approvals db) of
                None \<Rightarrow> Inl (DbRefused, None)
              | Some rows \<Rightarrow> Inr (a, db\<lparr>cd_approvals := rows\<rparr>)))"

definition put_approval :: "action_approval \<Rightarrow> computer_db \<Rightarrow> computer_db" where
  "put_approval a db = db\<lparr>cd_approvals := row_put aa_id a (cd_approvals db)\<rparr>"

definition put_plan_target :: "action_plan \<Rightarrow> action_target \<Rightarrow> computer_db \<Rightarrow> computer_db" where
  "put_plan_target plan target db =
     db\<lparr>cd_plans := row_put pl_id plan (cd_plans db), cd_targets := row_put tg_id target (cd_targets db)\<rparr>"

definition hash_changed :: "ustr option \<Rightarrow> action_approval \<Rightarrow> bool" where
  "hash_changed current a = (has_text current \<and> has_text (aa_hash a) \<and> aa_hash a \<noteq> current)"

definition approve_action_row ::
  "computer_env \<Rightarrow> bool \<Rightarrow> int option \<Rightarrow> ustr option \<Rightarrow> action_approval \<Rightarrow> action_approval tx"
where
  "approve_action_row env commit approver trace a db =
     (if aa_status a = [0x5DF2, 0x6279, 0x51C6] then tx_fail (Refused 409 [0x5BA1, 0x6279, 0x5DF2, 0x4F7F, 0x7528, 0xFF0C, 0x4E0D, 0x80FD, 0x91CD, 0x590D, 0x6279, 0x51C6]) db
      else if aa_expires a < cn_now env
      then fail_saving commit (Refused 409 [0x5BA1, 0x6279, 0x5DF2, 0x8FC7, 0x671F]) (put_approval (a\<lparr>aa_status := [0x5DF2, 0x8FC7, 0x671F]\<rparr>) db)
      else (let b = a\<lparr>aa_status := [0x5DF2, 0x6279, 0x51C6], aa_by := approver, aa_approved := Some (cn_now env),
                      aa_trace := text_or trace (aa_trace a)\<rparr>
            in Inr (b, put_approval b db)))"

text \<open>An event added after the last commit of a request that commits is checked, and then lost.\<close>

definition closing_event :: "bool \<Rightarrow> policy_event \<Rightarrow> unit tx" where
  "closing_event commit row db =
     (case add_policy_event row db of
        Inl (e, _) \<Rightarrow> Inl (e, if commit then Some db else None)
      | Inr (u, db1) \<Rightarrow> Inr ((), if commit then db else db1))"

definition approve_action ::
  "computer_env \<Rightarrow> bool \<Rightarrow> ustr \<Rightarrow> int option \<Rightarrow> ustr option \<Rightarrow> ustr option \<Rightarrow> ustr option \<Rightarrow> plan_reply tx"
where
  "approve_action env commit plan_id approver scope trace current_hash =
     tx_bind (plan_target plan_id) (\<lambda>(plan, target).
     tx_bind (approval_or_new env plan target approver scope trace) (\<lambda>a.
     tx_bind (tx_check (require (\<not> hash_changed current_hash a) (Refused 409 [0x7A97, 0x53E3, 0x5DF2, 0x53D8, 0x5316, 0xFF0C, 0x5BA1, 0x6279, 0x5931, 0x6548]))) (\<lambda>_.
     tx_bind (approve_action_row env commit approver trace a) (\<lambda>b.
     (let plan1 = plan\<lparr>pl_status := [0x5DF2, 0x6279, 0x51C6]\<rparr>; target1 = target\<lparr>tg_status := [0x5DF2, 0x6279, 0x51C6]\<rparr>
      in tx_bind (tx_write (put_plan_target plan1 target1)) (\<lambda>_.
         tx_bind (closing_event commit (policy_row env (Some (pl_session plan)) (Some (tg_action target))
                    (asc ''ACTION_APPROVAL_GRANTED'') (Some [0x5355, 0x6B65, 0x52A8, 0x4F5C, 0x5DF2, 0x6279, 0x51C6]) (pl_risk plan) False trace)) (\<lambda>_.
         tx_return (plan1, target1, b))))))))"

definition reject_action ::
  "computer_env \<Rightarrow> ustr \<Rightarrow> int option \<Rightarrow> ustr option \<Rightarrow> ustr option \<Rightarrow> plan_reply tx"
where
  "reject_action env plan_id approver reason trace =
     tx_bind (plan_target plan_id) (\<lambda>(plan, target).
     tx_bind (approval_or_new env plan target approver None trace) (\<lambda>a.
     (let b = a\<lparr>aa_status := [0x5DF2, 0x62D2, 0x7EDD], aa_by := approver, aa_reason := reason,
                aa_approved := Some (cn_now env), aa_trace := text_or trace (aa_trace a)\<rparr>;
          plan1 = plan\<lparr>pl_status := [0x5DF2, 0x62D2, 0x7EDD]\<rparr>; target1 = target\<lparr>tg_status := [0x5DF2, 0x62D2, 0x7EDD]\<rparr>
      in tx_bind (tx_write (put_approval b)) (\<lambda>_.
         tx_bind (tx_write (put_plan_target plan1 target1)) (\<lambda>_.
         tx_bind (closing_event True (policy_row env (Some (pl_session plan)) (Some (tg_action target))
                    (asc ''ACTION_APPROVAL_REJECTED'') (text_or reason (Some [0x5355, 0x6B65, 0x52A8, 0x4F5C, 0x88AB, 0x62D2, 0x7EDD])) (pl_risk plan) False trace)) (\<lambda>_.
         tx_return (plan1, target1, b)))))))"

definition cancel_action :: "computer_env \<Rightarrow> ustr \<Rightarrow> ustr option \<Rightarrow> ustr option \<Rightarrow> unit tx" where
  "cancel_action env plan_id reason trace db =
     (case row_get pl_id plan_id (cd_plans db) of
        None \<Rightarrow> Inl (Refused 404 [0x52A8, 0x4F5C, 0x8BA1, 0x5212, 0x4E0D, 0x5B58, 0x5728], None)
      | Some plan \<Rightarrow>
          (let target = find (\<lambda>t. tg_plan t = plan_id) (cd_targets db);
               db1 = db\<lparr>cd_plans := row_put pl_id (plan\<lparr>pl_status := [0x5DF2, 0x53D6, 0x6D88]\<rparr>) (cd_plans db),
                        cd_approvals := map (\<lambda>a. if aa_plan a = plan_id
                            then a\<lparr>aa_status := [0x5DF2, 0x62D2, 0x7EDD], aa_reason := text_or reason (Some [0x5DF2, 0x53D6, 0x6D88])\<rparr> else a)
                          (cd_approvals db),
                        cd_targets := (case target of None \<Rightarrow> cd_targets db
                            | Some t \<Rightarrow> row_put tg_id (t\<lparr>tg_status := [0x5DF2, 0x53D6, 0x6D88]\<rparr>) (cd_targets db)),
                        cd_sessions := (case row_get cs_id (pl_session plan) (cd_sessions db) of
                            None \<Rightarrow> cd_sessions db
                          | Some s \<Rightarrow> row_put cs_id (s\<lparr>cs_status := [0x5DF2, 0x53D6, 0x6D88], cs_ended := Some (cn_now env)\<rparr>) (cd_sessions db))\<rparr>
           in case target of
                None \<Rightarrow> Inr ((), db1)
              | Some t \<Rightarrow>
                  closing_event True (policy_row env (Some (pl_session plan)) (Some (tg_action t))
                    (if occurs [0x505C, 0x6B62] (text_of reason) then (asc ''LOCAL_EMERGENCY_STOP_TRIGGERED'') else (asc ''ACTION_EXECUTION_FAILED''))
                    (text_or reason (Some [0x52A8, 0x4F5C, 0x8BA1, 0x5212, 0x5DF2, 0x53D6, 0x6D88])) (pl_risk plan) False (text_or trace (pl_trace plan))) db1))"

section \<open>Executing\<close>

record run_form =
  rf_type :: ustr
  rf_application :: "ustr option"
  rf_window :: "ustr option"
  rf_url :: "ustr option"
  rf_description :: "ustr option"
  rf_coordinates :: coordinates
  rf_text :: "ustr option"
  rf_trace :: "ustr option"
  rf_context :: "(ustr \<times> ustr \<times> ustr option) option"

text \<open>What an executor returns: the reference of its screenshot and its printed result.\<close>

type_synonym run_outcome = "ustr option \<times> ustr"

definition mock_action_outcome :: "computer_env \<Rightarrow> computer_session \<Rightarrow> run_form \<Rightarrow> run_outcome" where
  "mock_action_outcome env session f =
     (Some (screenshot_reference env (if cs_id session = [] then (asc ''mock'') else cs_id session) (text_or (rf_trace f) (cs_trace session))),
      dumps (JObj [((asc ''message''), JStr [0x6A21, 0x62DF, 0x7535, 0x8111, 0x64CD, 0x4F5C, 0x5B8C, 0x6210]), ((asc ''action_type''), JStr (rf_type f)),
                   ((asc ''target_application''), jopt (rf_application f)), ((asc ''target_window''), jopt (rf_window f))]))"

definition adapter_outcome ::
  "computer_env \<Rightarrow> run_form \<Rightarrow> capture_authorization option \<Rightarrow> computer_error + run_outcome"
where
  "adapter_outcome env f authorization =
     (if rf_type f = [0x7B49, 0x5F85]
      then Inr (None, dumps (JObj [((asc ''message''), JStr [0x5B89, 0x5168, 0x7B49, 0x5F85, 0x6B65, 0x9AA4, 0x5B8C, 0x6210]), ((asc ''provider''), JStr (asc ''builtin_wait''))]))
      else if rf_type f \<noteq> [0x622A, 0x56FE] then Inl AdapterError
      else case validate_authorization (st_origins (cn_settings env)) (rf_url f) authorization of
             None \<Rightarrow> Inl AdapterError
           | Some (url, a) \<Rightarrow>
               if \<not> st_chrome (cn_settings env) then Inl AdapterError
               else (case cn_page env url a of None \<Rightarrow> Inl AdapterError | Some (r, t) \<Rightarrow> Inr (Some r, t)))"

definition run_computer_executor ::
  "computer_env \<Rightarrow> computer_session \<Rightarrow> run_form \<Rightarrow> capture_authorization option \<Rightarrow> computer_error + run_outcome"
where
  "run_computer_executor env session f authorization =
     (let st = cn_settings env
      in if st_openclaw st then adapter_outcome env f authorization
         else if cs_executor session = (asc ''mock'') \<and> cs_environment session = (asc ''test'') \<and> \<not> st_production st
         then (case first_error [ensure_executor_enabled st,
                     validate_action_payload st (rf_type f) (rf_application f) (rf_window f) (rf_text f)] of
                 Some e \<Rightarrow> Inl e
               | None \<Rightarrow> Inr (mock_action_outcome env session f))
         else Inl (Refused 503 [0x771F, 0x5B9E, 0x7535, 0x8111, 0x6267, 0x884C, 0x9002, 0x914D, 0x5668, 0x672A, 0x542F, 0x7528]))"

text \<open>With safe actions switched on an execution must name an approved plan of the session.\<close>

definition safe_check ::
  "computer_env \<Rightarrow> bool \<Rightarrow> computer_session \<Rightarrow> (ustr \<times> ustr \<times> ustr option) option \<Rightarrow> (action_plan \<times> action_target) option tx"
where
  "safe_check env commit session context db =
     (if \<not> st_safe_action (cn_settings env) then Inr (None, db)
      else case context of
        None \<Rightarrow> Inl (Refused 403 [0x5B89, 0x5168, 0x5355, 0x6B65, 0x52A8, 0x4F5C, 0x5FC5, 0x987B, 0x901A, 0x8FC7, 0x5BA1, 0x6279, 0x6D41, 0x6267, 0x884C], None)
      | Some (p, a, current_hash) \<Rightarrow>
          if strip p = [] \<or> strip a = [] then Inl (Refused 400 [0x5B89, 0x5168, 0x52A8, 0x4F5C, 0x7F3A, 0x5C11, 0x5BA1, 0x6279, 0x4E0A, 0x4E0B, 0x6587], None)
          else case row_get pl_id (strip p) (cd_plans db) of
            None \<Rightarrow> Inl (Refused 404 [0x52A8, 0x4F5C, 0x8BA1, 0x5212, 0x4E0D, 0x5B58, 0x5728], None)
          | Some plan \<Rightarrow>
              if pl_session plan \<noteq> cs_id session then Inl (Refused 404 [0x52A8, 0x4F5C, 0x8BA1, 0x5212, 0x4E0D, 0x5B58, 0x5728], None)
              else case find (\<lambda>t. tg_plan t = pl_id plan \<and> tg_action t = strip a) (cd_targets db) of
                None \<Rightarrow> Inl (Refused 404 [0x52A8, 0x4F5C, 0x76EE, 0x6807, 0x4E0D, 0x5B58, 0x5728], None)
              | Some target \<Rightarrow>
                  (case plan_approval plan target db of
                     None \<Rightarrow> Inl (Refused 403 [0x52A8, 0x4F5C, 0x5C1A, 0x672A, 0x6279, 0x51C6], None)
                   | Some approval \<Rightarrow>
                       if aa_status approval \<noteq> [0x5DF2, 0x6279, 0x51C6] then Inl (Refused 403 [0x52A8, 0x4F5C, 0x5C1A, 0x672A, 0x6279, 0x51C6], None)
                       else if aa_expires approval < cn_now env
                       then fail_saving commit (Refused 409 [0x5BA1, 0x6279, 0x5DF2, 0x8FC7, 0x671F]) (put_approval (approval\<lparr>aa_status := [0x5DF2, 0x8FC7, 0x671F]\<rparr>) db)
                       else if hash_changed current_hash approval
                       then fail_saving commit (Refused 409 [0x7A97, 0x53E3, 0x5DF2, 0x53D8, 0x5316, 0xFF0C, 0x5BA1, 0x6279, 0x5931, 0x6548]) (put_approval (approval\<lparr>aa_status := [0x5DF2, 0x8FC7, 0x671F]\<rparr>) db)
                       else if (case row_get ac_id (tg_action target) (cd_actions db) of
                                  None \<Rightarrow> False | Some x \<Rightarrow> ac_finished x \<noteq> None)
                       then Inl (Refused 409 [0x52A8, 0x4F5C, 0x5DF2, 0x63D0, 0x4EA4, 0xFF0C, 0x7981, 0x6B62, 0x91CD, 0x590D, 0x6267, 0x884C], None)
                       else Inr (Some (plan, target), db)))"

definition executed_action ::
  "computer_env \<Rightarrow> computer_session \<Rightarrow> run_form \<Rightarrow> bool \<Rightarrow> run_outcome \<Rightarrow> action_write"
where
  "executed_action env session f planned outcome =
     \<lparr>aw_type = rf_type f, aw_application = rf_application f, aw_window = rf_window f,
      aw_description = rf_description f, aw_text = rf_text f, aw_coordinates = rf_coordinates f,
      aw_risk = cs_risk session, aw_required = rf_context f \<noteq> None \<or> cs_approval session = [0x7B49, 0x5F85, 0x5BA1, 0x6279],
      aw_approval = (if planned then [0x5DF2, 0x6279, 0x51C6] else cs_approval session),
      aw_before = Some (screenshot_reference env (cs_id session)
                    (Some ((asc ''before-'') @ text_of (text_or (rf_trace f) (Some (asc ''action'')))))),
      aw_after = fst outcome, aw_result = Some (snd outcome), aw_started = Some (cn_now env),
      aw_finished = Some (cn_now env), aw_trace = rf_trace f\<rparr>"

definition advance_plan :: "action_plan \<Rightarrow> action_plan" where
  "advance_plan plan = plan\<lparr>pl_index := min (pl_max plan) (pl_index plan + 1), pl_status := [0x5DF2, 0x6682, 0x505C]\<rparr>"

definition session_after :: "computer_env \<Rightarrow> bool \<Rightarrow> computer_session \<Rightarrow> computer_session" where
  "session_after env planned s =
     (if planned then s\<lparr>cs_status := [0x5DF2, 0x6682, 0x505C], cs_shot := Some (cn_now env), cs_approval := [0x5DF2, 0x6279, 0x51C6]\<rparr>
      else s\<lparr>cs_status := [0x6267, 0x884C, 0x4E2D], cs_shot := Some (cn_now env)\<rparr>)"

type_synonym run_reply = "computer_session \<times> computer_action \<times> evidence_row"

definition record_execution ::
  "computer_env \<Rightarrow> computer_session \<Rightarrow> run_form \<Rightarrow> (action_plan \<times> action_target) option \<Rightarrow> run_outcome \<Rightarrow> run_reply tx"
where
  "record_execution env session f planned outcome =
     (let action_id = (case planned of Some (_, target) \<Rightarrow> tg_action target | None \<Rightarrow> cn_uuid env 4);
          s1 = session_after env (planned \<noteq> None) session
      in tx_bind (add_action_row (cs_id session) action_id (executed_action env session f (planned \<noteq> None) outcome)) (\<lambda>action.
         tx_bind (add_evidence_row env (cs_id session) (Some action_id) (asc ''screenshot'')
                    (evidence_reference env (cs_id session) action_id (asc ''action_screenshot''))) (\<lambda>evidence.
         tx_bind (add_policy_event (policy_row env (Some (cs_id session)) (Some action_id) (asc ''ACTION_EXECUTED'')
                    (Some [0x7535, 0x8111, 0x52A8, 0x4F5C, 0x5DF2, 0x6267, 0x884C]) (cs_risk session)
                    (detect_sensitive_region (rf_window f) (rf_application f) (rf_text f)) (rf_trace f))) (\<lambda>_.
         tx_bind (tx_write (\<lambda>db. db\<lparr>cd_sessions := row_put cs_id s1 (cd_sessions db),
             cd_plans := (case planned of None \<Rightarrow> cd_plans db
                          | Some (plan, _) \<Rightarrow> row_put pl_id (advance_plan plan) (cd_plans db))\<rparr>)) (\<lambda>_.
         tx_return (s1, action, evidence))))))"

definition runtime_execute ::
  "computer_env \<Rightarrow> bool \<Rightarrow> computer_session \<Rightarrow> run_form \<Rightarrow> capture_authorization option \<Rightarrow> run_reply tx"
where
  "runtime_execute env commit session f authorization =
     tx_bind (tx_check (first_error
        [ensure_executor_enabled (cn_settings env), ensure_screen_capture_enabled (cn_settings env),
         validate_action_payload (cn_settings env) (rf_type f) (rf_application f) (rf_window f) (rf_text f)])) (\<lambda>_.
     tx_bind (safe_check env commit session (rf_context f)) (\<lambda>planned.
     (case run_computer_executor env session f authorization of
        Inl e \<Rightarrow> tx_fail e
      | Inr outcome \<Rightarrow> record_execution env session f planned outcome)))"

section \<open>Verifying\<close>

text \<open>The dictionary of an executed action the runtime hands to the verifier.\<close>

definition action_dict :: "computer_env \<Rightarrow> computer_action \<Rightarrow> json" where
  "action_dict env a = JObj
     [((asc ''action_id''), JStr (ac_id a)), ((asc ''session_id''), JStr (ac_session a)), ((asc ''sequence_number''), JInt (ac_sequence a)),
      ((asc ''action_type''), JStr (ac_type a)), ((asc ''target_application''), jopt (ac_application a)),
      ((asc ''target_window''), jopt (ac_window a)), ((asc ''target_description''), jopt (ac_description a)),
      ((asc ''input_summary''), jopt (ac_input a)), ((asc ''coordinates''), coordinates_json (ac_coordinates a)),
      ((asc ''risk_level''), JStr (ac_risk a)), ((asc ''approval_required''), JBool (ac_required a)),
      ((asc ''approval_status''), JStr (ac_approval a)), ((asc ''screenshot_before''), jopt (ac_before a)),
      ((asc ''screenshot_after''), jopt (ac_after a)), ((asc ''result''), jopt (ac_result a)), ((asc ''error_code''), JNull),
      ((asc ''error_message''), JNull), ((asc ''started_at''), jopt (map_option (cn_iso env) (ac_started a))),
      ((asc ''finished_at''), jopt (map_option (cn_iso env) (ac_finished a))), ((asc ''duration_ms''), JInt 0),
      ((asc ''trace_id''), jopt (ac_trace a))]"

definition json_or :: "json \<Rightarrow> json \<Rightarrow> json" where
  "json_or a b = (if truthy a then a else b)"

definition verify_action_result ::
  "computer_env \<Rightarrow> action_plan \<Rightarrow> action_approval \<Rightarrow> json \<Rightarrow> ustr option \<Rightarrow> ustr option \<Rightarrow> ustr option \<Rightarrow> action_verification tx"
where
  "verify_action_result env plan approval action_result before_ref after_ref trace db =
     (let v = \<lparr>av_id = cn_uuid env 5, av_plan = pl_id plan, av_action = aa_action approval,
               av_status = (if jhas (asc ''success'') action_result \<and> \<not> truthy (jget (asc ''success'') action_result)
                            then [0x7ED3, 0x679C, 0x4E0D, 0x7B26, 0x5408] else [0x7ED3, 0x679C, 0x7B26, 0x5408, 0x9884, 0x671F]),
               av_window = pl_window plan, av_application = pl_application plan, av_before = before_ref,
               av_after = after_ref,
               av_summary = scalar_text (json_or (jget (asc ''message'') action_result)
                              (json_or (jget (asc ''result'') action_result) (JStr [0x6267, 0x884C, 0x5B8C, 0x6210]))),
               av_trace = trace\<rparr>
      in case add_new av_id v (cd_verifications db) of
           None \<Rightarrow> Inl (DbRefused, None)
         | Some rows \<Rightarrow> Inr (v, db\<lparr>cd_verifications := rows\<rparr>))"

record execute_reply =
  er_plan :: action_plan
  er_target :: action_target
  er_verification :: action_verification
  er_action :: computer_action
  er_evidence :: evidence_row

definition finish_execution ::
  "computer_env \<Rightarrow> action_plan \<Rightarrow> action_target \<Rightarrow> action_approval \<Rightarrow> run_reply \<Rightarrow> ustr option \<Rightarrow> execute_reply tx"
where
  "finish_execution env plan target approval reply trace =
     (case reply of (session, action, evidence) \<Rightarrow>
        tx_bind (verify_action_result env plan approval (action_dict env action) (tg_before target)
                   (text_or (ac_after action) (ac_before action)) trace) (\<lambda>v.
        (let plan1 = advance_plan plan;
             target1 = target\<lparr>tg_status := (if av_status v = [0x7ED3, 0x679C, 0x7B26, 0x5408, 0x9884, 0x671F] then [0x5DF2, 0x5B8C, 0x6210] else [0x5DF2, 0x5931, 0x8D25])\<rparr>;
             s1 = session\<lparr>cs_status := [0x5DF2, 0x6682, 0x505C], cs_approval := [0x5DF2, 0x6279, 0x51C6]\<rparr>
         in tx_bind (tx_write (\<lambda>db. put_plan_target plan1 target1
                        (db\<lparr>cd_sessions := row_put cs_id s1 (cd_sessions db)\<rparr>))) (\<lambda>_.
            tx_bind (add_policy_event (policy_row env (Some (pl_session plan)) (Some (tg_action target))
                       (asc ''ACTION_EXECUTION_SUCCEEDED'') (text_or (ac_result action) (Some [0x5355, 0x6B65, 0x52A8, 0x4F5C, 0x5DF2, 0x6267, 0x884C]))
                       (pl_risk plan) False trace)) (\<lambda>_.
            tx_return \<lparr>er_plan = plan1, er_target = target1, er_verification = v, er_action = action,
                       er_evidence = evidence\<rparr>)))))"

definition run_form_of ::
  "action_plan \<Rightarrow> action_target \<Rightarrow> ustr option \<Rightarrow> run_form"
where
  "run_form_of plan target trace =
     \<lparr>rf_type = tg_type target, rf_application = tg_application target, rf_window = tg_window target,
      rf_url = (case find (\<lambda>p. pa_id p = tg_action target) (pl_proposed plan) of None \<Rightarrow> None | Some p \<Rightarrow> pa_url p),
      rf_description = tg_description target, rf_coordinates = tg_coordinates target, rf_text = tg_text target,
      rf_trace = text_or trace (pl_trace plan),
      rf_context = Some (pl_id plan, tg_action target, None)\<rparr>"

definition approved_for_execution ::
  "computer_env \<Rightarrow> bool \<Rightarrow> action_plan \<Rightarrow> action_target \<Rightarrow> ustr option \<Rightarrow> action_approval tx"
where
  "approved_for_execution env commit plan target current_hash db =
     (case plan_approval plan target db of
        None \<Rightarrow> Inl (Refused 403 [0x52A8, 0x4F5C, 0x5C1A, 0x672A, 0x6279, 0x51C6], None)
      | Some a \<Rightarrow>
          if aa_status a \<noteq> [0x5DF2, 0x6279, 0x51C6] then Inl (Refused 403 [0x52A8, 0x4F5C, 0x5C1A, 0x672A, 0x6279, 0x51C6], None)
          else if aa_expires a < cn_now env
          then fail_saving commit (Refused 409 [0x5BA1, 0x6279, 0x5DF2, 0x8FC7, 0x671F]) (put_approval (a\<lparr>aa_status := [0x5DF2, 0x8FC7, 0x671F]\<rparr>) db)
          else if hash_changed current_hash a
          then fail_saving commit (Refused 409 [0x7A97, 0x53E3, 0x5DF2, 0x53D8, 0x5316, 0xFF0C, 0x5BA1, 0x6279, 0x5931, 0x6548]) (put_approval (a\<lparr>aa_status := [0x5DF2, 0x8FC7, 0x671F]\<rparr>) db)
          else Inr (a, db))"

text \<open>The plan the service goes on with is the object the runtime has advanced already.\<close>

definition execute_action ::
  "computer_env \<Rightarrow> bool \<Rightarrow> ustr \<Rightarrow> ustr option \<Rightarrow> ustr option \<Rightarrow> capture_authorization option \<Rightarrow> execute_reply tx"
where
  "execute_action env commit plan_id current_hash trace authorization =
     tx_bind (\<lambda>db. tx_some (row_get pl_id plan_id (cd_plans db)) (Refused 404 [0x52A8, 0x4F5C, 0x8BA1, 0x5212, 0x4E0D, 0x5B58, 0x5728]) db) (\<lambda>plan.
     tx_bind (\<lambda>db. tx_some (row_get cs_id (pl_session plan) (cd_sessions db)) (Refused 404 [0x7535, 0x8111, 0x4F1A, 0x8BDD, 0x4E0D, 0x5B58, 0x5728]) db) (\<lambda>session.
     tx_bind (\<lambda>db. tx_some (find (\<lambda>t. tg_plan t = plan_id) (cd_targets db)) (Refused 404 [0x52A8, 0x4F5C, 0x76EE, 0x6807, 0x4E0D, 0x5B58, 0x5728]) db) (\<lambda>target.
     tx_bind (approved_for_execution env commit plan target current_hash) (\<lambda>approval.
     tx_bind (runtime_execute env commit session (run_form_of plan target trace) authorization) (\<lambda>reply.
     after_commit commit
       (finish_execution env (if st_safe_action (cn_settings env) then advance_plan plan else plan) target approval reply
          (text_or trace (pl_trace plan))))))))"

section \<open>Sessions\<close>

definition create_session :: "computer_env \<Rightarrow> computer_session \<Rightarrow> computer_session tx" where
  "create_session env form =
     tx_bind (tx_check (ensure_executor_enabled (cn_settings env))) (\<lambda>_ db.
       (let row = create_session_row env (cn_uuid env 6) form
        in case add_new cs_id row (cd_sessions db) of
             None \<Rightarrow> Inl (DbRefused, None)
           | Some rows \<Rightarrow> Inr (row, db\<lparr>cd_sessions := rows\<rparr>)))"

definition get_session :: "ustr \<Rightarrow> computer_session tx" where
  "get_session sid db = tx_some (row_get cs_id sid (cd_sessions db)) (Refused 404 [0x7535, 0x8111, 0x4F1A, 0x8BDD, 0x4E0D, 0x5B58, 0x5728]) db"

definition put_session :: "computer_session \<Rightarrow> unit tx" where
  "put_session s = tx_write (\<lambda>db. db\<lparr>cd_sessions := row_put cs_id s (cd_sessions db)\<rparr>)"

definition pause_session :: "ustr \<Rightarrow> unit tx" where
  "pause_session sid = tx_bind (get_session sid) (\<lambda>s. put_session (s\<lparr>cs_status := [0x5DF2, 0x6682, 0x505C]\<rparr>))"

definition resume_session :: "ustr \<Rightarrow> unit tx" where
  "resume_session sid = tx_bind (get_session sid) (\<lambda>s. put_session (s\<lparr>cs_status := [0x6267, 0x884C, 0x4E2D]\<rparr>))"

definition cancel_session :: "computer_env \<Rightarrow> ustr \<Rightarrow> unit tx" where
  "cancel_session env sid =
     tx_bind (get_session sid) (\<lambda>s. put_session (s\<lparr>cs_status := [0x5DF2, 0x53D6, 0x6D88], cs_ended := Some (cn_now env)\<rparr>))"

definition close_session :: "computer_env \<Rightarrow> ustr \<Rightarrow> unit tx" where
  "close_session env sid =
     tx_bind (get_session sid) (\<lambda>s. put_session (s\<lparr>cs_status := [0x5DF2, 0x5173, 0x95ED], cs_ended := Some (cn_now env)\<rparr>))"

definition handoff_to_human :: "computer_env \<Rightarrow> ustr \<Rightarrow> ustr option \<Rightarrow> ustr option \<Rightarrow> unit tx" where
  "handoff_to_human env sid by_user reason =
     tx_bind (get_session sid) (\<lambda>s.
     tx_bind (tx_check (ensure_human_takeover_enabled (cn_settings env))) (\<lambda>_.
     tx_bind (request_takeover sid by_user reason s) (\<lambda>_. tx_return ())))"

text \<open>The request that captures a screen passes no URL and no authorisation.\<close>

definition capture_screen :: "computer_env \<Rightarrow> ustr \<Rightarrow> unit tx" where
  "capture_screen env sid =
     tx_bind (get_session sid) (\<lambda>s.
     tx_bind (tx_check (first_error [ensure_executor_enabled (cn_settings env), ensure_screen_capture_enabled (cn_settings env),
                preflight_action_payload (cn_settings env) [0x622A, 0x56FE] None])) (\<lambda>_.
     tx_bind (tx_check (require (cs_executor s = (asc ''mock'') \<and> cs_environment s = (asc ''test'') \<and> \<not> st_production (cn_settings env))
                (Refused 503 [0x771F, 0x5B9E, 0x7535, 0x8111, 0x6267, 0x884C, 0x9002, 0x914D, 0x5668, 0x672A, 0x542F, 0x7528]))) (\<lambda>_.
     tx_bind (add_evidence_row env sid None (asc ''screenshot'')
                (screenshot_reference env (if sid = [] then (asc ''mock'') else sid) (cs_trace s))) (\<lambda>_.
     put_session (s\<lparr>cs_shot := Some (cn_now env)\<rparr>)))))"

end
