(* ===== verification/Computer_Workflow.thy ===== *)
theory Computer_Workflow
  imports Computer_Actions
begin

text \<open>
  Workflows of several computer actions (\<^verbatim>\<open>agent_runtime/workflows/computer\<close>: \<^verbatim>\<open>runner.py\<close>,
  \<^verbatim>\<open>planner.py\<close>, \<^verbatim>\<open>validator.py\<close>, \<^verbatim>\<open>budget.py\<close>, \<^verbatim>\<open>approval.py\<close>, \<^verbatim>\<open>checkpoint.py\<close>, \<^verbatim>\<open>verifier.py\<close>,
  \<^verbatim>\<open>recovery.py\<close>): created with a scope approval, executed step by step through the planned actions,
  halted at checkpoints, paused, resumed and cancelled. A step runs in one transaction; a commit that
  fails is not modelled.
\<close>

section \<open>Forms and constants\<close>

record step_form =
  sp_type :: ustr
  sp_application :: "ustr option"
  sp_bundle :: "ustr option"
  sp_window :: "ustr option"
  sp_url :: "ustr option"
  sp_control :: "ustr option"
  sp_input :: "ustr option"
  sp_expected :: "ustr option"
  sp_risk :: ustr
  sp_approval :: bool
  sp_checkpoint :: bool
  sp_coordinates :: coordinates
  sp_text :: "ustr option"
  sp_trace :: "ustr option"

record workflow_form =
  wn_task :: "int option"
  wn_employee :: "int option"
  wn_skill :: "int option"
  wn_device :: "ustr option"
  wn_session :: "ustr option"
  wn_goal :: ustr
  wn_risk :: ustr
  wn_max :: int
  wn_budget :: json
  wn_steps :: "step_form list"
  wn_trace :: "ustr option"

definition WORKFLOW_ACTION_TYPES :: "ustr list" where
  "WORKFLOW_ACTION_TYPES =
     [[0x67E5, 0x770B, 0x5C4F, 0x5E55], [0x83B7, 0x53D6, 0x7A97, 0x53E3, 0x5217, 0x8868], [0x6FC0, 0x6D3B, 0x5141, 0x8BB8, 0x7684, 0x7A97, 0x53E3], [0x79FB, 0x52A8, 0x9F20, 0x6807], [0x5355, 0x51FB], [0x6EDA, 0x52A8], [0x8F93, 0x5165, 0x666E, 0x901A, 0x6587, 0x672C],
      [0x6309, 0x5141, 0x8BB8, 0x7684, 0x5FEB, 0x6377, 0x952E], [0x622A, 0x56FE], [0x7B49, 0x5F85]]"

definition SAFE_CONTINUE_ACTIONS :: "ustr list" where
  "SAFE_CONTINUE_ACTIONS = [[0x67E5, 0x770B, 0x5C4F, 0x5E55], [0x83B7, 0x53D6, 0x7A97, 0x53E3, 0x5217, 0x8868], [0x79FB, 0x52A8, 0x9F20, 0x6807], [0x6EDA, 0x52A8], [0x622A, 0x56FE], [0x7B49, 0x5F85]]"

definition DEFAULT_MIN_STEPS :: int where "DEFAULT_MIN_STEPS = 2"
definition DEFAULT_MAX_STEPS :: int where "DEFAULT_MAX_STEPS = 5"
definition DEFAULT_MAX_DURATION_SECONDS :: int where "DEFAULT_MAX_DURATION_SECONDS = 300"
definition DEFAULT_MAX_ACTIONS_PER_MINUTE :: int where "DEFAULT_MAX_ACTIONS_PER_MINUTE = 6"

section \<open>Ownership\<close>

definition owned_workflow :: "computer_env \<Rightarrow> ustr \<Rightarrow> workflow tx" where
  "owned_workflow env wid db =
     tx_some (row_get wf_id wid (owned_rows (cn_sha env) (cn_user env) (cd_tasks db) wf_task (cd_workflows db)))
       (Refused 404 [0x5DE5, 0x4F5C, 0x6D41, 0x4E0D, 0x5B58, 0x5728]) db"

definition owned_checkpoint :: "computer_env \<Rightarrow> ustr \<Rightarrow> workflow_checkpoint tx" where
  "owned_checkpoint env cid db =
     tx_some (find (\<lambda>c. wc_id c = cid \<and>
          list_ex (\<lambda>w. wf_id w = wc_workflow c)
            (owned_rows (cn_sha env) (cn_user env) (cd_tasks db) wf_task (cd_workflows db)))
        (cd_checkpoints db))
       (Refused 404 [0x5173, 0x952E, 0x8282, 0x70B9, 0x4E0D, 0x5B58, 0x5728]) db"

definition steps_of :: "ustr \<Rightarrow> computer_db \<Rightarrow> flow_step list" where
  "steps_of wid db = rows_by ws_number (\<lambda>s. ws_workflow s = wid) (cd_steps db)"

definition put_workflow :: "workflow \<Rightarrow> computer_db \<Rightarrow> computer_db" where
  "put_workflow w db = db\<lparr>cd_workflows := row_put wf_id w (cd_workflows db)\<rparr>"

definition put_step :: "flow_step \<Rightarrow> computer_db \<Rightarrow> computer_db" where
  "put_step s db = db\<lparr>cd_steps := row_put ws_id s (cd_steps db)\<rparr>"

section \<open>Creation\<close>

text \<open>The form of the action a step stands for, as it is checked when the workflow is created.\<close>

definition preflight_form :: "workflow_form \<Rightarrow> step_form \<Rightarrow> action_form" where
  "preflight_form f s =
     \<lparr>af_session = (case text_or (wn_session f) None of None \<Rightarrow> (asc ''workflow-create-preflight'') | Some x \<Rightarrow> x),
      af_observation = None, af_task = wn_task f, af_employee = wn_employee f, af_skill = wn_skill f,
      af_application = sp_application s, af_bundle = sp_bundle s, af_window = sp_window s, af_url = sp_url s,
      af_goal = wn_goal f, af_type = sp_type s, af_control = sp_control s, af_label = sp_control s,
      af_identifier = sp_control s,
      af_description = text_or (sp_expected s) (text_or (sp_input s) (Some (wn_goal f))),
      af_coordinates = sp_coordinates s, af_text = sp_text s, af_mode = [0x9010, 0x6B65, 0x5BA1, 0x6279], af_risk = sp_risk s, af_max = 1,
      af_trace = text_or (sp_trace s) (wn_trace f), af_fallback = False\<rparr>"

definition checked_preflight :: "computer_settings \<Rightarrow> action_form \<Rightarrow> computer_error option" where
  "checked_preflight st f = first_error [require (form_valid f) InvalidForm, preflight_action_plan st f]"

definition validate_step_payload :: "computer_settings \<Rightarrow> step_form \<Rightarrow> computer_error option" where
  "validate_step_payload st s =
     first_error
       [require (strip (sp_type s) \<in> set WORKFLOW_ACTION_TYPES) (Refused 403 [0x6B65, 0x9AA4, 0x52A8, 0x4F5C, 0x7C7B, 0x578B, 0x4E0D, 0x88AB, 0x5141, 0x8BB8]),
        ensure_action_type_allowed (strip (sp_type s)),
        ensure_target_application_allowed (sp_application s),
        ensure_target_control_allowed (text_or (sp_control s) None) (text_or (sp_control s) None) None (text_or (sp_window s) None),
        ensure_text_safe (sp_text s),
        ensure_coordinates_safe (sp_coordinates s),
        (if has_text (sp_text s) then ensure_file_transfer_disabled st else None),
        (if strip (sp_type s) = [0x8F93, 0x5165, 0x666E, 0x901A, 0x6587, 0x672C] then ensure_safe_action_enabled st else None)]"

definition validate_workflow_plan :: "computer_settings \<Rightarrow> step_form list \<Rightarrow> computer_error option" where
  "validate_workflow_plan st steps =
     first_error
       (require (DEFAULT_MIN_STEPS \<le> int (length steps)) (Refused 403 [0x5DE5, 0x4F5C, 0x6D41, 0x6B65, 0x9AA4, 0x6570, 0x91CF, 0x4E0D, 0x8DB3]) #
        require (int (length steps) \<le> DEFAULT_MAX_STEPS) (Refused 403 [0x5DE5, 0x4F5C, 0x6D41, 0x6B65, 0x9AA4, 0x6570, 0x91CF, 0x8D85, 0x9650]) #
        map (validate_step_payload st) steps)"

definition new_workflow :: "computer_env \<Rightarrow> workflow_form \<Rightarrow> workflow" where
  "new_workflow env f =
     \<lparr>wf_id = cn_uuid env 10, wf_task = wn_task f, wf_employee = wn_employee f, wf_skill = wn_skill f,
      wf_device = wn_device f, wf_session = wn_session f, wf_goal = wn_goal f, wf_status = [0x7B49, 0x5F85, 0x6279, 0x51C6],
      wf_risk = wn_risk f, wf_approval = [0x7B49, 0x5F85, 0x5BA1, 0x6279], wf_total = int (length (wn_steps f)), wf_current = 0,
      wf_max = min (max (wn_max f) 2) DEFAULT_MAX_STEPS, wf_checkpoints = 0,
      wf_budget = (if truthy (wn_budget f) then wn_budget f else JObj []), wf_started = None,
      wf_finished = None, wf_stop = None, wf_trace = wn_trace f\<rparr>"

definition new_step :: "computer_env \<Rightarrow> workflow_form \<Rightarrow> nat \<Rightarrow> step_form \<Rightarrow> flow_step" where
  "new_step env f i s =
     \<lparr>ws_id = cn_uuid env (11 + i), ws_workflow = cn_uuid env 10, ws_number = int i + 1, ws_type = sp_type s,
      ws_application = sp_application s, ws_bundle = sp_bundle s,
      ws_window = (if sp_type s = [0x622A, 0x56FE] then sp_url s else sp_window s), ws_control = sp_control s,
      ws_input = sp_input s, ws_expected = sp_expected s,
      ws_risk = (if sp_risk s = [] then wn_risk f else sp_risk s), ws_approval = sp_approval s,
      ws_checkpoint = sp_checkpoint s, ws_status = [0x5F85, 0x6267, 0x884C], ws_action = None, ws_verification = None,
      ws_started = None, ws_finished = None, ws_trace = text_or (sp_trace s) (wn_trace f)\<rparr>"

definition new_steps :: "computer_env \<Rightarrow> workflow_form \<Rightarrow> flow_step list" where
  "new_steps env f = map (\<lambda>i. new_step env f i (wn_steps f ! i)) [0..<length (wn_steps f)]"

fun add_all :: "('r \<Rightarrow> 'k) \<Rightarrow> 'r list \<Rightarrow> 'r list \<Rightarrow> 'r list option" where
  "add_all key [] t = Some t"
| "add_all key (r # rs) t = (case add_new key r t of None \<Rightarrow> None | Some t1 \<Rightarrow> add_all key rs t1)"

definition build_workflow_plan :: "computer_env \<Rightarrow> workflow_form \<Rightarrow> workflow tx" where
  "build_workflow_plan env f =
     tx_bind (tx_check (validate_workflow_plan (cn_settings env) (wn_steps f))) (\<lambda>_ db.
       (let w = new_workflow env f
        in if list_ex (\<lambda>x. wf_trace w \<noteq> None \<and> wf_task x = wf_task w \<and> wf_trace x = wf_trace w) (cd_workflows db)
           then Inl (DbRefused, None)
           else case (add_new wf_id w (cd_workflows db), add_all ws_id (new_steps env f) (cd_steps db)) of
                  (Some ws, Some ss) \<Rightarrow> Inr (w, db\<lparr>cd_workflows := ws, cd_steps := ss\<rparr>)
                | _ \<Rightarrow> Inl (DbRefused, None)))"

definition workflow_session_form :: "computer_env \<Rightarrow> workflow \<Rightarrow> computer_session" where
  "workflow_session_form env w =
     \<lparr>cs_id = [], cs_execution = None, cs_task = wf_task w, cs_employee = wf_employee w, cs_skill = wf_skill w,
      cs_executor = (if st_openclaw (cn_settings env) then (asc ''openclaw'') else (asc ''mock'')), cs_environment = (asc ''test''),
      cs_status = [0x5F85, 0x521B, 0x5EFA], cs_risk = wf_risk w, cs_approval = [0x7B49, 0x5F85, 0x5BA1, 0x6279],
      cs_apps = DEFAULT_ALLOWED_APPLICATIONS, cs_windows = [[0x2E, 0x2A, 0x9694, 0x79BB, 0x2E, 0x2A], [0x2E, 0x2A, 0x6D4B, 0x8BD5, 0x2E, 0x2A]], cs_started = 0,
      cs_expires = 0, cs_ended = None, cs_takeover = [0x672A, 0x63A5, 0x7BA1], cs_shot = None, cs_trace = wf_trace w\<rparr>"

definition create_scope_approval ::
  "computer_env \<Rightarrow> workflow \<Rightarrow> int option \<Rightarrow> ustr option \<Rightarrow> workflow_approval tx"
where
  "create_scope_approval env w approver trace db =
     (let a = \<lparr>wa_id = cn_uuid env 16, wa_workflow = wf_id w, wa_scope = Some (wf_goal w), wa_status = [0x7B49, 0x5F85, 0x5BA1, 0x6279],
               wa_by = approver, wa_approved = None, wa_reason = None, wa_trace = text_or trace (wf_trace w)\<rparr>
      in case add_new wa_id a (cd_scopes db) of
           None \<Rightarrow> Inl (DbRefused, None)
         | Some rows \<Rightarrow> Inr (a, db\<lparr>cd_scopes := rows\<rparr>))"

text \<open>
  Creating the session commits everything so far; the session of the workflow and its approval follow
  in a second transaction.
\<close>

definition create_workflow :: "computer_env \<Rightarrow> workflow_form \<Rightarrow> workflow tx" where
  "create_workflow env f =
     tx_bind (tx_check (first_error (map (\<lambda>s. checked_preflight (cn_settings env) (preflight_form f s)) (wn_steps f)))) (\<lambda>_.
     tx_bind (\<lambda>db. tx_check (require (case wn_task f of None \<Rightarrow> False
                 | Some t \<Rightarrow> owned_task_or_none (cn_sha env) (cn_user env) (cd_tasks db) t \<noteq> None)
                (Refused 404 [0x4EFB, 0x52A1, 0x4E0D, 0x5B58, 0x5728])) db) (\<lambda>_.
     tx_bind (build_workflow_plan env f) (\<lambda>w.
     (if has_text (wf_session w)
      then tx_bind (create_scope_approval env w None (wf_trace w)) (\<lambda>_. tx_return w)
      else tx_bind (create_session env (workflow_session_form env w)) (\<lambda>s.
           after_commit True
             (let w1 = w\<lparr>wf_session := Some (cs_id s)\<rparr>
              in tx_bind (tx_write (put_workflow w1)) (\<lambda>_.
                 tx_bind (create_scope_approval env w1 None (wf_trace w1)) (\<lambda>_. tx_return w1))))))))"

section \<open>Approval of the scope\<close>

definition scope_approval_or_new ::
  "computer_env \<Rightarrow> workflow \<Rightarrow> int option \<Rightarrow> ustr option \<Rightarrow> workflow_approval tx"
where
  "scope_approval_or_new env w approver trace db =
     (case latest_row (\<lambda>a. wa_workflow a = wf_id w) (cd_scopes db) of
        Some a \<Rightarrow> Inr (a, db)
      | None \<Rightarrow> create_scope_approval env w approver trace db)"

definition put_scope :: "workflow_approval \<Rightarrow> computer_db \<Rightarrow> computer_db" where
  "put_scope a db = db\<lparr>cd_scopes := row_put wa_id a (cd_scopes db)\<rparr>"

definition approve_workflow :: "computer_env \<Rightarrow> ustr \<Rightarrow> int option \<Rightarrow> ustr option \<Rightarrow> workflow tx" where
  "approve_workflow env wid approver trace =
     tx_bind (owned_workflow env wid) (\<lambda>w.
     tx_bind (scope_approval_or_new env w approver trace) (\<lambda>a.
     tx_bind (tx_check (first_error
        [require (wa_status a \<noteq> [0x5DF2, 0x6279, 0x51C6]) (Refused 409 [0x5DE5, 0x4F5C, 0x6D41, 0x5BA1, 0x6279, 0x5DF2, 0x5B58, 0x5728]),
         require (wa_status a \<in> {[0x7B49, 0x5F85, 0x5BA1, 0x6279], [0x5DF2, 0x62D2, 0x7EDD]}) (Refused 409 [0x5DE5, 0x4F5C, 0x6D41, 0x5BA1, 0x6279, 0x72B6, 0x6001, 0x4E0D, 0x5141, 0x8BB8])])) (\<lambda>_.
     (let b = a\<lparr>wa_status := [0x5DF2, 0x6279, 0x51C6], wa_by := approver, wa_approved := Some (cn_now env),
                wa_trace := text_or trace (wa_trace a)\<rparr>;
          w1 = w\<lparr>wf_approval := [0x5DF2, 0x6279, 0x51C6], wf_status := [0x5DF2, 0x6279, 0x51C6]\<rparr>
      in tx_bind (tx_write (put_scope b)) (\<lambda>_.
         tx_bind (tx_write (put_workflow w1)) (\<lambda>_. tx_return w1))))))"

definition reject_workflow :: "computer_env \<Rightarrow> ustr \<Rightarrow> int option \<Rightarrow> ustr option \<Rightarrow> ustr option \<Rightarrow> workflow tx" where
  "reject_workflow env wid approver reason trace =
     tx_bind (owned_workflow env wid) (\<lambda>w.
     tx_bind (scope_approval_or_new env w approver trace) (\<lambda>a.
     (let b = a\<lparr>wa_status := [0x5DF2, 0x62D2, 0x7EDD], wa_by := approver, wa_reason := reason, wa_trace := text_or trace (wa_trace a)\<rparr>;
          w1 = w\<lparr>wf_approval := [0x5DF2, 0x62D2, 0x7EDD], wf_status := [0x5DF2, 0x62D2, 0x7EDD], wf_stop := text_or reason (Some [0x5DE5, 0x4F5C, 0x6D41, 0x88AB, 0x62D2, 0x7EDD])\<rparr>
      in tx_bind (tx_write (put_scope b)) (\<lambda>_.
         tx_bind (tx_write (put_workflow w1)) (\<lambda>_. tx_return w1)))))"

section \<open>The budget\<close>

definition int_setting :: "computer_env \<Rightarrow> json \<Rightarrow> int \<Rightarrow> computer_error + int" where
  "int_setting env j dflt =
     (if \<not> truthy j then Inr dflt
      else case j of
             JInt i \<Rightarrow> Inr i
           | JBool _ \<Rightarrow> Inr 1
           | JFloat r \<Rightarrow> Inr (cn_float env r)
           | JStr s \<Rightarrow> (case py_int_of s of None \<Rightarrow> Inl BadValue | Some i \<Rightarrow> Inr i)
           | _ \<Rightarrow> Inl BadType)"

definition ensure_budget_within_limits :: "computer_env \<Rightarrow> workflow \<Rightarrow> computer_error option" where
  "ensure_budget_within_limits env w =
     (case int_setting env (jget (asc ''max_duration_seconds'') (wf_budget w)) DEFAULT_MAX_DURATION_SECONDS of
        Inl e \<Rightarrow> Some e
      | Inr duration \<Rightarrow>
          (case int_setting env (jget (asc ''max_actions_per_minute'') (wf_budget w)) DEFAULT_MAX_ACTIONS_PER_MINUTE of
             Inl e \<Rightarrow> Some e
           | Inr actions \<Rightarrow>
               first_error
                 [(case wf_started w of
                     None \<Rightarrow> None
                   | Some t \<Rightarrow> require (duration = 0 \<or> cn_now env - t \<le> duration * 1000000) (Refused 409 [0x5DE5, 0x4F5C, 0x6D41, 0x5DF2, 0x8D85, 0x65F6])),
                  require (0 \<le> actions) (Refused 409 [0x5DE5, 0x4F5C, 0x6D41, 0x52A8, 0x4F5C, 0x9884, 0x7B97, 0x5DF2, 0x8D85, 0x9650])]))"

section \<open>Executing a step\<close>

definition next_step :: "workflow \<Rightarrow> computer_db \<Rightarrow> flow_step option" where
  "next_step w db = find (\<lambda>s. wf_current w < ws_number s) (steps_of (wf_id w) db)"

definition step_trace :: "computer_env \<Rightarrow> workflow \<Rightarrow> flow_step \<Rightarrow> ustr" where
  "step_trace env w s =
     cn_uuid5 env (JArr [JStr (asc ''computer_workflow_step''), JStr (wf_id w), jopt (wf_session w), JStr (ws_id s), JInt (ws_number s)])"

text \<open>The action of a step: a screenshot step keeps its URL in the window column; only typed text is passed on.\<close>

definition build_action_payload :: "computer_env \<Rightarrow> workflow \<Rightarrow> flow_step \<Rightarrow> action_form" where
  "build_action_payload env w s =
     \<lparr>af_session = text_of (wf_session w), af_observation = None, af_task = wf_task w, af_employee = wf_employee w,
      af_skill = wf_skill w, af_application = ws_application s, af_bundle = ws_bundle s,
      af_window = (if ws_type s = [0x622A, 0x56FE] then None else ws_window s),
      af_url = (if ws_type s = [0x622A, 0x56FE] then ws_window s else None), af_goal = wf_goal w, af_type = ws_type s,
      af_control = ws_control s, af_label = ws_control s, af_identifier = ws_control s,
      af_description = text_or (ws_expected s) (text_or (ws_input s) (Some (wf_goal w))), af_coordinates = None,
      af_text = (if ws_type s = [0x8F93, 0x5165, 0x666E, 0x901A, 0x6587, 0x672C] then ws_input s else None), af_mode = [0x9010, 0x6B65, 0x5BA1, 0x6279], af_risk = ws_risk s,
      af_max = 1, af_trace = Some (step_trace env w s), af_fallback = False\<rparr>"

definition checkpoint_type_for_step :: "flow_step \<Rightarrow> ustr" where
  "checkpoint_type_for_step s = (if ws_type s = [0x8F93, 0x5165, 0x666E, 0x901A, 0x6587, 0x672C] then [0x8F93, 0x5165, 0x524D, 0x786E, 0x8BA4] else [0x6267, 0x884C, 0x524D, 0x786E, 0x8BA4])"

definition approved_checkpoint :: "workflow \<Rightarrow> flow_step \<Rightarrow> computer_db \<Rightarrow> bool" where
  "approved_checkpoint w s db =
     list_ex (\<lambda>c. wc_workflow c = wf_id w \<and> wc_step c = Some (ws_id s) \<and> wc_status c = [0x5DF2, 0x6279, 0x51C6]) (cd_checkpoints db)"

definition create_checkpoint_approval ::
  "computer_env \<Rightarrow> workflow \<Rightarrow> flow_step \<Rightarrow> ustr option \<Rightarrow> ustr option \<Rightarrow> ustr option \<Rightarrow> workflow tx"
where
  "create_checkpoint_approval env w s reference summary trace db =
     (let c = \<lparr>wc_id = cn_uuid env 9, wc_workflow = wf_id w, wc_step = Some (ws_id s),
               wc_type = checkpoint_type_for_step s,
               wc_reason = text_or (ws_expected s) (text_or (ws_input s) (Some (wf_goal w))),
               wc_reference = reference, wc_summary = summary, wc_risk = ws_risk s, wc_status = [0x7B49, 0x5F85, 0x5BA1, 0x6279],
               wc_by = None, wc_approved = None, wc_trace = text_or trace (wf_trace w)\<rparr>;
          w1 = w\<lparr>wf_checkpoints := wf_checkpoints w + 1, wf_status := [0x7B49, 0x5F85, 0x5173, 0x952E, 0x8282, 0x70B9, 0x786E, 0x8BA4]\<rparr>
      in case add_new wc_id c (cd_checkpoints db) of
           None \<Rightarrow> Inl (DbRefused, None)
         | Some rows \<Rightarrow> Inr (w1, put_workflow w1 (db\<lparr>cd_checkpoints := rows\<rparr>)))"

text \<open>What a request says of the screen.\<close>

record screen =
  sn_application :: "ustr option"
  sn_window :: "ustr option"
  sn_hash :: "ustr option"
  sn_trace :: "ustr option"

datatype step_reply = Halted | Executed execute_reply

text \<open>
  \<^verbatim>\<open>workflows/computer/verifier.py\<close>: \<open>plan_id\<close> and \<open>action_id\<close> must name the plan, the target and the
  action of this very step.
\<close>

definition same_attempt :: "workflow \<Rightarrow> flow_step \<Rightarrow> ustr \<Rightarrow> ustr \<Rightarrow> ustr option \<Rightarrow> computer_db \<Rightarrow> bool" where
  "same_attempt w s plan_id action_id trace db =
     (case (row_get pl_id plan_id (cd_plans db), row_get ac_id action_id (cd_actions db)) of
        (Some plan, Some action) \<Rightarrow>
          list_ex (\<lambda>t. tg_plan t = plan_id \<and> tg_action t = action_id) (cd_targets db) \<and>
          ws_workflow s = wf_id w \<and> ws_action s = Some action_id \<and>
          wf_session w = Some (pl_session plan) \<and> pl_session plan = ac_session action \<and> wf_task w = pl_task plan \<and>
          pl_trace plan = trace
      | _ \<Rightarrow> False)"

definition verify_step_result ::
  "computer_env \<Rightarrow> workflow \<Rightarrow> flow_step \<Rightarrow> workflow_verification \<Rightarrow> ustr \<Rightarrow> ustr
     \<Rightarrow> (workflow_verification \<times> flow_step) tx"
where
  "verify_step_result env w s row plan_id action_id db =
     (if cn_user env = None \<or>
         (case wf_task w of None \<Rightarrow> True
          | Some t \<Rightarrow> owned_task_or_none (cn_sha env) (cn_user env) (cd_tasks db) t = None)
      then Inl (Refused 404 [0x5DE5, 0x4F5C, 0x6D41, 0x6B65, 0x9AA4, 0x9A8C, 0x8BC1, 0x4E0D, 0x5B58, 0x5728], None)
      else if \<not> same_attempt w s plan_id action_id (wv_trace row) db
      then Inl (Refused 409 [0x5DE5, 0x4F5C, 0x6D41, 0x6B65, 0x9AA4, 0x9A8C, 0x8BC1, 0x8EAB, 0x4EFD, 0x51B2, 0x7A81], None)
      else case find (\<lambda>v. wv_workflow v = wf_id w \<and> wv_step v = ws_id s) (cd_checked db) of
             Some old \<Rightarrow>
               if ws_verification s = Some (wv_id old) \<and> old = row\<lparr>wv_id := wv_id old\<rparr>
               then Inr ((old, s), db) else Inl (Refused 409 [0x5DE5, 0x4F5C, 0x6D41, 0x6B65, 0x9AA4, 0x9A8C, 0x8BC1, 0x8EAB, 0x4EFD, 0x51B2, 0x7A81], None)
           | None \<Rightarrow>
               (case add_new wv_id row (cd_checked db) of
                  None \<Rightarrow> Inl (DbRefused, None)
                | Some rows \<Rightarrow>
                    Inr ((row, s\<lparr>ws_verification := Some (wv_id row),
                                 ws_status := (if wv_status row = [0x7ED3, 0x679C, 0x7B26, 0x5408, 0x9884, 0x671F] then [0x5DF2, 0x5B8C, 0x6210] else [0x5DF2, 0x5931, 0x8D25]),
                                 ws_finished := Some (cn_now env)\<rparr>),
                         db\<lparr>cd_checked := rows\<rparr>)))"

definition ensure_task_result :: "computer_env \<Rightarrow> workflow \<Rightarrow> ustr \<Rightarrow> computer_db \<Rightarrow> computer_db" where
  "ensure_task_result env w content db =
     (case wf_task w of None \<Rightarrow> db
      | Some t \<Rightarrow>
          (case owned_task_or_none (cn_sha env) (cn_user env) (cd_tasks db) t of
             None \<Rightarrow> db
           | Some task \<Rightarrow>
               (let tasks = cd_tasks db;
                    result = \<lparr>cx_task = ct_id task, cx_code = text_of (text_or (ct_code task) (Some (asc ''tianshu''))),
                              cx_name = text_of (text_or (ct_name task) (Some [0x5929, 0x6570, 0xFF1A, 0x667A, 0x80FD, 0x6570, 0x636E, 0x5206, 0x6790, 0x4E2D, 0x5FC3])), cx_content = content\<rparr>;
                    task1 = (if ct_status task \<in> {(asc ''created''), (asc ''split''), (asc ''assigned''), (asc ''running'')}
                             then task\<lparr>ct_status := (asc ''result_submitted''), ct_summary := Some (take 1000 content)\<rparr> else task)
                in db\<lparr>cd_tasks := tasks\<lparr>td_results := row_add result (td_results tasks),
                                         td_tasks := row_put ct_id task1 (td_tasks tasks)\<rparr>\<rparr>)))"

definition record_recovery ::
  "computer_env \<Rightarrow> workflow \<Rightarrow> flow_step \<Rightarrow> ustr option \<Rightarrow> ustr option \<Rightarrow> unit tx"
where
  "record_recovery env w s reason trace db =
     (case add_new wr_id \<lparr>wr_id = cn_uuid env 8, wr_workflow = wf_id w, wr_step = Some (ws_id s), wr_type = [0x6D4B, 0x8BD5, 0x9875, 0x9762, 0x6062, 0x590D],
             wr_status = [0x5DF2, 0x5B8C, 0x6210], wr_reason = reason, wr_result = Some [0x5931, 0x8D25, 0x540E, 0x505C, 0x6B62, 0xFF0C, 0x7B49, 0x5F85, 0x4EBA, 0x5DE5, 0x6062, 0x590D],
             wr_trace = text_or trace (wf_trace w)\<rparr> (cd_recoveries db) of
        None \<Rightarrow> Inl (DbRefused, None)
      | Some rows \<Rightarrow> Inr ((), db\<lparr>cd_recoveries := rows\<rparr>))"

text \<open>The statuses after a verified step.\<close>

definition settled_step :: "computer_env \<Rightarrow> workflow_verification \<Rightarrow> flow_step \<Rightarrow> flow_step" where
  "settled_step env v s =
     s\<lparr>ws_finished := Some (cn_now env),
       ws_status := (if wv_status v \<in> {[0x7ED3, 0x679C, 0x7B26, 0x5408, 0x9884, 0x671F], [0x7ED3, 0x679C, 0x90E8, 0x5206, 0x7B26, 0x5408]} then [0x5DF2, 0x5B8C, 0x6210] else [0x5DF2, 0x5931, 0x8D25])\<rparr>"

definition settled_workflow ::
  "computer_env \<Rightarrow> workflow_verification \<Rightarrow> flow_step \<Rightarrow> computer_db \<Rightarrow> workflow \<Rightarrow> workflow"
where
  "settled_workflow env v s db w =
     (let failed = (ws_status s = [0x5DF2, 0x5931, 0x8D25]);
          w1 = w\<lparr>wf_current := max (wf_current w) (ws_number s),
                 wf_checkpoints := wf_checkpoints w + (if ws_checkpoint s then 1 else 0),
                 wf_status := (if failed then [0x5DF2, 0x5931, 0x8D25] else [0x5DF2, 0x6682, 0x505C]),
                 wf_stop := (if failed then text_or (wv_result v) (Some [0x6B65, 0x9AA4, 0x9A8C, 0x8BC1, 0x5931, 0x8D25]) else wf_stop w)\<rparr>
      in case next_step w1 db of
           None \<Rightarrow> if ws_status s = [0x5DF2, 0x5B8C, 0x6210] then w1\<lparr>wf_status := [0x5DF2, 0x5B8C, 0x6210], wf_finished := Some (cn_now env)\<rparr> else w1
         | Some n \<Rightarrow>
             if wf_status w1 = [0x5DF2, 0x6682, 0x505C] \<and> ws_type s \<in> set SAFE_CONTINUE_ACTIONS \<and> \<not> ws_checkpoint n \<and>
                st_auto_continue (cn_settings env)
             then w1\<lparr>wf_status := [0x6267, 0x884C, 0x4E2D]\<rparr> else w1)"

definition settle_step ::
  "computer_env \<Rightarrow> ustr option \<Rightarrow> workflow \<Rightarrow> flow_step \<Rightarrow> workflow_verification \<Rightarrow> unit tx"
where
  "settle_step env trace w s v =
     (let s1 = settled_step env v s
      in tx_bind (tx_read (\<lambda>db. settled_workflow env v s1 db w)) (\<lambda>w1.
         tx_bind (if ws_status s1 = [0x5DF2, 0x5931, 0x8D25] then record_recovery env w1 s1 (wf_stop w1) (text_or trace (wf_trace w)) else tx_return ()) (\<lambda>_.
         tx_write (\<lambda>db.
           (let db1 = put_step s1 (put_workflow w1 db)
            in if wf_status w1 = [0x5DF2, 0x5B8C, 0x6210] then ensure_task_result env w1 ([0x5DE5, 0x4F5C, 0x6D41, 0x20] @ wf_goal w1 @ [0x20, 0x5DF2, 0x5B8C, 0x6210]) db1 else db1)))))"

definition capture_settings_of :: "computer_settings \<Rightarrow> capture_settings" where
  "capture_settings_of st = \<lparr>cp_test = st_test st, cp_production = st_production st, cp_origins = st_origins st\<rparr>"

text \<open>A screenshot step needs the owner and an authorisation for its URL.\<close>

definition step_authorization :: "computer_env \<Rightarrow> workflow \<Rightarrow> action_form \<Rightarrow> capture_authorization option tx" where
  "step_authorization env w f =
     (if af_type f \<noteq> [0x622A, 0x56FE] then tx_return None
      else case cn_user env of
             None \<Rightarrow> tx_fail (Refused 403 [0x622A, 0x56FE, 0x52A8, 0x4F5C, 0x7F3A, 0x5C11, 0x4F, 0x77, 0x6E, 0x65, 0x72, 0x6388, 0x6743, 0x4E0A, 0x4E0B, 0x6587])
           | Some u \<Rightarrow>
               (case create_capture_authorization (capture_settings_of (cn_settings env)) (cn_jwt env)
                       (cn_now env div 1000000) (ur_id u) (wf_id w) (af_url f) of
                  None \<Rightarrow> tx_fail (Refused 403 [0x622A, 0x56FE, 0x52A8, 0x4F5C, 0x6388, 0x6743, 0x4E0A, 0x4E0B, 0x6587, 0x65E0, 0x6548])
                | Some a \<Rightarrow> tx_return (Some a)))"

definition run_step_action ::
  "computer_env \<Rightarrow> screen \<Rightarrow> workflow \<Rightarrow> action_form \<Rightarrow> (plan_reply \<times> execute_reply) tx"
where
  "run_step_action env scr w f =
     tx_bind (step_authorization env w f) (\<lambda>authorization.
     tx_bind (create_action_plan env (cn_user env) f) (\<lambda>(plan, target, approval).
     tx_bind (approve_action env False (pl_id plan) None (Some (wf_goal w)) (text_or (sn_trace scr) (wf_trace w)) (sn_hash scr)) (\<lambda>_.
     tx_bind (execute_action env False (pl_id plan) (sn_hash scr) (text_or (sn_trace scr) (wf_trace w)) authorization) (\<lambda>r.
     tx_return ((plan, target, approval), r)))))"

text \<open>The \<^verbatim>\<open>before\<close> reference is looked up under a key the target's dictionary does not have.\<close>

definition step_verification_row ::
  "computer_env \<Rightarrow> screen \<Rightarrow> workflow \<Rightarrow> flow_step \<Rightarrow> action_plan \<Rightarrow> execute_reply \<Rightarrow> workflow_verification"
where
  "step_verification_row env scr w s plan r =
     \<lparr>wv_id = cn_uuid env 7, wv_workflow = wf_id w, wv_step = ws_id s,
      wv_status = (if av_status (er_verification r) = [] then [0x65E0, 0x6CD5, 0x5224, 0x65AD] else av_status (er_verification r)),
      wv_before = None, wv_after = text_or (ac_after (er_action r)) (ac_before (er_action r)),
      wv_summary = text_or (sn_window scr) (sn_application scr), wv_result = text_or (ac_result (er_action r)) None,
      wv_trace = text_or (pl_trace plan) (wf_trace w)\<rparr>"

definition perform_step :: "computer_env \<Rightarrow> screen \<Rightarrow> workflow \<Rightarrow> flow_step \<Rightarrow> step_reply tx" where
  "perform_step env scr w s =
     (let f = build_action_payload env w s;
          w1 = w\<lparr>wf_status := [0x6267, 0x884C, 0x4E2D], wf_started := (if wf_started w = None then Some (cn_now env) else wf_started w)\<rparr>
      in tx_bind (run_step_action env scr w1 f) (\<lambda>((plan, target, approval), r).
         (let s1 = s\<lparr>ws_started := Some (cn_now env), ws_action := Some (tg_action (er_target r))\<rparr>
          in tx_bind (verify_step_result env w1 s1 (step_verification_row env scr w1 s1 plan r) (pl_id plan) (tg_action (er_target r)))
               (\<lambda>(v, s2).
             tx_bind (settle_step env (sn_trace scr) w1 s2 v) (\<lambda>_. tx_return (Executed r))))))"

definition execute_step :: "computer_env \<Rightarrow> ustr \<Rightarrow> int \<Rightarrow> screen \<Rightarrow> step_reply tx" where
  "execute_step env wid n scr =
     tx_bind (owned_workflow env wid) (\<lambda>w.
     tx_bind (tx_check (require (wf_status w \<notin> {[0x5DF2, 0x53D6, 0x6D88], [0x5DF2, 0x7EC8, 0x6B62], [0x5DF2, 0x5931, 0x8D25], [0x5DF2, 0x8D85, 0x65F6]}) (Refused 409 [0x5DE5, 0x4F5C, 0x6D41, 0x5DF2, 0x7ED3, 0x675F]))) (\<lambda>_.
     tx_bind (\<lambda>db. tx_some (find (\<lambda>s. ws_workflow s = wf_id w \<and> ws_number s = n) (cd_steps db))
                (Refused 404 [0x5DE5, 0x4F5C, 0x6D41, 0x6B65, 0x9AA4, 0x4E0D, 0x5B58, 0x5728]) db) (\<lambda>s.
     tx_bind (tx_check (first_error
        [ensure_budget_within_limits env w,
         require (wf_session w \<noteq> None) (Refused 409 [0x5DE5, 0x4F5C, 0x6D41, 0x4F1A, 0x8BDD, 0x4E0D, 0x5B58, 0x5728]),
         require (ws_status s \<in> {[0x5F85, 0x6267, 0x884C], [0x5DF2, 0x6279, 0x51C6], [0x5DF2, 0x8DF3, 0x8FC7]}) (Refused 409 [0x5DE5, 0x4F5C, 0x6D41, 0x6B65, 0x9AA4, 0x72B6, 0x6001, 0x4E0D, 0x5141, 0x8BB8, 0x6267, 0x884C]),
         checked_preflight (cn_settings env) (build_action_payload env w s)])) (\<lambda>_.
     tx_bind (tx_read (approved_checkpoint w s)) (\<lambda>ok.
     if ws_checkpoint s \<and> \<not> ok
     then tx_bind (create_checkpoint_approval env w s (sn_hash scr) (text_or (sn_window scr) (sn_application scr)) (sn_trace scr)) (\<lambda>_.
          tx_bind (tx_write (put_step (s\<lparr>ws_status := [0x7B49, 0x5F85, 0x5BA1, 0x6279]\<rparr>))) (\<lambda>_. tx_return Halted))
     else perform_step env scr w s)))))"

section \<open>Starting, pausing, resuming, cancelling\<close>

datatype start_reply = Finished | Stepped step_reply

definition start_workflow :: "computer_env \<Rightarrow> ustr \<Rightarrow> screen \<Rightarrow> start_reply tx" where
  "start_workflow env wid scr =
     tx_bind (owned_workflow env wid) (\<lambda>w.
     tx_bind (tx_check (first_error
        [require (wf_approval w = [0x5DF2, 0x6279, 0x51C6]) (Refused 403 [0x5DE5, 0x4F5C, 0x6D41, 0x5C1A, 0x672A, 0x6279, 0x51C6]),
         require (wf_status w = [0x5DF2, 0x6279, 0x51C6]) (Refused 409 [0x5DE5, 0x4F5C, 0x6D41, 0x72B6, 0x6001, 0x4E0D, 0x5141, 0x8BB8, 0x542F, 0x52A8])])) (\<lambda>_.
     tx_bind (tx_read (next_step w)) (\<lambda>n.
     case n of
       None \<Rightarrow> tx_bind (tx_write (put_workflow (w\<lparr>wf_status := [0x5DF2, 0x5B8C, 0x6210], wf_finished := Some (cn_now env)\<rparr>))) (\<lambda>_. tx_return Finished)
     | Some s \<Rightarrow> tx_bind (execute_step env wid (ws_number s) scr) (\<lambda>r. tx_return (Stepped r)))))"

definition pause_workflow :: "computer_env \<Rightarrow> ustr \<Rightarrow> ustr option \<Rightarrow> unit tx" where
  "pause_workflow env wid reason =
     tx_bind (owned_workflow env wid) (\<lambda>w.
     tx_write (put_workflow (w\<lparr>wf_status := [0x5DF2, 0x6682, 0x505C], wf_stop := (if has_text reason then reason else wf_stop w)\<rparr>)))"

definition resume_workflow :: "computer_env \<Rightarrow> ustr \<Rightarrow> screen \<Rightarrow> step_reply tx" where
  "resume_workflow env wid scr =
     tx_bind (owned_workflow env wid) (\<lambda>w.
     tx_bind (tx_check (require (wf_status w = [0x5DF2, 0x6682, 0x505C]) (Refused 409 [0x5DE5, 0x4F5C, 0x6D41, 0x72B6, 0x6001, 0x4E0D, 0x5141, 0x8BB8, 0x6062, 0x590D]))) (\<lambda>_.
     tx_bind (tx_read (next_step w)) (\<lambda>n.
     case n of
       None \<Rightarrow> tx_fail (Refused 409 [0x5DE5, 0x4F5C, 0x6D41, 0x72B6, 0x6001, 0x6570, 0x636E, 0x4E0D, 0x5141, 0x8BB8, 0x6062, 0x590D])
     | Some s \<Rightarrow>
         if ws_status s \<notin> {[0x5F85, 0x6267, 0x884C], [0x5DF2, 0x6279, 0x51C6], [0x5DF2, 0x8DF3, 0x8FC7]} \<or> ws_started s \<noteq> None \<or> ws_action s \<noteq> None
         then tx_fail (Refused 409 [0x5DE5, 0x4F5C, 0x6D41, 0x72B6, 0x6001, 0x6570, 0x636E, 0x4E0D, 0x5141, 0x8BB8, 0x6062, 0x590D])
         else execute_step env wid (ws_number s) scr)))"

definition cancel_workflow :: "computer_env \<Rightarrow> ustr \<Rightarrow> ustr option \<Rightarrow> unit tx" where
  "cancel_workflow env wid reason =
     tx_bind (owned_workflow env wid) (\<lambda>w.
     tx_write (put_workflow (w\<lparr>wf_status := [0x5DF2, 0x53D6, 0x6D88], wf_stop := text_or reason (Some [0x5DE5, 0x4F5C, 0x6D41, 0x5DF2, 0x53D6, 0x6D88]),
                               wf_finished := Some (cn_now env)\<rparr>)))"

section \<open>Checkpoints\<close>

definition put_checkpoint :: "workflow_checkpoint \<Rightarrow> computer_db \<Rightarrow> computer_db" where
  "put_checkpoint c db = db\<lparr>cd_checkpoints := row_put wc_id c (cd_checkpoints db)\<rparr>"

text \<open>The step a checkpoint names, by its key alone.\<close>

definition put_step_status :: "ustr option \<Rightarrow> ustr \<Rightarrow> computer_db \<Rightarrow> computer_db" where
  "put_step_status sid status db =
     (case sid of None \<Rightarrow> db
      | Some i \<Rightarrow>
          (case row_get ws_id i (cd_steps db) of
             None \<Rightarrow> db
           | Some s \<Rightarrow> put_step (s\<lparr>ws_status := status\<rparr>) db))"

definition step_key :: "ustr option \<Rightarrow> ustr option" where
  "step_key sid = (if has_text sid then sid else None)"

definition approve_workflow_checkpoint :: "computer_env \<Rightarrow> ustr \<Rightarrow> int option \<Rightarrow> ustr option \<Rightarrow> unit tx" where
  "approve_workflow_checkpoint env cid approver trace =
     tx_bind (owned_checkpoint env cid) (\<lambda>c.
     tx_bind (tx_check (require (wc_status c \<noteq> [0x5DF2, 0x6279, 0x51C6]) (Refused 409 [0x5173, 0x952E, 0x8282, 0x70B9, 0x5DF2, 0x6279, 0x51C6]))) (\<lambda>_.
     tx_bind (tx_write (put_checkpoint (c\<lparr>wc_status := [0x5DF2, 0x6279, 0x51C6], wc_by := approver, wc_approved := Some (cn_now env),
                                          wc_trace := text_or trace (wc_trace c)\<rparr>))) (\<lambda>_.
     tx_bind (owned_workflow env (wc_workflow c)) (\<lambda>w.
     tx_bind (tx_write (put_workflow (if wf_status w = [0x7B49, 0x5F85, 0x5173, 0x952E, 0x8282, 0x70B9, 0x786E, 0x8BA4] then w\<lparr>wf_status := [0x5DF2, 0x6279, 0x51C6]\<rparr> else w))) (\<lambda>_.
     tx_write (put_step_status (step_key (wc_step c)) [0x5DF2, 0x6279, 0x51C6]))))))"

definition reject_workflow_checkpoint ::
  "computer_env \<Rightarrow> ustr \<Rightarrow> int option \<Rightarrow> ustr option \<Rightarrow> ustr option \<Rightarrow> unit tx"
where
  "reject_workflow_checkpoint env cid approver reason trace =
     tx_bind (owned_checkpoint env cid) (\<lambda>c.
     tx_bind (tx_write (put_checkpoint (c\<lparr>wc_status := [0x5DF2, 0x62D2, 0x7EDD], wc_by := approver, wc_approved := Some (cn_now env),
                                          wc_reason := text_or reason (wc_reason c),
                                          wc_trace := text_or trace (wc_trace c)\<rparr>))) (\<lambda>_.
     tx_bind (owned_workflow env (wc_workflow c)) (\<lambda>w.
     tx_bind (tx_write (put_workflow (w\<lparr>wf_status := [0x5DF2, 0x7EC8, 0x6B62], wf_stop := text_or reason (Some [0x5173, 0x952E, 0x8282, 0x70B9, 0x88AB, 0x62D2, 0x7EDD]),
                                        wf_finished := Some (cn_now env)\<rparr>))) (\<lambda>_.
     tx_write (put_step_status (step_key (wc_step c)) [0x5DF2, 0x53D6, 0x6D88])))))"

section \<open>The audit view\<close>

datatype audit_event =
    PlanCreated nat
  | ScopeEvent ustr ustr
  | CheckpointEvent ustr ustr
  | StepCompleted ustr
  | StepFailed ustr
  | RecoveryEvent ustr ustr
  | WorkflowEvent ustr

definition step_events :: "flow_step \<Rightarrow> audit_event list" where
  "step_events s =
     (if ws_status s = [0x5DF2, 0x5B8C, 0x6210] then [StepCompleted (ws_id s)]
      else if ws_status s = [0x5DF2, 0x5931, 0x8D25] then [StepFailed (ws_id s)] else [])"

definition summarize_workflow_audit ::
  "workflow \<Rightarrow> flow_step list \<Rightarrow> workflow_approval list \<Rightarrow> workflow_checkpoint list \<Rightarrow> workflow_recovery list \<Rightarrow> audit_event list"
where
  "summarize_workflow_audit w steps approvals checkpoints recoveries =
     PlanCreated (length steps) #
     map (\<lambda>a. ScopeEvent (wa_status a) (wa_id a)) approvals @
     map (\<lambda>c. CheckpointEvent (wc_status c) (wc_id c)) checkpoints @
     concat (map step_events steps) @
     map (\<lambda>r. RecoveryEvent (wr_status r) (wr_id r)) recoveries @ [WorkflowEvent (wf_status w)]"

definition workflow_audit :: "computer_env \<Rightarrow> ustr \<Rightarrow> audit_event list tx" where
  "workflow_audit env wid =
     tx_bind (owned_workflow env wid) (\<lambda>w.
     tx_read (\<lambda>db. summarize_workflow_audit w (steps_of wid db)
       (filter (\<lambda>a. wa_workflow a = wid) (cd_scopes db)) (filter (\<lambda>c. wc_workflow c = wid) (cd_checkpoints db))
       (filter (\<lambda>r. wr_workflow r = wid) (cd_recoveries db))))"

end
