(* ===== verification/Computer_Machine.thy ===== *)
theory Computer_Machine
  imports Computer_Workflow
begin

text \<open>
  The requests a manager may send (\<^verbatim>\<open>routers/computer_executor_v2.py\<close>,
  \<^verbatim>\<open>routers/computer_workflows.py\<close>) as the steps of one machine, and the invariant of the workflow
  tables. Requests of other roles change nothing and are no steps.
\<close>

section \<open>Requests\<close>

datatype request =
    CreateSession computer_session
  | RunAction ustr run_form
  | PauseSession ustr
  | ResumeSession ustr
  | CancelSession ustr
  | CloseSession ustr
  | Handoff ustr "ustr option" "ustr option"
  | CaptureScreen ustr
  | CreatePlan action_form
  | ApproveAction ustr "int option" "ustr option" "ustr option" "ustr option"
  | RejectAction ustr "int option" "ustr option" "ustr option"
  | ExecuteAction ustr "ustr option" "ustr option"
  | CancelAction ustr "ustr option" "ustr option"
  | CreateWorkflow workflow_form
  | ApproveWorkflow ustr "int option" "ustr option"
  | RejectWorkflow ustr "int option" "ustr option" "ustr option"
  | StartWorkflow ustr screen
  | PauseWorkflow ustr "ustr option"
  | ResumeWorkflow ustr screen
  | CancelWorkflow ustr "ustr option"
  | ApproveCheckpoint ustr "int option" "ustr option"
  | RejectCheckpoint ustr "int option" "ustr option" "ustr option"

definition require_feature :: "bool \<Rightarrow> computer_error option" where
  "require_feature b = require b (Refused 403 [0x6280, 0x80FD, 0x529F, 0x80FD, 0x5F53, 0x524D, 0x672A, 0x5F00, 0x542F])"

definition run_session_action :: "computer_env \<Rightarrow> ustr \<Rightarrow> run_form \<Rightarrow> unit tx" where
  "run_session_action env sid f =
     tx_bind (tx_check (require (rf_type f \<in> set ACTION_TYPES) InvalidForm)) (\<lambda>_.
     tx_bind (get_session sid) (\<lambda>s.
     tx_bind (runtime_execute env True s f None) (\<lambda>_. tx_return ())))"

text \<open>The routes of an action name it by its id; the target gives the plan.\<close>

definition with_target :: "ustr \<Rightarrow> (action_target \<Rightarrow> unit tx) \<Rightarrow> unit tx" where
  "with_target aid f =
     tx_bind (\<lambda>db. tx_some (find (\<lambda>t. tg_action t = aid) (cd_targets db)) (Refused 404 [0x52A8, 0x4F5C, 0x4E0D, 0x5B58, 0x5728]) db) f"

definition done_tx :: "'a tx \<Rightarrow> unit tx" where
  "done_tx f = tx_bind f (\<lambda>_. tx_return ())"

definition serve :: "computer_env \<Rightarrow> request \<Rightarrow> unit tx" where
  "serve env r =
     (let st = cn_settings env; executor = require_feature (st_executor st);
          safe = first_error [executor, require_feature (st_safe_action st)];
          flow = first_error [executor, require_feature (st_safe_workflow st)]
      in case r of
       CreateSession form \<Rightarrow> tx_bind (tx_check executor) (\<lambda>_. done_tx (create_session env form))
     | RunAction sid f \<Rightarrow> tx_bind (tx_check executor) (\<lambda>_. run_session_action env sid f)
     | PauseSession sid \<Rightarrow> tx_bind (tx_check executor) (\<lambda>_. pause_session sid)
     | ResumeSession sid \<Rightarrow> tx_bind (tx_check executor) (\<lambda>_. resume_session sid)
     | CancelSession sid \<Rightarrow> tx_bind (tx_check executor) (\<lambda>_. cancel_session env sid)
     | CloseSession sid \<Rightarrow> tx_bind (tx_check executor) (\<lambda>_. close_session env sid)
     | Handoff sid u reason \<Rightarrow> tx_bind (tx_check executor) (\<lambda>_. handoff_to_human env sid u reason)
     | CaptureScreen sid \<Rightarrow> tx_bind (tx_check executor) (\<lambda>_. capture_screen env sid)
     | CreatePlan f \<Rightarrow>
         tx_bind (tx_check (first_error [safe, require (form_valid f) InvalidForm])) (\<lambda>_.
           done_tx (create_action_plan env (cn_user env) f))
     | ApproveAction aid approver scope trace h \<Rightarrow>
         tx_bind (tx_check (first_error [executor, require_feature (st_per_action st)])) (\<lambda>_.
           with_target aid (\<lambda>t. done_tx (approve_action env True (tg_plan t) approver scope trace h)))
     | RejectAction aid approver reason trace \<Rightarrow>
         tx_bind (tx_check executor) (\<lambda>_.
           with_target aid (\<lambda>t. done_tx (reject_action env (tg_plan t) approver reason trace)))
     | ExecuteAction aid h trace \<Rightarrow>
         tx_bind (tx_check safe) (\<lambda>_.
           with_target aid (\<lambda>t. done_tx (execute_action env True (tg_plan t) h trace None)))
     | CancelAction aid reason trace \<Rightarrow>
         tx_bind (tx_check executor) (\<lambda>_. with_target aid (\<lambda>t. cancel_action env (tg_plan t) reason trace))
     | CreateWorkflow f \<Rightarrow> tx_bind (tx_check flow) (\<lambda>_. done_tx (create_workflow env f))
     | ApproveWorkflow wid approver trace \<Rightarrow>
         tx_bind (tx_check flow) (\<lambda>_. done_tx (approve_workflow env wid approver trace))
     | RejectWorkflow wid approver reason trace \<Rightarrow>
         tx_bind (tx_check flow) (\<lambda>_. done_tx (reject_workflow env wid approver reason trace))
     | StartWorkflow wid scr \<Rightarrow> tx_bind (tx_check flow) (\<lambda>_. done_tx (start_workflow env wid scr))
     | PauseWorkflow wid reason \<Rightarrow> tx_bind (tx_check flow) (\<lambda>_. pause_workflow env wid reason)
     | ResumeWorkflow wid scr \<Rightarrow> tx_bind (tx_check flow) (\<lambda>_. done_tx (resume_workflow env wid scr))
     | CancelWorkflow wid reason \<Rightarrow> tx_bind (tx_check flow) (\<lambda>_. cancel_workflow env wid reason)
     | ApproveCheckpoint cid approver trace \<Rightarrow>
         tx_bind (tx_check flow) (\<lambda>_. approve_workflow_checkpoint env cid approver trace)
     | RejectCheckpoint cid approver reason trace \<Rightarrow>
         tx_bind (tx_check flow) (\<lambda>_. reject_workflow_checkpoint env cid approver reason trace))"

definition request_step :: "computer_db \<Rightarrow> computer_env \<times> request \<Rightarrow> computer_db" where
  "request_step db e = snd (run_tx (serve (fst e) (snd e)) db)"

definition empty_computer :: "task_db \<Rightarrow> computer_db" where
  "empty_computer tasks =
     \<lparr>cd_sessions = [], cd_actions = [], cd_evidence = [], cd_takeovers = [], cd_events = [], cd_plans = [],
      cd_targets = [], cd_approvals = [], cd_verifications = [], cd_workflows = [], cd_steps = [], cd_scopes = [],
      cd_checkpoints = [], cd_checked = [], cd_recoveries = [], cd_tasks = tasks\<rparr>"

end
