(* ===== verification/Computer_Frame.thy ===== *)
theory Computer_Frame
  imports Computer_Machine
begin

text \<open>
  What the operations of the computer executor leave alone: the workflows and their tables, whatever
  an action does (\<open>same_flow\<close>), and what a step of a workflow commits before it ends: nothing.
\<close>

section \<open>The executor leaves the workflows alone\<close>

definition same_flow :: "computer_db \<Rightarrow> computer_db \<Rightarrow> bool" where
  "same_flow db db' \<longleftrightarrow>
     cd_workflows db' = cd_workflows db \<and> cd_steps db' = cd_steps db \<and> cd_scopes db' = cd_scopes db \<and>
     cd_checkpoints db' = cd_checkpoints db \<and> cd_checked db' = cd_checked db \<and>
     cd_recoveries db' = cd_recoveries db \<and> cd_tasks db' = cd_tasks db"

interpretation flow_frame: tx_frame same_flow
  by unfold_locales (auto simp: same_flow_def)

lemma same_flow_updates [simp]:
  "same_flow db (db\<lparr>cd_sessions := a\<rparr>)" "same_flow db (db\<lparr>cd_actions := b\<rparr>)" "same_flow db (db\<lparr>cd_evidence := c\<rparr>)"
  "same_flow db (db\<lparr>cd_events := d\<rparr>)" "same_flow db (db\<lparr>cd_verifications := e\<rparr>)" "same_flow db (put_approval x db)"
  "same_flow db (put_plan_target p t db)" "same_flow db (db\<lparr>cd_approvals := f\<rparr>)"
  by (simp_all add: same_flow_def put_approval_def put_plan_target_def)

lemma add_policy_event_frame: "keeps same_flow (add_policy_event r)"
  by (auto simp: keeps_def leaves_def Let_def add_policy_event_def fail_saving_def flow_frame.refl
      split: option.splits if_splits list.splits)

lemma closing_event_frame: "keeps same_flow (closing_event c r)"
  by (auto simp: keeps_def leaves_def Let_def closing_event_def add_policy_event_def fail_saving_def flow_frame.refl
      split: option.splits if_splits list.splits)

lemma add_evidence_row_frame: "keeps same_flow (add_evidence_row env s a k f)"
  by (auto simp: keeps_def leaves_def Let_def add_evidence_row_def fail_saving_def flow_frame.refl
      split: option.splits if_splits list.splits)

lemma add_action_row_frame: "keeps same_flow (add_action_row s a w)"
  by (auto simp: keeps_def leaves_def Let_def add_action_row_def fail_saving_def flow_frame.refl
      split: option.splits if_splits list.splits)

lemma insert_plan_frame: "keeps same_flow (insert_plan p t x)"
  by (auto simp: keeps_def leaves_def Let_def insert_plan_def fail_saving_def flow_frame.refl same_flow_def
      split: option.splits if_splits list.splits)

lemma approve_action_row_frame: "keeps same_flow (approve_action_row env c i tr y)"
  by (auto simp: keeps_def leaves_def Let_def approve_action_row_def fail_saving_def flow_frame.refl
      split: option.splits if_splits list.splits)

lemma approval_or_new_frame: "keeps same_flow (approval_or_new env p t i sc tr)"
  by (auto simp: keeps_def leaves_def Let_def approval_or_new_def fail_saving_def flow_frame.refl
      split: option.splits if_splits list.splits)

lemma reuse_plan_frame: "keeps same_flow (reuse_plan f o1 pp p)"
  by (auto simp: keeps_def leaves_def Let_def reuse_plan_def fail_saving_def flow_frame.refl
      split: option.splits if_splits list.splits)

lemma verify_action_result_frame: "keeps same_flow (verify_action_result env p y j b a tr)"
  by (auto simp: keeps_def leaves_def Let_def verify_action_result_def fail_saving_def flow_frame.refl
      split: option.splits if_splits list.splits)

lemma safe_check_frame: "keeps same_flow (safe_check env c s ctx)"
  by (auto simp: keeps_def leaves_def Let_def safe_check_def fail_saving_def flow_frame.refl
      split: option.splits if_splits list.splits)

lemma approved_for_execution_frame: "keeps same_flow (approved_for_execution env c p t h)"
  by (auto simp: keeps_def leaves_def Let_def approved_for_execution_def fail_saving_def flow_frame.refl
      split: option.splits if_splits list.splits)

lemma get_session_frame: "keeps same_flow (get_session s)"
  by (auto simp: keeps_def leaves_def Let_def get_session_def fail_saving_def flow_frame.refl
      split: option.splits if_splits list.splits)

lemmas leaf_frames = add_policy_event_frame closing_event_frame add_evidence_row_frame add_action_row_frame
  insert_plan_frame approve_action_row_frame approval_or_new_frame reuse_plan_frame verify_action_result_frame
  safe_check_frame approved_for_execution_frame get_session_frame

lemmas flow_rules = flow_frame.keeps_bind flow_frame.keeps_basic flow_frame.keeps_write flow_frame.keeps_after_commit leaf_frames

lemma plan_target_frame: "keeps same_flow (plan_target p)"
  unfolding plan_target_def by (intro flow_rules)

lemma new_action_plan_frame: "keeps same_flow (new_action_plan env f sc)"
  unfolding new_action_plan_def Let_def by (intro flow_rules)

lemma create_action_plan_frame: "keeps same_flow (create_action_plan env u f)"
  unfolding create_action_plan_def Let_def
  by (intro flow_rules) (auto intro: flow_rules new_action_plan_frame split: option.splits)

lemma approve_action_frame: "keeps same_flow (approve_action env c p i sc tr h)"
  unfolding approve_action_def Let_def
  by (intro flow_rules plan_target_frame) (auto intro!: flow_rules split: prod.splits)

lemma reject_action_frame: "keeps same_flow (reject_action env p i re tr)"
  unfolding reject_action_def Let_def
  by (intro flow_rules plan_target_frame) (auto intro!: flow_rules split: prod.splits)

lemma cancel_action_frame: "keeps same_flow (cancel_action env p re tr)"
  using closing_event_frame
  by (fastforce simp: keeps_def leaves_def cancel_action_def Let_def same_flow_def split: option.splits)

lemma record_execution_frame: "keeps same_flow (record_execution env s f p out)"
  unfolding record_execution_def Let_def
  by (intro flow_rules) (auto simp: same_flow_def split: option.splits)

lemma runtime_execute_frame: "keeps same_flow (runtime_execute env c s f a)"
  unfolding runtime_execute_def
  by (intro flow_rules) (auto intro: flow_rules record_execution_frame split: sum.splits)

lemma finish_execution_frame: "keeps same_flow (finish_execution env p t x r tr)"
  unfolding finish_execution_def Let_def
  by (cases r) (auto intro!: flow_rules simp: same_flow_def put_plan_target_def)

lemma execute_action_frame: "keeps same_flow (execute_action env c p h tr a)"
  unfolding execute_action_def
  by (intro flow_rules runtime_execute_frame finish_execution_frame)

lemma session_frames:
  "keeps same_flow (put_session s)" "keeps same_flow (create_session env s)" "keeps same_flow (request_takeover i u re s)"
  by (auto simp: put_session_def create_session_def request_takeover_def keeps_def leaves_def tx_bind_Inr tx_bind_Inl
      same_flow_def Let_def split: option.splits)

lemma session_request_frames:
  "keeps same_flow (pause_session i)" "keeps same_flow (resume_session i)" "keeps same_flow (cancel_session env i)"
  "keeps same_flow (close_session env i)" "keeps same_flow (handoff_to_human env i u re)"
  "keeps same_flow (capture_screen env i)" "keeps same_flow (run_session_action env i f)"
  unfolding pause_session_def resume_session_def cancel_session_def close_session_def handoff_to_human_def
    capture_screen_def run_session_action_def
  by (intro flow_rules session_frames runtime_execute_frame)+

section \<open>A step of a workflow commits nothing before it ends\<close>

lemma add_policy_event_unsaved: "unsaved (add_policy_event r)"
  by (auto simp: unsaved_def Let_def add_policy_event_def fail_saving_def split: option.splits if_splits list.splits)

lemma closing_event_unsaved: "unsaved (closing_event False r)"
  by (auto simp: unsaved_def Let_def closing_event_def add_policy_event_def fail_saving_def split: option.splits if_splits list.splits)

lemma add_evidence_row_unsaved: "unsaved (add_evidence_row env s a k f)"
  by (auto simp: unsaved_def Let_def add_evidence_row_def fail_saving_def split: option.splits if_splits list.splits)

lemma add_action_row_unsaved: "unsaved (add_action_row s a w)"
  by (auto simp: unsaved_def Let_def add_action_row_def fail_saving_def split: option.splits if_splits list.splits)

lemma insert_plan_unsaved: "unsaved (insert_plan p t x)"
  by (auto simp: unsaved_def Let_def insert_plan_def fail_saving_def split: option.splits if_splits list.splits)

lemma approve_action_row_unsaved: "unsaved (approve_action_row env False i tr y)"
  by (auto simp: unsaved_def Let_def approve_action_row_def tx_fail_def fail_saving_def split: option.splits if_splits list.splits)

lemma approval_or_new_unsaved: "unsaved (approval_or_new env p t i sc tr)"
  by (auto simp: unsaved_def Let_def approval_or_new_def fail_saving_def split: option.splits if_splits list.splits)

lemma reuse_plan_unsaved: "unsaved (reuse_plan f o1 pp p)"
  by (auto simp: unsaved_def Let_def reuse_plan_def fail_saving_def split: option.splits if_splits list.splits)

lemma verify_action_result_unsaved: "unsaved (verify_action_result env p y j b a tr)"
  by (auto simp: unsaved_def Let_def verify_action_result_def fail_saving_def split: option.splits if_splits list.splits)

lemma safe_check_unsaved: "unsaved (safe_check env False s ctx)"
  by (auto simp: unsaved_def Let_def safe_check_def fail_saving_def split: option.splits if_splits list.splits)

lemma approved_for_execution_unsaved: "unsaved (approved_for_execution env False p t h)"
  by (auto simp: unsaved_def Let_def approved_for_execution_def fail_saving_def split: option.splits if_splits list.splits)

lemma get_session_unsaved: "unsaved (get_session s)"
  by (auto simp: unsaved_def Let_def get_session_def tx_some_def fail_saving_def split: option.splits if_splits list.splits)

lemma owned_workflow_unsaved: "unsaved (owned_workflow env wid)"
  by (auto simp: unsaved_def Let_def owned_workflow_def tx_some_def fail_saving_def split: option.splits if_splits list.splits)

lemma owned_checkpoint_unsaved: "unsaved (owned_checkpoint env cid)"
  by (auto simp: unsaved_def Let_def owned_checkpoint_def tx_some_def fail_saving_def split: option.splits if_splits list.splits)

lemma create_checkpoint_approval_unsaved: "unsaved (create_checkpoint_approval env w s r m t)"
  by (auto simp: unsaved_def Let_def create_checkpoint_approval_def fail_saving_def split: option.splits if_splits list.splits)

lemma verify_step_result_unsaved: "unsaved (verify_step_result env w s row p a)"
  by (auto simp: unsaved_def Let_def verify_step_result_def fail_saving_def split: option.splits if_splits list.splits)

lemma record_recovery_unsaved: "unsaved (record_recovery env w s r t)"
  by (auto simp: unsaved_def Let_def record_recovery_def fail_saving_def split: option.splits if_splits list.splits)

lemma create_scope_approval_unsaved: "unsaved (create_scope_approval env w i t)"
  by (auto simp: unsaved_def Let_def create_scope_approval_def fail_saving_def split: option.splits if_splits list.splits)

lemmas unsaved_leaves = add_policy_event_unsaved closing_event_unsaved add_evidence_row_unsaved add_action_row_unsaved
  insert_plan_unsaved approve_action_row_unsaved approval_or_new_unsaved reuse_plan_unsaved verify_action_result_unsaved
  safe_check_unsaved approved_for_execution_unsaved get_session_unsaved owned_workflow_unsaved owned_checkpoint_unsaved
  create_checkpoint_approval_unsaved verify_step_result_unsaved record_recovery_unsaved create_scope_approval_unsaved

lemmas unsaved_rules = unsaved_bind unsaved_basic unsaved_after_commit unsaved_leaves

lemma plan_target_unsaved: "unsaved (plan_target p)"
  unfolding plan_target_def by (intro unsaved_rules)

lemma new_action_plan_unsaved: "unsaved (new_action_plan env f sc)"
  unfolding new_action_plan_def Let_def by (intro unsaved_rules)

lemma create_action_plan_unsaved: "unsaved (create_action_plan env u f)"
  unfolding create_action_plan_def Let_def
  by (intro unsaved_rules) (auto intro: unsaved_rules new_action_plan_unsaved split: option.splits)

lemma approve_action_unsaved: "unsaved (approve_action env False p i sc tr h)"
  unfolding approve_action_def Let_def
  by (intro unsaved_rules plan_target_unsaved) (auto intro!: unsaved_rules split: prod.splits)

lemma record_execution_unsaved: "unsaved (record_execution env s f p out)"
  unfolding record_execution_def Let_def by (intro unsaved_rules)

lemma runtime_execute_unsaved: "unsaved (runtime_execute env False s f a)"
  unfolding runtime_execute_def
  by (intro unsaved_rules) (auto intro: unsaved_rules record_execution_unsaved split: sum.splits)

lemma finish_execution_unsaved: "unsaved (finish_execution env p t x r tr)"
  unfolding finish_execution_def Let_def by (cases r) (auto intro!: unsaved_rules)

lemma execute_action_unsaved: "unsaved (execute_action env False p h tr a)"
  unfolding execute_action_def
  by (intro unsaved_rules runtime_execute_unsaved finish_execution_unsaved)

lemma step_authorization_unsaved: "unsaved (step_authorization env w f)"
  unfolding step_authorization_def
  by (auto intro!: unsaved_rules split: option.splits)

lemma step_authorization_frame: "keeps same_flow (step_authorization env w f)"
  unfolding step_authorization_def
  by (auto intro!: flow_rules split: option.splits)

lemma run_step_action_unsaved: "unsaved (run_step_action env scr w f)"
  unfolding run_step_action_def
  by (intro unsaved_rules step_authorization_unsaved)
    (auto intro!: unsaved_rules create_action_plan_unsaved approve_action_unsaved execute_action_unsaved split: prod.splits)

lemma run_step_action_frame: "keeps same_flow (run_step_action env scr w f)"
  unfolding run_step_action_def
  by (intro flow_rules step_authorization_frame)
    (auto intro!: flow_rules create_action_plan_frame approve_action_frame execute_action_frame split: prod.splits)

lemma settle_step_unsaved: "unsaved (settle_step env tr w s v)"
  unfolding settle_step_def Let_def by (intro unsaved_rules) (auto intro: unsaved_rules)

lemma perform_step_unsaved: "unsaved (perform_step env scr w s)"
  unfolding perform_step_def Let_def
  by (intro unsaved_rules run_step_action_unsaved)
    (auto intro!: unsaved_rules settle_step_unsaved split: prod.splits)

lemma execute_step_unsaved: "unsaved (execute_step env wid n scr)"
  unfolding execute_step_def
  by (intro unsaved_rules) (auto intro!: unsaved_rules perform_step_unsaved)

end
