(* ===== verification/Computer_Flow.thy ===== *)
theory Computer_Flow
  imports Computer_Frame
begin

text \<open>
  The invariant of the workflow tables: every workflow has two to five steps numbered from one, an
  executed step lies behind the current one, and no step, workflow or verification is ever a failed
  one. Every request keeps it.
\<close>

section \<open>The invariant\<close>

definition workflow_ok :: "computer_db \<Rightarrow> workflow \<Rightarrow> bool" where
  "workflow_ok db w \<longleftrightarrow>
     2 \<le> wf_total w \<and> wf_total w \<le> 5 \<and> 2 \<le> wf_max w \<and> wf_max w \<le> 5 \<and>
     0 \<le> wf_current w \<and> wf_current w \<le> wf_total w \<and> wf_status w \<noteq> [0x5DF2, 0x5931, 0x8D25] \<and>
     map ws_number (steps_of (wf_id w) db) = [1..wf_total w]"

definition step_ok :: "computer_db \<Rightarrow> flow_step \<Rightarrow> bool" where
  "step_ok db s \<longleftrightarrow>
     list_ex (\<lambda>w. wf_id w = ws_workflow s \<and> (ws_action s = None \<or> ws_number s \<le> wf_current w)) (cd_workflows db) \<and>
     ws_status s \<noteq> [0x5DF2, 0x5931, 0x8D25] \<and>
     (ws_status s = [0x5DF2, 0x5B8C, 0x6210] \<longrightarrow> ws_action s \<noteq> None \<and> ws_verification s \<noteq> None)"

definition flow_ok :: "computer_db \<Rightarrow> bool" where
  "flow_ok db \<longleftrightarrow>
     distinct (map wf_id (cd_workflows db)) \<and> distinct (map ws_id (cd_steps db)) \<and>
     list_all (workflow_ok db) (cd_workflows db) \<and> list_all (step_ok db) (cd_steps db) \<and>
     list_all (\<lambda>v. wv_status v = [0x7ED3, 0x679C, 0x7B26, 0x5408, 0x9884, 0x671F]) (cd_checked db) \<and> cd_recoveries db = []"

section \<open>Rows and numbers\<close>

lemma map_insort_key: "map f (insort_key f x xs) = insort (f x) (map f xs)"
  by (induction xs) auto

lemma map_sort_key: "map f (sort_key f xs) = sort (map f xs)"
  by (induction xs) (auto simp: map_insort_key)

lemma step_numbers:
  "map ws_number (steps_of wid db) =
     sort (map snd (filter (\<lambda>k. fst k = wid) (map (\<lambda>s. (ws_workflow s, ws_number s)) (cd_steps db))))"
  by (simp add: steps_of_def rows_by_def map_sort_key filter_map o_def)

lemma row_put_map:
  "(\<And>x. x \<in> set t \<Longrightarrow> key x = key r \<Longrightarrow> g x = g r) \<Longrightarrow> map g (row_put key r t) = map g t"
  by (auto simp: row_put_def)

lemma in_row_put_iff:
  "x \<in> set (row_put key r t) \<longleftrightarrow> (x = r \<and> (\<exists>y \<in> set t. key y = key r)) \<or> (x \<in> set t \<and> key x \<noteq> key r)"
  by (auto simp: row_put_def)

lemma flow_ok_same: "same_flow db db' \<Longrightarrow> flow_ok db \<Longrightarrow> flow_ok db'"
  by (auto simp: flow_ok_def same_flow_def list_all_iff workflow_ok_def step_ok_def steps_of_def)

lemma flow_ok_workflow: "flow_ok db \<Longrightarrow> w \<in> set (cd_workflows db) \<Longrightarrow> workflow_ok db w"
  and flow_ok_step: "flow_ok db \<Longrightarrow> s \<in> set (cd_steps db) \<Longrightarrow> step_ok db s"
  by (auto simp: flow_ok_def list_all_iff)

lemma put_step_ok:
  assumes "flow_ok db" and "s \<in> set (cd_steps db)" and "ws_id s1 = ws_id s" and "ws_workflow s1 = ws_workflow s"
    and "ws_number s1 = ws_number s" and "step_ok db s1"
  shows "flow_ok (put_step s1 db)"
proof -
  from assms(1) have d: "distinct (map ws_id (cd_steps db))" by (simp add: flow_ok_def)
  have "map (\<lambda>s. (ws_workflow s, ws_number s)) (row_put ws_id s1 (cd_steps db)) =
      map (\<lambda>s. (ws_workflow s, ws_number s)) (cd_steps db)"
    using distinct_key [OF d _ assms(2)] assms(3-5) by (intro row_put_map) fastforce
  then have n: "map ws_number (steps_of wid (put_step s1 db)) = map ws_number (steps_of wid db)" for wid
    by (simp add: step_numbers put_step_def)
  have o1: "step_ok (put_step s1 db) x = step_ok db x" for x
    by (simp add: step_ok_def put_step_def)
  from assms(1,6) show ?thesis
    by (auto simp: flow_ok_def list_all_iff workflow_ok_def n [unfolded put_step_def] put_step_def in_row_put_iff
        o1 [unfolded put_step_def])
qed

lemma put_workflow_ok:
  assumes "flow_ok db" and "w \<in> set (cd_workflows db)" and "wf_id w1 = wf_id w" and "wf_total w1 = wf_total w"
    and "wf_max w1 = wf_max w" and "wf_current w \<le> wf_current w1" and "wf_current w1 \<le> wf_total w"
    and "wf_status w1 \<noteq> [0x5DF2, 0x5931, 0x8D25]"
  shows "flow_ok (put_workflow w1 db)"
proof -
  from assms(1) have d: "distinct (map wf_id (cd_workflows db))" by (simp add: flow_ok_def)
  have n: "steps_of wid (put_workflow w1 db) = steps_of wid db" for wid
    by (simp add: steps_of_def put_workflow_def)
  have ok1: "workflow_ok (put_workflow w1 db) w1"
    using flow_ok_workflow [OF assms(1,2)] assms(3-8) by (simp add: workflow_ok_def n)
  have s: "step_ok (put_workflow w1 db) s" if "s \<in> set (cd_steps db)" for s
  proof -
    from flow_ok_step [OF assms(1) that] obtain v where v: "v \<in> set (cd_workflows db)" "wf_id v = ws_workflow s"
      "ws_action s = None \<or> ws_number s \<le> wf_current v" and rest: "ws_status s \<noteq> [0x5DF2, 0x5931, 0x8D25]"
      "ws_status s = [0x5DF2, 0x5B8C, 0x6210] \<longrightarrow> ws_action s \<noteq> None \<and> ws_verification s \<noteq> None"
      by (auto simp: step_ok_def list_ex_iff)
    have "\<exists>x \<in> set (row_put wf_id w1 (cd_workflows db)). wf_id x = ws_workflow s \<and>
        (ws_action s = None \<or> ws_number s \<le> wf_current x)"
    proof (cases "wf_id v = wf_id w1")
      case True
      with distinct_key [OF d v(1) assms(2)] assms(3) have "v = w" by simp
      with v assms(2,3,6) show ?thesis by (intro bexI [where x = w1]) (auto simp: in_row_put_iff)
    next
      case False
      with v show ?thesis by (intro bexI [where x = v]) (auto simp: in_row_put_iff)
    qed
    with rest show ?thesis by (simp add: step_ok_def list_ex_iff put_workflow_def)
  qed
  have w: "workflow_ok (put_workflow w1 db) x = workflow_ok db x" for x
    by (simp add: workflow_ok_def n)
  from assms(1) ok1 s show ?thesis
    by (auto simp: flow_ok_def list_all_iff put_workflow_def in_row_put_iff w [unfolded put_workflow_def])
qed

section \<open>Reading the tables\<close>

lemma owned_workflow_in:
  assumes "owned_workflow env wid db = Inr (w, db')"
  shows "db' = db" and "w \<in> set (cd_workflows db)" and "wf_id w = wid"
    and "\<exists>t \<in> set (owned_tasks (cn_sha env) (cn_user env) (cd_tasks db)). wf_task w = Some (ct_id t)"
proof -
  from assms have r: "row_get wf_id wid (owned_rows (cn_sha env) (cn_user env) (cd_tasks db) wf_task (cd_workflows db)) = Some w"
    and d: "db' = db" by (auto simp: owned_workflow_def)
  from row_get_in [OF r] d show "db' = db" and "w \<in> set (cd_workflows db)"
    and "\<exists>t \<in> set (owned_tasks (cn_sha env) (cn_user env) (cd_tasks db)). wf_task w = Some (ct_id t)"
    by (auto simp: owned_rows_in)
  from row_get_key [OF r] show "wf_id w = wid" .
qed

lemma next_step_in:
  assumes "next_step w db = Some s"
  shows "s \<in> set (cd_steps db)" and "ws_workflow s = wf_id w" and "wf_current w < ws_number s"
  using assms by (auto simp: next_step_def steps_of_def find_Some_iff dest: nth_mem)

lemma step_found:
  assumes "find (\<lambda>s. ws_workflow s = wid \<and> ws_number s = n) (cd_steps db) = Some s"
  shows "s \<in> set (cd_steps db)" and "ws_workflow s = wid" and "ws_number s = n"
  using assms by (auto simp: find_Some_iff)

text \<open>A step lies within its workflow, and an unfinished workflow's next step is the one after the current.\<close>

lemma step_within:
  assumes "flow_ok db" and "w \<in> set (cd_workflows db)" and "s \<in> set (cd_steps db)" and "ws_workflow s = wf_id w"
  shows "1 \<le> ws_number s" and "ws_number s \<le> wf_total w"
proof -
  from flow_ok_workflow [OF assms(1,2)] have "map ws_number (steps_of (wf_id w) db) = [1..wf_total w]"
    by (simp add: workflow_ok_def)
  moreover from assms(3,4) have "s \<in> set (steps_of (wf_id w) db)" by (simp add: steps_of_def)
  ultimately have "ws_number s \<in> set [1..wf_total w]" by (metis image_eqI image_set)
  then show "1 \<le> ws_number s" and "ws_number s \<le> wf_total w" by simp_all
qed

lemma next_step_iff:
  assumes "workflow_ok db w"
  shows "next_step w db = None \<longleftrightarrow> wf_current w = wf_total w"
    and "next_step w db = Some s \<Longrightarrow> ws_number s = wf_current w + 1"
proof -
  from assms have n: "map ws_number (steps_of (wf_id w) db) = [1..wf_total w]"
    and c: "0 \<le> wf_current w" "wf_current w \<le> wf_total w"
    by (simp_all add: workflow_ok_def)
  have f: "map_option ws_number (find (\<lambda>s. wf_current w < ws_number s) xs) = find (\<lambda>k. wf_current w < k) (map ws_number xs)" for xs
    by (induction xs) auto
  have g: "find (\<lambda>k. c < k) [1..m] = (if c < m then Some (c + 1) else None)" if "0 \<le> c" for c m :: int
  proof (cases "c < m")
    case True
    with that have "[1..m] = [1..c] @ (c + 1) # [c + 2..m]"
      using upto_split1 [of 1 "c + 1" m] upto_rec1 [of "c + 1" m] by (simp add: algebra_simps)
    moreover have "find (\<lambda>k. c < k) [1..c] = None" by (auto simp: find_None_iff)
    ultimately show ?thesis using True by (simp add: find_app)
  next
    case False
    then show ?thesis by (auto simp: find_None_iff)
  qed
  have m: "map_option ws_number (next_step w db) = (if wf_current w < wf_total w then Some (wf_current w + 1) else None)"
    unfolding next_step_def f n by (rule g [OF c(1)])
  from m c show "next_step w db = None \<longleftrightarrow> wf_current w = wf_total w"
    by (cases "next_step w db") (auto split: if_splits)
  from m show "ws_number s = wf_current w + 1" if "next_step w db = Some s"
    using that by (auto split: if_splits)
qed

section \<open>Verification never fails\<close>

text \<open>The dictionary the runtime hands over has no key \<^verbatim>\<open>success\<close>, and its absence counts as success.\<close>

lemma no_success_key: "\<not> jhas (asc ''success'') (action_dict env a)"
  by (simp add: action_dict_def)

lemma finish_execution_result:
  assumes "finish_execution env p t x (ss, a, v) tr db = Inr (r, db')"
  shows "av_status (er_verification r) = [0x7ED3, 0x679C, 0x7B26, 0x5408, 0x9884, 0x671F]" and "er_action r = a" and "tg_action (er_target r) = tg_action t"
    and "tg_status (er_target r) = [0x5DF2, 0x5B8C, 0x6210]"
  using assms
  by (auto simp: finish_execution_def tx_bind_Inr Let_def verify_action_result_def no_success_key split: option.splits)

lemma execute_action_result:
  assumes "execute_action env c p h tr a db = Inr (r, db')"
  shows "av_status (er_verification r) = [0x7ED3, 0x679C, 0x7B26, 0x5408, 0x9884, 0x671F]" and "tg_status (er_target r) = [0x5DF2, 0x5B8C, 0x6210]"
proof -
  from assms obtain env' pl t x y tr' d where "finish_execution env' pl t x y tr' d = Inr (r, db')"
    unfolding execute_action_def tx_bind_Inr after_commit_Inr by blast
  then show "av_status (er_verification r) = [0x7ED3, 0x679C, 0x7B26, 0x5408, 0x9884, 0x671F]" and "tg_status (er_target r) = [0x5DF2, 0x5B8C, 0x6210]"
    by (cases y; auto dest: finish_execution_result)+
qed

section \<open>Steps keep the invariant\<close>

lemma settled_status: "wv_status v = [0x7ED3, 0x679C, 0x7B26, 0x5408, 0x9884, 0x671F] \<Longrightarrow> ws_status (settled_step env v s) = [0x5DF2, 0x5B8C, 0x6210]"
  by (simp add: settled_step_def)

lemma settled_workflow_simps:
  "wf_id (settled_workflow env v s db w) = wf_id w" "wf_total (settled_workflow env v s db w) = wf_total w"
  "wf_max (settled_workflow env v s db w) = wf_max w"
  "wf_current (settled_workflow env v s db w) = max (wf_current w) (ws_number s)"
  "wf_task (settled_workflow env v s db w) = wf_task w" "wf_approval (settled_workflow env v s db w) = wf_approval w"
  "ws_status s = [0x5DF2, 0x5B8C, 0x6210] \<Longrightarrow> wf_status (settled_workflow env v s db w) \<in> {[0x5DF2, 0x5B8C, 0x6210], [0x6267, 0x884C, 0x4E2D], [0x5DF2, 0x6682, 0x505C]}"
  by (auto simp: settled_workflow_def Let_def split: option.splits)

lemma task_result_frame:
  "cd_workflows (ensure_task_result env w c db) = cd_workflows db" "cd_steps (ensure_task_result env w c db) = cd_steps db"
  "cd_checked (ensure_task_result env w c db) = cd_checked db" "cd_recoveries (ensure_task_result env w c db) = cd_recoveries db"
  "cd_scopes (ensure_task_result env w c db) = cd_scopes db" "cd_checkpoints (ensure_task_result env w c db) = cd_checkpoints db"
  by (auto simp: ensure_task_result_def Let_def split: option.splits)

lemma flow_ok_tables:
  assumes "flow_ok db" and "cd_workflows db' = cd_workflows db" and "cd_steps db' = cd_steps db"
    and "cd_checked db' = cd_checked db" and "cd_recoveries db' = cd_recoveries db"
  shows "flow_ok db'"
  using assms by (simp add: flow_ok_def list_all_iff workflow_ok_def step_ok_def steps_of_def)

lemma settle_step_ok:
  assumes ok: "flow_ok db" and w: "w \<in> set (cd_workflows db)" and s: "s \<in> set (cd_steps db)"
    and w1: "wf_id w1 = wf_id w" "wf_total w1 = wf_total w" "wf_max w1 = wf_max w" "wf_current w1 = wf_current w"
    and s1: "ws_id s1 = ws_id s" "ws_workflow s1 = ws_workflow s" "ws_number s1 = ws_number s"
    and sw: "ws_workflow s = wf_id w" and act: "ws_action s1 \<noteq> None" "ws_verification s1 \<noteq> None"
    and v: "wv_status v = [0x7ED3, 0x679C, 0x7B26, 0x5408, 0x9884, 0x671F]"
    and r: "settle_step env tr w1 s1 v db = Inr (u, db')"
  shows "flow_ok db'"
proof -
  define s2 where "s2 = settled_step env v s1"
  define w2 where "w2 = settled_workflow env v s2 db w1"
  have st: "ws_status s2 = [0x5DF2, 0x5B8C, 0x6210]" unfolding s2_def by (rule settled_status [OF v])
  have s2: "ws_id s2 = ws_id s" "ws_workflow s2 = ws_workflow s" "ws_number s2 = ws_number s"
    "ws_action s2 \<noteq> None" "ws_verification s2 \<noteq> None"
    by (simp_all add: s2_def settled_step_def s1 act)
  note ws = settled_workflow_simps [where env = env and v = v and s = s2 and db = db and w = w1, folded w2_def]
  from r st have db': "db' = (let db1 = put_step s2 (put_workflow w2 db) in
      if wf_status w2 = [0x5DF2, 0x5B8C, 0x6210] then ensure_task_result env w2 ([0x5DE5, 0x4F5C, 0x6D41, 0x20] @ wf_goal w2 @ [0x20, 0x5DF2, 0x5B8C, 0x6210]) db1 else db1)"
    by (simp add: settle_step_def Let_def tx_bind_Inr flip: s2_def w2_def)
  have n: "ws_number s \<le> wf_total w" by (rule step_within(2) [OF ok w s sw])
  have c: "wf_current w \<le> wf_total w" using flow_ok_workflow [OF ok w] by (simp add: workflow_ok_def)
  have o1: "flow_ok (put_workflow w2 db)"
    by (rule put_workflow_ok [OF ok w]) (use ws st w1 n c s2(3) in auto)
  have "w2 \<in> set (cd_workflows (put_workflow w2 db))"
    using w ws(1) w1(1) by (auto simp: put_workflow_def in_row_put_iff)
  with ws(1,4) s2 st w1 sw have "step_ok (put_workflow w2 db) s2"
    by (auto simp: step_ok_def list_ex_iff intro!: bexI [where x = w2])
  then have "flow_ok (put_step s2 (put_workflow w2 db))"
    using s by (intro put_step_ok [OF o1]) (auto simp: put_workflow_def s2)
  then show ?thesis unfolding db' Let_def
    by (auto intro: flow_ok_tables simp: task_result_frame)
qed

lemma verify_step_cases:
  assumes "verify_step_result env w s row p a db = Inr ((v, s'), db')"
  obtains "v \<in> set (cd_checked db)" and "s' = s" and "db' = db" and "ws_verification s \<noteq> None"
  | "v = row" and "s' = s\<lparr>ws_verification := Some (wv_id row),
        ws_status := (if wv_status row = [0x7ED3, 0x679C, 0x7B26, 0x5408, 0x9884, 0x671F] then [0x5DF2, 0x5B8C, 0x6210] else [0x5DF2, 0x5931, 0x8D25]), ws_finished := Some (cn_now env)\<rparr>"
    and "db' = db\<lparr>cd_checked := row_add row (cd_checked db)\<rparr>"
proof (cases "find (\<lambda>v. wv_workflow v = wf_id w \<and> wv_step v = ws_id s) (cd_checked db)")
  case None
  with assms have "v = row \<and> s' = s\<lparr>ws_verification := Some (wv_id row),
        ws_status := (if wv_status row = [32467, 26524, 31526, 21512, 39044, 26399] then [24050, 23436, 25104] else [24050, 22833, 36133]),
        ws_finished := Some (cn_now env)\<rparr> \<and> db' = db\<lparr>cd_checked := row_add row (cd_checked db)\<rparr>"
    unfolding verify_step_result_def add_new_def by (auto split: if_split_asm)
  then show ?thesis by (auto intro: that(2))
next
  case (Some old)
  then have "old \<in> set (cd_checked db)" by (auto simp: find_Some_iff)
  with Some assms show ?thesis
    by (intro that(1)) (simp_all add: verify_step_result_def split: if_splits)
qed

text \<open>The parts of a performed step: the action, its verification, the settlement.\<close>

definition started_workflow :: "computer_env \<Rightarrow> workflow \<Rightarrow> workflow" where
  "started_workflow env w =
     w\<lparr>wf_status := [0x6267, 0x884C, 0x4E2D], wf_started := (if wf_started w = None then Some (cn_now env) else wf_started w)\<rparr>"

definition acted_step :: "computer_env \<Rightarrow> execute_reply \<Rightarrow> flow_step \<Rightarrow> flow_step" where
  "acted_step env er s = s\<lparr>ws_started := Some (cn_now env), ws_action := Some (tg_action (er_target er))\<rparr>"

lemma started_workflow_simps [simp]:
  "wf_id (started_workflow env w) = wf_id w" "wf_total (started_workflow env w) = wf_total w"
  "wf_max (started_workflow env w) = wf_max w" "wf_current (started_workflow env w) = wf_current w"
  "wf_task (started_workflow env w) = wf_task w"
  by (simp_all add: started_workflow_def)

lemma perform_step_result:
  assumes "perform_step env scr w s db = Inr (x, db')"
  obtains plan t ap er db1 v s2 db2 where
    "run_step_action env scr (started_workflow env w) (build_action_payload env w s) db = Inr (((plan, t, ap), er), db1)"
    and "verify_step_result env (started_workflow env w) (acted_step env er s)
        (step_verification_row env scr (started_workflow env w) (acted_step env er s) plan er)
        (pl_id plan) (tg_action (er_target er)) db1 = Inr ((v, s2), db2)"
    and "settle_step env (sn_trace scr) (started_workflow env w) s2 v db2 = Inr ((), db')" and "x = Executed er"
  using assms
  by (auto simp: perform_step_def Let_def tx_bind_Inr started_workflow_def acted_step_def split: prod.splits)

lemma settle_step_result:
  assumes "settle_step env tr w s v db = Inr (u, db')"
  obtains d where "d = db \<or> (\<exists>rows. d = db\<lparr>cd_recoveries := rows\<rparr>)"
    and "db' = (let s1 = settled_step env v s; w1 = settled_workflow env v s1 db w; db1 = put_step s1 (put_workflow w1 d)
       in if wf_status w1 = [0x5DF2, 0x5B8C, 0x6210] then ensure_task_result env w1 ([0x5DE5, 0x4F5C, 0x6D41, 0x20] @ wf_goal w1 @ [0x20, 0x5DF2, 0x5B8C, 0x6210]) db1 else db1)"
proof -
  let ?s = "settled_step env v s"
  let ?w = "settled_workflow env v ?s db w"
  from assms obtain d u' where d: "(if ws_status ?s = [0x5DF2, 0x5931, 0x8D25] then record_recovery env ?w ?s (wf_stop ?w) (text_or tr (wf_trace w))
      else tx_return ()) db = Inr (u', d)"
    and db': "db' = (let db1 = put_step ?s (put_workflow ?w d)
       in if wf_status ?w = [0x5DF2, 0x5B8C, 0x6210] then ensure_task_result env ?w ([0x5DE5, 0x4F5C, 0x6D41, 0x20] @ wf_goal ?w @ [0x20, 0x5DF2, 0x5B8C, 0x6210]) db1 else db1)"
    unfolding settle_step_def Let_def tx_bind_Inr tx_simps by blast
  from d have "d = db \<or> (\<exists>rows. d = db\<lparr>cd_recoveries := rows\<rparr>)"
    by (auto simp: record_recovery_def split: if_splits option.splits)
  from that [OF this] db' show ?thesis unfolding Let_def .
qed

lemma perform_step_ok:
  assumes ok: "flow_ok db" and w: "w \<in> set (cd_workflows db)" and s: "s \<in> set (cd_steps db)"
    and sw: "ws_workflow s = wf_id w" and r: "perform_step env scr w s db = Inr (x, db')"
  shows "flow_ok db'"
proof -
  define w1 where "w1 = started_workflow env w"
  from r obtain plan t ap er db1 v s2 db2 where
    run: "run_step_action env scr w1 (build_action_payload env w s) db = Inr (((plan, t, ap), er), db1)"
    and ver: "verify_step_result env w1 (acted_step env er s) (step_verification_row env scr w1 (acted_step env er s) plan er)
        (pl_id plan) (tg_action (er_target er)) db1 = Inr ((v, s2), db2)"
    and set: "settle_step env (sn_trace scr) w1 s2 v db2 = Inr ((), db')"
    unfolding w1_def by (rule perform_step_result)
  have same: "same_flow db db1" by (rule keepsD [OF run_step_action_frame run])
  from run have "av_status (er_verification er) = [0x7ED3, 0x679C, 0x7B26, 0x5408, 0x9884, 0x671F]"
    by (auto simp: run_step_action_def tx_bind_Inr split: prod.splits dest: execute_action_result)
  then have row: "wv_status (step_verification_row env scr w1 s3 plan er) = [0x7ED3, 0x679C, 0x7B26, 0x5408, 0x9884, 0x671F]" for s3
    by (simp add: step_verification_row_def)
  have ok1: "flow_ok db1" by (rule flow_ok_same [OF same ok])
  have t: "cd_workflows db1 = cd_workflows db" "cd_steps db1 = cd_steps db" using same by (simp_all add: same_flow_def)
  have w1: "wf_id w1 = wf_id w" "wf_total w1 = wf_total w" "wf_max w1 = wf_max w" "wf_current w1 = wf_current w"
    by (simp_all add: w1_def)
  from ver show ?thesis
  proof (cases rule: verify_step_cases)
    case 1
    with ok1 have v: "wv_status v = [0x7ED3, 0x679C, 0x7B26, 0x5408, 0x9884, 0x671F]" by (auto simp: flow_ok_def list_all_iff)
    from 1 set w s sw show ?thesis
      by (intro settle_step_ok [OF ok1 _ _ w1 _ _ _ _ _ _ v, of s s2]) (auto simp: t acted_step_def)
  next
    case 2
    have ok2: "flow_ok db2"
      using ok1 row by (simp add: 2 flow_ok_def list_all_iff workflow_ok_def step_ok_def steps_of_def)
    have v: "wv_status v = [0x7ED3, 0x679C, 0x7B26, 0x5408, 0x9884, 0x671F]" by (simp add: 2 row)
    from 2 set w s sw show ?thesis
      by (intro settle_step_ok [OF ok2 _ _ w1 _ _ _ _ _ _ v, of s s2]) (auto simp: t acted_step_def)
  qed
qed

section \<open>Requests keep the invariant\<close>

text \<open>What a transaction may leave when it starts in a good state.\<close>

definition good :: "(computer_db, 'e, 'a) transaction \<Rightarrow> bool" where
  "good f \<longleftrightarrow> (\<forall>db db'. flow_ok db \<longrightarrow> leaves f db db' \<longrightarrow> flow_ok db')"

lemma good_keeps: "good f \<longleftrightarrow> keeps (\<lambda>db db'. flow_ok db \<longrightarrow> flow_ok db') f"
  by (auto simp: good_def keeps_def)

interpretation good_frame: tx_frame "\<lambda>db db'. flow_ok db \<longrightarrow> flow_ok db'"
  by unfold_locales auto

lemmas good_rules = good_frame.keeps_bind [folded good_keeps] good_frame.keeps_basic [folded good_keeps]
  good_frame.keeps_after_commit [folded good_keeps]

lemma good_unsaved:
  assumes "unsaved f" and "\<And>db x db'. flow_ok db \<Longrightarrow> f db = Inr (x, db') \<Longrightarrow> flow_ok db'"
  shows "good f"
  using assms by (auto simp: good_def leaves_def unsaved_def)

lemma good_frameI: "keeps same_flow f \<Longrightarrow> good f"
  by (auto simp: good_def keeps_def intro: flow_ok_same)

lemma put_workflow_status_ok:
  assumes "flow_ok db" and "owned_workflow env wid db = Inr (w, db1)" and "wf_id w1 = wf_id w" and "wf_total w1 = wf_total w"
    and "wf_max w1 = wf_max w" and "wf_current w1 = wf_current w" and "wf_status w1 \<noteq> [0x5DF2, 0x5931, 0x8D25]"
  shows "flow_ok (put_workflow w1 db1)"
proof -
  note in_w = owned_workflow_in [OF assms(2)]
  from flow_ok_workflow [OF assms(1) in_w(2)] have "wf_current w \<le> wf_total w" by (simp add: workflow_ok_def)
  with assms in_w(1,2) show ?thesis by (auto intro: put_workflow_ok)
qed

lemma flow_ok_scopes:
  "flow_ok db \<Longrightarrow> flow_ok (db\<lparr>cd_scopes := a\<rparr>)" "flow_ok db \<Longrightarrow> flow_ok (db\<lparr>cd_checkpoints := b\<rparr>)"
  "flow_ok db \<Longrightarrow> flow_ok (put_scope x db)" "flow_ok db \<Longrightarrow> flow_ok (put_checkpoint c db)"
  by (auto intro: flow_ok_tables simp: put_scope_def put_checkpoint_def)

text \<open>A step that is executed either waits for its checkpoint or is performed.\<close>

definition awaiting_workflow :: "workflow \<Rightarrow> workflow" where
  "awaiting_workflow w =
     w\<lparr>wf_checkpoints := wf_checkpoints w + 1, wf_status := [0x7B49, 0x5F85, 0x5173, 0x952E, 0x8282, 0x70B9, 0x786E, 0x8BA4]\<rparr>"

lemma create_checkpoint_result:
  assumes "create_checkpoint_approval env w s r m tr db = Inr (w1, db')"
  obtains c where "db' = put_workflow (awaiting_workflow w) (db\<lparr>cd_checkpoints := row_add c (cd_checkpoints db)\<rparr>)"
    and "wc_workflow c = wf_id w" and "wc_step c = Some (ws_id s)"
proof -
  from assms have "\<exists>c. db' = put_workflow (awaiting_workflow w) (db\<lparr>cd_checkpoints := row_add c (cd_checkpoints db)\<rparr>) \<and>
      wc_workflow c = wf_id w \<and> wc_step c = Some (ws_id s)"
    unfolding create_checkpoint_approval_def Let_def add_new_def
    by (auto simp flip: awaiting_workflow_def split: if_split_asm intro!: exI)
  with that show ?thesis by blast
qed

lemma execute_step_cases:
  assumes "execute_step env wid n scr db = Inr (x, db')"
  obtains (halted) w s c where "owned_workflow env wid db = Inr (w, db)" and "s \<in> set (cd_steps db)"
      and "ws_workflow s = wf_id w" and "ws_number s = n" and "wc_workflow c = wf_id w" and "wc_step c = Some (ws_id s)"
      and "ws_checkpoint s" and "\<not> approved_checkpoint w s db" and "x = Halted"
      and "db' = put_step (s\<lparr>ws_status := [0x7B49, 0x5F85, 0x5BA1, 0x6279]\<rparr>)
        (put_workflow (awaiting_workflow w) (db\<lparr>cd_checkpoints := row_add c (cd_checkpoints db)\<rparr>))"
  | (performed) w s where "owned_workflow env wid db = Inr (w, db)" and "s \<in> set (cd_steps db)" and "ws_workflow s = wf_id w"
      and "ws_number s = n" and "ws_checkpoint s \<Longrightarrow> approved_checkpoint w s db" and "perform_step env scr w s db = Inr (x, db')"
proof -
  from assms obtain w s db1 where w0: "owned_workflow env wid db = Inr (w, db1)"
    and s: "find (\<lambda>s. ws_workflow s = wf_id w \<and> ws_number s = n) (cd_steps db1) = Some s"
    and e: "(if ws_checkpoint s \<and> \<not> approved_checkpoint w s db1
       then tx_bind (create_checkpoint_approval env w s (sn_hash scr) (text_or (sn_window scr) (sn_application scr)) (sn_trace scr))
              (\<lambda>_. tx_bind (tx_write (put_step (s\<lparr>ws_status := [0x7B49, 0x5F85, 0x5BA1, 0x6279]\<rparr>))) (\<lambda>_. tx_return Halted))
       else perform_step env scr w s) db1 = Inr (x, db')"
    by (auto simp: execute_step_def tx_bind_Inr)
  have d: "db1 = db" by (rule owned_workflow_in(1) [OF w0])
  note w = w0 [unfolded d] and s1 = step_found [OF s, unfolded d]
  show ?thesis
  proof (cases "ws_checkpoint s \<and> \<not> approved_checkpoint w s db")
    case True
    with e obtain w1 d1 where cc: "create_checkpoint_approval env w s (sn_hash scr) (text_or (sn_window scr) (sn_application scr)) (sn_trace scr) db = Inr (w1, d1)"
      and x: "x = Halted" "db' = put_step (s\<lparr>ws_status := [0x7B49, 0x5F85, 0x5BA1, 0x6279]\<rparr>) d1"
      by (auto simp: tx_bind_Inr d)
    from cc obtain c where "d1 = put_workflow (awaiting_workflow w) (db\<lparr>cd_checkpoints := row_add c (cd_checkpoints db)\<rparr>)"
      "wc_workflow c = wf_id w" "wc_step c = Some (ws_id s)"
      by (rule create_checkpoint_result)
    with x True s1 show ?thesis by (intro halted [OF w s1(1-3)]) auto
  next
    case False
    with e have "perform_step env scr w s db = Inr (x, db')" by (simp add: d split: if_splits)
    with False s1 show ?thesis by (intro performed [OF w s1(1-3)]) auto
  qed
qed

lemma execute_step_good: "good (execute_step env wid n scr)"
proof (rule good_unsaved [OF execute_step_unsaved])
  fix db x db'
  assume ok: "flow_ok db" and r: "execute_step env wid n scr db = Inr (x, db')"
  from r show "flow_ok db'"
  proof (cases rule: execute_step_cases)
    case (halted w s c)
    note in_w = owned_workflow_in [OF halted(1)]
    from flow_ok_workflow [OF ok in_w(2)] have "wf_current w \<le> wf_total w" by (simp add: workflow_ok_def)
    then have o1: "flow_ok (put_workflow (awaiting_workflow w) (db\<lparr>cd_checkpoints := row_add c (cd_checkpoints db)\<rparr>))"
      (is "flow_ok ?d") using in_w by (intro put_workflow_ok [OF flow_ok_scopes(2) [OF ok]]) (auto simp: awaiting_workflow_def)
    have sd: "s \<in> set (cd_steps ?d)" using halted(2) by (simp add: put_workflow_def)
    have "step_ok ?d s" by (rule flow_ok_step [OF o1 sd])
    then have "step_ok ?d (s\<lparr>ws_status := [0x7B49, 0x5F85, 0x5BA1, 0x6279]\<rparr>)" by (simp add: step_ok_def)
    then show ?thesis unfolding halted(10) by (intro put_step_ok [OF o1 sd]) auto
  next
    case (performed w s)
    show ?thesis by (rule perform_step_ok [OF ok owned_workflow_in(2) [OF performed(1)] performed(2,3,6)])
  qed
qed

lemma start_workflow_good: "good (start_workflow env wid scr)"
proof -
  have "flow_ok db'" if ok: "flow_ok db" and r: "leaves (start_workflow env wid scr) db db'" for db db'
  proof -
    have e: "flow_ok d'" if "leaves (execute_step env wid n scr) d d'" "flow_ok d" for n d d'
      using that execute_step_good by (auto simp: good_def)
    from r show ?thesis unfolding leaves_def
    proof (elim disjE exE)
      fix x assume "start_workflow env wid scr db = Inr (x, db')"
      then show ?thesis using ok
        by (fastforce simp: start_workflow_def tx_bind_Inr leaves_def dest: owned_workflow_in(1) intro: e put_workflow_status_ok
            split: option.splits)
    next
      fix x assume "start_workflow env wid scr db = Inl (x, Some db')"
      then show ?thesis
        using owned_workflow_unsaved [of env wid] execute_step_unsaved [of env wid _ scr]
        by (auto simp: start_workflow_def tx_bind_Inl unsaved_def split: option.splits)
    qed
  qed
  then show ?thesis by (simp add: good_def)
qed

lemma resume_workflow_good: "good (resume_workflow env wid scr)"
  unfolding resume_workflow_def
  by (intro good_rules good_unsaved [OF owned_workflow_unsaved])
    (auto dest: owned_workflow_in(1) intro: good_rules execute_step_good split: option.splits)

lemma pause_workflow_good: "good (pause_workflow env wid reason)"
  by (rule good_unsaved) (auto simp: pause_workflow_def tx_bind_Inr intro!: unsaved_rules intro: put_workflow_status_ok)

lemma cancel_workflow_good: "good (cancel_workflow env wid reason)"
  by (rule good_unsaved) (auto simp: cancel_workflow_def tx_bind_Inr intro!: unsaved_rules intro: put_workflow_status_ok)

lemma create_scope_approval_frame:
  "create_scope_approval env w i tr db = Inr (a, db') \<Longrightarrow> \<exists>rows. db' = db\<lparr>cd_scopes := rows\<rparr>"
  by (auto simp: create_scope_approval_def Let_def split: option.splits)

lemma scope_approval_frame:
  assumes "scope_approval_or_new env w i tr db = Inr (a, db')"
  shows "\<exists>rows. db' = db\<lparr>cd_scopes := rows\<rparr>"
proof -
  have "db' = db \<or> (\<exists>rows. db' = db\<lparr>cd_scopes := rows\<rparr>)"
    using assms create_scope_approval_frame unfolding scope_approval_or_new_def
    by (auto split: option.splits)
  then show ?thesis by (auto intro: exI [where x = "cd_scopes db"])
qed

lemma scope_approval_unsaved: "unsaved (scope_approval_or_new env w i tr)"
  by (auto simp: scope_approval_or_new_def create_scope_approval_def unsaved_def Let_def split: option.splits)

lemma put_scope_workflow_ok:
  assumes "flow_ok db" and "owned_workflow env wid db = Inr (w, db1)" and "scope_approval_or_new env w i tr db1 = Inr (a, db2)"
    and "wf_id w1 = wf_id w" and "wf_total w1 = wf_total w" and "wf_max w1 = wf_max w" and "wf_current w1 = wf_current w"
    and "wf_status w1 \<noteq> [0x5DF2, 0x5931, 0x8D25]"
  shows "flow_ok (put_workflow w1 (put_scope b db2))"
proof -
  note in_w = owned_workflow_in [OF assms(2)]
  from scope_approval_frame [OF assms(3)] in_w(1) obtain rows where d: "db2 = db\<lparr>cd_scopes := rows\<rparr>" by auto
  with assms(1) have "flow_ok (put_scope b db2)" by (auto intro: flow_ok_scopes)
  moreover have "w \<in> set (cd_workflows (put_scope b db2))" using in_w(2) d by (simp add: put_scope_def)
  moreover have "wf_current w \<le> wf_total w" using flow_ok_workflow [OF assms(1) in_w(2)] by (simp add: workflow_ok_def)
  ultimately show ?thesis using assms(4-) by (auto intro: put_workflow_ok)
qed

lemma approve_workflow_good: "good (approve_workflow env wid i tr)"
  by (rule good_unsaved)
    (auto simp: approve_workflow_def Let_def tx_bind_Inr intro!: unsaved_rules scope_approval_unsaved intro: put_scope_workflow_ok)

lemma reject_workflow_good: "good (reject_workflow env wid i re tr)"
  by (rule good_unsaved)
    (auto simp: reject_workflow_def Let_def tx_bind_Inr intro!: unsaved_rules scope_approval_unsaved intro: put_scope_workflow_ok)

lemma put_step_status_ok:
  assumes "flow_ok db" and "st \<noteq> [0x5DF2, 0x5931, 0x8D25]" and "st \<noteq> [0x5DF2, 0x5B8C, 0x6210]"
  shows "flow_ok (put_step_status sid st db)"
proof (cases "\<exists>i s. sid = Some i \<and> row_get ws_id i (cd_steps db) = Some s")
  case True
  then obtain i s where s: "sid = Some i" "row_get ws_id i (cd_steps db) = Some s" by auto
  then have "s \<in> set (cd_steps db)" by (auto dest: row_get_in)
  with flow_ok_step [OF assms(1)] assms(2,3) have "step_ok db (s\<lparr>ws_status := st\<rparr>)" by (auto simp: step_ok_def)
  with assms(1) \<open>s \<in> set (cd_steps db)\<close> have "flow_ok (put_step (s\<lparr>ws_status := st\<rparr>) db)"
    by (intro put_step_ok) auto
  with s show ?thesis by (simp add: put_step_status_def)
next
  case False
  with assms(1) show ?thesis by (auto simp: put_step_status_def split: option.splits)
qed

lemma owned_checkpoint_same: "owned_checkpoint env cid db = Inr (c, db1) \<Longrightarrow> db1 = db"
  by (auto simp: owned_checkpoint_def split: option.splits)

lemma approve_checkpoint_result:
  assumes "approve_workflow_checkpoint env cid i tr db = Inr (x, db')"
  obtains c :: workflow_checkpoint and c1 w w1 d where "owned_checkpoint env cid db = Inr (c, db)"
    and "wc_step c1 = wc_step c" and "wc_workflow c1 = wc_workflow c"
    and "owned_workflow env (wc_workflow c) (put_checkpoint c1 db) = Inr (w, d)"
    and "w1 = w \<or> w1 = w\<lparr>wf_status := [0x5DF2, 0x6279, 0x51C6]\<rparr>"
    and "db' = put_step_status (step_key (wc_step c)) [0x5DF2, 0x6279, 0x51C6] (put_workflow w1 d)"
proof -
  from assms [unfolded approve_workflow_checkpoint_def tx_bind_Inr tx_simps] obtain c :: workflow_checkpoint and db1 w d where
    c: "owned_checkpoint env cid db = Inr (c, db1)" and
    w: "owned_workflow env (wc_workflow c) (put_checkpoint (c\<lparr>wc_status := [0x5DF2, 0x6279, 0x51C6], wc_by := i,
       wc_approved := Some (cn_now env), wc_trace := text_or tr (wc_trace c)\<rparr>) db1) = Inr (w, d)"
    and d: "db' = put_step_status (step_key (wc_step c)) [0x5DF2, 0x6279, 0x51C6]
       (put_workflow (if wf_status w = [0x7B49, 0x5F85, 0x5173, 0x952E, 0x8282, 0x70B9, 0x786E, 0x8BA4] then w\<lparr>wf_status := [0x5DF2, 0x6279, 0x51C6]\<rparr> else w) d)"
    by blast
  from owned_checkpoint_same [OF c] have "db1 = db" .
  with c have "owned_checkpoint env cid db = Inr (c, db)" by simp
  then show ?thesis by (rule that [OF _ _ _ w [unfolded \<open>db1 = db\<close>] _ d]) simp_all
qed

lemma reject_checkpoint_result:
  assumes "reject_workflow_checkpoint env cid i re tr db = Inr (x, db')"
  obtains c :: workflow_checkpoint and c1 w d where "owned_checkpoint env cid db = Inr (c, db)"
    and "wc_step c1 = wc_step c" and "wc_workflow c1 = wc_workflow c"
    and "owned_workflow env (wc_workflow c) (put_checkpoint c1 db) = Inr (w, d)"
    and "db' = put_step_status (step_key (wc_step c)) [0x5DF2, 0x53D6, 0x6D88]
        (put_workflow (w\<lparr>wf_status := [0x5DF2, 0x7EC8, 0x6B62], wf_stop := text_or re (Some [0x5173, 0x952E, 0x8282, 0x70B9, 0x88AB, 0x62D2, 0x7EDD]), wf_finished := Some (cn_now env)\<rparr>) d)"
proof -
  from assms [unfolded reject_workflow_checkpoint_def tx_bind_Inr tx_simps] obtain c :: workflow_checkpoint and db1 w d where
    c: "owned_checkpoint env cid db = Inr (c, db1)" and
    w: "owned_workflow env (wc_workflow c) (put_checkpoint (c\<lparr>wc_status := [0x5DF2, 0x62D2, 0x7EDD], wc_by := i,
       wc_approved := Some (cn_now env), wc_reason := text_or re (wc_reason c), wc_trace := text_or tr (wc_trace c)\<rparr>) db1) = Inr (w, d)"
    and d: "db' = put_step_status (step_key (wc_step c)) [0x5DF2, 0x53D6, 0x6D88]
        (put_workflow (w\<lparr>wf_status := [0x5DF2, 0x7EC8, 0x6B62], wf_stop := text_or re (Some [0x5173, 0x952E, 0x8282, 0x70B9, 0x88AB, 0x62D2, 0x7EDD]), wf_finished := Some (cn_now env)\<rparr>) d)"
    by blast
  from owned_checkpoint_same [OF c] have "db1 = db" .
  with c have "owned_checkpoint env cid db = Inr (c, db)" by simp
  then show ?thesis by (rule that [OF _ _ _ w [unfolded \<open>db1 = db\<close>] d]) simp_all
qed

lemma approve_checkpoint_good: "good (approve_workflow_checkpoint env cid i tr)"
proof (rule good_unsaved)
  show "unsaved (approve_workflow_checkpoint env cid i tr)"
    unfolding approve_workflow_checkpoint_def by (intro unsaved_rules)
  fix db x db' assume ok: "flow_ok db" and "approve_workflow_checkpoint env cid i tr db = Inr (x, db')"
  from this(2) show "flow_ok db'"
  proof (cases rule: approve_checkpoint_result)
    case (1 c c1 w w1 d)
    have ok1: "flow_ok (put_checkpoint c1 db)" using ok by (rule flow_ok_scopes)
    from flow_ok_workflow [OF ok1 owned_workflow_in(2) [OF 1(4)]] have "wf_status w \<noteq> [0x5DF2, 0x5931, 0x8D25]"
      by (simp add: workflow_ok_def)
    with 1(5) have "flow_ok (put_workflow w1 d)" by (intro put_workflow_status_ok [OF ok1 1(4)]) auto
    then show ?thesis unfolding 1(6) by (rule put_step_status_ok) auto
  qed
qed

lemma reject_checkpoint_good: "good (reject_workflow_checkpoint env cid i re tr)"
proof (rule good_unsaved)
  show "unsaved (reject_workflow_checkpoint env cid i re tr)"
    unfolding reject_workflow_checkpoint_def by (intro unsaved_rules)
  fix db x db' assume ok: "flow_ok db" and "reject_workflow_checkpoint env cid i re tr db = Inr (x, db')"
  from this(2) show "flow_ok db'"
  proof (cases rule: reject_checkpoint_result)
    case (1 c c1 w d)
    have ok1: "flow_ok (put_checkpoint c1 db)" using ok by (rule flow_ok_scopes)
    show ?thesis unfolding 1(5) by (intro put_step_status_ok put_workflow_status_ok [OF ok1 1(4)]) auto
  qed
qed

section \<open>A new workflow\<close>

lemma add_new_distinct: "add_new key r t = Some t' \<Longrightarrow> distinct (map key t) \<Longrightarrow> t' = t @ [r] \<and> distinct (map key t')"
  by (auto simp: add_new_some row_add_def row_get_None)

lemma add_all_distinct:
  "add_all key rs t = Some t' \<Longrightarrow> distinct (map key t) \<Longrightarrow> t' = t @ rs \<and> distinct (map key t')"
proof (induction rs arbitrary: t)
  case (Cons r rs)
  from Cons.prems(1) obtain t1 where t1: "add_new key r t = Some t1" "add_all key rs t1 = Some t'"
    by (auto split: option.splits)
  from add_new_distinct [OF t1(1) Cons.prems(2)] have "t1 = t @ [r]" and d: "distinct (map key t1)" by blast+
  with Cons.IH [OF t1(2) d] show ?case by (metis append_Cons append_Nil append_assoc)
qed simp

lemma new_step_numbers: "map ws_number (new_steps env f) = [1..int (length (wn_steps f))]"
proof -
  have "map (\<lambda>i. int i + 1) [0..<n] = [1..int n]" for n
    by (induction n) (simp_all add: upto_rec2)
  then show ?thesis by (simp add: new_steps_def new_step_def o_def)
qed

lemma new_steps_in:
  assumes "s \<in> set (new_steps env f)"
  shows "ws_workflow s = wf_id (new_workflow env f)" and "ws_action s = None" and "ws_status s = [0x5F85, 0x6267, 0x884C]"
  using assms by (auto simp: new_steps_def new_step_def new_workflow_def)

lemma plan_size:
  "validate_workflow_plan st xs = None \<Longrightarrow> 2 \<le> length xs \<and> length xs \<le> 5"
  by (simp add: validate_workflow_plan_def first_error_None require_def DEFAULT_MIN_STEPS_def DEFAULT_MAX_STEPS_def split: if_splits)

lemma build_workflow_plan_result:
  assumes "build_workflow_plan env f db = Inr (w, db')"
  obtains ws ss where "validate_workflow_plan (cn_settings env) (wn_steps f) = None" and "w = new_workflow env f"
    and "add_new wf_id w (cd_workflows db) = Some ws" and "add_all ws_id (new_steps env f) (cd_steps db) = Some ss"
    and "db' = db\<lparr>cd_workflows := ws, cd_steps := ss\<rparr>"
  using assms by (auto simp: build_workflow_plan_def tx_bind_Inr Let_def split: if_splits option.splits)

lemma build_workflow_plan_ok:
  assumes ok: "flow_ok db" and r: "build_workflow_plan env f db = Inr (w, db')"
  shows "flow_ok db'" and "w = new_workflow env f" and "w \<in> set (cd_workflows db')"
proof -
  from r obtain ws ss where n: "validate_workflow_plan (cn_settings env) (wn_steps f) = None"
    and aw: "add_new wf_id w (cd_workflows db) = Some ws" and as: "add_all ws_id (new_steps env f) (cd_steps db) = Some ss"
    and w: "w = new_workflow env f" and db': "db' = db\<lparr>cd_workflows := ws, cd_steps := ss\<rparr>"
    by (rule build_workflow_plan_result)
  show "w = new_workflow env f" by (rule w)
  note size = plan_size [OF n]
  from ok have d: "distinct (map wf_id (cd_workflows db))" "distinct (map ws_id (cd_steps db))"
    by (simp_all add: flow_ok_def)
  from add_new_distinct [OF aw d(1)] have ws: "ws = cd_workflows db @ [w]" "distinct (map wf_id ws)" by blast+
  from add_all_distinct [OF as d(2)] have ss: "ss = cd_steps db @ new_steps env f" "distinct (map ws_id ss)" by blast+
  show "w \<in> set (cd_workflows db')" by (simp add: db' ws)
  have new: "wf_id v \<noteq> wf_id w" if "v \<in> set (cd_workflows db)" for v
    using ws that by (auto simp: image_iff)
  have fresh: "ws_workflow s \<noteq> wf_id w" if "s \<in> set (cd_steps db)" for s
    using flow_ok_step [OF ok that] new by (auto simp: step_ok_def list_ex_iff)
  have steps: "steps_of wid db' = (if wid = wf_id w then sort_key ws_number (new_steps env f) else steps_of wid db)" for wid
    using fresh new_steps_in(1) [of _ env f]
    by (auto simp: steps_of_def rows_by_def db' ss w filter_empty_conv cong: filter_cong
        intro!: arg_cong [where f = "sort_key ws_number"] filter_True)
  have num: "map ws_number (steps_of (wf_id w) db') = [1..wf_total w]"
    by (simp add: steps map_sort_key new_step_numbers w new_workflow_def sorted_sort_id)
  have ow: "workflow_ok db' v" if "v \<in> set (cd_workflows db)" for v
    using flow_ok_workflow [OF ok that] new [OF that] by (auto simp: workflow_ok_def steps)
  have nw: "workflow_ok db' w"
    unfolding workflow_ok_def num using size
    by (auto simp: w new_workflow_def DEFAULT_MAX_STEPS_def)
  have os: "step_ok db' s" if "s \<in> set (cd_steps db)" for s
    using flow_ok_step [OF ok that] by (auto simp: step_ok_def list_ex_iff db' ws)
  have ns: "step_ok db' s" if "s \<in> set (new_steps env f)" for s
    using new_steps_in [OF that] by (auto simp: step_ok_def list_ex_iff db' ws w)
  from ok ws ss ow nw os ns show "flow_ok db'"
    by (auto simp: flow_ok_def list_all_iff db')
qed

lemma leaves_unsaved_bind:
  assumes "leaves (tx_bind f g) db db'" and "unsaved f"
  obtains x db1 where "f db = Inr (x, db1)" and "leaves (g x) db1 db'"
  using leaves_bind [OF assms(1)] assms(2) that by (auto simp: unsaved_def)

lemma build_workflow_plan_unsaved: "unsaved (build_workflow_plan env f)"
  by (auto simp: build_workflow_plan_def unsaved_def tx_bind_Inl Let_def split: option.splits)

lemma named_session_ok:
  assumes ok: "flow_ok db" and w: "w \<in> set (cd_workflows db)"
    and l: "leaves (after_commit True (let w1 = w\<lparr>wf_session := sid\<rparr> in tx_bind (tx_write (put_workflow w1)) (\<lambda>_.
       tx_bind (create_scope_approval env w1 i tr) (\<lambda>_. tx_return w1)))) db db'"
  shows "flow_ok db'"
proof -
  let ?w1 = "w\<lparr>wf_session := sid\<rparr>"
  from flow_ok_workflow [OF ok w] have ow: "flow_ok (put_workflow ?w1 db)"
    by (intro put_workflow_ok [OF ok w]) (auto simp: workflow_ok_def)
  from l create_scope_approval_unsaved [of env ?w1 i tr]
  have "db' = db \<or> (\<exists>a. create_scope_approval env ?w1 i tr (put_workflow ?w1 db) = Inr (a, db'))"
    by (auto simp: leaves_def Let_def tx_bind_Inr tx_bind_Inl after_commit_Inl unsaved_def split: if_split_asm)
  with ok ow show ?thesis by (auto dest!: create_scope_approval_frame intro: flow_ok_scopes)
qed

definition session_part :: "computer_env \<Rightarrow> workflow \<Rightarrow> workflow tx" where
  "session_part env w =
     (if has_text (wf_session w)
      then tx_bind (create_scope_approval env w None (wf_trace w)) (\<lambda>_. tx_return w)
      else tx_bind (create_session env (workflow_session_form env w)) (\<lambda>s. after_commit True
        (let w1 = w\<lparr>wf_session := Some (cs_id s)\<rparr> in tx_bind (tx_write (put_workflow w1)) (\<lambda>_.
           tx_bind (create_scope_approval env w1 None (wf_trace w1)) (\<lambda>_. tx_return w1)))))"

text \<open>What a creation leaves: the session and the scope approval after a plan for an owned task.\<close>

lemma create_workflow_leaves:
  assumes "leaves (create_workflow env f) db db'"
  obtains w k db1 where "wn_task f = Some k" and "owned_task_or_none (cn_sha env) (cn_user env) (cd_tasks db) k \<noteq> None"
    and "build_workflow_plan env f db = Inr (w, db1)" and "leaves (session_part env w) db1 db'"
proof -
  from assms [unfolded create_workflow_def, folded session_part_def] obtain w db1 where
    t: "case wn_task f of None \<Rightarrow> False | Some t \<Rightarrow> owned_task_or_none (cn_sha env) (cn_user env) (cd_tasks db) t \<noteq> None"
    and "build_workflow_plan env f db = Inr (w, db1)" "leaves (session_part env w) db1 db'"
    by (auto elim!: leaves_unsaved_bind simp: unsaved_basic build_workflow_plan_unsaved require_def split: if_split_asm)
  then show ?thesis by (auto intro: that split: option.splits)
qed

lemma create_workflow_good: "good (create_workflow env f)"
  unfolding good_def
proof (intro allI impI)
  fix db db' assume ok: "flow_ok db" and l: "leaves (create_workflow env f) db db'"
  from l obtain w k db1 where b: "build_workflow_plan env f db = Inr (w, db1)" and rest: "leaves (session_part env w) db1 db'"
    by (rule create_workflow_leaves)
  note ok1 = build_workflow_plan_ok [OF ok b]
  show "flow_ok db'"
  proof (cases "has_text (wf_session w)")
    case True
    with rest create_scope_approval_unsaved [of env w None "wf_trace w"] ok1(1) show ?thesis
      by (auto simp: session_part_def leaves_def tx_bind_Inr tx_bind_Inl unsaved_def dest!: create_scope_approval_frame intro: flow_ok_scopes)
  next
    case False
    have same: "keeps same_flow (create_session env (workflow_session_form env w))" by (rule session_frames)
    from False rest have "leaves (tx_bind (create_session env (workflow_session_form env w)) (\<lambda>s. after_commit True
        (let w1 = w\<lparr>wf_session := Some (cs_id s)\<rparr> in tx_bind (tx_write (put_workflow w1)) (\<lambda>_.
           tx_bind (create_scope_approval env w1 None (wf_trace w1)) (\<lambda>_. tx_return w1))))) db1 db'" by (simp add: session_part_def)
    from leaves_bind [OF this] consider e where "create_session env (workflow_session_form env w) db1 = Inl (e, Some db')"
      | s db2 where "create_session env (workflow_session_form env w) db1 = Inr (s, db2)"
        "leaves (after_commit True (let w1 = w\<lparr>wf_session := Some (cs_id s)\<rparr> in tx_bind (tx_write (put_workflow w1)) (\<lambda>_.
           tx_bind (create_scope_approval env w1 None (wf_trace w1)) (\<lambda>_. tx_return w1)))) db2 db'" by blast
    then show ?thesis
    proof cases
      case 1
      with keepsD_saved [OF same] ok1(1) show ?thesis by (blast intro: flow_ok_same)
    next
      case 2
      have s: "same_flow db1 db2" using keepsD [OF same] 2(1) by blast
      with ok1(3) have "w \<in> set (cd_workflows db2)" by (simp add: same_flow_def)
      with flow_ok_same [OF s ok1(1)] 2(2) show ?thesis by (auto intro: named_session_ok)
    qed
  qed
qed

section \<open>Every request keeps the invariant\<close>

lemmas executor_frames = create_action_plan_frame approve_action_frame reject_action_frame execute_action_frame
  cancel_action_frame session_frames session_request_frames
lemmas workflow_goods = create_workflow_good approve_workflow_good reject_workflow_good start_workflow_good
  pause_workflow_good resume_workflow_good cancel_workflow_good approve_checkpoint_good reject_checkpoint_good

lemma serve_good: "good (serve env r)"
  unfolding serve_def with_target_def done_tx_def Let_def
  by (cases r; simp only: request.case) (intro good_rules workflow_goods executor_frames [THEN good_frameI])+

lemma request_step_ok: "flow_ok db \<Longrightarrow> flow_ok (request_step db e)"
  using good_frame.keeps_run [OF serve_good [unfolded good_keeps]] by (auto simp: request_step_def)

interpretation computer_flow: invariant_machine request_step flow_ok
  by unfold_locales (rule request_step_ok)

lemma flow_ok_empty: "flow_ok (empty_computer t)"
  by (simp add: flow_ok_def empty_computer_def)

lemma flow_ok_requests: "flow_ok (run_events request_step (empty_computer t) es)"
  by (rule computer_flow.run_inv [OF flow_ok_empty])

section \<open>An executed step\<close>

lemma executed_step_advances:
  assumes ok: "flow_ok db" and o: "owned_workflow env wid db = Inr (w, db)" and n: "n = wf_current w + 1"
    and r: "execute_step env wid n scr db = Inr (Executed er, db')"
  obtains w' where "row_get wf_id wid (cd_workflows db') = Some w'" and "wf_current w' = wf_current w + 1"
    and "wf_total w' = wf_total w" and "wf_task w' = wf_task w"
    and "wf_status w' = [0x5DF2, 0x5B8C, 0x6210] \<longleftrightarrow> wf_current w' = wf_total w'"
proof -
  from r obtain s where s: "s \<in> set (cd_steps db)" "ws_workflow s = wf_id w" "ws_number s = n"
    and p: "perform_step env scr w s db = Inr (Executed er, db')"
    by (cases rule: execute_step_cases) (use o in auto)
  note in_w = owned_workflow_in [OF o]
  from p obtain plan t ap db1 v s2 db2 where
    run: "run_step_action env scr (started_workflow env w) (build_action_payload env w s) db = Inr (((plan, t, ap), er), db1)"
    and ver: "verify_step_result env (started_workflow env w) (acted_step env er s)
        (step_verification_row env scr (started_workflow env w) (acted_step env er s) plan er)
        (pl_id plan) (tg_action (er_target er)) db1 = Inr ((v, s2), db2)"
    and set: "settle_step env (sn_trace scr) (started_workflow env w) s2 v db2 = Inr ((), db')"
    by (rule perform_step_result) auto
  have f: "same_flow db db1" by (rule keepsD [OF run_step_action_frame run])
  have same: "cd_workflows db1 = cd_workflows db" "cd_steps db1 = cd_steps db" "cd_checked db1 = cd_checked db"
    using f by (simp_all add: same_flow_def)
  from run have "av_status (er_verification er) = [0x7ED3, 0x679C, 0x7B26, 0x5408, 0x9884, 0x671F]"
    by (auto simp: run_step_action_def tx_bind_Inr split: prod.splits dest: execute_action_result)
  then have row: "wv_status (step_verification_row env scr x s3 plan er) = [0x7ED3, 0x679C, 0x7B26, 0x5408, 0x9884, 0x671F]" for x s3
    by (simp add: step_verification_row_def)
  from ok have ch: "wv_status x = [0x7ED3, 0x679C, 0x7B26, 0x5408, 0x9884, 0x671F]" if "x \<in> set (cd_checked db1)" for x
    using that by (simp add: flow_ok_def list_all_iff same)
  have v: "wv_status v = [0x7ED3, 0x679C, 0x7B26, 0x5408, 0x9884, 0x671F]" and s2: "ws_number s2 = n"
    and t2: "cd_workflows db2 = cd_workflows db" "cd_steps db2 = cd_steps db"
    using ver by (cases rule: verify_step_cases; use ch row s same in \<open>auto simp: acted_step_def\<close>)+
  define w2 where "w2 = settled_workflow env v (settled_step env v s2) db2 (started_workflow env w)"
  from flow_ok_workflow [OF ok in_w(2)] have wok: "workflow_ok db w" .
  have st: "ws_status (settled_step env v s2) = [0x5DF2, 0x5B8C, 0x6210]" by (rule settled_status [OF v])
  have sn: "ws_number (settled_step env v s2) = wf_current w + 1" by (simp add: settled_step_def s2 n)
  have w2: "wf_id w2 = wf_id w" "wf_total w2 = wf_total w" "wf_current w2 = wf_current w + 1" "wf_task w2 = wf_task w"
    by (simp_all add: w2_def settled_workflow_simps sn)
  have "wf_current w + 1 \<le> wf_total w" using step_within(2) [OF ok in_w(2) s(1,2)] s(3) n by simp
  have nx: "next_step x db2 = None \<longleftrightarrow> wf_current x = wf_total x"
    if "wf_id x = wf_id w" "wf_current x = wf_current w + 1" "wf_total x = wf_total w" "wf_max x = wf_max w"
      "wf_status x \<noteq> [0x5DF2, 0x5931, 0x8D25]" for x
    by (rule next_step_iff(1)) (use wok that \<open>wf_current w + 1 \<le> wf_total w\<close> t2 in \<open>simp add: workflow_ok_def steps_of_def\<close>)
  have fin: "wf_status w2 = [0x5DF2, 0x5B8C, 0x6210] \<longleftrightarrow> wf_current w2 = wf_total w2"
    using nx st sn by (auto simp: w2_def settled_workflow_def Let_def split: option.splits)
  from set obtain d where d: "d = db2 \<or> (\<exists>rows. d = db2\<lparr>cd_recoveries := rows\<rparr>)"
    and e: "db' = (let s1 = settled_step env v s2; w1 = w2; db1 = put_step s1 (put_workflow w1 d)
       in if wf_status w1 = [0x5DF2, 0x5B8C, 0x6210] then ensure_task_result env w1 ([0x5DE5, 0x4F5C, 0x6D41, 0x20] @ wf_goal w1 @ [0x20, 0x5DF2, 0x5B8C, 0x6210]) db1 else db1)"
    unfolding w2_def Let_def by (rule settle_step_result [unfolded Let_def])
  from d t2 have "cd_workflows d = cd_workflows db" by auto
  with e have "cd_workflows db' = row_put wf_id w2 (cd_workflows db)"
    by (simp add: Let_def task_result_frame put_step_def put_workflow_def)
  moreover have "row_get wf_id wid (cd_workflows db) \<noteq> None" using in_w(2,3) by (auto simp: row_get_None)
  ultimately have "row_get wf_id wid (cd_workflows db') = Some w2"
    using w2(1) in_w(3) by (auto simp: row_get_put split: option.splits)
  then show ?thesis by (rule that) (use w2 fin in auto)
qed

end
