(* ===== verification/Computer_Tenant.thy ===== *)
theory Computer_Tenant
  imports Computer_Flow
begin

text \<open>
  Workflows of other users. A request acts as one user; \<open>others_kept\<close> says that the workflows whose
  tasks that user does not own, and their steps, are the same rows before and after, and that the user owns
  the same tasks.
\<close>

definition owns :: "computer_env \<Rightarrow> computer_db \<Rightarrow> int \<Rightarrow> bool" where
  "owns env db k = list_ex (\<lambda>t. ct_id t = k) (owned_tasks (cn_sha env) (cn_user env) (cd_tasks db))"

definition mine :: "computer_env \<Rightarrow> computer_db \<Rightarrow> workflow \<Rightarrow> bool" where
  "mine env db w = (case wf_task w of None \<Rightarrow> False | Some k \<Rightarrow> owns env db k)"

definition my_step :: "computer_env \<Rightarrow> computer_db \<Rightarrow> flow_step \<Rightarrow> bool" where
  "my_step env db s = list_ex (\<lambda>w. wf_id w = ws_workflow s \<and> mine env db w) (cd_workflows db)"

definition foreign_workflows :: "computer_env \<Rightarrow> computer_db \<Rightarrow> workflow list" where
  "foreign_workflows env db = filter (\<lambda>w. \<not> mine env db w) (cd_workflows db)"

definition foreign_steps :: "computer_env \<Rightarrow> computer_db \<Rightarrow> flow_step list" where
  "foreign_steps env db = filter (\<lambda>s. \<not> my_step env db s) (cd_steps db)"

definition others_kept :: "computer_env \<Rightarrow> computer_db \<Rightarrow> computer_db \<Rightarrow> bool" where
  "others_kept env db db' \<longleftrightarrow>
     foreign_workflows env db' = foreign_workflows env db \<and> foreign_steps env db' = foreign_steps env db \<and>
     owns env db' = owns env db"

text \<open>
  The tables the requests start from: one row per key, every step of a workflow, every checkpoint of a
  step of its own workflow.
\<close>

definition checkpoint_ok :: "computer_db \<Rightarrow> workflow_checkpoint \<Rightarrow> bool" where
  "checkpoint_ok db c = list_ex (\<lambda>s. wc_step c = Some (ws_id s) \<and> ws_workflow s = wc_workflow c) (cd_steps db)"

definition tenant_ok :: "computer_db \<Rightarrow> bool" where
  "tenant_ok db \<longleftrightarrow>
     distinct (map wf_id (cd_workflows db)) \<and> distinct (map ws_id (cd_steps db)) \<and>
     distinct (map ct_id (td_tasks (cd_tasks db))) \<and> list_all (checkpoint_ok db) (cd_checkpoints db) \<and>
     list_all (\<lambda>s. list_ex (\<lambda>w. wf_id w = ws_workflow s) (cd_workflows db)) (cd_steps db)"

definition tenant_step :: "computer_env \<Rightarrow> computer_db \<Rightarrow> computer_db \<Rightarrow> bool" where
  "tenant_step env db db' \<longleftrightarrow> (if tenant_ok db then tenant_ok db' \<and> others_kept env db db' else True)"

section \<open>Frames\<close>

interpretation tenant_frame: tx_frame "tenant_step env"
  by unfold_locales (auto simp: tenant_step_def others_kept_def split: if_splits)

lemma owned_workflow_mine: "owned_workflow env wid db = Inr (w, db') \<Longrightarrow> mine env db w"
  by (auto dest!: owned_workflow_in(4) simp: mine_def owns_def list_ex_iff)

lemma mine_same: "owns env db' = owns env db \<Longrightarrow> mine env db' = mine env db"
  by (auto simp: mine_def fun_eq_iff split: option.splits)

lemma others_kept_tables:
  assumes "cd_workflows db' = cd_workflows db" and "cd_steps db' = cd_steps db" and "cd_tasks db' = cd_tasks db"
  shows "others_kept env db db'"
proof -
  have "owns env db' = owns env db" using assms by (simp add: owns_def fun_eq_iff)
  with mine_same [OF this] assms show ?thesis
    by (simp add: others_kept_def foreign_workflows_def foreign_steps_def my_step_def)
qed

lemma filter_row_put:
  assumes "distinct (map key t)" and "x \<in> set t" and "key r = key x" and "\<not> p x" and "\<not> p r"
  shows "filter p (row_put key r t) = filter p t"
proof -
  have "\<not> p y" if "y \<in> set t" "key y = key r" for y
    using distinct_key [OF assms(1) that(1) assms(2)] assms(3,4) that by auto
  then show ?thesis using assms(5)
    by (induction t) (auto simp: row_put_def)
qed

lemma put_workflow_others:
  assumes d: "distinct (map wf_id (cd_workflows db))" and w: "w \<in> set (cd_workflows db)" "mine env db w"
    and w1: "wf_id w1 = wf_id w" "wf_task w1 = wf_task w"
  shows "others_kept env db (put_workflow w1 db)"
proof -
  have o1: "owns env (put_workflow w1 db) = owns env db" by (simp add: owns_def put_workflow_def fun_eq_iff)
  note m = mine_same [OF o1]
  have m1: "mine env db w1" using w(2) w1(2) by (simp add: mine_def)
  have ws: "cd_workflows (put_workflow w1 db) = row_put wf_id w1 (cd_workflows db)" by (simp add: put_workflow_def)
  have "w1 \<in> set (row_put wf_id w1 (cd_workflows db))" using w(1) w1(1) by (auto simp: in_row_put_iff)
  then have in1: "\<exists>v \<in> set (row_put wf_id w1 (cd_workflows db)). wf_id v = wf_id w \<and> mine env db v"
    using m1 w1(1) by auto
  have "foreign_workflows env (put_workflow w1 db) = foreign_workflows env db"
    using filter_row_put [OF d w(1) w1(1)] w(2) m1
    unfolding foreign_workflows_def m by (simp add: put_workflow_def)
  moreover have "my_step env (put_workflow w1 db) s = my_step env db s" for s
  proof (cases "ws_workflow s = wf_id w")
    case True
    with w in1 show ?thesis unfolding my_step_def m ws by (auto simp: list_ex_iff)
  next
    case False
    with w1 show ?thesis unfolding my_step_def m ws by (auto simp: list_ex_iff in_row_put_iff)
  qed
  ultimately show ?thesis
    by (simp add: others_kept_def o1 foreign_steps_def) (simp add: put_workflow_def)
qed

lemma put_step_others:
  assumes d: "distinct (map ws_id (cd_steps db))" and s: "s \<in> set (cd_steps db)" "my_step env db s"
    and s1: "ws_id s1 = ws_id s" "ws_workflow s1 = ws_workflow s"
  shows "others_kept env db (put_step s1 db)"
proof -
  have o1: "owns env (put_step s1 db) = owns env db" by (simp add: owns_def put_step_def fun_eq_iff)
  have m: "my_step env (put_step s1 db) x = my_step env db x" for x
    by (simp add: my_step_def mine_same [OF o1]) (simp add: put_step_def)
  have "my_step env db s1" using s(2) s1(2) by (simp add: my_step_def)
  with filter_row_put [OF d s(1) s1(1)] s(2) show ?thesis
    by (simp add: others_kept_def o1 foreign_steps_def m foreign_workflows_def mine_same [OF o1]) (simp add: put_step_def)
qed

lemma task_update_owned:
  assumes d: "distinct (map ct_id (td_tasks tasks))" and t: "t \<in> set (td_tasks tasks)"
    and t1: "t1 = t \<or> t1 = t\<lparr>ct_status := st, ct_summary := su\<rparr>"
  shows "list_ex (\<lambda>t. ct_id t = j) (owned_tasks sha u (tasks\<lparr>td_results := rs, td_tasks := row_put ct_id t1 (td_tasks tasks)\<rparr>)) =
      list_ex (\<lambda>t. ct_id t = j) (owned_tasks sha u tasks)"
proof -
  have "task_ownership_predicate sc tasks t1 = task_ownership_predicate sc tasks t" for sc
    using t1 by (auto simp: task_ownership_predicate_def run_matches_def)
  moreover have "ct_id t1 = ct_id t" using t1 by auto
  moreover have "y = t" if "y \<in> set (td_tasks tasks)" "ct_id y = ct_id t" for y
    using distinct_key [OF d that(1) t] that(2) by simp
  moreover have "resolve_graph_ownership sha v (tasks\<lparr>td_results := rs, td_tasks := ts\<rparr>) = resolve_graph_ownership sha v tasks" for v ts
    by (simp add: resolve_graph_ownership_def readable_stores_def)
  moreover have "task_ownership_predicate sc (tasks\<lparr>td_results := rs, td_tasks := ts\<rparr>) = task_ownership_predicate sc tasks" for sc ts
    by (simp add: task_ownership_predicate_def run_matches_def fun_eq_iff)
  ultimately show ?thesis using t
    by (cases u) (auto simp: list_ex_iff owned_tasks_def in_row_put_iff, metis+)
qed

lemma task_result_cases:
  obtains "ensure_task_result env w c db = db"
  | t t1 rs where "t \<in> set (td_tasks (cd_tasks db))"
    and "t1 = t \<or> t1 = t\<lparr>ct_status := asc ''result_submitted'', ct_summary := Some (take 1000 c)\<rparr>"
    and "ensure_task_result env w c db =
      db\<lparr>cd_tasks := (cd_tasks db)\<lparr>td_results := rs, td_tasks := row_put ct_id t1 (td_tasks (cd_tasks db))\<rparr>\<rparr>"
proof (cases "case wf_task w of None \<Rightarrow> None | Some k \<Rightarrow> owned_task_or_none (cn_sha env) (cn_user env) (cd_tasks db) k")
  case None
  then have "ensure_task_result env w c db = db" by (auto simp: ensure_task_result_def split: option.splits)
  then show ?thesis by (rule that(1))
next
  case (Some t)
  then obtain k where k: "wf_task w = Some k" "owned_task_or_none (cn_sha env) (cn_user env) (cd_tasks db) k = Some t"
    by (auto split: option.splits)
  from owned_task_some(1) [OF k(2)] have "t \<in> set (td_tasks (cd_tasks db))" by (auto simp: owned_tasks_iff)
  then show ?thesis
    by (rule that(2) [OF _ _ trans [OF ensure_task_result_def]]) (auto simp: k Let_def)
qed

lemma task_result_owns:
  assumes "distinct (map ct_id (td_tasks (cd_tasks db)))"
  shows "owns env' (ensure_task_result env w c db) = owns env' db"
    and "distinct (map ct_id (td_tasks (cd_tasks (ensure_task_result env w c db))))"
proof -
  have k: "map ct_id (row_put ct_id r t) = map ct_id t" for r :: center_task and t
    by (auto simp: row_put_def)
  show "owns env' (ensure_task_result env w c db) = owns env' db"
    by (cases rule: task_result_cases [of env w c db]) (simp_all add: owns_def fun_eq_iff task_update_owned [OF assms])
  show "distinct (map ct_id (td_tasks (cd_tasks (ensure_task_result env w c db))))"
    using assms by (cases rule: task_result_cases [of env w c db]) (simp_all add: k)
qed

section \<open>Rows of the user\<close>

lemma put_workflow_tenant:
  assumes "w \<in> set (cd_workflows db)" and "mine env db w" and "wf_id w1 = wf_id w" and "wf_task w1 = wf_task w"
  shows "tenant_step env db (put_workflow w1 db)"
proof -
  have "tenant_ok (put_workflow w1 db)" if ok: "tenant_ok db"
  proof -
    have m: "map wf_id (row_put wf_id w1 (cd_workflows db)) = map wf_id (cd_workflows db)" by (auto simp: row_put_def)
    have e: "list_ex (\<lambda>v. wf_id v = k) xs \<longleftrightarrow> k \<in> set (map wf_id xs)" for k and xs :: "workflow list"
      by (auto simp: list_ex_iff)
    have "list_ex (\<lambda>v. wf_id v = k) (row_put wf_id w1 (cd_workflows db)) = list_ex (\<lambda>v. wf_id v = k) (cd_workflows db)" for k
      unfolding e m ..
    with m show ?thesis using ok by (simp add: tenant_ok_def put_workflow_def checkpoint_ok_def list_all_iff)
  qed
  with put_workflow_others [OF _ assms] show ?thesis by (simp add: tenant_step_def tenant_ok_def)
qed

lemma put_step_tenant:
  assumes "s \<in> set (cd_steps db)" and "my_step env db s" and "ws_id s1 = ws_id s" and "ws_workflow s1 = ws_workflow s"
  shows "tenant_step env db (put_step s1 db)"
proof -
  have "tenant_ok (put_step s1 db)" if ok: "tenant_ok db"
  proof -
    from ok have d: "distinct (map ws_id (cd_steps db))" by (simp add: tenant_ok_def)
    have m: "map (\<lambda>s. (ws_id s, ws_workflow s)) (row_put ws_id s1 (cd_steps db)) = map (\<lambda>s. (ws_id s, ws_workflow s)) (cd_steps db)"
      using distinct_key [OF d _ assms(1)] assms(3,4) by (intro row_put_map) fastforce
    from arg_cong [OF m, of "map fst"] have i: "map ws_id (row_put ws_id s1 (cd_steps db)) = map ws_id (cd_steps db)"
      by (simp add: o_def)
    have "list_ex (\<lambda>s. P (ws_id s) (ws_workflow s)) (row_put ws_id s1 (cd_steps db)) = list_ex (\<lambda>s. P (ws_id s) (ws_workflow s)) (cd_steps db)" for P
      using arg_cong [OF m, of "list_ex (\<lambda>(a, b). P a b)"] by (simp add: list_ex_iff)
    from this [of "\<lambda>i k. wc_step c = Some i \<and> k = wc_workflow c" for c :: workflow_checkpoint] have c: "checkpoint_ok (put_step s1 db) = checkpoint_ok db"
      by (simp add: fun_eq_iff checkpoint_ok_def put_step_def)
    have "list_all (\<lambda>s. P (ws_workflow s)) (row_put ws_id s1 (cd_steps db)) = list_all (\<lambda>s. P (ws_workflow s)) (cd_steps db)" for P
      using arg_cong [OF m, of "list_all (\<lambda>(a, b). P b)"] by (simp add: list_all_iff)
    from this [of "\<lambda>k. list_ex (\<lambda>w. wf_id w = k) (cd_workflows db)"] ok show ?thesis
      unfolding tenant_ok_def c by (simp add: put_step_def i)
  qed
  with put_step_others [OF _ assms] show ?thesis by (simp add: tenant_step_def tenant_ok_def)
qed

lemma tenant_tables:
  assumes "cd_workflows db' = cd_workflows db" and "cd_steps db' = cd_steps db" and "cd_checkpoints db' = cd_checkpoints db"
    and "distinct (map ct_id (td_tasks (cd_tasks db))) \<Longrightarrow> distinct (map ct_id (td_tasks (cd_tasks db')))"
    and "distinct (map ct_id (td_tasks (cd_tasks db))) \<Longrightarrow> owns env db' = owns env db"
  shows "tenant_step env db db'"
  using assms mine_same [of env db' db]
  by (auto simp: tenant_step_def tenant_ok_def checkpoint_ok_def list_all_iff others_kept_def foreign_workflows_def
      foreign_steps_def my_step_def)

lemma tenant_same_flow: "same_flow db db' \<Longrightarrow> tenant_step env db db'"
  by (rule tenant_tables) (simp_all add: same_flow_def owns_def fun_eq_iff)

lemma tenant_frameI: "keeps same_flow f \<Longrightarrow> keeps (tenant_step env) f"
  by (auto simp: keeps_def intro: tenant_same_flow)

lemma tenant_unsaved:
  assumes "unsaved f" and "\<And>db x db'. f db = Inr (x, db') \<Longrightarrow> tenant_step env db db'"
  shows "keeps (tenant_step env) f"
  using assms by (auto simp: keeps_def leaves_def unsaved_def)

lemma tenant_updates:
  "tenant_step env db (db\<lparr>cd_scopes := a\<rparr>)" "tenant_step env db (db\<lparr>cd_checked := b\<rparr>)" "tenant_step env db (db\<lparr>cd_recoveries := c\<rparr>)"
  "tenant_step env db (put_scope x db)" "tenant_step env db (ensure_task_result env' w t db)"
  by (rule tenant_tables; simp add: owns_def fun_eq_iff put_scope_def task_result_frame task_result_owns)+

lemma tenant_checkpoints:
  assumes "list_all (checkpoint_ok db) (cd_checkpoints db) \<Longrightarrow> list_all (checkpoint_ok db) rows"
  shows "tenant_step env db (db\<lparr>cd_checkpoints := rows\<rparr>)"
proof -
  have "checkpoint_ok (db\<lparr>cd_checkpoints := rows\<rparr>) = checkpoint_ok db" by (simp add: fun_eq_iff checkpoint_ok_def)
  moreover have "owns env (db\<lparr>cd_checkpoints := rows\<rparr>) = owns env db" by (simp add: fun_eq_iff owns_def)
  moreover note mine_same [OF this]
  ultimately show ?thesis using assms
    by (simp add: tenant_step_def tenant_ok_def others_kept_def foreign_workflows_def foreign_steps_def my_step_def)
qed

lemma put_checkpoint_tenant:
  assumes "c \<in> set (cd_checkpoints db)" and "wc_step c1 = wc_step c" and "wc_workflow c1 = wc_workflow c"
  shows "tenant_step env db (put_checkpoint c1 db)"
  unfolding put_checkpoint_def
  by (rule tenant_checkpoints) (use assms in \<open>auto simp: list_all_iff row_put_def checkpoint_ok_def\<close>)

lemma mine_tables:
  "cd_tasks db' = cd_tasks db \<Longrightarrow> mine env db' w = mine env db w"
  by (rule fun_cong [OF mine_same]) (simp add: owns_def fun_eq_iff)

lemma tenant_mine: "tenant_step env db db' \<Longrightarrow> tenant_ok db \<Longrightarrow> mine env db' = mine env db"
  by (auto simp: tenant_step_def others_kept_def intro: mine_same)

section \<open>Requests\<close>

lemma put_owned_tenant:
  assumes "owned_workflow env wid db = Inr (w, db1)" and "wf_id w1 = wf_id w" and "wf_task w1 = wf_task w"
  shows "tenant_step env db (put_workflow w1 db1)"
  using owned_workflow_in [OF assms(1)] owned_workflow_mine [OF assms(1)] assms(2,3)
  by (auto intro: put_workflow_tenant)

lemma pause_cancel_tenant:
  "keeps (tenant_step env) (pause_workflow env wid reason)" "keeps (tenant_step env) (cancel_workflow env wid reason)"
  by (rule tenant_unsaved;
      auto simp: pause_workflow_def cancel_workflow_def tx_bind_Inr intro!: unsaved_rules intro: put_owned_tenant)+

lemma put_scope_owned_tenant:
  assumes "owned_workflow env wid db = Inr (w, db1)" and "scope_approval_or_new env w i tr db1 = Inr (a, db2)"
    and "wf_id w1 = wf_id w" and "wf_task w1 = wf_task w"
  shows "tenant_step env db (put_workflow w1 (put_scope b db2))"
proof -
  note in_w = owned_workflow_in [OF assms(1)]
  from scope_approval_frame [OF assms(2)] in_w(1) obtain rows where d: "db2 = db\<lparr>cd_scopes := rows\<rparr>" by auto
  have "tenant_step env db (put_scope b db2)" unfolding d by (rule tenant_frame.trans [OF tenant_updates(1) tenant_updates(4)])
  moreover have "mine env (put_scope b db2) w"
    using owned_workflow_mine [OF assms(1)] mine_tables [of "put_scope b db2" db env w] by (simp add: d put_scope_def)
  then have "tenant_step env (put_scope b db2) (put_workflow w1 (put_scope b db2))"
    by (intro put_workflow_tenant) (use in_w assms(3,4) in \<open>simp_all add: d put_scope_def\<close>)
  ultimately show ?thesis by (rule tenant_frame.trans)
qed

lemma approve_workflow_tenant: "keeps (tenant_step env) (approve_workflow env wid i tr)"
proof (rule tenant_unsaved)
  show "unsaved (approve_workflow env wid i tr)"
    unfolding approve_workflow_def Let_def by (intro unsaved_rules scope_approval_unsaved)
  fix db x db' assume "approve_workflow env wid i tr db = Inr (x, db')"
  then obtain w d1 a d2 b where "owned_workflow env wid db = Inr (w, d1)" "scope_approval_or_new env w i tr d1 = Inr (a, d2)"
    and "db' = put_workflow (w\<lparr>wf_approval := [0x5DF2, 0x6279, 0x51C6], wf_status := [0x5DF2, 0x6279, 0x51C6]\<rparr>) (put_scope b d2)"
    unfolding approve_workflow_def Let_def tx_bind_Inr tx_simps by blast
  then show "tenant_step env db db'" by (auto intro: put_scope_owned_tenant)
qed

lemma reject_workflow_tenant: "keeps (tenant_step env) (reject_workflow env wid i re tr)"
proof (rule tenant_unsaved)
  show "unsaved (reject_workflow env wid i re tr)"
    unfolding reject_workflow_def Let_def by (intro unsaved_rules scope_approval_unsaved)
  fix db x db' assume "reject_workflow env wid i re tr db = Inr (x, db')"
  then obtain w d1 a d2 b where "owned_workflow env wid db = Inr (w, d1)" "scope_approval_or_new env w i tr d1 = Inr (a, d2)"
    and "db' = put_workflow (w\<lparr>wf_approval := [0x5DF2, 0x62D2, 0x7EDD], wf_status := [0x5DF2, 0x62D2, 0x7EDD],
       wf_stop := text_or re (Some [0x5DE5, 0x4F5C, 0x6D41, 0x88AB, 0x62D2, 0x7EDD])\<rparr>) (put_scope b d2)"
    unfolding reject_workflow_def Let_def tx_bind_Inr tx_simps by blast
  then show "tenant_step env db db'" by (auto intro: put_scope_owned_tenant)
qed

lemma put_step_status_tenant:
  assumes c: "checkpoint_ok db c" and w: "w \<in> set (cd_workflows db)" "mine env db w" "wf_id w = wc_workflow c"
  shows "tenant_step env db (put_step_status (step_key (wc_step c)) st db)"
proof (cases "tenant_ok db")
  case ok: True
  then have d: "distinct (map ws_id (cd_steps db))" by (simp add: tenant_ok_def)
  from c obtain s where s: "s \<in> set (cd_steps db)" "wc_step c = Some (ws_id s)" "ws_workflow s = wc_workflow c"
    by (auto simp: checkpoint_ok_def list_ex_iff)
  show ?thesis
  proof (cases "ws_id s = []")
    case True
    then show ?thesis by (simp add: put_step_status_def step_key_def has_text_def s(2) tenant_frame.refl)
  next
    case False
    from s(1) obtain x where x: "row_get ws_id (ws_id s) (cd_steps db) = Some x"
      by (cases "row_get ws_id (ws_id s) (cd_steps db)") (auto simp: row_get_None)
    from distinct_key [OF d row_get_in [OF x] s(1) row_get_key [OF x]] have "x = s" .
    moreover have "my_step env db s" using w s(3) by (auto simp: my_step_def list_ex_iff)
    ultimately show ?thesis using False x s(1)
      by (auto simp: put_step_status_def step_key_def has_text_def s(2) intro: put_step_tenant)
  qed
qed (simp add: tenant_step_def)

lemma settled_checkpoint_tenant:
  assumes c: "owned_checkpoint env cid db = Inr (c, db1)" and c1: "wc_step c1 = wc_step c" "wc_workflow c1 = wc_workflow c"
    and w: "owned_workflow env (wc_workflow c) (put_checkpoint c1 db) = Inr (w, d)"
    and w1: "wf_id w1 = wf_id w" "wf_task w1 = wf_task w"
  shows "tenant_step env db (put_step_status (step_key (wc_step c)) st (put_workflow w1 d))"
proof (cases "tenant_ok db")
  case ok: True
  from c have ci: "c \<in> set (cd_checkpoints db)" by (auto simp: owned_checkpoint_def find_Some_iff)
  note in_w = owned_workflow_in [OF w] and m = owned_workflow_mine [OF w]
  have t1: "tenant_step env db (put_checkpoint c1 db)" by (rule put_checkpoint_tenant [OF ci c1])
  have t2: "tenant_step env (put_checkpoint c1 db) (put_workflow w1 d)" by (rule put_owned_tenant [OF w w1])
  from ok ci have "checkpoint_ok db c" by (simp add: tenant_ok_def list_all_iff)
  then have "checkpoint_ok (put_workflow w1 d) c"
    by (simp add: checkpoint_ok_def put_workflow_def in_w(1)) (simp add: put_checkpoint_def)
  moreover have "w1 \<in> set (cd_workflows (put_workflow w1 d))"
    using in_w(1,2) w1(1) by (auto simp: put_workflow_def in_row_put_iff)
  moreover from tenant_frame.trans [OF t1 t2] ok have "mine env (put_workflow w1 d) = mine env db" by (rule tenant_mine)
  with m tenant_mine [OF t1 ok] w1(2) have "mine env (put_workflow w1 d) w1" by (simp add: mine_def)
  ultimately have "tenant_step env (put_workflow w1 d) (put_step_status (step_key (wc_step c)) st (put_workflow w1 d))"
    using in_w(3) w1(1) by (intro put_step_status_tenant [where w = w1]) auto
  with t1 t2 show ?thesis by (blast intro: tenant_frame.trans)
qed (simp add: tenant_step_def)

lemma checkpoint_tenant:
  "keeps (tenant_step env) (approve_workflow_checkpoint env cid i tr)" (is ?A)
  "keeps (tenant_step env) (reject_workflow_checkpoint env cid i re tr)" (is ?R)
proof -
  have u: "unsaved (approve_workflow_checkpoint env cid i tr)" "unsaved (reject_workflow_checkpoint env cid i re tr)"
    unfolding approve_workflow_checkpoint_def reject_workflow_checkpoint_def by (intro unsaved_rules)+
  show ?A
  proof (rule tenant_unsaved [OF u(1)])
    fix db x db' assume "approve_workflow_checkpoint env cid i tr db = Inr (x, db')"
    then show "tenant_step env db db'"
    proof (cases rule: approve_checkpoint_result)
      case (1 c c1 w w1 d)
      show ?thesis unfolding 1(6) by (rule settled_checkpoint_tenant [OF 1(1-4)]) (use 1(5) in auto)
    qed
  qed
  show ?R
  proof (rule tenant_unsaved [OF u(2)])
    fix db x db' assume "reject_workflow_checkpoint env cid i re tr db = Inr (x, db')"
    then show "tenant_step env db db'"
    proof (cases rule: reject_checkpoint_result)
      case (1 c c1 w d)
      show ?thesis unfolding 1(5) by (rule settled_checkpoint_tenant [OF 1(1-4)]) auto
    qed
  qed
qed

section \<open>Steps\<close>

lemma settle_step_tenant:
  assumes w: "w \<in> set (cd_workflows db)" "mine env db w" and w1: "wf_id w1 = wf_id w" "wf_task w1 = wf_task w"
    and s: "s \<in> set (cd_steps db)" "ws_workflow s = wf_id w" and s1: "ws_id s1 = ws_id s" "ws_workflow s1 = ws_workflow s"
    and r: "settle_step env tr w1 s1 v db = Inr (u, db')"
  shows "tenant_step env db db'"
proof (cases "tenant_ok db")
  case ok: True
  let ?s = "settled_step env v s1"
  define w2 where "w2 = settled_workflow env v ?s db w1"
  define s2 where "s2 = ?s"
  have w2: "wf_id w2 = wf_id w" "wf_task w2 = wf_task w" by (simp_all add: w2_def settled_workflow_simps w1)
  have s2: "ws_id s2 = ws_id s" "ws_workflow s2 = ws_workflow s" by (simp_all add: s2_def settled_step_def s1)
  from r obtain d where d: "d = db \<or> (\<exists>rows. d = db\<lparr>cd_recoveries := rows\<rparr>)"
    and e: "db' = (let s1 = s2; w1 = w2; db1 = put_step s1 (put_workflow w1 d)
       in if wf_status w1 = [0x5DF2, 0x5B8C, 0x6210] then ensure_task_result env w1 ([0x5DE5, 0x4F5C, 0x6D41, 0x20] @ wf_goal w1 @ [0x20, 0x5DF2, 0x5B8C, 0x6210]) db1 else db1)"
    unfolding w2_def s2_def Let_def by (rule settle_step_result [unfolded Let_def])
  from e have db': "db' = put_step s2 (put_workflow w2 d) \<or> (\<exists>t. db' = ensure_task_result env w2 t (put_step s2 (put_workflow w2 d)))"
    by (simp only: Let_def split: if_split) blast
  from d have t1: "tenant_step env db d" by (auto intro: tenant_updates tenant_frame.refl)
  from d have same: "cd_workflows d = cd_workflows db" "cd_steps d = cd_steps db" by auto
  have t2: "tenant_step env d (put_workflow w2 d)"
    by (rule put_workflow_tenant [of w]) (use w w2 same tenant_mine [OF t1 ok] in simp_all)
  note t12 = tenant_frame.trans [OF t1 t2]
  have "w2 \<in> set (cd_workflows (put_workflow w2 d))" using w(1) w2(1) same by (auto simp: put_workflow_def in_row_put_iff)
  moreover have "mine env (put_workflow w2 d) w2" using w(2) w2(2) tenant_mine [OF t12 ok] by (simp add: mine_def)
  ultimately have "my_step env (put_workflow w2 d) s" using s(2) w2(1) by (auto simp: my_step_def list_ex_iff)
  then have t3: "tenant_step env (put_workflow w2 d) (put_step s2 (put_workflow w2 d))"
    by (intro put_step_tenant [of s]) (use s s2 same in \<open>auto simp: put_workflow_def\<close>)
  from tenant_frame.trans [OF t12 t3] db' tenant_updates(5) show ?thesis by (auto intro: tenant_frame.trans)
qed (simp add: tenant_step_def)

lemma perform_step_tenant:
  assumes w: "w \<in> set (cd_workflows db)" "mine env db w" and s: "s \<in> set (cd_steps db)" "ws_workflow s = wf_id w"
    and r: "perform_step env scr w s db = Inr (x, db')"
  shows "tenant_step env db db'"
proof (cases "tenant_ok db")
  case ok: True
  define w1 where "w1 = started_workflow env w"
  from r obtain plan t ap er db1 v s2 db2 where
    run: "run_step_action env scr w1 (build_action_payload env w s) db = Inr (((plan, t, ap), er), db1)"
    and ver: "verify_step_result env w1 (acted_step env er s) (step_verification_row env scr w1 (acted_step env er s) plan er)
        (pl_id plan) (tg_action (er_target er)) db1 = Inr ((v, s2), db2)"
    and set: "settle_step env (sn_trace scr) w1 s2 v db2 = Inr ((), db')"
    unfolding w1_def by (rule perform_step_result)
  have f: "same_flow db db1" by (rule keepsD [OF run_step_action_frame run])
  then have t1: "tenant_step env db db1" by (rule tenant_same_flow)
  have same: "cd_workflows db1 = cd_workflows db" "cd_steps db1 = cd_steps db" using f by (simp_all add: same_flow_def)
  from ver have v: "db2 = db1 \<or> (\<exists>rows. db2 = db1\<lparr>cd_checked := rows\<rparr>)"
    and s2: "ws_id s2 = ws_id s" "ws_workflow s2 = ws_workflow s"
    by (cases rule: verify_step_cases; auto simp: acted_step_def)+
  from v have t2: "tenant_step env db1 db2" by (auto intro: tenant_updates tenant_frame.refl)
  note t12 = tenant_frame.trans [OF t1 t2]
  have "tenant_step env db2 db'"
    by (rule settle_step_tenant [OF _ _ _ _ _ _ s2 set, of w])
      (use v same w s tenant_mine [OF t12 ok] in \<open>auto simp: w1_def\<close>)
  with t12 show ?thesis by (rule tenant_frame.trans)
qed (simp add: tenant_step_def)

lemma execute_step_tenant: "keeps (tenant_step env) (execute_step env wid n scr)"
proof (rule tenant_unsaved [OF execute_step_unsaved])
  fix db x db' assume "execute_step env wid n scr db = Inr (x, db')"
  then show "tenant_step env db db'"
  proof (cases rule: execute_step_cases)
    case (performed w s)
    from owned_workflow_in(2) [OF performed(1)] owned_workflow_mine [OF performed(1)] performed(2,3,6) show ?thesis
      by (rule perform_step_tenant)
  next
    case (halted w s c)
    let ?d = "db\<lparr>cd_checkpoints := row_add c (cd_checkpoints db)\<rparr>"
    note in_w = owned_workflow_in(2) [OF halted(1)] and m = owned_workflow_mine [OF halted(1)]
    have "checkpoint_ok db c" using halted(2,3,5,6) by (auto simp: checkpoint_ok_def list_ex_iff)
    then have t1: "tenant_step env db ?d" by (intro tenant_checkpoints) (simp add: row_add_def)
    have md: "mine env ?d w" using m mine_tables [of ?d db env w] by simp
    have t2: "tenant_step env ?d (put_workflow (awaiting_workflow w) ?d)"
      by (rule put_workflow_tenant [of w]) (use in_w md in \<open>simp_all add: awaiting_workflow_def\<close>)
    have "mine env (put_workflow (awaiting_workflow w) ?d) (awaiting_workflow w)"
      using mine_tables [of "put_workflow (awaiting_workflow w) ?d" db env w] m by (simp add: put_workflow_def awaiting_workflow_def mine_def)
    moreover have "awaiting_workflow w \<in> set (cd_workflows (put_workflow (awaiting_workflow w) ?d))"
      using in_w by (auto simp: put_workflow_def in_row_put_iff awaiting_workflow_def)
    ultimately have "my_step env (put_workflow (awaiting_workflow w) ?d) s"
      using halted(3) unfolding my_step_def list_ex_iff
      by (intro bexI [where x = "awaiting_workflow w"]) (simp_all add: awaiting_workflow_def [of w])
    then have "tenant_step env (put_workflow (awaiting_workflow w) ?d) db'"
      unfolding halted(10) by (intro put_step_tenant [of s]) (use halted(2) in \<open>auto simp: put_workflow_def\<close>)
    with t1 t2 show ?thesis by (blast intro: tenant_frame.trans)
  qed
qed

lemma owned_workflow_tenant: "keeps (tenant_step env) (owned_workflow env wid)"
  by (rule tenant_unsaved [OF owned_workflow_unsaved]) (auto dest: owned_workflow_in(1) simp: tenant_frame.refl)

lemma resume_workflow_tenant: "keeps (tenant_step env) (resume_workflow env wid scr)"
  unfolding resume_workflow_def
  by (intro tenant_frame.keeps_bind tenant_frame.keeps_basic owned_workflow_tenant)
    (auto intro: tenant_frame.keeps_basic execute_step_tenant split: option.splits)

lemma start_workflow_tenant: "keeps (tenant_step env) (start_workflow env wid scr)"
  unfolding keeps_def
proof (intro allI impI)
  fix db db' assume l: "leaves (start_workflow env wid scr) db db'"
  then consider x where "start_workflow env wid scr db = Inr (x, db')" | e where "start_workflow env wid scr db = Inl (e, Some db')"
    by (auto simp: leaves_def)
  then show "tenant_step env db db'"
  proof cases
    case 1
    then obtain w d where w: "owned_workflow env wid db = Inr (w, d)"
      and e: "db' = put_workflow (w\<lparr>wf_status := [0x5DF2, 0x5B8C, 0x6210], wf_finished := Some (cn_now env)\<rparr>) d \<or>
        (\<exists>n r. execute_step env wid n scr d = Inr (r, db'))"
      by (auto simp: start_workflow_def tx_bind_Inr split: option.splits; blast)
    from e show ?thesis unfolding owned_workflow_in(1) [OF w]
      by (elim disjE exE) (auto intro: put_owned_tenant [OF w [unfolded owned_workflow_in(1) [OF w]]] keepsD [OF execute_step_tenant])
  next
    case 2
    then show ?thesis using owned_workflow_unsaved [of env wid] execute_step_unsaved [of env wid _ scr]
      by (auto simp: start_workflow_def tx_bind_Inl unsaved_def split: option.splits)
  qed
qed

section \<open>Creation\<close>

lemma build_workflow_plan_tenant:
  assumes t: "wn_task f = Some k" "owned_task_or_none (cn_sha env) (cn_user env) (cd_tasks db) k \<noteq> None"
    and b: "build_workflow_plan env f db = Inr (w, db1)"
  shows "tenant_step env db db1" and "tenant_ok db \<Longrightarrow> w \<in> set (cd_workflows db1) \<and> mine env db1 w"
proof -
  from b obtain ws ss where w: "w = new_workflow env f" and aw: "add_new wf_id w (cd_workflows db) = Some ws"
    and as: "add_all ws_id (new_steps env f) (cd_steps db) = Some ss" and d: "db1 = db\<lparr>cd_workflows := ws, cd_steps := ss\<rparr>"
    by (rule build_workflow_plan_result)
  from aw have ws: "ws = cd_workflows db @ [w]" by (simp add: add_new_some row_add_def)
  have o1: "owns env db1 = owns env db" by (simp add: d owns_def fun_eq_iff)
  note m = mine_same [OF o1]
  from t(2) obtain y where y: "owned_task_or_none (cn_sha env) (cn_user env) (cd_tasks db) k = Some y" by auto
  from owned_task_some [OF y] t(1) have mw: "mine env db w"
    by (auto simp: w new_workflow_def mine_def owns_def list_ex_iff)
  have all: "tenant_ok db1 \<and> others_kept env db db1 \<and> w \<in> set (cd_workflows db1)" if ok: "tenant_ok db"
  proof -
    have sw: "ws_workflow s \<in> wf_id ` set (cd_workflows db)" if "s \<in> set (cd_steps db)" for s
      using ok that by (force simp: tenant_ok_def list_all_iff list_ex_iff)
    from ok have dw: "distinct (map wf_id (cd_workflows db))" and ds: "distinct (map ws_id (cd_steps db))"
      by (auto simp: tenant_ok_def)
    from add_new_distinct [OF aw dw] add_all_distinct [OF as ds] have ss: "ss = cd_steps db @ new_steps env f"
      and dd: "distinct (map wf_id ws)" "distinct (map ws_id ss)" by blast+
    have ns: "ws_workflow s = wf_id w" if "s \<in> set (new_steps env f)" for s
      using new_steps_in(1) [OF that] by (simp add: w)
    have "checkpoint_ok db c \<Longrightarrow> checkpoint_ok db1 c" for c by (auto simp: checkpoint_ok_def list_ex_iff d ss)
    then have "tenant_ok db1" using ok dd ns
      by (auto simp: tenant_ok_def d ss ws list_all_iff list_ex_iff)
    moreover have "foreign_workflows env db1 = foreign_workflows env db"
      unfolding foreign_workflows_def m by (simp add: d ws mw)
    moreover have "my_step env db1 s" if "s \<in> set (new_steps env f)" for s
      using ns [OF that] mw unfolding my_step_def m by (simp add: d ws)
    moreover have "my_step env db1 s = my_step env db s" if "s \<in> set (cd_steps db)" for s
    proof -
      from sw [OF that] dd(1) ws have "ws_workflow s \<noteq> wf_id w" by auto
      then show ?thesis unfolding my_step_def m by (auto simp: list_ex_iff d ws)
    qed
    ultimately have "foreign_steps env db1 = foreign_steps env db"
      by (simp add: foreign_steps_def) (simp add: d ss filter_empty_conv cong: filter_cong)
    with \<open>tenant_ok db1\<close> \<open>foreign_workflows env db1 = _\<close> o1 show ?thesis
      by (simp add: others_kept_def) (simp add: d ws)
  qed
  then show "tenant_step env db db1" by (simp add: tenant_step_def)
  from all mw m show "tenant_ok db \<Longrightarrow> w \<in> set (cd_workflows db1) \<and> mine env db1 w" by simp
qed

lemma scope_tenant: "keeps (tenant_step env) (create_scope_approval env w i tr)"
  by (rule tenant_unsaved [OF create_scope_approval_unsaved]) (auto dest!: create_scope_approval_frame intro: tenant_updates)

lemma session_part_tenant:
  assumes w: "w \<in> set (cd_workflows db)" "mine env db w" and l: "leaves (session_part env w) db db'"
  shows "tenant_step env db db'"
proof (cases "has_text (wf_session w)")
  case True
  with l have "leaves (tx_bind (create_scope_approval env w None (wf_trace w)) (\<lambda>_. tx_return w)) db db'"
    by (simp add: session_part_def)
  moreover have "keeps (tenant_step env) (tx_bind (create_scope_approval env w None (wf_trace w)) (\<lambda>_. tx_return w))"
    by (intro tenant_frame.keeps_bind scope_tenant tenant_frame.keeps_basic)
  ultimately show ?thesis by (simp add: keeps_def)
next
  case False
  let ?rest = "\<lambda>s. after_commit True (let w1 = w\<lparr>wf_session := Some (cs_id s)\<rparr> in tx_bind (tx_write (put_workflow w1)) (\<lambda>_.
           tx_bind (create_scope_approval env w1 None (wf_trace w1)) (\<lambda>_. tx_return w1)))"
  have s: "keeps same_flow (create_session env (workflow_session_form env w))" by (rule session_frames)
  from False l have "leaves (tx_bind (create_session env (workflow_session_form env w)) ?rest) db db'"
    by (simp add: session_part_def)
  from leaves_bind [OF this] consider e where "create_session env (workflow_session_form env w) db = Inl (e, Some db')"
    | x d where "create_session env (workflow_session_form env w) db = Inr (x, d)" "leaves (?rest x) d db'" by blast
  then show ?thesis
  proof cases
    case 1
    show ?thesis by (rule tenant_same_flow [OF keepsD_saved [OF s 1]])
  next
    case 2
    have f: "same_flow db d" by (rule keepsD [OF s 2(1)])
    let ?w = "w\<lparr>wf_session := Some (cs_id x)\<rparr>"
    have put: "tenant_step env d (put_workflow ?w d)"
      by (rule put_workflow_tenant [of w]) (use w f mine_tables [of d db env w] in \<open>simp_all add: same_flow_def\<close>)
    from 2(2) have "db' = d \<or> leaves (create_scope_approval env ?w None (wf_trace ?w)) (put_workflow ?w d) db'"
      by (auto simp: leaves_def Let_def tx_bind_Inr tx_bind_Inl after_commit_Inl split: if_split_asm)
    then have "tenant_step env d db'"
      using put scope_tenant [of env ?w None "wf_trace ?w"] by (auto simp: keeps_def intro: tenant_frame.refl tenant_frame.trans)
    with tenant_same_flow [OF f] show ?thesis by (rule tenant_frame.trans)
  qed
qed

lemma create_workflow_tenant: "keeps (tenant_step env) (create_workflow env f)"
  unfolding keeps_def
proof (intro allI impI)
  fix db db' assume "leaves (create_workflow env f) db db'"
  then obtain w k db1 where t: "wn_task f = Some k" "owned_task_or_none (cn_sha env) (cn_user env) (cd_tasks db) k \<noteq> None"
    and b: "build_workflow_plan env f db = Inr (w, db1)" and l: "leaves (session_part env w) db1 db'"
    by (rule create_workflow_leaves)
  note p = build_workflow_plan_tenant [OF t b]
  show "tenant_step env db db'"
  proof (cases "tenant_ok db")
    case True
    with p(2) l have "tenant_step env db1 db'" by (auto intro: session_part_tenant)
    with p(1) show ?thesis by (rule tenant_frame.trans)
  qed (simp add: tenant_step_def)
qed

section \<open>Every request\<close>

lemmas workflow_tenants = create_workflow_tenant approve_workflow_tenant reject_workflow_tenant start_workflow_tenant
  pause_cancel_tenant resume_workflow_tenant checkpoint_tenant

lemma serve_tenant: "keeps (tenant_step env) (serve env r)"
  unfolding serve_def with_target_def done_tx_def Let_def
  by (cases r; simp only: request.case)
    (intro tenant_frame.keeps_bind tenant_frame.keeps_basic tenant_frame.keeps_after_commit workflow_tenants
      executor_frames [THEN tenant_frameI])+

lemma request_step_tenant: "tenant_step (fst e) db (request_step db e)"
  unfolding request_step_def by (rule tenant_frame.keeps_run [OF serve_tenant])

interpretation tenants: invariant_machine request_step tenant_ok
  by unfold_locales (use request_step_tenant in \<open>fastforce simp: tenant_step_def split: if_splits\<close>)

end
