(* ===== verification/Computer_Replay.thy ===== *)
theory Computer_Replay
  imports Computer_Flow
begin

text \<open>
  Requests that are sent again: an executed action is finished and is refused the second time, a request
  for a plan finds the plan of the first one.
\<close>

section \<open>Replays\<close>

lemma find_put_row:
  assumes "find P t = Some x" and "P r" and "key r = key x"
  shows "find P (row_put key r t) = Some r"
  using assms(1,3) by (induction t) (auto simp: row_put_def assms(2) split: if_splits)

lemma add_action_row_result:
  assumes "add_action_row sid aid w db = Inr (a, db')"
  shows "row_get ac_id aid (cd_actions db') = Some a" and "ac_finished a = aw_finished w"
    and "cd_plans db' = cd_plans db" and "cd_targets db' = cd_targets db" and "cd_approvals db' = cd_approvals db"
    and "cd_sessions db' = cd_sessions db" and "ac_id a = aid"
proof -
  note D = assms [unfolded add_action_row_def Let_def]
  from D show "cd_plans db' = cd_plans db" "cd_targets db' = cd_targets db" "cd_approvals db' = cd_approvals db"
    "cd_sessions db' = cd_sessions db" "ac_finished a = aw_finished w" "ac_id a = aid"
    by (auto split: option.splits if_splits simp: written_action_def)
  from D show "row_get ac_id aid (cd_actions db') = Some a"
    by (auto split: option.splits if_splits simp: written_action_def row_get_add row_get_put dest: row_get_key)
qed

lemma add_evidence_row_result:
  assumes "add_evidence_row env s a k f db = Inr (e, db')"
  shows "cd_actions db' = cd_actions db" and "cd_plans db' = cd_plans db" and "cd_targets db' = cd_targets db"
    and "cd_approvals db' = cd_approvals db" and "cd_sessions db' = cd_sessions db"
  using assms by (auto simp: add_evidence_row_def Let_def split: option.splits if_splits)

lemma record_execution_result:
  assumes "record_execution env s f (Some (p, t)) out db = Inr (r, db')"
  shows "\<exists>a. row_get ac_id (tg_action t) (cd_actions db') = Some a \<and> ac_finished a \<noteq> None"
    and "cd_targets db' = cd_targets db" and "cd_approvals db' = cd_approvals db"
proof -
  from assms obtain a d1 e d2 d3 x y where a: "add_action_row (cs_id s) (tg_action t) (executed_action env s f True out) db = Inr (a, d1)"
    and e: "add_evidence_row env (cs_id s) (Some (tg_action t)) (asc ''screenshot'') x d1 = Inr (e, d2)"
    and d3: "d3 = d2\<lparr>cd_events := y\<rparr>" and d: "db' = d3\<lparr>cd_sessions := row_put cs_id (session_after env True s) (cd_sessions d3),
       cd_plans := row_put pl_id (advance_plan p) (cd_plans d3)\<rparr>"
    unfolding record_execution_def Let_def tx_bind_Inr add_policy_event_Inr tx_simps option.case prod.case
    by auto
  note ra = add_action_row_result [OF a] and re = add_evidence_row_result [OF e]
  have "cd_actions db' = cd_actions d1" by (simp add: d d3 re)
  moreover have "ac_finished a \<noteq> None" using ra(2) by (simp add: executed_action_def)
  ultimately show "\<exists>a. row_get ac_id (tg_action t) (cd_actions db') = Some a \<and> ac_finished a \<noteq> None" using ra(1) by simp
  show "cd_targets db' = cd_targets db" "cd_approvals db' = cd_approvals db" by (simp_all add: d d3 re ra)
qed

lemma safe_check_result:
  assumes "safe_check env c s (Some (p, a, h)) db = Inr (x, db')" and "st_safe_action (cn_settings env)"
  obtains plan t where "x = Some (plan, t)" and "db' = db" and "tg_action t = strip a"
    and "case row_get ac_id (strip a) (cd_actions db) of None \<Rightarrow> True | Some y \<Rightarrow> ac_finished y = None"
proof -
  have "\<exists>plan t. x = Some (plan, t) \<and> db' = db \<and> tg_action t = strip a \<and>
      (case row_get ac_id (strip a) (cd_actions db) of None \<Rightarrow> True | Some y \<Rightarrow> ac_finished y = None)"
    using assms unfolding safe_check_def
    by (auto simp: find_Some_iff split: option.splits if_splits prod.splits)
  with that show ?thesis by blast
qed

lemma finish_execution_tables:
  assumes "finish_execution env p t x rr tr db = Inr (r, db')"
  obtains st where "cd_actions db' = cd_actions db" and "cd_targets db' = row_put tg_id (t\<lparr>tg_status := st\<rparr>) (cd_targets db)"
proof -
  obtain s a e where rr: "rr = (s, a, e)" by (cases rr)
  from assms have "cd_actions db' = cd_actions db \<and> (\<exists>st. cd_targets db' = row_put tg_id (t\<lparr>tg_status := st\<rparr>) (cd_targets db))"
    unfolding rr finish_execution_def Let_def tx_bind_Inr add_policy_event_Inr tx_simps prod.case verify_action_result_def
    by (auto simp: put_plan_target_def add_new_def split: if_split_asm)
  with that show ?thesis by blast
qed

lemma runtime_execute_result:
  assumes "runtime_execute env c s f a db = Inr (rr, db')"
  obtains pl d1 out where "safe_check env c s (rf_context f) db = Inr (pl, d1)" and "run_computer_executor env s f a = Inr out"
    and "record_execution env s f pl out d1 = Inr (rr, db')"
  using assms by (cases "run_computer_executor env s f a") (auto simp: runtime_execute_def tx_bind_Inr)

text \<open>The run of an action: its target, its check, its record, its settlement.\<close>

lemma execute_action_run:
  assumes "execute_action env c p h tr a db = Inr (r, db')" and "st_safe_action (cn_settings env)"
  obtains t st where "find (\<lambda>t. tg_plan t = p) (cd_targets db) = Some t"
    and "case row_get ac_id (strip (tg_action t)) (cd_actions db) of None \<Rightarrow> True | Some y \<Rightarrow> ac_finished y = None"
    and "\<exists>y. row_get ac_id (strip (tg_action t)) (cd_actions db') = Some y \<and> ac_finished y \<noteq> None"
    and "cd_targets db' = row_put tg_id (t\<lparr>tg_status := st\<rparr>) (cd_targets db)"
proof -
  from assms(1) obtain plan s t ap d0 rr d2 where
    t: "find (\<lambda>t. tg_plan t = p) (cd_targets db) = Some t"
    and ap: "approved_for_execution env c plan t h db = Inr (ap, d0)"
    and run: "runtime_execute env c s (run_form_of plan t tr) a d0 = Inr (rr, d2)"
    and fin: "finish_execution env (if st_safe_action (cn_settings env) then advance_plan plan else plan) t ap rr
          (text_or tr (pl_trace plan)) d2 = Inr (r, db')"
    unfolding execute_action_def tx_bind_Inr tx_simps after_commit_Inr by auto
  have d0: "d0 = db" using ap by (auto simp: approved_for_execution_def split: option.splits if_splits)
  from run obtain pl d1 out where
    sc: "safe_check env c s (Some (pl_id plan, tg_action t, None)) db = Inr (pl, d1)"
    and rec: "record_execution env s (run_form_of plan t tr) pl out d1 = Inr (rr, d2)"
    unfolding d0 by (rule runtime_execute_result) (simp add: run_form_of_def)
  from sc assms(2) obtain plan2 t2 where x: "pl = Some (plan2, t2)" "d1 = db" "tg_action t2 = strip (tg_action t)"
    and nf: "case row_get ac_id (strip (tg_action t)) (cd_actions db) of None \<Rightarrow> True | Some y \<Rightarrow> ac_finished y = None"
    by (rule safe_check_result)
  note re = record_execution_result [OF rec [unfolded x(1,2)]]
  from fin obtain st where f: "cd_actions db' = cd_actions d2" "cd_targets db' = row_put tg_id (t\<lparr>tg_status := st\<rparr>) (cd_targets d2)"
    by (rule finish_execution_tables)
  show ?thesis by (rule that [OF t nf]) (use re f x(3) in auto)
qed

lemma executed_again:
  assumes "execute_action env c p h tr a db = Inr (r, db')" and "st_safe_action (cn_settings env)"
    and "execute_action env' c' p h' tr' a' db' = Inr (r', db'')" and "st_safe_action (cn_settings env')"
  shows False
proof -
  from assms(1,2) obtain t st where t: "find (\<lambda>t. tg_plan t = p) (cd_targets db) = Some t"
    and done_: "\<exists>y. row_get ac_id (strip (tg_action t)) (cd_actions db') = Some y \<and> ac_finished y \<noteq> None"
    and ts: "cd_targets db' = row_put tg_id (t\<lparr>tg_status := st\<rparr>) (cd_targets db)"
    by (rule execute_action_run)
  from t have "tg_plan t = p" by (auto simp: find_Some_iff)
  then have f: "find (\<lambda>t. tg_plan t = p) (cd_targets db') = Some (t\<lparr>tg_status := st\<rparr>)"
    unfolding ts by (intro find_put_row [OF t]) auto
  from assms(3,4) obtain t3 where t3: "find (\<lambda>t. tg_plan t = p) (cd_targets db') = Some t3"
    and "case row_get ac_id (strip (tg_action t3)) (cd_actions db') of None \<Rightarrow> True | Some y \<Rightarrow> ac_finished y = None"
    by (rule execute_action_run)
  with f done_ show False by auto
qed

section \<open>Repeated requests for a plan\<close>

text \<open>Every target and every approval names a plan there is.\<close>

definition linked :: "computer_db \<Rightarrow> bool" where
  "linked db \<longleftrightarrow>
     list_all (\<lambda>t. row_get pl_id (tg_plan t) (cd_plans db) \<noteq> None) (cd_targets db) \<and>
     list_all (\<lambda>a. row_get pl_id (aa_plan a) (cd_plans db) \<noteq> None) (cd_approvals db)"

lemma add_action_row_written:
  "add_action_row sid aid w db = Inr (a, db') \<Longrightarrow> \<exists>n. a = written_action w aid sid n"
  by (auto simp: add_action_row_def Let_def split: option.splits if_splits)

lemma filter_fresh: "list_all (\<lambda>x. f x \<noteq> k) xs \<Longrightarrow> filter (\<lambda>x. f x = k) xs = []"
  by (induction xs) auto

lemma new_plan_reused:
  assumes n: "new_action_plan env f scope db = Inr (reply, db1)" and l: "linked db" and none: "find_plan f db = None"
    and tr: "has_text (af_trace f)" and c: "af_coordinates f \<noteq> Some []"
    and scope: "scope = Bound sid win owner_print payload_print"
  shows "\<exists>plan. find_plan f db1 = Some plan \<and> reuse_plan f owner_print payload_print plan db1 = Inr (reply, db1)"
    and "cd_sessions db1 = cd_sessions db" and "cd_tasks db1 = cd_tasks db"
proof -
  let ?plan = "new_plan env f" and ?target = "new_target env f"
  let ?approval = "new_approval env 3 ?target None scope (af_trace f)"
  from n obtain d1 d2 a x where i: "insert_plan ?plan ?target ?approval db = Inr ((), d1)"
    and ar: "add_action_row (af_session f) (tg_action ?target) (planned_action f) d1 = Inr (a, d2)"
    and d2: "db1 = d2\<lparr>cd_events := x\<rparr>" and reply: "reply = (?plan, ?target, ?approval)"
    unfolding new_action_plan_def Let_def tx_bind_Inr add_policy_event_Inr tx_simps by auto
  from i have fresh: "row_get pl_id (pl_id ?plan) (cd_plans db) = None"
    and d1: "d1 = db\<lparr>cd_plans := row_add ?plan (cd_plans db), cd_targets := row_add ?target (cd_targets db),
        cd_approvals := row_add ?approval (cd_approvals db)\<rparr>"
    by (auto simp: insert_plan_def add_new_def split: if_split_asm)
  note ra = add_action_row_result [OF ar]
  from add_action_row_written [OF ar] obtain n where a: "a = written_action (planned_action f) (tg_action ?target) (af_session f) n" ..
  have tables: "cd_plans db1 = cd_plans db @ [?plan]" "cd_targets db1 = cd_targets db @ [?target]"
    "cd_approvals db1 = cd_approvals db @ [?approval]" "row_get ac_id (tg_action ?target) (cd_actions db1) = Some a"
    using ra by (simp_all add: d2 d1 row_add_def)
  show "cd_sessions db1 = cd_sessions db" using ra by (simp add: d2 d1)
  from ar have "cd_tasks d2 = cd_tasks d1" by (auto simp: add_action_row_def Let_def split: option.splits if_splits)
  then show "cd_tasks db1 = cd_tasks db" by (simp add: d2 d1)
  have ft: "filter (\<lambda>t. tg_plan t = pl_id ?plan) (cd_targets db) = []"
    and fa: "filter (\<lambda>t. aa_plan t = pl_id ?plan) (cd_approvals db) = []"
    using l fresh by (fastforce intro!: filter_fresh simp: linked_def list_all_iff)+
  have "find_plan f db1 = Some ?plan" using none tr
    by (simp add: find_plan_def tables find_app) (simp add: new_plan_def)
  moreover have "graph_matches f payload_print ?plan ?target ?approval (Some a)"
    unfolding graph_matches_def a scope using c
    by (simp add: new_plan_def new_target_def new_approval_def written_action_def planned_action_def scope_payload_def
        some_coordinates_def)
  then have "reuse_plan f owner_print payload_print ?plan db1 = Inr (reply, db1)"
    by (simp add: reuse_plan_def tables ft fa reply)
      (simp add: new_target_def new_plan_def new_approval_def scope scope_owner_def)
  ultimately show "\<exists>plan. find_plan f db1 = Some plan \<and> reuse_plan f owner_print payload_print plan db1 = Inr (reply, db1)"
    by blast
qed

lemma plan_created_or_reused:
  assumes "create_action_plan env u f db = Inr (reply, db1)"
  obtains session where "preflight_action_plan (cn_settings env) f = None" and "find_session env u (af_session f) db = Some session"
    and "u = None \<or> af_task f \<in> {None, Some 0} \<or> af_task f = cs_task session" and "resolve_target f = None"
    and "(case find_plan (planned_form session u f) db of
        Some plan \<Rightarrow> reuse_plan (planned_form session u f) (owner_fingerprint env u db) (cn_digest env (form_json (planned_form session u f))) plan
      | None \<Rightarrow> new_action_plan env (planned_form session u f) (Bound (cs_id session) (af_window (planned_form session u f))
          (owner_fingerprint env u db) (cn_digest env (form_json (planned_form session u f))))) db = Inr (reply, db1)"
  using assms unfolding create_action_plan_def Let_def tx_bind_Inr tx_simps by (auto simp: require_def split: if_split_asm)

lemma reuse_plan_same: "reuse_plan f o1 pp plan db = Inr (reply, db') \<Longrightarrow> db' = db"
  by (auto simp: reuse_plan_def split: list.splits if_splits)

lemma plan_again:
  assumes r: "create_action_plan env u f db = Inr (reply, db1)" and l: "linked db" and tr: "has_text (af_trace f)"
    and c: "af_coordinates f \<noteq> Some []"
  shows "create_action_plan (env\<lparr>cn_now := t, cn_uuid := g\<rparr>) u f db1 = Inr (reply, db1)"
proof -
  let ?env = "env\<lparr>cn_now := t, cn_uuid := g\<rparr>"
  from r obtain session where pre: "preflight_action_plan (cn_settings env) f = None"
    and s: "find_session env u (af_session f) db = Some session"
    and k: "u = None \<or> af_task f \<in> {None, Some 0} \<or> af_task f = cs_task session" and res: "resolve_target f = None"
    and e: "(case find_plan (planned_form session u f) db of
        Some plan \<Rightarrow> reuse_plan (planned_form session u f) (owner_fingerprint env u db) (cn_digest env (form_json (planned_form session u f))) plan
      | None \<Rightarrow> new_action_plan env (planned_form session u f) (Bound (cs_id session) (af_window (planned_form session u f))
          (owner_fingerprint env u db) (cn_digest env (form_json (planned_form session u f))))) db = Inr (reply, db1)"
    by (rule plan_created_or_reused)
  let ?f = "planned_form session u f"
  have f: "has_text (af_trace ?f)" "af_coordinates ?f \<noteq> Some []"
    using tr c by (auto simp: planned_form_def text_or_def has_text_def)
  have again: "\<exists>plan. find_plan ?f db1 = Some plan \<and>
      reuse_plan ?f (owner_fingerprint env u db) (cn_digest env (form_json ?f)) plan db1 = Inr (reply, db1)"
    and same: "cd_sessions db1 = cd_sessions db" "cd_tasks db1 = cd_tasks db"
  proof (atomize (full), cases "find_plan ?f db")
    case None
    with e have "new_action_plan env ?f (Bound (cs_id session) (af_window ?f) (owner_fingerprint env u db)
        (cn_digest env (form_json ?f))) db = Inr (reply, db1)" by simp
    from new_plan_reused [OF this l None f refl] show "(\<exists>plan. find_plan ?f db1 = Some plan \<and>
      reuse_plan ?f (owner_fingerprint env u db) (cn_digest env (form_json ?f)) plan db1 = Inr (reply, db1)) \<and>
      cd_sessions db1 = cd_sessions db \<and> cd_tasks db1 = cd_tasks db" by blast
  next
    case (Some plan)
    with e have "reuse_plan ?f (owner_fingerprint env u db) (cn_digest env (form_json ?f)) plan db = Inr (reply, db1)" by simp
    moreover from reuse_plan_same [OF this] have "db1 = db" .
    ultimately show "(\<exists>plan. find_plan ?f db1 = Some plan \<and>
      reuse_plan ?f (owner_fingerprint env u db) (cn_digest env (form_json ?f)) plan db1 = Inr (reply, db1)) \<and>
      cd_sessions db1 = cd_sessions db \<and> cd_tasks db1 = cd_tasks db" using Some by simp
  qed
  have o1: "owner_fingerprint ?env u db1 = owner_fingerprint env u db"
    by (simp add: owner_fingerprint_def same)
  have s1: "find_session ?env u (af_session f) db1 = Some session"
    using s by (simp add: find_session_def same split: option.splits)
  from again obtain plan where "find_plan ?f db1 = Some plan"
    and "reuse_plan ?f (owner_fingerprint env u db) (cn_digest env (form_json ?f)) plan db1 = Inr (reply, db1)" by blast
  then show ?thesis using pre k res
    by (simp add: create_action_plan_def tx_bind_def tx_check_def tx_some_def tx_read_def require_def s1 o1 Let_def)
qed

end
