(* ===== verification/Computer_Approval.thy ===== *)
theory Computer_Approval
  imports Computer_Flow
begin

text \<open>
  What the approval of a workflow is read for. \<open>reapproved a ss\<close> gives every workflow another approval
  status and the tables other approval rows. Every operation of the executor and of the workflows except
  creating, approving, rejecting and starting one does the same on both databases (\<open>alike\<close>): the proofs go
  through the operations in the order of their definitions.
\<close>

definition with_approval :: "(ustr \<Rightarrow> ustr) \<Rightarrow> workflow \<Rightarrow> workflow" where
  "with_approval a w = w\<lparr>wf_approval := a (wf_id w)\<rparr>"

definition reapproved :: "(ustr \<Rightarrow> ustr) \<Rightarrow> workflow_approval list \<Rightarrow> computer_db \<Rightarrow> computer_db" where
  "reapproved a ss db = db\<lparr>cd_workflows := map (with_approval a) (cd_workflows db), cd_scopes := ss\<rparr>"

lemma with_approval_simps [simp]:
  "wf_id (with_approval a w) = wf_id w" "wf_task (with_approval a w) = wf_task w" "wf_goal (with_approval a w) = wf_goal w"
  "wf_status (with_approval a w) = wf_status w" "wf_current (with_approval a w) = wf_current w"
  "wf_session (with_approval a w) = wf_session w" "wf_trace (with_approval a w) = wf_trace w"
  "wf_budget (with_approval a w) = wf_budget w" "wf_started (with_approval a w) = wf_started w"
  "wf_employee (with_approval a w) = wf_employee w" "wf_skill (with_approval a w) = wf_skill w"
  "wf_stop (with_approval a w) = wf_stop w" "wf_checkpoints (with_approval a w) = wf_checkpoints w"
  by (simp_all add: with_approval_def)

lemma reapproved_simps [simp]:
  "cd_sessions (reapproved a ss db) = cd_sessions db" "cd_actions (reapproved a ss db) = cd_actions db"
  "cd_evidence (reapproved a ss db) = cd_evidence db" "cd_takeovers (reapproved a ss db) = cd_takeovers db"
  "cd_events (reapproved a ss db) = cd_events db" "cd_plans (reapproved a ss db) = cd_plans db"
  "cd_targets (reapproved a ss db) = cd_targets db" "cd_approvals (reapproved a ss db) = cd_approvals db"
  "cd_verifications (reapproved a ss db) = cd_verifications db" "cd_steps (reapproved a ss db) = cd_steps db"
  "cd_checkpoints (reapproved a ss db) = cd_checkpoints db" "cd_checked (reapproved a ss db) = cd_checked db"
  "cd_recoveries (reapproved a ss db) = cd_recoveries db" "cd_tasks (reapproved a ss db) = cd_tasks db"
  "cd_workflows (reapproved a ss db) = map (with_approval a) (cd_workflows db)"
  by (simp_all add: reapproved_def)

lemma reapproved_updates [simp]:
  "(reapproved a ss db)\<lparr>cd_sessions := x1\<rparr> = reapproved a ss (db\<lparr>cd_sessions := x1\<rparr>)"
  "(reapproved a ss db)\<lparr>cd_actions := x2\<rparr> = reapproved a ss (db\<lparr>cd_actions := x2\<rparr>)"
  "(reapproved a ss db)\<lparr>cd_evidence := x3\<rparr> = reapproved a ss (db\<lparr>cd_evidence := x3\<rparr>)"
  "(reapproved a ss db)\<lparr>cd_takeovers := x4\<rparr> = reapproved a ss (db\<lparr>cd_takeovers := x4\<rparr>)"
  "(reapproved a ss db)\<lparr>cd_events := x5\<rparr> = reapproved a ss (db\<lparr>cd_events := x5\<rparr>)"
  "(reapproved a ss db)\<lparr>cd_plans := x6\<rparr> = reapproved a ss (db\<lparr>cd_plans := x6\<rparr>)"
  "(reapproved a ss db)\<lparr>cd_targets := x7\<rparr> = reapproved a ss (db\<lparr>cd_targets := x7\<rparr>)"
  "(reapproved a ss db)\<lparr>cd_approvals := x8\<rparr> = reapproved a ss (db\<lparr>cd_approvals := x8\<rparr>)"
  "(reapproved a ss db)\<lparr>cd_verifications := x9\<rparr> = reapproved a ss (db\<lparr>cd_verifications := x9\<rparr>)"
  "(reapproved a ss db)\<lparr>cd_steps := x10\<rparr> = reapproved a ss (db\<lparr>cd_steps := x10\<rparr>)"
  "(reapproved a ss db)\<lparr>cd_checkpoints := x11\<rparr> = reapproved a ss (db\<lparr>cd_checkpoints := x11\<rparr>)"
  "(reapproved a ss db)\<lparr>cd_checked := x12\<rparr> = reapproved a ss (db\<lparr>cd_checked := x12\<rparr>)"
  "(reapproved a ss db)\<lparr>cd_recoveries := x13\<rparr> = reapproved a ss (db\<lparr>cd_recoveries := x13\<rparr>)"
  "(reapproved a ss db)\<lparr>cd_tasks := x14\<rparr> = reapproved a ss (db\<lparr>cd_tasks := x14\<rparr>)"
  by (simp_all add: reapproved_def)

section \<open>The executor\<close>

text \<open>An operation whose answer has no workflow in it.\<close>

definition blind :: "(computer_db, 'e, 'x) transaction \<Rightarrow> bool" where
  "blind f \<longleftrightarrow> (\<forall>a ss. alike (reapproved a ss) id f f)"

lemma blind_bind: "blind f \<Longrightarrow> (\<And>x. blind (k x)) \<Longrightarrow> blind (tx_bind f k)"
  unfolding blind_def by (intro allI alike_bind [where g = id]) simp_all

lemma blind_basic: "blind (tx_return x)" "blind (tx_fail e)" "blind (tx_check c)"
  by (simp_all add: blind_def alike_basic)

lemma blind_read: "(\<And>a ss db. m (reapproved a ss db) = m db) \<Longrightarrow> blind (tx_read m)"
  by (auto simp: blind_def intro: alike_read)

lemma blind_write: "(\<And>a ss db. m (reapproved a ss db) = reapproved a ss (m db)) \<Longrightarrow> blind (tx_write m)"
  by (auto simp: blind_def intro: alike_write)

lemma blind_some: "(\<And>a ss db. m (reapproved a ss db) = m db) \<Longrightarrow> blind (\<lambda>db. tx_some (m db) e db)"
  by (auto simp: blind_def option.map_id intro: alike_some)

lemma blind_after_commit: "blind f \<Longrightarrow> blind (after_commit c f)"
  by (fastforce simp: blind_def alike_def after_commit_def image_of_def split: sum.splits option.splits)

lemma put_reapproved [simp]:
  "put_approval x (reapproved a ss db) = reapproved a ss (put_approval x db)"
  "put_plan_target p t (reapproved a ss db) = reapproved a ss (put_plan_target p t db)"
  by (simp_all add: put_approval_def put_plan_target_def)

lemma finds_reapproved [simp]:
  "plan_approval p t (reapproved a ss db) = plan_approval p t db" "find_plan f (reapproved a ss db) = find_plan f db"
  "find_session env u i (reapproved a ss db) = find_session env u i db"
  "owner_fingerprint env u (reapproved a ss db) = owner_fingerprint env u db"
  by (simp_all add: plan_approval_def find_plan_def find_session_def owner_fingerprint_def split: option.splits)

lemma blind_leaves:
  "blind (add_policy_event r)" "blind (add_evidence_row env s i k f)" "blind (add_action_row s ai w)"
  "blind (insert_plan p t x)" "blind (approve_action_row env c u tr y)" "blind (approval_or_new env p t u sc tr)"
  "blind (reuse_plan af o1 pp p)" "blind (verify_action_result env p y j b1 a1 tr)" "blind (get_session s)"
  "blind (put_session z)"
  unfolding blind_def alike_def add_policy_event_def add_evidence_row_def add_action_row_def insert_plan_def
    approve_action_row_def approval_or_new_def reuse_plan_def verify_action_result_def get_session_def put_session_def
    fail_saving_def tx_fail_def tx_some_def tx_write_def Let_def
  by (auto split: option.splits list.splits)

lemma blind_closing: "blind (closing_event c r)"
  using blind_leaves(1) [of r]
  by (auto simp: blind_def alike_def closing_event_def image_of_def split: sum.splits)

lemma blind_safe_check: "blind (safe_check env c s ctx)"
  unfolding blind_def alike_def safe_check_def fail_saving_def
  by (auto split: option.splits prod.splits)

lemma blind_approved: "blind (approved_for_execution env c p t h)"
  unfolding blind_def alike_def approved_for_execution_def fail_saving_def
  by (auto split: option.splits)

lemmas blind_rules = blind_after_commit blind_bind blind_basic blind_leaves blind_closing blind_safe_check blind_approved

lemma blind_plan_target: "blind (plan_target p)"
  unfolding plan_target_def by (intro blind_rules blind_some) simp_all

lemma blind_new_plan: "blind (new_action_plan env f sc)"
  unfolding new_action_plan_def Let_def by (intro blind_rules)

lemma blind_create_plan: "blind (create_action_plan env u f)"
  unfolding create_action_plan_def Let_def
  by (intro blind_rules blind_some blind_read) (auto intro: blind_rules blind_new_plan split: option.splits)

lemma blind_approve: "blind (approve_action env c p i sc tr h)"
  unfolding approve_action_def Let_def
  by (intro blind_bind blind_plan_target) (auto intro!: blind_rules blind_write split: prod.splits)

lemma blind_reject: "blind (reject_action env p i re tr)"
  unfolding reject_action_def Let_def
  by (intro blind_bind blind_plan_target) (auto intro!: blind_rules blind_write split: prod.splits)

lemma blind_record: "blind (record_execution env s f p out)"
  unfolding record_execution_def Let_def
  by (intro blind_rules blind_write) (auto split: option.splits)

lemma blind_runtime: "blind (runtime_execute env c s f au)"
  unfolding runtime_execute_def
  by (intro blind_bind blind_basic blind_safe_check) (auto intro: blind_basic blind_record split: sum.splits)

lemma blind_finish: "blind (finish_execution env p t x r tr)"
  unfolding finish_execution_def Let_def
  by (cases r) (auto intro!: blind_rules blind_write)

lemma blind_execute: "blind (execute_action env c p h tr au)"
  unfolding execute_action_def
  by (intro blind_bind blind_plan_target) (auto intro!: blind_rules blind_some blind_runtime blind_finish split: prod.splits)

lemma blind_authorization: "blind (step_authorization env w f)"
  unfolding step_authorization_def by (auto intro!: blind_basic split: option.splits)

lemma blind_sessions:
  "blind (create_session env form)" "blind (request_takeover i u re s)"
  by (auto simp: blind_def alike_def create_session_def request_takeover_def tx_bind_def tx_check_def Let_def
      split: option.splits)

lemma blind_session_requests:
  "blind (pause_session i)" "blind (resume_session i)" "blind (cancel_session env i)" "blind (close_session env i)"
  "blind (handoff_to_human env i u re)" "blind (capture_screen env i)" "blind (run_session_action env i f)"
  unfolding pause_session_def resume_session_def cancel_session_def close_session_def handoff_to_human_def
    capture_screen_def run_session_action_def
  by (intro blind_rules blind_sessions blind_runtime)+

lemma blind_cancel_action: "blind (cancel_action env p re tr)"
  using blind_closing
  by (auto simp: blind_def alike_def cancel_action_def Let_def split: option.splits)

section \<open>The workflows\<close>

text \<open>What a workflow is after \<open>reapproved\<close>: the requests that look one up get it with the other approval.\<close>

lemma owned_reapproved [simp]:
  "owned_rows sha u t wf_task (map (with_approval a) ws) = map (with_approval a) (owned_rows sha u t wf_task ws)"
  by (induction ws) (simp_all add: owned_rows_def)

lemma row_get_reapproved [simp]: "row_get wf_id i (map (with_approval a) ws) = map_option (with_approval a) (row_get wf_id i ws)"
  by (induction ws) (simp_all add: row_get_def)

lemma owned_workflow_alike: "alike (reapproved a ss) (with_approval a) (owned_workflow env i) (owned_workflow env i)"
  unfolding owned_workflow_def alike_def by (auto simp: tx_some_def split: option.splits)

lemma put_workflow_reapproved:
  "put_workflow (with_approval a w) (reapproved a ss db) = reapproved a ss (put_workflow w db)"
  by (simp add: put_workflow_def reapproved_def row_put_def comp_def with_approval_def cong: if_cong)

lemma steps_reapproved [simp]:
  "steps_of i (reapproved a ss db) = steps_of i db" "next_step (with_approval a w) (reapproved a ss db) = next_step w db"
  "approved_checkpoint (with_approval a w) s (reapproved a ss db) = approved_checkpoint w s db"
  "put_step s (reapproved a ss db) = reapproved a ss (put_step s db)"
  by (simp_all add: steps_of_def next_step_def approved_checkpoint_def put_step_def)

lemma payload_reapproved [simp]:
  "build_action_payload env (with_approval a w) s = build_action_payload env w s"
  "ensure_budget_within_limits env (with_approval a w) = ensure_budget_within_limits env w"
  "step_authorization env (with_approval a w) f = step_authorization env w f"
  "run_step_action env scr (with_approval a w) f = run_step_action env scr w f"
  "step_verification_row env scr (with_approval a w) s p r = step_verification_row env scr w s p r"
  unfolding build_action_payload_def ensure_budget_within_limits_def step_authorization_def run_step_action_def
    step_verification_row_def step_trace_def with_approval_simps
  by (rule refl)+

lemma blind_run_step: "blind (run_step_action env scr w f)"
  unfolding run_step_action_def
  by (intro blind_bind blind_authorization)
    (auto intro!: blind_rules blind_create_plan blind_approve blind_execute split: prod.splits)

lemma verify_step_reapproved [simp]: "verify_step_result env (with_approval a w) = verify_step_result env w"
  by (intro ext) (simp add: verify_step_result_def same_attempt_def cong: option.case_cong)

lemma blind_verify_step: "blind (verify_step_result env w s row p i)"
  unfolding blind_def alike_def verify_step_result_def
  by (auto simp: same_attempt_def split: option.splits)

lemma with_approval_updates [simp]:
  "(with_approval a w)\<lparr>wf_status := x\<rparr> = with_approval a (w\<lparr>wf_status := x\<rparr>)"
  "(with_approval a w)\<lparr>wf_started := y\<rparr> = with_approval a (w\<lparr>wf_started := y\<rparr>)"
  "(with_approval a w)\<lparr>wf_finished := y\<rparr> = with_approval a (w\<lparr>wf_finished := y\<rparr>)"
  "(with_approval a w)\<lparr>wf_stop := z\<rparr> = with_approval a (w\<lparr>wf_stop := z\<rparr>)"
  "(with_approval a w)\<lparr>wf_current := n\<rparr> = with_approval a (w\<lparr>wf_current := n\<rparr>)"
  "(with_approval a w)\<lparr>wf_checkpoints := n\<rparr> = with_approval a (w\<lparr>wf_checkpoints := n\<rparr>)"
  by (simp_all add: with_approval_def)

lemma settled_reapproved [simp]:
  "settled_workflow env v s (reapproved a ss db) (with_approval a w) = with_approval a (settled_workflow env v s db w)"
proof -
  let ?u = "w\<lparr>wf_current := max (wf_current w) (ws_number s),
       wf_checkpoints := wf_checkpoints w + (if ws_checkpoint s then 1 else 0),
       wf_status := (if ws_status s = [0x5DF2, 0x5931, 0x8D25] then [0x5DF2, 0x5931, 0x8D25] else [0x5DF2, 0x6682, 0x505C]),
       wf_stop := (if ws_status s = [0x5DF2, 0x5931, 0x8D25] then text_or (wv_result v) (Some [0x6B65, 0x9AA4, 0x9A8C, 0x8BC1, 0x5931, 0x8D25]) else wf_stop w)\<rparr>"
  show ?thesis
    unfolding settled_workflow_def Let_def with_approval_simps with_approval_updates steps_reapproved
    by (cases "next_step ?u db") simp_all
qed

lemma task_result_reapproved [simp]:
  "ensure_task_result env (with_approval a w) c (reapproved a ss db) = reapproved a ss (ensure_task_result env w c db)"
  by (auto simp: ensure_task_result_def Let_def split: option.splits)

lemma recovery_reapproved [simp]: "record_recovery env (with_approval a w) = record_recovery env w"
  by (intro ext) (simp add: record_recovery_def)

lemma blind_recovery: "blind (record_recovery env w s re tr)"
  by (auto simp: blind_def alike_def record_recovery_def split: option.splits)

lemma settle_step_alike: "alike (reapproved a ss) id (settle_step env tr w s v) (settle_step env tr (with_approval a w) s v)"
  unfolding settle_step_def Let_def
proof (intro alike_bind [where g = "with_approval a"] alike_bind [where g = id], goal_cases)
  case 1
  show ?case by (rule alike_read) simp
next
  case (2 w1)
  show ?case using blind_recovery by (simp add: blind_def alike_basic)
next
  case (3 w1 u)
  show ?case by (rule alike_write) (simp add: put_workflow_reapproved)
qed

lemma perform_step_alike: "alike (reapproved a ss) id (perform_step env scr w s) (perform_step env scr (with_approval a w) s)"
  unfolding perform_step_def Let_def payload_reapproved with_approval_simps with_approval_updates verify_step_reapproved
  using blind_run_step blind_verify_step settle_step_alike
  by (intro alike_bind [where g = id]) (auto simp: blind_def intro!: alike_bind [where g = id] alike_basic split: prod.splits)

lemma create_checkpoint_alike:
  "alike (reapproved a ss) (with_approval a) (create_checkpoint_approval env w s r m t)
     (create_checkpoint_approval env (with_approval a w) s r m t)"
  unfolding alike_def create_checkpoint_approval_def Let_def with_approval_simps with_approval_updates reapproved_simps
  by (auto simp: put_workflow_reapproved split: option.splits)

lemma execute_step_alike: "alike (reapproved a ss) id (execute_step env i n scr) (execute_step env i n scr)"
  unfolding execute_step_def
proof (rule alike_bind [OF owned_workflow_alike], unfold with_approval_simps payload_reapproved,
    intro alike_bind [where g = id], goal_cases)
  case (2 w u)
  show ?case by (rule alike_some) (simp add: option.map_id)
next
  case (4 w u s v)
  show ?case by (rule alike_read) simp
next
  case (5 w u s v ok)
  have "alike (reapproved a ss) id
      (tx_bind (create_checkpoint_approval env w s r m t) (\<lambda>_. tx_bind (tx_write (put_step q)) (\<lambda>_. tx_return Halted)))
      (tx_bind (create_checkpoint_approval env (with_approval a w) s r m t) (\<lambda>_. tx_bind (tx_write (put_step q)) (\<lambda>_. tx_return Halted)))"
    for r m t q
    by (intro alike_bind [OF create_checkpoint_alike] alike_bind [where g = id] alike_write) (simp_all add: alike_basic)
  then show ?case using perform_step_alike by simp
qed (simp_all add: alike_basic)

lemma blind_execute_step: "blind (execute_step env i n scr)"
  by (simp add: blind_def execute_step_alike)

lemma blind_resume: "blind (resume_workflow env i scr)"
  unfolding blind_def resume_workflow_def
proof (intro allI, rule alike_bind [OF owned_workflow_alike], unfold with_approval_simps,
    intro alike_bind [where g = id], goal_cases)
  case (2 a ss w u)
  show ?case by (rule alike_read) simp
qed (auto simp: alike_basic execute_step_alike split: option.splits)

lemma blind_pause: "blind (pause_workflow env i reason)" "blind (cancel_workflow env i reason)"
  unfolding blind_def pause_workflow_def cancel_workflow_def
  by (intro allI, rule alike_bind [OF owned_workflow_alike], rule alike_write, simp add: put_workflow_reapproved)+

lemma list_ex_reapproved [simp]:
  "list_ex (\<lambda>w. wf_id w = i) (map (with_approval a) ws) = list_ex (\<lambda>w. wf_id w = i) ws"
  by (induction ws) simp_all

lemma blind_owned_checkpoint: "blind (owned_checkpoint env c)"
  unfolding owned_checkpoint_def by (rule blind_some) simp

lemma put_checkpoint_reapproved [simp]:
  "put_checkpoint c (reapproved a ss db) = reapproved a ss (put_checkpoint c db)"
  "put_step_status k x (reapproved a ss db) = reapproved a ss (put_step_status k x db)"
  by (simp_all add: put_checkpoint_def put_step_status_def split: option.splits)

lemma blind_put_owned:
  assumes "\<And>a w. f (with_approval a w) = with_approval a (f w)" and "blind k"
  shows "blind (tx_bind (owned_workflow env i) (\<lambda>w. tx_bind (tx_write (put_workflow (f w))) (\<lambda>_. k)))"
  unfolding blind_def
proof (intro allI, rule alike_bind [OF owned_workflow_alike], rule alike_bind [where g = id])
  fix a ss w
  show "alike (reapproved a ss) id (tx_write (put_workflow (f w))) (tx_write (put_workflow (f (with_approval a w))))"
    by (rule alike_write) (simp add: assms(1) put_workflow_reapproved)
  show "alike (reapproved a ss) id k k" using assms(2) by (simp add: blind_def)
qed

lemma blind_step_status: "blind (tx_write (put_step_status k x))"
  by (rule blind_write) simp

lemma blind_checkpoint: "blind (approve_workflow_checkpoint env c u tr)" "blind (reject_workflow_checkpoint env c u re tr)"
proof -
  show "blind (approve_workflow_checkpoint env c u tr)"
    unfolding approve_workflow_checkpoint_def
    by (rule blind_bind [OF blind_owned_checkpoint], rule blind_bind [OF blind_basic(3)],
        rule blind_bind [OF blind_write], simp, rule blind_put_owned [OF _ blind_step_status]) simp
  show "blind (reject_workflow_checkpoint env c u re tr)"
    unfolding reject_workflow_checkpoint_def
    by (rule blind_bind [OF blind_owned_checkpoint], rule blind_bind [OF blind_write], simp,
        rule blind_put_owned [OF _ blind_step_status]) simp
qed

section \<open>Requests\<close>

text \<open>The requests that make, read or set the approval of a workflow.\<close>

definition concerns_approval :: "request \<Rightarrow> bool" where
  "concerns_approval r =
     (case r of CreateWorkflow _ \<Rightarrow> True | ApproveWorkflow _ _ _ \<Rightarrow> True | RejectWorkflow _ _ _ _ \<Rightarrow> True
      | StartWorkflow _ _ \<Rightarrow> True | _ \<Rightarrow> False)"

lemma blind_done: "blind f \<Longrightarrow> blind (done_tx f)"
  unfolding done_tx_def by (intro blind_bind blind_basic)

lemma blind_with_target: "(\<And>t. blind (f t)) \<Longrightarrow> blind (with_target i f)"
  unfolding with_target_def by (intro blind_bind blind_some) simp_all

lemma blind_serve: "\<not> concerns_approval r \<Longrightarrow> blind (serve env r)"
  unfolding serve_def Let_def
  by (cases r; simp only: request.case concerns_approval_def simp_thms)
    (intro blind_bind blind_basic blind_done blind_with_target blind_sessions blind_session_requests blind_create_plan
      blind_approve blind_reject blind_execute blind_cancel_action blind_resume blind_pause blind_checkpoint)+

lemma request_step_reapproved:
  "\<not> concerns_approval (snd e) \<Longrightarrow> request_step (reapproved a ss db) e = reapproved a ss (request_step db e)"
  unfolding request_step_def by (rule alike_run [where g = id]) (use blind_serve in \<open>simp add: blind_def\<close>)

lemma requests_reapproved:
  "list_all (\<lambda>e. \<not> concerns_approval (snd e)) es \<Longrightarrow>
     run_events request_step (reapproved a ss db) es = reapproved a ss (run_events request_step db es)"
  by (induction es arbitrary: db) (simp_all add: request_step_reapproved)

end
