(* ===== verification/Computer_Claims.thy ===== *)
theory Computer_Claims
  imports Computer_Tenant Computer_Replay Computer_Approval
begin

text \<open>The properties of the computer executor and its workflows.\<close>

section \<open>A small installation\<close>

text \<open>
  One user with one task, every feature switched on, identifiers made of the time of the request and a
  counter; a workflow of two waiting steps. The witnesses below run on it.
\<close>

definition computer_demo_settings :: computer_settings where
  "computer_demo_settings = \<lparr>st_test = True, st_production = False, st_executor = True, st_openclaw = False, st_capture = True,
     st_takeover = True, st_clipboard_read = False, st_clipboard_write = False, st_upload = False, st_download = False,
     st_safe_action = True, st_move = True, st_click = True, st_text = True, st_per_action = True, st_verification = True,
     st_safe_workflow = True, st_auto_continue = False, st_allowed_apps = [], st_blocked_apps = [],
     st_allowed_windows = [], st_blocked_windows = [], st_origins = [], st_chrome = False\<rparr>"

definition computer_demo_user :: app_user where "computer_demo_user = \<lparr>ur_id = 1, ur_tenant = 1, ur_company = 1\<rparr>"

definition computer_demo_env :: "int \<Rightarrow> computer_env" where
  "computer_demo_env k = \<lparr>cn_settings = computer_demo_settings, cn_user = Some computer_demo_user, cn_now = k, cn_iso = (\<lambda>t. [t]),
     cn_sha = (\<lambda>t. [1]), cn_digest = dumps, cn_uuid = (\<lambda>n. [k, int n]), cn_uuid5 = dumps, cn_jwt = (\<lambda>c. []),
     cn_page = (\<lambda>u a. None), cn_float = (\<lambda>r. 0)\<rparr>"

definition no_tasks :: task_db where
  "no_tasks = \<lparr>td_stores = [], td_members = [], td_tasks = [], td_results = [], td_runs = [], td_graphs = []\<rparr>"

definition computer_demo_tasks :: task_db where
  "computer_demo_tasks = no_tasks\<lparr>td_tasks := [bind_task_ownership (\<lambda>t. [1]) computer_demo_user None no_tasks
     \<lparr>ct_id = 1, ct_status = asc ''created'', ct_summary = None, ct_code = None, ct_name = None, ct_tenant = None,
      ct_company = None, ct_requester = None, ct_stores = None, ct_key = None, ct_run = None\<rparr>]\<rparr>"

definition wait_step :: step_form where
  "wait_step = \<lparr>sp_type = [0x7B49, 0x5F85], sp_application = None, sp_bundle = None, sp_window = None, sp_url = None,
     sp_control = None, sp_input = None, sp_expected = None, sp_risk = asc ''low'', sp_approval = False,
     sp_checkpoint = False, sp_coordinates = None, sp_text = None, sp_trace = None\<rparr>"

definition computer_demo_form :: workflow_form where
  "computer_demo_form = \<lparr>wn_task = Some 1, wn_employee = None, wn_skill = None, wn_device = None, wn_session = None,
     wn_goal = asc ''g'', wn_risk = asc ''low'', wn_max = 5, wn_budget = JNull, wn_steps = [wait_step, wait_step], wn_trace = None\<rparr>"

definition computer_demo_screen :: screen where
  "computer_demo_screen = \<lparr>sn_application = None, sn_window = None, sn_hash = None, sn_trace = None\<rparr>"

definition demo_created :: computer_db where
  "demo_created = request_step (empty_computer computer_demo_tasks)
     (computer_demo_env 1, CreateWorkflow computer_demo_form)"

text \<open>A session of the user, a planned wait in it, and its approval.\<close>

definition computer_demo_session :: computer_session where
  "computer_demo_session =
     \<lparr>cs_id = [], cs_execution = None, cs_task = Some 1, cs_employee = None, cs_skill = None, cs_executor = asc ''mock'',
      cs_environment = asc ''test'', cs_status = [], cs_risk = asc ''low'', cs_approval = [], cs_apps = [], cs_windows = [],
      cs_started = 0, cs_expires = 0, cs_ended = None, cs_takeover = [], cs_shot = None, cs_trace = None\<rparr>"

definition computer_demo_wait :: action_form where
  "computer_demo_wait =
     \<lparr>af_session = [1, 6], af_observation = None, af_task = None, af_employee = None, af_skill = None, af_application = None,
      af_bundle = None, af_window = None, af_url = None, af_goal = asc ''g'', af_type = [0x7B49, 0x5F85], af_control = None,
      af_label = None, af_identifier = None, af_description = None, af_coordinates = None, af_text = None,
      af_mode = [0x9010, 0x6B65, 0x5BA1, 0x6279], af_risk = asc ''low'', af_max = 1, af_trace = Some (asc ''t''), af_fallback = False\<rparr>"

definition computer_demo_opened :: computer_db where
  "computer_demo_opened =
     request_step (empty_computer computer_demo_tasks) (computer_demo_env 1, CreateSession computer_demo_session)"

definition computer_demo_planned :: computer_db where
  "computer_demo_planned = request_step computer_demo_opened (computer_demo_env 2, CreatePlan computer_demo_wait)"

definition computer_demo_approved :: computer_db where
  "computer_demo_approved = request_step computer_demo_planned (computer_demo_env 3, ApproveAction [2, 0] None None None None)"

section \<open>The tables of the workflows\<close>

text \<open>
  C6: after any sequence of requests, of any users, every workflow has two to five steps numbered one
  after the other from one, its current step lies between zero and their number, a step has been executed
  exactly behind it, and a completed step names the action and the verification that completed it.
\<close>

theorem workflow_tables_invariant:
  "list_all
     (\<lambda>w. 2 \<le> wf_total w \<and> wf_total w \<le> 5 \<and> 0 \<le> wf_current w \<and> wf_current w \<le> wf_total w \<and>
        map ws_number (steps_of (wf_id w) (run_events request_step (empty_computer t) es)) = [1..wf_total w])
     (cd_workflows (run_events request_step (empty_computer t) es)) \<and>
   list_all
     (\<lambda>s. list_ex (\<lambda>w. wf_id w = ws_workflow s \<and> (ws_action s = None \<or> ws_number s \<le> wf_current w))
            (cd_workflows (run_events request_step (empty_computer t) es)) \<and>
        (if ws_status s = [0x5DF2, 0x5B8C, 0x6210] then ws_action s \<noteq> None \<and> ws_verification s \<noteq> None else True))
     (cd_steps (run_events request_step (empty_computer t) es))"
  using flow_ok_requests [of t es]
  by (auto simp: flow_ok_def list_all_iff workflow_ok_def step_ok_def)

lemma audit_of_good:
  assumes "flow_ok db" and "workflow_audit env wid db = Inr (evs, db')" and "ev \<in> set evs"
  shows "case ev of StepFailed _ \<Rightarrow> False | RecoveryEvent _ _ \<Rightarrow> False | WorkflowEvent s \<Rightarrow> s \<noteq> [0x5DF2, 0x5931, 0x8D25] | _ \<Rightarrow> True"
proof -
  from assms(2) obtain w where w: "owned_workflow env wid db = Inr (w, db)"
    and evs: "evs = summarize_workflow_audit w (steps_of wid db)
       (filter (\<lambda>a. wa_workflow a = wid) (cd_scopes db)) (filter (\<lambda>c. wc_workflow c = wid) (cd_checkpoints db))
       (filter (\<lambda>r. wr_workflow r = wid) (cd_recoveries db))"
    using owned_workflow_in(1) by (fastforce simp: workflow_audit_def tx_bind_Inr)
  have s: "ws_status s \<noteq> [0x5DF2, 0x5931, 0x8D25]" if "s \<in> set (steps_of wid db)" for s
    using flow_ok_step [OF assms(1)] that by (auto simp: steps_of_def step_ok_def)
  from flow_ok_workflow [OF assms(1) owned_workflow_in(2) [OF w]] have "wf_status w \<noteq> [0x5DF2, 0x5931, 0x8D25]"
    by (simp add: workflow_ok_def)
  moreover from assms(1) have "cd_recoveries db = []" by (simp add: flow_ok_def)
  ultimately show ?thesis using assms(3) s
    by (auto simp: evs summarize_workflow_audit_def step_events_def split: if_splits)
qed

text \<open>
  C23: no failure is ever recorded. After any sequence of requests the audit of a workflow shows no failed
  step, no recovery and no failed workflow: the verification of an executed action looks for a key the
  dictionary it is given does not have, and so passes whatever the action did.
\<close>

theorem no_failure_is_recorded:
  "case workflow_audit env wid (run_events request_step (empty_computer t) es) of
     Inl _ \<Rightarrow> True
   | Inr (evs, _) \<Rightarrow>
       list_all (\<lambda>ev. case ev of StepFailed _ \<Rightarrow> False | RecoveryEvent _ _ \<Rightarrow> False
                      | WorkflowEvent s \<Rightarrow> s \<noteq> [0x5DF2, 0x5931, 0x8D25] | _ \<Rightarrow> True) evs"
  using audit_of_good [OF flow_ok_requests]
  by (auto simp: list_all_iff split: sum.splits prod.splits)

section \<open>Other users\<close>

lemma tenant_ok_requests:
  "distinct (map ct_id (td_tasks t)) \<Longrightarrow> tenant_ok (run_events request_step (empty_computer t) es)"
  by (rule tenants.run_inv) (simp add: tenant_ok_def empty_computer_def)

text \<open>
  C5: a request never touches the workflows of other users. Whatever was requested before, a further
  request of a user leaves every workflow whose task the user does not own as the row it is, and every step
  of such a workflow too. The task ids are the primary key of their table.
\<close>

theorem other_users_workflows_untouched:
  assumes "distinct (map ct_id (td_tasks t))"
  shows "foreign_workflows env (run_events request_step (empty_computer t) (es @ [(env, r)])) =
           foreign_workflows env (run_events request_step (empty_computer t) es) \<and>
         foreign_steps env (run_events request_step (empty_computer t) (es @ [(env, r)])) =
           foreign_steps env (run_events request_step (empty_computer t) es)"
  using tenant_ok_requests [OF assms, of es] request_step_tenant [of "(env, r)" "run_events request_step (empty_computer t) es"]
  by (simp add: tenant_step_def others_kept_def)

theorem other_users_workflows_untouched_witness:
  "foreign_workflows (computer_demo_env 9) (run_events request_step (empty_computer computer_demo_tasks)
       ([(computer_demo_env 1, CreateWorkflow computer_demo_form)] @ [(computer_demo_env 9, PauseWorkflow [1, 10] None)])) =
     foreign_workflows (computer_demo_env 9) (run_events request_step (empty_computer computer_demo_tasks)
       [(computer_demo_env 1, CreateWorkflow computer_demo_form)])"
  by (rule other_users_workflows_untouched [THEN conjunct1]) (simp add: computer_demo_tasks_def)

section \<open>A workflow nobody approved\<close>

text \<open>
  C24: after a workflow is made its approval is read when it is started and nowhere else. Take any database
  and give every workflow another approval status, and the approvals table other rows: a sequence of
  requests of any users, none of which creates, approves, rejects or starts a workflow, changes both
  databases alike. So a workflow whose approval still waits, or was refused, is paused, resumed and executed
  like an approved one.
\<close>

theorem unapproved_workflow_executes:
  assumes "list_all (\<lambda>e. \<not> concerns_approval (snd e)) es"
  shows "run_events request_step (reapproved a ss db) es = reapproved a ss (run_events request_step db es)"
  using assms by (rule requests_reapproved)

text \<open>
  The small installation: its workflow refused and without an approval row, then paused and resumed. The
  first step is executed and completed.
\<close>

theorem unapproved_workflow_executes_witness:
  "let db = run_events request_step (reapproved (\<lambda>_. [0x5DF2, 0x62D2, 0x7EDD]) [] demo_created)
         [(computer_demo_env 2, PauseWorkflow [1, 10] None), (computer_demo_env 3, ResumeWorkflow [1, 10] computer_demo_screen)]
   in map (\<lambda>w. (wf_current w, wf_approval w)) (cd_workflows db) = [(1, [0x5DF2, 0x62D2, 0x7EDD])] \<and> cd_scopes db = [] \<and>
      map ws_status (cd_steps db) = [[0x5DF2, 0x5B8C, 0x6210], [0x5F85, 0x6267, 0x884C]] \<and>
      map ac_type (filter (\<lambda>a. ac_finished a \<noteq> None) (cd_actions db)) = [[0x7B49, 0x5F85]]"
proof -
  let ?es = "[(computer_demo_env 2, PauseWorkflow [1, 10] None), (computer_demo_env 3, ResumeWorkflow [1, 10] computer_demo_screen)]"
  have "let db = reapproved (\<lambda>_. [0x5DF2, 0x62D2, 0x7EDD]) [] (run_events request_step demo_created ?es)
   in map (\<lambda>w. (wf_current w, wf_approval w)) (cd_workflows db) = [(1, [0x5DF2, 0x62D2, 0x7EDD])] \<and> cd_scopes db = [] \<and>
      map ws_status (cd_steps db) = [[0x5DF2, 0x5B8C, 0x6210], [0x5F85, 0x6267, 0x884C]] \<and>
      map ac_type (filter (\<lambda>a. ac_finished a \<noteq> None) (cd_actions db)) = [[0x7B49, 0x5F85]]"
    by code_simp
  moreover have "list_all (\<lambda>e. \<not> concerns_approval (snd e)) ?es"
    by (simp add: concerns_approval_def)
  ultimately show ?thesis by (simp only: unapproved_workflow_executes)
qed

section \<open>One step at a time\<close>

lemma resume_or_start_step:
  assumes ok: "flow_ok db" and g: "row_get wf_id wid (cd_workflows db) = Some w"
    and r: "resume_workflow env wid scr db = Inr (Executed er, db') \<or> start_workflow env wid scr db = Inr (Stepped (Executed er), db')"
  shows "owned_workflow env wid db = Inr (w, db)" and "execute_step env wid (wf_current w + 1) scr db = Inr (Executed er, db')"
proof -
  from r obtain v d s where o: "owned_workflow env wid db = Inr (v, d)" and n: "next_step v d = Some s"
    and e: "execute_step env wid (ws_number s) scr d = Inr (Executed er, db')"
    by (elim disjE)
      (auto simp: resume_workflow_def start_workflow_def tx_bind_Inr split: option.splits if_splits)
  note in_v = owned_workflow_in [OF o]
  from ok have "distinct (map wf_id (cd_workflows db))" by (simp add: flow_ok_def)
  from distinct_key [OF this in_v(2) row_get_in [OF g]] row_get_key [OF g] in_v(3) have v: "v = w" by simp
  show "owned_workflow env wid db = Inr (w, db)" using o in_v(1) v by simp
  from next_step_iff(2) [OF flow_ok_workflow [OF ok in_v(2)] n [unfolded in_v(1)]] e in_v(1) v
  show "execute_step env wid (wf_current w + 1) scr db = Inr (Executed er, db')" by simp
qed

text \<open>
  C14: starting or resuming a workflow executes the step after the current one and no other. When the
  request answers with an executed step, the workflow has advanced by one; it is completed when that was its
  last step, and only then.
\<close>

theorem one_step_per_request:
  assumes "row_get wf_id wid (cd_workflows (run_events request_step (empty_computer t) es)) = Some w"
    and "resume_workflow env wid scr (run_events request_step (empty_computer t) es) = Inr (Executed er, db') \<or>
         start_workflow env wid scr (run_events request_step (empty_computer t) es) = Inr (Stepped (Executed er), db')"
  shows "\<exists>w'. row_get wf_id wid (cd_workflows db') = Some w' \<and> wf_current w' = wf_current w + 1 \<and>
           wf_total w' = wf_total w \<and> (wf_status w' = [0x5DF2, 0x5B8C, 0x6210] \<longleftrightarrow> wf_current w' = wf_total w')"
  using resume_or_start_step [OF flow_ok_requests assms] executed_step_advances [OF flow_ok_requests]
  by metis

text \<open>The small installation with its workflow created and paused.\<close>

definition computer_demo_events :: "(computer_env \<times> request) list" where
  "computer_demo_events =
     [(computer_demo_env 1, CreateWorkflow computer_demo_form), (computer_demo_env 2, PauseWorkflow [1, 10] None)]"

theorem one_step_per_request_witness:
  "case row_get wf_id [1, 10] (cd_workflows (run_events request_step (empty_computer computer_demo_tasks) computer_demo_events)) of
     None \<Rightarrow> False
   | Some w \<Rightarrow>
       (case resume_workflow (computer_demo_env 3) [1, 10] computer_demo_screen
               (run_events request_step (empty_computer computer_demo_tasks) computer_demo_events) of
          Inr (Executed _, db') \<Rightarrow> (\<exists>w'. row_get wf_id [1, 10] (cd_workflows db') = Some w' \<and> wf_current w' = wf_current w + 1)
        | _ \<Rightarrow> False)"
proof -
  have "case row_get wf_id [1, 10] (cd_workflows (run_events request_step (empty_computer computer_demo_tasks) computer_demo_events)) of
     None \<Rightarrow> False | Some _ \<Rightarrow> True" by code_simp
  moreover have "case resume_workflow (computer_demo_env 3) [1, 10] computer_demo_screen
               (run_events request_step (empty_computer computer_demo_tasks) computer_demo_events) of
          Inr (Executed _, _) \<Rightarrow> True | _ \<Rightarrow> False" by code_simp
  ultimately show ?thesis
    using one_step_per_request [where t = computer_demo_tasks and es = computer_demo_events and wid = "[1, 10]"
      and env = "computer_demo_env 3" and scr = computer_demo_screen]
    by (fastforce split: option.splits sum.splits step_reply.splits)
qed

section \<open>Requests sent again\<close>

text \<open>
  C9: an approved action is executed once. After a successful execution of a plan, with safe actions
  switched on, executing the same plan again is refused: whoever asks, whenever, with whatever screen hash,
  trace and authorisation.
\<close>

theorem action_executes_once:
  assumes "execute_action env c p h tr a db = Inr (r, db')" and "st_safe_action (cn_settings env)"
    and "st_safe_action (cn_settings env')"
  shows "case execute_action env' c' p h' tr' a' db' of Inl _ \<Rightarrow> True | Inr _ \<Rightarrow> False"
  using executed_again [OF assms(1,2) _ assms(3)] by (auto split: sum.splits)

theorem action_executes_once_witness:
  "case execute_action (computer_demo_env 4) True [2, 1] None None None computer_demo_approved of
     Inl _ \<Rightarrow> False
   | Inr (_, db') \<Rightarrow>
       (case execute_action (computer_demo_env 5) True [2, 1] None None None db' of Inl _ \<Rightarrow> True | Inr _ \<Rightarrow> False)"
proof -
  have "case execute_action (computer_demo_env 4) True [2, 1] None None None computer_demo_approved of Inl _ \<Rightarrow> False | Inr _ \<Rightarrow> True"
    by code_simp
  moreover have "st_safe_action (cn_settings (computer_demo_env k))" for k
    by (simp add: computer_demo_env_def computer_demo_settings_def)
  ultimately show ?thesis
    using action_executes_once by (fastforce split: sum.splits)
qed

text \<open>
  C15: asking for a plan twice is asking once. When a request with a trace has been answered with a plan,
  the same request sent later gets the very same plan, target and approval and changes nothing. The exception
  is an empty set of coordinates, which is stored as none and then compared with itself as given. Targets and
  approvals name plans there are.
\<close>

theorem repeated_plan_request:
  assumes "create_action_plan env u f db = Inr (reply, db1)" and "linked db" and "has_text (af_trace f)"
    and "af_coordinates f \<noteq> Some []"
  shows "create_action_plan (env\<lparr>cn_now := t, cn_uuid := g\<rparr>) u f db1 = Inr (reply, db1)"
  using assms by (rule plan_again)

theorem repeated_plan_request_witness:
  "case create_action_plan (computer_demo_env 2) (Some computer_demo_user) computer_demo_wait computer_demo_opened of
     Inl _ \<Rightarrow> False
   | Inr (reply, db1) \<Rightarrow>
       create_action_plan ((computer_demo_env 2)\<lparr>cn_now := 7, cn_uuid := (\<lambda>n. [7, int n])\<rparr>) (Some computer_demo_user)
         computer_demo_wait db1 = Inr (reply, db1)"
proof -
  have "case create_action_plan (computer_demo_env 2) (Some computer_demo_user) computer_demo_wait computer_demo_opened of
      Inl _ \<Rightarrow> False | Inr _ \<Rightarrow> True" by code_simp
  moreover have "linked computer_demo_opened" by code_simp
  moreover have "has_text (af_trace computer_demo_wait)" "af_coordinates computer_demo_wait \<noteq> Some []"
    by (simp_all add: computer_demo_wait_def has_text_def)
  ultimately show ?thesis by (auto intro: repeated_plan_request split: sum.splits)
qed

end
