(* ===== verification/Py_Regex.thy ===== *)
theory Py_Regex
  imports Prelude
begin

text \<open>
  The part of Python's \<^verbatim>\<open>re\<close> the knowledge center uses: character classes, greedy and lazy
  repetition of a class, sequences, alternatives and optional parts. A matcher gives the rests of
  the text after every way to match, in the order Python's backtracking tries them; \<^verbatim>\<open>search\<close>,
  \<^verbatim>\<open>sub\<close> and \<^verbatim>\<open>findall\<close> take the first. The lemmas relate the matcher to the language of a pattern
  and bound what a substitution can write.
\<close>

section \<open>Patterns\<close>

datatype rx =
    REmpty
  | RChar "int \<Rightarrow> bool"
  | RMany "int \<Rightarrow> bool"
  | RLazy "int \<Rightarrow> bool"
  | RSeq rx rx
  | RAlt rx rx
  | ROpt rx

fun greedy_rests :: "(int \<Rightarrow> bool) \<Rightarrow> ustr \<Rightarrow> ustr list" where
  "greedy_rests p [] = [[]]"
| "greedy_rests p (c # cs) = (if p c then greedy_rests p cs @ [c # cs] else [c # cs])"

fun lazy_rests :: "(int \<Rightarrow> bool) \<Rightarrow> ustr \<Rightarrow> ustr list" where
  "lazy_rests p [] = [[]]"
| "lazy_rests p (c # cs) = (c # cs) # (if p c then lazy_rests p cs else [])"

primrec rests :: "rx \<Rightarrow> ustr \<Rightarrow> ustr list" where
  "rests REmpty s = [s]"
| "rests (RChar p) s = (case s of [] \<Rightarrow> [] | c # cs \<Rightarrow> if p c then [cs] else [])"
| "rests (RMany p) s = greedy_rests p s"
| "rests (RLazy p) s = lazy_rests p s"
| "rests (RSeq r q) s = concat (map (rests q) (rests r s))"
| "rests (RAlt r q) s = rests r s @ rests q s"
| "rests (ROpt r) s = rests r s @ [s]"

text \<open>\<^verbatim>\<open>x+\<close>, \<^verbatim>\<open>x{0,n}\<close>, a sequence, and a word compared without regard to case.\<close>

definition rx_some :: "(int \<Rightarrow> bool) \<Rightarrow> rx" where
  "rx_some p = RSeq (RChar p) (RMany p)"

primrec rx_upto :: "nat \<Rightarrow> (int \<Rightarrow> bool) \<Rightarrow> rx" where
  "rx_upto 0 p = REmpty"
| "rx_upto (Suc n) p = ROpt (RSeq (RChar p) (rx_upto n p))"

definition rx_seq :: "rx list \<Rightarrow> rx" where
  "rx_seq rs = foldr RSeq rs REmpty"

definition rx_word :: "ustr \<Rightarrow> rx" where
  "rx_word w = rx_seq (map (\<lambda>c. RChar (\<lambda>x. re_fold x = c)) w)"

section \<open>Searching and replacing\<close>

fun rx_search :: "rx \<Rightarrow> ustr \<Rightarrow> bool" where
  "rx_search r [] = (rests r [] \<noteq> [])"
| "rx_search r (c # cs) = (rests r (c # cs) \<noteq> [] \<or> rx_search r cs)"

text \<open>
  Scanning from the left: a rule gives the text to write and the rest to go on with. None of the
  source's patterns matches the empty text, so a rule always moves on.
\<close>

function rewrite :: "(ustr \<Rightarrow> (ustr \<times> ustr) option) \<Rightarrow> ustr \<Rightarrow> ustr" where
  "rewrite f [] = []"
| "rewrite f (c # cs) =
     (case f (c # cs) of
        None \<Rightarrow> c # rewrite f cs
      | Some (new, rest) \<Rightarrow> if length rest \<le> length cs then new @ rewrite f rest else c # rewrite f cs)"
  by pat_completeness auto
termination
  by (relation "measure (length \<circ> snd)") auto

definition rx_sub :: "rx \<Rightarrow> ustr \<Rightarrow> ustr \<Rightarrow> ustr" where
  "rx_sub r new = rewrite (\<lambda>s. case rests r s of [] \<Rightarrow> None | t # _ \<Rightarrow> Some (new, t))"

text \<open>A pattern \<^verbatim>\<open>(label)value\<close> whose value is replaced and whose label is kept.\<close>

definition label_rule :: "rx \<Rightarrow> rx \<Rightarrow> ustr \<Rightarrow> ustr \<Rightarrow> (ustr \<times> ustr) option" where
  "label_rule label value new s =
     (case concat (map (\<lambda>t. map (Pair t) (rests value t)) (rests label s)) of
        [] \<Rightarrow> None
      | (t, u) # _ \<Rightarrow> Some (take (length s - length t) s @ new, u))"

definition rx_sub_label :: "rx \<Rightarrow> rx \<Rightarrow> ustr \<Rightarrow> ustr \<Rightarrow> ustr" where
  "rx_sub_label label value new = rewrite (label_rule label value new)"

function rx_findall :: "rx \<Rightarrow> ustr \<Rightarrow> ustr list" where
  "rx_findall r [] = []"
| "rx_findall r (c # cs) =
     (case rests r (c # cs) of
        [] \<Rightarrow> rx_findall r cs
      | t # _ \<Rightarrow> if length t \<le> length cs then take (length (c # cs) - length t) (c # cs) # rx_findall r t
                 else rx_findall r cs)"
  by pat_completeness auto
termination
  by (relation "measure (length \<circ> snd)") auto

section \<open>The language of a pattern\<close>

inductive matches :: "rx \<Rightarrow> ustr \<Rightarrow> bool" where
  empty: "matches REmpty []"
| char: "p c \<Longrightarrow> matches (RChar p) [c]"
| many: "list_all p s \<Longrightarrow> matches (RMany p) s"
| lazily: "list_all p s \<Longrightarrow> matches (RLazy p) s"
| seq: "matches r s \<Longrightarrow> matches q t \<Longrightarrow> matches (RSeq r q) (s @ t)"
| left: "matches r s \<Longrightarrow> matches (RAlt r q) s"
| right: "matches q s \<Longrightarrow> matches (RAlt r q) s"
| opt: "matches r s \<Longrightarrow> matches (ROpt r) s"
| skip: "matches (ROpt r) []"

inductive_simps matches_simps [simp]:
  "matches REmpty s" "matches (RChar p) s" "matches (RMany p) s" "matches (RLazy p) s"
  "matches (RSeq r q) s" "matches (RAlt r q) s" "matches (ROpt r) s"

lemma greedy_rests_iff: "t \<in> set (greedy_rests p s) \<longleftrightarrow> (\<exists>u. s = u @ t \<and> list_all p u)"
proof (induction p s rule: greedy_rests.induct)
  case (1 p)
  show ?case by auto
next
  case (2 p c cs)
  show ?case
  proof (cases "p c")
    case True
    with 2 show ?thesis by (auto simp: Cons_eq_append_conv)
  next
    case False
    then show ?thesis by (auto simp: Cons_eq_append_conv)
  qed
qed

lemma lazy_rests_iff: "t \<in> set (lazy_rests p s) \<longleftrightarrow> (\<exists>u. s = u @ t \<and> list_all p u)"
proof (induction p s rule: lazy_rests.induct)
  case (1 p)
  show ?case by auto
next
  case (2 p c cs)
  show ?case
  proof (cases "p c")
    case True
    with 2 show ?thesis by (auto simp: Cons_eq_append_conv)
  next
    case False
    then show ?thesis by (auto simp: Cons_eq_append_conv)
  qed
qed

text \<open>The matcher finds exactly the words of the language.\<close>

lemma rests_iff: "t \<in> set (rests r s) \<longleftrightarrow> (\<exists>u. s = u @ t \<and> matches r u)"
proof (induction r arbitrary: s t)
  case (RChar p)
  show ?case by (cases s) auto
next
  case (RSeq r q)
  show ?case
  proof
    assume "t \<in> set (rests (RSeq r q) s)"
    then obtain v where "v \<in> set (rests r s)" "t \<in> set (rests q v)" by auto
    with RSeq obtain u w where "s = u @ v" "matches r u" "v = w @ t" "matches q w" by blast
    then show "\<exists>u. s = u @ t \<and> matches (RSeq r q) u" by (intro exI [of _ "u @ w"]) auto
  next
    assume "\<exists>u. s = u @ t \<and> matches (RSeq r q) u"
    then obtain u w where "s = u @ w @ t" "matches r u" "matches q w" by auto
    with RSeq show "t \<in> set (rests (RSeq r q) s)" by auto
  qed
qed (auto simp: greedy_rests_iff lazy_rests_iff)

lemma rests_suffix: "t \<in> set (rests r s) \<Longrightarrow> suffix t s"
  by (auto simp: rests_iff suffix_def)

lemma matches_some [simp]: "matches (rx_some p) s \<longleftrightarrow> s \<noteq> [] \<and> list_all p s"
proof (cases s)
  case (Cons c cs)
  have "s = [c] @ cs" using Cons by simp
  with Cons show ?thesis by (auto simp: rx_some_def simp del: append.simps)
qed (simp add: rx_some_def)

lemma matches_seq [simp]:
  "matches (rx_seq []) s \<longleftrightarrow> s = []"
  "matches (rx_seq (r # rs)) s \<longleftrightarrow> (\<exists>u v. s = u @ v \<and> matches r u \<and> matches (rx_seq rs) v)"
  by (auto simp: rx_seq_def)

section \<open>What a substitution writes\<close>

lemma set_rewrite:
  "(\<And>s new rest. f s = Some (new, rest) \<Longrightarrow> set new \<subseteq> set s \<union> extra \<and> suffix rest s) \<Longrightarrow>
     set (rewrite f s) \<subseteq> set s \<union> extra"
proof (induction f s rule: rewrite.induct)
  case (1 f)
  show ?case by simp
next
  case (2 f c cs)
  note law = 2(4)
  show ?case
  proof (cases "f (c # cs)")
    case None
    with 2(1) law show ?thesis by auto
  next
    case (Some nr)
    obtain new rest where nr: "nr = (new, rest)" by (cases nr)
    with Some law have new: "set new \<subseteq> set (c # cs) \<union> extra" and "suffix rest (c # cs)" by blast+
    then have "set rest \<subseteq> set (c # cs)" using set_mono_suffix by blast
    have "set (rewrite f rest) \<subseteq> set rest \<union> extra" if "length rest \<le> length cs"
      by (rule 2(2) [OF Some nr [symmetric] that]) (rule law)
    moreover have "set (rewrite f cs) \<subseteq> set cs \<union> extra" if "\<not> length rest \<le> length cs"
      by (rule 2(3) [OF Some nr [symmetric] that]) (rule law)
    ultimately show ?thesis using Some nr new \<open>set rest \<subseteq> set (c # cs)\<close> by auto
  qed
qed

lemma set_rx_sub: "set (rx_sub r new s) \<subseteq> set s \<union> set new"
  unfolding rx_sub_def
proof (rule set_rewrite)
  fix s a t
  assume "(case rests r s of [] \<Rightarrow> None | t # _ \<Rightarrow> Some (new, t)) = Some (a, t)"
  then have "a = new \<and> t \<in> set (rests r s)" by (cases "rests r s") auto
  then show "set a \<subseteq> set s \<union> set new \<and> suffix t s" by (auto intro: rests_suffix)
qed

lemma set_rx_sub_label: "set (rx_sub_label label value new s) \<subseteq> set s \<union> set new"
  unfolding rx_sub_label_def
proof (rule set_rewrite)
  fix s a u
  assume "label_rule label value new s = Some (a, u)"
  then obtain t xs where *: "concat (map (\<lambda>t. map (Pair t) (rests value t)) (rests label s)) = (t, u) # xs"
    and a: "a = take (length s - length t) s @ new"
    by (auto simp: label_rule_def split: list.splits)
  have "(t, u) \<in> set (concat (map (\<lambda>t. map (Pair t) (rests value t)) (rests label s)))"
    by (simp only: *) simp
  then have "t \<in> set (rests label s)" "u \<in> set (rests value t)" by auto
  then have "suffix t s" "suffix u t" by (auto intro: rests_suffix)
  with a show "set a \<subseteq> set s \<union> set new \<and> suffix u s"
    by (auto dest: in_set_takeD intro: suffix_order.order_trans)
qed

end
