(* ===== verification/Knowledge_Text.thy ===== *)
theory Knowledge_Text
  imports Py_Regex Json
begin

text \<open>
  The text processing of the knowledge center: cleaning and redaction (\<^verbatim>\<open>sanitizer.py\<close>), cutting
  a text into indexed chunks (\<^verbatim>\<open>chunking.py\<close>), version numbers (\<^verbatim>\<open>versioning.py\<close>) and the words of a
  query (\<^verbatim>\<open>search.py\<close>). SHA-256 is the argument \<open>sha\<close>. The lemmas show that cleaned text holds no
  markup and no line break, that the chunks of a text are its sections cut to the size limit, and
  what follows for the texts the center stores.
\<close>

section \<open>Words and lines\<close>

text \<open>\<^verbatim>\<open>str.split()\<close> and \<^verbatim>\<open>str.splitlines()\<close>; the first argument is the word or line being read.\<close>

fun split_words :: "ustr \<Rightarrow> ustr \<Rightarrow> ustr list" where
  "split_words word [] = (if word = [] then [] else [word])"
| "split_words word (c # cs) =
     (if is_space c then (if word = [] then split_words [] cs else word # split_words [] cs)
      else split_words (word @ [c]) cs)"

definition is_break :: "int \<Rightarrow> bool" where
  "is_break c \<longleftrightarrow> 10 \<le> c \<and> c \<le> 13 \<or> 28 \<le> c \<and> c \<le> 30 \<or> c = 0x85 \<or> c = 0x2028 \<or> c = 0x2029"

fun split_lines :: "ustr \<Rightarrow> ustr \<Rightarrow> ustr list" where
  "split_lines line [] = (if line = [] then [] else [line])"
| "split_lines line (c # cs) =
     (if c = 13 then line # (case cs of [] \<Rightarrow> [] | d # ds \<Rightarrow> if d = 10 then split_lines [] ds else split_lines [] cs)
      else if is_break c then line # split_lines [] cs
      else split_lines (line @ [c]) cs)"

definition normalize_text :: "ustr \<Rightarrow> ustr" where
  "normalize_text value = strip (joined [32] (split_words [] value))"

section \<open>Cleaning\<close>

abbreviation any_char :: "int \<Rightarrow> bool" where
  "any_char \<equiv> \<lambda>_. True"

definition no_stop :: "int \<Rightarrow> bool" where
  "no_stop c \<longleftrightarrow> \<not> is_space c \<and> c \<noteq> 44 \<and> c \<noteq> 59"

definition is_in :: "ustr \<Rightarrow> int \<Rightarrow> bool" where
  "is_in cs c \<longleftrightarrow> c \<in> set cs"

text \<open>The labels of \<^verbatim>\<open>SECRET_PATTERNS\<close>, each with the pattern of its value.\<close>

definition SECRET_PATTERNS :: "(rx \<times> rx) list" where
  "SECRET_PATTERNS =
     [(rx_seq [rx_word (asc ''authorization''), RMany is_space, RChar (is_in (asc '':'')), RMany is_space, rx_word (asc ''bearer''), rx_some is_space], rx_some no_stop),
      (rx_seq [rx_word (asc ''api''), ROpt (RChar (is_in (asc ''_-''))), rx_word (asc ''key''), RMany is_space, RChar (is_in (asc '':='')), RMany is_space], rx_some no_stop),
      (rx_seq [rx_word (asc ''secret''), RMany is_space, RChar (is_in (asc '':='')), RMany is_space], rx_some no_stop),
      (rx_seq [rx_word (asc ''token''), RMany is_space, RChar (is_in (asc '':='')), RMany is_space], rx_some no_stop),
      (rx_seq [rx_word (asc ''cookie''), RMany is_space, RChar (is_in (asc '':='')), RMany is_space], rx_some no_stop),
      (rx_seq [rx_word (asc ''password''), RMany is_space, RChar (is_in (asc '':='')), RMany is_space], rx_some no_stop),
      (rx_seq [rx_word (asc ''private''), ROpt (RChar (is_in (asc ''_-''))), rx_word (asc ''key''), RMany (\<lambda>c. is_space c \<or> c = 58)],
       rx_seq [rx_word (asc ''-----begin''), rx_some (\<lambda>c. c \<noteq> 45), rx_word (asc ''-----''), RLazy any_char,
               rx_word (asc ''-----end''), rx_some (\<lambda>c. c \<noteq> 45), rx_word (asc ''-----'')])]"

definition INJECTION_PATTERNS :: "rx list" where
  "INJECTION_PATTERNS =
     [rx_seq [rx_word (asc ''ignore ''), RAlt (rx_word (asc ''all'')) (RAlt (rx_word (asc ''previous'')) (rx_word (asc ''above''))), rx_word (asc '' instructions'')],
      rx_word (asc ''system prompt''),
      rx_word (asc ''please act as''),
      rx_word (asc ''developer message''),
      rx_seq [rx_word (asc ''override ''), ROpt (rx_word (asc ''the '')), rx_word (asc ''instructions'')],
      rx_word [0x6267, 0x884C, 0x4EE5, 0x4E0B, 0x547D, 0x4EE4],
      rx_seq [rx_word [0x5FFD, 0x7565], RAlt (rx_word [0x4E4B, 0x524D]) (rx_word [0x4EE5, 0x4E0A]), RLazy (\<lambda>c. c \<noteq> 10), rx_word [0x6307, 0x4EE4]]]"

definition redact_sensitive_text :: "ustr \<Rightarrow> ustr" where
  "redact_sensitive_text value =
     fold (\<lambda>(label, secret_value) text. rx_sub_label label secret_value (asc ''[REDACTED]'') text) SECRET_PATTERNS value"

definition detect_prompt_injection :: "ustr \<Rightarrow> bool" where
  "detect_prompt_injection text = list_ex (\<lambda>pattern. rx_search pattern text) INJECTION_PATTERNS"

definition element_rx :: "ustr \<Rightarrow> rx" where
  "element_rx name =
     rx_seq [rx_word ((asc ''<'') @ name), RLazy any_char, rx_word (asc ''>''), RLazy any_char, rx_word ((asc ''</'') @ name @ (asc ''>''))]"

definition TAG :: rx where
  "TAG = rx_seq [rx_word (asc ''<''), rx_some (\<lambda>c. c \<noteq> 62), rx_word (asc ''>'')]"

definition strip_html_like_noise :: "ustr \<Rightarrow> ustr" where
  "strip_html_like_noise text =
     (let raw = rx_sub (element_rx (asc ''script'')) [32] text;
          raw = rx_sub (element_rx (asc ''style'')) [32] raw;
          raw = rx_sub (element_rx (asc ''noscript'')) [32] raw;
          raw = rx_sub TAG [32] raw
      in normalize_text raw)"

text \<open>What the workflow stores of a text it is given.\<close>

definition safe_text :: "ustr \<Rightarrow> ustr" where
  "safe_text content = redact_sensitive_text (strip_html_like_noise content)"

section \<open>Chunks\<close>

record chunk_data =
  ch_index :: int
  ch_heading :: ustr
  ch_content :: ustr
  ch_tokens :: int
  ch_hash :: ustr
  ch_metadata :: json

definition make_chunk :: "(ustr \<Rightarrow> ustr) \<Rightarrow> int \<Rightarrow> ustr \<Rightarrow> ustr \<Rightarrow> nat \<Rightarrow> chunk_data" where
  "make_chunk sha index heading content max_chars =
     (let normalized = joined [32] (split_words [] content);
          content = take max_chars normalized
      in \<lparr>ch_index = index,
          ch_heading = (if heading = [] then [0x7247, 0x6BB5, 0x20] @ int_text index else heading),
          ch_content = content,
          ch_tokens = max 1 (int (length content) div 4),
          ch_hash = sha content,
          ch_metadata = JObj [((asc ''heading''), JStr heading), ((asc ''length''), JInt (int (length content)))]\<rparr>)"

definition HEADING :: rx where
  "HEADING = rx_seq [RChar (is_in (asc ''#'')), rx_upto 5 (is_in (asc ''#'')), rx_some is_space, rx_some (\<lambda>c. c \<noteq> 10)]"

definition is_heading :: "ustr \<Rightarrow> bool" where
  "is_heading line \<longleftrightarrow> [] \<in> set (rests HEADING line)"

fun block_lines :: "ustr \<Rightarrow> ustr list \<Rightarrow> ustr list \<Rightarrow> (ustr \<times> ustr) list" where
  "block_lines heading body [] =
     (if heading \<noteq> [] \<or> body \<noteq> [] then [(heading, strip (joined [10] body))] else [])"
| "block_lines heading body (line # lines) =
     (let stripped = strip line
      in if stripped = [] then block_lines heading (if body = [] then [] else body @ [[]]) lines
         else if is_heading stripped
         then (if heading \<noteq> [] \<or> body \<noteq> [] then [(heading, strip (joined [10] body))] else []) @
              block_lines (strip (dropWhile (\<lambda>c. c = 35) stripped)) [] lines
         else block_lines heading (body @ [stripped]) lines)"

definition split_blocks :: "ustr \<Rightarrow> (ustr \<times> ustr) list" where
  "split_blocks text =
     filter (\<lambda>(heading, body). heading \<noteq> [] \<or> body \<noteq> []) (block_lines [] [] (split_lines [] text))"

text \<open>The loop over the blocks, with the number of the next chunk, the current heading and the buffer.\<close>

fun chunk_blocks ::
  "(ustr \<Rightarrow> ustr) \<Rightarrow> nat \<Rightarrow> int \<Rightarrow> ustr \<Rightarrow> ustr list \<Rightarrow> (ustr \<times> ustr) list \<Rightarrow> chunk_data list"
where
  "chunk_blocks sha max_chars index current buffer [] =
     (if buffer = [] then [] else [make_chunk sha index current (joined [10] buffer) max_chars])"
| "chunk_blocks sha max_chars index current buffer ((heading, body) # blocks) =
     (let candidate = strip (joined [10] (filter (\<lambda>t. t \<noteq> []) (current # buffer @ [body])));
          chunk = make_chunk sha index current (joined [10] buffer) max_chars
      in if heading \<noteq> []
         then (if buffer \<noteq> []
               then chunk # chunk_blocks sha max_chars (index + 1) heading (if body = [] then [] else [body]) blocks
               else chunk_blocks sha max_chars index heading (if body = [] then [] else [body]) blocks)
         else if length candidate > max_chars \<and> buffer \<noteq> []
         then chunk # chunk_blocks sha max_chars (index + 1) current (if body = [] then [] else [body]) blocks
         else chunk_blocks sha max_chars index current (if body = [] then buffer else buffer @ [body]) blocks)"

definition chunk_text :: "(ustr \<Rightarrow> ustr) \<Rightarrow> nat \<Rightarrow> ustr \<Rightarrow> chunk_data list" where
  "chunk_text sha max_chars content =
     (let text = strip content
      in if text = [] then [] else chunk_blocks sha max_chars 1 [] [] (split_blocks text))"

definition MAX_CHARS :: nat where
  "MAX_CHARS = 900"

section \<open>Version numbers and query words\<close>

text \<open>\<^verbatim>\<open>int(text.split(".", 1)[0])\<close> of every number that can be read.\<close>

definition version_value :: "ustr \<Rightarrow> int option" where
  "version_value number = py_int_of (takeWhile (\<lambda>c. c \<noteq> 46) number)"

definition next_version_number :: "ustr list \<Rightarrow> ustr" where
  "next_version_number numbers =
     (let values = List.map_filter version_value numbers
      in int_text ((case values of [] \<Rightarrow> 0 | v # vs \<Rightarrow> fold max vs v) + 1))"

definition word_char :: "int \<Rightarrow> bool" where
  "word_char c \<longleftrightarrow> 97 \<le> c \<and> c \<le> 122 \<or> 48 \<le> c \<and> c \<le> 57 \<or> c = 95"

definition chinese_char :: "int \<Rightarrow> bool" where
  "chinese_char c \<longleftrightarrow> 0x4E00 \<le> c \<and> c \<le> 0x9FFF"

definition tokenize :: "(ustr \<Rightarrow> ustr) \<Rightarrow> ustr \<Rightarrow> ustr list" where
  "tokenize lowercase value =
     rx_findall (RAlt (rx_some word_char) (RSeq (RChar chinese_char) (rx_some chinese_char)))
       (lowercase (normalize_text value))"

end
