(* ===== verification/Knowledge_Chunks.thy ===== *)
theory Knowledge_Chunks
  imports Knowledge_Text
begin

text \<open>
  The facts about the text processing of the knowledge center: what \<open>split\<close> and \<open>strip\<close> leave, the
  markup a cleaned text is free of, and the chunks of a text as a plain list of its sections.
\<close>

section \<open>Words, lines and spaces\<close>

lemma strip_eq_Nil: "strip s = [] \<longleftrightarrow> list_all is_space s"
proof -
  have *: "dropWhile is_space t = [] \<longleftrightarrow> list_all is_space t" for t
    by (auto simp: dropWhile_eq_Nil_conv list_all_iff)
  then have "strip s = [] \<longleftrightarrow> list_all is_space (dropWhile is_space s)"
    by (simp add: strip_def list_all_rev)
  also have "\<dots> \<longleftrightarrow> list_all is_space s"
    using * [of s] by (metis append_Nil2 list_all_append takeWhile_dropWhile_id set_takeWhileD list_all_iff)
  finally show ?thesis .
qed

lemma last_strip: "strip s \<noteq> [] \<Longrightarrow> \<not> is_space (last (strip s))"
  unfolding strip_def by (metis hd_dropWhile last_rev rev_is_Nil_conv)

lemma set_strip: "set (strip s) \<subseteq> set s"
  using sublist_strip by (rule set_mono_sublist)

lemma split_words_no_space: "list_all (\<lambda>c. \<not> is_space c) word \<Longrightarrow>
    list_all (\<lambda>w. list_all (\<lambda>c. \<not> is_space c) w \<and> w \<noteq> []) (split_words word s)"
  by (induction word s rule: split_words.induct) auto

lemma set_joined: "set (joined sep ws) \<subseteq> set sep \<union> \<Union> (set (map set ws))"
  by (induction sep ws rule: joined.induct) auto

definition plain_char :: "int \<Rightarrow> bool" where
  "plain_char c \<longleftrightarrow> is_space c \<longrightarrow> c = 32"

lemma normalize_plain: "list_all plain_char (normalize_text s)"
proof -
  have "list_all (\<lambda>w. list_all (\<lambda>c. \<not> is_space c) w \<and> w \<noteq> []) (split_words [] s)"
    by (rule split_words_no_space) simp
  then have "list_all plain_char (joined [32] (split_words [] s))"
    using set_joined [of "[32]" "split_words [] s"] by (fastforce simp: list_all_iff plain_char_def)
  then show ?thesis
    using set_strip unfolding normalize_text_def by (auto simp: list_all_iff)
qed

lemma set_redact: "set (redact_sensitive_text s) \<subseteq> set s \<union> set ((asc ''[REDACTED]''))"
proof -
  have "set (fold (\<lambda>(l, v) t. rx_sub_label l v new t) ps s) \<subseteq> set s \<union> set new" for ps new
  proof (induction ps arbitrary: s)
    case (Cons p ps)
    obtain l v where p: "p = (l, v)" by (cases p)
    show ?case
      using Cons.IH [of "rx_sub_label l v new s"] set_rx_sub_label [of l v new s] by (auto simp: p)
  qed simp
  then show ?thesis unfolding redact_sensitive_text_def .
qed

lemma safe_text_plain: "list_all plain_char (safe_text s)"
proof -
  have "list_all plain_char (strip_html_like_noise s)"
    by (simp add: strip_html_like_noise_def Let_def normalize_plain)
  moreover have "list_all plain_char ((asc ''[REDACTED]''))"
    by (simp add: asc_def plain_char_def is_space_def)
  ultimately show ?thesis
    using set_redact [of "strip_html_like_noise s"] by (fastforce simp: safe_text_def list_all_iff)
qed

lemma plain_no_break: "plain_char c \<Longrightarrow> \<not> is_break c"
  by (auto simp: plain_char_def is_break_def is_space_def)

lemma split_lines_plain: "list_all plain_char s \<Longrightarrow> split_lines line s = (if line @ s = [] then [] else [line @ s])"
proof (induction line s rule: split_lines.induct)
  case (2 line c cs)
  then have "\<not> is_break c" "c \<noteq> 13" using plain_no_break [of c] by (auto simp: is_break_def)
  with 2 show ?case by simp
qed simp

section \<open>Markup\<close>

text \<open>A text holds a tag when an opening bracket is followed by another character and a closing bracket later.\<close>

fun has_tag :: "ustr \<Rightarrow> bool" where
  "has_tag [] = False"
| "has_tag (c # cs) = (c = 60 \<and> cs \<noteq> [] \<and> hd cs \<noteq> 62 \<and> 62 \<in> set cs \<or> has_tag cs)"

lemma matches_TAG: "matches TAG u \<longleftrightarrow> (\<exists>b. u = 60 # b @ [62] \<and> b \<noteq> [] \<and> list_all (\<lambda>c. c \<noteq> 62) b)"
proof -
  have fold: "re_fold x = 60 \<longleftrightarrow> x = 60" "re_fold x = 62 \<longleftrightarrow> x = 62" for x
    by (auto simp: re_fold_def)
  show ?thesis
    unfolding TAG_def rx_word_def by (auto simp: asc_def fold)
qed

lemma rests_TAG: "rests TAG (c # cs) \<noteq> [] \<longleftrightarrow> c = 60 \<and> cs \<noteq> [] \<and> hd cs \<noteq> 62 \<and> 62 \<in> set cs"
proof
  assume "rests TAG (c # cs) \<noteq> []"
  then obtain t where "t \<in> set (rests TAG (c # cs))" by (meson last_in_set)
  then obtain b where "c # cs = 60 # b @ [62] @ t" "b \<noteq> []" "list_all (\<lambda>c. c \<noteq> 62) b"
    unfolding rests_iff matches_TAG by auto
  then show "c = 60 \<and> cs \<noteq> [] \<and> hd cs \<noteq> 62 \<and> 62 \<in> set cs"
    by (cases b) auto
next
  assume *: "c = 60 \<and> cs \<noteq> [] \<and> hd cs \<noteq> 62 \<and> 62 \<in> set cs"
  then obtain b t where cs: "cs = b @ 62 # t" "62 \<notin> set b" by (meson split_list_first)
  with * have "matches TAG (60 # b @ [62])" "c # cs = (60 # b @ [62]) @ t"
    unfolding matches_TAG by (cases b; auto simp: list_all_iff)+
  then have "t \<in> set (rests TAG (c # cs))" unfolding rests_iff by blast
  then show "rests TAG (c # cs) \<noteq> []" by auto
qed

lemma sub_TAG_no_tag: "\<not> has_tag (rx_sub TAG [32] s)"
proof -
  let ?f = "\<lambda>s. case rests TAG s of [] \<Rightarrow> None | t # _ \<Rightarrow> Some ([32], t)"
  have "f = ?f \<Longrightarrow> \<not> has_tag (rewrite f s)" for f
  proof (induction f s rule: rewrite.induct)
    case (1 f)
    show ?case by simp
  next
    case (2 f c cs)
    show ?case
    proof (cases "rests TAG (c # cs)")
      case Nil
      with 2 have *: "rewrite f (c # cs) = c # rewrite f cs" "\<not> has_tag (rewrite f cs)" by simp_all
      have "\<not> (c = 60 \<and> rewrite f cs \<noteq> [] \<and> hd (rewrite f cs) \<noteq> 62 \<and> 62 \<in> set (rewrite f cs))"
      proof (cases cs)
        case (Cons d ds)
        show ?thesis
        proof (cases "d = 62")
          case True
          then have "rests TAG cs = []" using rests_TAG [of d ds] Cons by auto
          with True Cons 2(4) show ?thesis by simp
        next
          case False
          then have "c = 60 \<Longrightarrow> 62 \<notin> set cs" using rests_TAG [of c cs] Nil Cons by auto
          moreover have "set (rewrite f cs) \<subseteq> set cs \<union> {32}"
            using set_rx_sub [of TAG "[32]" cs] 2(4) by (simp add: rx_sub_def)
          ultimately show ?thesis by auto
        qed
      qed simp
      with * show ?thesis by simp
    next
      case (Cons t ts)
      then have "t \<in> set (rests TAG (c # cs))" by simp
      then have "length t \<le> length cs"
        unfolding rests_iff matches_TAG by (auto simp: Cons_eq_append_conv)
      with Cons 2 show ?thesis by auto
    qed
  qed
  then show ?thesis by (simp add: rx_sub_def)
qed

text \<open>Squeezing the spaces of a text cannot make a tag: \<open>squeeze False\<close> is inside a word.\<close>

fun squeeze :: "bool \<Rightarrow> ustr \<Rightarrow> ustr" where
  "squeeze outside [] = []"
| "squeeze outside (c # cs) =
     (if is_space c then (if outside \<or> squeeze True cs = [] then [] else [32]) @ squeeze True cs
      else c # squeeze False cs)"

lemma joined_split_words:
  "joined [32] (split_words word s) = word @ squeeze (word = []) s"
proof (induction word s rule: split_words.induct)
  case (2 word c cs)
  have *: "joined [32] (w # split_words [] cs) = w @ (if squeeze True cs = [] then [] else [32]) @ squeeze True cs"
    if "joined [32] (split_words [] cs) = squeeze True cs" for w
  proof (cases "split_words [] cs")
    case (Cons v vs)
    moreover from this have "v \<noteq> []"
      using split_words_no_space [of "[]" cs] by simp
    ultimately have "joined [32] (split_words [] cs) \<noteq> []" by (cases vs) auto
    with that Cons show ?thesis by simp
  qed (use that in simp)
  show ?case
  proof (cases "is_space c")
    case True
    with 2 * show ?thesis by (cases "word = []") (simp_all del: squeeze.simps joined.simps, simp_all)
  next
    case False
    with 2 show ?thesis by simp
  qed
qed simp

lemma set_squeeze: "set (squeeze out s) \<subseteq> set s \<union> {32}"
  by (induction out s rule: squeeze.induct) auto

lemma squeeze_tag: "has_tag (squeeze out s) \<Longrightarrow> has_tag s"
proof (induction out s rule: squeeze.induct)
  case (2 out c cs)
  show ?case
  proof (cases "is_space c")
    case True
    with 2 show ?thesis by (auto simp: is_space_def split: if_splits)
  next
    case False
    have hd: "c = 60 \<Longrightarrow> squeeze False cs \<noteq> [] \<Longrightarrow> hd (squeeze False cs) \<noteq> 62 \<Longrightarrow>
        62 \<in> set (squeeze False cs) \<Longrightarrow> cs \<noteq> [] \<and> hd cs \<noteq> 62 \<and> 62 \<in> set cs"
      using set_squeeze [of False cs] by (cases cs) (auto simp: is_space_def)
    with False 2 show ?thesis by auto
  qed
qed simp

lemma has_tag_append: "has_tag s \<Longrightarrow> has_tag (a @ s @ b)"
proof -
  have "has_tag s \<Longrightarrow> has_tag (s @ b)"
    by (induction s) (auto simp: hd_append)
  moreover have "has_tag t \<Longrightarrow> has_tag (a @ t)" for t
    by (induction a) auto
  ultimately show "has_tag s \<Longrightarrow> has_tag (a @ s @ b)" by blast
qed

lemma cleaned_has_no_tag: "\<not> has_tag (strip_html_like_noise s)"
proof
  assume "has_tag (strip_html_like_noise s)"
  then obtain t where "has_tag (strip (squeeze True (rx_sub TAG [32] t)))"
    by (auto simp: strip_html_like_noise_def Let_def normalize_text_def joined_split_words)
  then have "has_tag (squeeze True (rx_sub TAG [32] t))"
    using sublist_strip has_tag_append unfolding sublist_def by metis
  then show False using squeeze_tag sub_TAG_no_tag by blast
qed

section \<open>The chunks are the sections\<close>

text \<open>
  The reference: one chunk per block that has text under its heading, numbered from one, cut to the
  size limit. Only the first block can lack a heading, so the loop's test of the size limit, which
  is made for blocks without a heading after others, never splits anything.
\<close>

fun section_chunks :: "(ustr \<Rightarrow> ustr) \<Rightarrow> nat \<Rightarrow> int \<Rightarrow> (ustr \<times> ustr) list \<Rightarrow> chunk_data list" where
  "section_chunks sha max_chars index [] = []"
| "section_chunks sha max_chars index ((heading, body) # blocks) =
     (if body = [] then section_chunks sha max_chars index blocks
      else make_chunk sha index heading body max_chars # section_chunks sha max_chars (index + 1) blocks)"

lemma hash_list: "list_all (is_in (asc ''#'')) u \<Longrightarrow> dropWhile (\<lambda>c. c = 35) (u @ v) = dropWhile (\<lambda>c. c = 35) v"
  by (induction u) (auto simp: is_in_def asc_def)

lemma matches_upto: "matches (rx_upto n p) u \<Longrightarrow> list_all p u"
  by (induction n arbitrary: u) (auto simp: list_all_iff)

lemma heading_title:
  assumes "is_heading (strip line)"
  shows "strip (dropWhile (\<lambda>c. c = 35) (strip line)) \<noteq> []"
proof -
  from assms have "matches HEADING (strip line)" by (simp add: is_heading_def rests_iff)
  then obtain h u w v where line: "strip line = h # u @ w @ v"
    and h: "is_in (asc ''#'') h" "list_all (is_in (asc ''#'')) u" and w: "w \<noteq> []" "list_all is_space w" and v: "v \<noteq> []"
    by (auto simp: HEADING_def dest!: matches_upto)
  have "dropWhile (\<lambda>c. c = 35) (strip line) = dropWhile (\<lambda>c. c = 35) (w @ v)"
    using hash_list [of "h # u" "w @ v"] h by (simp add: line)
  also have "\<dots> = w @ v"
    using w by (cases w) (auto simp: is_space_def)
  finally have *: "dropWhile (\<lambda>c. c = 35) (strip line) = w @ v" .
  have "last (strip line) = last v" using v by (simp add: line)
  then have "\<not> is_space (last v)" using last_strip [of line] line by simp
  with v have "\<not> list_all is_space (w @ v)" by (auto simp: list_all_iff)
  with * show ?thesis by (simp add: strip_eq_Nil)
qed

definition headed :: "(ustr \<times> ustr) list \<Rightarrow> bool" where
  "headed blocks \<longleftrightarrow> list_all (\<lambda>(heading, body). heading \<noteq> []) blocks"

lemma headed_simps [simp]: "headed []" "headed ((h, b) # bs) \<longleftrightarrow> h \<noteq> [] \<and> headed bs"
  "headed (xs @ ys) \<longleftrightarrow> headed xs \<and> headed ys"
  by (auto simp: headed_def)

lemma block_lines_headed: "headed (drop 1 (block_lines heading body lines)) \<and>
    (heading \<noteq> [] \<longrightarrow> headed (block_lines heading body lines))"
proof (induction heading body lines rule: block_lines.induct)
  case (2 heading body line lines)
  show ?case
  proof (cases "strip line = []")
    case True
    with 2(1) show ?thesis by simp
  next
    case False
    show ?thesis
    proof (cases "is_heading (strip line)")
      case True
      with False 2(2) have "headed (block_lines (strip (dropWhile (\<lambda>c. c = 35) (strip line))) [] lines)"
        using heading_title by simp
      with True False show ?thesis
        by (auto simp: headed_def list_all_iff dest: in_set_dropD)
    next
      case plain: False
      with False 2(3) show ?thesis by simp
    qed
  qed
qed simp

lemma split_blocks_headed: "headed (drop 1 (split_blocks text))"
proof -
  have sub: "headed (drop 1 (filter p bs))" if "headed (drop 1 bs)" for p and bs :: "(ustr \<times> ustr) list"
    using that by (cases bs) (auto simp: headed_def list_all_iff dest!: in_set_dropD [of _ "Suc 0"])
  show ?thesis
    unfolding split_blocks_def by (rule sub) (rule block_lines_headed [THEN conjunct1])
qed

lemma chunk_blocks_headed:
  "headed blocks \<Longrightarrow>
     chunk_blocks sha max_chars index current (if body = [] then [] else [body]) blocks =
     section_chunks sha max_chars index ((current, body) # blocks)"
proof (induction blocks arbitrary: index current body)
  case (Cons block blocks)
  obtain h b where "block = (h, b)" by (cases block)
  with Cons show ?case by auto
qed simp

lemma chunk_text_sections: "chunk_text sha max_chars text = section_chunks sha max_chars 1 (split_blocks (strip text))"
proof (cases "strip text = []")
  case True
  then show ?thesis by (simp add: chunk_text_def split_blocks_def)
next
  case False
  show ?thesis
  proof (cases "split_blocks (strip text)")
    case Nil
    with False show ?thesis by (simp add: chunk_text_def)
  next
    case (Cons block blocks)
    obtain h b where block: "block = (h, b)" by (cases block)
    have "headed blocks" using split_blocks_headed [of "strip text"] Cons by simp
    with chunk_blocks_headed have *: "chunk_blocks sha max_chars 1 h (if b = [] then [] else [b]) blocks =
        section_chunks sha max_chars 1 ((h, b) # blocks)" by blast
    then show ?thesis
      using False Cons by (cases "h = []"; cases "b = []") (simp_all add: chunk_text_def block)
  qed
qed

lemma section_chunks_facts:
  "map ch_index (section_chunks sha max_chars i blocks) = [i..i + int (length (section_chunks sha max_chars i blocks)) - 1] \<and>
   list_all (\<lambda>c. length (ch_content c) \<le> max_chars \<and> 1 \<le> ch_tokens c \<and> ch_heading c \<noteq> [])
     (section_chunks sha max_chars i blocks)"
proof (induction sha max_chars i blocks rule: section_chunks.induct)
  case (2 sha max_chars i h b blocks)
  then show ?case by (auto simp: make_chunk_def Let_def upto_rec1 asc_def algebra_simps)
qed simp

lemma section_chunks_length: "length (section_chunks sha max_chars i blocks) \<le> length blocks"
  by (induction sha max_chars i blocks rule: section_chunks.induct) auto

subsection \<open>Texts on one line\<close>

lemma one_line_blocks:
  assumes "list_all plain_char text"
  shows "split_blocks (strip text) =
    (if strip text = [] then []
     else if is_heading (strip text) then [(strip (dropWhile (\<lambda>c. c = 35) (strip text)), [])]
     else [([], strip text)])"
proof -
  have "list_all plain_char (strip text)"
    using assms set_strip [of "text"] by (auto simp: list_all_iff)
  then have "split_lines [] (strip text) = (if strip text = [] then [] else [strip text])"
    by (simp add: split_lines_plain)
  then show ?thesis
    using heading_title [of "text"] by (auto simp: split_blocks_def Let_def strip_eq_Nil)
qed

lemma one_line_chunks:
  assumes "list_all plain_char text"
  shows "chunk_text sha max_chars text =
    (if strip text = [] \<or> is_heading (strip text) then []
     else [make_chunk sha 1 [] (strip text) max_chars])"
  using one_line_blocks [OF assms] by (simp add: chunk_text_sections)

end
