(* ===== verification/Knowledge_Data.thy ===== *)
theory Knowledge_Data
  imports Knowledge_Chunks Device_Data Transaction
begin

text \<open>
  The tables of the knowledge center (\<^verbatim>\<open>knowledge_center/models.py\<close>), its constants and permissions
  (\<^verbatim>\<open>constants.py\<close>, \<^verbatim>\<open>permissions.py\<close>) and the rows its operations write (the helpers of
  \<^verbatim>\<open>workflow.py\<close>). A time is an integer of microseconds, a JSON column the value it encodes. The
  database refuses a row that breaks a unique constraint; foreign keys (also that a citation forgets a
  chunk that is deleted) and column widths are not
  checked.
\<close>

section \<open>Rows\<close>

record knowledge_asset =
  ka_id :: ustr
  ka_code :: ustr
  ka_title :: ustr
  ka_summary :: "ustr option"
  ka_type :: ustr
  ka_category :: "ustr option"
  ka_status :: ustr
  ka_visibility :: ustr
  ka_risk :: ustr
  ka_current :: "ustr option"
  ka_owner :: "ustr option"
  ka_department :: "ustr option"
  ka_created_by :: "ustr option"
  ka_approved_by :: "ustr option"
  ka_approved :: "int option"
  ka_published :: "int option"
  ka_archived :: "int option"
  ka_sources :: int
  ka_primary :: int
  ka_cross :: bool
  ka_conflicts :: int
  ka_unverified :: int
  ka_evidence :: "ustr option"
  ka_report :: "ustr option"
  ka_execution :: "ustr option"
  ka_created :: int
  ka_updated :: int

record knowledge_version =
  kv_id :: ustr
  kv_knowledge :: ustr
  kv_number :: ustr
  kv_title :: ustr
  kv_summary :: "ustr option"
  kv_content :: ustr
  kv_format :: ustr
  kv_change :: "ustr option"
  kv_reason :: "ustr option"
  kv_source :: "ustr option"
  kv_execution :: "ustr option"
  kv_report :: "ustr option"
  kv_hash :: ustr
  kv_created_by :: "ustr option"
  kv_reviewed_by :: "ustr option"
  kv_approved_by :: "ustr option"
  kv_approved :: "int option"
  kv_created :: int

record knowledge_chunk =
  kc_id :: ustr
  kc_knowledge :: ustr
  kc_version :: ustr
  kc_data :: chunk_data

record knowledge_tag =
  kt_id :: ustr
  kt_code :: ustr
  kt_name :: ustr
  kt_group :: "ustr option"
  kt_enabled :: bool

record tag_relation =
  kr_id :: ustr
  kr_knowledge :: ustr
  kr_version :: "ustr option"
  kr_tag :: ustr

record knowledge_review =
  kw_id :: ustr
  kw_knowledge :: ustr
  kw_version :: "ustr option"
  kw_stage :: ustr
  kw_status :: ustr
  kw_reviewer :: "ustr option"
  kw_name :: "ustr option"
  kw_comment :: "ustr option"
  kw_risk :: "ustr option"
  kw_source_check :: json
  kw_sensitive_check :: json
  kw_injection :: bool
  kw_boss :: bool
  kw_created :: int

record source_link =
  kl_id :: ustr
  kl_knowledge :: ustr
  kl_version :: "ustr option"
  kl_kind :: ustr
  kl_ref :: "ustr option"
  kl_title :: "ustr option"
  kl_url :: "ustr option"
  kl_hash :: "ustr option"
  kl_confidence :: "ustr option"
  kl_score :: int
  kl_primary :: bool
  kl_checked :: bool
  kl_evidence :: "ustr option"
  kl_note :: "ustr option"
  kl_created :: int

record knowledge_citation =
  kq_id :: ustr
  kq_knowledge :: ustr
  kq_version :: "ustr option"
  kq_chunk :: "ustr option"
  kq_task :: "int option"
  kq_execution :: "ustr option"
  kq_employee :: "ustr option"
  kq_usage :: ustr
  kq_hash :: ustr
  kq_summary :: "ustr option"
  kq_created :: int

text \<open>The columns of a finished research the center reads.\<close>

record research_execution =
  xe_id :: ustr
  xe_topic :: ustr
  xe_goal :: ustr
  xe_title :: "ustr option"
  xe_content :: "ustr option"
  xe_hash :: "ustr option"

record research_source =
  xs_id :: ustr
  xs_execution :: ustr
  xs_url :: ustr
  xs_title :: ustr
  xs_confidence :: ustr
  xs_score :: int
  xs_hash :: ustr
  xs_summary :: "ustr option"
  xs_excerpt :: "ustr option"
  xs_primary :: bool
  xs_validation :: ustr

record research_evidence =
  xv_id :: ustr
  xv_execution :: ustr
  xv_url :: ustr
  xv_title :: ustr
  xv_confidence :: ustr
  xv_summary :: "ustr option"
  xv_hash :: ustr

record knowledge_db =
  kd_assets :: "knowledge_asset list"
  kd_versions :: "knowledge_version list"
  kd_chunks :: "knowledge_chunk list"
  kd_tags :: "knowledge_tag list"
  kd_relations :: "tag_relation list"
  kd_reviews :: "knowledge_review list"
  kd_links :: "source_link list"
  kd_citations :: "knowledge_citation list"
  kd_executions :: "research_execution list"
  kd_sources :: "research_source list"
  kd_evidence :: "research_evidence list"

text \<open>
  The outside world of one request: the settings, the role of the user (none when nobody is logged
  in), the permissions of a role, the clock with its two printed forms, fresh identifiers by purpose
  and number, SHA-256, and the Unicode tables behind \<^verbatim>\<open>isalnum\<close> and \<^verbatim>\<open>lower\<close>.
\<close>

record knowledge_env =
  kn_enabled :: bool
  kn_role :: "ustr option"
  kn_username :: ustr
  kn_permissions :: "ustr \<Rightarrow> ustr list"
  kn_now :: int
  kn_stamp :: ustr
  kn_stamp_micro :: ustr
  kn_uuid :: "ustr \<Rightarrow> nat \<Rightarrow> ustr"
  kn_sha :: "ustr \<Rightarrow> ustr"
  kn_alnum :: "int \<Rightarrow> bool"
  kn_lower :: "ustr \<Rightarrow> ustr"

datatype knowledge_error =
    KnowledgePermissionError ustr
  | KnowledgeNotFoundError ustr
  | KnowledgeConflictError ustr
  | KnowledgeValidationError ustr
  | IntegrityError

type_synonym 'a kx = "(knowledge_db, knowledge_error, 'a) transaction"

interpretation asset_table: keyed_table ka_id "row_get ka_id" "row_put ka_id" row_add
  by (rule row_keyed_table)

interpretation version_table: keyed_table kv_id "row_get kv_id" "row_put kv_id" row_add
  by (rule row_keyed_table)

interpretation tag_table: keyed_table kt_name "row_get kt_name" "row_put kt_name" row_add
  by (rule row_keyed_table)

section \<open>Constants and permissions\<close>

abbreviation DRAFT :: ustr where "DRAFT \<equiv> [0x8349, 0x7A3F]"
abbreviation PENDING :: ustr where "PENDING \<equiv> [0x5F85, 0x5BA1, 0x6838]"
abbreviation REJECTED :: ustr where "REJECTED \<equiv> [0x5DF2, 0x9A73, 0x56DE]"
abbreviation APPROVED :: ustr where "APPROVED \<equiv> [0x5DF2, 0x6279, 0x51C6]"
abbreviation PUBLISHED :: ustr where "PUBLISHED \<equiv> [0x5DF2, 0x53D1, 0x5E03]"
abbreviation ARCHIVED :: ustr where "ARCHIVED \<equiv> [0x5DF2, 0x5F52, 0x6863]"

definition HIGH_RISKS :: "ustr list" where
  "HIGH_RISKS = [[0x9AD8, 0x98CE, 0x9669], [0x6781, 0x9AD8, 0x98CE, 0x9669]]"

definition ALLOWED_SUBMITTER_EMPLOYEE_CODES :: "ustr list" where
  "ALLOWED_SUBMITTER_EMPLOYEE_CODES = [(asc ''tiancai_data''), (asc ''tiancai'')]"

definition ALLOWED_REVIEWER_EMPLOYEE_CODES :: "ustr list" where
  "ALLOWED_REVIEWER_EMPLOYEE_CODES = [(asc ''tiancang'')]"

definition ALLOWED_PUBLISHER_EMPLOYEE_CODES :: "ustr list" where
  "ALLOWED_PUBLISHER_EMPLOYEE_CODES = [(asc ''tiancang'')]"

definition ALLOWED_ARCHIVER_EMPLOYEE_CODES :: "ustr list" where
  "ALLOWED_ARCHIVER_EMPLOYEE_CODES = [(asc ''tiancang'')]"

definition DEFAULT_CATEGORY_SUGGESTIONS :: "(ustr \<times> ustr) list" where
  "DEFAULT_CATEGORY_SUGGESTIONS =
     [([0x7814, 0x7A76, 0x62A5, 0x544A], [0x7814, 0x7A76, 0x62A5, 0x544A]), ((asc ''SOP''), [0x6807, 0x51C6, 0x4F5C, 0x4E1A, 0x6D41, 0x7A0B]), ((asc ''Prompt''), [0x50, 0x72, 0x6F, 0x6D, 0x70, 0x74, 0x20, 0x6A21, 0x677F]), ((asc ''Bug''), [0x6280, 0x672F, 0x6587, 0x6863]),
      ([0x5BA2, 0x670D], [0x5BA2, 0x670D, 0x77E5, 0x8BC6]), ([0x8D22, 0x52A1], [0x8D22, 0x52A1, 0x89C4, 0x5219]), ([0x6CD5, 0x52A1], [0x6CD5, 0x52A1, 0x89C4, 0x5219]), ([0x5B89, 0x5168], [0x5B89, 0x5168, 0x89C4, 0x5219]), ([0x6280, 0x672F], [0x6280, 0x672F, 0x6587, 0x6863])]"

definition DEFAULT_TAGS :: "(ustr \<times> ustr list) list" where
  "DEFAULT_TAGS =
     [([0x7814, 0x7A76, 0x62A5, 0x544A], [[0x7814, 0x7A76], [0x8BC1, 0x636E, 0x94FE]]), ([0x6807, 0x51C6, 0x4F5C, 0x4E1A, 0x6D41, 0x7A0B], [(asc ''SOP''), [0x6D41, 0x7A0B]]), ([0x8FD0, 0x8425, 0x7ECF, 0x9A8C], [[0x8FD0, 0x8425], [0x7ECF, 0x9A8C]]),
      ([0x5546, 0x54C1, 0x77E5, 0x8BC6], [[0x5546, 0x54C1], [0x8FD0, 0x8425]]), ([0x5BA2, 0x670D, 0x77E5, 0x8BC6], [[0x5BA2, 0x670D], [0x670D, 0x52A1]]), ([0x5E02, 0x573A, 0x77E5, 0x8BC6], [[0x5E02, 0x573A], [0x7814, 0x7A76]]),
      ([0x8D22, 0x52A1, 0x89C4, 0x5219], [[0x8D22, 0x52A1], [0x89C4, 0x5219]]), ([0x6CD5, 0x52A1, 0x89C4, 0x5219], [[0x6CD5, 0x52A1], [0x89C4, 0x5219]]), ([0x5B89, 0x5168, 0x89C4, 0x5219], [[0x5B89, 0x5168], [0x89C4, 0x5219]]),
      ([0x6280, 0x672F, 0x6587, 0x6863], [[0x6280, 0x672F], [0x6587, 0x6863]]), ([0x90E8, 0x7F72, 0x6587, 0x6863], [[0x90E8, 0x7F72], [0x8FD0, 0x7EF4]]), ([0x50, 0x72, 0x6F, 0x6D, 0x70, 0x74, 0x20, 0x6A21, 0x677F], [(asc ''Prompt''), [0x6A21, 0x677F]]),
      ([0x57F9, 0x8BAD, 0x8D44, 0x6599], [[0x57F9, 0x8BAD], [0x5B66, 0x4E60]]), ([0x5176, 0x4ED6], [[0x77E5, 0x8BC6]])]"

definition AI_EMPLOYEE_NAMES :: "(ustr \<times> ustr) list" where
  "AI_EMPLOYEE_NAMES =
     [((asc ''tiancai_data''), [0x5929, 0x91C7, 0xFF1A, 0x6570, 0x636E, 0x91C7, 0x96C6, 0x5E73, 0x53F0]), ((asc ''tianshu''), [0x5929, 0x6570, 0xFF1A, 0x6570, 0x636E, 0x5206, 0x6790, 0x4E2D, 0x5FC3]), ((asc ''tiance_strategy''), [0x5929, 0x7B56, 0xFF1A, 0x7B56, 0x7565, 0x5206, 0x6790, 0x4E2D, 0x5FC3]),
      ((asc ''tianbo''), [0x5929, 0x64AD, 0xFF1A, 0x89C6, 0x9891, 0x4E2D, 0x5FC3]), ((asc ''tianchuang''), [0x5929, 0x521B, 0xFF1A, 0x8BBE, 0x8BA1, 0x4E2D, 0x5FC3]), ((asc ''tianshang''), [0x5929, 0x5546, 0xFF1A, 0x5546, 0x54C1, 0x4E2D, 0x5FC3]),
      ((asc ''tiantou''), [0x5929, 0x6295, 0xFF1A, 0x5E7F, 0x544A, 0x6295, 0x653E, 0x4E2D, 0x5FC3]), ((asc ''tianjian_test''), [0x5929, 0x68C0, 0xFF1A, 0x6D4B, 0x8BD5, 0x9A8C, 0x6536, 0x4E2D, 0x5FC3]), ((asc ''tiandun_ops''), [0x5929, 0x76FE, 0xFF1A, 0x90E8, 0x7F72, 0x8FD0, 0x7EF4, 0x4FEE, 0x590D])]"

text \<open>The code of an employee; the operations are always given one.\<close>

definition employee_code :: "ustr \<Rightarrow> ustr" where
  "employee_code code = (case normalize_employee_code (Some code) of Some c \<Rightarrow> c | None \<Rightarrow> [])"

definition employee_name :: "ustr \<Rightarrow> ustr" where
  "employee_name code = (case map_of AI_EMPLOYEE_NAMES (employee_code code) of Some n \<Rightarrow> n | None \<Rightarrow> employee_code code)"

definition or_text :: "ustr \<Rightarrow> ustr \<Rightarrow> ustr" where
  "or_text a b = (if a = [] then b else a)"

definition or_given :: "ustr option \<Rightarrow> ustr \<Rightarrow> ustr" where
  "or_given a b = (case a of None \<Rightarrow> b | Some t \<Rightarrow> or_text t b)"

text \<open>A permission check answers with the reason it refuses.\<close>

definition can_submit_employee :: "ustr \<Rightarrow> ustr option" where
  "can_submit_employee code =
     (if employee_code code = [] then Some [0x5458, 0x5DE5, 0x7F16, 0x53F7, 0x7F3A, 0x5931]
      else if employee_code code \<in> set ALLOWED_SUBMITTER_EMPLOYEE_CODES then None
      else Some [0x65E0, 0x77E5, 0x8BC6, 0x5019, 0x9009, 0x63D0, 0x4EA4, 0x6743, 0x9650])"

definition can_review_employee :: "ustr \<Rightarrow> ustr option" where
  "can_review_employee code =
     (if employee_code code \<in> set ALLOWED_REVIEWER_EMPLOYEE_CODES then None else Some [0x65E0, 0x77E5, 0x8BC6, 0x5BA1, 0x6838, 0x6743, 0x9650])"

definition can_publish_employee :: "ustr \<Rightarrow> ustr option" where
  "can_publish_employee code =
     (if employee_code code \<in> set ALLOWED_PUBLISHER_EMPLOYEE_CODES then None else Some [0x65E0, 0x77E5, 0x8BC6, 0x53D1, 0x5E03, 0x6743, 0x9650])"

definition can_archive_employee :: "ustr \<Rightarrow> ustr option" where
  "can_archive_employee code =
     (if employee_code code \<in> set ALLOWED_ARCHIVER_EMPLOYEE_CODES then None else Some [0x65E0, 0x77E5, 0x8BC6, 0x5F52, 0x6863, 0x6743, 0x9650])"

text \<open>The guard of a review: the permission, or being the owner of the asset.\<close>

definition permitted :: "ustr option \<Rightarrow> ustr \<Rightarrow> knowledge_asset \<Rightarrow> knowledge_error option" where
  "permitted refusal code asset =
     (case refusal of
        None \<Rightarrow> None
      | Some reason \<Rightarrow> if ka_owner asset = Some code then None else Some (KnowledgePermissionError reason))"

end
