(* ===== verification/Knowledge_Flow.thy ===== *)
theory Knowledge_Flow
  imports Knowledge_Data
begin

text \<open>
  The operations of the knowledge center (\<^verbatim>\<open>knowledge_center/workflow.py\<close> and \<^verbatim>\<open>service.py\<close>): drafts,
  edits, reviews, publication, archiving, versions, citations and the submission of a research
  report. Every operation commits once, at its end, so an error leaves the database as it was.
\<close>

section \<open>Inserting rows\<close>

text \<open>A row that shares a unique column (or a unique combination) with a row of the table is refused.\<close>

definition insert_row ::
  "('r \<Rightarrow> 'r \<Rightarrow> bool) \<Rightarrow> (knowledge_db \<Rightarrow> 'r list) \<Rightarrow> ('r list \<Rightarrow> knowledge_db \<Rightarrow> knowledge_db) \<Rightarrow> 'r \<Rightarrow> unit kx"
where
  "insert_row clash rows store row db =
     (if list_ex (clash row) (rows db) then Inl (IntegrityError, None) else Inr ((), store (row_add row (rows db)) db))"

definition insert_asset :: "knowledge_asset \<Rightarrow> unit kx" where
  "insert_asset = insert_row (\<lambda>a b. ka_id a = ka_id b \<or> ka_code a = ka_code b) kd_assets (\<lambda>t db. db\<lparr>kd_assets := t\<rparr>)"

definition insert_version :: "knowledge_version \<Rightarrow> unit kx" where
  "insert_version =
     insert_row (\<lambda>a b. kv_id a = kv_id b \<or> kv_knowledge a = kv_knowledge b \<and> kv_number a = kv_number b)
       kd_versions (\<lambda>t db. db\<lparr>kd_versions := t\<rparr>)"

definition insert_chunk :: "knowledge_chunk \<Rightarrow> unit kx" where
  "insert_chunk =
     insert_row (\<lambda>a b. kc_id a = kc_id b \<or> kc_knowledge a = kc_knowledge b \<and> kc_version a = kc_version b \<and>
         ch_index (kc_data a) = ch_index (kc_data b))
       kd_chunks (\<lambda>t db. db\<lparr>kd_chunks := t\<rparr>)"

definition insert_tag :: "knowledge_tag \<Rightarrow> unit kx" where
  "insert_tag = insert_row (\<lambda>a b. kt_id a = kt_id b \<or> kt_code a = kt_code b \<or> kt_name a = kt_name b)
       kd_tags (\<lambda>t db. db\<lparr>kd_tags := t\<rparr>)"

definition insert_relation :: "tag_relation \<Rightarrow> unit kx" where
  "insert_relation = insert_row (\<lambda>a b. kr_id a = kr_id b \<or> kr_knowledge a = kr_knowledge b \<and> kr_tag a = kr_tag b)
       kd_relations (\<lambda>t db. db\<lparr>kd_relations := t\<rparr>)"

definition insert_review :: "knowledge_review \<Rightarrow> unit kx" where
  "insert_review = insert_row (\<lambda>a b. kw_id a = kw_id b) kd_reviews (\<lambda>t db. db\<lparr>kd_reviews := t\<rparr>)"

definition insert_link :: "source_link \<Rightarrow> unit kx" where
  "insert_link = insert_row (\<lambda>a b. kl_id a = kl_id b) kd_links (\<lambda>t db. db\<lparr>kd_links := t\<rparr>)"

definition insert_citation :: "knowledge_citation \<Rightarrow> unit kx" where
  "insert_citation = insert_row (\<lambda>a b. kq_id a = kq_id b) kd_citations (\<lambda>t db. db\<lparr>kd_citations := t\<rparr>)"

fun tx_each :: "('x \<Rightarrow> unit kx) \<Rightarrow> 'x list \<Rightarrow> unit kx" where
  "tx_each f [] = tx_return ()"
| "tx_each f (x # xs) = tx_bind (f x) (\<lambda>_. tx_each f xs)"

text \<open>
  Writing back an asset whose columns were set. \<^verbatim>\<open>updated_at\<close> is set by the database layer on every
  UPDATE, and a row none of whose columns changed is not updated.
\<close>

definition save_asset :: "knowledge_env \<Rightarrow> knowledge_asset \<Rightarrow> knowledge_asset \<Rightarrow> unit kx" where
  "save_asset env old new =
     (if new = old then tx_return ()
      else tx_write (\<lambda>db. db\<lparr>kd_assets := row_put ka_id (new\<lparr>ka_updated := kn_now env\<rparr>) (kd_assets db)\<rparr>))"

definition save_version :: "knowledge_version \<Rightarrow> unit kx" where
  "save_version v = tx_write (\<lambda>db. db\<lparr>kd_versions := row_put kv_id v (kd_versions db)\<rparr>)"

definition current_version :: "knowledge_asset \<Rightarrow> knowledge_db \<Rightarrow> knowledge_version option" where
  "current_version asset db =
     (case ka_current asset of
        None \<Rightarrow> None
      | Some vid \<Rightarrow> if vid = [] then None else row_get kv_id vid (kd_versions db))"

section \<open>Chunks, tags, sources\<close>

definition chunk_row :: "ustr \<Rightarrow> ustr \<Rightarrow> chunk_data \<Rightarrow> knowledge_chunk" where
  "chunk_row knowledge_id version_id chunk =
     \<lparr>kc_id = (asc ''chunk-'') @ version_id @ (asc ''-'') @ int_text (ch_index chunk), kc_knowledge = knowledge_id,
      kc_version = version_id, kc_data = chunk\<rparr>"

definition index_chunks :: "knowledge_env \<Rightarrow> ustr \<Rightarrow> ustr \<Rightarrow> ustr \<Rightarrow> unit kx" where
  "index_chunks env knowledge_id version_id content =
     tx_each insert_chunk (map (chunk_row knowledge_id version_id) (chunk_text (kn_sha env) MAX_CHARS content))"

definition reindex_chunks :: "knowledge_env \<Rightarrow> ustr \<Rightarrow> ustr \<Rightarrow> ustr \<Rightarrow> unit kx" where
  "reindex_chunks env knowledge_id version_id content =
     tx_bind (tx_write (\<lambda>db. db\<lparr>kd_chunks := filter (\<lambda>c. kc_version c \<noteq> version_id) (kd_chunks db)\<rparr>))
       (\<lambda>_. index_chunks env knowledge_id version_id content)"

text \<open>\<^verbatim>\<open>list(dict.fromkeys(xs))\<close>: the first of every repeated value stays in place.\<close>

definition first_of_each :: "ustr list \<Rightarrow> ustr list" where
  "first_of_each xs = rev (remdups (rev xs))"

definition strip_char :: "int \<Rightarrow> ustr \<Rightarrow> ustr" where
  "strip_char c s = rev (dropWhile (\<lambda>x. x = c) (rev (dropWhile (\<lambda>x. x = c) s)))"

definition tag_code :: "knowledge_env \<Rightarrow> nat \<Rightarrow> ustr \<Rightarrow> ustr" where
  "tag_code env idx name =
     or_text (kn_lower env (strip_char 95 (map (\<lambda>c. if kn_alnum env c then c else 95) name)))
       ((asc ''tag_'') @ int_text (int idx))"

definition find_or_add_tag :: "knowledge_env \<Rightarrow> nat \<Rightarrow> ustr \<Rightarrow> ustr kx" where
  "find_or_add_tag env idx name db =
     (case row_get kt_name name (kd_tags db) of
        Some t \<Rightarrow> Inr (kt_id t, db)
      | None \<Rightarrow>
          (let t = \<lparr>kt_id = kn_uuid env (asc ''tag'') idx, kt_code = tag_code env idx name, kt_name = name,
                    kt_group = Some [0x5206, 0x7C7B], kt_enabled = True\<rparr>
           in tx_bind (insert_tag t) (\<lambda>_. tx_return (kt_id t)) db))"

fun resolve_tags :: "knowledge_env \<Rightarrow> nat \<Rightarrow> ustr list \<Rightarrow> ustr list kx" where
  "resolve_tags env idx [] = tx_return []"
| "resolve_tags env idx (name # names) =
     tx_bind (find_or_add_tag env idx name) (\<lambda>tid.
     tx_bind (resolve_tags env (idx + 1) names) (\<lambda>tids. tx_return (tid # tids)))"

definition persist_tags :: "knowledge_env \<Rightarrow> ustr \<Rightarrow> ustr option \<Rightarrow> ustr list \<Rightarrow> unit kx" where
  "persist_tags env knowledge_id version_id tags =
     (let names = first_of_each (filter (\<lambda>t. t \<noteq> []) (map strip tags))
      in tx_bind (resolve_tags env 1 names) (\<lambda>tids.
         tx_each (\<lambda>(i, tid). insert_relation
             \<lparr>kr_id = kn_uuid env (asc ''relation'') i, kr_knowledge = knowledge_id, kr_version = version_id, kr_tag = tid\<rparr>)
           (zip [0..<length tids] tids)))"

definition source_row :: "knowledge_env \<Rightarrow> ustr \<Rightarrow> ustr \<Rightarrow> nat \<times> research_source \<Rightarrow> source_link" where
  "source_row env knowledge_id version_id = (\<lambda>(i, row).
     \<lparr>kl_id = kn_uuid env (asc ''source'') i, kl_knowledge = knowledge_id, kl_version = Some version_id,
      kl_kind = (asc ''Research Source''), kl_ref = Some (xs_id row), kl_title = Some (xs_title row), kl_url = Some (xs_url row),
      kl_hash = Some (xs_hash row), kl_confidence = Some (xs_confidence row), kl_score = xs_score row,
      kl_primary = xs_primary row, kl_checked = True, kl_evidence = None,
      kl_note = Some (or_given (xs_summary row) (or_given (xs_excerpt row) [])), kl_created = kn_now env\<rparr>)"

definition report_row :: "knowledge_env \<Rightarrow> ustr \<Rightarrow> ustr \<Rightarrow> research_execution \<Rightarrow> source_link" where
  "report_row env knowledge_id version_id execution =
     \<lparr>kl_id = kn_uuid env (asc ''report'') 0, kl_knowledge = knowledge_id, kl_version = Some version_id,
      kl_kind = (asc ''Research Report''), kl_ref = Some (xe_id execution), kl_title = xe_title execution, kl_url = Some [],
      kl_hash = xe_hash execution, kl_confidence = Some [0x9AD8], kl_score = 90, kl_primary = True, kl_checked = True,
      kl_evidence = None, kl_note = Some (or_given (xe_content execution) []), kl_created = kn_now env\<rparr>"

definition execution_row :: "knowledge_env \<Rightarrow> ustr \<Rightarrow> ustr \<Rightarrow> research_execution \<Rightarrow> source_link" where
  "execution_row env knowledge_id version_id execution =
     \<lparr>kl_id = kn_uuid env (asc ''execution'') 0, kl_knowledge = knowledge_id, kl_version = Some version_id,
      kl_kind = (asc ''Research Execution''), kl_ref = Some (xe_id execution), kl_title = Some (xe_topic execution), kl_url = Some [],
      kl_hash = xe_hash execution, kl_confidence = Some [0x9AD8], kl_score = 90, kl_primary = True, kl_checked = True,
      kl_evidence = None, kl_note = Some (xe_goal execution), kl_created = kn_now env\<rparr>"

definition evidence_link :: "knowledge_env \<Rightarrow> ustr \<Rightarrow> ustr \<Rightarrow> nat \<times> research_evidence \<Rightarrow> source_link" where
  "evidence_link env knowledge_id version_id = (\<lambda>(i, item).
     \<lparr>kl_id = kn_uuid env (asc ''evidence'') i, kl_knowledge = knowledge_id, kl_version = Some version_id,
      kl_kind = (asc ''Research Evidence''), kl_ref = Some (xv_id item), kl_title = Some (xv_title item), kl_url = Some (xv_url item),
      kl_hash = Some (xv_hash item), kl_confidence = Some (xv_confidence item), kl_score = 80, kl_primary = False,
      kl_checked = True, kl_evidence = Some (xv_id item), kl_note = Some (or_given (xv_summary item) []),
      kl_created = kn_now env\<rparr>)"

definition persist_sources ::
  "knowledge_env \<Rightarrow> ustr \<Rightarrow> ustr \<Rightarrow> research_execution \<Rightarrow> research_source list \<Rightarrow> research_evidence list \<Rightarrow> unit kx"
where
  "persist_sources env knowledge_id version_id execution sources evidence =
     tx_each insert_link
       (map (source_row env knowledge_id version_id) (zip [0..<length sources] sources) @
        [report_row env knowledge_id version_id execution, execution_row env knowledge_id version_id execution] @
        map (evidence_link env knowledge_id version_id) (zip [0..<length evidence] evidence))"

section \<open>Names, categories and risk\<close>

definition generate_knowledge_code :: "knowledge_env \<Rightarrow> ustr \<Rightarrow> ustr" where
  "generate_knowledge_code env title =
     (let slug = or_text (kn_lower env (strip_char 45
                   (map (\<lambda>c. if kn_alnum env c then c else 45) (take 32 (normalize_text title))))) (asc ''knowledge'')
      in (asc ''knw-'') @ slug @ (asc ''-'') @ kn_stamp env @ (asc ''-'') @ take 6 (kn_uuid env (asc ''code'') 0))"

definition suggest_category :: "ustr \<Rightarrow> ustr option \<Rightarrow> ustr \<Rightarrow> ustr" where
  "suggest_category title summary content =
     (let source = title @ (asc '' '') @ or_given summary [] @ (asc '' '') @ content
      in case find (\<lambda>(keyword, category). occurs keyword source) DEFAULT_CATEGORY_SUGGESTIONS of
           Some (keyword, category) \<Rightarrow> category
         | None \<Rightarrow> [0x5176, 0x4ED6])"

definition suggest_tags :: "ustr \<Rightarrow> ustr option \<Rightarrow> ustr \<Rightarrow> ustr list \<Rightarrow> ustr list" where
  "suggest_tags title summary content source_tags =
     filter (\<lambda>t. t \<noteq> []) (first_of_each (source_tags @
       (case map_of DEFAULT_TAGS (suggest_category title summary content) of Some tags \<Rightarrow> tags | None \<Rightarrow> [[0x77E5, 0x8BC6]])))"

definition infer_risk_level :: "ustr \<Rightarrow> nat \<Rightarrow> nat \<Rightarrow> bool \<Rightarrow> ustr" where
  "infer_risk_level category source_count conflict_count injection =
     (if injection then [0x9AD8, 0x98CE, 0x9669]
      else if conflict_count > 0 then [0x4E2D, 0x98CE, 0x9669]
      else if source_count < 2 then [0x4E2D, 0x98CE, 0x9669]
      else if category \<in> {[0x6CD5, 0x52A1, 0x89C4, 0x5219], [0x8D22, 0x52A1, 0x89C4, 0x5219], [0x5B89, 0x5168, 0x89C4, 0x5219]} then [0x9AD8, 0x98CE, 0x9669]
      else [0x4F4E, 0x98CE, 0x9669])"

section \<open>Drafts\<close>

record draft_form =
  df_title :: ustr
  df_summary :: "ustr option"
  df_content :: ustr
  df_type :: ustr
  df_category :: "ustr option"
  df_visibility :: ustr
  df_risk :: ustr
  df_owner :: "ustr option"
  df_department :: "ustr option"
  df_tags :: "ustr list"

text \<open>The first version of an asset, and the columns of a later one that differ from it.\<close>

definition first_version :: "knowledge_env \<Rightarrow> ustr \<Rightarrow> ustr \<Rightarrow> ustr option \<Rightarrow> ustr \<Rightarrow> ustr \<Rightarrow> ustr \<Rightarrow> ustr \<Rightarrow> ustr option \<Rightarrow> ustr option \<Rightarrow> ustr option \<Rightarrow> knowledge_version" where
  "first_version env knowledge_id title summary content change reason source execution report created_by =
     \<lparr>kv_id = kn_uuid env (asc ''version'') 0, kv_knowledge = knowledge_id, kv_number = (asc ''1''), kv_title = title, kv_summary = summary,
      kv_content = content, kv_format = (asc ''markdown''), kv_change = Some change, kv_reason = Some reason, kv_source = Some source,
      kv_execution = execution, kv_report = report, kv_hash = kn_sha env content, kv_created_by = created_by,
      kv_reviewed_by = None, kv_approved_by = None, kv_approved = None, kv_created = kn_now env\<rparr>"

definition manual_draft :: "knowledge_env \<Rightarrow> ustr \<Rightarrow> draft_form \<Rightarrow> knowledge_asset \<times> knowledge_version \<times> ustr list" where
  "manual_draft env created_by form =
     (let kid = kn_uuid env (asc ''knowledge'') 0;
          safe_content = safe_text (df_content form);
          tags = suggest_tags (df_title form) (df_summary form) safe_content (df_tags form);
          version = first_version env kid (df_title form) (df_summary form) safe_content
                      [0x521B, 0x5EFA, 0x77E5, 0x8BC6, 0x8349, 0x7A3F] [0x624B, 0x52A8, 0x521B, 0x5EFA] (asc ''manual'') None None (Some created_by);
          asset = \<lparr>ka_id = kid, ka_code = generate_knowledge_code env (df_title form), ka_title = df_title form,
                   ka_summary = df_summary form, ka_type = df_type form,
                   ka_category = Some (or_given (df_category form) (suggest_category (df_title form) (df_summary form) safe_content)),
                   ka_status = DRAFT, ka_visibility = df_visibility form, ka_risk = df_risk form,
                   ka_current = Some (kv_id version), ka_owner = df_owner form, ka_department = df_department form,
                   ka_created_by = Some created_by, ka_approved_by = None, ka_approved = None, ka_published = None,
                   ka_archived = None, ka_sources = 0, ka_primary = 0, ka_cross = False, ka_conflicts = 0,
                   ka_unverified = 0, ka_evidence = None, ka_report = None, ka_execution = None,
                   ka_created = kn_now env, ka_updated = kn_now env\<rparr>
      in (asset, version, tags))"

definition create_manual_draft :: "knowledge_env \<Rightarrow> ustr \<Rightarrow> draft_form \<Rightarrow> ustr kx" where
  "create_manual_draft env created_by form =
     (let (asset, version, tags) = manual_draft env created_by form
      in tx_bind (insert_asset asset) (\<lambda>_.
         tx_bind (insert_version version) (\<lambda>_.
         tx_bind (persist_tags env (ka_id asset) (Some (kv_id version)) tags) (\<lambda>_.
         tx_bind (index_chunks env (ka_id asset) (kv_id version) (kv_content version)) (\<lambda>_. tx_return (ka_id asset))))))"

record report_form =
  rf_submitter :: ustr
  rf_title :: "ustr option"
  rf_summary :: "ustr option"
  rf_type :: ustr
  rf_category :: "ustr option"
  rf_visibility :: ustr
  rf_owner :: "ustr option"
  rf_department :: "ustr option"
  rf_tags :: "ustr list"

text \<open>The columns the draft of a report gets from the form, the report and its sources.\<close>

definition report_content :: "research_execution \<Rightarrow> ustr" where
  "report_content execution = or_given (xe_content execution) []"

definition stored_report :: "research_execution \<Rightarrow> ustr" where
  "stored_report execution = or_text (safe_text (report_content execution)) (report_content execution)"

definition report_title :: "report_form \<Rightarrow> research_execution \<Rightarrow> ustr" where
  "report_title form execution =
     or_given (rf_title form) (or_given (xe_title execution) (or_text (xe_topic execution) [0x672A, 0x547D, 0x540D, 0x77E5, 0x8BC6]))"

definition report_summary :: "report_form \<Rightarrow> research_execution \<Rightarrow> ustr" where
  "report_summary form execution =
     or_given (rf_summary form)
       (redact_sensitive_text
         (or_text (normalize_text (take 240 (or_text (report_content execution) (xe_goal execution))))
           (take 240 (xe_goal execution))))"

definition draft_of_report ::
  "knowledge_env \<Rightarrow> report_form \<Rightarrow> research_execution \<Rightarrow> research_source list \<Rightarrow> knowledge_asset \<times> knowledge_version \<times> ustr list"
where
  "draft_of_report env form execution sources =
     (let kid = kn_uuid env (asc ''knowledge'') 0;
          content = report_content execution;
          injection = detect_prompt_injection content;
          title = report_title form execution;
          summary = report_summary form execution;
          category = or_given (rf_category form) (suggest_category title (Some summary) content);
          tags = suggest_tags title (Some summary) content (rf_tags form);
          conflicts = length (filter (\<lambda>s. xs_validation s \<notin> {[0x5DF2, 0x4EA4, 0x53C9, 0x9A8C, 0x8BC1], [0x4EA4, 0x53C9, 0x9A8C, 0x8BC1, 0x901A, 0x8FC7]}) sources);
          version = first_version env kid title (Some summary) (stored_report execution)
                      [0x7531, 0x591A, 0x6765, 0x6E90, 0x7814, 0x7A76, 0x62A5, 0x544A, 0x81EA, 0x52A8, 0x751F, 0x6210, 0x77E5, 0x8BC6, 0x5019, 0x9009] [0x5929, 0x91C7, 0x63D0, 0x4EA4, 0x77E5, 0x8BC6, 0x5019, 0x9009] (asc ''research_report'')
                      (Some (xe_id execution)) (Some (xe_id execution)) (Some (rf_submitter form));
          asset = \<lparr>ka_id = kid, ka_code = generate_knowledge_code env title, ka_title = title, ka_summary = Some summary,
                   ka_type = rf_type form, ka_category = Some category, ka_status = DRAFT,
                   ka_visibility = rf_visibility form,
                   ka_risk = infer_risk_level category (length sources) conflicts injection,
                   ka_current = Some (kv_id version),
                   ka_owner = Some (or_given (rf_owner form) (rf_submitter form)),
                   ka_department = Some (or_given (rf_department form) [0x6570, 0x636E, 0x8D44, 0x4EA7, 0x519B, 0x56E2]),
                   ka_created_by = Some (rf_submitter form), ka_approved_by = None, ka_approved = None,
                   ka_published = None, ka_archived = None, ka_sources = int (length sources),
                   ka_primary = int (length (filter xs_primary sources)),
                   ka_cross = (sources \<noteq> [] \<and> list_all (\<lambda>s. xs_validation s = [0x5DF2, 0x4EA4, 0x53C9, 0x9A8C, 0x8BC1]) sources),
                   ka_conflicts = int conflicts,
                   ka_unverified = int (length (filter (\<lambda>s. xs_validation s \<noteq> [0x5DF2, 0x4EA4, 0x53C9, 0x9A8C, 0x8BC1]) sources)),
                   ka_evidence = Some (kn_sha env (joined (asc ''|'') (sort (filter (\<lambda>h. h \<noteq> []) (map xs_hash sources))))),
                   ka_report = Some (xe_id execution), ka_execution = Some (xe_id execution),
                   ka_created = kn_now env, ka_updated = kn_now env\<rparr>
      in (asset, version, tags))"

definition candidate_review ::
  "knowledge_env \<Rightarrow> report_form \<Rightarrow> research_execution \<Rightarrow> knowledge_asset \<Rightarrow> knowledge_review"
where
  "candidate_review env form execution asset =
     (let injection = detect_prompt_injection (report_content execution)
      in \<lparr>kw_id = kn_uuid env (asc ''review'') 0, kw_knowledge = ka_id asset, kw_version = ka_current asset,
          kw_stage = [0x6765, 0x6E90, 0x6821, 0x9A8C], kw_status = [0x5BA1, 0x6838, 0x4E2D], kw_reviewer = Some (rf_submitter form),
          kw_name = Some (or_text (employee_name (rf_submitter form)) (rf_submitter form)),
          kw_comment = Some [0x77E5, 0x8BC6, 0x5019, 0x9009, 0x5DF2, 0x521B, 0x5EFA, 0xFF0C, 0x7B49, 0x5F85, 0x5929, 0x85CF, 0x5BA1, 0x6838, 0x3002], kw_risk = Some (ka_risk asset),
          kw_source_check = JObj [((asc ''source_count''), JInt (ka_sources asset)), ((asc ''conflict_count''), JInt (ka_conflicts asset))],
          kw_sensitive_check = JObj [((asc ''passed''), JBool (\<not> injection))], kw_injection = injection, kw_boss = False,
          kw_created = kn_now env\<rparr>)"

definition store_report_draft ::
  "knowledge_env \<Rightarrow> report_form \<Rightarrow> research_execution \<Rightarrow> research_source list \<Rightarrow> research_evidence list \<Rightarrow> ustr kx"
where
  "store_report_draft env form execution sources evidence =
     (let (asset, version, tags) = draft_of_report env form execution sources
      in tx_bind (insert_asset asset) (\<lambda>_.
         tx_bind (insert_version version) (\<lambda>_.
         tx_bind (persist_tags env (ka_id asset) (Some (kv_id version)) tags) (\<lambda>_.
         tx_bind (persist_sources env (ka_id asset) (kv_id version) execution sources evidence) (\<lambda>_.
         tx_bind (insert_review (candidate_review env form execution asset)) (\<lambda>_.
         tx_bind (index_chunks env (ka_id asset) (kv_id version) (kv_content version)) (\<lambda>_. tx_return (ka_id asset))))))))"

definition create_draft_from_research_report :: "knowledge_env \<Rightarrow> ustr \<Rightarrow> report_form \<Rightarrow> ustr kx" where
  "create_draft_from_research_report env report_id form =
     tx_bind (tx_check (map_option KnowledgePermissionError (can_submit_employee (rf_submitter form)))) (\<lambda>_.
     tx_bind (\<lambda>db. tx_some (row_get xe_id report_id (kd_executions db)) (KnowledgeNotFoundError [0x7814, 0x7A76, 0x62A5, 0x544A, 0x4E0D, 0x5B58, 0x5728]) db) (\<lambda>execution.
     tx_bind (tx_read (\<lambda>db. filter (\<lambda>s. xs_execution s = xe_id execution) (kd_sources db))) (\<lambda>sources.
     tx_bind (tx_read (\<lambda>db. filter (\<lambda>e. xv_execution e = xe_id execution) (kd_evidence db))) (\<lambda>evidence.
     store_report_draft env form execution sources evidence))))"

section \<open>Edits\<close>

record patch_form =
  pf_title :: "ustr option"
  pf_summary :: "ustr option"
  pf_type :: "ustr option"
  pf_category :: "ustr option"
  pf_visibility :: "ustr option"
  pf_risk :: "ustr option"
  pf_owner :: "ustr option"
  pf_department :: "ustr option"
  pf_content :: "ustr option"
  pf_tags :: "ustr list option"

definition or_old :: "'a option \<Rightarrow> 'a \<Rightarrow> 'a" where
  "or_old new old = (case new of None \<Rightarrow> old | Some x \<Rightarrow> x)"

definition patched_asset :: "knowledge_env \<Rightarrow> patch_form \<Rightarrow> knowledge_asset \<Rightarrow> knowledge_asset" where
  "patched_asset env form asset =
     asset\<lparr>ka_title := or_old (pf_title form) (ka_title asset),
           ka_summary := (if pf_summary form = None then ka_summary asset else pf_summary form),
           ka_type := or_old (pf_type form) (ka_type asset),
           ka_category := (if pf_category form = None then ka_category asset else pf_category form),
           ka_visibility := or_old (pf_visibility form) (ka_visibility asset),
           ka_risk := or_old (pf_risk form) (ka_risk asset),
           ka_owner := (if pf_owner form = None then ka_owner asset else pf_owner form),
           ka_department := (if pf_department form = None then ka_department asset else pf_department form),
           ka_updated := kn_now env\<rparr>"

definition rewrite_version :: "knowledge_env \<Rightarrow> knowledge_asset \<Rightarrow> ustr \<Rightarrow> unit kx" where
  "rewrite_version env asset content =
     tx_bind (tx_read (current_version asset)) (\<lambda>found.
     (case found of
        None \<Rightarrow> tx_return ()
      | Some version \<Rightarrow>
          (let text = safe_text content
           in tx_bind (save_version (version\<lparr>kv_content := text, kv_hash := kn_sha env text,
                         kv_summary := ka_summary asset, kv_title := ka_title asset,
                         kv_number := or_text (kv_number version) (asc ''1'')\<rparr>)) (\<lambda>_.
              reindex_chunks env (ka_id asset) (kv_id version) text))))"

definition replace_tags :: "knowledge_env \<Rightarrow> knowledge_asset \<Rightarrow> ustr list \<Rightarrow> unit kx" where
  "replace_tags env asset tags =
     tx_bind (tx_write (\<lambda>db. db\<lparr>kd_relations := filter (\<lambda>r. kr_knowledge r \<noteq> ka_id asset) (kd_relations db)\<rparr>))
       (\<lambda>_. persist_tags env (ka_id asset) (ka_current asset) tags)"

definition update_draft :: "knowledge_env \<Rightarrow> patch_form \<Rightarrow> knowledge_asset \<Rightarrow> unit kx" where
  "update_draft env form asset =
     (let new = patched_asset env form asset
      in tx_bind (tx_check (if ka_status asset \<in> {DRAFT, REJECTED, PENDING} then None
                            else Some (KnowledgeConflictError [0x53EA, 0x6709, 0x8349, 0x7A3F, 0x6216, 0x9A73, 0x56DE, 0x72B6, 0x6001, 0x7684, 0x77E5, 0x8BC6, 0x53EF, 0x4EE5, 0x7F16, 0x8F91]))) (\<lambda>_.
         tx_bind (save_asset env asset new) (\<lambda>_.
         tx_bind (case pf_content form of None \<Rightarrow> tx_return () | Some content \<Rightarrow> rewrite_version env new content) (\<lambda>_.
         (case pf_tags form of None \<Rightarrow> tx_return () | Some tags \<Rightarrow> replace_tags env new tags)))))"

section \<open>Reviews\<close>

record review_form =
  vf_employee :: ustr
  vf_comment :: "ustr option"
  vf_boss :: bool
  vf_sensitive :: bool

definition reviewer_code :: "review_form \<Rightarrow> ustr" where
  "reviewer_code form = or_text (employee_code (vf_employee form)) (vf_employee form)"

definition new_review ::
  "knowledge_env \<Rightarrow> review_form \<Rightarrow> knowledge_asset \<Rightarrow> ustr \<Rightarrow> ustr \<Rightarrow> ustr option \<Rightarrow> knowledge_review"
where
  "new_review env form asset stage status comment =
     \<lparr>kw_id = kn_uuid env (asc ''review'') 0, kw_knowledge = ka_id asset, kw_version = ka_current asset,
      kw_stage = stage, kw_status = status, kw_reviewer = Some (reviewer_code form),
      kw_name = Some (or_text (employee_name (vf_employee form)) (vf_employee form)),
      kw_comment = comment, kw_risk = Some (ka_risk asset),
      kw_source_check = JObj [((asc ''source_count''), JInt (ka_sources asset)), ((asc ''primary_source_count''), JInt (ka_primary asset)),
                              ((asc ''cross_validated''), JBool (ka_cross asset))],
      kw_sensitive_check = JObj [((asc ''passed''), JBool (vf_sensitive form))], kw_injection = False,
      kw_boss = vf_boss form, kw_created = kn_now env\<rparr>"

definition submit_for_review :: "knowledge_env \<Rightarrow> review_form \<Rightarrow> knowledge_asset \<Rightarrow> unit kx" where
  "submit_for_review env form asset =
     tx_bind (tx_check (permitted (can_review_employee (vf_employee form)) (vf_employee form) asset)) (\<lambda>_.
     tx_bind (save_asset env asset (asset\<lparr>ka_status := PENDING\<rparr>)) (\<lambda>_.
     insert_review (new_review env form asset [0x63D0, 0x4EA4, 0x5BA1, 0x6838] [0x5BA1, 0x6838, 0x4E2D] (vf_comment form))))"

definition approve_asset :: "knowledge_env \<Rightarrow> review_form \<Rightarrow> knowledge_asset \<Rightarrow> unit kx" where
  "approve_asset env form asset =
     tx_bind (tx_check (permitted (can_review_employee (vf_employee form)) (vf_employee form) asset)) (\<lambda>_.
     tx_bind (tx_check (if ka_risk asset \<in> set HIGH_RISKS \<and> \<not> vf_boss form
                        then Some (KnowledgeValidationError [0x9AD8, 0x98CE, 0x9669, 0x77E5, 0x8BC6, 0x5FC5, 0x987B, 0x7531, 0x8001, 0x677F, 0x786E, 0x8BA4]) else None)) (\<lambda>_.
     tx_bind (save_asset env asset (asset\<lparr>ka_status := APPROVED, ka_approved_by := Some (reviewer_code form),
                                         ka_approved := Some (kn_now env)\<rparr>)) (\<lambda>_.
     insert_review (new_review env form asset [0x5BA1, 0x6838] APPROVED (Some (or_given (vf_comment form) APPROVED))))))"

definition reject_asset :: "knowledge_env \<Rightarrow> review_form \<Rightarrow> knowledge_asset \<Rightarrow> unit kx" where
  "reject_asset env form asset =
     tx_bind (tx_check (permitted (can_review_employee (vf_employee form)) (vf_employee form) asset)) (\<lambda>_.
     tx_bind (save_asset env asset (asset\<lparr>ka_status := REJECTED\<rparr>)) (\<lambda>_.
     insert_review (new_review env form asset [0x5BA1, 0x6838] REJECTED (Some (or_given (vf_comment form) REJECTED)))))"

definition publish_version :: "knowledge_env \<Rightarrow> review_form \<Rightarrow> knowledge_asset \<Rightarrow> unit kx" where
  "publish_version env form asset =
     tx_bind (tx_read (current_version asset)) (\<lambda>found.
     (case found of
        None \<Rightarrow> tx_return ()
      | Some version \<Rightarrow>
          tx_bind (save_version (version\<lparr>kv_approved_by := Some (reviewer_code form), kv_approved := Some (kn_now env)\<rparr>)) (\<lambda>_.
          reindex_chunks env (ka_id asset) (kv_id version) (kv_content version))))"

definition published_asset :: "knowledge_env \<Rightarrow> review_form \<Rightarrow> knowledge_asset \<Rightarrow> knowledge_asset" where
  "published_asset env form asset =
     asset\<lparr>ka_status := PUBLISHED, ka_published := Some (kn_now env), ka_approved_by := Some (reviewer_code form),
           ka_approved := (if ka_approved asset = None then Some (kn_now env) else ka_approved asset)\<rparr>"

definition publish_asset :: "knowledge_env \<Rightarrow> review_form \<Rightarrow> knowledge_asset \<Rightarrow> unit kx" where
  "publish_asset env form asset =
     (let new = published_asset env form asset
      in tx_bind (tx_check (permitted (can_publish_employee (vf_employee form)) (vf_employee form) asset)) (\<lambda>_.
         tx_bind (tx_check (if ka_status asset \<notin> {APPROVED, PENDING} \<and> \<not> vf_boss form
                            then Some (KnowledgeValidationError [0x77E5, 0x8BC6, 0x53D1, 0x5E03, 0x524D, 0x5FC5, 0x987B, 0x5B8C, 0x6210, 0x6279, 0x51C6]) else None)) (\<lambda>_.
         tx_bind (tx_check (if ka_status asset = PUBLISHED
                            then Some (KnowledgeConflictError [0x77E5, 0x8BC6, 0x5DF2, 0x7ECF, 0x53D1, 0x5E03, 0xFF0C, 0x4E0D, 0x80FD, 0x91CD, 0x590D, 0x53D1, 0x5E03]) else None)) (\<lambda>_.
         tx_bind (save_asset env asset new) (\<lambda>_.
         tx_bind (publish_version env form new) (\<lambda>_.
         insert_review (new_review env form new [0x53D1, 0x5E03] PUBLISHED (Some (or_given (vf_comment form) PUBLISHED)))))))))"

definition archive_asset :: "knowledge_env \<Rightarrow> review_form \<Rightarrow> knowledge_asset \<Rightarrow> unit kx" where
  "archive_asset env form asset =
     tx_bind (tx_check (permitted (can_archive_employee (vf_employee form)) (vf_employee form) asset)) (\<lambda>_.
     tx_bind (save_asset env asset (asset\<lparr>ka_status := ARCHIVED, ka_archived := Some (kn_now env)\<rparr>)) (\<lambda>_.
     insert_review ((new_review env form asset [0x5F52, 0x6863] ARCHIVED (Some (or_given (vf_comment form) ARCHIVED)))
       \<lparr>kw_source_check := JObj [], kw_sensitive_check := JObj [], kw_boss := False\<rparr>)))"

section \<open>Versions\<close>

definition create_new_version :: "knowledge_env \<Rightarrow> knowledge_version \<Rightarrow> knowledge_asset \<Rightarrow> knowledge_version kx" where
  "create_new_version env payload asset =
     tx_bind (tx_read (\<lambda>db. filter (\<lambda>v. kv_knowledge v = ka_id asset) (kd_versions db))) (\<lambda>versions.
     (let content = safe_text (kv_content payload);
          row = payload\<lparr>kv_id := kn_uuid env (asc ''version'') 0, kv_knowledge := ka_id asset,
                  kv_number := next_version_number (map kv_number versions),
                  kv_title := or_text (kv_title payload) (ka_title asset),
                  kv_summary := (if kv_summary payload \<in> {None, Some []} then ka_summary asset else kv_summary payload),
                  kv_content := content, kv_format := (asc ''markdown''), kv_hash := kn_sha env content,
                  kv_approved := (if kv_approved_by payload \<in> {None, Some []} then None else Some (kn_now env)),
                  kv_created := kn_now env\<rparr>
      in tx_bind (insert_version row) (\<lambda>_.
         tx_bind (save_asset env asset (asset\<lparr>ka_current := Some (kv_id row), ka_title := kv_title row,
                                             ka_summary := kv_summary row, ka_updated := kn_now env\<rparr>)) (\<lambda>_.
         tx_bind (index_chunks env (ka_id asset) (kv_id row) (kv_content row)) (\<lambda>_. tx_return row)))))"

definition manual_version :: "knowledge_env \<Rightarrow> ustr \<Rightarrow> draft_form \<Rightarrow> knowledge_asset \<Rightarrow> knowledge_version" where
  "manual_version env created_by form asset =
     first_version env (ka_id asset) (df_title form) (df_summary form) (df_content form)
       [0x521B, 0x5EFA, 0x77E5, 0x8BC6, 0x65B0, 0x7248, 0x672C] [0x624B, 0x52A8, 0x65B0, 0x7248, 0x672C] (asc ''manual'') None None (Some created_by)"

definition restored_version :: "knowledge_env \<Rightarrow> ustr \<Rightarrow> knowledge_version \<Rightarrow> knowledge_version" where
  "restored_version env created_by version =
     version\<lparr>kv_change := Some [0x4ECE, 0x5386, 0x53F2, 0x7248, 0x672C, 0x6062, 0x590D], kv_reason := Some [0x77E5, 0x8BC6, 0x7248, 0x672C, 0x56DE, 0x9000],
             kv_source := Some (or_given (kv_source version) (asc ''manual'')), kv_created_by := Some created_by\<rparr>"

definition create_version_snapshot :: "knowledge_env \<Rightarrow> ustr \<Rightarrow> ustr \<Rightarrow> ustr \<Rightarrow> knowledge_asset \<Rightarrow> knowledge_version kx" where
  "create_version_snapshot env created_by change reason asset =
     tx_bind (\<lambda>db. tx_some (current_version asset db) (KnowledgeNotFoundError [0x5F53, 0x524D, 0x7248, 0x672C, 0x4E0D, 0x5B58, 0x5728]) db) (\<lambda>current.
     create_new_version env ((restored_version env created_by current)\<lparr>kv_change := Some change, kv_reason := Some reason\<rparr>) asset)"

section \<open>Requests of the service\<close>

definition get_asset_or_404 :: "ustr \<Rightarrow> knowledge_asset kx" where
  "get_asset_or_404 knowledge_id db =
     tx_some (row_get ka_id knowledge_id (kd_assets db)) (KnowledgeNotFoundError [0x77E5, 0x8BC6, 0x8D44, 0x4EA7, 0x4E0D, 0x5B58, 0x5728]) db"

definition with_asset :: "ustr \<Rightarrow> (knowledge_asset \<Rightarrow> unit kx) \<Rightarrow> unit kx" where
  "with_asset knowledge_id operation = tx_bind (get_asset_or_404 knowledge_id) operation"

definition create_version :: "knowledge_env \<Rightarrow> ustr \<Rightarrow> ustr \<Rightarrow> draft_form \<Rightarrow> unit kx" where
  "create_version env created_by knowledge_id form =
     with_asset knowledge_id (\<lambda>asset.
       tx_bind (create_new_version env (manual_version env created_by form asset) asset) (\<lambda>_. tx_return ()))"

definition restore_version :: "knowledge_env \<Rightarrow> ustr \<Rightarrow> ustr \<Rightarrow> ustr \<Rightarrow> unit kx" where
  "restore_version env created_by knowledge_id version_id =
     with_asset knowledge_id (\<lambda>asset.
       tx_bind (\<lambda>db. tx_some (case row_get kv_id version_id (kd_versions db) of
                                None \<Rightarrow> None
                              | Some v \<Rightarrow> if kv_knowledge v = ka_id asset then Some v else None)
                       (KnowledgeNotFoundError [0x77E5, 0x8BC6, 0x7248, 0x672C, 0x4E0D, 0x5B58, 0x5728]) db) (\<lambda>version.
       tx_bind (create_new_version env (restored_version env created_by version) asset) (\<lambda>_. tx_return ())))"

record cite_form =
  cf_task :: "int option"
  cf_execution :: "ustr option"
  cf_employee :: "ustr option"
  cf_usage :: ustr
  cf_query :: "ustr option"
  cf_summary :: "ustr option"
  cf_chunk :: "ustr option"

definition citation_row :: "knowledge_env \<Rightarrow> knowledge_asset \<Rightarrow> knowledge_version option \<Rightarrow> cite_form \<Rightarrow> knowledge_citation" where
  "citation_row env asset version form =
     \<lparr>kq_id = (asc ''cit-'') @ kn_stamp_micro env, kq_knowledge = ka_id asset,
      kq_version = Some (case version of None \<Rightarrow> [] | Some v \<Rightarrow> kv_id v), kq_chunk = cf_chunk form, kq_task = cf_task form,
      kq_execution = cf_execution form, kq_employee = cf_employee form, kq_usage = cf_usage form,
      kq_hash = kn_sha env (strip (or_given (cf_query form) [])), kq_summary = Some (or_given (cf_summary form) []),
      kq_created = kn_now env\<rparr>"

definition record_use :: "knowledge_env \<Rightarrow> ustr \<Rightarrow> cite_form \<Rightarrow> unit kx" where
  "record_use env knowledge_id form =
     with_asset knowledge_id (\<lambda>asset.
       tx_bind (tx_read (current_version asset)) (\<lambda>version. insert_citation (citation_row env asset version form)))"

datatype duplicate = NoDuplicate | Exact ustr ustr | Similar ustr ustr

definition text_tokens :: "knowledge_env \<Rightarrow> ustr option \<Rightarrow> ustr list" where
  "text_tokens env value = remdups (split_words [] (kn_lower env (normalize_text (or_given value []))))"

definition overlap :: "ustr list \<Rightarrow> ustr list \<Rightarrow> nat" where
  "overlap xs ys = length (filter (\<lambda>x. x \<in> set ys) xs)"

definition detect_duplicate ::
  "knowledge_env \<Rightarrow> ustr \<Rightarrow> ustr option \<Rightarrow> ustr \<Rightarrow> ustr option \<Rightarrow> knowledge_db \<Rightarrow> duplicate"
where
  "detect_duplicate env title summary content report_id db =
     (let rows = kd_versions db;
          title_tokens = text_tokens env (Some title);
          summary_tokens = text_tokens env summary
      in case find (\<lambda>v. kv_hash v = kn_sha env content \<or> kv_report v = report_id) rows of
           Some v \<Rightarrow> Exact (kv_knowledge v) (kv_id v)
         | None \<Rightarrow>
             (case find (\<lambda>v. let row = text_tokens env (Some (kv_title v)) @ text_tokens env (kv_summary v)
                             in 3 \<le> overlap title_tokens row + overlap summary_tokens row) rows of
                Some v \<Rightarrow> Similar (kv_knowledge v) (kv_id v)
              | None \<Rightarrow> NoDuplicate))"

definition submit_research_report :: "knowledge_env \<Rightarrow> ustr \<Rightarrow> report_form \<Rightarrow> (ustr \<times> duplicate) kx" where
  "submit_research_report env report_id form =
     tx_bind (tx_read (detect_duplicate env (or_given (rf_title form) []) (rf_summary form) [] (Some report_id))) (\<lambda>hint.
     tx_bind (tx_check (case hint of
                          Exact _ _ \<Rightarrow> Some (KnowledgeConflictError [0x91CD, 0x590D, 0x77E5, 0x8BC6, 0x5019, 0x9009, 0xFF0C, 0x5DF2, 0x5B58, 0x5728, 0x76F8, 0x540C, 0x5185, 0x5BB9])
                        | _ \<Rightarrow> None)) (\<lambda>_.
     tx_bind (create_draft_from_research_report env report_id form) (\<lambda>kid. tx_return (kid, hint))))"

end
