(* ===== verification/Knowledge_Machine.thy ===== *)
theory Knowledge_Machine
  imports Knowledge_Flow
begin

text \<open>
  The routes of the knowledge center (\<^verbatim>\<open>routers/knowledge_center_v2.py\<close>): who may call them, what
  each calls and the status an error is answered with. \<open>knowledge_step\<close> is one request on the
  database; \<open>Knowledge_Invariant\<close> proves what all requests keep.
\<close>

section \<open>Who may call\<close>

definition ROLE_ALIASES :: "(ustr \<times> ustr) list" where
  "ROLE_ALIASES =
     [((asc ''boss''), (asc ''owner'')), ((asc ''owner''), (asc ''owner'')), ((asc ''admin''), (asc ''admin'')), ((asc ''administrator''), (asc ''admin'')),
      ((asc ''operator''), (asc ''operator'')), ((asc ''ads''), (asc ''operator'')), ((asc ''service''), (asc ''customer_service'')),
      ((asc ''customer_service''), (asc ''customer_service'')), ((asc ''designer''), (asc ''designer'')), ((asc ''editor''), (asc ''editor'')), ((asc ''finance''), (asc ''finance''))]"

definition normalize_role :: "ustr \<Rightarrow> ustr" where
  "normalize_role role = (case map_of ROLE_ALIASES (strip role) of None \<Rightarrow> strip role | Some r \<Rightarrow> r)"

definition require_with :: "knowledge_env \<Rightarrow> ustr list \<Rightarrow> int option" where
  "require_with env permissions =
     (if \<not> kn_enabled env then Some 403
      else case kn_role env of
             None \<Rightarrow> Some 401
           | Some role \<Rightarrow>
               if normalize_role role \<in> {(asc ''owner''), (asc ''admin'')} then None
               else if list_ex (\<lambda>p. p \<in> set (kn_permissions env (normalize_role role))) permissions then None
               else Some 403)"

definition require_knowledge_reader :: "knowledge_env \<Rightarrow> int option" where
  "require_knowledge_reader env = require_with env [(asc ''knowledge.read''), (asc ''knowledge.manage'')]"

definition require_knowledge_manager :: "knowledge_env \<Rightarrow> int option" where
  "require_knowledge_manager env = require_with env [(asc ''knowledge.manage'')]"

definition active_actor :: "knowledge_env \<Rightarrow> ustr" where
  "active_actor env = or_text (normalize_role (or_given (kn_role env) [])) (kn_username env)"

section \<open>Requests\<close>

datatype knowledge_request =
    CreateAsset draft_form
  | PatchAsset ustr patch_form
  | SubmitReview ustr review_form
  | ApproveAsset ustr review_form
  | RejectAsset ustr review_form
  | PublishAsset ustr review_form
  | ArchiveAsset ustr review_form
  | CreateVersion ustr draft_form
  | RestoreVersion ustr ustr
  | CiteAsset ustr cite_form
  | SubmitReport ustr report_form

text \<open>The errors a route turns into an answer; any other error ends in the status 500.\<close>

datatype error_class = PermissionClass | NotFoundClass | ConflictClass | ValidationClass

definition handled :: "knowledge_request \<Rightarrow> error_class list" where
  "handled r =
     (case r of
        SubmitReview _ _ \<Rightarrow> [NotFoundClass, PermissionClass, ValidationClass]
      | ApproveAsset _ _ \<Rightarrow> [NotFoundClass, PermissionClass, ValidationClass]
      | PublishAsset _ _ \<Rightarrow> [NotFoundClass, PermissionClass, ValidationClass]
      | RejectAsset _ _ \<Rightarrow> [NotFoundClass, PermissionClass]
      | ArchiveAsset _ _ \<Rightarrow> [NotFoundClass, PermissionClass]
      | RestoreVersion _ _ \<Rightarrow> [NotFoundClass, PermissionClass]
      | SubmitReport _ _ \<Rightarrow> [ConflictClass, NotFoundClass, PermissionClass]
      | _ \<Rightarrow> [])"

definition error_status :: "error_class list \<Rightarrow> knowledge_error \<Rightarrow> int" where
  "error_status classes e =
     (case e of
        KnowledgePermissionError _ \<Rightarrow> if PermissionClass \<in> set classes then 403 else 500
      | KnowledgeNotFoundError _ \<Rightarrow> if NotFoundClass \<in> set classes then 404 else 500
      | KnowledgeConflictError _ \<Rightarrow> if ConflictClass \<in> set classes then 409 else 500
      | KnowledgeValidationError _ \<Rightarrow> if ValidationClass \<in> set classes then 400 else 500
      | IntegrityError \<Rightarrow> 500)"

definition required_access :: "knowledge_env \<Rightarrow> knowledge_request \<Rightarrow> int option" where
  "required_access env r =
     (case r of CiteAsset _ _ \<Rightarrow> require_knowledge_reader env | _ \<Rightarrow> require_knowledge_manager env)"

definition operation :: "knowledge_env \<Rightarrow> knowledge_request \<Rightarrow> unit kx" where
  "operation env r =
     (case r of
        CreateAsset form \<Rightarrow> tx_bind (create_manual_draft env (active_actor env) form) (\<lambda>_. tx_return ())
      | PatchAsset kid form \<Rightarrow> with_asset kid (update_draft env form)
      | SubmitReview kid form \<Rightarrow> with_asset kid (submit_for_review env form)
      | ApproveAsset kid form \<Rightarrow> with_asset kid (approve_asset env form)
      | RejectAsset kid form \<Rightarrow> with_asset kid (reject_asset env form)
      | PublishAsset kid form \<Rightarrow> with_asset kid (publish_asset env form)
      | ArchiveAsset kid form \<Rightarrow> with_asset kid (archive_asset env form)
      | CreateVersion kid form \<Rightarrow> create_version env (active_actor env) kid form
      | RestoreVersion kid vid \<Rightarrow> restore_version env (active_actor env) kid vid
      | CiteAsset kid form \<Rightarrow> record_use env kid form
      | SubmitReport rid form \<Rightarrow> tx_bind (submit_research_report env rid form) (\<lambda>_. tx_return ()))"

text \<open>The status of the answer and the database after it.\<close>

definition serve_knowledge :: "knowledge_env \<Rightarrow> knowledge_request \<Rightarrow> knowledge_db \<Rightarrow> int \<times> knowledge_db" where
  "serve_knowledge env r db =
     (case required_access env r of
        Some status \<Rightarrow> (status, db)
      | None \<Rightarrow>
          (case run_tx (operation env r) db of
             (Inl e, db') \<Rightarrow> (error_status (handled r) e, db')
           | (Inr _, db') \<Rightarrow> (200, db')))"

text \<open>One request; all requests hash with the same function.\<close>

definition knowledge_step :: "(ustr \<Rightarrow> ustr) \<Rightarrow> knowledge_db \<Rightarrow> knowledge_env \<times> knowledge_request \<Rightarrow> knowledge_db" where
  "knowledge_step sha db e = snd (serve_knowledge ((fst e)\<lparr>kn_sha := sha\<rparr>) (snd e) db)"

text \<open>An empty center over the research the company has done.\<close>

definition empty_knowledge ::
  "research_execution list \<Rightarrow> research_source list \<Rightarrow> research_evidence list \<Rightarrow> knowledge_db"
where
  "empty_knowledge executions sources evidence =
     \<lparr>kd_assets = [], kd_versions = [], kd_chunks = [], kd_tags = [], kd_relations = [], kd_reviews = [], kd_links = [],
      kd_citations = [], kd_executions = executions, kd_sources = sources, kd_evidence = evidence\<rparr>"

end
