(* ===== verification/Knowledge_Invariant.thy ===== *)
theory Knowledge_Invariant
  imports Knowledge_Machine
begin

text \<open>
  The invariant of the tables of the knowledge center: every asset has a current version of its own,
  the versions of an asset are numbered 1, 2, 3, ..., the chunks of a version are those of its text,
  and what is published has a time of publication. It concerns three tables (\<open>core\<close>); the others are
  left to the frame rules. Each operation is brought to its effect on the core.
\<close>

section \<open>The invariant\<close>

definition versions_of :: "ustr \<Rightarrow> knowledge_db \<Rightarrow> knowledge_version list" where
  "versions_of kid db = filter (\<lambda>v. kv_knowledge v = kid) (kd_versions db)"

definition chunks_of :: "ustr \<Rightarrow> knowledge_db \<Rightarrow> knowledge_chunk list" where
  "chunks_of vid db = filter (\<lambda>c. kc_version c = vid) (kd_chunks db)"

definition status_ok :: "knowledge_asset \<Rightarrow> bool" where
  "status_ok a \<longleftrightarrow>
     ka_status a \<in> {DRAFT, PENDING, REJECTED, APPROVED, PUBLISHED, ARCHIVED} \<and>
     (ka_status a = PUBLISHED \<longrightarrow> ka_published a \<noteq> None \<and> ka_approved a \<noteq> None) \<and>
     (ka_status a = ARCHIVED \<longrightarrow> ka_archived a \<noteq> None)"

definition asset_ok :: "knowledge_db \<Rightarrow> knowledge_asset \<Rightarrow> bool" where
  "asset_ok db a \<longleftrightarrow>
     list_ex (\<lambda>v. ka_current a = Some (kv_id v)) (versions_of (ka_id a) db) \<and>
     map kv_number (versions_of (ka_id a) db) = map int_text [1..int (length (versions_of (ka_id a) db))] \<and>
     status_ok a"

definition version_ok :: "(ustr \<Rightarrow> ustr) \<Rightarrow> knowledge_db \<Rightarrow> knowledge_version \<Rightarrow> bool" where
  "version_ok sha db v \<longleftrightarrow>
     kv_hash v = sha (kv_content v) \<and>
     chunks_of (kv_id v) db =
       map (chunk_row (kv_knowledge v) (kv_id v)) (chunk_text sha MAX_CHARS (kv_content v)) \<and>
     kv_knowledge v \<in> set (map ka_id (kd_assets db)) \<and>
     (list_all plain_char (kv_content v) \<or> safe_text (kv_content v) = [])"

definition knowledge_ok :: "(ustr \<Rightarrow> ustr) \<Rightarrow> knowledge_db \<Rightarrow> bool" where
  "knowledge_ok sha db \<longleftrightarrow>
     distinct (map ka_id (kd_assets db)) \<and> distinct (map kv_id (kd_versions db)) \<and>
     list_all (asset_ok db) (kd_assets db) \<and> list_all (version_ok sha db) (kd_versions db) \<and>
     list_all (\<lambda>c. kc_version c \<in> set (map kv_id (kd_versions db))) (kd_chunks db)"

section \<open>Frames\<close>

definition same_core :: "knowledge_db \<Rightarrow> knowledge_db \<Rightarrow> bool" where
  "same_core db db' \<longleftrightarrow>
     kd_assets db' = kd_assets db \<and> kd_versions db' = kd_versions db \<and> kd_chunks db' = kd_chunks db \<and>
     kd_executions db' = kd_executions db \<and> kd_sources db' = kd_sources db \<and> kd_evidence db' = kd_evidence db \<and>
     set (kd_reviews db) \<subseteq> set (kd_reviews db') \<and> set (kd_links db) \<subseteq> set (kd_links db')"

interpretation core_frame: tx_frame same_core
  by unfold_locales (auto simp: same_core_def)

lemma knowledge_ok_core:
  "kd_assets db' = kd_assets db \<Longrightarrow> kd_versions db' = kd_versions db \<Longrightarrow> kd_chunks db' = kd_chunks db \<Longrightarrow>
     knowledge_ok sha db \<Longrightarrow> knowledge_ok sha db'"
  by (simp add: knowledge_ok_def list_all_iff asset_ok_def version_ok_def versions_of_def chunks_of_def)

lemma insert_row_Inr [simp]:
  "insert_row clash rows store row db = Inr (u, db') \<longleftrightarrow>
     \<not> list_ex (clash row) (rows db) \<and> db' = store (row_add row (rows db)) db"
  by (auto simp: insert_row_def)

lemma insert_row_Inl [simp]:
  "insert_row clash rows store row db = Inl (e, s) \<longleftrightarrow> list_ex (clash row) (rows db) \<and> e = IntegrityError \<and> s = None"
  by (auto simp: insert_row_def)

lemmas insert_defs = insert_asset_def insert_version_def insert_chunk_def insert_tag_def insert_relation_def
  insert_review_def insert_link_def insert_citation_def

lemma leaf_core_frames:
  "keeps same_core (insert_tag t)" "keeps same_core (insert_relation r)" "keeps same_core (insert_review w)"
  "keeps same_core (insert_link l)" "keeps same_core (insert_citation q)"
  "keeps same_core (tx_write (\<lambda>db. db\<lparr>kd_relations := k db\<rparr>))"
  by (auto simp: keeps_def leaves_def insert_defs same_core_def)

lemma each_frame: "(\<And>x. keeps same_core (f x)) \<Longrightarrow> keeps same_core (tx_each f xs)"
  by (induction xs) (auto intro: core_frame.keeps_basic core_frame.keeps_bind)

lemmas core_rules = core_frame.keeps_bind core_frame.keeps_basic leaf_core_frames each_frame

lemma find_or_add_tag_frame: "keeps same_core (find_or_add_tag env i n)"
proof -
  have "keeps same_core (tx_bind (insert_tag t) (\<lambda>_. tx_return x))" for t and x :: ustr
    by (intro core_rules)
  then show ?thesis
    by (auto simp: keeps_def leaves_def find_or_add_tag_def Let_def core_frame.refl split: option.splits)
qed

lemma resolve_tags_frame: "keeps same_core (resolve_tags env i names)"
  by (induction env i names rule: resolve_tags.induct) (auto intro!: core_rules find_or_add_tag_frame)

lemma persist_tags_frame: "keeps same_core (persist_tags env k v tags)"
  unfolding persist_tags_def Let_def
  by (intro core_rules resolve_tags_frame) (auto split: prod.splits intro: core_rules)

lemma persist_sources_frame: "keeps same_core (persist_sources env k v x ss es)"
  unfolding persist_sources_def by (intro core_rules)

lemma replace_tags_frame: "keeps same_core (replace_tags env a tags)"
  unfolding replace_tags_def by (intro core_rules persist_tags_frame)

lemma record_use_frame: "keeps same_core (record_use env kid form)"
  unfolding record_use_def with_asset_def get_asset_or_404_def by (intro core_rules)

lemmas core_keeps = keepsD [OF persist_tags_frame] keepsD [OF persist_sources_frame] keepsD [OF replace_tags_frame]
  keepsD [OF leaf_core_frames(3)]

lemma insert_chunks_Inr:
  "tx_each insert_chunk rows db = Inr (u, db') \<Longrightarrow> db' = db\<lparr>kd_chunks := kd_chunks db @ rows\<rparr>"
proof (induction rows arbitrary: db)
  case (Cons c rows)
  then obtain db1 where "insert_chunk c db = Inr ((), db1)" and rest: "tx_each insert_chunk rows db1 = Inr (u, db')"
    by (auto simp: tx_bind_Inr)
  then have "db1 = db\<lparr>kd_chunks := kd_chunks db @ [c]\<rparr>"
    by (simp add: insert_chunk_def row_add_def)
  with Cons.IH [OF rest] show ?case by simp
qed simp

lemma index_chunks_Inr:
  "index_chunks env kid vid content db = Inr (u, db') \<Longrightarrow>
     db' = db\<lparr>kd_chunks := kd_chunks db @ map (chunk_row kid vid) (chunk_text (kn_sha env) MAX_CHARS content)\<rparr>"
  unfolding index_chunks_def by (rule insert_chunks_Inr)

lemma reindex_chunks_Inr:
  "reindex_chunks env kid vid content db = Inr (u, db') \<Longrightarrow>
     db' = db\<lparr>kd_chunks := filter (\<lambda>c. kc_version c \<noteq> vid) (kd_chunks db) @
                 map (chunk_row kid vid) (chunk_text (kn_sha env) MAX_CHARS content)\<rparr>"
  unfolding reindex_chunks_def by (auto simp: tx_bind_Inr dest!: index_chunks_Inr)

lemma chunk_row_simps [simp]: "kc_version (chunk_row k v c) = v" "kc_knowledge (chunk_row k v c) = k" "kc_data (chunk_row k v c) = c"
  by (simp_all add: chunk_row_def)

section \<open>Changes of the core\<close>

lemma knowledge_okD:
  assumes "knowledge_ok sha db"
  shows "distinct (map ka_id (kd_assets db))" "distinct (map kv_id (kd_versions db))"
    "a \<in> set (kd_assets db) \<Longrightarrow> asset_ok db a" "v \<in> set (kd_versions db) \<Longrightarrow> version_ok sha db v"
    "c \<in> set (kd_chunks db) \<Longrightarrow> kc_version c \<in> set (map kv_id (kd_versions db))"
  using assms unfolding knowledge_ok_def list_all_iff by blast+

lemma put_asset_ok:
  assumes ok: "knowledge_ok sha db" and a: "a \<in> set (kd_assets db)"
    and same: "ka_id a' = ka_id a" "ka_current a' = ka_current a" and st: "status_ok a'"
  shows "knowledge_ok sha (db\<lparr>kd_assets := row_put ka_id a' (kd_assets db)\<rparr>)"
proof -
  have "asset_ok db a" using ok a by (rule knowledge_okD)
  with same st have "asset_ok db a'" by (simp add: asset_ok_def)
  then have "list_all (asset_ok db) (row_put ka_id a' (kd_assets db))"
    using ok by (auto simp: knowledge_ok_def list_all_iff dest!: in_row_put)
  moreover let ?db = "db\<lparr>kd_assets := row_put ka_id a' (kd_assets db)\<rparr>"
  have "asset_ok ?db = asset_ok db" "version_ok sha ?db = version_ok sha db"
    by (rule ext, simp add: asset_ok_def version_ok_def versions_of_def chunks_of_def flip: set_map)+
  ultimately show ?thesis
    using ok by (simp add: knowledge_ok_def)
qed

text \<open>The text of a version is rewritten (or only marked as approved) and its chunks are made anew.\<close>

lemma put_version_ok:
  assumes ok: "knowledge_ok sha db" and v: "v \<in> set (kd_versions db)"
    and same: "kv_id v' = kv_id v" "kv_knowledge v' = kv_knowledge v" "kv_number v' = kv_number v"
    and new: "kv_hash v' = sha (kv_content v')" "list_all plain_char (kv_content v') \<or> safe_text (kv_content v') = []"
  shows "knowledge_ok sha (db\<lparr>kd_versions := row_put kv_id v' (kd_versions db),
      kd_chunks := filter (\<lambda>c. kc_version c \<noteq> kv_id v) (kd_chunks db) @
        map (chunk_row (kv_knowledge v) (kv_id v)) (chunk_text sha MAX_CHARS (kv_content v'))\<rparr>)"
    (is "knowledge_ok sha ?db")
proof -
  note D = knowledge_okD [OF ok]
  have uniq: "x = v" if "x \<in> set (kd_versions db)" "kv_id x = kv_id v" for x
    using D(2) v that by (metis distinct_map inj_onD)
  have fields: "map g (row_put kv_id v' (kd_versions db)) = map g (kd_versions db)"
    if "g v' = g v" for g :: "knowledge_version \<Rightarrow> ustr"
    unfolding row_put_def using that same(1) by (auto dest: uniq)
  have owned: "versions_of k ?db = map (\<lambda>x. if kv_id x = kv_id v' then v' else x) (versions_of k db)" for k
    using same uniq by (auto simp: versions_of_def row_put_def filter_map o_def intro!: arg_cong [where f = "map _"] filter_cong)
  have asset: "asset_ok ?db a" if "a \<in> set (kd_assets db)" for a
  proof -
    have "map g (versions_of (ka_id a) ?db) = map g (versions_of (ka_id a) db)"
      if "g v' = g v" for g :: "knowledge_version \<Rightarrow> ustr"
      unfolding owned using that same(1) uniq by (auto simp: versions_of_def)
    then have eq: "map kv_number (versions_of (ka_id a) ?db) = map kv_number (versions_of (ka_id a) db)"
      "map kv_id (versions_of (ka_id a) ?db) = map kv_id (versions_of (ka_id a) db)"
      using same by blast+
    have ex: "list_ex (\<lambda>v. ka_current a = Some (kv_id v)) vs \<longleftrightarrow> ka_current a \<in> Some ` set (map kv_id vs)" for vs
      by (auto simp: list_ex_iff)
    have "length (versions_of (ka_id a) ?db) = length (versions_of (ka_id a) db)" by (simp add: owned)
    with D(3) [OF that] eq show ?thesis unfolding asset_ok_def ex by simp
  qed
  have version: "version_ok sha ?db x" if "x \<in> set (kd_versions ?db)" for x
  proof (cases "kv_id x = kv_id v")
    case True
    with that same(1) have "x = v'" by (auto dest!: in_row_put)
    with D(4) [OF v] same new show ?thesis by (simp add: version_ok_def chunks_of_def filter_map o_def)
  next
    case False
    with that same(1) have "x \<in> set (kd_versions db)" by (auto dest!: in_row_put)
    moreover have "chunks_of (kv_id x) ?db = chunks_of (kv_id x) db"
      using False by (auto simp: chunks_of_def filter_map o_def intro!: filter_cong)
    ultimately show ?thesis using D(4) [of x] by (simp add: version_ok_def)
  qed
  have "distinct (map kv_id (kd_versions ?db))" using D(2) fields [of kv_id] same(1) by simp
  moreover have "list_all (\<lambda>c. kc_version c \<in> set (map kv_id (kd_versions ?db))) (kd_chunks ?db)"
  proof -
    have "set (map kv_id (kd_versions ?db)) = set (map kv_id (kd_versions db))"
      using fields [of kv_id] same(1) by (simp flip: set_map)
    moreover have "kv_id v \<in> set (map kv_id (kd_versions db))" using v by simp
    ultimately show ?thesis using D(5) by (auto simp: list_all_iff)
  qed
  ultimately show ?thesis
    using D(1) asset version unfolding knowledge_ok_def list_all_iff by simp
qed

text \<open>The number after 1, 2, ..., n is n + 1.\<close>

lemma version_value_int: "0 \<le> i \<Longrightarrow> version_value (int_text i) = Some i"
proof -
  assume "0 \<le> i"
  then have "list_all is_digit (int_text i)" using nat_text_digits [of "nat i"] by (simp add: int_text_def)
  then have all: "takeWhile (\<lambda>c. c \<noteq> 46) (int_text i) = int_text i"
    by (auto simp: takeWhile_eq_all_conv list_all_iff is_digit_def)
  show ?thesis unfolding version_value_def all by (rule parse_int_text)
qed

lemma next_number: "next_version_number (map int_text [1..int n]) = int_text (int n + 1)"
proof -
  have "List.map_filter version_value (map int_text is) = is" if "list_all (\<lambda>i. 0 \<le> i) is" for "is"
    using that by (induction "is") (simp_all add: List.map_filter_def version_value_int)
  then have *: "List.map_filter version_value (map int_text [1..int n]) = [1..int n]"
    by (simp add: list_all_iff)
  show ?thesis
  proof (cases "n = 0")
    case True
    then show ?thesis by (simp add: next_version_number_def List.map_filter_def)
  next
    case False
    then have up: "[1..int n] = 1 # [2..int n]" by (simp add: upto_rec1)
    have "fold max [2..int n] 1 = Max (set (1 # [2..int n]))" by (simp only: Max.set_eq_fold)
    also have "\<dots> = Max {1..int n}" by (simp only: up [symmetric] set_upto)
    also have "\<dots> = int n" using False by (intro Max_eqI) auto
    finally have "fold max [2..int n] 1 = int n" .
    then show ?thesis unfolding next_version_number_def Let_def * unfolding up by simp
  qed
qed

lemma add_version_ok:
  assumes ok: "knowledge_ok sha db" and a: "a \<in> set (kd_assets db)"
    and fresh: "kv_id v \<notin> set (map kv_id (kd_versions db))"
    and v: "kv_knowledge v = ka_id a" "kv_number v = next_version_number (map kv_number (versions_of (ka_id a) db))"
      "kv_hash v = sha (kv_content v)" "list_all plain_char (kv_content v)"
    and a': "ka_id a' = ka_id a" "ka_current a' = Some (kv_id v)" "status_ok a'"
  shows "knowledge_ok sha (db\<lparr>kd_versions := row_add v (kd_versions db),
      kd_assets := row_put ka_id a' (kd_assets db),
      kd_chunks := kd_chunks db @ map (chunk_row (ka_id a) (kv_id v)) (chunk_text sha MAX_CHARS (kv_content v))\<rparr>)"
    (is "knowledge_ok sha ?db")
proof -
  note D = knowledge_okD [OF ok]
  have owned: "versions_of k ?db = versions_of k db @ (if k = ka_id a then [v] else [])" for k
    by (simp add: versions_of_def row_add_def v)
  have "asset_ok db a" by (rule D(3)) (rule a)
  then have nums: "map kv_number (versions_of (ka_id a) db) = map int_text [1..int (length (versions_of (ka_id a) db))]"
    by (simp add: asset_ok_def)
  then have "kv_number v = int_text (int (length (versions_of (ka_id a) db)) + 1)"
    using v(2) by (simp add: next_number)
  then have "map kv_number (versions_of (ka_id a) ?db) = map int_text [1..int (length (versions_of (ka_id a) ?db))]"
    using nums by (simp add: owned upto_rec2 add.commute)
  then have a'_ok: "asset_ok ?db a'" using a' by (simp add: asset_ok_def owned)
  have asset: "asset_ok ?db x" if "x \<in> set (kd_assets ?db)" for x
  proof (cases "x = a'")
    case False
    with that a' have "x \<in> set (kd_assets db)" "ka_id x \<noteq> ka_id a" by (auto dest!: in_row_put)
    with D(3) show ?thesis by (simp add: asset_ok_def owned)
  qed (simp add: a'_ok)
  have no_chunk: "kc_version c \<noteq> kv_id v" if "c \<in> set (kd_chunks db)" for c
    using D(5) [OF that] fresh by metis
  have version: "version_ok sha ?db x" if "x \<in> set (kd_versions ?db)" for x
  proof (cases "x = v")
    case True
    with no_chunk v a show ?thesis by (auto simp: version_ok_def chunks_of_def filter_map o_def)
  next
    case False
    with that have x: "x \<in> set (kd_versions db)" by simp
    with fresh have "kv_id x \<noteq> kv_id v" by (metis image_eqI list.set_map)
    then have "chunks_of (kv_id x) ?db = chunks_of (kv_id x) db" by (auto simp: chunks_of_def filter_map o_def)
    moreover have "set (map ka_id (kd_assets ?db)) = set (map ka_id (kd_assets db))" by (simp flip: set_map)
    ultimately show ?thesis using D(4) [OF x] by (simp only: version_ok_def simp_thms)
  qed
  have "list_all (\<lambda>c. kc_version c \<in> set (map kv_id (kd_versions ?db))) (kd_chunks ?db)"
    using D(5) by (auto simp: list_all_iff)
  moreover have "distinct (map kv_id (kd_versions ?db))" using D(2) fresh by (simp add: row_add_def)
  ultimately show ?thesis
    using D(1) asset version unfolding knowledge_ok_def list_all_iff by simp
qed

lemma add_asset_ok:
  assumes ok: "knowledge_ok sha db"
    and fresh: "kv_id v \<notin> set (map kv_id (kd_versions db))" "ka_id a \<notin> set (map ka_id (kd_assets db))"
    and v: "kv_knowledge v = ka_id a" "kv_number v = int_text 1" "kv_hash v = sha (kv_content v)"
      "list_all plain_char (kv_content v) \<or> safe_text (kv_content v) = []"
    and a: "ka_current a = Some (kv_id v)" "status_ok a"
  shows "knowledge_ok sha (db\<lparr>kd_assets := row_add a (kd_assets db), kd_versions := row_add v (kd_versions db),
      kd_chunks := kd_chunks db @ map (chunk_row (ka_id a) (kv_id v)) (chunk_text sha MAX_CHARS (kv_content v))\<rparr>)"
    (is "knowledge_ok sha ?db")
proof -
  note D = knowledge_okD [OF ok]
  have none: "versions_of (ka_id a) db = []"
    using D(4) fresh(2) unfolding versions_of_def filter_empty_conv version_ok_def by metis
  have owned: "versions_of k ?db = versions_of k db @ (if k = ka_id a then [v] else [])" for k
    by (simp add: versions_of_def row_add_def v)
  have asset: "asset_ok ?db x" if "x \<in> set (kd_assets ?db)" for x
  proof (cases "x = a")
    case True
    with a v none show ?thesis by (simp add: asset_ok_def owned)
  next
    case False
    with that have "x \<in> set (kd_assets db)" by simp
    moreover from this fresh(2) have "ka_id x \<noteq> ka_id a" by (metis image_eqI list.set_map)
    ultimately show ?thesis using D(3) by (simp add: asset_ok_def owned)
  qed
  have no_chunk: "kc_version c \<noteq> kv_id v" if "c \<in> set (kd_chunks db)" for c
    using D(5) [OF that] fresh(1) by metis
  have version: "version_ok sha ?db x" if "x \<in> set (kd_versions ?db)" for x
  proof (cases "x = v")
    case True
    with no_chunk v show ?thesis by (auto simp: version_ok_def chunks_of_def filter_map o_def)
  next
    case False
    with that have x: "x \<in> set (kd_versions db)" by simp
    with fresh(1) have "kv_id x \<noteq> kv_id v" by (metis image_eqI list.set_map)
    then have "chunks_of (kv_id x) ?db = chunks_of (kv_id x) db" by (auto simp: chunks_of_def filter_map o_def)
    with D(4) [OF x] show ?thesis by (simp add: version_ok_def)
  qed
  have "list_all (\<lambda>c. kc_version c \<in> set (map kv_id (kd_versions ?db))) (kd_chunks ?db)"
    using D(5) by (auto simp: list_all_iff)
  moreover have "distinct (map kv_id (kd_versions ?db))" "distinct (map ka_id (kd_assets ?db))"
    using D(1,2) fresh by (simp_all add: row_add_def)
  ultimately show ?thesis
    using asset version unfolding knowledge_ok_def list_all_iff by simp
qed

section \<open>Every operation keeps the invariant\<close>

lemma asset_status: "knowledge_ok sha db \<Longrightarrow> a \<in> set (kd_assets db) \<Longrightarrow> status_ok a"
  using knowledge_okD(3) by (auto simp: asset_ok_def)

lemma save_asset_ok:
  assumes "save_asset env a new db = Inr (u, db')" and "knowledge_ok sha db" and "a \<in> set (kd_assets db)"
    and "ka_id new = ka_id a" "ka_current new = ka_current a" "status_ok new"
  shows "knowledge_ok sha db'" "kd_versions db' = kd_versions db" "kd_chunks db' = kd_chunks db"
proof -
  have "status_ok (new\<lparr>ka_updated := kn_now env\<rparr>)" using assms(6) by (simp add: status_ok_def)
  then have put: "knowledge_ok sha (db\<lparr>kd_assets := row_put ka_id (new\<lparr>ka_updated := kn_now env\<rparr>) (kd_assets db)\<rparr>)"
    by (intro put_asset_ok [OF assms(2,3)]) (simp_all add: assms(4,5))
  consider "db' = db" | "db' = db\<lparr>kd_assets := row_put ka_id (new\<lparr>ka_updated := kn_now env\<rparr>) (kd_assets db)\<rparr>"
    using assms(1) unfolding save_asset_def by (cases "new = a") simp_all
  then show "knowledge_ok sha db'" "kd_versions db' = kd_versions db" "kd_chunks db' = kd_chunks db"
    using put assms(2) by (cases; simp)+
qed

lemma current_owned:
  assumes ok: "knowledge_ok sha db" and a: "a \<in> set (kd_assets db)" "ka_current b = ka_current a"
    and v: "current_version b db1 = Some v" "kd_versions db1 = kd_versions db"
  shows "v \<in> set (kd_versions db)" "kv_knowledge v = ka_id a"
proof -
  from v obtain vid where vid: "ka_current b = Some vid" and get: "row_get kv_id vid (kd_versions db) = Some v"
    by (auto simp: current_version_def split: option.splits if_splits)
  then show "v \<in> set (kd_versions db)" by (auto intro: row_get_in)
  obtain w where w: "w \<in> set (kd_versions db)" "kv_knowledge w = ka_id a" "kv_id w = vid"
    using knowledge_okD(3) [OF ok a(1)] a(2) vid by (auto simp: asset_ok_def list_ex_iff versions_of_def)
  have "w = v" by (rule row_get_unique [OF knowledge_okD(2) [OF ok] get w(1,3)])
  with w(2) show "kv_knowledge v = ka_id a" by simp
qed

text \<open>A version of the asset is rewritten after the asset was saved.\<close>

lemma rewritten_ok:
  assumes ok: "knowledge_ok sha db" "knowledge_ok sha db1" "kd_versions db1 = kd_versions db"
    and a: "a \<in> set (kd_assets db)" "ka_current b = ka_current a" "ka_id b = ka_id a"
    and v: "current_version b db1 = Some v"
    and v': "kv_id v' = kv_id v" "kv_knowledge v' = kv_knowledge v" "kv_number v' = kv_number v"
      "kv_hash v' = sha (kv_content v')" "list_all plain_char (kv_content v') \<or> safe_text (kv_content v') = []"
    and sha: "sha = kn_sha env"
    and save: "save_version v' db1 = Inr (u1, db2)"
    and chunks: "reindex_chunks env (ka_id b) (kv_id v) (kv_content v') db2 = Inr (u2, db3)"
  shows "knowledge_ok sha db3"
proof -
  have in_v: "v \<in> set (kd_versions db1)" "kv_knowledge v = ka_id b"
    using current_owned [OF ok(1) a(1,2) v ok(3)] ok(3) a(3) by simp_all
  have "db2 = db1\<lparr>kd_versions := row_put kv_id v' (kd_versions db1)\<rparr>"
    using save by (simp add: save_version_def)
  with reindex_chunks_Inr [OF chunks] have "db3 = db1\<lparr>kd_versions := row_put kv_id v' (kd_versions db1),
      kd_chunks := filter (\<lambda>c. kc_version c \<noteq> kv_id v) (kd_chunks db1) @
        map (chunk_row (kv_knowledge v) (kv_id v)) (chunk_text sha MAX_CHARS (kv_content v'))\<rparr>"
    by (simp add: in_v sha)
  with put_version_ok [where sha = sha, OF ok(2) in_v(1) v'] show ?thesis by simp
qed

lemma version_facts:
  assumes "knowledge_ok sha db" "v \<in> set (kd_versions db)"
  shows "kv_hash v = sha (kv_content v)" "list_all plain_char (kv_content v) \<or> safe_text (kv_content v) = []"
  using knowledge_okD(4) [OF assms] by (auto simp: version_ok_def)

lemma int_text_nonempty: "int_text i \<noteq> []"
  using nat_text_digits by (simp add: int_text_def)

lemma kept_number:
  assumes "knowledge_ok sha db" "v \<in> set (kd_versions db)"
  shows "or_text (kv_number v) d = kv_number v"
proof -
  from knowledge_okD(4) [OF assms] obtain a where a: "a \<in> set (kd_assets db)" "ka_id a = kv_knowledge v"
    by (auto simp: version_ok_def)
  have "v \<in> set (versions_of (ka_id a) db)" using assms(2) a(2) by (simp add: versions_of_def)
  then have "kv_number v \<in> set (map kv_number (versions_of (ka_id a) db))" by simp
  also have "\<dots> = set (map int_text [1..int (length (versions_of (ka_id a) db))])"
    using knowledge_okD(3) [OF assms(1) a(1)] by (simp only: asset_ok_def)
  finally have "kv_number v \<noteq> []" using int_text_nonempty by (metis imageE list.set_map)
  then show ?thesis by (simp add: or_text_def)
qed

lemma rewrite_version_ok:
  assumes ok: "knowledge_ok (kn_sha env) db" "knowledge_ok (kn_sha env) db1" "kd_versions db1 = kd_versions db"
    and a: "a \<in> set (kd_assets db)" "ka_current b = ka_current a" "ka_id b = ka_id a"
    and run: "rewrite_version env b content db1 = Inr (u, db')"
  shows "knowledge_ok (kn_sha env) db'"
proof (cases "current_version b db1")
  case None
  with run ok show ?thesis by (simp add: rewrite_version_def tx_bind_Inr)
next
  case (Some v)
  have "v \<in> set (kd_versions db1)" using current_owned(1) [OF ok(1) a(1,2) Some ok(3)] ok(3) by simp
  then have num: "or_text (kv_number v) ((asc ''1'')) = kv_number v" using ok(2) by (metis kept_number)
  from run Some obtain u1 db2 where
    "save_version (v\<lparr>kv_content := safe_text content, kv_hash := kn_sha env (safe_text content), kv_summary := ka_summary b,
        kv_title := ka_title b, kv_number := or_text (kv_number v) ((asc ''1''))\<rparr>) db1 = Inr (u1, db2)"
    "reindex_chunks env (ka_id b) (kv_id v) (safe_text content) db2 = Inr (u, db')"
    by (auto simp: rewrite_version_def tx_bind_Inr Let_def)
  then show ?thesis
    by (intro rewritten_ok [OF ok a Some _ _ _ _ _ refl]) (auto simp: num safe_text_plain)
qed

lemma same_core_ok: "same_core db db' \<Longrightarrow> knowledge_ok sha db \<Longrightarrow> knowledge_ok sha db'"
  unfolding same_core_def by (elim conjE) (rule knowledge_ok_core)

text \<open>An operation on an asset of the table keeps the invariant.\<close>

definition sound :: "knowledge_env \<Rightarrow> (knowledge_asset \<Rightarrow> unit kx) \<Rightarrow> bool" where
  "sound env f \<longleftrightarrow>
     (\<forall>db a u db'. knowledge_ok (kn_sha env) db \<longrightarrow> a \<in> set (kd_assets db) \<longrightarrow> f a db = Inr (u, db') \<longrightarrow>
        knowledge_ok (kn_sha env) db')"

lemma soundI:
  "(\<And>db a u db'. knowledge_ok (kn_sha env) db \<Longrightarrow> a \<in> set (kd_assets db) \<Longrightarrow> f a db = Inr (u, db') \<Longrightarrow>
     knowledge_ok (kn_sha env) db') \<Longrightarrow> sound env f"
  unfolding sound_def by blast

text \<open>The reviews set columns of the asset and add a row elsewhere.\<close>

lemma reviewed_sound:
  assumes run: "\<And>db a u db'. f a db = Inr (u, db') \<Longrightarrow>
      \<exists>u1 db1. save_asset env a (g a) db = Inr (u1, db1) \<and> insert_review (w a) db1 = Inr (u, db')"
    and same: "\<And>a. ka_id (g a) = ka_id a \<and> ka_current (g a) = ka_current a" and st: "\<And>a. status_ok (g a)"
  shows "sound env f"
proof (rule soundI)
  fix db a u db'
  assume ok: "knowledge_ok (kn_sha env) db" "a \<in> set (kd_assets db)" and f: "f a db = Inr (u, db')"
  from run [OF f] obtain u1 db1 where save: "save_asset env a (g a) db = Inr (u1, db1)"
    and add: "insert_review (w a) db1 = Inr (u, db')" by blast
  have "knowledge_ok (kn_sha env) db1"
    by (rule save_asset_ok [OF save ok]) (use same st in auto)
  then show "knowledge_ok (kn_sha env) db'"
    by (rule same_core_ok [OF keepsD [OF leaf_core_frames(3) add]])
qed

lemma submit_sound: "sound env (submit_for_review env form)"
  by (rule reviewed_sound [where g = "\<lambda>a. a\<lparr>ka_status := PENDING\<rparr>"])
    (unfold submit_for_review_def tx_bind_Inr tx_simps, blast, simp_all add: status_ok_def)

lemma approve_sound: "sound env (approve_asset env form)"
  by (rule reviewed_sound [where g = "\<lambda>a. a\<lparr>ka_status := APPROVED, ka_approved_by := Some (reviewer_code form),
        ka_approved := Some (kn_now env)\<rparr>"])
    (unfold approve_asset_def tx_bind_Inr tx_simps, blast, simp_all add: status_ok_def)

lemma reject_sound: "sound env (reject_asset env form)"
  by (rule reviewed_sound [where g = "\<lambda>a. a\<lparr>ka_status := REJECTED\<rparr>"])
    (unfold reject_asset_def tx_bind_Inr tx_simps, blast, simp_all add: status_ok_def)

lemma archive_sound: "sound env (archive_asset env form)"
  by (rule reviewed_sound [where g = "\<lambda>a. a\<lparr>ka_status := ARCHIVED, ka_archived := Some (kn_now env)\<rparr>"])
    (unfold archive_asset_def tx_bind_Inr tx_simps, blast, simp_all add: status_ok_def)

lemma publish_version_ok:
  assumes ok: "knowledge_ok (kn_sha env) db" "knowledge_ok (kn_sha env) db1" "kd_versions db1 = kd_versions db"
    and a: "a \<in> set (kd_assets db)" "ka_current b = ka_current a" "ka_id b = ka_id a"
    and run: "publish_version env form b db1 = Inr (u, db')"
  shows "knowledge_ok (kn_sha env) db'"
proof (cases "current_version b db1")
  case None
  with run ok show ?thesis by (simp add: publish_version_def tx_bind_Inr)
next
  case (Some v)
  have "v \<in> set (kd_versions db1)" using current_owned(1) [OF ok(1) a(1,2) Some ok(3)] ok(3) by simp
  note facts = version_facts [OF ok(2) this]
  from run Some obtain u1 db2 where
    save: "save_version (v\<lparr>kv_approved_by := Some (reviewer_code form), kv_approved := Some (kn_now env)\<rparr>) db1 = Inr (u1, db2)"
    and chunks: "reindex_chunks env (ka_id b) (kv_id v) (kv_content v) db2 = Inr (u, db')"
    by (auto simp: publish_version_def tx_bind_Inr)
  show ?thesis
    by (rule rewritten_ok [OF ok a Some _ _ _ _ _ refl save]) (use facts chunks in simp_all)
qed

lemma publish_asset_Inr:
  assumes "publish_asset env form a db = Inr (u, db')"
  obtains u1 db1 u2 db2 w where "save_asset env a (published_asset env form a) db = Inr (u1, db1)"
    "publish_version env form (published_asset env form a) db1 = Inr (u2, db2)" "insert_review w db2 = Inr (u, db')"
  using assms unfolding publish_asset_def Let_def tx_bind_Inr tx_simps by blast

lemma publish_sound: "sound env (publish_asset env form)"
proof (rule soundI)
  fix db a u db'
  assume ok: "knowledge_ok (kn_sha env) db" "a \<in> set (kd_assets db)" and run: "publish_asset env form a db = Inr (u, db')"
  let ?new = "published_asset env form a"
  from publish_asset_Inr [OF run] obtain u1 db1 u2 db2 w where
    save: "save_asset env a ?new db = Inr (u1, db1)" and pub: "publish_version env form ?new db1 = Inr (u2, db2)"
    and add: "insert_review w db2 = Inr (u, db')" .
  have same: "ka_id ?new = ka_id a" "ka_current ?new = ka_current a" and "status_ok ?new"
    by (simp_all add: published_asset_def status_ok_def)
  note saved = save_asset_ok [OF save ok this]
  have "knowledge_ok (kn_sha env) db2"
    by (rule publish_version_ok [OF ok(1) saved(1,2) ok(2) same(2,1) pub])
  then show "knowledge_ok (kn_sha env) db'"
    by (rule same_core_ok [OF keepsD [OF leaf_core_frames(3) add]])
qed

lemma update_sound: "sound env (update_draft env form)"
proof (rule soundI)
  fix db a u db'
  assume ok: "knowledge_ok (kn_sha env) db" "a \<in> set (kd_assets db)" and run: "update_draft env form a db = Inr (u, db')"
  let ?new = "patched_asset env form a"
  from run [unfolded update_draft_def Let_def tx_bind_Inr tx_simps] obtain u1 db1 u2 db2 where
    save: "save_asset env a ?new db = Inr (u1, db1)"
    and content: "(case pf_content form of None \<Rightarrow> tx_return () | Some content \<Rightarrow> rewrite_version env ?new content) db1 = Inr (u2, db2)"
    and tags: "(case pf_tags form of None \<Rightarrow> tx_return () | Some tags \<Rightarrow> replace_tags env ?new tags) db2 = Inr (u, db')"
    by blast
  have same: "ka_id ?new = ka_id a" "ka_current ?new = ka_current a" and "status_ok ?new"
    using asset_status [OF ok] by (simp_all add: patched_asset_def status_ok_def)
  note saved = save_asset_ok [OF save ok this]
  have "knowledge_ok (kn_sha env) db2"
    using content saved(1) rewrite_version_ok [OF ok(1) saved(1,2) ok(2) same(2,1)]
    by (cases "pf_content form") auto
  moreover have "same_core db2 db'"
    using tags keepsD [OF replace_tags_frame] by (cases "pf_tags form") (auto simp: core_frame.refl)
  ultimately show "knowledge_ok (kn_sha env) db'" by (rule same_core_ok [rotated])
qed

lemma drafted_ok:
  assumes ok: "knowledge_ok (kn_sha env) db"
    and asset: "insert_asset a db = Inr (u1, db1)" and version: "insert_version v db1 = Inr (u2, db2)"
    and rest: "same_core db2 db3" and chunks: "index_chunks env (ka_id a) (kv_id v) (kv_content v) db3 = Inr (u3, db4)"
    and v: "kv_knowledge v = ka_id a" "kv_number v = int_text 1" "kv_hash v = kn_sha env (kv_content v)"
      "list_all plain_char (kv_content v) \<or> safe_text (kv_content v) = []"
    and a: "ka_current a = Some (kv_id v)" "status_ok a"
  shows "knowledge_ok (kn_sha env) db4"
proof -
  have db1: "db1 = db\<lparr>kd_assets := row_add a (kd_assets db)\<rparr>" and fresh_a: "ka_id a \<notin> set (map ka_id (kd_assets db))"
    using asset by (auto simp: insert_asset_def list_ex_iff)
  have db2: "db2 = db1\<lparr>kd_versions := row_add v (kd_versions db)\<rparr>" and fresh_v: "kv_id v \<notin> set (map kv_id (kd_versions db))"
    using version by (auto simp: insert_version_def list_ex_iff db1)
  note add = add_asset_ok [OF ok fresh_v fresh_a v a]
  show ?thesis
    by (rule knowledge_ok_core [OF _ _ _ add])
      (use index_chunks_Inr [OF chunks] rest in \<open>simp_all add: same_core_def db2 db1\<close>)
qed

lemma manual_draft_facts:
  assumes "manual_draft env by_user form = (a, v, tags)"
  shows "kv_knowledge v = ka_id a" "kv_number v = int_text 1" "kv_hash v = kn_sha env (kv_content v)"
    "list_all plain_char (kv_content v) \<or> safe_text (kv_content v) = []" "ka_current a = Some (kv_id v)" "status_ok a"
proof -
  have one: "int_text 1 = (asc ''1'')" by (simp add: int_text_def nat_text.simps asc_def)
  show "kv_knowledge v = ka_id a" "kv_number v = int_text 1" "kv_hash v = kn_sha env (kv_content v)"
    "list_all plain_char (kv_content v) \<or> safe_text (kv_content v) = []" "ka_current a = Some (kv_id v)" "status_ok a"
    using assms by (auto simp: manual_draft_def Let_def first_version_def safe_text_plain status_ok_def one)
qed

lemma manual_draft_ok:
  assumes ok: "knowledge_ok (kn_sha env) db" and run: "create_manual_draft env by_user form db = Inr (x, db')"
  shows "knowledge_ok (kn_sha env) db'"
proof -
  obtain a v tags where rows: "manual_draft env by_user form = (a, v, tags)" by (metis prod_cases3)
  from run [unfolded create_manual_draft_def rows Let_def prod.case tx_bind_Inr tx_simps] obtain u1 u2 u3 u4 db1 db2 db3 where
    draft: "insert_asset a db = Inr (u1, db1)" "insert_version v db1 = Inr (u2, db2)"
      "persist_tags env (ka_id a) (Some (kv_id v)) tags db2 = Inr (u3, db3)"
      "index_chunks env (ka_id a) (kv_id v) (kv_content v) db3 = Inr (u4, db')"
    by blast
  show ?thesis
    by (rule drafted_ok [OF ok draft(1,2) keepsD [OF persist_tags_frame draft(3)] draft(4) manual_draft_facts [OF rows]])
qed

lemma report_draft_facts:
  assumes "draft_of_report env form x ss = (a, v, tags)"
  shows "kv_knowledge v = ka_id a" "kv_number v = int_text 1" "kv_hash v = kn_sha env (kv_content v)"
    "list_all plain_char (kv_content v) \<or> safe_text (kv_content v) = []" "ka_current a = Some (kv_id v)" "status_ok a"
proof -
  have one: "int_text 1 = (asc ''1'')" by (simp add: int_text_def nat_text.simps asc_def)
  show "kv_knowledge v = ka_id a" "kv_number v = int_text 1" "kv_hash v = kn_sha env (kv_content v)"
    "list_all plain_char (kv_content v) \<or> safe_text (kv_content v) = []" "ka_current a = Some (kv_id v)" "status_ok a"
    using assms safe_text_plain
    by (auto simp: draft_of_report_def Let_def first_version_def status_ok_def one stored_report_def or_text_def)
qed

lemma report_draft_ok:
  assumes ok: "knowledge_ok (kn_sha env) db" and run: "create_draft_from_research_report env rid form db = Inr (y, db')"
  shows "knowledge_ok (kn_sha env) db'"
proof -
  from run obtain x ss es where rest: "store_report_draft env form x ss es db = Inr (y, db')"
    unfolding create_draft_from_research_report_def tx_bind_Inr tx_simps by blast
  obtain a v tags where rows: "draft_of_report env form x ss = (a, v, tags)" by (metis prod_cases3)
  from rest [unfolded store_report_draft_def rows Let_def prod.case tx_bind_Inr tx_simps] obtain u1 u2 u3 u4 u5 u6 db1 db2 db3 db4 db5 where
    draft: "insert_asset a db = Inr (u1, db1)" "insert_version v db1 = Inr (u2, db2)"
      "persist_tags env (ka_id a) (Some (kv_id v)) tags db2 = Inr (u3, db3)"
      "persist_sources env (ka_id a) (kv_id v) x ss es db3 = Inr (u4, db4)"
      "insert_review (candidate_review env form x a) db4 = Inr (u5, db5)"
      "index_chunks env (ka_id a) (kv_id v) (kv_content v) db5 = Inr (u6, db')"
    by blast
  have "same_core db2 db5"
    using keepsD [OF persist_tags_frame draft(3)] keepsD [OF persist_sources_frame draft(4)]
      keepsD [OF leaf_core_frames(3) draft(5)] core_frame.trans by blast
  then show ?thesis
    by (rule drafted_ok [OF ok draft(1,2) _ draft(6) report_draft_facts [OF rows]])
qed

lemma new_version_ok:
  assumes ok: "knowledge_ok (kn_sha env) db" and a: "a \<in> set (kd_assets db)"
    and run: "create_new_version env payload a db = Inr (row, db')"
  shows "knowledge_ok (kn_sha env) db'"
proof -
  from run [unfolded create_new_version_def Let_def tx_bind_Inr tx_simps] obtain v new u1 u2 u3 db1 db2 where
    version: "insert_version v db = Inr (u1, db1)" and save: "save_asset env a new db1 = Inr (u2, db2)"
    and chunks: "index_chunks env (ka_id a) (kv_id v) (kv_content v) db2 = Inr (u3, db')"
    and v: "kv_knowledge v = ka_id a" "kv_number v = next_version_number (map kv_number (versions_of (ka_id a) db))"
      "kv_hash v = kn_sha env (kv_content v)" "list_all plain_char (kv_content v)"
    and new: "ka_id new = ka_id a" "ka_current new = Some (kv_id v)" "ka_status new = ka_status a"
      "ka_published new = ka_published a" "ka_approved new = ka_approved a" "ka_archived new = ka_archived a"
    by (fastforce simp: versions_of_def safe_text_plain)
  have db1: "db1 = db\<lparr>kd_versions := row_add v (kd_versions db)\<rparr>" and fresh: "kv_id v \<notin> set (map kv_id (kd_versions db))"
    using version by (auto simp: insert_version_def list_ex_iff)
  obtain w where "w \<in> set (kd_versions db)" "ka_current a = Some (kv_id w)"
    using knowledge_okD(3) [OF ok a] by (auto simp: asset_ok_def list_ex_iff versions_of_def)
  with fresh new(2) have "new \<noteq> a" by (metis image_eqI list.set_map option.inject)
  with save have db2: "db2 = db1\<lparr>kd_assets := row_put ka_id (new\<lparr>ka_updated := kn_now env\<rparr>) (kd_assets db)\<rparr>"
    by (simp add: save_asset_def db1)
  have "status_ok (new\<lparr>ka_updated := kn_now env\<rparr>)"
    using asset_status [OF ok a] new by (simp add: status_ok_def)
  then have "knowledge_ok (kn_sha env) (db\<lparr>kd_versions := row_add v (kd_versions db),
      kd_assets := row_put ka_id (new\<lparr>ka_updated := kn_now env\<rparr>) (kd_assets db),
      kd_chunks := kd_chunks db @ map (chunk_row (ka_id a) (kv_id v)) (chunk_text (kn_sha env) MAX_CHARS (kv_content v))\<rparr>)"
    using new by (intro add_version_ok [OF ok a fresh v]) simp_all
  then show ?thesis using index_chunks_Inr [OF chunks] by (simp add: db1 db2)
qed

section \<open>Requests\<close>

lemma with_asset_Inr:
  "with_asset kid f db = Inr (x, db') \<longleftrightarrow> (\<exists>a. row_get ka_id kid (kd_assets db) = Some a \<and> f a db = Inr (x, db'))"
  by (auto simp: with_asset_def get_asset_or_404_def tx_bind_Inr)

lemma with_asset_sound:
  assumes "sound env f" and "knowledge_ok (kn_sha env) db" and "with_asset kid f db = Inr (u, db')"
  shows "knowledge_ok (kn_sha env) db'"
  using assms unfolding with_asset_Inr sound_def by (blast intro: row_get_in)

lemma create_version_ok:
  "knowledge_ok (kn_sha env) db \<Longrightarrow> create_version env by_user kid form db = Inr (u, db') \<Longrightarrow> knowledge_ok (kn_sha env) db'"
  unfolding create_version_def with_asset_Inr tx_bind_Inr tx_simps by (blast intro: new_version_ok row_get_in)

lemma restore_version_ok:
  "knowledge_ok (kn_sha env) db \<Longrightarrow> restore_version env by_user kid vid db = Inr (u, db') \<Longrightarrow> knowledge_ok (kn_sha env) db'"
  unfolding restore_version_def with_asset_Inr tx_bind_Inr tx_simps by (blast intro: new_version_ok row_get_in)

lemma operation_ok:
  assumes ok: "knowledge_ok (kn_sha env) db" and run: "operation env r db = Inr (u, db')"
  shows "knowledge_ok (kn_sha env) db'"
proof (cases r)
  case (CreateAsset form)
  with run show ?thesis by (auto simp: operation_def tx_bind_Inr intro: manual_draft_ok [OF ok])
next
  case (SubmitReport rid form)
  with run show ?thesis
    by (auto simp: operation_def submit_research_report_def tx_bind_Inr intro: report_draft_ok [OF ok])
next
  case (CiteAsset kid form)
  with run show ?thesis
    by (auto simp: operation_def intro: same_core_ok [OF keepsD [OF record_use_frame] ok])
qed (use run ok in \<open>auto simp: operation_def intro: with_asset_sound [OF _ ok] create_version_ok restore_version_ok
      update_sound submit_sound approve_sound reject_sound publish_sound archive_sound\<close>)

text \<open>An error commits nothing: every change is the answer of the operation.\<close>

lemma insert_row_unsaved: "unsaved (insert_row clash rows store row)"
  by (auto simp: unsaved_def insert_row_def)

lemma insert_unsaved:
  "unsaved (insert_asset a)" "unsaved (insert_version v)" "unsaved (insert_chunk c)" "unsaved (insert_tag t)"
  "unsaved (insert_relation r)" "unsaved (insert_review w)" "unsaved (insert_link l)" "unsaved (insert_citation q)"
  by (simp_all add: insert_defs insert_row_unsaved)

lemma each_unsaved: "(\<And>x. unsaved (f x)) \<Longrightarrow> unsaved (tx_each f xs)"
  by (induction xs) (auto intro: unsaved_basic unsaved_bind)

lemma save_asset_unsaved: "unsaved (save_asset env a b)"
  by (auto simp: save_asset_def intro: unsaved_basic)

lemma with_asset_unsaved: "(\<And>a. unsaved (f a)) \<Longrightarrow> unsaved (with_asset kid f)"
  unfolding with_asset_def get_asset_or_404_def by (intro unsaved_bind unsaved_basic) auto

lemma find_or_add_tag_unsaved: "unsaved (find_or_add_tag env i n)"
proof -
  have "unsaved (tx_bind (insert_tag t) (\<lambda>_. tx_return x))" for t and x :: ustr
    by (intro unsaved_bind unsaved_basic insert_unsaved)
  then show ?thesis by (auto simp: unsaved_def find_or_add_tag_def Let_def split: option.splits)
qed

lemma resolve_tags_unsaved: "unsaved (resolve_tags env i names)"
  by (induction env i names rule: resolve_tags.induct)
    (auto intro!: unsaved_bind unsaved_basic find_or_add_tag_unsaved)

lemma persist_tags_unsaved: "unsaved (persist_tags env k v tags)"
  unfolding persist_tags_def Let_def
  by (intro unsaved_bind resolve_tags_unsaved each_unsaved) (auto split: prod.splits intro: insert_unsaved)

lemma chunks_unsaved: "unsaved (index_chunks env k v c)" "unsaved (reindex_chunks env k v c)"
  unfolding reindex_chunks_def index_chunks_def by (intro unsaved_bind unsaved_basic each_unsaved insert_unsaved)+

lemmas saves_nothing = unsaved_bind unsaved_basic insert_unsaved each_unsaved save_asset_unsaved with_asset_unsaved
  persist_tags_unsaved chunks_unsaved

lemma draft_unsaved: "unsaved (create_manual_draft env b form)" "unsaved (create_draft_from_research_report env rid rf)"
proof -
  show "unsaved (create_manual_draft env b form)"
    unfolding create_manual_draft_def Let_def by (auto split: prod.splits intro!: saves_nothing)
  have "unsaved (store_report_draft env rf x ss es)" for x ss es
    unfolding store_report_draft_def Let_def persist_sources_def by (auto split: prod.splits intro!: saves_nothing)
  then show "unsaved (create_draft_from_research_report env rid rf)"
    unfolding create_draft_from_research_report_def by (intro saves_nothing)
qed

lemma version_unsaved: "unsaved (rewrite_version env a c)" "unsaved (publish_version env form a)"
  "unsaved (create_new_version env payload a)"
  unfolding rewrite_version_def publish_version_def create_new_version_def Let_def save_version_def
  by (auto split: option.splits intro!: saves_nothing)

lemma operation_unsaved: "unsaved (operation env r)"
proof (cases r)
  case (PatchAsset kid form)
  have "unsaved (update_draft env form a)" for a
    unfolding update_draft_def replace_tags_def Let_def
    by (auto split: option.splits intro!: saves_nothing version_unsaved)
  then show ?thesis by (simp add: operation_def PatchAsset with_asset_unsaved)
qed (auto simp: operation_def submit_for_review_def approve_asset_def reject_asset_def publish_asset_def archive_asset_def
      create_version_def restore_version_def record_use_def submit_research_report_def Let_def
      intro!: saves_nothing version_unsaved draft_unsaved)

lemma serve_cases:
  "serve_knowledge env r db = (s, db') \<Longrightarrow>
     db' = db \<and> s \<noteq> 200 \<or> s = 200 \<and> required_access env r = None \<and> operation env r db = Inr ((), db')"
  using operation_unsaved [of env r] unfolding unsaved_def
  by (fastforce simp: serve_knowledge_def run_tx_def required_access_def require_knowledge_reader_def
      require_knowledge_manager_def require_with_def error_status_def
      split: option.splits sum.splits prod.splits if_splits knowledge_error.splits knowledge_request.splits)

lemma serve_ok: "knowledge_ok (kn_sha env) db \<Longrightarrow> knowledge_ok (kn_sha env) (snd (serve_knowledge env r db))"
  using serve_cases [of env r db] operation_ok by (cases "serve_knowledge env r db") auto

interpretation knowledge_machine: invariant_machine "knowledge_step sha" "knowledge_ok sha"
  by unfold_locales (use serve_ok [of "(fst _)\<lparr>kn_sha := _\<rparr>"] in \<open>simp add: knowledge_step_def\<close>)

lemma knowledge_ok_empty: "knowledge_ok sha (empty_knowledge xs ss es)"
  by (simp add: knowledge_ok_def empty_knowledge_def)

lemma knowledge_ok_requests: "knowledge_ok sha (run_events (knowledge_step sha) (empty_knowledge xs ss es) rs)"
  by (rule knowledge_machine.run_inv) (rule knowledge_ok_empty)

end
