(* ===== verification/Knowledge_Search.thy ===== *)
theory Knowledge_Search
  imports Knowledge_Invariant "HOL-Library.Multiset"
begin

text \<open>
  What readers of the knowledge center are shown: the search over the assets (\<^verbatim>\<open>search.py\<close>, the
  listing and search routes) and the full view of one asset (\<open>_asset_to_dict\<close> of \<^verbatim>\<open>workflow.py\<close>).
  Redacting the address of a source is not part of the model: the view holds the link row itself.
\<close>

section \<open>Search\<close>

record search_filters =
  sf_category :: "ustr option"
  sf_tag :: "ustr option"
  sf_type :: "ustr option"
  sf_status :: "ustr option"
  sf_department :: "ustr option"
  sf_risk :: "ustr option"
  sf_min :: "int option"

text \<open>A filter that is missing or empty is not applied.\<close>

definition when_given :: "ustr option \<Rightarrow> (ustr \<Rightarrow> bool) \<Rightarrow> bool" where
  "when_given wanted test = (case wanted of None \<Rightarrow> True | Some t \<Rightarrow> t = [] \<or> test t)"

definition tagged_assets :: "ustr \<Rightarrow> knowledge_db \<Rightarrow> ustr list" where
  "tagged_assets tag db =
     map kr_knowledge (filter (\<lambda>r. list_ex (\<lambda>t. kt_id t = kr_tag r \<and> kt_name t = tag) (kd_tags db)) (kd_relations db))"

definition passes_filters :: "search_filters \<Rightarrow> knowledge_db \<Rightarrow> knowledge_asset \<Rightarrow> bool" where
  "passes_filters fs db a \<longleftrightarrow>
     when_given (sf_category fs) (\<lambda>t. ka_category a = Some t) \<and>
     when_given (sf_tag fs) (\<lambda>t. ka_id a \<in> set (tagged_assets t db)) \<and>
     when_given (sf_type fs) (\<lambda>t. ka_type a = t) \<and>
     when_given (sf_status fs) (\<lambda>t. ka_status a = t) \<and>
     when_given (sf_department fs) (\<lambda>t. ka_department a = Some t) \<and>
     when_given (sf_risk fs) (\<lambda>t. ka_risk a = t) \<and>
     (case sf_min fs of None \<Rightarrow> True | Some n \<Rightarrow> n \<le> ka_sources a)"

definition score_asset :: "knowledge_env \<Rightarrow> knowledge_asset \<Rightarrow> ustr list \<Rightarrow> ustr \<Rightarrow> int" where
  "score_asset env a tokens query =
     (let haystack = kn_lower env (joined (asc '' '') (map normalize_text
            [ka_title a, or_given (ka_summary a) [], ka_code a, ka_type a, or_given (ka_category a) [], ka_status a,
             ka_visibility a, ka_risk a, or_given (ka_department a) []]));
          title = kn_lower env (normalize_text (ka_title a));
          words = (if tokens = [] then tokenize (kn_lower env) query else tokens);
          score = sum_list (map (\<lambda>t. if t = [] then 0 else if occurs t title then 3 else if occurs t haystack then 1 else 0) words)
      in if tokens = [] \<and> query = [] then 1
         else score + (if query \<noteq> [] \<and> occurs (kn_lower env (normalize_text query)) haystack then 2 else 0)
              + (if ka_status a = PUBLISHED then 1 else 0))"

definition rank_assets :: "knowledge_env \<Rightarrow> ustr \<Rightarrow> knowledge_asset list \<Rightarrow> knowledge_asset list" where
  "rank_assets env query rows =
     (let scored = map (\<lambda>a. (score_asset env a (tokenize (kn_lower env) query) query, a)) rows
      in map snd (sort_key (\<lambda>(score, a). (- score, ka_updated a)) (filter (\<lambda>(score, a). score \<noteq> 0) scored)))"

definition page_size :: "int \<Rightarrow> nat" where
  "page_size limit = nat (max 1 (min (if limit = 0 then 20 else limit) 100))"

definition query_assets ::
  "knowledge_env \<Rightarrow> ustr option \<Rightarrow> int \<Rightarrow> bool \<Rightarrow> search_filters \<Rightarrow> knowledge_db \<Rightarrow> knowledge_asset list"
where
  "query_assets env query limit include_unpublished fs db =
     (let rows = sort_key (\<lambda>a. - ka_updated a) (kd_assets db);
          rows = (if include_unpublished then rows else filter (\<lambda>a. ka_status a = PUBLISHED) rows);
          rows = filter (passes_filters fs db) rows;
          rows = (case query of None \<Rightarrow> rows | Some q \<Rightarrow> if q = [] then rows else rank_assets env q rows)
      in take (page_size limit) rows)"

text \<open>The listing and search routes: the status, or the assets found.\<close>

definition search_route ::
  "knowledge_env \<Rightarrow> ustr option \<Rightarrow> int \<Rightarrow> bool \<Rightarrow> search_filters \<Rightarrow> knowledge_db \<Rightarrow> int + knowledge_asset list"
where
  "search_route env query limit include_unpublished fs db =
     (case require_knowledge_reader env of
        Some status \<Rightarrow> Inl status
      | None \<Rightarrow> Inr (query_assets env query limit include_unpublished fs db))"

section \<open>The view of an asset\<close>

record asset_view =
  vw_asset :: knowledge_asset
  vw_version :: "knowledge_version option"
  vw_chunks :: "knowledge_chunk list"
  vw_tags :: "ustr list"
  vw_reviews :: "knowledge_review list"
  vw_sources :: "source_link list"
  vw_citations :: "knowledge_citation list"

definition asset_tags :: "knowledge_asset \<Rightarrow> knowledge_db \<Rightarrow> ustr list" where
  "asset_tags a db =
     List.map_filter (\<lambda>r. case row_get kt_id (kr_tag r) (kd_tags db) of
                            None \<Rightarrow> None
                          | Some t \<Rightarrow> if kt_enabled t then Some (kt_name t) else None)
       (filter (\<lambda>r. kr_knowledge r = ka_id a) (kd_relations db))"

definition view_asset :: "knowledge_asset \<Rightarrow> knowledge_db \<Rightarrow> asset_view" where
  "view_asset a db =
     \<lparr>vw_asset = a, vw_version = current_version a db,
      vw_chunks = (case current_version a db of
                     None \<Rightarrow> []
                   | Some v \<Rightarrow> rows_by (\<lambda>c. ch_index (kc_data c)) (\<lambda>c. kc_version c = kv_id v) (kd_chunks db)),
      vw_tags = asset_tags a db,
      vw_reviews = rows_by kw_created (\<lambda>w. kw_knowledge w = ka_id a) (kd_reviews db),
      vw_sources = rows_by kl_created (\<lambda>l. kl_knowledge l = ka_id a) (kd_links db),
      vw_citations = rows_by kq_created (\<lambda>q. kq_knowledge q = ka_id a) (kd_citations db)\<rparr>"

text \<open>The detail route; it turns no error into an answer, so a missing asset ends in the status 500.\<close>

definition asset_route :: "knowledge_env \<Rightarrow> ustr \<Rightarrow> knowledge_db \<Rightarrow> int + asset_view" where
  "asset_route env knowledge_id db =
     (case require_knowledge_reader env of
        Some status \<Rightarrow> Inl status
      | None \<Rightarrow> (case row_get ka_id knowledge_id (kd_assets db) of
                   None \<Rightarrow> Inl 500
                 | Some a \<Rightarrow> Inr (view_asset a db)))"

text \<open>The other views: the versions of an asset with their chunks, one of them, its citations.\<close>

definition version_chunks :: "knowledge_version \<Rightarrow> knowledge_db \<Rightarrow> knowledge_chunk list" where
  "version_chunks v db = rows_by (\<lambda>c. ch_index (kc_data c)) (\<lambda>c. kc_version c = kv_id v) (kd_chunks db)"

definition read_asset :: "knowledge_env \<Rightarrow> ustr \<Rightarrow> (knowledge_asset \<Rightarrow> int + 'a) \<Rightarrow> knowledge_db \<Rightarrow> int + 'a" where
  "read_asset env knowledge_id view db =
     (case require_knowledge_reader env of
        Some status \<Rightarrow> Inl status
      | None \<Rightarrow> (case row_get ka_id knowledge_id (kd_assets db) of None \<Rightarrow> Inl 500 | Some a \<Rightarrow> view a))"

definition versions_route ::
  "knowledge_env \<Rightarrow> ustr \<Rightarrow> knowledge_db \<Rightarrow> int + (knowledge_version \<times> knowledge_chunk list) list"
where
  "versions_route env knowledge_id db =
     read_asset env knowledge_id (\<lambda>a. Inr (map (\<lambda>v. (v, version_chunks v db))
       (rows_by (\<lambda>v. - kv_created v) (\<lambda>v. kv_knowledge v = ka_id a) (kd_versions db)))) db"

definition version_route ::
  "knowledge_env \<Rightarrow> ustr \<Rightarrow> ustr \<Rightarrow> knowledge_db \<Rightarrow> int + knowledge_version \<times> knowledge_chunk list"
where
  "version_route env knowledge_id version_id db =
     read_asset env knowledge_id (\<lambda>a.
       (case row_get kv_id version_id (kd_versions db) of
          None \<Rightarrow> Inl 500
        | Some v \<Rightarrow> if kv_knowledge v = ka_id a then Inr (v, version_chunks v db) else Inl 500)) db"

definition citations_route :: "knowledge_env \<Rightarrow> ustr \<Rightarrow> knowledge_db \<Rightarrow> int + knowledge_citation list" where
  "citations_route env knowledge_id db =
     read_asset env knowledge_id (\<lambda>a. Inr (rows_by (\<lambda>q. - kq_created q) (\<lambda>q. kq_knowledge q = ka_id a) (kd_citations db))) db"

text \<open>The counts the health view shows; the status of a running review it also counts is one no asset ever gets.\<close>

record knowledge_counts =
  hc_total :: nat
  hc_pending :: nat
  hc_published :: nat
  hc_needs_update :: nat
  hc_archived :: nat
  hc_recent :: "knowledge_asset list"

definition count_status :: "ustr list \<Rightarrow> knowledge_db \<Rightarrow> nat" where
  "count_status statuses db = length (filter (\<lambda>a. ka_status a \<in> set statuses) (kd_assets db))"

definition knowledge_health :: "knowledge_db \<Rightarrow> knowledge_counts" where
  "knowledge_health db =
     \<lparr>hc_total = length (kd_assets db), hc_pending = count_status [PENDING, [0x5BA1, 0x6838, 0x4E2D]] db,
      hc_published = count_status [PUBLISHED] db, hc_needs_update = count_status [APPROVED, PUBLISHED] db,
      hc_archived = count_status [ARCHIVED] db,
      hc_recent = take 5 (sort_key (\<lambda>a. - ka_created a) (kd_assets db))\<rparr>"

section \<open>The local index\<close>

text \<open>
  \<^verbatim>\<open>LocalKeywordKnowledgeIndex\<close>: indexing makes the chunks of the current version when it has none, and
  answers with their number; deleting removes the chunks of all versions. No route calls them.
\<close>

definition index_knowledge :: "knowledge_env \<Rightarrow> ustr \<Rightarrow> (bool \<times> nat) kx" where
  "index_knowledge env knowledge_id =
     tx_bind (tx_read (\<lambda>db. row_get ka_id knowledge_id (kd_assets db))) (\<lambda>found.
     (case found of
        None \<Rightarrow> tx_return (False, 0)
      | Some asset \<Rightarrow>
          tx_bind (tx_read (current_version asset)) (\<lambda>current.
          (case current of
             None \<Rightarrow> tx_return (True, 0)
           | Some version \<Rightarrow>
               tx_bind (tx_read (\<lambda>db. filter (\<lambda>c. kc_version c = kv_id version) (kd_chunks db))) (\<lambda>existing.
               tx_bind (if existing = [] then index_chunks env (ka_id asset) (kv_id version) (kv_content version)
                        else tx_return ()) (\<lambda>_.
               tx_return (True, if existing = [] then length (chunk_text (kn_sha env) MAX_CHARS (kv_content version))
                                else length existing)))))))"

definition delete_index :: "ustr \<Rightarrow> nat kx" where
  "delete_index knowledge_id =
     tx_bind (tx_read (\<lambda>db. length (filter (\<lambda>c. kc_knowledge c = knowledge_id) (kd_chunks db)))) (\<lambda>deleted.
     tx_bind (tx_write (\<lambda>db. db\<lparr>kd_chunks := filter (\<lambda>c. kc_knowledge c \<noteq> knowledge_id) (kd_chunks db)\<rparr>)) (\<lambda>_.
     tx_return deleted))"

section \<open>Facts\<close>

lemma sum_words_nonneg:
  "0 \<le> sum_list (map (\<lambda>t. if t = [] then 0 else if occurs t title then 3 else if occurs t haystack then 1 else 0 :: int) words)"
  by (induction words) auto

lemma published_scores: "ka_status a = PUBLISHED \<Longrightarrow> 0 < score_asset env a tokens query"
  unfolding score_asset_def Let_def
  using sum_words_nonneg [of "kn_lower env (normalize_text (ka_title a))"] by (auto intro: add_nonneg_pos)

text \<open>Ranking published assets drops none of them.\<close>

lemma mset_rank:
  assumes "list_all (\<lambda>a. ka_status a = PUBLISHED) rows"
  shows "mset (rank_assets env query rows) = mset rows"
proof -
  have "filter (\<lambda>(score, a). score \<noteq> 0) (map (\<lambda>a. (score_asset env a (tokenize (kn_lower env) query) query, a)) rows) =
      map (\<lambda>a. (score_asset env a (tokenize (kn_lower env) query) query, a)) rows"
  proof (rule filter_True)
    have "score_asset env a (tokenize (kn_lower env) query) query \<noteq> 0" if "a \<in> set rows" for a
      using assms that published_scores [of a env "tokenize (kn_lower env) query" query] by (auto simp: list_all_iff)
    then show "\<forall>x \<in> set (map (\<lambda>a. (score_asset env a (tokenize (kn_lower env) query) query, a)) rows). (\<lambda>(score, a). score \<noteq> 0) x"
      by auto
  qed
  then show ?thesis
    by (simp add: rank_assets_def o_def multiset.map_comp)
qed

lemma set_rank: "set (rank_assets env query rows) \<subseteq> set rows"
  by (auto simp: rank_assets_def)

lemma rank_sorted:
  "sorted (map (\<lambda>a. - score_asset env a (tokenize (kn_lower env) query) query) (rank_assets env query rows))"
proof -
  let ?score = "\<lambda>a. score_asset env a (tokenize (kn_lower env) query) query"
  define ps where "ps = sort_key (\<lambda>(score, a). (- score, ka_updated a)) (filter (\<lambda>(score, a). score \<noteq> 0) (map (\<lambda>a. (?score a, a)) rows))"
  have "sorted (map (\<lambda>(score, a). (- score, ka_updated a)) ps)" by (simp add: ps_def)
  then have "sorted_wrt (\<lambda>p q. (\<lambda>(score, a). (- score, ka_updated a)) p \<le> (\<lambda>(score, a). (- score, ka_updated a)) q) ps"
    by (simp add: sorted_wrt_map)
  then have "sorted_wrt (\<lambda>p q. - fst p \<le> - fst q) ps"
    by (rule sorted_wrt_mono_rel [rotated]) (auto simp: less_eq_prod_def)
  moreover have "map ?score (map snd ps) = map fst ps"
    by (auto simp: ps_def)
  ultimately have "sorted (map uminus (map ?score (map snd ps)))"
    by (simp only:) (simp add: sorted_wrt_map)
  then show ?thesis by (simp add: rank_assets_def ps_def o_def)
qed

text \<open>Every version has its chunks, so indexing an asset finds them and adds none.\<close>

lemma index_finds_chunks:
  assumes ok: "knowledge_ok (kn_sha env) db" and a: "row_get ka_id kid (kd_assets db) = Some a" "current_version a db = Some v"
  shows "index_knowledge env kid db = Inr ((True, length (chunk_text (kn_sha env) MAX_CHARS (kv_content v))), db)"
proof -
  have "v \<in> set (kd_versions db)"
    using a(2) by (auto simp: current_version_def split: option.splits if_splits dest: row_get_in)
  from knowledge_okD(4) [OF ok this] have chunks: "filter (\<lambda>c. kc_version c = kv_id v) (kd_chunks db) =
      map (chunk_row (kv_knowledge v) (kv_id v)) (chunk_text (kn_sha env) MAX_CHARS (kv_content v))"
    by (simp add: version_ok_def chunks_of_def)
  show ?thesis
    by (simp add: index_knowledge_def tx_bind_def tx_read_def a chunks tx_return_def index_chunks_def)
qed

end
