(* ===== verification/Knowledge_Effects.thy ===== *)
theory Knowledge_Effects
  imports Knowledge_Search
begin

text \<open>
  What the requests of the knowledge center do to single assets and versions: an approval of high
  risk carries the boss's confirmation, a report that was submitted stays known, the text of a
  published asset changes by new versions only, and the chunks of a version can always be made anew.
  Each part has a relation between databases that all other operations keep (locale \<open>tx_frame\<close>).
\<close>

section \<open>Confirmed approvals\<close>

definition approval_confirmed :: "knowledge_db \<Rightarrow> knowledge_asset \<Rightarrow> bool" where
  "approval_confirmed db a \<longleftrightarrow>
     (if ka_status a = APPROVED \<and> ka_risk a \<in> set HIGH_RISKS
      then list_ex (\<lambda>w. kw_knowledge w = ka_id a \<and> kw_status w = APPROVED \<and> kw_boss w) (kd_reviews db)
      else True)"

definition approvals_ok :: "knowledge_db \<Rightarrow> bool" where
  "approvals_ok db \<longleftrightarrow> list_all (approval_confirmed db) (kd_assets db)"

definition only_reviews :: "knowledge_db \<Rightarrow> knowledge_db \<Rightarrow> bool" where
  "only_reviews db db' \<longleftrightarrow> kd_assets db' = kd_assets db \<and> set (kd_reviews db) \<subseteq> set (kd_reviews db')"

interpretation review_frame: tx_frame only_reviews
  by unfold_locales (auto simp: only_reviews_def)

lemma only_reviews_core: "same_core db db' \<Longrightarrow> only_reviews db db'"
  by (simp add: same_core_def only_reviews_def)

lemma insert_version_reviews: "insert_version v db = Inr (u, db') \<Longrightarrow> only_reviews db db'"
  by (auto simp: insert_version_def only_reviews_def)

lemma chunks_reviews:
  "index_chunks env k v c db = Inr (u, db') \<Longrightarrow> only_reviews db db'"
  "reindex_chunks env k v c db = Inr (u, db') \<Longrightarrow> only_reviews db db'"
  by (auto dest!: index_chunks_Inr reindex_chunks_Inr simp: only_reviews_def)

lemma version_reviews:
  "rewrite_version env a c db = Inr (u, db') \<Longrightarrow> only_reviews db db'"
  "publish_version env form a db = Inr (u, db') \<Longrightarrow> only_reviews db db'"
  by (auto simp: rewrite_version_def publish_version_def tx_bind_Inr Let_def save_version_def only_reviews_def
      dest!: reindex_chunks_Inr split: option.splits)

lemma asset_confirmed_mono: "approval_confirmed db a \<Longrightarrow> set (kd_reviews db) \<subseteq> set (kd_reviews db') \<Longrightarrow> approval_confirmed db' a"
  by (auto simp: approval_confirmed_def list_ex_iff split: if_splits)

lemma only_reviews_ok: "only_reviews db db' \<Longrightarrow> approvals_ok db \<Longrightarrow> approvals_ok db'"
  by (auto simp: only_reviews_def approvals_ok_def list_all_iff intro: asset_confirmed_mono)

lemma saved_approvals:
  assumes ok: "approvals_ok db" and save: "save_asset env a new db = Inr (u, db1)" and rest: "only_reviews db1 db2"
    and new: "approval_confirmed db2 new"
  shows "approvals_ok db2"
proof -
  have "kd_reviews db1 = kd_reviews db"
    "\<And>b. b \<in> set (kd_assets db1) \<Longrightarrow> b \<in> set (kd_assets db) \<or> b = new\<lparr>ka_updated := kn_now env\<rparr>"
    using save by (auto simp: save_asset_def split: if_splits dest: in_row_put)
  moreover have "approval_confirmed db2 (new\<lparr>ka_updated := kn_now env\<rparr>)"
    using new by (simp add: approval_confirmed_def)
  ultimately show ?thesis
    using ok rest by (auto simp: approvals_ok_def only_reviews_def list_all_iff intro: asset_confirmed_mono)
qed

lemma added_approvals:
  assumes ok: "approvals_ok db" and add: "insert_asset a db = Inr (u, db1)" and rest: "only_reviews db1 db2"
    and a: "ka_status a = DRAFT"
  shows "approvals_ok db2"
proof -
  have "approval_confirmed db2 a" using a by (simp add: approval_confirmed_def)
  with ok add rest show ?thesis
    by (auto simp: insert_asset_def approvals_ok_def only_reviews_def list_all_iff intro: asset_confirmed_mono)
qed

lemma reviewed_approvals:
  assumes "approvals_ok db" and "save_asset env a new db = Inr (u, db1)" and "insert_review w db1 = Inr (u', db2)"
    and "ka_status new = APPROVED \<and> ka_risk new \<in> set HIGH_RISKS \<Longrightarrow>
      kw_knowledge w = ka_id new \<and> kw_status w = APPROVED \<and> kw_boss w"
  shows "approvals_ok db2"
proof (rule saved_approvals [OF assms(1,2)])
  show "only_reviews db1 db2" using keepsD [OF leaf_core_frames(3) assms(3)] by (rule only_reviews_core)
  have "w \<in> set (kd_reviews db2)" using assms(3) by (auto simp: insert_review_def)
  with assms(4) show "approval_confirmed db2 new" by (auto simp: approval_confirmed_def list_ex_iff)
qed

lemma publish_approvals:
  assumes ok: "approvals_ok db" and run: "publish_asset env form a db = Inr (u, db')"
  shows "approvals_ok db'"
proof -
  from publish_asset_Inr [OF run] obtain u1 db1 u2 db2 w where
    save: "save_asset env a (published_asset env form a) db = Inr (u1, db1)"
    and pub: "publish_version env form (published_asset env form a) db1 = Inr (u2, db2)"
    and add: "insert_review w db2 = Inr (u, db')" .
  have "only_reviews db1 db'"
    using version_reviews(2) [OF pub] only_reviews_core [OF keepsD [OF leaf_core_frames(3) add]] by (rule review_frame.trans)
  then show ?thesis
    by (rule saved_approvals [OF ok save]) (simp add: approval_confirmed_def published_asset_def)
qed

lemma update_approvals:
  assumes ok: "approvals_ok db" and run: "update_draft env form a db = Inr (u, db')"
  shows "approvals_ok db'"
proof -
  let ?new = "patched_asset env form a"
  from run [unfolded update_draft_def Let_def tx_bind_Inr tx_simps] obtain u1 db1 u2 db2 where
    st: "(if ka_status a \<in> {DRAFT, REJECTED, PENDING} then None
          else Some (KnowledgeConflictError [0x53EA, 0x6709, 0x8349, 0x7A3F, 0x6216, 0x9A73, 0x56DE, 0x72B6, 0x6001, 0x7684, 0x77E5, 0x8BC6, 0x53EF, 0x4EE5, 0x7F16, 0x8F91])) = None"
    and save: "save_asset env a ?new db = Inr (u1, db1)"
    and content: "(case pf_content form of None \<Rightarrow> tx_return () | Some content \<Rightarrow> rewrite_version env ?new content) db1 = Inr (u2, db2)"
    and tags: "(case pf_tags form of None \<Rightarrow> tx_return () | Some tags \<Rightarrow> replace_tags env ?new tags) db2 = Inr (u, db')"
    by blast
  have "only_reviews db1 db2"
    using content version_reviews(1) by (cases "pf_content form") (auto simp: review_frame.refl)
  moreover have "only_reviews db2 db'"
    using tags only_reviews_core [OF keepsD [OF replace_tags_frame]] by (cases "pf_tags form") (auto simp: review_frame.refl)
  ultimately have rest: "only_reviews db1 db'" by (rule review_frame.trans)
  have "ka_status ?new \<noteq> APPROVED" using st by (auto simp: patched_asset_def split: if_splits)
  then show ?thesis by (intro saved_approvals [OF ok save rest]) (simp add: approval_confirmed_def)
qed

lemma new_version_approvals:
  assumes ok: "approvals_ok db" and a: "a \<in> set (kd_assets db)" and run: "create_new_version env payload a db = Inr (row, db')"
  shows "approvals_ok db'"
proof -
  from run [unfolded create_new_version_def Let_def tx_bind_Inr tx_simps] obtain v new u1 u2 u3 db1 db2 where
    version: "insert_version v db = Inr (u1, db1)" and save: "save_asset env a new db1 = Inr (u2, db2)"
    and chunks: "index_chunks env (ka_id a) (kv_id v) (kv_content v) db2 = Inr (u3, db')"
    and new: "ka_id new = ka_id a" "ka_status new = ka_status a" "ka_risk new = ka_risk a" by fastforce
  have r2: "only_reviews db2 db'" by (rule chunks_reviews(1) [OF chunks])
  have ok1: "approvals_ok db1" using insert_version_reviews [OF version] ok by (rule only_reviews_ok)
  have "kd_reviews db1 = kd_reviews db" using version by (auto simp: insert_version_def)
  moreover have "set (kd_reviews db1) \<subseteq> set (kd_reviews db')"
    using r2 save by (auto simp: only_reviews_def save_asset_def split: if_splits)
  ultimately have "approval_confirmed db' a"
    using ok a by (auto simp: approvals_ok_def list_all_iff intro: asset_confirmed_mono)
  then have "approval_confirmed db' new" using new by (simp add: approval_confirmed_def)
  then show ?thesis by (rule saved_approvals [OF ok1 save r2])
qed

lemma draft_approvals:
  "approvals_ok db \<Longrightarrow> create_manual_draft env b form db = Inr (x, db') \<Longrightarrow> approvals_ok db'"
  "approvals_ok db \<Longrightarrow> create_draft_from_research_report env rid rf db = Inr (x, db') \<Longrightarrow> approvals_ok db'"
proof -
  assume ok: "approvals_ok db"
  { assume run: "create_manual_draft env b form db = Inr (x, db')"
    obtain a v tags where rows: "manual_draft env b form = (a, v, tags)" by (metis prod_cases3)
    from run [unfolded create_manual_draft_def rows Let_def prod.case tx_bind_Inr tx_simps] obtain u1 u2 u3 u4 db1 db2 db3 where
      draft: "insert_asset a db = Inr (u1, db1)" "insert_version v db1 = Inr (u2, db2)"
        "persist_tags env (ka_id a) (Some (kv_id v)) tags db2 = Inr (u3, db3)"
        "index_chunks env (ka_id a) (kv_id v) (kv_content v) db3 = Inr (u4, db')"
      by blast
    have "only_reviews db1 db'"
      using insert_version_reviews [OF draft(2)] only_reviews_core [OF keepsD [OF persist_tags_frame draft(3)]]
        chunks_reviews(1) [OF draft(4)] review_frame.trans by blast
    moreover have "ka_status a = DRAFT" using rows by (auto simp: manual_draft_def Let_def)
    ultimately show "approvals_ok db'" by (rule added_approvals [OF ok draft(1)]) }
  { assume "create_draft_from_research_report env rid rf db = Inr (x, db')"
    then obtain xe ss es where rest: "store_report_draft env rf xe ss es db = Inr (x, db')"
      unfolding create_draft_from_research_report_def tx_bind_Inr tx_simps by blast
    obtain a v tags where rows: "draft_of_report env rf xe ss = (a, v, tags)" by (metis prod_cases3)
    from rest [unfolded store_report_draft_def rows Let_def prod.case tx_bind_Inr tx_simps]
    obtain u1 u2 u3 u4 u5 u6 db1 db2 db3 db4 db5 where
      draft: "insert_asset a db = Inr (u1, db1)" "insert_version v db1 = Inr (u2, db2)"
        "persist_tags env (ka_id a) (Some (kv_id v)) tags db2 = Inr (u3, db3)"
        "persist_sources env (ka_id a) (kv_id v) xe ss es db3 = Inr (u4, db4)"
        "insert_review (candidate_review env rf xe a) db4 = Inr (u5, db5)"
        "index_chunks env (ka_id a) (kv_id v) (kv_content v) db5 = Inr (u6, db')"
      by blast
    have "same_core db2 db5"
      using keepsD [OF persist_tags_frame draft(3)] keepsD [OF persist_sources_frame draft(4)]
        keepsD [OF leaf_core_frames(3) draft(5)] core_frame.trans by blast
    then have "only_reviews db1 db'"
      using insert_version_reviews [OF draft(2)] only_reviews_core chunks_reviews(1) [OF draft(6)] review_frame.trans by blast
    moreover have "ka_status a = DRAFT" using rows by (auto simp: draft_of_report_def Let_def)
    ultimately show "approvals_ok db'" by (rule added_approvals [OF ok draft(1)]) }
qed

lemma approve_Inr:
  assumes "approve_asset env form a db = Inr (u, db')"
  shows "\<exists>u1 db1 new w. save_asset env a new db = Inr (u1, db1) \<and> insert_review w db1 = Inr (u, db') \<and>
     new = a\<lparr>ka_status := APPROVED, ka_approved_by := Some (reviewer_code form), ka_approved := Some (kn_now env)\<rparr> \<and>
     (ka_risk a \<in> set HIGH_RISKS \<longrightarrow> vf_boss form) \<and> kw_knowledge w = ka_id a \<and> kw_status w = APPROVED \<and> kw_boss w = vf_boss form"
proof -
  define new where "new = a\<lparr>ka_status := APPROVED, ka_approved_by := Some (reviewer_code form), ka_approved := Some (kn_now env)\<rparr>"
  define w where "w = new_review env form a [0x5BA1, 0x6838] APPROVED (Some (or_given (vf_comment form) APPROVED))"
  from assms have "\<exists>u1 db1. save_asset env a new db = Inr (u1, db1) \<and> insert_review w db1 = Inr (u, db')"
    "(if ka_risk a \<in> set HIGH_RISKS \<and> \<not> vf_boss form
      then Some (KnowledgeValidationError [0x9AD8, 0x98CE, 0x9669, 0x77E5, 0x8BC6, 0x5FC5, 0x987B, 0x7531, 0x8001, 0x677F, 0x786E, 0x8BA4]) else None) = None"
    unfolding approve_asset_def tx_bind_Inr tx_simps new_def w_def by blast+
  moreover from this(2) have "ka_risk a \<in> set HIGH_RISKS \<longrightarrow> vf_boss form" by (simp split: if_splits)
  moreover have "kw_knowledge w = ka_id a \<and> kw_status w = APPROVED \<and> kw_boss w = vf_boss form"
    by (simp add: w_def new_review_def)
  ultimately show ?thesis unfolding new_def by blast
qed

lemma review_operations:
  "submit_for_review env form a db = Inr (u, db') \<Longrightarrow> \<exists>u1 db1 new w. save_asset env a new db = Inr (u1, db1) \<and>
     insert_review w db1 = Inr (u, db') \<and> new = a\<lparr>ka_status := PENDING\<rparr>"
  "approve_asset env form a db = Inr (u, db') \<Longrightarrow> \<exists>u1 db1 new w. save_asset env a new db = Inr (u1, db1) \<and>
     insert_review w db1 = Inr (u, db') \<and>
     new = a\<lparr>ka_status := APPROVED, ka_approved_by := Some (reviewer_code form), ka_approved := Some (kn_now env)\<rparr> \<and>
     (ka_risk a \<in> set HIGH_RISKS \<longrightarrow> vf_boss form) \<and> kw_knowledge w = ka_id a \<and> kw_status w = APPROVED \<and> kw_boss w = vf_boss form"
  "reject_asset env form a db = Inr (u, db') \<Longrightarrow> \<exists>u1 db1 new w. save_asset env a new db = Inr (u1, db1) \<and>
     insert_review w db1 = Inr (u, db') \<and> new = a\<lparr>ka_status := REJECTED\<rparr>"
  "archive_asset env form a db = Inr (u, db') \<Longrightarrow> \<exists>u1 db1 new w. save_asset env a new db = Inr (u1, db1) \<and>
     insert_review w db1 = Inr (u, db') \<and> new = a\<lparr>ka_status := ARCHIVED, ka_archived := Some (kn_now env)\<rparr>"
  subgoal unfolding submit_for_review_def tx_bind_Inr tx_simps by blast
  subgoal by (rule approve_Inr)
  subgoal unfolding reject_asset_def tx_bind_Inr tx_simps by blast
  subgoal unfolding archive_asset_def tx_bind_Inr tx_simps by blast
  done

lemma operation_approvals:
  assumes ok: "approvals_ok db" and run: "operation env r db = Inr (u, db')"
  shows "approvals_ok db'"
proof (cases r)
  case (CreateAsset form)
  with run show ?thesis by (auto simp: operation_def tx_bind_Inr intro: draft_approvals(1) [OF ok])
next
  case (PatchAsset kid form)
  with run show ?thesis by (auto simp: operation_def with_asset_Inr intro: update_approvals [OF ok])
next
  case (SubmitReview kid form)
  with run show ?thesis
    by (auto simp: operation_def with_asset_Inr dest!: review_operations(1) intro: reviewed_approvals [OF ok])
next
  case (ApproveAsset kid form)
  with run show ?thesis
    by (auto simp: operation_def with_asset_Inr dest!: review_operations(2) intro: reviewed_approvals [OF ok])
next
  case (RejectAsset kid form)
  with run show ?thesis
    by (auto simp: operation_def with_asset_Inr dest!: review_operations(3) intro: reviewed_approvals [OF ok])
next
  case (PublishAsset kid form)
  with run show ?thesis by (auto simp: operation_def with_asset_Inr intro: publish_approvals [OF ok])
next
  case (ArchiveAsset kid form)
  with run show ?thesis
    by (auto simp: operation_def with_asset_Inr dest!: review_operations(4) intro: reviewed_approvals [OF ok])
next
  case (CreateVersion kid form)
  with run show ?thesis
    by (auto simp: operation_def create_version_def with_asset_Inr tx_bind_Inr dest: row_get_in intro: new_version_approvals [OF ok])
next
  case (RestoreVersion kid vid)
  with run show ?thesis
    by (auto simp: operation_def restore_version_def with_asset_Inr tx_bind_Inr dest: row_get_in intro: new_version_approvals [OF ok])
next
  case (CiteAsset kid form)
  with run have "same_core db db'" by (auto simp: operation_def intro: keepsD [OF record_use_frame])
  then show ?thesis using ok only_reviews_core only_reviews_ok by blast
next
  case (SubmitReport rid form)
  with run show ?thesis
    by (auto simp: operation_def submit_research_report_def tx_bind_Inr intro: draft_approvals(2) [OF ok])
qed

interpretation approval_machine: invariant_machine "knowledge_step sha" approvals_ok
proof unfold_locales
  fix db e
  assume "approvals_ok db"
  then show "approvals_ok (knowledge_step sha db e)"
    using serve_cases operation_approvals unfolding knowledge_step_def by (metis surjective_pairing)
qed

section \<open>Submitted reports and published texts\<close>

text \<open>The reports the stored versions come from; they are never lost while the versions have distinct keys.\<close>

definition keeps_reports :: "knowledge_db \<Rightarrow> knowledge_db \<Rightarrow> bool" where
  "keeps_reports db db' \<longleftrightarrow>
     (distinct (map kv_id (kd_versions db)) \<longrightarrow>
        distinct (map kv_id (kd_versions db')) \<and>
        set (map kv_report (kd_versions db)) \<subseteq> set (map kv_report (kd_versions db')))"

text \<open>The text readers get of an asset.\<close>

definition text_of :: "ustr \<Rightarrow> knowledge_db \<Rightarrow> ustr option" where
  "text_of kid db =
     (case row_get ka_id kid (kd_assets db) of
        None \<Rightarrow> None
      | Some a \<Rightarrow> map_option kv_content (current_version a db))"

definition keeps_text :: "ustr \<Rightarrow> knowledge_db \<Rightarrow> knowledge_db \<Rightarrow> bool" where
  "keeps_text kid db db' \<longleftrightarrow> (\<forall>t. text_of kid db = Some t \<longrightarrow> text_of kid db' = Some t)"

interpretation report_frame: tx_frame keeps_reports
  by unfold_locales (auto simp: keeps_reports_def)

interpretation text_frame: tx_frame "keeps_text kid"
  by unfold_locales (auto simp: keeps_text_def)

lemma keeps_text_D: "keeps_text kid db db' \<Longrightarrow> text_of kid db = Some t \<Longrightarrow> text_of kid db' = Some t"
  by (simp add: keeps_text_def)

lemma current_version_cong: "ka_current b = ka_current a \<Longrightarrow> kd_versions db' = kd_versions db \<Longrightarrow>
    current_version b db' = current_version a db"
  by (auto simp: current_version_def split: option.splits)

lemma same_rows_keep:
  "kd_versions db' = kd_versions db \<Longrightarrow> keeps_reports db db'"
  "kd_assets db' = kd_assets db \<Longrightarrow> kd_versions db' = kd_versions db \<Longrightarrow> keeps_text kid db db'"
  using current_version_cong [OF refl, of db' db]
  by (auto simp: keeps_reports_def keeps_text_def text_of_def split: option.splits)

lemma same_core_keeps: "same_core db db' \<Longrightarrow> keeps_reports db db'" "same_core db db' \<Longrightarrow> keeps_text kid db db'"
  by (auto simp: same_core_def intro: same_rows_keep)

lemma save_asset_versions: "save_asset env a new db = Inr (u, db') \<Longrightarrow> kd_versions db' = kd_versions db"
  by (auto simp: save_asset_def split: if_splits)

lemma save_asset_text:
  assumes save: "save_asset env a new db = Inr (u, db')" and a: "row_get ka_id (ka_id a) (kd_assets db) = Some a"
    and same: "ka_id new = ka_id a" "ka_id a = kid \<Longrightarrow> ka_current new = ka_current a"
  shows "keeps_text kid db db'"
proof (cases "new = a")
  case True
  with save show ?thesis by (simp add: save_asset_def text_frame.refl)
next
  case False
  define b where "b = new\<lparr>ka_updated := kn_now env\<rparr>"
  have id: "ka_id b = ka_id a" "ka_current b = ka_current new" by (simp_all add: b_def same)
  have db': "db' = db\<lparr>kd_assets := row_put ka_id b (kd_assets db)\<rparr>"
    using False save by (simp add: save_asset_def b_def)
  then have v: "kd_versions db' = kd_versions db" by simp
  show ?thesis
  proof (cases "ka_id a = kid")
    case True
    then have "row_get ka_id kid (kd_assets db') = Some b" using a id by (simp add: db' row_get_put)
    then have "text_of kid db' = map_option kv_content (current_version b db')" by (simp add: text_of_def)
    also have "current_version b db' = current_version a db"
      using same(2) [OF True] id v by (intro current_version_cong) simp_all
    finally show ?thesis using a True by (simp add: keeps_text_def text_of_def)
  next
    case other: False
    then have "row_get ka_id kid (kd_assets db') = row_get ka_id kid (kd_assets db)" using id by (simp add: db' row_get_put)
    then show ?thesis using current_version_cong [OF refl v]
      by (auto simp: keeps_text_def text_of_def split: option.splits)
  qed
qed

lemma insert_asset_keeps:
  "insert_asset a db = Inr (u, db') \<Longrightarrow> keeps_reports db db'" "insert_asset a db = Inr (u, db') \<Longrightarrow> keeps_text kid db db'"
proof -
  show "insert_asset a db = Inr (u, db') \<Longrightarrow> keeps_reports db db'"
    by (intro same_rows_keep) (simp add: insert_asset_def)
  show "insert_asset a db = Inr (u, db') \<Longrightarrow> keeps_text kid db db'"
    by (auto simp: insert_asset_def keeps_text_def text_of_def row_get_add current_version_def split: option.splits)
qed

lemma insert_version_keeps:
  assumes "insert_version v db = Inr (u, db')"
  shows "keeps_reports db db'" "keeps_text kid db db'"
proof -
  have db': "db' = db\<lparr>kd_versions := row_add v (kd_versions db)\<rparr>" and fresh: "kv_id v \<notin> set (map kv_id (kd_versions db))"
    using assms by (auto simp: insert_version_def list_ex_iff)
  then show "keeps_reports db db'" by (auto simp: keeps_reports_def row_add_def)
  show "keeps_text kid db db'"
    by (auto simp: db' keeps_text_def text_of_def current_version_def row_get_add split: option.splits if_splits)
qed

lemma put_version_keeps:
  assumes v: "row_get kv_id (kv_id v) (kd_versions db) = Some v"
    and db': "kd_versions db' = row_put kv_id v' (kd_versions db)" and same: "kv_id v' = kv_id v" "kv_report v' = kv_report v"
  shows "keeps_reports db db'"
    "kd_assets db' = kd_assets db \<Longrightarrow> kv_content v' = kv_content v \<Longrightarrow> keeps_text kid db db'"
proof -
  have "kv_report x \<in> kv_report ` set (row_put kv_id v' (kd_versions db))"
    if "distinct (map kv_id (kd_versions db))" "x \<in> set (kd_versions db)" for x
  proof (cases "kv_id x = kv_id v")
    case True
    then have "x = v" by (rule row_get_unique [OF that(1) v that(2)])
    moreover have "v' \<in> set (row_put kv_id v' (kd_versions db))"
      using row_get_in [OF v] same by (force simp: row_put_def)
    ultimately show ?thesis using same(2) by (metis image_eqI)
  next
    case False
    then have "x \<in> set (row_put kv_id v' (kd_versions db))" using that(2) same by (force simp: row_put_def)
    then show ?thesis by simp
  qed
  then show "keeps_reports db db'"
    unfolding keeps_reports_def db' by (auto simp del: keys_row_put simp: keys_row_put [OF, of kv_id v'] same(1) [symmetric])
  show "kd_assets db' = kd_assets db \<Longrightarrow> kv_content v' = kv_content v \<Longrightarrow> keeps_text kid db db'"
    using v same by (auto simp: keeps_text_def text_of_def current_version_def db' row_get_put split: option.splits if_splits)
qed

lemma current_version_get: "current_version b db = Some v \<Longrightarrow> row_get kv_id (kv_id v) (kd_versions db) = Some v"
  by (auto simp: current_version_def split: option.splits if_splits dest: row_get_key)

lemma chunks_keep:
  "index_chunks env k v c db = Inr (u, db') \<Longrightarrow> keeps_reports db db' \<and> keeps_text kid db db'"
  "reindex_chunks env k v c db = Inr (u, db') \<Longrightarrow> keeps_reports db db' \<and> keeps_text kid db db'"
  by (auto dest!: index_chunks_Inr reindex_chunks_Inr intro!: same_rows_keep)

lemma rewrite_version_run:
  assumes "rewrite_version env b c db = Inr (u, db')"
  shows "db' = db \<or> (\<exists>v v' db1. current_version b db = Some v \<and> kv_id v' = kv_id v \<and> kv_report v' = kv_report v \<and>
     db1 = db\<lparr>kd_versions := row_put kv_id v' (kd_versions db)\<rparr> \<and> keeps_reports db1 db' \<and> keeps_text kid db1 db')"
  using assms chunks_keep(2)
  by (fastforce simp: rewrite_version_def tx_bind_Inr Let_def save_version_def split: option.splits)

lemma publish_version_keeps:
  assumes "publish_version env form b db = Inr (u, db')"
  shows "keeps_reports db db'" "keeps_text kid db db'"
proof -
  have run: "db' = db \<or> (\<exists>v v' db1. current_version b db = Some v \<and> kv_id v' = kv_id v \<and> kv_report v' = kv_report v \<and>
     kv_content v' = kv_content v \<and> db1 = db\<lparr>kd_versions := row_put kv_id v' (kd_versions db)\<rparr> \<and>
     keeps_reports db1 db' \<and> keeps_text kid db1 db')"
    using assms chunks_keep(2)
    by (fastforce simp: publish_version_def tx_bind_Inr Let_def save_version_def split: option.splits)
  have put: "keeps_reports db (db\<lparr>kd_versions := row_put kv_id v' (kd_versions db)\<rparr>)"
    "kv_content v' = kv_content v \<Longrightarrow> keeps_text kid db (db\<lparr>kd_versions := row_put kv_id v' (kd_versions db)\<rparr>)"
    if "current_version b db = Some v" "kv_id v' = kv_id v" "kv_report v' = kv_report v" for v v'
    by (rule put_version_keeps [OF current_version_get [OF that(1)] _ that(2,3)]; simp)+
  show "keeps_reports db db'"
    using run by (elim disjE exE conjE) (blast intro: report_frame.refl report_frame.trans put(1))+
  show "keeps_text kid db db'"
    using run by (elim disjE exE conjE) (blast intro: text_frame.refl text_frame.trans put(2))+
qed

lemma rewrite_reports:
  assumes "rewrite_version env b c db = Inr (u, db')"
  shows "keeps_reports db db'"
proof -
  have "keeps_reports db (db\<lparr>kd_versions := row_put kv_id v' (kd_versions db)\<rparr>)"
    if "current_version b db = Some v" "kv_id v' = kv_id v" "kv_report v' = kv_report v" for v v'
    by (rule put_version_keeps(1) [OF current_version_get [OF that(1)] _ that(2,3)]) simp
  then show ?thesis
    using rewrite_version_run [OF assms, of "[]"]
    by (elim disjE exE conjE) (blast intro: report_frame.refl report_frame.trans)+
qed

text \<open>Rewriting a version of another asset does not touch the text of this one.\<close>

lemma rewrite_text:
  assumes run: "rewrite_version env b c db = Inr (u, db')"
    and other: "\<And>v a w. current_version b db = Some v \<Longrightarrow> row_get ka_id kid (kd_assets db) = Some a \<Longrightarrow>
      current_version a db = Some w \<Longrightarrow> kv_id w \<noteq> kv_id v"
  shows "keeps_text kid db db'"
proof -
  have "keeps_text kid db (db\<lparr>kd_versions := row_put kv_id v' (kd_versions db)\<rparr>)"
    if "current_version b db = Some v" "kv_id v' = kv_id v" for v v'
    using other [OF that(1)] that(2)
    by (fastforce simp: keeps_text_def text_of_def current_version_def row_get_put dest: row_get_key split: option.splits if_splits)
  then show ?thesis
    using rewrite_version_run [OF run, of kid]
    by (elim disjE exE conjE) (blast intro: text_frame.refl text_frame.trans)+
qed

text \<open>The asset whose text a request is meant to replace.\<close>

definition new_version_for :: "knowledge_request \<Rightarrow> ustr option" where
  "new_version_for r = (case r of CreateVersion kid _ \<Rightarrow> Some kid | RestoreVersion kid _ \<Rightarrow> Some kid | _ \<Rightarrow> None)"

lemma reviewed_keeps:
  assumes save: "save_asset env a new db = Inr (u1, db1)" and add: "insert_review w db1 = Inr (u, db')"
    and a: "row_get ka_id k (kd_assets db) = Some a" and same: "ka_id new = ka_id a" "ka_current new = ka_current a"
  shows "keeps_reports db db'" "keeps_text kid db db'"
proof -
  have "row_get ka_id (ka_id a) (kd_assets db) = Some a" using a row_get_key [OF a] by simp
  note saved = save_asset_text [OF save this same(1)] same_rows_keep(1) [OF save_asset_versions [OF save]]
  note added = same_core_keeps [OF keepsD [OF leaf_core_frames(3) add]]
  show "keeps_reports db db'" using saved(2) added(1) by (rule report_frame.trans)
  show "keeps_text kid db db'" using saved(1) same(2) added(2) by (blast intro: text_frame.trans)
qed

lemma publish_keeps:
  assumes run: "publish_asset env form a db = Inr (u, db')" and a: "row_get ka_id k (kd_assets db) = Some a"
  shows "keeps_reports db db'" "keeps_text kid db db'"
proof -
  from publish_asset_Inr [OF run] obtain u1 db1 u2 db2 w where
    save: "save_asset env a (published_asset env form a) db = Inr (u1, db1)"
    and pub: "publish_version env form (published_asset env form a) db1 = Inr (u2, db2)"
    and add: "insert_review w db2 = Inr (u, db')" .
  have "row_get ka_id (ka_id a) (kd_assets db) = Some a" using a row_get_key [OF a] by simp
  note saved = save_asset_text [OF save this] same_rows_keep(1) [OF save_asset_versions [OF save]]
  note added = same_core_keeps [OF keepsD [OF leaf_core_frames(3) add]]
  show "keeps_reports db db'"
    using saved(2) publish_version_keeps(1) [OF pub] added(1) by (blast intro: report_frame.trans)
  have "keeps_text kid db db1" by (rule saved(1)) (simp_all add: published_asset_def)
  then show "keeps_text kid db db'"
    using publish_version_keeps(2) [OF pub] added(2) by (blast intro: text_frame.trans)
qed

lemma update_draft_Inr:
  assumes "update_draft env form a db = Inr (u, db')"
  obtains u1 db1 u2 db2 where "ka_status a \<in> {DRAFT, REJECTED, PENDING}"
    "save_asset env a (patched_asset env form a) db = Inr (u1, db1)"
    "(case pf_content form of None \<Rightarrow> tx_return ()
      | Some content \<Rightarrow> rewrite_version env (patched_asset env form a) content) db1 = Inr (u2, db2)"
    "same_core db2 db'"
proof -
  from assms [unfolded update_draft_def Let_def tx_bind_Inr tx_simps] obtain u1 db1 u2 db2 where
    st: "(if ka_status a \<in> {DRAFT, REJECTED, PENDING} then None
          else Some (KnowledgeConflictError [0x53EA, 0x6709, 0x8349, 0x7A3F, 0x6216, 0x9A73, 0x56DE, 0x72B6, 0x6001, 0x7684, 0x77E5, 0x8BC6, 0x53EF, 0x4EE5, 0x7F16, 0x8F91])) = None"
    and run: "save_asset env a (patched_asset env form a) db = Inr (u1, db1)"
      "(case pf_content form of None \<Rightarrow> tx_return ()
        | Some content \<Rightarrow> rewrite_version env (patched_asset env form a) content) db1 = Inr (u2, db2)"
    and tags: "(case pf_tags form of None \<Rightarrow> tx_return () | Some tags \<Rightarrow> replace_tags env (patched_asset env form a) tags) db2 = Inr (u, db')"
    by blast
  have "same_core db2 db'"
    using tags keepsD [OF replace_tags_frame] by (cases "pf_tags form") (auto simp: core_frame.refl)
  moreover have "ka_status a \<in> {DRAFT, REJECTED, PENDING}" using st by (metis option.distinct(1))
  ultimately show ?thesis using run that by blast
qed

lemma update_keeps:
  assumes run: "update_draft env form b db = Inr (u, db')" and b: "row_get ka_id k (kd_assets db) = Some b"
  shows "keeps_reports db db'"
    "knowledge_ok sha db \<Longrightarrow> row_get ka_id kid (kd_assets db) = Some a \<Longrightarrow> ka_status a = PUBLISHED \<Longrightarrow> keeps_text kid db db'"
proof -
  let ?new = "patched_asset env form b"
  from update_draft_Inr [OF run] obtain u1 db1 u2 db2 where st: "ka_status b \<in> {DRAFT, REJECTED, PENDING}"
    and save: "save_asset env b ?new db = Inr (u1, db1)"
    and content: "(case pf_content form of None \<Rightarrow> tx_return () | Some content \<Rightarrow> rewrite_version env ?new content) db1 = Inr (u2, db2)"
    and rest: "same_core db2 db'" .
  have same: "ka_id ?new = ka_id b" "ka_current ?new = ka_current b" by (simp_all add: patched_asset_def)
  have get_b: "row_get ka_id (ka_id b) (kd_assets db) = Some b" using b row_get_key [OF b] by simp
  note versions = save_asset_versions [OF save]
  have "keeps_reports db1 db2"
    using content rewrite_reports by (cases "pf_content form") (auto simp: report_frame.refl)
  then show "keeps_reports db db'"
    using same_rows_keep(1) [OF versions] same_core_keeps(1) [OF rest] by (blast intro: report_frame.trans)
  assume ok: "knowledge_ok sha db" and a: "row_get ka_id kid (kd_assets db) = Some a" and pub: "ka_status a = PUBLISHED"
  have other: "ka_id b \<noteq> kid" using get_b a st pub by auto
  have saved: "keeps_text kid db db1" by (rule save_asset_text [OF save get_b same(1)]) (simp add: other)
  have get_a: "row_get ka_id kid (kd_assets db1) = Some a"
    using save a other same(1) by (auto simp: save_asset_def row_get_put split: if_splits)
  have "kv_id w \<noteq> kv_id v" if v: "current_version ?new db1 = Some v" and a': "row_get ka_id kid (kd_assets db1) = Some a'"
    and w: "current_version a' db1 = Some w" for v a' w
  proof
    assume eq: "kv_id w = kv_id v"
    have "a' = a" using a' get_a by simp
    then have "kv_knowledge w = ka_id a" "kv_knowledge v = ka_id b" "w = v"
      using current_owned(2) [OF ok row_get_in [OF a] refl _ versions] current_owned(2) [OF ok row_get_in [OF b] same(2) v versions]
        w current_version_get [OF v] current_version_get [OF w] eq by simp_all
    then show False using other row_get_key [OF a] by simp
  qed
  then have "keeps_text kid db1 db2"
    using content rewrite_text by (cases "pf_content form") (auto simp: text_frame.refl)
  with saved same_core_keeps(2) [OF rest] show "keeps_text kid db db'" by (blast intro: text_frame.trans)
qed

lemma new_version_keeps:
  assumes run: "create_new_version env payload b db = Inr (row, db')" and b: "row_get ka_id k (kd_assets db) = Some b"
  shows "keeps_reports db db'" "k \<noteq> kid \<Longrightarrow> keeps_text kid db db'"
proof -
  from run [unfolded create_new_version_def Let_def tx_bind_Inr tx_simps] obtain v new u1 u2 u3 db1 db2 where
    version: "insert_version v db = Inr (u1, db1)" and save: "save_asset env b new db1 = Inr (u2, db2)"
    and chunks: "index_chunks env (ka_id b) (kv_id v) (kv_content v) db2 = Inr (u3, db')"
    and new: "ka_id new = ka_id b" by fastforce
  have get_b: "row_get ka_id (ka_id b) (kd_assets db1) = Some b"
    using b row_get_key [OF b] version by (auto simp: insert_version_def)
  note steps = insert_version_keeps [OF version] chunks_keep(1) [OF chunks]
  show "keeps_reports db db'"
    using steps(1,3) same_rows_keep(1) [OF save_asset_versions [OF save]] by (blast intro: report_frame.trans)
  assume "k \<noteq> kid"
  then have "keeps_text kid db1 db2"
    using row_get_key [OF b] by (intro save_asset_text [OF save get_b new]) simp
  then show "keeps_text kid db db'" using steps(2,3) by (blast intro: text_frame.trans)
qed

lemma manual_draft_keeps:
  assumes run: "create_manual_draft env b form db = Inr (x, db')"
  shows "keeps_reports db db'" "keeps_text kid db db'"
proof -
  obtain a v tags where rows: "manual_draft env b form = (a, v, tags)" by (metis prod_cases3)
  from run [unfolded create_manual_draft_def rows Let_def prod.case tx_bind_Inr tx_simps] obtain u1 u2 u3 u4 db1 db2 db3 where
    draft: "insert_asset a db = Inr (u1, db1)" "insert_version v db1 = Inr (u2, db2)"
      "persist_tags env (ka_id a) (Some (kv_id v)) tags db2 = Inr (u3, db3)"
      "index_chunks env (ka_id a) (kv_id v) (kv_content v) db3 = Inr (u4, db')"
    by blast
  note steps = insert_asset_keeps [OF draft(1)] insert_version_keeps [OF draft(2)]
    same_core_keeps [OF keepsD [OF persist_tags_frame draft(3)]] chunks_keep(1) [OF draft(4)]
  show "keeps_reports db db'" "keeps_text kid db db'"
    using steps by (blast intro: report_frame.trans text_frame.trans)+
qed

lemma report_draft_keeps:
  assumes run: "create_draft_from_research_report env rid rf db = Inr (x, db')"
  shows "keeps_reports db db'" "keeps_text kid db db'" "Some rid \<in> set (map kv_report (kd_versions db'))"
proof -
  from run obtain xe ss es where rest: "store_report_draft env rf xe ss es db = Inr (x, db')"
    and xe: "row_get xe_id rid (kd_executions db) = Some xe"
    unfolding create_draft_from_research_report_def tx_bind_Inr tx_simps by blast
  obtain a v tags where rows: "draft_of_report env rf xe ss = (a, v, tags)" by (metis prod_cases3)
  from rest [unfolded store_report_draft_def rows Let_def prod.case tx_bind_Inr tx_simps]
  obtain u1 u2 u3 u4 u5 u6 db1 db2 db3 db4 db5 where
    draft: "insert_asset a db = Inr (u1, db1)" "insert_version v db1 = Inr (u2, db2)"
      "persist_tags env (ka_id a) (Some (kv_id v)) tags db2 = Inr (u3, db3)"
      "persist_sources env (ka_id a) (kv_id v) xe ss es db3 = Inr (u4, db4)"
      "insert_review (candidate_review env rf xe a) db4 = Inr (u5, db5)"
      "index_chunks env (ka_id a) (kv_id v) (kv_content v) db5 = Inr (u6, db')"
    by blast
  have core: "same_core db2 db5"
    using keepsD [OF persist_tags_frame draft(3)] keepsD [OF persist_sources_frame draft(4)]
      keepsD [OF leaf_core_frames(3) draft(5)] core_frame.trans by blast
  note steps = insert_asset_keeps [OF draft(1)] insert_version_keeps [OF draft(2)] same_core_keeps [OF core] chunks_keep(1) [OF draft(6)]
  show "keeps_reports db db'" "keeps_text kid db db'"
    using steps by (blast intro: report_frame.trans text_frame.trans)+
  have "kv_report v = Some rid"
    using rows row_get_key [OF xe] by (auto simp: draft_of_report_def Let_def first_version_def)
  moreover have "v \<in> set (kd_versions db')"
    using draft(2) core index_chunks_Inr [OF draft(6)] by (auto simp: insert_version_def same_core_def)
  ultimately show "Some rid \<in> set (map kv_report (kd_versions db'))" by (metis image_eqI list.set_map)
qed

lemma operation_keeps:
  assumes run: "operation env r db = Inr (u, db')"
  shows "keeps_reports db db'"
    "knowledge_ok sha db \<Longrightarrow> row_get ka_id kid (kd_assets db) = Some a \<Longrightarrow> ka_status a = PUBLISHED \<Longrightarrow>
       new_version_for r \<noteq> Some kid \<Longrightarrow> keeps_text kid db db'"
proof -
  show "keeps_reports db db'"
    using run
    by (cases r) (auto simp: operation_def with_asset_Inr create_version_def restore_version_def submit_research_report_def
        tx_bind_Inr intro: manual_draft_keeps update_keeps(1) publish_keeps new_version_keeps(1) report_draft_keeps
        same_core_keeps(1) [OF keepsD [OF record_use_frame]] reviewed_keeps(1) dest!: review_operations)
  assume ok: "knowledge_ok sha db" "row_get ka_id kid (kd_assets db) = Some a" "ka_status a = PUBLISHED"
    and other: "new_version_for r \<noteq> Some kid"
  then show "keeps_text kid db db'"
    using run
    by (cases r) (auto simp: operation_def with_asset_Inr create_version_def restore_version_def submit_research_report_def
        new_version_for_def tx_bind_Inr intro: manual_draft_keeps update_keeps(2) publish_keeps new_version_keeps(2) report_draft_keeps
        same_core_keeps(2) [OF keepsD [OF record_use_frame]] reviewed_keeps(2) dest!: review_operations)
qed

section \<open>Chunks can always be made anew\<close>

definition chunk_clash :: "knowledge_chunk \<Rightarrow> knowledge_chunk \<Rightarrow> bool" where
  "chunk_clash a b \<longleftrightarrow> kc_id a = kc_id b \<or> kc_knowledge a = kc_knowledge b \<and> kc_version a = kc_version b \<and>
     ch_index (kc_data a) = ch_index (kc_data b)"

lemma insert_chunks_total:
  "sorted_wrt (\<lambda>a b. \<not> chunk_clash b a) rows \<Longrightarrow> (\<And>c d. c \<in> set rows \<Longrightarrow> d \<in> set (kd_chunks db) \<Longrightarrow> \<not> chunk_clash c d) \<Longrightarrow>
     tx_each insert_chunk rows db = Inr ((), db\<lparr>kd_chunks := kd_chunks db @ rows\<rparr>)"
proof (induction rows arbitrary: db)
  case Nil
  then show ?case by (simp add: tx_return_def)
next
  case (Cons c rows)
  let ?db = "db\<lparr>kd_chunks := row_add c (kd_chunks db)\<rparr>"
  have "insert_chunk c db = Inr ((), ?db)"
    using Cons.prems(2) [of c] by (auto simp: insert_chunk_def insert_row_def list_ex_iff chunk_clash_def)
  moreover have "tx_each insert_chunk rows ?db = Inr ((), ?db\<lparr>kd_chunks := kd_chunks ?db @ rows\<rparr>)"
    using Cons.prems by (intro Cons.IH) auto
  ultimately show ?case by (simp add: tx_bind_def row_add_def)
qed

lemma dash_split:
  fixes a b u w :: ustr
  shows "a @ 45 # u = b @ 45 # w \<Longrightarrow> 45 \<notin> set u \<Longrightarrow> 45 \<notin> set w \<Longrightarrow> a = b"
proof (induction a arbitrary: b)
  case Nil
  then show ?case by (cases b) auto
next
  case (Cons x a)
  then show ?case by (cases b) auto
qed

lemma no_dash: "0 \<le> i \<Longrightarrow> 45 \<notin> set (int_text i)"
  using nat_text_digits [of "nat i"] by (auto simp: int_text_def list_all_iff is_digit_def)

lemma chunk_indices: "c \<in> set (chunk_text sha n text) \<Longrightarrow> 1 \<le> ch_index c"
proof -
  assume "c \<in> set (chunk_text sha n text)"
  then have "ch_index c \<in> set (map ch_index (chunk_text sha n text))" by simp
  then show ?thesis
    using section_chunks_facts [of sha n 1 "split_blocks (strip text)"] unfolding chunk_text_sections by simp
qed

lemma chunk_row_id:
  assumes "kc_id (chunk_row k v c) = kc_id (chunk_row k' v' c')" and "1 \<le> ch_index c" "1 \<le> ch_index c'"
  shows "v = v' \<and> ch_index c = ch_index c'"
proof -
  have eq: "v @ 45 # int_text (ch_index c) = v' @ 45 # int_text (ch_index c')"
    using assms(1) by (simp add: chunk_row_def asc_def)
  have "45 \<notin> set (int_text (ch_index c))" "45 \<notin> set (int_text (ch_index c'))"
    using assms(2,3) by (simp_all add: no_dash)
  with dash_split [OF eq] have "v = v'" by simp
  with eq show ?thesis by simp
qed

lemma apart_indices: "distinct (map f xs) \<Longrightarrow> sorted_wrt (\<lambda>a b. f a \<noteq> f b) xs"
  by (induction xs) auto

lemma chunk_rows_apart: "sorted_wrt (\<lambda>a b. \<not> chunk_clash b a) (map (chunk_row k v) (chunk_text sha n text))"
proof -
  have "distinct (map ch_index (chunk_text sha n text))"
    using section_chunks_facts [of sha n 1 "split_blocks (strip text)"] by (simp add: chunk_text_sections)
  then have "sorted_wrt (\<lambda>a b. ch_index a \<noteq> ch_index b) (chunk_text sha n text)"
    by (simp add: apart_indices)
  then show ?thesis
    unfolding sorted_wrt_map
    by (rule sorted_wrt_mono_rel [rotated]) (auto simp: chunk_clash_def dest!: chunk_row_id chunk_indices)
qed

lemma reindex_total:
  assumes ok: "knowledge_ok (kn_sha env) db" and same: "kd_chunks db2 = kd_chunks db"
  shows "\<exists>db'. reindex_chunks env k vid content db2 = Inr ((), db')"
proof -
  let ?db = "db2\<lparr>kd_chunks := filter (\<lambda>c. kc_version c \<noteq> vid) (kd_chunks db2)\<rparr>"
  let ?rows = "map (chunk_row k vid) (chunk_text (kn_sha env) MAX_CHARS content)"
  have apart: "\<not> chunk_clash c d" if c: "c \<in> set ?rows" and d: "d \<in> set (kd_chunks ?db)" for c d
  proof
    assume clash: "chunk_clash c d"
    from c obtain x where x: "c = chunk_row k vid x" "1 \<le> ch_index x" using chunk_indices by auto
    from d same have d': "d \<in> set (kd_chunks db)" "kc_version d \<noteq> vid" by auto
    with knowledge_okD(5) [OF ok] obtain w where w: "w \<in> set (kd_versions db)" "kv_id w = kc_version d"
      by (metis imageE list.set_map)
    have "d \<in> set (chunks_of (kv_id w) db)" using d'(1) w(2) by (simp add: chunks_of_def)
    moreover have "chunks_of (kv_id w) db =
        map (chunk_row (kv_knowledge w) (kv_id w)) (chunk_text (kn_sha env) MAX_CHARS (kv_content w))"
      using knowledge_okD(4) [OF ok w(1)] by (simp add: version_ok_def)
    ultimately obtain y where y: "d = chunk_row (kv_knowledge w) (kv_id w) y" "1 \<le> ch_index y"
      using chunk_indices by (metis (no_types, lifting) imageE list.set_map)
    have "vid \<noteq> kv_id w" using d'(2) w(2) by simp
    with clash x y show False
      using chunk_row_id [of k vid x "kv_knowledge w" "kv_id w" y] by (auto simp: chunk_clash_def)
  qed
  have "tx_each insert_chunk ?rows ?db = Inr ((), ?db\<lparr>kd_chunks := kd_chunks ?db @ ?rows\<rparr>)"
    by (rule insert_chunks_total [OF chunk_rows_apart]) (rule apart)
  then show ?thesis by (simp add: reindex_chunks_def index_chunks_def tx_bind_def tx_write_def)
qed

text \<open>So nothing stops a publisher from publishing an asset that waits for its review.\<close>

lemma publish_version_total:
  assumes ok: "knowledge_ok (kn_sha env) db" and same: "kd_chunks db1 = kd_chunks db"
  obtains db2 where "publish_version env form b db1 = Inr ((), db2)" "kd_reviews db2 = kd_reviews db1"
proof (cases "current_version b db1")
  case None
  then have "publish_version env form b db1 = Inr ((), db1)"
    by (simp add: publish_version_def tx_bind_def tx_read_def tx_return_def)
  then show thesis by (rule that) simp
next
  case (Some v)
  let ?v = "v\<lparr>kv_approved_by := Some (reviewer_code form), kv_approved := Some (kn_now env)\<rparr>"
  let ?db = "db1\<lparr>kd_versions := row_put kv_id ?v (kd_versions db1)\<rparr>"
  obtain db2 where run: "reindex_chunks env (ka_id b) (kv_id v) (kv_content v) ?db = Inr ((), db2)"
    using reindex_total [OF ok, of ?db "ka_id b" "kv_id v" "kv_content v"] same by auto
  with Some have "publish_version env form b db1 = Inr ((), db2)"
    by (simp add: publish_version_def tx_bind_def tx_read_def save_version_def tx_write_def)
  then show thesis by (rule that) (simp add: reindex_chunks_Inr [OF run])
qed

lemma save_asset_total:
  obtains db1 where "save_asset env a new db = Inr ((), db1)" "kd_chunks db1 = kd_chunks db" "kd_reviews db1 = kd_reviews db"
  by (cases "new = a") (simp_all add: save_asset_def tx_return_def tx_write_def)

lemma pending_publishes:
  assumes ok: "knowledge_ok (kn_sha env) db" and pending: "ka_status a = PENDING"
    and may: "can_publish_employee (vf_employee form) = None"
    and fresh: "row_get kw_id (kn_uuid env (asc ''review'') 0) (kd_reviews db) = None"
  shows "\<exists>db'. publish_asset env form a db = Inr ((), db')"
proof -
  let ?new = "published_asset env form a"
  obtain db1 where save: "save_asset env a ?new db = Inr ((), db1)" "kd_chunks db1 = kd_chunks db" "kd_reviews db1 = kd_reviews db"
    by (rule save_asset_total)
  obtain db2 where pub: "publish_version env form ?new db1 = Inr ((), db2)" "kd_reviews db2 = kd_reviews db1"
    by (rule publish_version_total [OF ok save(2)])
  have "\<exists>db'. insert_review (new_review env form ?new s t c) db2 = Inr ((), db')" for s t c
    using fresh by (auto simp: insert_review_def insert_row_def new_review_def pub(2) save(3) list_ex_iff row_get_None)
  then show ?thesis
    by (simp add: publish_asset_def Let_def tx_bind_def tx_check_def permitted_def may pending save pub)
qed

lemma publish_status:
  assumes run: "publish_asset env form a db = Inr (u, db')" and a: "row_get ka_id kid (kd_assets db) = Some a"
    and unpublished: "ka_status a \<noteq> PUBLISHED"
  shows "map_option ka_status (row_get ka_id kid (kd_assets db')) = Some PUBLISHED"
proof -
  from publish_asset_Inr [OF run] obtain u1 db1 u2 db2 w where
    save: "save_asset env a (published_asset env form a) db = Inr (u1, db1)"
    and pub: "publish_version env form (published_asset env form a) db1 = Inr (u2, db2)"
    and add: "insert_review w db2 = Inr (u, db')" .
  have "only_reviews db1 db'"
    using version_reviews(2) [OF pub] only_reviews_core [OF keepsD [OF leaf_core_frames(3) add]] by (rule review_frame.trans)
  then have "kd_assets db' = kd_assets db1" by (simp add: only_reviews_def)
  moreover have "published_asset env form a \<noteq> a"
  proof
    assume "published_asset env form a = a"
    then have "ka_status (published_asset env form a) = ka_status a" by simp
    with unpublished show False by (simp add: published_asset_def)
  qed
  ultimately show ?thesis
    using save a row_get_key [OF a] by (simp add: save_asset_def row_get_put published_asset_def)
qed

end
