(* ===== verification/Knowledge_Claims.thy ===== *)
theory Knowledge_Claims
  imports Knowledge_Effects
begin

text \<open>The properties of the knowledge center.\<close>

section \<open>A small center\<close>

text \<open>
  The owner of the company at work, with identifiers made of their purpose, the time of the request and
  a counter; one finished research to submit. The witnesses
  below run on it.
\<close>

definition knowledge_demo_env :: "int \<Rightarrow> knowledge_env" where
  "knowledge_demo_env k = \<lparr>kn_enabled = True, kn_role = Some (asc ''owner''), kn_username = [], kn_permissions = (\<lambda>r. []),
     kn_now = k, kn_stamp = [k], kn_stamp_micro = [k], kn_uuid = (\<lambda>kind i. kind @ [k, int i]), kn_sha = (\<lambda>t. t),
     kn_alnum = (\<lambda>c. 97 \<le> c \<and> c \<le> 122), kn_lower = (\<lambda>t. t)\<rparr>"

definition demo_draft :: "ustr \<Rightarrow> draft_form" where
  "demo_draft content = \<lparr>df_title = asc ''t'', df_summary = None, df_content = content, df_type = asc ''note'', df_category = None,
     df_visibility = asc ''all'', df_risk = [0x9AD8, 0x98CE, 0x9669], df_owner = None, df_department = None, df_tags = []\<rparr>"

definition demo_review :: "bool \<Rightarrow> review_form" where
  "demo_review boss = \<lparr>vf_employee = asc ''tiancang'', vf_comment = None, vf_boss = boss, vf_sensitive = True\<rparr>"

definition demo_report :: report_form where
  "demo_report = \<lparr>rf_submitter = asc ''tiancai'', rf_title = None, rf_summary = None, rf_type = asc ''note'', rf_category = None,
     rf_visibility = asc ''all'', rf_owner = None, rf_department = None, rf_tags = []\<rparr>"

definition demo_research :: "research_execution list" where
  "demo_research =
     [\<lparr>xe_id = asc ''r1'', xe_topic = asc ''x'', xe_goal = asc ''g'', xe_title = None, xe_content = Some (asc ''y''), xe_hash = None\<rparr>]"

definition demo_center :: knowledge_db where
  "demo_center = empty_knowledge demo_research [] []"

text \<open>The asset of the first request, in the steps of its life.\<close>

definition demo_asset :: ustr where
  "demo_asset = asc ''knowledge'' @ [1, 0]"

definition demo_drafted :: knowledge_db where
  "demo_drafted = knowledge_step (\<lambda>t. t) demo_center (knowledge_demo_env 1, CreateAsset (demo_draft (asc ''b'')))"

definition demo_pending :: knowledge_db where
  "demo_pending = knowledge_step (\<lambda>t. t) demo_drafted (knowledge_demo_env 2, SubmitReview demo_asset (demo_review False))"

definition demo_published :: knowledge_db where
  "demo_published = knowledge_step (\<lambda>t. t) demo_pending (knowledge_demo_env 3, PublishAsset demo_asset (demo_review False))"

lemma demo_requests:
  "demo_drafted = run_events (knowledge_step (\<lambda>t. t)) (empty_knowledge demo_research [] [])
     [(knowledge_demo_env 1, CreateAsset (demo_draft (asc ''b'')))]"
  "demo_pending = run_events (knowledge_step (\<lambda>t. t)) (empty_knowledge demo_research [] [])
     [(knowledge_demo_env 1, CreateAsset (demo_draft (asc ''b''))), (knowledge_demo_env 2, SubmitReview demo_asset (demo_review False))]"
  "demo_published = run_events (knowledge_step (\<lambda>t. t)) (empty_knowledge demo_research [] [])
     [(knowledge_demo_env 1, CreateAsset (demo_draft (asc ''b''))), (knowledge_demo_env 2, SubmitReview demo_asset (demo_review False)),
      (knowledge_demo_env 3, PublishAsset demo_asset (demo_review False))]"
  by (simp_all add: demo_drafted_def demo_pending_def demo_published_def demo_center_def)

lemma demo_ok:
  "knowledge_ok (\<lambda>t. t) demo_drafted" "knowledge_ok (\<lambda>t. t) demo_pending" "knowledge_ok (\<lambda>t. t) demo_published"
  unfolding demo_requests by (rule knowledge_ok_requests)+

section \<open>What the tables hold\<close>

text \<open>
  C7: after any sequence of requests every asset has one key, its current version is one of its own, its
  versions are numbered 1, 2, 3 and so on, and a published asset has a time of publication and of approval;
  every version carries the hash of its text and exactly the chunks of that text, and no chunk is left of a
  version that does not exist.
\<close>

theorem knowledge_tables_invariant:
  "let db = run_events (knowledge_step sha) (empty_knowledge xs ss es) rs
   in distinct (map ka_id (kd_assets db)) \<and>
      list_all (\<lambda>a. list_ex (\<lambda>v. kv_knowledge v = ka_id a \<and> ka_current a = Some (kv_id v)) (kd_versions db) \<and>
          map kv_number (versions_of (ka_id a) db) = map int_text [1..int (length (versions_of (ka_id a) db))] \<and>
          (if ka_status a = PUBLISHED then ka_published a \<noteq> None \<and> ka_approved a \<noteq> None else True)) (kd_assets db) \<and>
      list_all (\<lambda>v. kv_hash v = sha (kv_content v) \<and>
          map kc_data (chunks_of (kv_id v) db) = chunk_text sha MAX_CHARS (kv_content v)) (kd_versions db) \<and>
      list_all (\<lambda>c. list_ex (\<lambda>v. kv_id v = kc_version c) (kd_versions db)) (kd_chunks db)"
proof -
  define db where "db = run_events (knowledge_step sha) (empty_knowledge xs ss es) rs"
  have ok: "knowledge_ok sha db" unfolding db_def by (rule knowledge_ok_requests)
  have asset: "list_ex (\<lambda>v. kv_knowledge v = ka_id a \<and> ka_current a = Some (kv_id v)) (kd_versions db) \<and>
      map kv_number (versions_of (ka_id a) db) = map int_text [1..int (length (versions_of (ka_id a) db))] \<and>
      (if ka_status a = PUBLISHED then ka_published a \<noteq> None \<and> ka_approved a \<noteq> None else True)"
    if "a \<in> set (kd_assets db)" for a
    using knowledge_okD(3) [OF ok that] by (auto simp: asset_ok_def status_ok_def versions_of_def list_ex_iff)
  have version: "version_ok sha db v" if "v \<in> set (kd_versions db)" for v using ok that by (rule knowledge_okD)
  have "list_ex (\<lambda>v. kv_id v = kc_version c) (kd_versions db)" if "c \<in> set (kd_chunks db)" for c
    using knowledge_okD(5) [OF ok that] by (auto simp: list_ex_iff)
  then show ?thesis
    using knowledge_okD(1) [OF ok] asset version unfolding db_def [symmetric]
    by (simp add: Let_def list_all_iff version_ok_def comp_def)
qed

text \<open>
  C18: the loop of \<^verbatim>\<open>chunk_text\<close> with its buffer computes the sections of the text: one chunk per
  section that has text, numbered from one, under its heading and cut to the size limit. The limit never
  splits a section, so what follows its first \<^verbatim>\<open>max_chars\<close> characters is in no chunk.
\<close>

theorem chunks_are_sections:
  "chunk_text sha max_chars content = section_chunks sha max_chars 1 (split_blocks (strip content)) \<and>
   map ch_index (chunk_text sha max_chars content) = [1..int (length (chunk_text sha max_chars content))] \<and>
   list_all (\<lambda>c. length (ch_content c) \<le> max_chars \<and> 1 \<le> ch_tokens c \<and> ch_heading c \<noteq> []) (chunk_text sha max_chars content)"
  using section_chunks_facts [of sha max_chars 1 "split_blocks (strip content)"] by (simp add: chunk_text_sections)

lemma stored_chunks:
  assumes "version_ok sha db v" and "safe_text (kv_content v) \<noteq> []"
  shows "map kc_data (chunks_of (kv_id v) db) =
    (if strip (kv_content v) = [] \<or> is_heading (strip (kv_content v)) then []
     else [make_chunk sha 1 [] (strip (kv_content v)) MAX_CHARS])"
  using assms by (auto simp: version_ok_def comp_def one_line_chunks)

text \<open>
  C38: cleaning a text puts it on one line, so whatever was requested a stored version has at most one
  chunk, with at most 900 characters of its text, and none at all when its text begins like a heading. The
  exception is the report that is stored uncleaned because cleaning leaves nothing of it.
\<close>

theorem stored_text_is_one_chunk:
  "let db = run_events (knowledge_step sha) (empty_knowledge xs ss es) rs
   in list_all (\<lambda>v. if safe_text (kv_content v) = [] then True
        else length (chunks_of (kv_id v) db) = (if strip (kv_content v) = [] \<or> is_heading (strip (kv_content v)) then 0 else 1) \<and>
             list_all (\<lambda>c. length (ch_content (kc_data c)) \<le> 900) (chunks_of (kv_id v) db)) (kd_versions db)"
proof -
  define db where "db = run_events (knowledge_step sha) (empty_knowledge xs ss es) rs"
  have "length (chunks_of (kv_id v) db) = (if strip (kv_content v) = [] \<or> is_heading (strip (kv_content v)) then 0 else 1) \<and>
      list_all (\<lambda>c. length (ch_content (kc_data c)) \<le> 900) (chunks_of (kv_id v) db)"
    if v: "v \<in> set (kd_versions db)" "safe_text (kv_content v) \<noteq> []" for v
  proof -
    have "version_ok sha db v" using knowledge_ok_requests v(1) unfolding db_def by (rule knowledge_okD)
    note chunks = stored_chunks [OF this v(2)]
    have "list_all (\<lambda>d. length (ch_content d) \<le> 900) (map kc_data (chunks_of (kv_id v) db))"
      unfolding chunks by (simp add: make_chunk_def MAX_CHARS_def Let_def)
    moreover have "length (map kc_data (chunks_of (kv_id v) db)) =
        (if strip (kv_content v) = [] \<or> is_heading (strip (kv_content v)) then 0 else 1)"
      unfolding chunks by simp
    ultimately show ?thesis by (simp add: list.pred_map comp_def)
  qed
  then show ?thesis unfolding db_def [symmetric] by (simp add: Let_def list_all_iff)
qed

lemma search_has_tag: "rx_search TAG s \<Longrightarrow> has_tag s"
proof (induction s)
  case Nil
  have "rests TAG [] = []" using matches_TAG rests_iff [of _ TAG "[]"] by (metis Nil_is_append_conv list.distinct(1) list.set_intros(1) neq_Nil_conv)
  with Nil show ?case by simp
next
  case (Cons c cs)
  then show ?case using rests_TAG [of c cs] by auto
qed

text \<open>
  C22: no markup survives cleaning. The text \<^verbatim>\<open>strip_html_like_noise\<close> returns holds no tag, also
  when removing elements or squeezing spaces brings the pieces of one together.
\<close>

theorem cleaned_text_has_no_tag:
  "\<not> rx_search TAG (strip_html_like_noise content)"
  using cleaned_has_no_tag search_has_tag by blast

section \<open>Published assets\<close>

text \<open>
  C8: nobody edits what is published. A request that does not create or restore a version of a published
  asset leaves the text readers get of it as it is.
\<close>

theorem published_text_is_stable:
  assumes ok: "knowledge_ok (kn_sha env) db" and a: "row_get ka_id kid (kd_assets db) = Some a" "ka_status a = PUBLISHED"
    and other: "new_version_for r \<noteq> Some kid" and content: "text_of kid db = Some t"
  shows "text_of kid (snd (serve_knowledge env r db)) = Some t"
proof -
  obtain s db' where served: "serve_knowledge env r db = (s, db')" by (cases "serve_knowledge env r db")
  from serve_cases [OF served] consider "db' = db" | "operation env r db = Inr ((), db')" by blast
  then show ?thesis
  proof cases
    case 2
    show ?thesis using keeps_text_D [OF operation_keeps(2) [OF 2 ok a other] content] by (simp add: served)
  qed (use content in \<open>simp add: served\<close>)
qed

theorem published_text_is_stable_witness:
  "text_of demo_asset (snd (serve_knowledge (knowledge_demo_env 4)
     (PatchAsset demo_asset \<lparr>pf_title = None, pf_summary = None, pf_type = None, pf_category = None, pf_visibility = None,
        pf_risk = None, pf_owner = None, pf_department = None, pf_content = Some (asc ''c''), pf_tags = None\<rparr>) demo_published)) =
   Some (asc ''b'')"
proof (rule published_text_is_stable)
  show "knowledge_ok (kn_sha (knowledge_demo_env 4)) demo_published" by (simp add: knowledge_demo_env_def demo_ok)
  show "row_get ka_id demo_asset (kd_assets demo_published) = Some (hd (kd_assets demo_published))" by code_simp
  show "ka_status (hd (kd_assets demo_published)) = PUBLISHED" by code_simp
  show "text_of demo_asset demo_published = Some (asc ''b'')" by code_simp
qed (simp add: new_version_for_def)

lemma new_version_run:
  assumes run: "create_new_version env payload a db = Inr (v, db')" and a: "row_get ka_id kid (kd_assets db) = Some a"
    and named: "kn_uuid env (asc ''version'') 0 \<noteq> []"
  shows "map_option ka_status (row_get ka_id kid (kd_assets db')) = Some (ka_status a)"
    "text_of kid db' = Some (safe_text (kv_content payload))" "kd_reviews db' = kd_reviews db"
proof -
  from run obtain u1 db1 u2 db2 u3 where add: "insert_version v db = Inr (u1, db1)"
    and v: "kv_id v = kn_uuid env (asc ''version'') 0" "kv_content v = safe_text (kv_content payload)"
    and save: "save_asset env a (a\<lparr>ka_current := Some (kv_id v), ka_title := kv_title v, ka_summary := kv_summary v,
        ka_updated := kn_now env\<rparr>) db1 = Inr (u2, db2)"
    and chunks: "index_chunks env (ka_id a) (kv_id v) (kv_content v) db2 = Inr (u3, db')"
    unfolding create_new_version_def Let_def tx_bind_Inr tx_simps by auto
  have kid: "ka_id a = kid" using row_get_key [OF a] .
  have db1: "db1 = db\<lparr>kd_versions := row_add v (kd_versions db)\<rparr>" and new: "row_get kv_id (kv_id v) (kd_versions db) = None"
    using add by (auto simp: insert_version_def list_ex_iff row_get_None)
  note db' = index_chunks_Inr [OF chunks]
  let ?a = "a\<lparr>ka_current := Some (kv_id v), ka_title := kv_title v, ka_summary := kv_summary v, ka_updated := kn_now env\<rparr>"
  have got: "row_get ka_id kid (kd_assets db2) = Some ?a" and rest: "kd_versions db2 = kd_versions db1" "kd_reviews db2 = kd_reviews db1"
    using save a kid by (auto simp: save_asset_def db1 row_get_put split: if_splits)
  show "map_option ka_status (row_get ka_id kid (kd_assets db')) = Some (ka_status a)"
    using got by (simp add: db')
  show "kd_reviews db' = kd_reviews db" by (simp add: db' rest db1)
  have "current_version ?a db' = Some v"
    using new named v(1) by (simp add: current_version_def db' rest db1 row_get_add)
  then show "text_of kid db' = Some (safe_text (kv_content payload))"
    using got v(2) by (simp add: text_of_def db')
qed

text \<open>
  C37: a new version replaces a published text without a review. When a manager creates a version of a
  published asset, the asset stays published, readers get the new text at once, and no review is recorded.
\<close>

theorem new_version_is_unreviewed:
  assumes served: "serve_knowledge env (CreateVersion kid form) db = (200, db')"
    and a: "row_get ka_id kid (kd_assets db) = Some a" "ka_status a = PUBLISHED"
    and named: "kn_uuid env (asc ''version'') 0 \<noteq> []"
  shows "map_option ka_status (row_get ka_id kid (kd_assets db')) = Some PUBLISHED \<and>
         text_of kid db' = Some (safe_text (df_content form)) \<and> kd_reviews db' = kd_reviews db"
proof -
  from serve_cases [OF served] have "operation env (CreateVersion kid form) db = Inr ((), db')" by simp
  then obtain v where run: "create_new_version env (manual_version env (active_actor env) form a) a db = Inr (v, db')"
    using a by (auto simp: operation_def create_version_def with_asset_Inr tx_bind_Inr)
  show ?thesis
    using new_version_run [OF run a(1) named] a(2) by (simp add: manual_version_def first_version_def)
qed

theorem new_version_is_unreviewed_witness:
  "\<exists>db'. serve_knowledge (knowledge_demo_env 4) (CreateVersion demo_asset (demo_draft (asc ''c''))) demo_published = (200, db') \<and>
     text_of demo_asset db' = Some (safe_text (asc ''c''))"
proof -
  let ?served = "serve_knowledge (knowledge_demo_env 4) (CreateVersion demo_asset (demo_draft (asc ''c''))) demo_published"
  have "fst ?served = 200" by code_simp
  then have run: "?served = (200, snd ?served)" by (metis prod.collapse)
  have a: "row_get ka_id demo_asset (kd_assets demo_published) = Some (hd (kd_assets demo_published))"
    "ka_status (hd (kd_assets demo_published)) = PUBLISHED" by code_simp+
  have named: "kn_uuid (knowledge_demo_env 4) (asc ''version'') 0 \<noteq> []" by (simp add: knowledge_demo_env_def)
  have "df_content (demo_draft (asc ''c'')) = asc ''c''" by (simp add: demo_draft_def)
  with new_version_is_unreviewed [OF run a named] run show ?thesis by metis
qed

text \<open>
  C17: an approved asset of high risk was confirmed by the boss: after any sequence of requests its
  reviews hold an approval that carries the confirmation.
\<close>

theorem approved_high_risk_is_confirmed:
  "let db = run_events (knowledge_step sha) (empty_knowledge xs ss es) rs
   in list_all (\<lambda>a. if ka_status a = APPROVED \<and> ka_risk a \<in> set HIGH_RISKS
        then list_ex (\<lambda>w. kw_knowledge w = ka_id a \<and> kw_status w = APPROVED \<and> kw_boss w) (kd_reviews db)
        else True) (kd_assets db)"
proof -
  have "approvals_ok (empty_knowledge xs ss es)" by (simp add: approvals_ok_def empty_knowledge_def)
  then have "approvals_ok (run_events (knowledge_step sha) (empty_knowledge xs ss es) rs)" by (rule approval_machine.run_inv)
  then show ?thesis unfolding approvals_ok_def approval_confirmed_def Let_def .
qed

text \<open>
  C20: publication does not need that approval. A publisher's request publishes every asset that waits for
  its review, of high risk and without the boss's confirmation as well: the guard accepts the pending
  status beside the approved one. The id of the new review must be unused.
\<close>

theorem pending_asset_is_published:
  assumes ok: "knowledge_ok (kn_sha env) db" and a: "row_get ka_id kid (kd_assets db) = Some a" "ka_status a = PENDING"
    and may: "required_access env (PublishAsset kid form) = None" "can_publish_employee (vf_employee form) = None"
    and fresh: "row_get kw_id (kn_uuid env (asc ''review'') 0) (kd_reviews db) = None"
  shows "fst (serve_knowledge env (PublishAsset kid form) db) = 200 \<and>
         map_option ka_status (row_get ka_id kid (kd_assets (snd (serve_knowledge env (PublishAsset kid form) db)))) = Some PUBLISHED"
proof -
  obtain db' where run: "publish_asset env form a db = Inr ((), db')" using pending_publishes [OF ok a(2) may(2) fresh] by blast
  have "with_asset kid (publish_asset env form) db = Inr ((), db')" using run a(1) by (auto simp: with_asset_Inr)
  then have "serve_knowledge env (PublishAsset kid form) db = (200, db')"
    by (simp add: serve_knowledge_def may(1) run_tx_def operation_def)
  then show ?thesis using publish_status [OF run a(1)] a(2) by simp
qed

theorem pending_asset_is_published_witness:
  "fst (serve_knowledge (knowledge_demo_env 3) (PublishAsset demo_asset (demo_review False)) demo_pending) = 200 \<and>
   ka_risk (hd (kd_assets demo_pending)) \<in> set HIGH_RISKS"
proof -
  have "knowledge_ok (kn_sha (knowledge_demo_env 3)) demo_pending" by (simp add: knowledge_demo_env_def demo_ok)
  moreover have "row_get ka_id demo_asset (kd_assets demo_pending) = Some (hd (kd_assets demo_pending))"
    "ka_status (hd (kd_assets demo_pending)) = PENDING"
    "required_access (knowledge_demo_env 3) (PublishAsset demo_asset (demo_review False)) = None"
    "can_publish_employee (vf_employee (demo_review False)) = None"
    "row_get kw_id (kn_uuid (knowledge_demo_env 3) (asc ''review'') 0) (kd_reviews demo_pending) = None" by code_simp+
  moreover have "ka_risk (hd (kd_assets demo_pending)) \<in> set HIGH_RISKS" by code_simp
  ultimately show ?thesis using pending_asset_is_published by blast
qed

section \<open>Search\<close>

text \<open>
  C21: a reader's query never narrows the search. As long as the published assets that pass the filters fit
  the page, every query returns all of them, whatever its words are: being published is worth a point, and
  only assets without a point are left out.
\<close>

theorem query_only_reorders:
  assumes "length (filter (\<lambda>a. ka_status a = PUBLISHED \<and> passes_filters fs db a) (kd_assets db)) \<le> page_size limit"
  shows "mset (query_assets env (Some query) limit False fs db) =
         mset (filter (\<lambda>a. ka_status a = PUBLISHED \<and> passes_filters fs db a) (kd_assets db))"
proof -
  let ?rows = "filter (passes_filters fs db) (filter (\<lambda>a. ka_status a = PUBLISHED) (sort_key (\<lambda>a. - ka_updated a) (kd_assets db)))"
  have rows: "mset ?rows = mset (filter (\<lambda>a. ka_status a = PUBLISHED \<and> passes_filters fs db a) (kd_assets db))"
    by (simp add: filter_filter_mset)
  have len: "length ?rows \<le> page_size limit" using assms mset_eq_length [OF rows] by simp
  have ranked: "mset (rank_assets env query ?rows) = mset ?rows" by (rule mset_rank) (simp add: list_all_iff)
  have "query_assets env (Some query) limit False fs db = (if query = [] then ?rows else rank_assets env query ?rows)"
    using len mset_eq_length [OF ranked] by (simp add: query_assets_def Let_def)
  with ranked rows show ?thesis by simp
qed

definition no_filters :: search_filters where
  "no_filters = \<lparr>sf_category = None, sf_tag = None, sf_type = None, sf_status = None, sf_department = None, sf_risk = None, sf_min = None\<rparr>"

theorem query_only_reorders_witness:
  "mset (query_assets (knowledge_demo_env 4) (Some (asc ''unrelated'')) 20 False no_filters demo_published) = mset (kd_assets demo_published)"
proof -
  have len: "length (filter (\<lambda>a. ka_status a = PUBLISHED \<and> passes_filters no_filters demo_published a) (kd_assets demo_published)) \<le> page_size 20"
    by code_simp
  have "list_all (\<lambda>a. ka_status a = PUBLISHED \<and> passes_filters no_filters demo_published a) (kd_assets demo_published)" by code_simp
  then have "filter (\<lambda>a. ka_status a = PUBLISHED \<and> passes_filters no_filters demo_published a) (kd_assets demo_published) = kd_assets demo_published"
    by (simp add: list_all_iff)
  with query_only_reorders [OF len] show ?thesis by simp
qed

text \<open>
  C39: what a search returns: at most a hundred assets, all of them published and passing every filter, the
  best score first, or the last updated first when there are no words to search for.
\<close>

theorem search_results_sound:
  "let found = query_assets env query limit False fs db
   in length found \<le> 100 \<and> set found \<subseteq> set (kd_assets db) \<and>
      list_all (\<lambda>a. ka_status a = PUBLISHED \<and> passes_filters fs db a) found \<and>
      sorted (map (\<lambda>a. case query of None \<Rightarrow> - ka_updated a
                       | Some q \<Rightarrow> if q = [] then - ka_updated a else - score_asset env a (tokenize (kn_lower env) q) q) found)"
proof -
  let ?rows = "filter (passes_filters fs db) (filter (\<lambda>a. ka_status a = PUBLISHED) (sort_key (\<lambda>a. - ka_updated a) (kd_assets db)))"
  let ?all = "case query of None \<Rightarrow> ?rows | Some q \<Rightarrow> if q = [] then ?rows else rank_assets env q ?rows"
  let ?key = "\<lambda>a. case query of None \<Rightarrow> - ka_updated a
                       | Some q \<Rightarrow> if q = [] then - ka_updated a else - score_asset env a (tokenize (kn_lower env) q) q"
  have found: "query_assets env query limit False fs db = take (page_size limit) ?all"
    by (simp add: query_assets_def Let_def)
  have rows: "set ?all \<subseteq> set ?rows"
    using set_rank [of env _ ?rows] by (simp split: option.split)
  have "sorted (map (\<lambda>a. - ka_updated a) ?rows)"
    by (intro sorted_filter) simp
  then have sorted: "sorted (map ?key ?all)"
    using rank_sorted [of env _ ?rows] by (simp split: option.split)
  have size: "page_size limit \<le> 100" by (simp add: page_size_def)
  have in_rows: "set (take n ?all) \<subseteq> set ?rows" for n
    by (rule order_trans [OF set_take_subset rows])
  have "set ?rows \<subseteq> set (kd_assets db)" by auto
  moreover have "list_all (\<lambda>a. ka_status a = PUBLISHED \<and> passes_filters fs db a) ?rows" by (simp add: list_all_iff)
  ultimately have "set (take n ?all) \<subseteq> set (kd_assets db) \<and>
      list_all (\<lambda>a. ka_status a = PUBLISHED \<and> passes_filters fs db a) (take n ?all)" for n
    using in_rows [of n] unfolding list_all_iff by blast
  moreover have "sorted (map ?key (take n ?all))" for n
    unfolding take_map [symmetric] by (rule sorted_wrt_take) (rule sorted)
  moreover have "length (take (page_size limit) ?all) \<le> 100"
    using size by (simp only: length_take min.coboundedI2)
  ultimately show ?thesis unfolding found Let_def by (intro conjI) blast+
qed

section \<open>Research reports\<close>

text \<open>The center after the submission of the only report.\<close>

definition demo_submitted :: knowledge_db where
  "demo_submitted = snd (serve_knowledge (knowledge_demo_env 1) (SubmitReport (asc ''r1'') demo_report) demo_center)"

definition report_known :: "ustr \<Rightarrow> knowledge_db \<Rightarrow> bool" where
  "report_known rid db \<longleftrightarrow> distinct (map kv_id (kd_versions db)) \<and> Some rid \<in> set (map kv_report (kd_versions db))"

interpretation report_machine: invariant_machine "knowledge_step sha" "report_known rid"
proof unfold_locales
  fix db e
  assume known: "report_known rid db"
  obtain s db' where served: "serve_knowledge ((fst e)\<lparr>kn_sha := sha\<rparr>) (snd e) db = (s, db')"
    by (cases "serve_knowledge ((fst e)\<lparr>kn_sha := sha\<rparr>) (snd e) db")
  from serve_cases [OF served] known have "report_known rid db'"
    using operation_keeps(1) unfolding keeps_reports_def report_known_def by blast
  with served show "report_known rid (knowledge_step sha db e)" by (simp add: knowledge_step_def)
qed

lemma repeated_submission:
  assumes "list_ex (\<lambda>v. kv_hash v = kn_sha env [] \<or> kv_report v = Some rid) (kd_versions db)"
    and may: "required_access env (SubmitReport rid form) = None"
  shows "serve_knowledge env (SubmitReport rid form) db = (409, db)"
proof -
  from assms(1) obtain v where "find (\<lambda>v. kv_hash v = kn_sha env [] \<or> kv_report v = Some rid) (kd_versions db) = Some v"
    by (metis (mono_tags, lifting) find_None_iff list_ex_iff option.exhaust)
  then show ?thesis
    by (simp add: serve_knowledge_def may run_tx_def operation_def submit_research_report_def detect_duplicate_def Let_def
        tx_bind_def tx_read_def tx_check_def error_status_def handled_def)
qed

text \<open>
  C19: a report is submitted once. After a submission that succeeded and any further requests, submitting
  the same report again is answered with 409 and changes nothing.
\<close>

theorem report_submitted_once:
  assumes ok: "knowledge_ok (kn_sha env) db" and first: "serve_knowledge env (SubmitReport rid form) db = (200, db1)"
    and may: "required_access env' (SubmitReport rid form') = None"
  shows "serve_knowledge env' (SubmitReport rid form') (run_events (knowledge_step sha) db1 rs) =
         (409, run_events (knowledge_step sha) db1 rs)"
proof -
  from serve_cases [OF first] have run: "operation env (SubmitReport rid form) db = Inr ((), db1)" by simp
  then obtain kid where draft: "create_draft_from_research_report env rid form db = Inr (kid, db1)"
    by (auto simp: operation_def submit_research_report_def tx_bind_Inr)
  have "report_known rid db1"
    using report_draft_keeps(3) [OF draft] operation_keeps(1) [OF run] knowledge_okD(2) [OF ok]
    by (simp add: keeps_reports_def report_known_def)
  then have "report_known rid (run_events (knowledge_step sha) db1 rs)" by (rule report_machine.run_inv)
  then have "list_ex (\<lambda>v. kv_hash v = kn_sha env' [] \<or> kv_report v = Some rid) (kd_versions (run_events (knowledge_step sha) db1 rs))"
    by (auto simp: report_known_def list_ex_iff)
  then show ?thesis using may by (rule repeated_submission)
qed

theorem report_submitted_once_witness:
  "fst (serve_knowledge (knowledge_demo_env 2) (SubmitReport (asc ''r1'') demo_report) demo_submitted) = 409"
proof -
  have ok: "knowledge_ok (kn_sha (knowledge_demo_env 1)) demo_center"
    by (simp add: demo_center_def knowledge_ok_empty)
  have "fst (serve_knowledge (knowledge_demo_env 1) (SubmitReport (asc ''r1'') demo_report) demo_center) = 200" by code_simp
  then have first: "serve_knowledge (knowledge_demo_env 1) (SubmitReport (asc ''r1'') demo_report) demo_center = (200, demo_submitted)"
    unfolding demo_submitted_def by (metis prod.collapse)
  have "required_access (knowledge_demo_env 2) (SubmitReport (asc ''r1'') demo_report) = None" by code_simp
  from report_submitted_once [OF ok first this, of "\<lambda>t. t" "[]"] show ?thesis by simp
qed

text \<open>
  An empty text blocks every report. As soon as one version has an empty text, every submission of any
  report is answered with 409: the duplicate check compares the hash of the empty text with the stored hashes.
\<close>

theorem empty_text_blocks_reports:
  assumes ok: "knowledge_ok (kn_sha env) db" and v: "row_get kv_id vid (kd_versions db) = Some v" "kv_content v = []"
    and may: "required_access env (SubmitReport rid form) = None"
  shows "serve_knowledge env (SubmitReport rid form) db = (409, db)"
proof (rule repeated_submission [OF _ may])
  have "kv_hash v = kn_sha env []"
    using knowledge_okD(4) [OF ok row_get_in [OF v(1)]] v(2) by (simp add: version_ok_def)
  with row_get_in [OF v(1)] show "list_ex (\<lambda>v. kv_hash v = kn_sha env [] \<or> kv_report v = Some rid) (kd_versions db)"
    by (auto simp: list_ex_iff)
qed

theorem empty_text_blocks_reports_witness:
  "fst (serve_knowledge (knowledge_demo_env 2) (SubmitReport (asc ''r1'') demo_report)
     (knowledge_step (\<lambda>t. t) demo_center (knowledge_demo_env 1, CreateAsset (demo_draft [])))) = 409"
proof -
  let ?db = "knowledge_step (\<lambda>t. t) demo_center (knowledge_demo_env 1, CreateAsset (demo_draft []))"
  have "knowledge_ok (\<lambda>t. t) ?db"
    using knowledge_ok_requests [of "\<lambda>t. t" demo_research "[]" "[]" "[(knowledge_demo_env 1, CreateAsset (demo_draft []))]"]
    by (simp add: demo_center_def)
  then have ok: "knowledge_ok (kn_sha (knowledge_demo_env 2)) ?db" by (simp add: knowledge_demo_env_def)
  have v: "row_get kv_id (asc ''version'' @ [1, 0]) (kd_versions ?db) = Some (hd (kd_versions ?db))"
    "kv_content (hd (kd_versions ?db)) = []" by code_simp+
  have "required_access (knowledge_demo_env 2) (SubmitReport (asc ''r1'') demo_report) = None" by code_simp
  from empty_text_blocks_reports [OF ok v this] show ?thesis by simp
qed

lemma insert_links: "tx_each insert_link rows db = Inr (u, db') \<Longrightarrow> set rows \<subseteq> set (kd_links db')"
proof (induction rows arbitrary: db)
  case (Cons l rows)
  from Cons.prems obtain u1 db1 where add: "insert_link l db = Inr (u1, db1)" and rest: "tx_each insert_link rows db1 = Inr (u, db')"
    by (auto simp: tx_bind_Inr)
  have "keeps same_core (tx_each insert_link rows)" by (intro each_frame leaf_core_frames)
  then have "set (kd_links db1) \<subseteq> set (kd_links db')" using rest by (auto dest!: keepsD simp: same_core_def)
  moreover have "l \<in> set (kd_links db1)" using add by (auto simp: insert_link_def)
  ultimately show ?case using Cons.IH [OF rest] by auto
qed simp

text \<open>
  C40: the cleaning of a report is undone by its source link. After a report was submitted the view of the
  new asset, which every reader may open, holds the text of the report as it came, with its markup and
  secrets, in the note of the link to the report.
\<close>

theorem raw_report_is_served:
  assumes served: "serve_knowledge env (SubmitReport rid form) db = (200, db')"
    and x: "row_get xe_id rid (kd_executions db) = Some x" and reader: "require_knowledge_reader env' = None"
  shows "case asset_route env' (kn_uuid env (asc ''knowledge'') 0) db' of
           Inl _ \<Rightarrow> False
         | Inr view \<Rightarrow> list_ex (\<lambda>l. kl_kind l = asc ''Research Report'' \<and> kl_note l = Some (report_content x)) (vw_sources view)"
proof -
  from serve_cases [OF served] have "operation env (SubmitReport rid form) db = Inr ((), db')" by simp
  then obtain kid where "create_draft_from_research_report env rid form db = Inr (kid, db')"
    by (auto simp: operation_def submit_research_report_def tx_bind_Inr)
  then obtain ss es where rest: "store_report_draft env form x ss es db = Inr (kid, db')"
    using x unfolding create_draft_from_research_report_def tx_bind_Inr tx_simps by auto
  obtain a v tags where rows: "draft_of_report env form x ss = (a, v, tags)" by (metis prod_cases3)
  then have a: "ka_id a = kn_uuid env (asc ''knowledge'') 0" by (auto simp: draft_of_report_def Let_def)
  from rest [unfolded store_report_draft_def rows Let_def prod.case tx_bind_Inr tx_simps]
  obtain u1 u2 u3 u4 u5 u6 db1 db2 db3 db4 db5 where
    draft: "insert_asset a db = Inr (u1, db1)" "insert_version v db1 = Inr (u2, db2)"
      "persist_tags env (ka_id a) (Some (kv_id v)) tags db2 = Inr (u3, db3)"
      "persist_sources env (ka_id a) (kv_id v) x ss es db3 = Inr (u4, db4)"
      "insert_review (candidate_review env form x a) db4 = Inr (u5, db5)"
      "index_chunks env (ka_id a) (kv_id v) (kv_content v) db5 = Inr (u6, db')"
    by blast
  note after = keepsD [OF persist_tags_frame draft(3)] keepsD [OF persist_sources_frame draft(4)]
    keepsD [OF leaf_core_frames(3) draft(5)] index_chunks_Inr [OF draft(6)]
  have "row_get ka_id (ka_id a) (kd_assets db) = None" "kd_assets db1 = row_add a (kd_assets db)"
    using draft(1) by (auto simp: insert_asset_def list_ex_iff row_get_None)
  then have "row_get ka_id (ka_id a) (kd_assets db1) = Some a" by (simp add: row_get_add)
  moreover have "kd_assets db' = kd_assets db1"
    using draft(2) after by (auto simp: insert_version_def same_core_def)
  ultimately have got: "row_get ka_id (ka_id a) (kd_assets db') = Some a" by simp
  have "report_row env (ka_id a) (kv_id v) x \<in> set (kd_links db4)"
    using insert_links draft(4) unfolding persist_sources_def by fastforce
  then have "report_row env (ka_id a) (kv_id v) x \<in> set (kd_links db')"
    using after(3,4) by (auto simp: same_core_def)
  then have "report_row env (ka_id a) (kv_id v) x \<in> set (vw_sources (view_asset a db'))"
    by (simp add: view_asset_def report_row_def)
  then have "list_ex (\<lambda>l. kl_kind l = asc ''Research Report'' \<and> kl_note l = Some (report_content x)) (vw_sources (view_asset a db'))"
    unfolding list_ex_iff by (rule bexI [rotated]) (simp add: report_row_def report_content_def)
  then show ?thesis using got by (simp add: asset_route_def reader a)
qed

theorem raw_report_is_served_witness:
  "case asset_route (knowledge_demo_env 2) (asc ''knowledge'' @ [1, 0]) demo_submitted of
     Inl _ \<Rightarrow> False
   | Inr view \<Rightarrow> list_ex (\<lambda>l. kl_kind l = asc ''Research Report'' \<and> kl_note l = Some (asc ''y'')) (vw_sources view)"
proof -
  have "fst (serve_knowledge (knowledge_demo_env 1) (SubmitReport (asc ''r1'') demo_report) demo_center) = 200" by code_simp
  then have first: "serve_knowledge (knowledge_demo_env 1) (SubmitReport (asc ''r1'') demo_report) demo_center = (200, demo_submitted)"
    unfolding demo_submitted_def by (metis prod.collapse)
  have x: "row_get xe_id (asc ''r1'') (kd_executions demo_center) = Some (hd demo_research)" by code_simp
  have reader: "require_knowledge_reader (knowledge_demo_env 2) = None" by code_simp
  have named: "kn_uuid (knowledge_demo_env 1) (asc ''knowledge'') 0 = asc ''knowledge'' @ [1, 0]"
    and content: "report_content (hd demo_research) = asc ''y''" by code_simp+
  show ?thesis using raw_report_is_served [OF first x reader] unfolding named content .
qed

end
