(* ===== verification/Spec2Isabelle.thy ===== *)
theory Spec2Isabelle
  imports Brain_Claims Gateway_Claims Agent_Claims Device_Claims Ops_Claims Capture_Claims Computer_Claims Knowledge_Claims
begin

text \<open>
  A verification library of the control core of the cloud backend (\<^verbatim>\<open>src/backend\<close>) and of its
  macOS observer (\<^verbatim>\<open>src/device_agents\<close>): the parts that decide whether an AI employee may act,
  on whose approval, on which device, and what is recorded of it.

  \<^bold>\<open>The program and its parts.\<close> A FastAPI application serves requests over one SQL database and one
  Redis server. Each request is a function of the database, the clock, fresh identifiers and the
  settings; it ends with a commit, or with an exception that undoes what has not been committed. The
  model keeps this shape: a component has a record of its tables, one definition per request or
  helper, an \<open>_env\<close> record with the outside world of one request, and a machine (\<open>step\<close> functions run
  by \<open>run_events\<close>) over arbitrary sequences of requests.

  \<^bold>\<open>Theories.\<close>
  \<^item> \<open>Prelude\<close>: Python text as lists of code points, tables as lists of rows, the interfaces
    \<open>keyed_table\<close> (primary keys), \<open>invariant_machine\<close>, \<open>monotone_machine\<close> and \<open>step_refinement\<close>.
  \<^item> \<open>Json\<close>: JSON values, their printed form, dictionary assignment. \<open>Py_Float\<close>: the binary64
    arithmetic the scores use, exact on values below \<open>2 ^ 53\<close>, with correctly rounded division and
    multiplication; the scaling loop is bounded by 1074 steps, the largest negative exponent.
  \<^item> \<open>Url\<close>: what the program uses of \<^verbatim>\<open>urllib.parse\<close>: \<^verbatim>\<open>urlsplit\<close>, \<^verbatim>\<open>urlunsplit\<close>, \<^verbatim>\<open>parse_qsl\<close> with percent escapes
    and UTF-8; splitting undoes putting together. A bracketed authority counts as malformed, and the
    check of compatibility forms (NFKC) in the authority is left out.
  \<^item> \<open>Tool_Gateway\<close>, \<open>Gateway_Claims\<close>: \<^verbatim>\<open>tool_center/gateway.py\<close>, \<^verbatim>\<open>tool_router\<close>: the catalogue, the
    employee bindings, keyword routes and the access decision.
  \<^item> \<open>Task_Graph\<close>: \<^verbatim>\<open>brain_orchestrator/task_graph.py\<close>: from a request text to a graph of steps.
  \<^item> \<open>Brain_State\<close>, \<open>Brain_Data\<close>, \<open>Brain_Queue\<close>, \<open>Brain_Plan\<close>, \<open>Brain_Worker\<close>, \<open>Brain_Safety\<close>,
    \<open>Brain_Machine\<close>, \<open>Brain_Audit\<close>, \<open>Brain_Claims\<close>: \<^verbatim>\<open>brain_execution\<close>: states and transition table,
    planning and approval, the Redis queue with its priority lanes, the worker with retries, and the
    whole as one machine. The main facts: nothing runs without an approval with both confirmations,
    retries end, the audit trail only grows.
  \<^item> \<open>Agent_Data\<close>, \<open>Agent_Registry\<close>, \<open>Agent_Flow\<close>, \<open>Agent_Machine\<close>, \<open>Agent_Claims\<close>:
    \<^verbatim>\<open>agent_runtime/registry.py\<close>, \<^verbatim>\<open>permission.py\<close>, \<^verbatim>\<open>service.py\<close>, \<^verbatim>\<open>executor.py\<close>, \<^verbatim>\<open>audit.py\<close>: capabilities,
    permission, execution with retries, redaction (of texts, and of the query of a URL).
  \<^item> \<open>Device_Data\<close>, \<open>Mac_Observer\<close>, \<open>Device_Service\<close>, \<open>Device_Machine\<close>, \<open>Device_Claims\<close>:
    \<^verbatim>\<open>device_center\<close> and \<^verbatim>\<open>device_agents/macos_observer\<close>: one-time registration tokens (refining an
    abstract ledger of tickets), approval and revocation of devices, signed heartbeats with nonces,
    observation sessions and the redaction of windows.
  \<^item> \<open>Ops_Metrics\<close>, \<open>Ops_Alerts\<close>, \<open>Ops_Claims\<close>: \<^verbatim>\<open>observability/service.py\<close>: scores, alerts, incidents,
    automatic pause and circuit breakers, over the workflows, sessions and devices of the other parts.
    A setting is a switch that may be missing: the repository's \<^verbatim>\<open>Settings\<close> has no
    \<^verbatim>\<open>AUTOMATIC_PAUSE_ENABLED\<close>, and a collection round without it ends in an \<^verbatim>\<open>AttributeError\<close>. The session
    does not flush by itself, so a round does not see the incidents it has added before its flush.
  \<^item> \<open>Ownership\<close>: \<^verbatim>\<open>task_center_ownership.py\<close> and the ownership scope of
    \<^verbatim>\<open>brain_orchestrator/planner.py\<close>: which tasks a user owns, and the ownership a message carries.
  \<^item> \<open>Capture_Auth\<close>, \<open>Web_Frame\<close>, \<open>Capture_Claims\<close>: the page capture of
    \<^verbatim>\<open>agent_runtime/executors/computer/openclaw_adapter.py\<close> and its token in \<^verbatim>\<open>auth.py\<close>: allowed URLs,
    what a token opens, which requests of the page are let through, and the WebSocket frames
    (bytes as \<open>8 word\<close>) with a round trip against the format of RFC 6455.
  \<^item> \<open>Computer_Policy\<close>, \<open>Computer_Data\<close>, \<open>Computer_Actions\<close>, \<open>Computer_Workflow\<close>, \<open>Computer_Machine\<close>:
    \<^verbatim>\<open>agent_runtime/executors/computer\<close> and \<^verbatim>\<open>agent_runtime/workflows/computer\<close>: sessions, single actions that are
    planned, approved, executed and verified, and workflows of such actions with checkpoints. A request is
    a transaction (theory \<open>Transaction\<close>): it answers with a database, or fails with an error and what had been
    committed by then, and the locale \<open>tx_frame\<close> gives the rules for what a transaction leaves alone.
    \<open>Computer_Frame\<close> applies them, \<open>Computer_Flow\<close> holds the invariant of the workflow tables, \<open>Computer_Tenant\<close> that the workflows of other users
    stay as they are, \<open>Computer_Approval\<close> which requests depend on the approval of a workflow,
    \<open>Computer_Replay\<close> that repeated requests change nothing, \<open>Computer_Claims\<close> the properties.
  \<^item> \<open>Py_Regex\<close>, \<open>Knowledge_Text\<close>, \<open>Knowledge_Chunks\<close>: regular expressions as \<^verbatim>\<open>re\<close> matches them (alternatives
    and repetitions in order of preference) and the text processing of the knowledge center:
    \<^verbatim>\<open>knowledge_center/sanitizer.py\<close>, \<^verbatim>\<open>chunking.py\<close>, \<^verbatim>\<open>versioning.py\<close>.
  \<^item> \<open>Knowledge_Data\<close>, \<open>Knowledge_Flow\<close>, \<open>Knowledge_Machine\<close>, \<open>Knowledge_Search\<close>: the tables, the permissions,
    the operations (\<^verbatim>\<open>workflow.py\<close>, \<^verbatim>\<open>service.py\<close>), the routes (\<^verbatim>\<open>routers/knowledge_center_v2.py\<close>) and the search
    of \<^verbatim>\<open>knowledge_center\<close>. \<open>Knowledge_Invariant\<close> shows that every request keeps the tables consistent,
    \<open>Knowledge_Effects\<close> what requests do to approvals, submitted reports, published texts and chunks,
    \<open>Knowledge_Claims\<close> the properties.

  \<^bold>\<open>Parameters.\<close> SHA-256, HMAC, signed tokens (JWT), UUIDs, the clock, the printed form of times, the
  Unicode tables behind \<^verbatim>\<open>isalnum\<close> and \<^verbatim>\<open>lower\<close>,
  executors that drive a browser or a desktop, and the capture of a page are arguments of the model; no
  theorem assumes more of them than its statement says. The redaction has one too: where \<^verbatim>\<open>urlsplit\<close>
  refuses a URL, the program raises a \<^verbatim>\<open>ValueError\<close> and the request fails; the model goes on with a text it
  is given.

  \<^bold>\<open>Fuel and bounds.\<close> The loops of the program are structural recursions or have a measure
  (the retry recursion: the retries left); no definition takes fuel.

  \<^bold>\<open>Not modelled.\<close> HTTP routing and authentication, ORM table definitions beyond the columns the
  operations use, dashboards and read-only views, external processes (Chrome, OpenClaw, search
  providers), migrations and scripts; of the knowledge center the redaction of addresses, the view of the
  research sources and the in-memory learning records. Column widths, foreign keys and the unique plan and action of a verification
  (\<^verbatim>\<open>uq_computer_action_verifications_plan_action\<close>) are not checked by the model, and apart from the flush of incidents a commit always succeeds: the recovery of the computer executor from a failing commit is left out.
\<close>

end
